(* ===== verification/Plan_Dag.thy ===== *)
theory Plan_Dag
  imports Prelude
begin

text \<open>
  Multi-step plans, \<open>services/plan-dag.ts\<close>: a plan is a list of steps with dependencies, and the
  module advances the state of each step as results are reported. The cycle check is the source's
  depth-first search over a map of colours; it is proved to decide acyclicity. The operations on
  a plan form a step relation whose invariants are proved by rule induction.
\<close>

section \<open>Data\<close>

datatype PlanStepStatus = step_pending | step_running | step_completed | step_failed | step_skipped

record PlanStep =
  step_id :: string
  step_title :: string
  step_actionClass :: "string option"
  dependsOn :: "string list"
  step_status :: PlanStepStatus
  attempts :: nat
  maxAttempts :: js_num
  lastError :: "string option"

record PlanDag =
  steps :: "PlanStep list"

datatype PlanOverallStatus = plan_pending | plan_running | plan_completed | plan_failed | plan_blocked

record PlanProgress =
  pp_total :: nat
  pp_completed :: nat
  pp_failed :: nat
  pp_running :: nat
  pp_pending :: nat
  pp_skipped :: nat
  pp_status :: PlanOverallStatus

text \<open>The raw input of a step, and the result a harness reports.\<close>

record RawStep =
  raw_id :: string
  raw_title :: string
  raw_actionClass :: "string option"
  raw_dependsOn :: "string list option"
  raw_maxAttempts :: "js_num option"

datatype StepOutcome = outcome_completed | outcome_failed | outcome_skipped

record StepResult =
  outcome :: StepOutcome
  result_error :: "string option"

section \<open>Building and validating a plan\<close>

definition DEFAULT_MAX_ATTEMPTS :: js_num where
  "DEFAULT_MAX_ATTEMPTS = Finite 1"

text \<open>\<open>Math.min(10, Math.max(1, Math.trunc(x)))\<close>: NaN stays NaN.\<close>

fun clampAttempts :: "js_num \<Rightarrow> js_num" where
  "clampAttempts (Finite r) = Finite (of_int (min 10 (max 1 (js_trunc r))))"
| "clampAttempts PosInf = Finite 10"
| "clampAttempts NegInf = Finite 1"
| "clampAttempts NaN = NaN"

definition buildPlanDag :: "RawStep list \<Rightarrow> PlanDag" where
  "buildPlanDag raw = \<lparr>steps = map (\<lambda>s.
     \<lparr>step_id = raw_id s, step_title = raw_title s, step_actionClass = raw_actionClass s,
      dependsOn = dedupe (filter (\<lambda>dep. dep \<noteq> raw_id s) (nullish (raw_dependsOn s) [])),
      step_status = step_pending, attempts = 0,
      maxAttempts = clampAttempts (nullish (raw_maxAttempts s) DEFAULT_MAX_ATTEMPTS),
      lastError = None\<rparr>) raw\<rparr>"

text \<open>\<open>new Map(steps.map(s => [s.id, v s]))\<close>: the last entry of an id wins.\<close>

definition mapById :: "(PlanStep \<Rightarrow> 'v) \<Rightarrow> PlanStep list \<Rightarrow> string \<Rightarrow> 'v option" where
  "mapById v ss i = map_of (rev (map (\<lambda>s. (step_id s, v s)) ss)) i"

datatype Color = White | Grey | Black

text \<open>\<open>byId.get(id)?.dependsOn ?? []\<close>\<close>

definition depsOf :: "PlanStep list \<Rightarrow> string \<Rightarrow> string list" where
  "depsOf ss i = nullish (mapById dependsOn ss i) []"

text \<open>
  The colours 0, 1 and 2 of the source are \<open>White\<close>, \<open>Grey\<close> and \<open>Black\<close>. \<open>cycleFromDeps\<close> is the
  loop over the dependencies of one step; it recurses into a white dependency exactly as
  \<open>hasCycle\<close> calls itself.
\<close>

definition whites :: "PlanStep list \<Rightarrow> (string \<Rightarrow> Color) \<Rightarrow> string set" where
  "whites ss color = {i. color i = White \<and> mapById dependsOn ss i \<noteq> None}"

lemma finite_whites: "finite (whites ss color)"
proof (rule finite_subset)
  show "whites ss color \<subseteq> set (map step_id ss)"
    by (auto simp: whites_def mapById_def dest!: map_of_SomeD)
qed simp

lemma whites_less: "color dep = White \<Longrightarrow> mapById dependsOn ss dep \<noteq> None \<Longrightarrow> c \<noteq> White \<Longrightarrow>
    whites ss (color(dep := c)) \<subset> whites ss color"
  by (auto simp: whites_def)

lemma whites_Black: "whites ss (color(dep := Black)) \<subseteq> whites ss color"
  by (auto simp: whites_def)

function cycleFromDeps ::
  "PlanStep list \<Rightarrow> (string \<Rightarrow> Color) \<Rightarrow> string list \<Rightarrow> (string \<Rightarrow> Color) \<times> bool" where
  "cycleFromDeps ss color [] = (color, False)"
| "cycleFromDeps ss color (dep # deps) =
     (if color dep = Grey then (color, True)
      else if color dep = White \<and> mapById dependsOn ss dep \<noteq> None then
        (case cycleFromDeps ss (color(dep := Grey)) (depsOf ss dep) of (color', found) \<Rightarrow>
           if found then (color', True) else cycleFromDeps ss (color'(dep := Black)) deps)
      else cycleFromDeps ss color deps)"
  by pat_completeness auto

termination
proof -
  have whites: "cycleFromDeps_dom (ss, color, deps) \<Longrightarrow>
     whites ss (fst (cycleFromDeps ss color deps)) \<subseteq> whites ss color" for ss color deps
  proof (induction ss color deps rule: cycleFromDeps.pinduct)
    case (1 ss color)
    then show ?case by (simp add: cycleFromDeps.psimps)
  next
    case (2 ss color dep deps)
    show ?case
    proof (cases "color dep = White \<and> mapById dependsOn ss dep \<noteq> None")
      case True
      obtain color' found where
        eq: "cycleFromDeps ss (color(dep := Grey)) (depsOf ss dep) = (color', found)"
        by fastforce
      have "whites ss color' \<subseteq> whites ss (color(dep := Grey))"
        using 2(2) [OF _ True] True eq by (simp add: fun_upd_def)
      then have sub: "whites ss color' \<subseteq> whites ss color"
        using whites_less [of color dep ss Grey] True by auto
      moreover have "whites ss (fst (cycleFromDeps ss (color'(dep := Black)) deps)) \<subseteq>
          whites ss (color'(dep := Black))" if "\<not> found"
        using 2(3) [OF _ True eq [symmetric] that] True by (simp add: fun_upd_def)
      moreover note whites_Black [of ss color' dep]
      ultimately show ?thesis
        using 2(1) True eq by (auto simp: cycleFromDeps.psimps)
    next
      case False
      then show ?thesis
        using 2(1) 2(4) by (auto simp: cycleFromDeps.psimps)
    qed
  qed
  show ?thesis
  proof (relation "inv_image (finite_psubset <*lex*> measure length) (\<lambda>(ss, c, deps). (whites ss c, deps))",
      goal_cases)
    case 1
    show ?case by (simp add: wf_lex_prod)
  next
    case (2 ss color dep deps)
    then show ?case using whites_less [of color dep ss Grey] by (simp add: finite_whites)
  next
    case (3 ss color dep deps color' found)
    then have "whites ss color' \<subseteq> whites ss (color(dep := Grey))"
      using whites [of ss "color(dep := Grey)" "depsOf ss dep"] by (metis fst_conv)
    with 3 have "whites ss (color'(dep := Black)) \<subset> whites ss color"
      using whites_less [of color dep ss Grey] whites_Black [of ss color' dep] by blast
    then show ?case by (simp add: finite_whites)
  next
    case 4
    then show ?case by simp
  qed
qed

definition hasCycle :: "PlanStep list \<Rightarrow> (string \<Rightarrow> Color) \<Rightarrow> string \<Rightarrow> (string \<Rightarrow> Color) \<times> bool" where
  "hasCycle ss color i =
     (case cycleFromDeps ss (color(i := Grey)) (depsOf ss i) of (color', found) \<Rightarrow>
        if found then (color', True) else (color'(i := Black), False))"

text \<open>The loop over the steps, which stops at the first cycle.\<close>

fun anyCycle :: "PlanStep list \<Rightarrow> (string \<Rightarrow> Color) \<Rightarrow> PlanStep list \<Rightarrow> bool" where
  "anyCycle ss color [] = False"
| "anyCycle ss color (s # rest) =
     (if color (step_id s) = White then
        (case hasCycle ss color (step_id s) of (color', found) \<Rightarrow>
           if found then True else anyCycle ss color' rest)
      else anyCycle ss color rest)"

definition validatePlanDag :: "PlanDag \<Rightarrow> bool \<times> string list" where
  "validatePlanDag plan =
     (let ids = map step_id (steps plan);
          duplicates = (if length (dedupe ids) \<noteq> length ids then [''duplicate step ids''] else []);
          unknown = concat (map (\<lambda>s. map (\<lambda>dep. ''step '' @ step_id s @ '' depends on unknown step '' @ dep)
            (filter (\<lambda>dep. dep \<notin> set ids) (dependsOn s))) (steps plan));
          cyclic = (if anyCycle (steps plan) (\<lambda>_. White) (steps plan)
                    then [''plan has a dependency cycle''] else []);
          errors = duplicates @ unknown @ cyclic
      in (errors = [], errors))"

section \<open>Advancing a plan\<close>

definition isDone :: "PlanStepStatus \<Rightarrow> bool" where
  "isDone st \<longleftrightarrow> st = step_completed \<or> st = step_skipped"

definition nextReadySteps :: "PlanDag \<Rightarrow> PlanStep list" where
  "nextReadySteps plan =
     filter (\<lambda>s. step_status s = step_pending \<and>
         list_all (\<lambda>dep. isDone (nullish (mapById step_status (steps plan) dep) step_pending)) (dependsOn s))
       (steps plan)"

definition mapStep :: "PlanDag \<Rightarrow> string \<Rightarrow> (PlanStep \<Rightarrow> PlanStep) \<Rightarrow> PlanDag" where
  "mapStep plan stepId update = \<lparr>steps = map (\<lambda>s. if step_id s = stepId then update s else s) (steps plan)\<rparr>"

definition markStepRunning :: "PlanDag \<Rightarrow> string \<Rightarrow> PlanDag" where
  "markStepRunning plan stepId = mapStep plan stepId
     (\<lambda>s. if step_status s = step_pending then s\<lparr>step_status := step_running\<rparr> else s)"

text \<open>\<open>n >= max\<close> on a count and a number.\<close>

fun at_least :: "nat \<Rightarrow> js_num \<Rightarrow> bool" where
  "at_least n (Finite r) = (r \<le> of_nat n)"
| "at_least n PosInf = False"
| "at_least n NegInf = True"
| "at_least n NaN = False"

definition stepResult :: "StepResult \<Rightarrow> PlanStep \<Rightarrow> PlanStep" where
  "stepResult result s =
     (if isDone (step_status s) \<or> step_status s = step_failed then s
      else case outcome result of
        outcome_completed \<Rightarrow> s\<lparr>step_status := step_completed, lastError := None\<rparr>
      | outcome_skipped \<Rightarrow> s\<lparr>step_status := step_skipped, lastError := None\<rparr>
      | outcome_failed \<Rightarrow>
          (let n = attempts s + 1; exhausted = at_least n (maxAttempts s)
           in s\<lparr>attempts := n, step_status := (if exhausted then step_failed else step_pending),
                lastError := Some (nullish (result_error result) ''step failed'')\<rparr>))"

definition applyStepResult :: "PlanDag \<Rightarrow> string \<Rightarrow> StepResult \<Rightarrow> PlanDag" where
  "applyStepResult plan stepId result = mapStep plan stepId (stepResult result)"

definition countStatus :: "PlanDag \<Rightarrow> PlanStepStatus \<Rightarrow> nat" where
  "countStatus plan st = length (filter (\<lambda>s. step_status s = st) (steps plan))"

definition planProgress :: "PlanDag \<Rightarrow> PlanProgress" where
  "planProgress plan =
     (let completed = countStatus plan step_completed;
          skipped = countStatus plan step_skipped;
          failed = countStatus plan step_failed;
          running = countStatus plan step_running;
          pending = countStatus plan step_pending;
          total = length (steps plan);
          st = (if total > 0 \<and> completed + skipped = total then plan_completed
                else if failed > 0 then plan_failed
                else if running > 0 then plan_running
                else if pending > 0 \<and> nextReadySteps plan = [] then plan_blocked
                else plan_pending)
      in \<lparr>pp_total = total, pp_completed = completed, pp_failed = failed, pp_running = running,
          pp_pending = pending, pp_skipped = skipped, pp_status = st\<rparr>)"

section \<open>The cycle check decides acyclicity\<close>

definition known :: "PlanStep list \<Rightarrow> string \<Rightarrow> bool" where
  "known ss i \<longleftrightarrow> mapById dependsOn ss i \<noteq> None"

definition edges :: "PlanStep list \<Rightarrow> (string \<times> string) set" where
  "edges ss = {(a, b). b \<in> set (depsOf ss a) \<and> known ss b}"

text \<open>Black steps are closed under dependencies and lie on no cycle.\<close>

definition blacks_ok :: "PlanStep list \<Rightarrow> (string \<Rightarrow> Color) \<Rightarrow> bool" where
  "blacks_ok ss c \<longleftrightarrow>
     (\<forall>x. c x = Black \<longrightarrow> (x, x) \<notin> (edges ss)\<^sup>+ \<and> (\<forall>y. (x, y) \<in> edges ss \<longrightarrow> c y = Black))"

lemma blacks_ok_closed:
  assumes "blacks_ok ss c" and "(x, y) \<in> (edges ss)\<^sup>*" and "c x = Black"
  shows "c y = Black"
  using assms(2,3,1) by (induction rule: rtrancl_induct) (auto simp: blacks_ok_def)

lemma blacks_ok_blacken:
  assumes ok: "blacks_ok ss c" and new: "c i \<noteq> Black"
    and succs: "\<And>y. (i, y) \<in> edges ss \<Longrightarrow> c y = Black"
  shows "blacks_ok ss (c(i := Black))"
proof -
  have "(i, i) \<notin> (edges ss)\<^sup>+"
  proof
    assume "(i, i) \<in> (edges ss)\<^sup>+"
    then obtain y where "(i, y) \<in> edges ss" "(y, i) \<in> (edges ss)\<^sup>*"
      by (auto dest: tranclD)
    with succs blacks_ok_closed [OF ok] new show False by blast
  qed
  with ok succs show ?thesis by (auto simp: blacks_ok_def)
qed

lemma blacks_ok_grey: "blacks_ok ss c \<Longrightarrow> c i = White \<Longrightarrow> blacks_ok ss (c(i := Grey))"
  by (auto simp: blacks_ok_def)

lemma depsOf_known: "b \<in> set (depsOf ss a) \<Longrightarrow> known ss b \<Longrightarrow> (a, b) \<in> edges ss"
  by (simp add: edges_def)

text \<open>What a search that finds no cycle leaves behind.\<close>

lemma cycleFromDeps_False:
  "cycleFromDeps ss c deps = (c', False) \<Longrightarrow>
     {i. c' i = Grey} = {i. c i = Grey} \<and> (\<forall>i. c i = Black \<longrightarrow> c' i = Black) \<and>
     (\<forall>d \<in> set deps. known ss d \<longrightarrow> c' d = Black) \<and> (blacks_ok ss c \<longrightarrow> blacks_ok ss c')"
proof (induction ss c deps arbitrary: c' rule: cycleFromDeps.induct)
  case (1 ss c)
  then show ?case by simp
next
  case (2 ss c dep deps)
  have notGrey: "c dep \<noteq> Grey" using 2(4) by auto
  show ?case
  proof (cases "c dep = White \<and> mapById dependsOn ss dep \<noteq> None")
    case True
    obtain c1 found where eq: "cycleFromDeps ss (c(dep := Grey)) (depsOf ss dep) = (c1, found)"
      by fastforce
    with True 2(4) have nf: "\<not> found" and rest: "cycleFromDeps ss (c1(dep := Black)) deps = (c', False)"
      by (auto split: if_splits)
    have eqF: "cycleFromDeps ss (c(dep := Grey)) (depsOf ss dep) = (c1, False)"
      using eq nf by simp
    note IH1 = 2(1) [OF notGrey True eqF]
    have I1: "{i. c1 i = Grey} = {i. (c(dep := Grey)) i = Grey}"
      "\<And>i. (c(dep := Grey)) i = Black \<Longrightarrow> c1 i = Black"
      "\<And>d. d \<in> set (depsOf ss dep) \<Longrightarrow> known ss d \<Longrightarrow> c1 d = Black"
      "blacks_ok ss (c(dep := Grey)) \<Longrightarrow> blacks_ok ss c1"
      using IH1 by blast+
    note IH2 = 2(2) [OF notGrey True eq [symmetric] nf rest]
    have I2: "{i. c' i = Grey} = {i. (c1(dep := Black)) i = Grey}"
      by (rule IH2 [THEN conjunct1])
    have I3: "\<And>i. (c1(dep := Black)) i = Black \<Longrightarrow> c' i = Black"
      by (rule IH2 [THEN conjunct2, THEN conjunct1, THEN spec, THEN mp])
    have I4: "\<And>d. d \<in> set deps \<Longrightarrow> known ss d \<Longrightarrow> c' d = Black"
      by (rule IH2 [THEN conjunct2, THEN conjunct2, THEN conjunct1, THEN bspec, THEN mp])
    have I5: "blacks_ok ss (c1(dep := Black)) \<Longrightarrow> blacks_ok ss c'"
      by (rule IH2 [THEN conjunct2, THEN conjunct2, THEN conjunct2, THEN mp])
    have G1: "c1 i = Grey \<longleftrightarrow> i = dep \<or> c i = Grey" for i
      using eqset_imp_iff [OF I1(1), of i] by simp
    then have grey: "c1 dep = Grey" by blast
    have "c' i = Grey \<longleftrightarrow> c i = Grey" for i
      using eqset_imp_iff [OF I2, of i] G1 [of i] True by (cases "i = dep") simp_all
    then have "{i. c' i = Grey} = {i. c i = Grey}" by blast
    moreover have "c' i = Black" if "c i = Black" for i
      using I1(2) [of i] I3 [of i] that by auto
    moreover have "c' d = Black" if "d \<in> set (dep # deps)" "known ss d" for d
      using I3 [of d] I4 [of d] that by auto
    moreover have "blacks_ok ss c'" if "blacks_ok ss c"
    proof -
      have "blacks_ok ss (c(dep := Grey))"
        using that True by (blast intro: blacks_ok_grey)
      then have "blacks_ok ss (c1(dep := Black))"
        using I1(3,4) grey by (intro blacks_ok_blacken) (auto simp: edges_def)
      then show ?thesis by (rule I5)
    qed
    ultimately show ?thesis by blast
  next
    case False
    then have rest: "cycleFromDeps ss c deps = (c', False)"
      using notGrey 2(4) by auto
    have "c dep = Black" if "known ss dep"
      using False notGrey that by (cases "c dep") (auto simp: known_def)
    then show ?thesis
      using 2(3) [OF notGrey False rest] by auto
  qed
qed

lemma cycleFromDeps_grey:
  "cycleFromDeps ss c deps = (c', False) \<Longrightarrow> c' i = Grey \<longleftrightarrow> c i = Grey"
  using cycleFromDeps_False [of ss c deps c'] by (blast dest: eqset_imp_iff)

text \<open>A cycle that is reported exists: every grey step reaches the step being expanded.\<close>

lemma cycleFromDeps_True:
  "cycleFromDeps ss c deps = (c', True) \<Longrightarrow> (\<And>x. c x = Grey \<Longrightarrow> known ss x \<and> (x, u) \<in> (edges ss)\<^sup>*) \<Longrightarrow>
     set deps \<subseteq> set (depsOf ss u) \<Longrightarrow> \<exists>x. (x, x) \<in> (edges ss)\<^sup>+"
proof (induction ss c deps arbitrary: c' u rule: cycleFromDeps.induct)
  case (1 ss c)
  then show ?case by simp
next
  case (2 ss c dep deps)
  show ?case
  proof (cases "c dep = Grey")
    case True
    then have "(dep, u) \<in> (edges ss)\<^sup>*" "(u, dep) \<in> edges ss"
      using 2(5,6) by (auto intro: depsOf_known)
    then show ?thesis by (meson rtrancl_into_trancl1)
  next
    case notGrey: False
    show ?thesis
    proof (cases "c dep = White \<and> mapById dependsOn ss dep \<noteq> None")
      case True
      obtain c1 found where eq: "cycleFromDeps ss (c(dep := Grey)) (depsOf ss dep) = (c1, found)"
        by fastforce
      have edge: "(u, dep) \<in> edges ss"
        using True 2(6) by (auto intro: depsOf_known simp: known_def)
      have greys: "known ss x \<and> (x, dep) \<in> (edges ss)\<^sup>*" if "(c(dep := Grey)) x = Grey" for x
        using 2(5) [of x] edge that True
        by (auto simp: known_def split: if_splits intro: rtrancl_into_rtrancl)
      show ?thesis
      proof (cases found)
        case True': True
        show ?thesis
          using 2(1) [OF notGrey True, of c1 dep] eq True' greys by (simp add: fun_upd_def)
      next
        case False': False
        have "known ss x \<and> (x, u) \<in> (edges ss)\<^sup>*" if "(c1(dep := Black)) x = Grey" for x
        proof -
          have "x \<noteq> dep" "c1 x = Grey" using that by (auto split: if_splits)
          then have "c x = Grey"
            using cycleFromDeps_grey [of ss "c(dep := Grey)" "depsOf ss dep" c1 x] eq False' by simp
          then show ?thesis by (rule 2(5))
        qed
        moreover have "cycleFromDeps ss (c1(dep := Black)) deps = (c', True)"
          using 2(4) notGrey True eq False' by simp
        ultimately show ?thesis
          using 2(2) [OF notGrey True eq [symmetric] False', of c' u] 2(6) by (simp add: fun_upd_def)
      qed
    next
      case False
      then show ?thesis
        using 2(3) [OF notGrey False, of c' u] 2(4-6) notGrey by auto
    qed
  qed
qed

lemma known_iff: "known ss i \<longleftrightarrow> i \<in> step_id ` set ss"
  by (auto simp: known_def mapById_def map_of_eq_None_iff image_iff)

lemma anyCycle_sound:
  "anyCycle ss c rest \<Longrightarrow> (\<And>i. c i \<noteq> Grey) \<Longrightarrow> set rest \<subseteq> set ss \<Longrightarrow> \<exists>x. (x, x) \<in> (edges ss)\<^sup>+"
proof (induction ss c rest rule: anyCycle.induct)
  case (1 ss c)
  then show ?case by simp
next
  case (2 ss c s rest)
  show ?case
  proof (cases "c (step_id s) = White")
    case True
    have k: "known ss (step_id s)"
      using 2(5) by (auto simp: known_iff)
    obtain c1 found where
      eq: "cycleFromDeps ss (c(step_id s := Grey)) (depsOf ss (step_id s)) = (c1, found)" by fastforce
    show ?thesis
    proof (cases found)
      case True
      show ?thesis
        by (rule cycleFromDeps_True [of ss "c(step_id s := Grey)" "depsOf ss (step_id s)" c1 "step_id s"])
          (use eq True k 2(4) in \<open>auto split: if_splits\<close>)
    next
      case False
      then have "c1 i = Grey \<longleftrightarrow> i = step_id s" for i
        using cycleFromDeps_grey [of ss "c(step_id s := Grey)" "depsOf ss (step_id s)" c1 i] eq 2(4) [of i]
        by simp
      then have "(c1(step_id s := Black)) i \<noteq> Grey" for i by simp
      then show ?thesis
        using 2(1) [of "c1(step_id s := Black)" False] 2(3,5)
          \<open>c (step_id s) = White\<close> False eq
        by (simp add: hasCycle_def fun_upd_def)
    qed
  next
    case False
    then show ?thesis using 2 by simp
  qed
qed

lemma anyCycle_complete:
  "\<not> anyCycle ss c rest \<Longrightarrow> (\<And>i. c i \<noteq> Grey) \<Longrightarrow> blacks_ok ss c \<Longrightarrow>
     s \<in> set rest \<Longrightarrow> (step_id s, step_id s) \<notin> (edges ss)\<^sup>+"
proof (induction ss c rest rule: anyCycle.induct)
  case (1 ss c)
  then show ?case by simp
next
  case (2 ss c t rest)
  show ?case
  proof (cases "c (step_id t) = White")
    case True
    obtain c1 found where
      eq: "cycleFromDeps ss (c(step_id t := Grey)) (depsOf ss (step_id t)) = (c1, found)" by fastforce
    with True 2(3) have nf: "\<not> found" and "\<not> anyCycle ss (c1(step_id t := Black)) rest"
      by (auto simp: hasCycle_def split: if_splits)
    have "cycleFromDeps ss (c(step_id t := Grey)) (depsOf ss (step_id t)) = (c1, False)"
      using eq nf by simp
    note F = cycleFromDeps_False [OF this, THEN conjunct2, THEN conjunct2] and G = cycleFromDeps_grey [OF this]
    have grey: "c1 i = Grey \<longleftrightarrow> i = step_id t" for i
      using G [of i] 2(4) [of i] by simp
    have ok: "blacks_ok ss (c1(step_id t := Black))"
    proof (rule blacks_ok_blacken)
      show "blacks_ok ss c1"
        using F blacks_ok_grey [OF 2(5) True] by blast
      show "c1 (step_id t) \<noteq> Black" using grey [of "step_id t"] by simp
      show "c1 y = Black" if "(step_id t, y) \<in> edges ss" for y
        using F that by (auto simp: edges_def)
    qed
    have nogrey: "(c1(step_id t := Black)) i \<noteq> Grey" for i using grey [of i] by simp
    show ?thesis
    proof (cases "s = t")
      case True
      then show ?thesis using ok by (auto simp: blacks_ok_def)
    next
      case False
      with 2(6) have mem: "s \<in> set rest" by simp
      show ?thesis
        using 2(1) [of "c1(step_id t := Black)" False] True eq nf
          \<open>\<not> anyCycle ss (c1(step_id t := Black)) rest\<close> nogrey ok mem
        by (simp add: hasCycle_def fun_upd_def)
    qed
  next
    case False
    then have black: "c (step_id t) = Black" using 2(4) [of "step_id t"] by (cases "c (step_id t)") auto
    show ?thesis
    proof (cases "s = t")
      case True
      then show ?thesis using 2(5) black by (auto simp: blacks_ok_def)
    next
      case False
      then show ?thesis using 2(2) 2(3-6) \<open>c (step_id t) \<noteq> White\<close> by simp
    qed
  qed
qed

theorem anyCycle_iff: "anyCycle ss (\<lambda>_. White) ss \<longleftrightarrow> \<not> acyclic (edges ss)"
proof
  assume "anyCycle ss (\<lambda>_. White) ss"
  then show "\<not> acyclic (edges ss)"
    using anyCycle_sound [of ss "\<lambda>_. White" ss] by (auto simp: acyclic_def)
next
  assume "\<not> acyclic (edges ss)"
  then obtain x where cyc: "(x, x) \<in> (edges ss)\<^sup>+" by (auto simp: acyclic_def)
  then obtain y where "(x, y) \<in> edges ss" by (auto dest: tranclD)
  then have "known ss x"
    by (cases "mapById dependsOn ss x") (auto simp: edges_def depsOf_def known_def)
  then obtain s where "s \<in> set ss" "x = step_id s" by (auto simp: known_iff)
  then show "anyCycle ss (\<lambda>_. White) ss"
    using anyCycle_complete [of ss "\<lambda>_. White" ss s] cyc by (auto simp: blacks_ok_def)
qed

lemma mapById_distinct:
  assumes "distinct (map step_id ss)"
  shows "mapById v ss i = Some x \<longleftrightarrow> (\<exists>s \<in> set ss. step_id s = i \<and> v s = x)"
proof -
  have "distinct (map fst (rev (map (\<lambda>s. (step_id s, v s)) ss)))"
    using assms by (simp add: rev_map [symmetric] comp_def)
  then have "mapById v ss i = Some x \<longleftrightarrow> (i, x) \<in> set (rev (map (\<lambda>s. (step_id s, v s)) ss))"
    unfolding mapById_def by (rule map_of_eq_Some_iff)
  then show ?thesis by auto
qed

lemma edges_distinct:
  assumes "distinct (map step_id ss)" and "set (concat (map dependsOn ss)) \<subseteq> step_id ` set ss"
  shows "edges ss = {(step_id s, d) | s d. s \<in> set ss \<and> d \<in> set (dependsOn s)}"
proof -
  have "(a, b) \<in> edges ss \<longleftrightarrow> (\<exists>s \<in> set ss. step_id s = a \<and> b \<in> set (dependsOn s))" for a b
  proof
    assume "(a, b) \<in> edges ss"
    then obtain ds where "mapById dependsOn ss a = Some ds" "b \<in> set ds"
      by (cases "mapById dependsOn ss a") (auto simp: edges_def depsOf_def)
    then show "\<exists>s \<in> set ss. step_id s = a \<and> b \<in> set (dependsOn s)"
      unfolding mapById_distinct [OF assms(1)] by blast
  next
    assume "\<exists>s \<in> set ss. step_id s = a \<and> b \<in> set (dependsOn s)"
    then obtain s where "s \<in> set ss" "step_id s = a" "b \<in> set (dependsOn s)" by blast
    then show "(a, b) \<in> edges ss"
      using mapById_distinct [OF assms(1), of dependsOn a "dependsOn s"] assms(2)
      by (auto simp: edges_def depsOf_def known_iff)
  qed
  then show ?thesis by auto
qed

lemma distinct_iff_dedupe: "length (dedupe xs) = length xs \<longleftrightarrow> distinct xs"
  by (metis card_distinct dedupe_id distinct_card distinct_dedupe set_dedupe)

lemma unknown_deps_Nil: "concat (map (\<lambda>s. map (f s) (filter (\<lambda>dep. dep \<notin> A) (dependsOn s))) ss) = [] \<longleftrightarrow>
    set (concat (map dependsOn ss)) \<subseteq> A"
  by (auto simp: filter_empty_conv)

text \<open>The edges of a plan, from a step to each of its dependencies.\<close>

definition dependencies :: "PlanDag \<Rightarrow> (string \<times> string) set" where
  "dependencies plan = {(step_id s, d) | s d. s \<in> set (steps plan) \<and> d \<in> set (dependsOn s)}"

lemma valid_iff:
  "fst (validatePlanDag plan) \<longleftrightarrow>
     distinct (map step_id (steps plan)) \<and>
     set (concat (map dependsOn (steps plan))) \<subseteq> set (map step_id (steps plan)) \<and>
     acyclic (dependencies plan)"
proof -
  have "fst (validatePlanDag plan) \<longleftrightarrow> distinct (map step_id (steps plan)) \<and>
     set (concat (map dependsOn (steps plan))) \<subseteq> set (map step_id (steps plan)) \<and>
     acyclic (edges (steps plan))"
    unfolding validatePlanDag_def Let_def fst_conv append_is_Nil_conv unknown_deps_Nil
    by (simp add: distinct_iff_dedupe [of "map step_id (steps plan)", simplified] anyCycle_iff)
  then show ?thesis
    using edges_distinct [of "steps plan"] by (auto simp: dependencies_def)
qed

section \<open>The state machine of a plan\<close>

text \<open>One call of the harness, and the plans that calls reach.\<close>

datatype PlanOp = Mark_running string | Apply_result string StepResult

fun exec_op :: "PlanOp \<Rightarrow> PlanDag \<Rightarrow> PlanDag" where
  "exec_op (Mark_running i) plan = markStepRunning plan i"
| "exec_op (Apply_result i result) plan = applyStepResult plan i result"

inductive plan_reach :: "PlanDag \<Rightarrow> PlanDag \<Rightarrow> bool" where
  reach_refl: "plan_reach plan plan"
| reach_op: "plan_reach plan plan' \<Longrightarrow> plan_reach plan (exec_op c plan')"

text \<open>Every call rewrites each step by one of these two moves, or leaves it.\<close>

inductive step_move :: "PlanStep \<Rightarrow> PlanStep \<Rightarrow> bool" where
  move_stay: "step_move s s"
| move_start: "step_status s = step_pending \<Longrightarrow> step_move s (s\<lparr>step_status := step_running\<rparr>)"
| move_result: "step_move s (stepResult result s)"

inductive_cases step_move_cases: "step_move s s'"

lemma exec_op_moves: "\<exists>f. steps (exec_op c plan) = map f (steps plan) \<and> (\<forall>s. step_move s (f s))"
proof (cases c)
  case (Mark_running i)
  then show ?thesis
    by (intro exI [of _ "\<lambda>s. if step_id s = i then (if step_status s = step_pending
        then s\<lparr>step_status := step_running\<rparr> else s) else s"])
      (auto simp: markStepRunning_def mapStep_def intro: step_move.intros)
next
  case (Apply_result i result)
  then show ?thesis
    by (intro exI [of _ "\<lambda>s. if step_id s = i then stepResult result s else s"])
      (auto simp: applyStepResult_def mapStep_def intro: step_move.intros)
qed

text \<open>
  The invariant of a step: its attempt limit is an integer between 1 and 10 (or NaN), the attempts
  never pass it, and the step has failed exactly when they have reached it.
\<close>

fun attempt_limit :: "js_num \<Rightarrow> nat option" where
  "attempt_limit (Finite r) = (if 1 \<le> r \<and> r \<le> 10 \<and> of_int \<lfloor>r\<rfloor> = r then Some (nat \<lfloor>r\<rfloor>) else None)"
| "attempt_limit _ = None"

definition step_ok :: "PlanStep \<Rightarrow> bool" where
  "step_ok s \<longleftrightarrow> (case attempt_limit (maxAttempts s) of
       None \<Rightarrow> maxAttempts s = NaN \<and> step_status s \<noteq> step_failed
     | Some n \<Rightarrow> 1 \<le> n \<and> n \<le> 10 \<and> attempts s \<le> n \<and> (step_status s = step_failed \<longleftrightarrow> attempts s = n))"

lemma attempt_limit_Some: "attempt_limit m = Some n \<Longrightarrow> at_least k m \<longleftrightarrow> n \<le> k"
proof (cases m)
  case (Finite r)
  assume "attempt_limit m = Some n"
  with Finite have "r = of_int \<lfloor>r\<rfloor>" "1 \<le> r" "n = nat \<lfloor>r\<rfloor>" by (simp_all split: if_splits)
  then obtain z where "r = of_int z" "n = nat z" "1 \<le> z" by (metis of_int_1_le_iff)
  then show ?thesis using Finite by (auto simp: le_nat_iff nat_le_iff of_int_le_iff [symmetric] simp del: of_int_le_iff)
qed simp_all

lemma attempt_limit_clamp: "clampAttempts m = NaN \<or> (\<exists>n. attempt_limit (clampAttempts m) = Some n \<and> 1 \<le> n \<and> n \<le> 10)"
  by (cases m) auto

lemma step_ok_move: "step_move s s' \<Longrightarrow> step_ok s \<Longrightarrow> step_ok s'"
  by (erule step_move_cases)
    (auto simp: step_ok_def stepResult_def isDone_def Let_def attempt_limit_Some
      split: option.splits StepOutcome.splits)

definition step_shape :: "PlanStep \<Rightarrow> string \<times> string list \<times> js_num" where
  "step_shape s = (step_id s, dependsOn s, maxAttempts s)"

lemma step_shape_move: "step_move s s' \<Longrightarrow> step_shape s' = step_shape s"
  by (erule step_move_cases)
    (auto simp: step_shape_def stepResult_def Let_def split: StepOutcome.splits)

lemma plan_reach_shape: "plan_reach plan plan' \<Longrightarrow> map step_shape (steps plan') = map step_shape (steps plan)"
proof (induction rule: plan_reach.induct)
  case (reach_op plan plan' c)
  obtain f where "steps (exec_op c plan') = map f (steps plan')" "\<And>s. step_move s (f s)"
    using exec_op_moves [of c plan'] by blast
  moreover have "step_shape (f s) = step_shape s" for s
    by (rule step_shape_move) fact
  ultimately show ?case using reach_op by (simp add: comp_def)
qed simp

lemma plan_reach_ok: "plan_reach plan plan' \<Longrightarrow> list_all step_ok (steps plan) \<Longrightarrow> list_all step_ok (steps plan')"
proof (induction rule: plan_reach.induct)
  case (reach_op plan plan' c)
  then show ?case
    using exec_op_moves [of c plan'] step_ok_move by (fastforce simp: list_all_iff)
qed simp

lemma buildPlanDag_ok: "list_all step_ok (steps (buildPlanDag raw))"
proof -
  have "step_ok \<lparr>step_id = i, step_title = t, step_actionClass = a, dependsOn = ds,
      step_status = step_pending, attempts = 0, maxAttempts = clampAttempts m, lastError = None\<rparr>"
    for i t a ds m
    using attempt_limit_clamp [of m] by (auto simp: step_ok_def split: option.splits)
  then show ?thesis by (simp add: buildPlanDag_def list_all_iff)
qed

text \<open>The work left in a step, an upper bound of the calls that can still change it.\<close>

definition step_potential :: "PlanStep \<Rightarrow> nat" where
  "step_potential s =
     (let left = nullish (attempt_limit (maxAttempts s)) 0 - attempts s
      in case step_status s of
           step_pending \<Rightarrow> 2 * left
         | step_running \<Rightarrow> 2 * left - 1
         | _ \<Rightarrow> 0)"

lemma step_potential_move:
  "step_move s s' \<Longrightarrow> step_ok s \<Longrightarrow> maxAttempts s \<noteq> NaN \<Longrightarrow>
     s' = s \<or> step_potential s' < step_potential s"
  by (erule step_move_cases; cases "step_status s")
    (auto simp: step_ok_def stepResult_def isDone_def Let_def attempt_limit_Some step_potential_def
      split: option.splits StepOutcome.splits)

definition plan_potential :: "PlanDag \<Rightarrow> nat" where
  "plan_potential plan = sum_list (map step_potential (steps plan))"

lemma sum_list_moves:
  assumes "\<And>x. x \<in> set xs \<Longrightarrow> f x = x \<or> (g (f x) :: nat) < g x"
  shows "map f xs = xs \<or> sum_list (map g (map f xs)) < sum_list (map g xs)"
  using assms
proof (induction xs)
  case (Cons x xs)
  then have "map f xs = xs \<or> sum_list (map g (map f xs)) < sum_list (map g xs)" "f x = x \<or> g (f x) < g x"
    by auto
  then show ?case by (auto simp del: map_map list.map_comp)
qed simp

lemma plan_potential_op:
  assumes "list_all step_ok (steps plan)" and "list_all (\<lambda>s. maxAttempts s \<noteq> NaN) (steps plan)"
    and "exec_op c plan \<noteq> plan"
  shows "plan_potential (exec_op c plan) < plan_potential plan"
proof -
  obtain f where f: "steps (exec_op c plan) = map f (steps plan)" "\<And>s. step_move s (f s)"
    using exec_op_moves [of c plan] by blast
  have "map f (steps plan) \<noteq> steps plan"
    using assms(3) f(1) by (metis PlanDag.equality PlanDag.surjective old.unit.exhaust PlanDag.select_convs)
  moreover have "map f (steps plan) = steps plan \<or>
      sum_list (map step_potential (map f (steps plan))) < sum_list (map step_potential (steps plan))"
    using assms(1,2) f(2) step_potential_move by (intro sum_list_moves) (auto simp: list_all_iff)
  ultimately show ?thesis using f(1) by (simp add: plan_potential_def)
qed

section \<open>Progress\<close>

lemma count_sum: "countStatus plan step_completed + countStatus plan step_skipped +
    countStatus plan step_failed + countStatus plan step_running + countStatus plan step_pending =
    length (steps plan)"
proof -
  have "length (filter (\<lambda>s. step_status s = step_completed) ss) +
      length (filter (\<lambda>s. step_status s = step_skipped) ss) +
      length (filter (\<lambda>s. step_status s = step_failed) ss) +
      length (filter (\<lambda>s. step_status s = step_running) ss) +
      length (filter (\<lambda>s. step_status s = step_pending) ss) = length ss" for ss
  proof (induction ss)
    case (Cons s ss)
    then show ?case by (cases "step_status s") simp_all
  qed simp
  then show ?thesis by (simp add: countStatus_def)
qed

lemma count_zero_iff: "countStatus plan st = 0 \<longleftrightarrow> (\<forall>s \<in> set (steps plan). step_status s \<noteq> st)"
  by (auto simp: countStatus_def filter_empty_conv)

lemma finite_dependencies: "finite (dependencies plan)"
proof (rule finite_subset)
  show "dependencies plan \<subseteq> set (map step_id (steps plan)) \<times> set (concat (map dependsOn (steps plan)))"
    by (auto simp: dependencies_def)
qed simp

text \<open>In a valid plan whose steps are all pending or done, a pending step without pending dependencies is ready.\<close>

lemma valid_plan_ready:
  assumes valid: "fst (validatePlanDag plan)"
    and pending: "t \<in> set (steps plan)" "step_status t = step_pending"
    and settled: "\<And>s. s \<in> set (steps plan) \<Longrightarrow> step_status s = step_pending \<or> isDone (step_status s)"
  shows "nextReadySteps plan \<noteq> []"
proof -
  have dist: "distinct (map step_id (steps plan))"
    and closed: "set (concat (map dependsOn (steps plan))) \<subseteq> set (map step_id (steps plan))"
    and "acyclic (dependencies plan)"
    using valid by (auto simp: valid_iff)
  then have wf: "wf ((dependencies plan)\<inverse>)"
    by (intro finite_acyclic_wf_converse finite_dependencies)
  define P where "P = {step_id s | s. s \<in> set (steps plan) \<and> step_status s = step_pending}"
  have "step_id t \<in> P" using pending by (auto simp: P_def)
  then obtain m where "m \<in> P" and min: "\<And>y. (y, m) \<in> (dependencies plan)\<inverse> \<Longrightarrow> y \<notin> P"
    by (rule wfE_min [OF wf]) blast
  then obtain s where s: "s \<in> set (steps plan)" "step_status s = step_pending" "step_id s = m"
    by (auto simp: P_def)
  have "isDone (nullish (mapById step_status (steps plan) d) step_pending)" if d: "d \<in> set (dependsOn s)" for d
  proof -
    have "d \<in> set (concat (map dependsOn (steps plan)))" using s(1) d by auto
    then have "d \<in> step_id ` set (steps plan)" using closed by (metis subsetD set_map)
    then obtain u where u: "u \<in> set (steps plan)" "step_id u = d" by blast
    have "(m, d) \<in> dependencies plan" 
      unfolding dependencies_def s(3) [symmetric] using s(1) d by blast
    then have "d \<notin> P" using min by blast
    then have "isDone (step_status u)" using settled [OF u(1)] u unfolding P_def by blast
    moreover have "mapById step_status (steps plan) d = Some (step_status u)"
      using u by (auto simp: mapById_distinct [OF dist])
    ultimately show ?thesis by simp
  qed
  then show ?thesis using s by (auto simp: nextReadySteps_def filter_empty_conv list_all_iff)
qed

lemma not_blocked:
  assumes "fst (validatePlanDag plan)"
  shows "pp_status (planProgress plan) \<noteq> plan_blocked"
proof
  assume blocked: "pp_status (planProgress plan) = plan_blocked"
  then have none: "countStatus plan step_failed = 0" "countStatus plan step_running = 0"
    and pend: "countStatus plan step_pending > 0" and ready: "nextReadySteps plan = []"
    by (simp_all add: planProgress_def Let_def split: if_splits)
  obtain t where t: "t \<in> set (steps plan)" "step_status t = step_pending"
    using pend [THEN gr_implies_not0] unfolding count_zero_iff by blast
  have "step_status s = step_pending \<or> isDone (step_status s)" if "s \<in> set (steps plan)" for s
    using none that by (cases "step_status s") (auto simp: count_zero_iff isDone_def)
  then show False using valid_plan_ready [OF assms t] ready by blast
qed

fun exec_ops :: "PlanOp list \<Rightarrow> PlanDag \<Rightarrow> PlanDag" where
  "exec_ops [] plan = plan"
| "exec_ops (c # cs) plan = exec_ops cs (exec_op c plan)"

lemma plan_reach_exec_ops: "plan_reach plan plan' \<Longrightarrow> plan_reach plan (exec_ops cs plan')"
  by (induction cs arbitrary: plan') (auto intro: plan_reach.intros)

text \<open>The calls of a run that changed the plan.\<close>

fun effective_calls :: "PlanOp list \<Rightarrow> PlanDag \<Rightarrow> nat" where
  "effective_calls [] plan = 0"
| "effective_calls (c # cs) plan =
     (if exec_op c plan = plan then 0 else 1) + effective_calls cs (exec_op c plan)"

lemma exec_op_bounded: "list_all (\<lambda>s. maxAttempts s \<noteq> NaN) (steps plan) \<Longrightarrow>
    list_all (\<lambda>s. maxAttempts s \<noteq> NaN) (steps (exec_op c plan))"
proof -
  obtain f where "steps (exec_op c plan) = map f (steps plan)" "\<And>s. step_move s (f s)"
    using exec_op_moves [of c plan] by blast
  moreover have "maxAttempts (f s) = maxAttempts s" for s
    using step_shape_move [of s "f s"] calculation(2) by (simp add: step_shape_def)
  ultimately show "list_all (\<lambda>s. maxAttempts s \<noteq> NaN) (steps plan) \<Longrightarrow> ?thesis"
    by (simp add: list_all_iff)
qed

lemma effective_calls_bound:
  "list_all step_ok (steps plan) \<Longrightarrow> list_all (\<lambda>s. maxAttempts s \<noteq> NaN) (steps plan) \<Longrightarrow>
     effective_calls cs plan \<le> plan_potential plan"
proof (induction cs arbitrary: plan)
  case (Cons c cs)
  have "list_all step_ok (steps (exec_op c plan))"
    using plan_reach_ok [OF reach_op [OF reach_refl] Cons(2)] .
  then have IH: "effective_calls cs (exec_op c plan) \<le> plan_potential (exec_op c plan)"
    using Cons(1) exec_op_bounded [OF Cons(3)] by blast
  show ?case
  proof (cases "exec_op c plan = plan")
    case True
    then show ?thesis using IH by simp
  next
    case False
    then show ?thesis using IH plan_potential_op [OF Cons(2,3) False] by simp
  qed
qed simp

lemma step_potential_bound: "step_ok s \<Longrightarrow> step_potential s \<le> 20"
  by (cases "step_status s") (auto simp: step_ok_def step_potential_def Let_def split: option.splits)

lemma plan_potential_bound: "list_all step_ok (steps plan) \<Longrightarrow> plan_potential plan \<le> 20 * length (steps plan)"
proof -
  have "list_all step_ok ss \<Longrightarrow> sum_list (map step_potential ss) \<le> 20 * length ss" for ss
  proof (induction ss)
    case (Cons s ss)
    then show ?case using step_potential_bound [of s] by simp
  qed simp
  then show "list_all step_ok (steps plan) \<Longrightarrow> ?thesis" by (simp add: plan_potential_def)
qed

section \<open>Properties\<close>

text \<open>
  C18: validation is exact. A plan is accepted exactly when its step ids are distinct, every
  dependency names a step of the plan, and the dependency relation has no cycle; so the coloured
  depth-first search neither misses a cycle nor reports one that is not there.
\<close>

theorem plan_valid_iff:
  "fst (validatePlanDag plan) \<longleftrightarrow>
     distinct (map step_id (steps plan)) \<and>
     set (concat (map dependsOn (steps plan))) \<subseteq> set (map step_id (steps plan)) \<and>
     acyclic (dependencies plan)"
  by (rule valid_iff)

text \<open>
  C16: no deadlock. Whatever calls a harness makes on a plan that validates, the plan never gets
  into the state \<open>blocked\<close>: as long as no step failed or is running, a step that is not done is
  followed by one that is ready.
\<close>

theorem valid_plan_never_blocked:
  assumes "fst (validatePlanDag plan)"
  shows "pp_status (planProgress (exec_ops calls plan)) \<noteq> plan_blocked"
proof (rule not_blocked)
  have shape: "map step_shape (steps (exec_ops calls plan)) = map step_shape (steps plan)"
    by (intro plan_reach_shape plan_reach_exec_ops reach_refl)
  have ids: "map step_id ss = map fst (map step_shape ss)"
    and deps: "map dependsOn ss = map (fst \<circ> snd) (map step_shape ss)"
    and rel: "{(step_id s, d) | s d. s \<in> set ss \<and> d \<in> set (dependsOn s)} =
      (\<Union>t \<in> set (map step_shape ss). {fst t} \<times> set (fst (snd t)))" for ss
    by (auto simp: step_shape_def comp_def)
  show "fst (validatePlanDag (exec_ops calls plan))"
    using assms unfolding valid_iff dependencies_def ids deps rel shape .
qed

definition two_steps :: PlanDag where
  "two_steps = buildPlanDag
     [\<lparr>raw_id = ''close'', raw_title = ''Close the stale PR'', raw_actionClass = None,
       raw_dependsOn = None, raw_maxAttempts = Some (Finite 2)\<rparr>,
      \<lparr>raw_id = ''land'', raw_title = ''Land the fix'', raw_actionClass = None,
       raw_dependsOn = Some [''close''], raw_maxAttempts = None\<rparr>]"

lemma two_steps_valid: "fst (validatePlanDag two_steps)"
  by code_simp

theorem valid_plan_never_blocked_witness:
  "pp_status (planProgress (exec_ops [Mark_running ''close'',
     Apply_result ''close'' \<lparr>outcome = outcome_completed, result_error = None\<rparr>] two_steps)) \<noteq> plan_blocked"
  by (rule valid_plan_never_blocked [OF two_steps_valid])

text \<open>
  Retries are bounded and failure is exact. In every plan a harness can reach from a built
  plan, a step has at most as many attempts as its limit allows, the limit is between 1 and 10,
  and the step has failed exactly when its attempts reached the limit. Only a limit that is not
  a number leaves the step without a bound: such a step never fails.
\<close>

theorem plan_attempts_bounded:
  assumes "plan_reach (buildPlanDag raw) plan" and "s \<in> set (steps plan)"
  shows "case maxAttempts s of
      Finite r \<Rightarrow> 1 \<le> r \<and> r \<le> 10 \<and> of_nat (attempts s) \<le> r \<and>
        (step_status s = step_failed \<longleftrightarrow> of_nat (attempts s) = r)
    | NaN \<Rightarrow> step_status s \<noteq> step_failed
    | _ \<Rightarrow> False"
proof -
  have ok: "step_ok s"
    using plan_reach_ok [OF assms(1) buildPlanDag_ok] assms(2) by (simp add: list_all_iff)
  show ?thesis
  proof (cases "attempt_limit (maxAttempts s)")
    case None
    with ok show ?thesis by (simp add: step_ok_def)
  next
    case (Some n)
    then obtain r where r: "maxAttempts s = Finite r" and "1 \<le> r" "r \<le> 10" "of_int \<lfloor>r\<rfloor> = r" "n = nat \<lfloor>r\<rfloor>"
      by (cases "maxAttempts s") (auto split: if_splits)
    then have "r = of_nat n" by (metis of_nat_nat of_int_of_nat_eq one_le_floor zero_le_one order_trans)
    with ok Some r \<open>1 \<le> r\<close> \<open>r \<le> 10\<close> show ?thesis by (simp add: step_ok_def)
  qed
qed

theorem plan_attempts_bounded_witness:
  "step_status (hd (steps (exec_ops [Apply_result ''close'' \<lparr>outcome = outcome_failed, result_error = None\<rparr>,
       Apply_result ''close'' \<lparr>outcome = outcome_failed, result_error = None\<rparr>] two_steps))) = step_failed"
proof -
  let ?plan = "exec_ops [Apply_result ''close'' \<lparr>outcome = outcome_failed, result_error = None\<rparr>,
       Apply_result ''close'' \<lparr>outcome = outcome_failed, result_error = None\<rparr>] two_steps"
  have "plan_reach two_steps ?plan" by (intro plan_reach_exec_ops reach_refl)
  moreover have "maxAttempts (hd (steps ?plan)) = Finite 2" "attempts (hd (steps ?plan)) = 2"
    "hd (steps ?plan) \<in> set (steps ?plan)"
    by code_simp+
  ultimately show ?thesis
    using plan_attempts_bounded [OF _ \<open>hd (steps ?plan) \<in> set (steps ?plan)\<close>] by (simp add: two_steps_def)
qed

text \<open>
  C17: a plan comes to rest. Of the calls a harness makes on a built plan of n steps whose limits
  are numbers, at most 20 * n change anything, in whatever order and number the calls come.
\<close>

theorem plan_comes_to_rest:
  assumes "list_all (\<lambda>s. raw_maxAttempts s \<noteq> Some NaN) raw"
  shows "effective_calls calls (buildPlanDag raw) \<le> 20 * length raw"
proof -
  have "clampAttempts (nullish (raw_maxAttempts s) DEFAULT_MAX_ATTEMPTS) \<noteq> NaN" if "s \<in> set raw" for s
  proof (cases "raw_maxAttempts s")
    case (Some m)
    with that assms show ?thesis by (cases m) (auto simp: list_all_iff)
  qed (simp add: DEFAULT_MAX_ATTEMPTS_def)
  then have "list_all (\<lambda>s. maxAttempts s \<noteq> NaN) (steps (buildPlanDag raw))"
    by (simp add: buildPlanDag_def list_all_iff)
  then have "effective_calls calls (buildPlanDag raw) \<le> plan_potential (buildPlanDag raw)"
    by (intro effective_calls_bound buildPlanDag_ok)
  also have "\<dots> \<le> 20 * length raw"
    using plan_potential_bound [OF buildPlanDag_ok, of raw] by (simp add: buildPlanDag_def)
  finally show ?thesis .
qed

theorem plan_comes_to_rest_witness:
  "effective_calls [Mark_running ''a'', Mark_running ''a''] (buildPlanDag
     [\<lparr>raw_id = ''a'', raw_title = ''A'', raw_actionClass = None, raw_dependsOn = None,
       raw_maxAttempts = Some PosInf\<rparr>]) \<le> 20"
  using plan_comes_to_rest [of "[\<lparr>raw_id = ''a'', raw_title = ''A'', raw_actionClass = None,
    raw_dependsOn = None, raw_maxAttempts = Some PosInf\<rparr>]"] by simp

end
