(* ===== verification/Js_Regex.thy ===== *)
theory Js_Regex
  imports Prelude
begin

text \<open>
  Regular expressions of JavaScript, as far as the modelled code uses them: literals, classes,
  sequence, alternation, greedy repetition, anchors and word boundaries, tested with
  \<open>RegExp.prototype.test\<close>. \<open>Bolm\<close> and \<open>Eolm\<close> are the anchors under the flag \<open>m\<close>,
  and \<open>Ahead r\<close> is the lookahead \<open>(?=r)\<close>. The matcher \<open>rx_run\<close> returns every position a match can
  end at, and \<open>rx_run_iff\<close> shows that it computes the declarative relation \<open>rx_match\<close>.
  A position is the text already consumed, reversed, and the text that remains, so that the
  anchors see both sides. The flag \<open>i\<close> is \<open>rx_test_i\<close>: the pattern is written in lower
  case and the subject is lowered.
\<close>

section \<open>Syntax\<close>

datatype rx_item = One char | Between char char

datatype rx =
    Empty
  | Oneof "rx_item list"
  | Noneof "rx_item list"
  | Cat rx rx
  | Or rx rx
  | Many rx
  | Bol
  | Eol
  | Wordb
  | Bolm
  | Eolm
  | Ahead rx

fun item_match :: "char \<Rightarrow> rx_item \<Rightarrow> bool" where
  "item_match c (One d) = (c = d)"
| "item_match c (Between lo hi) =
     ((of_char lo :: nat) \<le> of_char c \<and> (of_char c :: nat) \<le> of_char hi)"

definition class_match :: "rx_item list \<Rightarrow> char \<Rightarrow> bool" where
  "class_match items c = list_ex (item_match c) items"

text \<open>\<open>\w\<close>, \<open>\d\<close>, \<open>\s\<close> and the dot, which matches no line terminator.\<close>

definition word_items :: "rx_item list" where
  "word_items = [Between CHR ''a'' CHR ''z'', Between CHR ''A'' CHR ''Z'',
     Between CHR ''0'' CHR ''9'', One CHR ''_'']"

definition digit_items :: "rx_item list" where
  "digit_items = [Between CHR ''0'' CHR ''9'']"

definition space_items :: "rx_item list" where
  "space_items = [One CHR '' '', Between CHR 0x09 CHR 0x0D]"

definition line_terminators :: "rx_item list" where
  "line_terminators = [One CHR 0x0A, One CHR 0x0D]"

definition Dot :: rx where
  "Dot = Noneof line_terminators"

fun Lit :: "string \<Rightarrow> rx" where
  "Lit [] = Empty"
| "Lit [c] = Oneof [One c]"
| "Lit (c # cs) = Cat (Oneof [One c]) (Lit cs)"

fun Seq :: "rx list \<Rightarrow> rx" where
  "Seq [] = Empty"
| "Seq [r] = r"
| "Seq (r # rs) = Cat r (Seq rs)"

fun Alt :: "rx list \<Rightarrow> rx" where
  "Alt [] = Oneof []"
| "Alt [r] = r"
| "Alt (r # rs) = Or r (Alt rs)"

definition Opt :: "rx \<Rightarrow> rx" where
  "Opt r = Or r Empty"

definition Plus :: "rx \<Rightarrow> rx" where
  "Plus r = Cat r (Many r)"

text \<open>\<open>r{lo,lo+extra}\<close>\<close>

fun Repeat :: "nat \<Rightarrow> nat \<Rightarrow> rx \<Rightarrow> rx" where
  "Repeat (Suc lo) extra r = Cat r (Repeat lo extra r)"
| "Repeat 0 (Suc extra) r = Opt (Cat r (Repeat 0 extra r))"
| "Repeat 0 0 r = Empty"

text \<open>\<open>r{lo,}\<close>\<close>

definition AtLeast :: "nat \<Rightarrow> rx \<Rightarrow> rx" where
  "AtLeast lo r = Cat (Repeat lo 0 r) (Many r)"

section \<open>Matching\<close>

type_synonym pos = "string \<times> string"

definition is_word :: "string \<Rightarrow> bool" where
  "is_word s = (case s of [] \<Rightarrow> False | c # _ \<Rightarrow> class_match word_items c)"

definition at_line_end :: "string \<Rightarrow> bool" where
  "at_line_end s = (case s of [] \<Rightarrow> True | c # _ \<Rightarrow> class_match line_terminators c)"

function rx_run :: "rx \<Rightarrow> pos \<Rightarrow> pos list" where
  "rx_run Empty p = [p]"
| "rx_run (Oneof cs) p =
     (case snd p of [] \<Rightarrow> [] | c # s \<Rightarrow> if class_match cs c then [(c # fst p, s)] else [])"
| "rx_run (Noneof cs) p =
     (case snd p of [] \<Rightarrow> [] | c # s \<Rightarrow> if class_match cs c then [] else [(c # fst p, s)])"
| "rx_run (Cat a b) p = concat (map (rx_run b) (rx_run a p))"
| "rx_run (Or a b) p = rx_run a p @ rx_run b p"
| "rx_run (Many a) p =
     concat (map (rx_run (Many a)) (filter (\<lambda>q. length (snd q) < length (snd p)) (rx_run a p))) @ [p]"
| "rx_run Bol p = (if fst p = [] then [p] else [])"
| "rx_run Eol p = (if snd p = [] then [p] else [])"
| "rx_run Wordb p = (if is_word (fst p) \<noteq> is_word (snd p) then [p] else [])"
| "rx_run Bolm p = (if at_line_end (fst p) then [p] else [])"
| "rx_run Eolm p = (if at_line_end (snd p) then [p] else [])"
| "rx_run (Ahead a) p = (if rx_run a p = [] then [] else [p])"
  by pat_completeness auto
termination
  by (relation "measures [\<lambda>(r, p). size r, \<lambda>(r, p). length (snd p)]") auto

declare rx_run.simps(6) [simp del]

fun rx_search :: "rx \<Rightarrow> string \<Rightarrow> string \<Rightarrow> bool" where
  "rx_search r done [] = (rx_run r (done, []) \<noteq> [])"
| "rx_search r done (c # s) = (rx_run r (done, c # s) \<noteq> [] \<or> rx_search r (c # done) s)"

definition rx_test :: "rx \<Rightarrow> string \<Rightarrow> bool" where
  "rx_test r s = rx_search r [] s"

definition rx_test_i :: "rx \<Rightarrow> string \<Rightarrow> bool" where
  "rx_test_i r s = rx_test r (toLowerCase s)"

text \<open>
  \<open>String.prototype.replace\<close> with the flag \<open>g\<close>. The end positions are listed in the order the
  backtracking matcher tries them (greedy repetition first, alternatives from left to right), so
  the first one is the match. \<open>canon\<close> is the identity, or \<open>lower_char\<close> under the flag \<open>i\<close>.
\<close>

function rx_replace :: "(char \<Rightarrow> char) \<Rightarrow> rx \<Rightarrow> string \<Rightarrow> string \<Rightarrow> string \<Rightarrow> string" where
  "rx_replace canon r repl done [] = (if rx_run r (done, []) = [] then [] else repl)"
| "rx_replace canon r repl done (c # s) =
     (case rx_run r (done, map canon (c # s)) of
        [] \<Rightarrow> c # rx_replace canon r repl (canon c # done) s
      | q # _ \<Rightarrow>
          (let k = length (c # s) - length (snd q)
           in if k = 0 then repl @ c # rx_replace canon r repl (canon c # done) s
              else repl @ rx_replace canon r repl (fst q) (drop k (c # s))))"
  by pat_completeness auto
termination
  by (relation "measure (\<lambda>(_, _, _, _, s). length s)") auto

definition replace_all :: "rx \<Rightarrow> string \<Rightarrow> string \<Rightarrow> string" where
  "replace_all r repl s = rx_replace (\<lambda>c. c) r repl [] s"

definition replace_all_i :: "rx \<Rightarrow> string \<Rightarrow> string \<Rightarrow> string" where
  "replace_all_i r repl s = rx_replace lower_char r repl [] s"

text \<open>How often the replacement is made, as a replacer function sees it.\<close>

function rx_replacements :: "(char \<Rightarrow> char) \<Rightarrow> rx \<Rightarrow> string \<Rightarrow> string \<Rightarrow> nat" where
  "rx_replacements canon r done [] = (if rx_run r (done, []) = [] then 0 else 1)"
| "rx_replacements canon r done (c # s) =
     (case rx_run r (done, map canon (c # s)) of
        [] \<Rightarrow> rx_replacements canon r (canon c # done) s
      | q # _ \<Rightarrow>
          (let k = length (c # s) - length (snd q)
           in if k = 0 then Suc (rx_replacements canon r (canon c # done) s)
              else Suc (rx_replacements canon r (fst q) (drop k (c # s)))))"
  by pat_completeness auto
termination
  by (relation "measure (\<lambda>(_, _, _, s). length s)") auto

lemma rx_replacements_none:
  "rx_replacements canon r done s = 0 \<longleftrightarrow> \<not> rx_search r done (map canon s)"
proof (induction canon r "done" s rule: rx_replacements.induct)
  case (2 canon r "done" c s)
  then show ?case by (cases "rx_run r (done, map canon (c # s))") (auto simp: Let_def)
qed simp

lemma rx_replace_none:
  "\<not> rx_search r done (map canon s) \<Longrightarrow> rx_replace canon r repl done s = s"
proof (induction canon r repl "done" s rule: rx_replace.induct)
  case (2 canon r repl "done" c s)
  then show ?case by (cases "rx_run r (done, map canon (c # s))") auto
qed auto

text \<open>Without the flag \<open>g\<close> only the first match is replaced.\<close>

fun rx_replace_first :: "rx \<Rightarrow> string \<Rightarrow> string \<Rightarrow> string \<Rightarrow> string" where
  "rx_replace_first r repl done [] = (if rx_run r (done, []) = [] then [] else repl)"
| "rx_replace_first r repl done (c # s) =
     (case rx_run r (done, c # s) of
        [] \<Rightarrow> c # rx_replace_first r repl (c # done) s
      | q # _ \<Rightarrow> repl @ snd q)"

definition replace_first :: "rx \<Rightarrow> string \<Rightarrow> string \<Rightarrow> string" where
  "replace_first r repl s = rx_replace_first r repl [] s"

section \<open>The declarative relation and the correctness of the matcher\<close>

inductive rx_match :: "rx \<Rightarrow> pos \<Rightarrow> pos \<Rightarrow> bool" where
  empty: "rx_match Empty p p"
| oneof: "class_match cs c \<Longrightarrow> rx_match (Oneof cs) (d, c # s) (c # d, s)"
| noneof: "\<not> class_match cs c \<Longrightarrow> rx_match (Noneof cs) (d, c # s) (c # d, s)"
| cat: "rx_match a p q \<Longrightarrow> rx_match b q r \<Longrightarrow> rx_match (Cat a b) p r"
| or1: "rx_match a p q \<Longrightarrow> rx_match (Or a b) p q"
| or2: "rx_match b p q \<Longrightarrow> rx_match (Or a b) p q"
| many0: "rx_match (Many a) p p"
| many1: "rx_match a p q \<Longrightarrow> rx_match (Many a) q r \<Longrightarrow> rx_match (Many a) p r"
| bol: "rx_match Bol ([], s) ([], s)"
| eol: "rx_match Eol (d, []) (d, [])"
| wordb: "is_word d \<noteq> is_word s \<Longrightarrow> rx_match Wordb (d, s) (d, s)"
| bolm: "at_line_end d \<Longrightarrow> rx_match Bolm (d, s) (d, s)"
| eolm: "at_line_end s \<Longrightarrow> rx_match Eolm (d, s) (d, s)"
| ahead: "rx_match a p q \<Longrightarrow> rx_match (Ahead a) p p"

inductive_cases rx_match_elims:
  "rx_match Empty p q"
  "rx_match (Oneof cs) p q"
  "rx_match (Noneof cs) p q"
  "rx_match (Cat a b) p q"
  "rx_match (Or a b) p q"
  "rx_match Bol p q"
  "rx_match Eol p q"
  "rx_match Wordb p q"
  "rx_match Bolm p q"
  "rx_match Eolm p q"
  "rx_match (Ahead a) p q"

text \<open>A match only moves characters from the remaining text to the consumed one.\<close>

lemma rx_match_text: "rx_match r p q \<Longrightarrow> rev (fst q) @ snd q = rev (fst p) @ snd p"
  by (induction rule: rx_match.induct) auto

lemma rx_match_shrinks: "rx_match r p q \<Longrightarrow> length (snd q) \<le> length (snd p)"
  by (induction rule: rx_match.induct) auto

lemma rx_match_no_progress:
  assumes "rx_match r p q" "length (snd q) = length (snd p)"
  shows "q = p"
proof -
  have "rev (fst q) @ snd q = rev (fst p) @ snd p"
    by (rule rx_match_text [OF assms(1)])
  with assms(2) have "rev (fst q) = rev (fst p) \<and> snd q = snd p"
    by (simp add: append_eq_append_conv)
  then show ?thesis by (simp add: prod_eq_iff)
qed

lemma set_rx_run_many: "set (rx_run (Many a) p) =
    insert p (\<Union>m \<in> {m \<in> set (rx_run a p). length (snd m) < length (snd p)}. set (rx_run (Many a) m))"
  by (subst rx_run.simps(6)) simp

lemma rx_run_many_cases: "q \<in> set (rx_run (Many a) p) \<Longrightarrow> q = p \<or>
    (\<exists>m. m \<in> set (rx_run a p) \<and> length (snd m) < length (snd p) \<and> q \<in> set (rx_run (Many a) m))"
  by (subst (asm) set_rx_run_many) blast

lemma rx_run_many_refl: "p \<in> set (rx_run (Many a) p)"
  by (subst set_rx_run_many) blast

lemma rx_run_many_step: "m \<in> set (rx_run a p) \<Longrightarrow> length (snd m) < length (snd p) \<Longrightarrow>
    q \<in> set (rx_run (Many a) m) \<Longrightarrow> q \<in> set (rx_run (Many a) p)"
  by (subst set_rx_run_many) blast

lemma rx_match_oneof: "snd p = c # s \<Longrightarrow> class_match cs c \<Longrightarrow> rx_match (Oneof cs) p (c # fst p, s)"
  by (cases p) (simp add: rx_match.oneof)

lemma rx_match_noneof: "snd p = c # s \<Longrightarrow> \<not> class_match cs c \<Longrightarrow> rx_match (Noneof cs) p (c # fst p, s)"
  by (cases p) (simp add: rx_match.noneof)

lemma rx_match_bol: "fst p = [] \<Longrightarrow> rx_match Bol p p"
  by (cases p) (simp add: rx_match.bol)

lemma rx_match_eol: "snd p = [] \<Longrightarrow> rx_match Eol p p"
  by (cases p) (simp add: rx_match.eol)

lemma rx_match_wordb: "is_word (fst p) \<noteq> is_word (snd p) \<Longrightarrow> rx_match Wordb p p"
  by (cases p) (simp add: rx_match.wordb)

lemma rx_match_bolm: "at_line_end (fst p) \<Longrightarrow> rx_match Bolm p p"
  by (cases p) (simp add: rx_match.bolm)

lemma rx_match_eolm: "at_line_end (snd p) \<Longrightarrow> rx_match Eolm p p"
  by (cases p) (simp add: rx_match.eolm)

lemma rx_run_sound: "q \<in> set (rx_run r p) \<Longrightarrow> rx_match r p q"
proof (induction r p arbitrary: q rule: rx_run.induct)
  case (6 a p)
  from "6.prems" consider "q = p"
    | m where "m \<in> set (rx_run a p)" "length (snd m) < length (snd p)" "q \<in> set (rx_run (Many a) m)"
    by (auto dest: rx_run_many_cases)
  then show ?case
  proof cases
    case 1
    then show ?thesis by (simp add: rx_match.many0)
  next
    case 2
    have "rx_match a p m"
      by (rule "6.IH"(1)) (rule 2(1))
    moreover have "rx_match (Many a) m q"
      by (rule "6.IH"(2) [of m]) (use 2 in simp_all)
    ultimately show ?thesis by (rule rx_match.many1)
  qed
next
  case (4 a b p)
  from "4.prems" obtain m where m: "m \<in> set (rx_run a p)" "q \<in> set (rx_run b m)" by auto
  show ?case
    by (rule rx_match.cat [OF "4.IH"(1) [OF m(1)] "4.IH"(2) [OF m]])
next
  case (12 a p)
  then obtain m where "m \<in> set (rx_run a p)" "q = p"
    by (cases "rx_run a p") (auto split: if_splits)
  with rx_match.ahead [OF "12.IH" [OF this(1)]] show ?case by simp
qed (auto intro: rx_match.empty rx_match_oneof rx_match_noneof rx_match.cat rx_match.or1
    rx_match.or2 rx_match_bol rx_match_eol rx_match_wordb rx_match_bolm rx_match_eolm split: list.splits if_splits)

lemma rx_run_complete: "rx_match r p q \<Longrightarrow> q \<in> set (rx_run r p)"
proof (induction rule: rx_match.induct)
  case (many0 a p)
  show ?case by (rule rx_run_many_refl)
next
  case (many1 a p q r)
  show ?case
  proof (cases "length (snd q) < length (snd p)")
    case True
    with many1.IH show ?thesis by (blast intro: rx_run_many_step)
  next
    case False
    with rx_match_shrinks [OF many1.hyps(1)] have "q = p"
      by (intro rx_match_no_progress [OF many1.hyps(1)]) simp
    with many1.IH show ?thesis by simp
  qed
qed auto

theorem rx_run_iff: "q \<in> set (rx_run r p) \<longleftrightarrow> rx_match r p q"
  using rx_run_sound rx_run_complete by blast

lemma rx_run_nonempty_iff: "rx_run r p \<noteq> [] \<longleftrightarrow> (\<exists>q. rx_match r p q)"
  by (metis rx_run_iff all_not_in_conv set_empty)

lemma rx_search_iff:
  "rx_search r d s \<longleftrightarrow> (\<exists>u v q. s = u @ v \<and> rx_match r (rev u @ d, v) q)"
proof (induction s arbitrary: d)
  case Nil
  then show ?case by (simp add: rx_run_nonempty_iff)
next
  case (Cons c s)
  have "(\<exists>u v q. c # s = u @ v \<and> rx_match r (rev u @ d, v) q) \<longleftrightarrow>
      (\<exists>q. rx_match r (d, c # s) q) \<or> (\<exists>u v q. s = u @ v \<and> rx_match r (rev u @ c # d, v) q)"
    (is "?L \<longleftrightarrow> ?R")
  proof
    assume ?L
    then obtain u v q where uv: "c # s = u @ v" "rx_match r (rev u @ d, v) q" by blast
    show ?R
    proof (cases u)
      case Nil
      with uv have "rx_match r (d, c # s) q" by simp
      then show ?thesis by blast
    next
      case (Cons x u')
      with uv have "s = u' @ v \<and> rx_match r (rev u' @ c # d, v) q" by simp
      then show ?thesis by blast
    qed
  next
    assume ?R
    then show ?L
    proof
      assume "\<exists>q. rx_match r (d, c # s) q"
      then show ?L by (metis append_Nil rev.simps(1))
    next
      assume "\<exists>u v q. s = u @ v \<and> rx_match r (rev u @ c # d, v) q"
      then obtain u v q where "s = u @ v" "rx_match r (rev u @ c # d, v) q" by blast
      then have "c # s = (c # u) @ v \<and> rx_match r (rev (c # u) @ d, v) q" by simp
      then show ?L by blast
    qed
  qed
  then show ?case by (simp add: Cons.IH rx_run_nonempty_iff)
qed

theorem rx_test_iff: "rx_test r s \<longleftrightarrow> (\<exists>u v q. s = u @ v \<and> rx_match r (rev u, v) q)"
  by (simp add: rx_test_def rx_search_iff)

section \<open>Matches of literals, classes and alternatives\<close>

lemma rx_match_Lit: "rx_match (Lit w) (d, s) q \<longleftrightarrow> (\<exists>s'. s = w @ s' \<and> q = (rev w @ d, s'))"
proof (induction w arbitrary: d s rule: Lit.induct)
  case (3 c e w)
  then show ?case
    by (auto elim!: rx_match_elims intro!: rx_match.cat rx_match.oneof simp: class_match_def)
qed (auto elim!: rx_match_elims intro!: rx_match.intros simp: class_match_def)

lemma rx_match_Alt: "rx_match (Alt rs) p q \<longleftrightarrow> (\<exists>r\<in>set rs. rx_match r p q)"
  by (induction rs rule: Alt.induct)
    (auto elim!: rx_match_elims intro: rx_match.or1 rx_match.or2 simp: class_match_def)

lemma rx_match_Cat: "rx_match (Cat a b) p q \<longleftrightarrow> (\<exists>m. rx_match a p m \<and> rx_match b m q)"
  by (blast elim: rx_match_elims(4) intro: rx_match.cat)

lemma rx_match_class_many:
  "rx_match (Many (Oneof cs)) (d, s) q \<longleftrightarrow>
     (\<exists>u. s = u @ snd q \<and> fst q = rev u @ d \<and> list_all (class_match cs) u)"
proof
  have "r = Many (Oneof cs) \<Longrightarrow> \<exists>u. snd p = u @ snd q \<and> fst q = rev u @ fst p \<and> list_all (class_match cs) u"
    if "rx_match r p q" for r p q
    using that
  proof (induction rule: rx_match.induct)
    case (many1 a p q r)
    from many1.hyps(1) many1.prems obtain c s where c: "snd p = c # s" "q = (c # fst p, s)" "class_match cs c"
      by (auto elim!: rx_match_elims)
    from many1 obtain u where "s = u @ snd r" "fst r = rev u @ c # fst p" "list_all (class_match cs) u"
      using c by auto
    then show ?case using c by (intro exI [of _ "c # u"]) simp
  qed auto
  from this [of "Many (Oneof cs)" "(d, s)" q]
  show "rx_match (Many (Oneof cs)) (d, s) q \<Longrightarrow>
      \<exists>u. s = u @ snd q \<and> fst q = rev u @ d \<and> list_all (class_match cs) u" by simp
next
  have "list_all (class_match cs) u \<Longrightarrow> rx_match (Many (Oneof cs)) (d, u @ t) (rev u @ d, t)" for u d t
  proof (induction u arbitrary: d)
    case (Cons c u)
    have "rx_match (Oneof cs) (d, c # u @ t) (c # d, u @ t)"
      using Cons.prems by (simp add: rx_match.oneof)
    with Cons show ?case by (auto intro: rx_match.many1)
  qed (simp add: rx_match.many0)
  then show "\<exists>u. s = u @ snd q \<and> fst q = rev u @ d \<and> list_all (class_match cs) u \<Longrightarrow>
      rx_match (Many (Oneof cs)) (d, s) q" by (cases q) auto
qed

lemma rx_match_Or: "rx_match (Or a b) p q \<longleftrightarrow> rx_match a p q \<or> rx_match b p q"
  by (blast elim: rx_match_elims(5) intro: rx_match.or1 rx_match.or2)

lemma rx_match_Oneof: "rx_match (Oneof cs) (d, s) q \<longleftrightarrow> (\<exists>c t. s = c # t \<and> class_match cs c \<and> q = (c # d, t))"
  by (auto elim!: rx_match_elims intro: rx_match.oneof)

lemma rx_match_class_plus:
  "rx_match (Plus (Oneof cs)) (d, s) q \<longleftrightarrow>
     (\<exists>u. u \<noteq> [] \<and> s = u @ snd q \<and> fst q = rev u @ d \<and> list_all (class_match cs) u)" (is "?L \<longleftrightarrow> ?R")
proof
  assume ?L
  then obtain c t u where "s = c # t" "class_match cs c" "t = u @ snd q" "fst q = rev u @ c # d"
    "list_all (class_match cs) u"
    by (auto simp: Plus_def rx_match_Cat rx_match_Oneof rx_match_class_many)
  then have "c # u \<noteq> [] \<and> s = (c # u) @ snd q \<and> fst q = rev (c # u) @ d \<and> list_all (class_match cs) (c # u)"
    by simp
  then show ?R by blast
next
  assume ?R
  then obtain u where u: "u \<noteq> []" "s = u @ snd q" "fst q = rev u @ d" "list_all (class_match cs) u" by blast
  then obtain c v where "u = c # v" by (cases u) auto
  with u show ?L by (auto simp: Plus_def rx_match_Cat rx_match_Oneof rx_match_class_many)
qed

lemma rx_match_Empty: "rx_match Empty p q \<longleftrightarrow> q = p"
  by (auto elim: rx_match_elims(1) intro: rx_match.empty)

lemma rx_match_class_repeat:
  "rx_match (Repeat lo extra (Oneof cs)) (d, s) q \<longleftrightarrow>
     (\<exists>u. lo \<le> length u \<and> length u \<le> lo + extra \<and> s = u @ snd q \<and> fst q = rev u @ d \<and> list_all (class_match cs) u)"
proof (induction lo extra "Oneof cs" arbitrary: d s rule: Repeat.induct)
  case (1 lo extra)
  show ?case (is "?L \<longleftrightarrow> ?R")
  proof
    assume ?L
    then obtain c t u where "s = c # t" "class_match cs c" "lo \<le> length u" "length u \<le> lo + extra"
      "t = u @ snd q" "fst q = rev u @ c # d" "list_all (class_match cs) u"
      by (auto simp: rx_match_Cat rx_match_Oneof 1)
    then show ?R by (intro exI [of _ "c # u"]) simp
  next
    assume ?R
    then obtain u where u: "Suc lo \<le> length u" "length u \<le> Suc lo + extra" "s = u @ snd q" "fst q = rev u @ d"
      "list_all (class_match cs) u" by blast
    then obtain c v where "u = c # v" by (cases u) auto
    with u show ?L by (auto simp: rx_match_Cat rx_match_Oneof 1)
  qed
next
  case (2 extra)
  show ?case (is "?L \<longleftrightarrow> ?R")
  proof
    assume ?L
    then consider "q = (d, s)" | c t u where "s = c # t" "class_match cs c" "length u \<le> extra"
      "t = u @ snd q" "fst q = rev u @ c # d" "list_all (class_match cs) u"
      by (auto simp: Opt_def rx_match_Or rx_match_Empty rx_match_Cat rx_match_Oneof 2)
    then show ?R
    proof cases
      case 1
      then show ?thesis by (intro exI [of _ "[]"]) simp
    next
      case 2
      then show ?thesis by (intro exI [of _ "c # u"]) simp
    qed
  next
    assume ?R
    then obtain u where u: "length u \<le> Suc extra" "s = u @ snd q" "fst q = rev u @ d" "list_all (class_match cs) u"
      by auto
    then show ?L
    proof (cases u)
      case Nil
      with u show ?thesis by (cases q) (simp add: Opt_def rx_match_Or rx_match_Empty)
    next
      case (Cons c v)
      with u show ?thesis by (auto simp: Opt_def rx_match_Or rx_match_Cat rx_match_Oneof 2)
    qed
  qed
next
  case 3
  then show ?case by (cases q) (auto simp: rx_match_Empty)
qed

section \<open>Fully anchored patterns\<close>

definition rx_full :: "rx \<Rightarrow> string \<Rightarrow> bool" where
  "rx_full r s \<longleftrightarrow> rx_match r ([], s) (rev s, [])"

lemma rx_match_anchored_iff: "rx_match (Cat Bol (Cat r Eol)) p q \<longleftrightarrow>
    fst p = [] \<and> snd q = [] \<and> rx_match r p q"
  by (cases p; cases q) (auto elim!: rx_match_elims intro!: rx_match.intros)

lemma rx_test_anchored: "rx_test (Cat Bol (Cat r Eol)) s \<longleftrightarrow> rx_full r s"
proof
  assume "rx_test (Cat Bol (Cat r Eol)) s"
  then obtain u v q where "s = u @ v" "fst (rev u, v) = []" "snd q = []" "rx_match r (rev u, v) q"
    by (auto simp: rx_test_iff rx_match_anchored_iff)
  then have "rx_match r ([], s) q" "snd q = []" by auto
  moreover from this have "rev (fst q) = s" by (auto dest: rx_match_text)
  ultimately show "rx_full r s" by (cases q) (auto simp: rx_full_def)
next
  assume "rx_full r s"
  then have "rx_match (Cat Bol (Cat r Eol)) (rev [], s) (rev s, [])"
    by (simp add: rx_match_anchored_iff rx_full_def)
  then show "rx_test (Cat Bol (Cat r Eol)) s"
    unfolding rx_test_iff by (metis append_Nil)
qed

lemma rx_full_lit_plus: "rx_full (Cat (Lit w) (Plus (Oneof cs))) s \<longleftrightarrow>
    (\<exists>t. s = w @ t \<and> t \<noteq> [] \<and> list_all (class_match cs) t)"
  by (auto simp: rx_full_def rx_match_Cat rx_match_Lit rx_match_class_plus simp del: Lit.simps)

end
