(* ===== verification/Domain.thy ===== *)
theory Domain
  imports Prelude
begin

text \<open>
  The records of \<open>types.ts\<close> (and the collision report of \<open>signals/engine.ts\<close>) that the
  gate, the planner and the sweep read. Optional and nullable fields are options; field names
  carry a short prefix where two records share a name.
\<close>

datatype AdvisoryConclusion = Adv_success | Adv_neutral | Adv_action_required

datatype AdvisorySeverity = info | warning | critical

record AdvisoryFinding =
  f_code :: string
  f_title :: string
  f_severity :: AdvisorySeverity
  f_detail :: string
  f_action :: "string option"
  f_publicText :: "string option"

datatype AdvisoryTarget = Target_repository | Target_pull_request | Target_issue

record Advisory =
  adv_id :: string
  adv_targetType :: AdvisoryTarget
  adv_targetKey :: string
  adv_repoFullName :: string
  adv_pullNumber :: "nat option"
  adv_issueNumber :: "nat option"
  adv_headSha :: "string option"
  adv_conclusion :: AdvisoryConclusion
  adv_severity :: AdvisorySeverity
  adv_title :: string
  adv_summary :: string
  adv_findings :: "AdvisoryFinding list"
  adv_generatedAt :: string

text \<open>The label multipliers are an object of the registry, in the order of its keys.\<close>

record RepoTimeDecayOverrides =
  gracePeriodHours :: "rat option"
  sigmoidMidpointDays :: "rat option"
  sigmoidSteepness :: "rat option"
  minMultiplier :: "rat option"

record RegistryRepoConfig =
  cfg_repo :: string
  cfg_emissionShare :: rat
  cfg_issueDiscoveryShare :: rat
  cfg_labelMultipliers :: "(string \<times> rat) list"
  cfg_trustedLabelPipeline :: "bool option"
  cfg_maintainerCut :: rat
  cfg_defaultLabelMultiplier :: "rat option"
  cfg_fixedBaseScore :: "rat option"
  cfg_eligibilityMode :: "string option"
  cfg_timeDecay :: "RepoTimeDecayOverrides option"
  cfg_raw :: "(string \<times> json) list"

record RepositoryRecord =
  repo_fullName :: string
  repo_owner :: string
  repo_name :: string
  repo_installationId :: "nat option"
  repo_isInstalled :: bool
  repo_isRegistered :: bool
  repo_isPrivate :: bool
  repo_htmlUrl :: "string option"
  repo_defaultBranch :: "string option"
  repo_registryConfig :: "RegistryRepoConfig option"

record PullRequestRecord =
  pr_repoFullName :: string
  pr_number :: nat
  pr_title :: string
  pr_state :: string
  pr_authorLogin :: "string option"
  pr_authorAssociation :: "string option"
  pr_headSha :: "string option"
  pr_headRef :: "string option"
  pr_baseRef :: "string option"
  pr_htmlUrl :: "string option"
  pr_mergedAt :: "string option"
  pr_isDraft :: "bool option"
  pr_mergeableState :: "string option"
  pr_reviewDecision :: "string option"
  pr_body :: "string option"
  pr_createdAt :: "string option"
  pr_updatedAt :: "string option"
  pr_closedAt :: "string option"
  pr_labels :: "string list"
  pr_linkedIssues :: "nat list"
  pr_slopRisk :: "int option"
  pr_slopBand :: "string option"
  pr_mergeAttemptCount :: "nat option"
  pr_mergeBlockedSha :: "string option"
  pr_mergeBlockedReason :: "string option"

record IssueRecord =
  iss_repoFullName :: string
  iss_number :: nat
  iss_title :: string
  iss_state :: string
  iss_authorLogin :: "string option"
  iss_authorAssociation :: "string option"
  iss_htmlUrl :: "string option"
  iss_body :: "string option"
  iss_createdAt :: "string option"
  iss_updatedAt :: "string option"
  iss_closedAt :: "string option"
  iss_labels :: "string list"
  iss_linkedPrs :: "nat list"

record PullRequestFileRecord =
  file_repoFullName :: string
  file_pullNumber :: nat
  file_path :: string
  file_status :: "string option"
  file_additions :: int
  file_deletions :: int
  file_changes :: int
  file_previousFilename :: "string option"
  file_payload :: "(string \<times> json) list"

datatype CollisionItemType = Item_issue | Item_pull_request | Item_recent_merged_pull_request

record CollisionItem =
  item_type :: CollisionItemType
  item_number :: nat
  item_title :: string
  item_authorLogin :: "string option"
  item_htmlUrl :: "string option"
  item_labels :: "string list option"
  item_linkedIssues :: "nat list option"
  item_changedFiles :: "string list option"
  item_body :: "string option"

datatype CollisionRisk = Risk_low | Risk_medium | Risk_high

record CollisionCluster =
  cl_id :: string
  cl_risk :: CollisionRisk
  cl_reason :: string
  cl_items :: "CollisionItem list"

datatype GateRuleMode = gate_off | gate_advisory | gate_block

section \<open>Severities are ordered\<close>

fun severity_rank :: "AdvisorySeverity \<Rightarrow> nat" where
  "severity_rank info = 0"
| "severity_rank warning = 1"
| "severity_rank critical = 2"

lemma severity_rank_inject: "severity_rank a = severity_rank b \<Longrightarrow> a = b"
  by (cases a; cases b) auto

instantiation AdvisorySeverity :: linorder
begin

definition less_eq_AdvisorySeverity :: "AdvisorySeverity \<Rightarrow> AdvisorySeverity \<Rightarrow> bool" where
  "less_eq_AdvisorySeverity a b \<longleftrightarrow> severity_rank a \<le> severity_rank b"

definition less_AdvisorySeverity :: "AdvisorySeverity \<Rightarrow> AdvisorySeverity \<Rightarrow> bool" where
  "less_AdvisorySeverity a b \<longleftrightarrow> severity_rank a < severity_rank b"

instance
  by standard (auto simp: less_eq_AdvisorySeverity_def less_AdvisorySeverity_def
      dest: severity_rank_inject)

end

end
