(* ===== verification/Autonomy.thy ===== *)
theory Autonomy
  imports Prelude
begin

text \<open>
  The autonomy dial and the execution mode of the maintainer agent:
  \<open>settings/autonomy.ts\<close> and \<open>settings/agent-execution.ts\<close>, with the enumerations of
  \<open>types.ts\<close> they share. The levels are ordered from least to most autonomous.
\<close>

section \<open>Action classes and levels\<close>

datatype AutonomyLevel = observe | suggest | propose | auto_with_approval | auto

datatype AgentActionClass = review | request_changes | approve | merge | close | label

datatype AutoMergeMethod = Merge_commit | Squash | Rebase

definition AUTONOMY_LEVELS :: "AutonomyLevel list" where
  "AUTONOMY_LEVELS = [observe, suggest, propose, auto_with_approval, auto]"

definition AGENT_ACTION_CLASSES :: "AgentActionClass list" where
  "AGENT_ACTION_CLASSES = [review, request_changes, approve, merge, close, label]"

fun level_name :: "AutonomyLevel \<Rightarrow> string" where
  "level_name observe = ''observe''"
| "level_name suggest = ''suggest''"
| "level_name propose = ''propose''"
| "level_name auto_with_approval = ''auto_with_approval''"
| "level_name auto = ''auto''"

fun action_name :: "AgentActionClass \<Rightarrow> string" where
  "action_name review = ''review''"
| "action_name request_changes = ''request_changes''"
| "action_name approve = ''approve''"
| "action_name merge = ''merge''"
| "action_name close = ''close''"
| "action_name label = ''label''"

fun method_name :: "AutoMergeMethod \<Rightarrow> string" where
  "method_name Merge_commit = ''merge''"
| "method_name Squash = ''squash''"
| "method_name Rebase = ''rebase''"

text \<open>The rank of a level is its index in \<open>AUTONOMY_LEVELS\<close>.\<close>

fun level_rank :: "AutonomyLevel \<Rightarrow> nat" where
  "level_rank observe = 0"
| "level_rank suggest = 1"
| "level_rank propose = 2"
| "level_rank auto_with_approval = 3"
| "level_rank auto = 4"

lemma level_rank_inject: "level_rank a = level_rank b \<Longrightarrow> a = b"
  by (cases a; cases b) auto

instantiation AutonomyLevel :: linorder
begin

definition less_eq_AutonomyLevel :: "AutonomyLevel \<Rightarrow> AutonomyLevel \<Rightarrow> bool" where
  "less_eq_AutonomyLevel a b \<longleftrightarrow> level_rank a \<le> level_rank b"

definition less_AutonomyLevel :: "AutonomyLevel \<Rightarrow> AutonomyLevel \<Rightarrow> bool" where
  "less_AutonomyLevel a b \<longleftrightarrow> level_rank a < level_rank b"

instance
  by standard (auto simp: less_eq_AutonomyLevel_def less_AutonomyLevel_def dest: level_rank_inject)

end

lemma AUTONOMY_LEVELS_sorted: "sorted_wrt (<) AUTONOMY_LEVELS"
  by (simp add: AUTONOMY_LEVELS_def less_AutonomyLevel_def)

section \<open>autonomy.ts\<close>

type_synonym AutonomyPolicy = "AgentActionClass \<rightharpoonup> AutonomyLevel"

definition DEFAULT_AUTONOMY_LEVEL :: AutonomyLevel where
  "DEFAULT_AUTONOMY_LEVEL = observe"

text \<open>A missing policy (null or undefined) is \<open>None\<close>, an unset class is not in its domain.\<close>

definition resolveAutonomy :: "AutonomyPolicy option \<Rightarrow> AgentActionClass \<Rightarrow> AutonomyLevel" where
  "resolveAutonomy autonomy actionClass =
     nullish (case autonomy of None \<Rightarrow> None | Some p \<Rightarrow> p actionClass) DEFAULT_AUTONOMY_LEVEL"

definition isActingAutonomyLevel :: "AutonomyLevel \<Rightarrow> bool" where
  "isActingAutonomyLevel level \<longleftrightarrow> level = auto \<or> level = auto_with_approval"

definition isAgentConfigured :: "AutonomyPolicy option \<Rightarrow> bool" where
  "isAgentConfigured autonomy =
     list_ex (\<lambda>c. isActingAutonomyLevel (resolveAutonomy autonomy c)) AGENT_ACTION_CLASSES"

definition autonomyRequiresApproval :: "AutonomyLevel \<Rightarrow> bool" where
  "autonomyRequiresApproval level \<longleftrightarrow> level = auto_with_approval"

text \<open>The set of level names, with the level a member stands for.\<close>

definition level_of_name :: "string \<Rightarrow> AutonomyLevel option" where
  "level_of_name s = List.find (\<lambda>l. level_name l = s) AUTONOMY_LEVELS"

definition parsed_level :: "json \<Rightarrow> AutonomyLevel option" where
  "parsed_level v = (case v of JString s \<Rightarrow> level_of_name s | _ \<Rightarrow> None)"

definition normalizeAutonomyPolicy :: "json \<Rightarrow> AutonomyPolicy" where
  "normalizeAutonomyPolicy input =
     (case input of
        JObject record \<Rightarrow>
          foldl (\<lambda>policy c.
              (case parsed_level (jget record (action_name c)) of
                 None \<Rightarrow> policy
               | Some l \<Rightarrow> policy(c \<mapsto> l)))
            Map.empty AGENT_ACTION_CLASSES
      | _ \<Rightarrow> Map.empty)"

record AutoMaintainPolicy =
  am_requireApprovals :: int
  am_mergeMethod :: AutoMergeMethod

definition AUTO_MERGE_METHODS :: "AutoMergeMethod list" where
  "AUTO_MERGE_METHODS = [Merge_commit, Squash, Rebase]"

definition DEFAULT_AUTO_MAINTAIN_POLICY :: AutoMaintainPolicy where
  "DEFAULT_AUTO_MAINTAIN_POLICY = \<lparr>am_requireApprovals = 1, am_mergeMethod = Squash\<rparr>"

definition MAX_REQUIRE_APPROVALS :: int where
  "MAX_REQUIRE_APPROVALS = 10"

definition method_of_name :: "string \<Rightarrow> AutoMergeMethod option" where
  "method_of_name s = List.find (\<lambda>m. method_name m = s) AUTO_MERGE_METHODS"

definition normalizeAutoMaintainPolicy :: "json \<Rightarrow> AutoMaintainPolicy" where
  "normalizeAutoMaintainPolicy input =
     (case input of
        JObject record \<Rightarrow>
          \<lparr>am_requireApprovals =
             (case jget record ''requireApprovals'' of
                JNumber (Finite x) \<Rightarrow> min MAX_REQUIRE_APPROVALS (max 0 (js_trunc x))
              | _ \<Rightarrow> am_requireApprovals DEFAULT_AUTO_MAINTAIN_POLICY),
           am_mergeMethod =
             (case jget record ''mergeMethod'' of
                JString s \<Rightarrow> nullish (method_of_name s) (am_mergeMethod DEFAULT_AUTO_MAINTAIN_POLICY)
              | _ \<Rightarrow> am_mergeMethod DEFAULT_AUTO_MAINTAIN_POLICY)\<rparr>
      | _ \<Rightarrow> DEFAULT_AUTO_MAINTAIN_POLICY)"

section \<open>agent-execution.ts\<close>

definition PR_WRITE_ACTION_CLASSES :: "AgentActionClass list" where
  "PR_WRITE_ACTION_CLASSES = [review, request_changes, approve, merge, close]"

datatype AgentActionMode = paused | dry_run | live

fun mode_name :: "AgentActionMode \<Rightarrow> string" where
  "mode_name paused = ''paused''"
| "mode_name dry_run = ''dry_run''"
| "mode_name live = ''live''"

text \<open>\<open>/^(1|true|yes|on)$/i\<close> on the environment variable \<open>AGENT_ACTIONS_PAUSED\<close>.\<close>

definition truthy_flag :: "string \<Rightarrow> bool" where
  "truthy_flag s \<longleftrightarrow> toLowerCase s \<in> set [''1'', ''true'', ''yes'', ''on'']"

definition isGlobalAgentPause :: "string option \<Rightarrow> bool" where
  "isGlobalAgentPause AGENT_ACTIONS_PAUSED = truthy_flag (nullish AGENT_ACTIONS_PAUSED [])"

definition resolveAgentActionMode :: "bool \<Rightarrow> bool option \<Rightarrow> bool option \<Rightarrow> AgentActionMode" where
  "resolveAgentActionMode globalPaused agentPaused agentDryRun =
     (if globalPaused \<or> agentPaused = Some True then paused
      else if agentDryRun = Some True then dry_run
      else live)"

definition agentActionModeExecutes :: "AgentActionMode \<Rightarrow> bool" where
  "agentActionModeExecutes mode \<longleftrightarrow> mode = live"

datatype AuditOutcome = Audit_success | Audit_denied | Audit_error | Audit_queued | Audit_completed

text \<open>An audit event with its metadata as a list of named values, in the order written.\<close>

record AuditEventRecord =
  ae_eventType :: string
  ae_actor :: "string option"
  ae_targetKey :: "string option"
  ae_outcome :: AuditOutcome
  ae_detail :: "string option"
  ae_metadata :: "(string \<times> json) list"

definition buildAgentActionAudit ::
  "AgentActionClass \<Rightarrow> AutonomyLevel \<Rightarrow> AgentActionMode \<Rightarrow> AuditOutcome \<Rightarrow> string \<Rightarrow>
   string option \<Rightarrow> string option \<Rightarrow> string option \<Rightarrow> AuditEventRecord" where
  "buildAgentActionAudit actionClass autonomyLevel mode out repoFullName target who reason =
     \<lparr>ae_eventType = ''agent.action.'' @ action_name actionClass,
      ae_actor = who,
      ae_targetKey = Some (nullish target repoFullName),
      ae_outcome = out,
      ae_detail = reason,
      ae_metadata =
        [(''repoFullName'', JString repoFullName),
         (''actionClass'', JString (action_name actionClass)),
         (''autonomyLevel'', JString (level_name autonomyLevel)),
         (''mode'', JString (mode_name mode))]\<rparr>"

definition agentRequiresPrWrite :: "AutonomyPolicy option \<Rightarrow> bool" where
  "agentRequiresPrWrite autonomy =
     list_ex (\<lambda>c. isActingAutonomyLevel (resolveAutonomy autonomy c)) PR_WRITE_ACTION_CLASSES"

datatype AgentPermissionReadiness = not_required | ready | reconsent_required

definition resolveAgentPermissionReadiness ::
  "AutonomyPolicy option \<Rightarrow> (string \<rightharpoonup> string) option \<Rightarrow> AgentPermissionReadiness" where
  "resolveAgentPermissionReadiness autonomy installationPermissions =
     (if \<not> agentRequiresPrWrite autonomy then not_required
      else if (case installationPermissions of None \<Rightarrow> None | Some p \<Rightarrow> p ''pull_requests'')
                = Some ''write'' then ready
      else reconsent_required)"

section \<open>Lemmas\<close>

lemmas autonomy_level_defs = resolveAutonomy_def isActingAutonomyLevel_def
  autonomyRequiresApproval_def DEFAULT_AUTONOMY_LEVEL_def

lemma resolveAutonomy_None [simp]: "resolveAutonomy None c = observe"
  by (simp add: resolveAutonomy_def DEFAULT_AUTONOMY_LEVEL_def)

lemma resolveAutonomy_Some: "resolveAutonomy (Some p) c = nullish (p c) observe"
  by (simp add: resolveAutonomy_def DEFAULT_AUTONOMY_LEVEL_def)

lemma resolveAutonomy_empty: "resolveAutonomy (Some Map.empty) c = observe"
  by (simp add: resolveAutonomy_Some)

lemma acting_iff_level: "isActingAutonomyLevel l \<longleftrightarrow> auto_with_approval \<le> l"
  by (cases l) (simp_all add: isActingAutonomyLevel_def less_eq_AutonomyLevel_def)

lemma observe_not_acting [simp]: "\<not> isActingAutonomyLevel observe"
  by (simp add: isActingAutonomyLevel_def)

lemma AGENT_ACTION_CLASSES_all: "c \<in> set AGENT_ACTION_CLASSES"
  by (cases c) (simp_all add: AGENT_ACTION_CLASSES_def)

lemma isAgentConfigured_iff:
  "isAgentConfigured a \<longleftrightarrow> (\<exists>c. isActingAutonomyLevel (resolveAutonomy a c))"
  by (auto simp: isAgentConfigured_def list_ex_iff AGENT_ACTION_CLASSES_all)

lemma PR_WRITE_ACTION_CLASSES_iff: "c \<in> set PR_WRITE_ACTION_CLASSES \<longleftrightarrow> c \<noteq> label"
  by (cases c) (simp_all add: PR_WRITE_ACTION_CLASSES_def)

lemma agentRequiresPrWrite_iff:
  "agentRequiresPrWrite a \<longleftrightarrow> (\<exists>c. c \<noteq> label \<and> isActingAutonomyLevel (resolveAutonomy a c))"
  by (auto simp: agentRequiresPrWrite_def list_ex_iff PR_WRITE_ACTION_CLASSES_iff)

lemma level_of_name_level_name [simp]: "level_of_name (level_name l) = Some l"
  by (cases l) (simp_all add: level_of_name_def AUTONOMY_LEVELS_def)

lemma level_of_name_SomeD: "level_of_name s = Some l \<Longrightarrow> s = level_name l"
  by (auto simp: level_of_name_def dest: List_find_SomeD)

lemma method_of_name_method_name [simp]: "method_of_name (method_name m) = Some m"
  by (cases m) (simp_all add: method_of_name_def AUTO_MERGE_METHODS_def)

lemma action_name_inject: "action_name a = action_name b \<Longrightarrow> a = b"
  by (cases a; cases b) simp_all

text \<open>The loop over the classes assigns each class its own parsed level.\<close>

lemma foldl_assign: "distinct cs \<Longrightarrow>
    foldl (\<lambda>policy c. case f c of None \<Rightarrow> policy | Some l \<Rightarrow> policy(c \<mapsto> l)) m cs x =
      (if x \<in> set cs \<and> f x \<noteq> None then f x else m x)"
  by (induction cs arbitrary: m) (auto split: option.splits)

lemma normalizeAutonomyPolicy_object:
  "normalizeAutonomyPolicy (JObject record) c = parsed_level (jget record (action_name c))"
proof -
  have "distinct AGENT_ACTION_CLASSES" by (simp add: AGENT_ACTION_CLASSES_def)
  then show ?thesis
    by (simp add: normalizeAutonomyPolicy_def AGENT_ACTION_CLASSES_all
        foldl_assign [where f = "\<lambda>c. parsed_level (jget record (action_name c))"])
qed

lemma normalizeAutonomyPolicy_other:
  "\<nexists>r. input = JObject r \<Longrightarrow> normalizeAutonomyPolicy input = Map.empty"
  by (cases input) (simp_all add: normalizeAutonomyPolicy_def)

text \<open>The policy written back as a document, for the round trip.\<close>

definition policy_json :: "AutonomyPolicy \<Rightarrow> json" where
  "policy_json p = JObject (List.map_filter
     (\<lambda>c. map_option (\<lambda>l. (action_name c, JString (level_name l))) (p c)) AGENT_ACTION_CLASSES)"

lemma map_of_map_filter_inj:
  "distinct cs \<Longrightarrow> inj g \<Longrightarrow> c \<in> set cs \<Longrightarrow>
   map_of (List.map_filter (\<lambda>c. map_option (\<lambda>l. (g c, h l)) (p c)) cs) (g c) = map_option h (p c)"
proof (induction cs)
  case Nil
  then show ?case by simp
next
  case (Cons x cs)
  have absent: "map_of (List.map_filter (\<lambda>c. map_option (\<lambda>l. (g c, h l)) (p c)) ds) (g x) = None"
    if "x \<notin> set ds" for ds
    using that Cons.prems(2)
    by (induction ds) (auto simp: List.map_filter_simps dest: injD split: option.splits)
  show ?case
  proof (cases "c = x")
    case True
    with Cons.prems show ?thesis
      by (cases "p x") (simp_all add: List.map_filter_simps absent)
  next
    case False
    with Cons show ?thesis
      by (auto simp: List.map_filter_simps dest: injD split: option.splits)
  qed
qed

lemma parsed_level_iff: "parsed_level v = Some l \<longleftrightarrow> v = JString (level_name l)"
  by (cases v) (auto simp: parsed_level_def dest: level_of_name_SomeD)

lemma acting_normalized:
  "isActingAutonomyLevel (resolveAutonomy (Some (normalizeAutonomyPolicy (JObject r))) c) \<longleftrightarrow>
     (\<exists>l. jget r (action_name c) = JString (level_name l) \<and> auto_with_approval \<le> l)"
  by (cases "parsed_level (jget r (action_name c))")
    (auto simp: resolveAutonomy_Some normalizeAutonomyPolicy_object acting_iff_level
      parsed_level_iff [symmetric] less_eq_AutonomyLevel_def)

lemma normalizeAutonomyPolicy_json: "normalizeAutonomyPolicy (policy_json p) = p"
proof
  have inj: "inj action_name" by (rule injI) (rule action_name_inject)
  have dist: "distinct AGENT_ACTION_CLASSES" by (simp add: AGENT_ACTION_CLASSES_def)
  show "normalizeAutonomyPolicy (policy_json p) c = p c" for c
    using map_of_map_filter_inj [OF dist inj AGENT_ACTION_CLASSES_all, of "\<lambda>l. JString (level_name l)" p c]
    by (cases "p c") (simp_all add: policy_json_def normalizeAutonomyPolicy_object jget_def parsed_level_def)
qed

lemma normalizeAutoMaintainPolicy_bounds:
  "0 \<le> am_requireApprovals (normalizeAutoMaintainPolicy input) \<and>
   am_requireApprovals (normalizeAutoMaintainPolicy input) \<le> 10"
  by (auto simp: normalizeAutoMaintainPolicy_def MAX_REQUIRE_APPROVALS_def
      DEFAULT_AUTO_MAINTAIN_POLICY_def split: json.splits js_num.splits)

section \<open>Properties\<close>

text \<open>
  Parsing an untyped value into an autonomy policy is deny by default and loses nothing: only
  an object can enable a class, a class is enabled exactly at the level its own field names, and
  a policy written as a document is read back unchanged.
\<close>

theorem autonomy_policy_parse:
  "normalizeAutonomyPolicy (policy_json p) = p \<and>
   (isAgentConfigured (Some (normalizeAutonomyPolicy input)) \<longleftrightarrow>
     (\<exists>record c l. input = JObject record \<and> jget record (action_name c) = JString (level_name l) \<and>
        auto_with_approval \<le> l))"
proof
  show "normalizeAutonomyPolicy (policy_json p) = p" by (rule normalizeAutonomyPolicy_json)
  show "isAgentConfigured (Some (normalizeAutonomyPolicy input)) \<longleftrightarrow>
     (\<exists>record c l. input = JObject record \<and> jget record (action_name c) = JString (level_name l) \<and>
        auto_with_approval \<le> l)"
  proof (cases "\<exists>r. input = JObject r")
    case True
    then obtain r where "input = JObject r" by blast
    then show ?thesis by (simp add: isAgentConfigured_iff acting_normalized)
  next
    case False
    then show ?thesis
      by (simp add: isAgentConfigured_iff normalizeAutonomyPolicy_other resolveAutonomy_empty)
  qed
qed

text \<open>
  whatever document the auto-maintain policy is read from, the number of approvals it asks for
  lies between 0 and 10; an integral number is clamped to that band, and anything else (no object,
  a missing field, a string, an infinity, NaN) asks for the conservative single approval.
\<close>

theorem auto_maintain_policy_bounds:
  "0 \<le> am_requireApprovals (normalizeAutoMaintainPolicy input) \<and>
   am_requireApprovals (normalizeAutoMaintainPolicy input) \<le> 10 \<and>
   am_requireApprovals (normalizeAutoMaintainPolicy
     (JObject ((''requireApprovals'', JNumber (Finite (of_int n))) # fs))) = clamp_int 0 10 n \<and>
   ((\<exists>r x. input = JObject r \<and> jget r ''requireApprovals'' = JNumber (Finite x)) \<or>
    am_requireApprovals (normalizeAutoMaintainPolicy input) = 1)"
proof -
  have "am_requireApprovals (normalizeAutoMaintainPolicy (JObject ((''requireApprovals'', JNumber (Finite (of_int n))) # fs)))
      = clamp_int 0 10 n"
    by (simp add: normalizeAutoMaintainPolicy_def jget_def MAX_REQUIRE_APPROVALS_def clamp_int_def)
  then show ?thesis
    by (auto simp: normalizeAutoMaintainPolicy_def MAX_REQUIRE_APPROVALS_def
        DEFAULT_AUTO_MAINTAIN_POLICY_def split: json.splits js_num.splits)
qed

end
