(* ===== verification/Store.thy ===== *)
theory Store
  imports Js_Regex Domain Autonomy
begin

text \<open>
  The part of the D1 store (\<open>db/repositories.ts\<close>, table shapes from \<open>db/schema.ts\<close>) that the
  maintenance agent reads and writes: cached pull requests, staged actions, notification
  deliveries and the audit log. A table is the list of its rows in order of insertion. The
  clock and the source of fresh ids are functions of a counter, an operation reads the clock
  once (the source calls \<open>nowIso()\<close> per column of the same statement), and database calls succeed.
\<close>

section \<open>Rows\<close>

text \<open>The payload column of a pull request, and the row itself.\<close>

record PullPayload =
  pl_body :: "string option"
  pl_created_at :: "string option"
  pl_updated_at :: "string option"
  pl_closed_at :: "string option"
  pl_draft :: "bool option"
  pl_mergeable_state :: "string option"
  pl_reviewDecision :: "string option"

record PullRow =
  row_id :: string
  row_repoFullName :: string
  row_number :: nat
  row_title :: string
  row_state :: string
  row_authorLogin :: "string option"
  row_authorAssociation :: "string option"
  row_headSha :: "string option"
  row_headRef :: "string option"
  row_baseRef :: "string option"
  row_mergedAt :: "string option"
  row_htmlUrl :: "string option"
  row_labels :: "string list"
  row_linkedIssues :: "nat list"
  row_lastSeenOpenAt :: "string option"
  row_payload :: PullPayload
  row_slopRisk :: "int option"
  row_slopBand :: "string option"
  row_mergeAttemptCount :: nat
  row_mergeBlockedSha :: "string option"
  row_mergeBlockedReason :: "string option"
  row_createdAt :: string
  row_updatedAt :: string

record AgentPendingActionParams =
  pap_label :: "string option"
  pap_reviewBody :: "string option"
  pap_mergeMethod :: "AutoMergeMethod option"
  pap_closeComment :: "string option"

datatype AgentPendingActionStatus = status_pending | status_accepted | status_rejected

record AgentPendingActionRecord =
  pend_id :: string
  pend_repoFullName :: string
  pend_pullNumber :: nat
  pend_installationId :: nat
  pend_actionClass :: AgentActionClass
  pend_autonomyLevel :: AutonomyLevel
  pend_params :: AgentPendingActionParams
  pend_reason :: "string option"
  pend_status :: AgentPendingActionStatus
  pend_decidedBy :: "string option"
  pend_decidedAt :: "string option"
  pend_createdAt :: string
  pend_updatedAt :: string

datatype NotificationChannel = badge | email

datatype NotificationDeliveryStatus = note_pending | note_delivered | note_read | note_suppressed

record NotificationDeliveryRecord =
  note_id :: string
  note_dedupKey :: string
  note_channel :: NotificationChannel
  note_recipientLogin :: string
  note_eventType :: string
  note_repoFullName :: string
  note_pullNumber :: "nat option"
  note_title :: string
  note_body :: string
  note_deeplink :: string
  note_actorLogin :: "string option"
  note_status :: NotificationDeliveryStatus
  note_createdAt :: string
  note_deliveredAt :: "string option"
  note_readAt :: "string option"

text \<open>A row of the audit log: the event with its id and time.\<close>

record AuditRow =
  au_id :: string
  au_createdAt :: string
  au_event :: AuditEventRecord

record Store =
  pull_requests :: "PullRow list"
  agent_pending_actions :: "AgentPendingActionRecord list"
  notification_deliveries :: "NotificationDeliveryRecord list"
  audit_events :: "AuditRow list"
  uuid_source :: "nat \<Rightarrow> string"
  clock :: "nat \<Rightarrow> string"
  ticks :: nat

text \<open>The next id and the current time; each read advances the counter.\<close>

definition randomUUID :: "Store \<Rightarrow> string \<times> Store" where
  "randomUUID s = (uuid_source s (ticks s), s\<lparr>ticks := Suc (ticks s)\<rparr>)"

definition nowIso :: "Store \<Rightarrow> string \<times> Store" where
  "nowIso s = (clock s (ticks s), s\<lparr>ticks := Suc (ticks s)\<rparr>)"

section \<open>Pull requests\<close>

text \<open>The payload of a webhook or of a REST read.\<close>

record GitHubPullRequestPayload =
  gp_number :: nat
  gp_title :: string
  gp_state :: string
  gp_html_url :: "string option"
  gp_merged_at :: "string option"
  gp_draft :: "bool option"
  gp_isDraft :: "bool option"
  gp_mergeable :: "bool option"
  gp_mergeable_state :: "string option"
  gp_mergeableState :: "string option"
  gp_reviewDecision :: "string option"
  gp_created_at :: "string option"
  gp_updated_at :: "string option"
  gp_closed_at :: "string option"
  gp_user_login :: "string option"
  gp_author_association :: "string option"
  gp_head_sha :: "string option"
  gp_head_ref :: "string option"
  gp_base_ref :: "string option"
  gp_labels :: "string option list"
  gp_body :: "string option"

definition orElse :: "'a option \<Rightarrow> 'a option \<Rightarrow> 'a option" where
  "orElse x y = (case x of None \<Rightarrow> y | Some v \<Rightarrow> Some v)"

fun mergeableBooleanState :: "bool option \<Rightarrow> string option" where
  "mergeableBooleanState (Some True) = Some ''mergeable''"
| "mergeableBooleanState (Some False) = Some ''blocked''"
| "mergeableBooleanState None = None"

text \<open>
  \<open>/\b(?:close[sd]?|fix(?:e[sd])?|resolve[sd]?)\s+#(\d+)\b/gi\<close>. A match ends with its group, so
  the group is what follows the \<open>#\<close> of the matched text.
\<close>

definition CLOSING_REFERENCE :: rx where
  "CLOSING_REFERENCE = Seq [Wordb,
     Alt [Seq [Lit ''close'', Opt (Oneof [One CHR ''s'', One CHR ''d''])],
          Seq [Lit ''fix'', Opt (Seq [Lit ''e'', Oneof [One CHR ''s'', One CHR ''d'']])],
          Seq [Lit ''resolve'', Opt (Oneof [One CHR ''s'', One CHR ''d''])]],
     Plus (Oneof space_items), Lit ''#'', Plus (Oneof digit_items), Wordb]"

text \<open>The texts matched by \<open>matchAll\<close>, from left to right; no match of the pattern is empty.\<close>

function rx_match_all :: "rx \<Rightarrow> string \<Rightarrow> string \<Rightarrow> string list" where
  "rx_match_all r done [] = []"
| "rx_match_all r done (c # s) =
     (case rx_run r (done, c # s) of
        [] \<Rightarrow> rx_match_all r (c # done) s
      | q # _ \<Rightarrow>
          (let k = length (c # s) - length (snd q)
           in if k = 0 then rx_match_all r (c # done) s
              else take k (c # s) # rx_match_all r (fst q) (drop k (c # s))))"
  by pat_completeness auto
termination
  by (relation "measure (\<lambda>(r, d, s). length s)") auto

fun decimal_value :: "nat \<Rightarrow> string \<Rightarrow> nat" where
  "decimal_value acc [] = acc"
| "decimal_value acc (c # cs) = decimal_value (10 * acc + (of_char c - 48)) cs"

definition extractLinkedIssueNumbers :: "string \<Rightarrow> nat list" where
  "extractLinkedIssueNumbers text =
     dedupe (filter (\<lambda>n. n > 0)
       (map (\<lambda>m. decimal_value 0 (tl (dropWhile (\<lambda>c. c \<noteq> CHR ''#'') m)))
         (rx_match_all CLOSING_REFERENCE [] (toLowerCase text))))"

definition payload_labels :: "GitHubPullRequestPayload \<Rightarrow> string list" where
  "payload_labels pr = concat (map (\<lambda>l. case l of None \<Rightarrow> [] | Some n \<Rightarrow> if n = [] then [] else [n]) (gp_labels pr))"

definition toPullRequestRecord :: "string \<Rightarrow> GitHubPullRequestPayload \<Rightarrow> PullRequestRecord" where
  "toPullRequestRecord repoFullName pr =
     \<lparr>pr_repoFullName = repoFullName, pr_number = gp_number pr, pr_title = gp_title pr,
      pr_state = gp_state pr, pr_authorLogin = gp_user_login pr,
      pr_authorAssociation = gp_author_association pr, pr_headSha = gp_head_sha pr,
      pr_headRef = gp_head_ref pr, pr_baseRef = gp_base_ref pr, pr_htmlUrl = gp_html_url pr,
      pr_mergedAt = gp_merged_at pr, pr_isDraft = orElse (gp_draft pr) (gp_isDraft pr),
      pr_mergeableState = orElse (gp_mergeable_state pr)
        (orElse (gp_mergeableState pr) (mergeableBooleanState (gp_mergeable pr))),
      pr_reviewDecision = gp_reviewDecision pr, pr_body = gp_body pr,
      pr_createdAt = None, pr_updatedAt = None, pr_closedAt = None,
      pr_labels = payload_labels pr,
      pr_linkedIssues = extractLinkedIssueNumbers (nullish (gp_body pr) []),
      pr_slopRisk = None, pr_slopBand = None, pr_mergeAttemptCount = None,
      pr_mergeBlockedSha = None, pr_mergeBlockedReason = None\<rparr>"

definition MAX_STORED_BODY_CHARS :: nat where
  "MAX_STORED_BODY_CHARS = 4000"

definition truncateBody :: "string option \<Rightarrow> string option" where
  "truncateBody body = map_option (take MAX_STORED_BODY_CHARS) body"

definition compactGitHubPayload :: "GitHubPullRequestPayload \<Rightarrow> PullPayload" where
  "compactGitHubPayload pr =
     \<lparr>pl_body = truncateBody (gp_body pr), pl_created_at = gp_created_at pr,
      pl_updated_at = gp_updated_at pr, pl_closed_at = gp_closed_at pr,
      pl_draft = orElse (gp_draft pr) (gp_isDraft pr),
      pl_mergeable_state = orElse (gp_mergeable_state pr)
        (orElse (gp_mergeableState pr) (mergeableBooleanState (gp_mergeable pr))),
      pl_reviewDecision = gp_reviewDecision pr\<rparr>"

definition toPullRequestRecordFromRow :: "PullRow \<Rightarrow> PullRequestRecord" where
  "toPullRequestRecordFromRow row =
     \<lparr>pr_repoFullName = row_repoFullName row, pr_number = row_number row, pr_title = row_title row,
      pr_state = row_state row, pr_authorLogin = row_authorLogin row,
      pr_authorAssociation = row_authorAssociation row, pr_headSha = row_headSha row,
      pr_headRef = row_headRef row, pr_baseRef = row_baseRef row, pr_htmlUrl = row_htmlUrl row,
      pr_mergedAt = row_mergedAt row, pr_isDraft = pl_draft (row_payload row),
      pr_mergeableState = pl_mergeable_state (row_payload row),
      pr_reviewDecision = pl_reviewDecision (row_payload row), pr_body = pl_body (row_payload row),
      pr_createdAt = pl_created_at (row_payload row),
      pr_updatedAt = orElse (pl_updated_at (row_payload row)) (Some (row_updatedAt row)),
      pr_closedAt = pl_closed_at (row_payload row), pr_labels = row_labels row,
      pr_linkedIssues = row_linkedIssues row, pr_slopRisk = row_slopRisk row,
      pr_slopBand = row_slopBand row, pr_mergeAttemptCount = Some (row_mergeAttemptCount row),
      pr_mergeBlockedSha = row_mergeBlockedSha row,
      pr_mergeBlockedReason = row_mergeBlockedReason row\<rparr>"

definition pull_key :: "PullRow \<Rightarrow> string \<times> nat" where
  "pull_key row = (row_repoFullName row, row_number row)"

text \<open>
  The upsert of a synced pull request. The set clause skips a column whose value is \<open>undefined\<close>,
  and never touches the slop and merge columns.
\<close>

definition update_synced :: "GitHubPullRequestPayload \<Rightarrow> string list \<Rightarrow> nat list \<Rightarrow> string option \<Rightarrow> string \<Rightarrow> PullRow \<Rightarrow> PullRow" where
  "update_synced pr ls issues seenOpen now row =
     row\<lparr>row_title := gp_title pr, row_state := gp_state pr,
       row_authorLogin := orElse (gp_user_login pr) (row_authorLogin row),
       row_authorAssociation := orElse (gp_author_association pr) (row_authorAssociation row),
       row_headSha := orElse (gp_head_sha pr) (row_headSha row),
       row_headRef := orElse (gp_head_ref pr) (row_headRef row),
       row_baseRef := orElse (gp_base_ref pr) (row_baseRef row),
       row_mergedAt := orElse (gp_merged_at pr) (row_mergedAt row),
       row_htmlUrl := orElse (gp_html_url pr) (row_htmlUrl row),
       row_labels := ls, row_linkedIssues := issues, row_lastSeenOpenAt := seenOpen,
       row_payload := compactGitHubPayload pr, row_updatedAt := now\<rparr>"

definition new_pull_row ::
  "string \<Rightarrow> GitHubPullRequestPayload \<Rightarrow> string list \<Rightarrow> nat list \<Rightarrow> string option \<Rightarrow> string \<Rightarrow> PullRow" where
  "new_pull_row repoFullName pr ls issues seenOpen now =
     \<lparr>row_id = repoFullName @ ''#'' @ nat_str (gp_number pr), row_repoFullName = repoFullName,
      row_number = gp_number pr, row_title = gp_title pr, row_state = gp_state pr,
      row_authorLogin = gp_user_login pr, row_authorAssociation = gp_author_association pr,
      row_headSha = gp_head_sha pr, row_headRef = gp_head_ref pr, row_baseRef = gp_base_ref pr,
      row_mergedAt = gp_merged_at pr, row_htmlUrl = gp_html_url pr, row_labels = ls,
      row_linkedIssues = issues, row_lastSeenOpenAt = seenOpen,
      row_payload = compactGitHubPayload pr, row_slopRisk = None, row_slopBand = None,
      row_mergeAttemptCount = 0, row_mergeBlockedSha = None, row_mergeBlockedReason = None,
      row_createdAt = now, row_updatedAt = now\<rparr>"

definition upsertPullRequestFromGitHub ::
  "string \<Rightarrow> GitHubPullRequestPayload \<Rightarrow> string option \<Rightarrow> Store \<Rightarrow> PullRequestRecord \<times> Store" where
  "upsertPullRequestFromGitHub repoFullName pr seenOpenAt s =
     (let rec = toPullRequestRecord repoFullName pr;
          (now, s1) = nowIso s;
          seenOpen = (if gp_state pr = ''open'' then Some (nullish seenOpenAt now) else None);
          key = (repoFullName, gp_number pr);
          rows = (if key \<in> set (map pull_key (pull_requests s1))
                  then map (\<lambda>row. if pull_key row = key
                      then update_synced pr (pr_labels rec) (pr_linkedIssues rec) seenOpen now row else row)
                    (pull_requests s1)
                  else pull_requests s1 @
                    [new_pull_row repoFullName pr (pr_labels rec) (pr_linkedIssues rec) seenOpen now])
      in (rec, s1\<lparr>pull_requests := rows\<rparr>))"

definition find_pull :: "string \<Rightarrow> nat \<Rightarrow> Store \<Rightarrow> PullRow option" where
  "find_pull fullName n s = List.find (\<lambda>row. pull_key row = (fullName, n)) (pull_requests s)"

definition getPullRequest :: "string \<Rightarrow> nat \<Rightarrow> Store \<Rightarrow> PullRequestRecord option" where
  "getPullRequest fullName n s = map_option toPullRequestRecordFromRow (find_pull fullName n s)"

definition updatePullRequestSlopAssessment ::
  "string \<Rightarrow> nat \<Rightarrow> int option \<Rightarrow> string option \<Rightarrow> Store \<Rightarrow> Store" where
  "updatePullRequestSlopAssessment repoFullName pullNumber risk band s =
     (let (now, s1) = nowIso s
      in s1\<lparr>pull_requests := map (\<lambda>row. if pull_key row = (repoFullName, pullNumber)
             then row\<lparr>row_slopRisk := risk, row_slopBand := band, row_updatedAt := now\<rparr> else row)
           (pull_requests s1)\<rparr>)"

text \<open>The rows of a pull request at a given head, which the merge columns are written on.\<close>

definition at_head :: "string \<Rightarrow> nat \<Rightarrow> string \<Rightarrow> PullRow \<Rightarrow> bool" where
  "at_head fullName n head row \<longleftrightarrow> pull_key row = (fullName, n) \<and> row_headSha row = Some head"

definition bumpPullRequestMergeAttempt :: "string \<Rightarrow> nat \<Rightarrow> string \<Rightarrow> Store \<Rightarrow> nat \<times> Store" where
  "bumpPullRequestMergeAttempt fullName n head s =
     (let (now, s1) = nowIso s;
          s2 = s1\<lparr>pull_requests := map (\<lambda>row. if at_head fullName n head row
                 then row\<lparr>row_mergeAttemptCount := row_mergeAttemptCount row + 1, row_updatedAt := now\<rparr> else row)
               (pull_requests s1)\<rparr>
      in (case find_pull fullName n s2 of None \<Rightarrow> 0 | Some row \<Rightarrow> row_mergeAttemptCount row, s2))"

definition markPullRequestMergeBlocked :: "string \<Rightarrow> nat \<Rightarrow> string \<Rightarrow> string \<Rightarrow> Store \<Rightarrow> Store" where
  "markPullRequestMergeBlocked fullName n head why s =
     (let (now, s1) = nowIso s
      in s1\<lparr>pull_requests := map (\<lambda>row. if at_head fullName n head row
             then row\<lparr>row_mergeBlockedSha := Some head, row_mergeBlockedReason := Some (take 280 why),
               row_updatedAt := now\<rparr> else row)
           (pull_requests s1)\<rparr>)"

section \<open>The audit log\<close>

definition recordAuditEvent :: "AuditEventRecord \<Rightarrow> Store \<Rightarrow> Store" where
  "recordAuditEvent event s =
     (let (i, s1) = randomUUID s; (now, s2) = nowIso s1
      in s2\<lparr>audit_events := audit_events s2 @ [\<lparr>au_id = i, au_createdAt = now, au_event = event\<rparr>]\<rparr>)"

definition hasRecentAuditEvent :: "string \<Rightarrow> string \<Rightarrow> string \<Rightarrow> Store \<Rightarrow> bool" where
  "hasRecentAuditEvent who kind sinceIso s =
     list_ex (\<lambda>row. ae_actor (au_event row) = Some who \<and> ae_eventType (au_event row) = kind \<and>
       str_le sinceIso (au_createdAt row)) (audit_events s)"

section \<open>Staged actions\<close>

definition pending_key :: "AgentPendingActionRecord \<Rightarrow> string \<times> nat \<times> AgentActionClass" where
  "pending_key row = (pend_repoFullName row, pend_pullNumber row, pend_actionClass row)"

record PendingInput =
  pin_repoFullName :: string
  pin_pullNumber :: nat
  pin_installationId :: nat
  pin_actionClass :: AgentActionClass
  pin_autonomyLevel :: AutonomyLevel
  pin_params :: AgentPendingActionParams
  pin_reason :: "string option"

text \<open>\<open>boundedString(value, n)\<close> on a string.\<close>

definition boundedString :: "string \<Rightarrow> nat \<Rightarrow> string" where
  "boundedString value n = take n value"

text \<open>
  \<open>onConflictDoNothing\<close> on the unique key (repository, pull request, action class): the row of an
  earlier staging, pending or decided, is returned unchanged.
\<close>

definition createPendingAgentActionIfAbsent ::
  "PendingInput \<Rightarrow> Store \<Rightarrow> (AgentPendingActionRecord \<times> bool) \<times> Store" where
  "createPendingAgentActionIfAbsent input s =
     (let repo = boundedString (pin_repoFullName input) 200;
          (i, s1) = randomUUID s;
          (now, s2) = nowIso s1;
          row = \<lparr>pend_id = i, pend_repoFullName = repo, pend_pullNumber = pin_pullNumber input,
            pend_installationId = pin_installationId input, pend_actionClass = pin_actionClass input,
            pend_autonomyLevel = pin_autonomyLevel input, pend_params = pin_params input,
            pend_reason = pin_reason input, pend_status = status_pending, pend_decidedBy = None,
            pend_decidedAt = None, pend_createdAt = now, pend_updatedAt = now\<rparr>
      in case List.find (\<lambda>x. pending_key x = (repo, pin_pullNumber input, pin_actionClass input))
             (agent_pending_actions s2) of
           None \<Rightarrow> ((row, True), s2\<lparr>agent_pending_actions := agent_pending_actions s2 @ [row]\<rparr>)
         | Some existing \<Rightarrow> ((existing, False), s2))"

text \<open>\<open>if (options.repoFullName)\<close>: an empty string sets no condition.\<close>

definition pendingAgentActionConditions ::
  "string option \<Rightarrow> AgentPendingActionStatus option \<Rightarrow> AgentPendingActionRecord \<Rightarrow> bool" where
  "pendingAgentActionConditions repo st row \<longleftrightarrow>
     (nullish repo [] = [] \<or> pend_repoFullName row = nullish repo []) \<and>
     (st = None \<or> st = Some (pend_status row))"

definition pending_order :: "AgentPendingActionRecord \<Rightarrow> AgentPendingActionRecord \<Rightarrow> bool" where
  "pending_order a b \<longleftrightarrow>
     (if pend_createdAt a = pend_createdAt b then str_le (pend_id a) (pend_id b)
      else str_le (pend_createdAt b) (pend_createdAt a))"

fun clampInteger :: "js_num \<Rightarrow> int \<Rightarrow> int \<Rightarrow> int" where
  "clampInteger (Finite r) lo hi = min hi (max lo (js_round r))"
| "clampInteger _ lo hi = lo"

definition listPendingAgentActions ::
  "string option \<Rightarrow> AgentPendingActionStatus option \<Rightarrow> js_num option \<Rightarrow> Store \<Rightarrow> AgentPendingActionRecord list" where
  "listPendingAgentActions repo st limit s =
     take (nat (clampInteger (nullish limit (Finite 200)) 1 2000))
       (sort_by pending_order (filter (pendingAgentActionConditions repo st) (agent_pending_actions s)))"

definition countPendingAgentActions ::
  "string option \<Rightarrow> AgentPendingActionStatus option \<Rightarrow> Store \<Rightarrow> nat" where
  "countPendingAgentActions repo st s =
     length (filter (pendingAgentActionConditions repo st) (agent_pending_actions s))"

definition getPendingAgentAction :: "string \<Rightarrow> Store \<Rightarrow> AgentPendingActionRecord option" where
  "getPendingAgentAction i s = List.find (\<lambda>row. pend_id row = i) (agent_pending_actions s)"

definition setPendingAgentActionStatus ::
  "string \<Rightarrow> AgentPendingActionStatus \<Rightarrow> string option \<Rightarrow> Store \<Rightarrow> Store" where
  "setPendingAgentActionStatus i st who s =
     (let (now, s1) = nowIso s
      in s1\<lparr>agent_pending_actions := map (\<lambda>row. if pend_id row = i
             then row\<lparr>pend_status := st, pend_decidedBy := who, pend_decidedAt := Some now, pend_updatedAt := now\<rparr>
             else row) (agent_pending_actions s1)\<rparr>)"

section \<open>Notification deliveries\<close>

definition note_key :: "NotificationDeliveryRecord \<Rightarrow> string \<times> NotificationChannel" where
  "note_key row = (note_dedupKey row, note_channel row)"

record NotificationInput =
  nin_dedupKey :: string
  nin_channel :: NotificationChannel
  nin_recipientLogin :: string
  nin_eventType :: string
  nin_repoFullName :: string
  nin_pullNumber :: "nat option"
  nin_title :: string
  nin_body :: string
  nin_deeplink :: string
  nin_actorLogin :: "string option"
  nin_status :: "NotificationDeliveryStatus option"

definition insertNotificationDeliveryIfAbsent ::
  "NotificationInput \<Rightarrow> Store \<Rightarrow> (NotificationDeliveryRecord \<times> bool) \<times> Store" where
  "insertNotificationDeliveryIfAbsent input s =
     (let (now, s1) = nowIso s;
          (i, s2) = randomUUID s1;
          rec = \<lparr>note_id = i, note_dedupKey = nin_dedupKey input, note_channel = nin_channel input,
            note_recipientLogin = toLowerCase (nin_recipientLogin input), note_eventType = nin_eventType input,
            note_repoFullName = nin_repoFullName input, note_pullNumber = nin_pullNumber input,
            note_title = nin_title input, note_body = nin_body input, note_deeplink = nin_deeplink input,
            note_actorLogin = nin_actorLogin input, note_status = nullish (nin_status input) note_pending,
            note_createdAt = now, note_deliveredAt = None, note_readAt = None\<rparr>
      in case List.find (\<lambda>x. note_key x = note_key rec) (notification_deliveries s2) of
           None \<Rightarrow> ((rec, True), s2\<lparr>notification_deliveries := notification_deliveries s2 @ [rec]\<rparr>)
         | Some existing \<Rightarrow> ((existing, False), s2))"

definition countRecentNotificationDeliveries :: "string \<Rightarrow> NotificationChannel \<Rightarrow> string \<Rightarrow> Store \<Rightarrow> nat" where
  "countRecentNotificationDeliveries recipient channel sinceIso s =
     length (filter (\<lambda>row. note_recipientLogin row = toLowerCase recipient \<and> note_channel row = channel \<and>
       note_status row \<noteq> note_suppressed \<and> str_le sinceIso (note_createdAt row)) (notification_deliveries s))"

definition getNotificationDeliveryById :: "string \<Rightarrow> Store \<Rightarrow> NotificationDeliveryRecord option" where
  "getNotificationDeliveryById i s = List.find (\<lambda>row. note_id row = i) (notification_deliveries s)"

definition markNotificationDeliveryDelivered :: "string \<Rightarrow> Store \<Rightarrow> Store" where
  "markNotificationDeliveryDelivered i s =
     (let (now, s1) = nowIso s
      in s1\<lparr>notification_deliveries := map (\<lambda>row. if note_id row = i \<and> note_status row = note_pending
             then row\<lparr>note_status := note_delivered, note_deliveredAt := Some now\<rparr> else row)
           (notification_deliveries s1)\<rparr>)"

definition listNotificationDeliveriesForRecipient ::
  "string \<Rightarrow> NotificationChannel option \<Rightarrow> string option \<Rightarrow> bool \<Rightarrow> int option \<Rightarrow> Store \<Rightarrow> NotificationDeliveryRecord list" where
  "listNotificationDeliveriesForRecipient recipient channel kind unreadOnly limit s =
     take (nat (min (max (nullish limit 50) 1) 100))
       (sort_by (\<lambda>a b. str_le (note_createdAt b) (note_createdAt a))
         (filter (\<lambda>row. note_recipientLogin row = toLowerCase recipient \<and>
             (channel = None \<or> channel = Some (note_channel row)) \<and>
             (nullish kind [] = [] \<or> note_eventType row = nullish kind []) \<and>
             (unreadOnly \<longrightarrow> note_status row = note_delivered))
           (notification_deliveries s)))"

definition MAX_NOTIFICATION_MARK_READ_IDS :: nat where
  "MAX_NOTIFICATION_MARK_READ_IDS = 100"

definition MAX_NOTIFICATION_DELIVERY_ID_LENGTH :: nat where
  "MAX_NOTIFICATION_DELIVERY_ID_LENGTH = 128"

text \<open>The bulk read: a \<open>RangeError\<close> is \<open>Inl\<close> with its message; otherwise the number of rows read.\<close>

definition markNotificationDeliveriesRead ::
  "string \<Rightarrow> string list option \<Rightarrow> Store \<Rightarrow> (string + nat) \<times> Store" where
  "markNotificationDeliveriesRead recipient ids s =
     (case ids of
        Some [] \<Rightarrow> (Inr 0, s)
      | _ \<Rightarrow>
        if length (nullish ids []) > MAX_NOTIFICATION_MARK_READ_IDS
        then (Inl (''ids must contain at most '' @ nat_str MAX_NOTIFICATION_MARK_READ_IDS @ '' entries''), s)
        else if list_ex (\<lambda>i. length i > MAX_NOTIFICATION_DELIVERY_ID_LENGTH) (nullish ids [])
        then (Inl (''ids entries must be at most '' @ nat_str MAX_NOTIFICATION_DELIVERY_ID_LENGTH @ '' characters''), s)
        else
          (let (now, s1) = nowIso s;
               hit = (\<lambda>row. note_recipientLogin row = toLowerCase recipient \<and> note_status row = note_delivered \<and>
                 (ids = None \<or> note_id row \<in> set (nullish ids [])))
           in (Inr (length (filter hit (notification_deliveries s1))),
               s1\<lparr>notification_deliveries := map (\<lambda>row. if hit row
                    then row\<lparr>note_status := note_read, note_readAt := Some now\<rparr> else row)
                  (notification_deliveries s1)\<rparr>)))"

section \<open>Insert-if-absent tables\<close>

text \<open>
  The contract of an insert that does nothing on a conflict of its unique key, as the staged
  actions and the notification deliveries have it.
\<close>

locale unique_table =
  fixes rows :: "'s \<Rightarrow> 'r list"
    and key :: "'r \<Rightarrow> 'k"
    and insert_absent :: "'i \<Rightarrow> 's \<Rightarrow> ('r \<times> bool) \<times> 's"
    and input_key :: "'i \<Rightarrow> 'k"
  assumes insert_new: "input_key i \<notin> key ` set (rows s) \<Longrightarrow>
      \<exists>r. fst (insert_absent i s) = (r, True) \<and> key r = input_key i \<and>
        rows (snd (insert_absent i s)) = rows s @ [r]"
    and insert_old: "input_key i \<in> key ` set (rows s) \<Longrightarrow>
      \<exists>r. fst (insert_absent i s) = (r, False) \<and> key r = input_key i \<and> r \<in> set (rows s) \<and>
        rows (snd (insert_absent i s)) = rows s"
begin

lemma created_iff: "snd (fst (insert_absent i s)) \<longleftrightarrow> input_key i \<notin> key ` set (rows s)"
proof (cases "input_key i \<in> key ` set (rows s)")
  case True
  then show ?thesis using insert_old [of i s] by auto
next
  case False
  then show ?thesis using insert_new [of i s] by auto
qed

lemma row_present: "fst (fst (insert_absent i s)) \<in> set (rows (snd (insert_absent i s)))"
proof (cases "input_key i \<in> key ` set (rows s)")
  case True
  then show ?thesis using insert_old [of i s] by auto
next
  case False
  then show ?thesis using insert_new [of i s] by auto
qed

lemma row_key: "key (fst (fst (insert_absent i s))) = input_key i"
proof (cases "input_key i \<in> key ` set (rows s)")
  case True
  then show ?thesis using insert_old [of i s] by auto
next
  case False
  then show ?thesis using insert_new [of i s] by auto
qed

lemma rows_after: "rows (snd (insert_absent i s)) =
    rows s @ (if snd (fst (insert_absent i s)) then [fst (fst (insert_absent i s))] else [])"
proof (cases "input_key i \<in> key ` set (rows s)")
  case True
  then show ?thesis using insert_old [of i s] by auto
next
  case False
  then show ?thesis using insert_new [of i s] by auto
qed

lemma distinct_after: "distinct (map key (rows s)) \<Longrightarrow> distinct (map key (rows (snd (insert_absent i s))))"
  by (auto simp: rows_after created_iff row_key)

lemma keys_after: "key ` set (rows (snd (insert_absent i s))) = insert (input_key i) (key ` set (rows s))"
  using row_key [of i s] by (cases "input_key i \<in> key ` set (rows s)") (auto simp: rows_after created_iff)

lemma second_insert: "input_key j = input_key i \<Longrightarrow>
    \<not> snd (fst (insert_absent j (snd (insert_absent i s)))) \<and>
    rows (snd (insert_absent j (snd (insert_absent i s)))) = rows (snd (insert_absent i s))"
  by (simp add: created_iff rows_after [of j] keys_after)

end

definition pending_input_key :: "PendingInput \<Rightarrow> string \<times> nat \<times> AgentActionClass" where
  "pending_input_key input =
     (boundedString (pin_repoFullName input) 200, pin_pullNumber input, pin_actionClass input)"

definition note_input_key :: "NotificationInput \<Rightarrow> string \<times> NotificationChannel" where
  "note_input_key input = (nin_dedupKey input, nin_channel input)"

lemma find_key_None: "List.find (\<lambda>x. key x = k) xs = None \<longleftrightarrow> k \<notin> key ` set xs"
  by (auto simp: List_find_None_iff)

interpretation staging: unique_table agent_pending_actions pending_key
  createPendingAgentActionIfAbsent pending_input_key
proof
  fix i :: PendingInput and s :: Store
  assume "pending_input_key i \<notin> pending_key ` set (agent_pending_actions s)"
  then have "List.find (\<lambda>x. pending_key x = pending_input_key i) (agent_pending_actions s) = None"
    by (simp add: find_key_None)
  then show "\<exists>r. fst (createPendingAgentActionIfAbsent i s) = (r, True) \<and> pending_key r = pending_input_key i \<and>
      agent_pending_actions (snd (createPendingAgentActionIfAbsent i s)) = agent_pending_actions s @ [r]"
    by (simp add: createPendingAgentActionIfAbsent_def randomUUID_def nowIso_def Let_def
        pending_input_key_def pending_key_def)
next
  fix i :: PendingInput and s :: Store
  assume "pending_input_key i \<in> pending_key ` set (agent_pending_actions s)"
  then obtain r where r: "List.find (\<lambda>x. pending_key x = pending_input_key i) (agent_pending_actions s) = Some r"
    using find_key_None [of pending_key "pending_input_key i" "agent_pending_actions s"]
    by (cases "List.find (\<lambda>x. pending_key x = pending_input_key i) (agent_pending_actions s)") auto
  then show "\<exists>r. fst (createPendingAgentActionIfAbsent i s) = (r, False) \<and> pending_key r = pending_input_key i \<and>
      r \<in> set (agent_pending_actions s) \<and>
      agent_pending_actions (snd (createPendingAgentActionIfAbsent i s)) = agent_pending_actions s"
    using List_find_SomeD [OF r]
    by (simp add: createPendingAgentActionIfAbsent_def randomUUID_def nowIso_def Let_def pending_input_key_def)
qed

interpretation deliveries: unique_table notification_deliveries note_key
  insertNotificationDeliveryIfAbsent note_input_key
proof
  fix i :: NotificationInput and s :: Store
  assume "note_input_key i \<notin> note_key ` set (notification_deliveries s)"
  then have "List.find (\<lambda>x. note_key x = note_input_key i) (notification_deliveries s) = None"
    by (simp add: find_key_None)
  then show "\<exists>r. fst (insertNotificationDeliveryIfAbsent i s) = (r, True) \<and> note_key r = note_input_key i \<and>
      notification_deliveries (snd (insertNotificationDeliveryIfAbsent i s)) = notification_deliveries s @ [r]"
    by (simp add: insertNotificationDeliveryIfAbsent_def randomUUID_def nowIso_def Let_def
        note_input_key_def note_key_def)
next
  fix i :: NotificationInput and s :: Store
  assume "note_input_key i \<in> note_key ` set (notification_deliveries s)"
  then obtain r where r: "List.find (\<lambda>x. note_key x = note_input_key i) (notification_deliveries s) = Some r"
    using find_key_None [of note_key "note_input_key i" "notification_deliveries s"]
    by (cases "List.find (\<lambda>x. note_key x = note_input_key i) (notification_deliveries s)") auto
  then show "\<exists>r. fst (insertNotificationDeliveryIfAbsent i s) = (r, False) \<and> note_key r = note_input_key i \<and>
      r \<in> set (notification_deliveries s) \<and>
      notification_deliveries (snd (insertNotificationDeliveryIfAbsent i s)) = notification_deliveries s"
    using List_find_SomeD [OF r]
    by (simp add: insertNotificationDeliveryIfAbsent_def randomUUID_def nowIso_def Let_def
        note_input_key_def note_key_def)
qed

section \<open>The operations leave each other's tables alone\<close>

lemma find_map_key:
  assumes "\<And>x. x \<in> set xs \<Longrightarrow> P (f x) = P x"
  shows "List.find P (map f xs) = map_option f (List.find P xs)"
  using assms by (induction xs) auto

lemma randomUUID_tables [simp]:
  "pull_requests (snd (randomUUID s)) = pull_requests s"
  "agent_pending_actions (snd (randomUUID s)) = agent_pending_actions s"
  "notification_deliveries (snd (randomUUID s)) = notification_deliveries s"
  "audit_events (snd (randomUUID s)) = audit_events s"
  by (simp_all add: randomUUID_def)

lemma nowIso_tables [simp]:
  "pull_requests (snd (nowIso s)) = pull_requests s"
  "agent_pending_actions (snd (nowIso s)) = agent_pending_actions s"
  "notification_deliveries (snd (nowIso s)) = notification_deliveries s"
  "audit_events (snd (nowIso s)) = audit_events s"
  by (simp_all add: nowIso_def)

lemma recordAuditEvent_tables [simp]:
  "pull_requests (recordAuditEvent e s) = pull_requests s"
  "agent_pending_actions (recordAuditEvent e s) = agent_pending_actions s"
  "notification_deliveries (recordAuditEvent e s) = notification_deliveries s"
  "map au_event (audit_events (recordAuditEvent e s)) = map au_event (audit_events s) @ [e]"
  by (simp_all add: recordAuditEvent_def randomUUID_def nowIso_def Let_def)

lemma createPending_tables [simp]:
  "pull_requests (snd (createPendingAgentActionIfAbsent i s)) = pull_requests s"
  "notification_deliveries (snd (createPendingAgentActionIfAbsent i s)) = notification_deliveries s"
  "audit_events (snd (createPendingAgentActionIfAbsent i s)) = audit_events s"
  by (simp_all add: createPendingAgentActionIfAbsent_def randomUUID_def nowIso_def Let_def split: option.splits)

lemma insertNotification_tables [simp]:
  "pull_requests (snd (insertNotificationDeliveryIfAbsent i s)) = pull_requests s"
  "agent_pending_actions (snd (insertNotificationDeliveryIfAbsent i s)) = agent_pending_actions s"
  "audit_events (snd (insertNotificationDeliveryIfAbsent i s)) = audit_events s"
  by (simp_all add: insertNotificationDeliveryIfAbsent_def randomUUID_def nowIso_def Let_def split: option.splits)

lemma bump_tables [simp]:
  "agent_pending_actions (snd (bumpPullRequestMergeAttempt f n h s)) = agent_pending_actions s"
  "notification_deliveries (snd (bumpPullRequestMergeAttempt f n h s)) = notification_deliveries s"
  "audit_events (snd (bumpPullRequestMergeAttempt f n h s)) = audit_events s"
  by (simp_all add: bumpPullRequestMergeAttempt_def nowIso_def Let_def)

lemma markBlocked_tables [simp]:
  "agent_pending_actions (markPullRequestMergeBlocked f n h why s) = agent_pending_actions s"
  "notification_deliveries (markPullRequestMergeBlocked f n h why s) = notification_deliveries s"
  "audit_events (markPullRequestMergeBlocked f n h why s) = audit_events s"
  by (simp_all add: markPullRequestMergeBlocked_def nowIso_def Let_def)

lemma setStatus_tables [simp]:
  "pull_requests (setPendingAgentActionStatus i st who s) = pull_requests s"
  "notification_deliveries (setPendingAgentActionStatus i st who s) = notification_deliveries s"
  "audit_events (setPendingAgentActionStatus i st who s) = audit_events s"
  by (simp_all add: setPendingAgentActionStatus_def nowIso_def Let_def)

lemma find_update:
  assumes "\<And>x. key (g x) = key x"
  shows "List.find (\<lambda>x. key x = i) (map (\<lambda>x. if key x = j then g x else x) xs) =
    (if i = j then map_option g (List.find (\<lambda>x. key x = i) xs) else List.find (\<lambda>x. key x = i) xs)"
  by (induction xs) (use assms in auto)

lemma getPending_setStatus: "getPendingAgentAction i (setPendingAgentActionStatus j st who s) =
    (if i = j then map_option (\<lambda>row. row\<lparr>pend_status := st, pend_decidedBy := who,
       pend_decidedAt := Some (clock s (ticks s)), pend_updatedAt := clock s (ticks s)\<rparr>) (getPendingAgentAction i s)
     else getPendingAgentAction i s)"
  unfolding getPendingAgentAction_def setPendingAgentActionStatus_def nowIso_def Let_def
  by (simp del: if_image_distrib) (subst find_update, simp, simp)+

lemma getPending_cong: "agent_pending_actions s = agent_pending_actions s' \<Longrightarrow>
    getPendingAgentAction i s = getPendingAgentAction i s'"
  by (simp add: getPendingAgentAction_def)

section \<open>The merge columns\<close>

lemma find_pull_bump: "find_pull f n (snd (bumpPullRequestMergeAttempt f n h s)) =
    map_option (\<lambda>row. if at_head f n h row
      then row\<lparr>row_mergeAttemptCount := row_mergeAttemptCount row + 1, row_updatedAt := clock s (ticks s)\<rparr>
      else row) (find_pull f n s)"
  unfolding find_pull_def bumpPullRequestMergeAttempt_def Let_def nowIso_def
  by simp (rule find_map_key, simp add: pull_key_def)

lemma fst_bump: "fst (bumpPullRequestMergeAttempt f n h s) =
    (case find_pull f n (snd (bumpPullRequestMergeAttempt f n h s)) of
       None \<Rightarrow> 0 | Some row \<Rightarrow> row_mergeAttemptCount row)"
  by (simp add: bumpPullRequestMergeAttempt_def Let_def nowIso_def)

lemma find_pull_markBlocked: "find_pull f n (markPullRequestMergeBlocked f n h why s) =
    map_option (\<lambda>row. if at_head f n h row
      then row\<lparr>row_mergeBlockedSha := Some h, row_mergeBlockedReason := Some (take 280 why),
        row_updatedAt := clock s (ticks s)\<rparr>
      else row) (find_pull f n s)"
  unfolding find_pull_def markPullRequestMergeBlocked_def Let_def nowIso_def
  by simp (rule find_map_key, simp add: pull_key_def)

lemma find_pull_SomeD: "find_pull f n s = Some row \<Longrightarrow> row \<in> set (pull_requests s) \<and> pull_key row = (f, n)"
  unfolding find_pull_def by (rule List_find_SomeD)

lemma find_pull_upsert:
  assumes "find_pull f (gp_number pr) s = Some row"
  shows "\<exists>row'. find_pull f (gp_number pr) (snd (upsertPullRequestFromGitHub f pr seen s)) = Some row' \<and>
    row_headSha row' = orElse (gp_head_sha pr) (row_headSha row) \<and>
    row_mergeAttemptCount row' = row_mergeAttemptCount row \<and>
    row_mergeBlockedSha row' = row_mergeBlockedSha row \<and>
    row_slopRisk row' = row_slopRisk row \<and> pull_key row' = pull_key row"
proof -
  let ?key = "(f, gp_number pr)"
  obtain g where rows: "pull_requests (snd (upsertPullRequestFromGitHub f pr seen s)) =
      map (\<lambda>row. if pull_key row = ?key then g row else row) (pull_requests s)"
    and g: "\<And>row. row_headSha (g row) = orElse (gp_head_sha pr) (row_headSha row) \<and>
      row_mergeAttemptCount (g row) = row_mergeAttemptCount row \<and>
      row_mergeBlockedSha (g row) = row_mergeBlockedSha row \<and>
      row_slopRisk (g row) = row_slopRisk row \<and> pull_key (g row) = pull_key row"
  proof (rule that)
    show "pull_requests (snd (upsertPullRequestFromGitHub f pr seen s)) =
        map (\<lambda>row. if pull_key row = ?key then update_synced pr (pr_labels (toPullRequestRecord f pr))
          (pr_linkedIssues (toPullRequestRecord f pr))
          (if gp_state pr = ''open'' then Some (nullish seen (clock s (ticks s))) else None)
          (clock s (ticks s)) row else row) (pull_requests s)"
      using find_pull_SomeD [OF assms]
      by (auto simp: upsertPullRequestFromGitHub_def nowIso_def Let_def image_iff intro: bexI [of _ row])
  qed (simp add: update_synced_def pull_key_def)
  have "find_pull f (gp_number pr) (snd (upsertPullRequestFromGitHub f pr seen s)) =
      map_option (\<lambda>row. if pull_key row = ?key then g row else row) (find_pull f (gp_number pr) s)"
    unfolding find_pull_def rows by (rule find_map_key) (simp add: g)
  then show ?thesis using assms find_pull_SomeD [OF assms] g by simp
qed

section \<open>Reachable stores\<close>

text \<open>Every operation of the store that writes, as a step.\<close>

inductive store_step :: "Store \<Rightarrow> Store \<Rightarrow> bool" where
  "store_step s (snd (upsertPullRequestFromGitHub f pr seen s))"
| "store_step s (updatePullRequestSlopAssessment f n risk band s)"
| "store_step s (snd (bumpPullRequestMergeAttempt f n h s))"
| "store_step s (markPullRequestMergeBlocked f n h why s)"
| "store_step s (recordAuditEvent e s)"
| "store_step s (snd (createPendingAgentActionIfAbsent i s))"
| "store_step s (setPendingAgentActionStatus j st who s)"
| "store_step s (snd (insertNotificationDeliveryIfAbsent ni s))"
| "store_step s (markNotificationDeliveryDelivered j s)"
| "store_step s (snd (markNotificationDeliveriesRead who' ids s))"

definition empty_store :: "(nat \<Rightarrow> string) \<Rightarrow> (nat \<Rightarrow> string) \<Rightarrow> Store" where
  "empty_store uuids instants = \<lparr>pull_requests = [], agent_pending_actions = [], notification_deliveries = [],
     audit_events = [], uuid_source = uuids, clock = instants, ticks = 0\<rparr>"

definition keys_unique :: "Store \<Rightarrow> bool" where
  "keys_unique s \<longleftrightarrow> distinct (map pull_key (pull_requests s)) \<and>
     distinct (map pending_key (agent_pending_actions s)) \<and> distinct (map note_key (notification_deliveries s))"

lemma map_key_update: "(\<And>x. k (g x) = k x) \<Longrightarrow> map (k \<circ> (\<lambda>x. if P x then g x else x)) xs = map k xs"
  by (induction xs) auto

lemma pull_keys_upsert: "distinct (map pull_key (pull_requests s)) \<Longrightarrow>
    distinct (map pull_key (pull_requests (snd (upsertPullRequestFromGitHub f pr seen s))))"
proof (cases "(f, gp_number pr) \<in> set (map pull_key (pull_requests s))")
  case True
  then have "map pull_key (pull_requests (snd (upsertPullRequestFromGitHub f pr seen s))) =
      map pull_key (pull_requests s)"
    by (simp add: upsertPullRequestFromGitHub_def nowIso_def Let_def update_synced_def pull_key_def)
  then show "distinct (map pull_key (pull_requests s)) \<Longrightarrow> ?thesis" by simp
next
  case False
  then have "map pull_key (pull_requests (snd (upsertPullRequestFromGitHub f pr seen s))) =
      map pull_key (pull_requests s) @ [(f, gp_number pr)]"
    by (auto simp: upsertPullRequestFromGitHub_def nowIso_def Let_def new_pull_row_def pull_key_def)
  then show "distinct (map pull_key (pull_requests s)) \<Longrightarrow> ?thesis" using False by simp
qed

lemma pull_requests_other_tables:
  "agent_pending_actions (snd (upsertPullRequestFromGitHub f pr seen s)) = agent_pending_actions s"
  "notification_deliveries (snd (upsertPullRequestFromGitHub f pr seen s)) = notification_deliveries s"
  by (simp_all add: upsertPullRequestFromGitHub_def nowIso_def Let_def)

lemma keys_unique_step: "store_step s s' \<Longrightarrow> keys_unique s \<Longrightarrow> keys_unique s'"
proof (induction rule: store_step.induct)
  case (1 s f pr seen)
  then show ?case by (simp add: keys_unique_def pull_keys_upsert pull_requests_other_tables)
next
  case (6 s i)
  then show ?case using staging.distinct_after by (simp add: keys_unique_def)
next
  case (8 s ni)
  then show ?case using deliveries.distinct_after by (simp add: keys_unique_def)
next
  case (10 s who' ids)
  then show ?case
    by (simp add: keys_unique_def markNotificationDeliveriesRead_def nowIso_def Let_def note_key_def
        map_key_update split: option.split list.split)
qed (simp_all add: keys_unique_def updatePullRequestSlopAssessment_def bumpPullRequestMergeAttempt_def
    markPullRequestMergeBlocked_def setPendingAgentActionStatus_def markNotificationDeliveryDelivered_def
    recordAuditEvent_def randomUUID_def nowIso_def Let_def pull_key_def pending_key_def note_key_def
    map_key_update)

section \<open>Properties\<close>

text \<open>
  The unique keys of the tables hold. In every store that the write operations reach from the
  empty one there is at most one cached row per pull request, one staged action per pull request
  and action class (decided or not), and one delivery per dedup key and channel.
\<close>

theorem reachable_store_keys_unique:
  assumes "store_step\<^sup>*\<^sup>* (empty_store uuids instants) s"
  shows "distinct (map pull_key (pull_requests s)) \<and>
    distinct (map pending_key (agent_pending_actions s)) \<and> distinct (map note_key (notification_deliveries s))"
proof -
  from assms have "keys_unique s"
  proof (induction rule: rtranclp_induct)
    case base
    then show ?case by (simp add: empty_store_def keys_unique_def)
  next
    case (step s s')
    then show ?case by (blast intro: keys_unique_step)
  qed
  then show ?thesis by (simp add: keys_unique_def)
qed

text \<open>
  The merge attempts of a pull request are counted across commits. When a new commit arrives
  through a sync, the first failed attempt on the new head continues the count of the old heads;
  a block of the merge at an old head is kept, and no longer names the head of the row.
\<close>

theorem merge_attempts_survive_new_head:
  assumes "find_pull f (gp_number pr) s = Some row"
    and "gp_head_sha pr = Some head" and "row_mergeBlockedSha row \<noteq> Some head"
    and sync: "snd (upsertPullRequestFromGitHub f pr seen s) = s'"
  shows "fst (bumpPullRequestMergeAttempt f (gp_number pr) head s') = row_mergeAttemptCount row + 1 \<and>
    (\<exists>row'. find_pull f (gp_number pr) s' = Some row' \<and> row_headSha row' = Some head \<and>
      row_mergeBlockedSha row' = row_mergeBlockedSha row \<and> row_mergeBlockedSha row' \<noteq> row_headSha row')"
proof -
  obtain row' where row': "find_pull f (gp_number pr) s' = Some row'" "row_headSha row' = Some head"
    "row_mergeAttemptCount row' = row_mergeAttemptCount row"
    "row_mergeBlockedSha row' = row_mergeBlockedSha row" "pull_key row' = pull_key row"
    using find_pull_upsert [OF assms(1), of seen] assms(2) unfolding sync by (auto simp: orElse_def)
  then have "at_head f (gp_number pr) head row'"
    using find_pull_SomeD [OF assms(1)] by (simp add: at_head_def)
  then show ?thesis using row' assms(3) by (simp add: fst_bump find_pull_bump)
qed

definition sync_payload :: "string \<Rightarrow> GitHubPullRequestPayload" where
  "sync_payload head = \<lparr>gp_number = 7, gp_title = ''Fix the parser'', gp_state = ''open'', gp_html_url = None,
     gp_merged_at = None, gp_draft = None, gp_isDraft = None, gp_mergeable = None,
     gp_mergeable_state = Some ''clean'', gp_mergeableState = None, gp_reviewDecision = None,
     gp_created_at = None, gp_updated_at = None, gp_closed_at = None, gp_user_login = Some ''ada'',
     gp_author_association = None, gp_head_sha = Some head, gp_head_ref = None, gp_base_ref = None,
     gp_labels = [], gp_body = None\<rparr>"

definition synced_store :: Store where
  "synced_store = snd (upsertPullRequestFromGitHub ''o/r'' (sync_payload ''a'') None (empty_store (\<lambda>_. []) (\<lambda>_. [])))"

definition synced_row :: PullRow where
  "synced_row = new_pull_row ''o/r'' (sync_payload ''a'') [] [] (Some []) []"

lemma find_synced: "find_pull ''o/r'' 7 synced_store = Some synced_row"
  by (simp add: synced_store_def synced_row_def upsertPullRequestFromGitHub_def nowIso_def empty_store_def
      find_pull_def new_pull_row_def pull_key_def sync_payload_def toPullRequestRecord_def payload_labels_def
      extractLinkedIssueNumbers_def compactGitHubPayload_def toLowerCase_def)

theorem merge_attempts_survive_new_head_witness:
  "fst (bumpPullRequestMergeAttempt ''o/r'' 7 ''b''
     (snd (upsertPullRequestFromGitHub ''o/r'' (sync_payload ''b'') None synced_store))) = 1"
proof -
  have find: "find_pull ''o/r'' (gp_number (sync_payload ''b'')) synced_store = Some synced_row"
    using find_synced by (simp add: sync_payload_def)
  show ?thesis
    using merge_attempts_survive_new_head [OF find, of "''b''" None, OF _ _ refl]
    by (simp add: sync_payload_def synced_row_def new_pull_row_def)
qed

end
