(* ===== verification/Github_Actions.thy ===== *)
theory Github_Actions
  imports Store
begin

text \<open>
  The write primitives on GitHub: \<open>github/pr-actions.ts\<close>, \<open>github/labels.ts\<close>, the error helpers of
  \<open>utils/json.ts\<close> and the classification of failed merges, \<open>services/merge-failure.ts\<close>. GitHub is
  a parameter: a function from the requests made so far and the next request to its answer,
  which is an error thrown by the client or the names in the answer (used for a label list only).
\<close>

section \<open>Errors\<close>

text \<open>A thrown value: whether it is an \<open>Error\<close>, its message, and a numeric \<open>status\<close> if it has one.\<close>

record JsError =
  err_isError :: bool
  err_message :: string
  err_status :: "int option"

definition errorMessage :: "JsError \<Rightarrow> string \<Rightarrow> string" where
  "errorMessage e fallback = (if err_isError e \<and> err_message e \<noteq> [] then err_message e else fallback)"

definition new_error :: "string \<Rightarrow> JsError" where
  "new_error message = \<lparr>err_isError = True, err_message = message, err_status = None\<rparr>"

section \<open>Requests\<close>

datatype ReviewEvent = REQUEST_CHANGES | APPROVE | COMMENT

datatype GhRequest =
    Req_token nat
  | Req_list_labels string string nat
  | Req_create_label string string string
  | Req_add_labels string string nat "string list"
  | Req_remove_label string string nat string
  | Req_create_review string string nat ReviewEvent string
  | Req_merge string string nat AutoMergeMethod "string option"
  | Req_update_branch string string nat "string option"
  | Req_comment string string nat string
  | Req_close string string nat

datatype NotifyOutcome = Notify_merged | Notify_closed | Notify_manual

text \<open>A call of \<open>notifyActionToDiscord\<close>; its errors are caught by the caller.\<close>

record DiscordCall =
  dc_repoFullName :: string
  dc_pullNumber :: nat
  dc_outcome :: NotifyOutcome
  dc_summary :: string
  dc_submitter :: "string option"

text \<open>The environment of the worker: its variables, the store, GitHub, and what was sent so far.\<close>

record World =
  AGENT_ACTIONS_PAUSED :: "string option"
  db :: Store
  token_cached :: "GhRequest list \<Rightarrow> nat \<Rightarrow> bool"
  github :: "GhRequest list \<Rightarrow> GhRequest \<Rightarrow> JsError + string list"
  gh_log :: "GhRequest list"
  discord_log :: "DiscordCall list"

type_synonym 'a effect = "World \<Rightarrow> (JsError + 'a) \<times> World"

definition request :: "GhRequest \<Rightarrow> string list effect" where
  "request r w = (github w (gh_log w) r, w\<lparr>gh_log := gh_log w @ [r]\<rparr>)"

definition andThen :: "'a effect \<Rightarrow> ('a \<Rightarrow> 'b effect) \<Rightarrow> 'b effect" where
  "andThen m k w = (case m w of (Inl e, w') \<Rightarrow> (Inl e, w') | (Inr x, w') \<Rightarrow> k x w')"

definition return :: "'a \<Rightarrow> 'a effect" where
  "return x w = (Inr x, w)"

definition throw :: "JsError \<Rightarrow> 'a effect" where
  "throw e w = (Inl e, w)"

section \<open>pr-actions.ts\<close>

text \<open>\<open>const [owner, repo] = name.split("/")\<close>, with an error when either is missing or empty.\<close>

definition splitRepo :: "string \<Rightarrow> (string \<times> string) effect" where
  "splitRepo repoFullName =
     (case split_on CHR ''/'' repoFullName of
        owner # repo # _ \<Rightarrow>
          if owner = [] \<or> repo = [] then throw (new_error (''Invalid repository full name: '' @ repoFullName))
          else return (owner, repo)
      | _ \<Rightarrow> throw (new_error (''Invalid repository full name: '' @ repoFullName)))"

text \<open>
  A token that the isolate still holds and that lives for two more minutes is taken from the cache. Which
  those are depends on the isolate and the clock: \<open>token_cached\<close> says it for the requests sent so far.
\<close>

definition createInstallationToken :: "nat \<Rightarrow> unit effect" where
  "createInstallationToken installationId w =
     (if token_cached w (gh_log w) installationId then return () w
      else andThen (request (Req_token installationId)) (\<lambda>_. return ()) w)"

definition createPullRequestReview :: "nat \<Rightarrow> string \<Rightarrow> nat \<Rightarrow> ReviewEvent \<Rightarrow> string \<Rightarrow> unit effect" where
  "createPullRequestReview installationId repoFullName pullNumber event body =
     andThen (splitRepo repoFullName) (\<lambda>(owner, repo).
     andThen (createInstallationToken installationId) (\<lambda>_.
     andThen (request (Req_create_review owner repo pullNumber event body)) (\<lambda>_. return ())))"

text \<open>\<open>options.sha ? { sha } : {}\<close>: an empty head is not sent.\<close>

definition truthy :: "string option \<Rightarrow> string option" where
  "truthy s = (if s = Some [] then None else s)"

definition mergePullRequest ::
  "nat \<Rightarrow> string \<Rightarrow> nat \<Rightarrow> AutoMergeMethod \<Rightarrow> string option \<Rightarrow> unit effect" where
  "mergePullRequest installationId repoFullName pullNumber mergeMethod sha =
     andThen (splitRepo repoFullName) (\<lambda>(owner, repo).
     andThen (createInstallationToken installationId) (\<lambda>_.
     andThen (request (Req_merge owner repo pullNumber mergeMethod (truthy sha))) (\<lambda>_. return ())))"

definition updatePullRequestBranch :: "nat \<Rightarrow> string \<Rightarrow> nat \<Rightarrow> string option \<Rightarrow> unit effect" where
  "updatePullRequestBranch installationId repoFullName pullNumber expectedHeadSha =
     andThen (splitRepo repoFullName) (\<lambda>(owner, repo).
     andThen (createInstallationToken installationId) (\<lambda>_.
     andThen (request (Req_update_branch owner repo pullNumber (truthy expectedHeadSha))) (\<lambda>_. return ())))"

definition createIssueComment :: "nat \<Rightarrow> string \<Rightarrow> nat \<Rightarrow> string \<Rightarrow> unit effect" where
  "createIssueComment installationId repoFullName issueNumber body =
     andThen (splitRepo repoFullName) (\<lambda>(owner, repo).
     andThen (createInstallationToken installationId) (\<lambda>_.
     andThen (request (Req_comment owner repo issueNumber body)) (\<lambda>_. return ())))"

definition closePullRequest :: "nat \<Rightarrow> string \<Rightarrow> nat \<Rightarrow> unit effect" where
  "closePullRequest installationId repoFullName pullNumber =
     andThen (splitRepo repoFullName) (\<lambda>(owner, repo).
     andThen (createInstallationToken installationId) (\<lambda>_.
     andThen (request (Req_close owner repo pullNumber)) (\<lambda>_. return ())))"

section \<open>labels.ts\<close>

text \<open>
  The label is created when asked for; only the error 422 \<open>already_exists\<close> of that request is
  swallowed. The result is (applied, created).
\<close>

definition createMissing :: "string \<Rightarrow> string \<Rightarrow> string \<Rightarrow> bool effect" where
  "createMissing owner repo labelName w =
     (case request (Req_create_label owner repo labelName) w of
        (Inr _, w') \<Rightarrow> (Inr True, w')
      | (Inl e, w') \<Rightarrow>
          if err_status e \<noteq> Some 422 \<or> \<not> str_includes (err_message e) ''already_exists''
          then (Inl e, w') else (Inr False, w'))"

definition ensurePullRequestLabel :: "nat \<Rightarrow> string \<Rightarrow> nat \<Rightarrow> string \<Rightarrow> bool \<Rightarrow> (bool \<times> bool) effect" where
  "ensurePullRequestLabel installationId repoFullName pullNumber labelName createMissingLabel =
     andThen (splitRepo repoFullName) (\<lambda>(owner, repo).
     andThen (createInstallationToken installationId) (\<lambda>_.
     andThen (request (Req_list_labels owner repo pullNumber)) (\<lambda>existing.
       if list_ex (\<lambda>l. toLowerCase l = toLowerCase labelName) existing then return (False, False)
       else
         andThen (if createMissingLabel then createMissing owner repo labelName else return False) (\<lambda>created.
         andThen (request (Req_add_labels owner repo pullNumber [labelName])) (\<lambda>_. return (True, created))))))"

text \<open>Removal is best effort: a malformed name does nothing, a failed request is swallowed, a missing token is not.\<close>

definition removePullRequestLabel :: "nat \<Rightarrow> string \<Rightarrow> nat \<Rightarrow> string \<Rightarrow> unit effect" where
  "removePullRequestLabel installationId repoFullName pullNumber labelName w =
     (case splitRepo repoFullName w of
        (Inl _, w') \<Rightarrow> (Inr (), w')
      | (Inr (owner, repo), w') \<Rightarrow>
          andThen (createInstallationToken installationId)
            (\<lambda>_ w2. (Inr (), snd (request (Req_remove_label owner repo pullNumber labelName) w2))) w')"

section \<open>merge-failure.ts\<close>

definition MERGE_RETRY_CAP :: nat where
  "MERGE_RETRY_CAP = 5"

definition TERMINAL_MERGE_STATUSES :: "int list" where
  "TERMINAL_MERGE_STATUSES = [403, 405, 409]"

definition isMergeConflictMessage :: "string \<Rightarrow> bool" where
  "isMergeConflictMessage message = rx_test_i (Alt [Lit ''merge conflict'', Lit ''not mergeable'',
     Lit ''cannot be merged'', Lit ''has conflicts'',
     Seq [Lit ''conflict'', Opt (Lit ''s''), Lit '' with the base'']]) message"

definition classifyMergeFailure :: "JsError \<Rightarrow> bool \<times> string" where
  "classifyMergeFailure err =
     (let message = errorMessage err ''unknown error''
      in case err_status err of
           Some st \<Rightarrow>
             if st = 403 then (True, ''merge forbidden (403 '' @ em_dash @ '' pull_requests:write or branch protection): '' @ message)
             else if st = 405 then (True, ''merge not allowed (405 '' @ em_dash @ '' repo merge policy forbids an automated merge): '' @ message)
             else if st = 409 then (True, ''merge conflict / required check absent (409): '' @ message)
             else if st \<in> set TERMINAL_MERGE_STATUSES then (True, ''merge rejected ('' @ int_str st @ ''): '' @ message)
             else if isMergeConflictMessage message
             then (True, ''branch conflicts with base '' @ em_dash @ '' contributor must rebase: '' @ message)
             else (False, message)
         | None \<Rightarrow>
             if isMergeConflictMessage message
             then (True, ''branch conflicts with base '' @ em_dash @ '' contributor must rebase: '' @ message)
             else (False, message))"

section \<open>Lemmas\<close>

text \<open>What an effect keeps: the store, the environment and the Discord log; and it only adds requests.\<close>

definition gh_only :: "'a effect \<Rightarrow> bool" where
  "gh_only m \<longleftrightarrow> (\<forall>w. \<exists>rs. snd (m w) = w\<lparr>gh_log := gh_log w @ rs\<rparr>)"

lemma gh_only_request [intro, simp]: "gh_only (request r)"
  by (auto simp: gh_only_def request_def)

lemma gh_only_return [intro, simp]: "gh_only (return x)"
  by (auto simp: gh_only_def return_def intro: exI [of _ "[]"])

lemma gh_only_throw [intro, simp]: "gh_only (throw e)"
  by (auto simp: gh_only_def throw_def intro: exI [of _ "[]"])

lemma gh_only_andThen [intro]:
  assumes "gh_only m" and "\<And>x. gh_only (k x)"
  shows "gh_only (andThen m k)"
  unfolding gh_only_def
proof
  fix w
  obtain rs where w1: "snd (m w) = w\<lparr>gh_log := gh_log w @ rs\<rparr>"
    using assms(1) by (auto simp: gh_only_def)
  show "\<exists>rs. snd (andThen m k w) = w\<lparr>gh_log := gh_log w @ rs\<rparr>"
  proof (cases "fst (m w)")
    case (Inl e)
    then show ?thesis using w1 by (auto simp: andThen_def split: prod.split)
  next
    case (Inr x)
    obtain rs' where "snd (k x (snd (m w))) = (snd (m w))\<lparr>gh_log := gh_log (snd (m w)) @ rs'\<rparr>"
      using assms(2) [of x] by (auto simp: gh_only_def)
    then show ?thesis using w1 Inr by (auto simp: andThen_def split: prod.split intro!: exI [of _ "rs @ rs'"])
  qed
qed

lemma gh_only_splitRepo [intro, simp]: "gh_only (splitRepo name)"
  by (auto simp: splitRepo_def split: list.split)

lemma gh_only_either: "gh_only m \<Longrightarrow> gh_only m' \<Longrightarrow> (\<And>w. n w = m w \<or> n w = m' w) \<Longrightarrow> gh_only n"
  unfolding gh_only_def by metis

lemma gh_only_token [intro, simp]: "gh_only (createInstallationToken i)"
  by (rule gh_only_either [of "return ()" "andThen (request (Req_token i)) (\<lambda>_. return ())"])
    (auto simp: createInstallationToken_def)

lemma gh_only_createMissing [intro, simp]: "gh_only (createMissing owner repo l)"
  by (auto simp: gh_only_def createMissing_def request_def split: sum.split prod.split)

lemma gh_only_if: "(b \<Longrightarrow> gh_only m) \<Longrightarrow> (\<not> b \<Longrightarrow> gh_only m') \<Longrightarrow> gh_only (if b then m else m')"
  by simp

lemmas gh_only_intros = gh_only_andThen gh_only_if gh_only_request gh_only_return gh_only_throw
  gh_only_splitRepo gh_only_token gh_only_createMissing

lemmas pr_action_defs = createPullRequestReview_def mergePullRequest_def updatePullRequestBranch_def
  createIssueComment_def closePullRequest_def ensurePullRequestLabel_def

lemma gh_only_pr_actions [intro, simp]:
  "gh_only (createPullRequestReview i f n ev b)" "gh_only (mergePullRequest i f n m h)"
  "gh_only (updatePullRequestBranch i f n h)" "gh_only (createIssueComment i f n b)"
  "gh_only (closePullRequest i f n)" "gh_only (ensurePullRequestLabel i f n l c)"
  unfolding pr_action_defs case_prod_beta by (intro gh_only_intros)+

lemma gh_onlyD:
  "gh_only m \<Longrightarrow> db (snd (m w)) = db w \<and> discord_log (snd (m w)) = discord_log w \<and>
     github (snd (m w)) = github w \<and> token_cached (snd (m w)) = token_cached w \<and> AGENT_ACTIONS_PAUSED (snd (m w)) = AGENT_ACTIONS_PAUSED w \<and>
     (\<exists>rs. gh_log (snd (m w)) = gh_log w @ rs)"
  by (auto simp: gh_only_def dest!: spec [of _ w])

end
