(* ===== verification/Guardrail.thy ===== *)
theory Guardrail
  imports Js_Regex
begin

text \<open>
  Hard guardrails: \<open>signals/change-guardrail.ts\<close> (glob matching of changed paths),
  \<open>review/guardrail-config.ts\<close> (where the globs of a repository come from) and
  \<open>settings/pr-type-label.ts\<close> (the type label, whose content rule uses the same globs).
  The glob compiler is proved equivalent to a matcher on glob tokens that uses no regular
  expression (\<open>matchesAny_tokens\<close>), and the locale \<open>path_guard\<close> states what the action
  planner relies on.
\<close>

section \<open>change-guardrail.ts\<close>

text \<open>
  \<open>globToRegExp\<close> walks the glob and emits one piece of pattern per step: \<open>**\<close> (with an
  optional \<open>/\<close> after it) is \<open>.*\<close>, \<open>*\<close> is \<open>[^/]*\<close>, and every other character is
  emitted as itself, escaped when it is special in a pattern.
\<close>

function glob_pieces :: "string \<Rightarrow> rx list" where
  "glob_pieces [] = []"
| "glob_pieces (c # cs) =
     (if c = CHR ''*'' then
        (if cs \<noteq> [] \<and> hd cs = CHR ''*'' then
           Many Dot # glob_pieces (if tl cs \<noteq> [] \<and> hd (tl cs) = CHR ''/'' then tl (tl cs) else tl cs)
         else Many (Noneof [One CHR ''/'']) # glob_pieces cs)
      else Oneof [One c] # glob_pieces cs)"
  by pat_completeness auto
termination
  by (relation "measure length") auto

definition globToRegExp :: "string \<Rightarrow> rx" where
  "globToRegExp glob = Cat Bol (Cat (foldr Cat (glob_pieces glob) Empty) Eol)"

definition matchesAny :: "string \<Rightarrow> string list \<Rightarrow> bool" where
  "matchesAny path globs = list_ex (\<lambda>g. rx_test (globToRegExp g) path) globs"

definition changedPathsHittingGuardrail :: "string list \<Rightarrow> string list \<Rightarrow> string list" where
  "changedPathsHittingGuardrail changedPaths hardGuardrailGlobs =
     (if hardGuardrailGlobs = [] then []
      else filter (\<lambda>path. path \<noteq> [] \<and> matchesAny path hardGuardrailGlobs) changedPaths)"

section \<open>guardrail-config.ts\<close>

definition DEFAULT_CRUCIAL_GUARDRAIL_GLOBS :: "string list" where
  "DEFAULT_CRUCIAL_GUARDRAIL_GLOBS = [''.github/workflows/**'', ''scripts/**'']"

fun nonempty_string :: "json \<Rightarrow> string option" where
  "nonempty_string (JString s) = (if s = [] then None else Some s)"
| "nonempty_string _ = None"

definition asNonEmptyStringArray :: "json \<Rightarrow> string list option" where
  "asNonEmptyStringArray value =
     (case value of
        JArray vs \<Rightarrow> (let out = List.map_filter nonempty_string vs in if out = [] then None else Some out)
      | _ \<Rightarrow> None)"

text \<open>
  The binding \<open>REVIEW_CONFIG\<close> is absent or a key-value store whose read returns a document
  (\<open>Inr\<close>, \<open>JNull\<close> for a missing key) or fails (\<open>Inl\<close>). Reading a field of a document
  that is no object yields \<open>undefined\<close>.
\<close>

type_synonym review_config = "string \<Rightarrow> unit + json"

definition repo_slug :: "string \<Rightarrow> string" where
  "repo_slug repoFullName =
     (if CHR ''/'' \<in> set repoFullName then tl (dropWhile (\<lambda>c. c \<noteq> CHR ''/'') repoFullName)
      else repoFullName)"

definition loadHardGuardrailGlobs :: "review_config option \<Rightarrow> string \<Rightarrow> string list" where
  "loadHardGuardrailGlobs env repoFullName =
     (case env of
        None \<Rightarrow> DEFAULT_CRUCIAL_GUARDRAIL_GLOBS
      | Some kv \<Rightarrow>
          (case kv (repo_slug repoFullName) of
             Inl _ \<Rightarrow> DEFAULT_CRUCIAL_GUARDRAIL_GLOBS
           | Inr config \<Rightarrow>
               nullish (asNonEmptyStringArray
                   (case config of JObject fields \<Rightarrow> jget fields ''hardGuardrailGlobs'' | _ \<Rightarrow> JUndefined))
                 DEFAULT_CRUCIAL_GUARDRAIL_GLOBS))"

section \<open>pr-type-label.ts\<close>

record PrTypeLabelSet =
  lbl_bug :: string
  lbl_feature :: string
  lbl_priority :: string

definition DEFAULT_TYPE_LABELS :: PrTypeLabelSet where
  "DEFAULT_TYPE_LABELS =
     \<lparr>lbl_bug = ''gittensor:bug'', lbl_feature = ''gittensor:feature'', lbl_priority = ''gittensor:priority''\<rparr>"

definition ALL_TYPE_LABELS :: "string list" where
  "ALL_TYPE_LABELS =
     [lbl_bug DEFAULT_TYPE_LABELS, lbl_feature DEFAULT_TYPE_LABELS, lbl_priority DEFAULT_TYPE_LABELS]"

datatype title_kind = Kind_bug | Kind_feature

definition letter_items :: "rx_item list" where
  "letter_items = [Between CHR ''a'' CHR ''z'', Between CHR ''A'' CHR ''Z'']"

definition deriveKindFromTitle :: "string option \<Rightarrow> title_kind" where
  "deriveKindFromTitle title =
     (let type = toLowerCase (takeWhile (class_match letter_items) (trim (nullish title [])))
      in if type = ''feat'' \<or> type = ''feature'' then Kind_feature else Kind_bug)"

definition resolvePrTypeLabel ::
  "string option \<Rightarrow> string list \<Rightarrow> string list \<Rightarrow> PrTypeLabelSet option \<Rightarrow> string" where
  "resolvePrTypeLabel title changedPaths contentGlobs labels =
     (let ls = nullish labels DEFAULT_TYPE_LABELS
      in if contentGlobs \<noteq> [] \<and> list_ex (\<lambda>path. matchesAny path contentGlobs) changedPaths
         then lbl_priority ls
         else (case deriveKindFromTitle title of Kind_bug \<Rightarrow> lbl_bug ls | Kind_feature \<Rightarrow> lbl_feature ls))"

section \<open>A matcher on glob tokens\<close>

text \<open>The specification of a glob: its tokens, and what each of them may consume.\<close>

datatype gtok = Lit_tok char | Star | Globstar

function glob_tokens :: "string \<Rightarrow> gtok list" where
  "glob_tokens [] = []"
| "glob_tokens (c # cs) =
     (if c = CHR ''*'' then
        (if cs \<noteq> [] \<and> hd cs = CHR ''*'' then
           Globstar # glob_tokens (if tl cs \<noteq> [] \<and> hd (tl cs) = CHR ''/'' then tl (tl cs) else tl cs)
         else Star # glob_tokens cs)
      else Lit_tok c # glob_tokens cs)"
  by pat_completeness auto
termination
  by (relation "measure length") auto

definition is_newline :: "char \<Rightarrow> bool" where
  "is_newline c = class_match line_terminators c"

fun tokens_match :: "gtok list \<Rightarrow> string \<Rightarrow> bool" where
  "tokens_match [] s = (s = [])"
| "tokens_match (Lit_tok c # ts) s = (\<exists>s'. s = c # s' \<and> tokens_match ts s')"
| "tokens_match (Star # ts) s =
     (\<exists>u v. s = u @ v \<and> CHR ''/'' \<notin> set u \<and> tokens_match ts v)"
| "tokens_match (Globstar # ts) s =
     (\<exists>u v. s = u @ v \<and> (\<forall>c\<in>set u. \<not> is_newline c) \<and> tokens_match ts v)"

fun tok_rx :: "gtok \<Rightarrow> rx" where
  "tok_rx (Lit_tok c) = Oneof [One c]"
| "tok_rx Star = Many (Noneof [One CHR ''/''])"
| "tok_rx Globstar = Many Dot"

lemma glob_pieces_tokens: "glob_pieces g = map tok_rx (glob_tokens g)"
  by (induction g rule: glob_pieces.induct) auto

lemma many_noneof_imp:
  assumes "rx_match (Many (Noneof cs)) p q"
  shows "\<exists>u. snd p = u @ snd q \<and> fst q = rev u @ fst p \<and> (\<forall>c\<in>set u. \<not> class_match cs c)"
  using assms
proof (induction "Many (Noneof cs)" p q rule: rx_match.induct)
  case (many0 p)
  show ?case by (rule exI [of _ "[]"]) simp
next
  case (many1 p q r)
  from many1.hyps(1) obtain d c s where p: "p = (d, c # s)" "q = (c # d, s)" "\<not> class_match cs c"
    by (auto elim: rx_match_elims(3))
  from many1.hyps(3) obtain u where "s = u @ snd r" "fst r = rev u @ c # d" "\<forall>c\<in>set u. \<not> class_match cs c"
    using p by auto
  with p show ?case by (intro exI [of _ "c # u"]) simp
qed

lemma many_noneof_intro:
  "(\<forall>c\<in>set u. \<not> class_match cs c) \<Longrightarrow> rx_match (Many (Noneof cs)) (d, u @ v) (rev u @ d, v)"
proof (induction u arbitrary: d)
  case Nil
  show ?case by (simp add: rx_match.many0)
next
  case (Cons c u)
  have "rx_match (Noneof cs) (d, c # u @ v) (c # d, u @ v)"
    by (rule rx_match.noneof) (use Cons.prems in simp)
  moreover have "rx_match (Many (Noneof cs)) (c # d, u @ v) (rev u @ c # d, v)"
    by (rule Cons.IH) (use Cons.prems in simp)
  ultimately show ?case using rx_match.many1 by fastforce
qed

lemma rx_match_many_noneof: "rx_match (Many (Noneof cs)) (d, s) q \<longleftrightarrow>
    (\<exists>u v. s = u @ v \<and> q = (rev u @ d, v) \<and> (\<forall>c\<in>set u. \<not> class_match cs c))"
  using many_noneof_imp [of cs "(d, s)" q] many_noneof_intro
  by (cases q) (auto; blast)

lemma rx_match_lit: "rx_match (Oneof [One c]) (d, s) q \<longleftrightarrow> (\<exists>s'. s = c # s' \<and> q = (c # d, s'))"
  by (auto elim!: rx_match_elims intro: rx_match.oneof simp: class_match_def)

lemma rx_match_cat_end: "(\<exists>d'. rx_match (Cat a b) p (d', [])) \<longleftrightarrow>
    (\<exists>x y. rx_match a p (x, y) \<and> (\<exists>d'. rx_match b (x, y) (d', [])))"
proof
  assume "\<exists>d'. rx_match (Cat a b) p (d', [])"
  then obtain d' m where "rx_match a p m" "rx_match b m (d', [])"
    by (auto elim: rx_match_elims(4))
  then show "\<exists>x y. rx_match a p (x, y) \<and> (\<exists>d'. rx_match b (x, y) (d', []))"
    by (cases m) blast
qed (blast intro: rx_match.cat)

lemma class_match_slash: "class_match [One CHR ''/''] c \<longleftrightarrow> c = CHR ''/''"
  by (simp add: class_match_def)

lemma rx_match_tokens:
  "(\<exists>d'. rx_match (foldr Cat (map tok_rx ts) Empty) (d, s) (d', [])) \<longleftrightarrow> tokens_match ts s"
proof (induction ts arbitrary: d s)
  case Nil
  show ?case by (auto elim: rx_match_elims intro: rx_match.empty)
next
  case (Cons t ts)
  have "(\<exists>d'. rx_match (foldr Cat (map tok_rx (t # ts)) Empty) (d, s) (d', [])) \<longleftrightarrow>
      (\<exists>x y. rx_match (tok_rx t) (d, s) (x, y) \<and> tokens_match ts y)"
    by (simp add: rx_match_cat_end Cons.IH)
  also have "\<dots> \<longleftrightarrow> tokens_match (t # ts) s"
    by (cases t)
      (auto simp: rx_match_lit rx_match_many_noneof class_match_slash Dot_def is_newline_def)
  finally show ?case .
qed

lemma rx_test_glob: "rx_test (globToRegExp g) path \<longleftrightarrow> tokens_match (glob_tokens g) path"
proof -
  let ?r = "foldr Cat (map tok_rx (glob_tokens g)) Empty"
  have "rx_test (globToRegExp g) path \<longleftrightarrow> rx_match ?r ([], path) (rev path, [])"
    by (simp add: globToRegExp_def rx_test_anchored rx_full_def glob_pieces_tokens)
  also have "\<dots> \<longleftrightarrow> (\<exists>d'. rx_match ?r ([], path) (d', []))"
  proof
    assume "\<exists>d'. rx_match ?r ([], path) (d', [])"
    then obtain d' where d': "rx_match ?r ([], path) (d', [])" by blast
    then have "rev d' = path" by (auto dest: rx_match_text)
    then have "d' = rev path" by auto
    with d' show "rx_match ?r ([], path) (rev path, [])" by simp
  qed blast
  also have "\<dots> \<longleftrightarrow> tokens_match (glob_tokens g) path"
    by (rule rx_match_tokens)
  finally show ?thesis .
qed

lemma matchesAny_iff: "matchesAny path globs \<longleftrightarrow> (\<exists>g\<in>set globs. tokens_match (glob_tokens g) path)"
  by (auto simp: matchesAny_def list_ex_iff rx_test_glob)

section \<open>The interface of the planner\<close>

text \<open>
  What the action planner needs of the path check: it reports changed paths only, reports none
  without globs, treats the paths one by one, and never reports fewer paths when globs are added.
\<close>

locale path_guard =
  fixes hits :: "string list \<Rightarrow> string list \<Rightarrow> string list"
  assumes hits_no_globs: "hits ps [] = []"
    and hits_subset: "set (hits ps gs) \<subseteq> set ps"
    and hits_append: "hits (ps @ qs) gs = hits ps gs @ hits qs gs"
    and hits_mono: "set gs \<subseteq> set gs' \<Longrightarrow> set (hits ps gs) \<subseteq> set (hits ps gs')"
begin

lemma hits_no_paths: "hits [] gs = []"
  using hits_subset [of "[]" gs] by simp

lemma hits_still_blocked: "hits ps gs \<noteq> [] \<Longrightarrow> set gs \<subseteq> set gs' \<Longrightarrow> hits (ps @ qs) gs' \<noteq> []"
  using hits_mono [of gs gs' ps] by (auto simp: hits_append)

end

lemma matchesAny_mono: "set gs \<subseteq> set gs' \<Longrightarrow> matchesAny p gs \<Longrightarrow> matchesAny p gs'"
  by (auto simp: matchesAny_iff)

interpretation guardrail: path_guard changedPathsHittingGuardrail
  by unfold_locales
    (auto simp: changedPathsHittingGuardrail_def matchesAny_iff split: if_splits)

section \<open>Properties\<close>

lemma glob_tokens_plain: "CHR ''*'' \<notin> set g \<Longrightarrow> glob_tokens (g @ h) = map Lit_tok g @ glob_tokens h"
  by (induction g) auto

lemma tokens_match_lits: "tokens_match (map Lit_tok g @ ts) s \<longleftrightarrow> (\<exists>s'. s = g @ s' \<and> tokens_match ts s')"
  by (induction g arbitrary: s) auto

text \<open>
  The guardrail check reports exactly the non-empty changed paths that some configured glob
  matches, where a glob matches by its tokens: a plain character is itself, \<open>*\<close> is any text
  without a slash, and \<open>**\<close> (with a slash it may carry) is any text on one line. The compiled
  regular expression therefore means what the guardrail comment says.
\<close>

theorem guardrail_hits_exact:
  "set (changedPathsHittingGuardrail changedPaths globs) =
     {p \<in> set changedPaths. p \<noteq> [] \<and> (\<exists>g\<in>set globs. tokens_match (glob_tokens g) p)}"
  by (auto simp: changedPathsHittingGuardrail_def matchesAny_iff)

text \<open>
  A directory guard \<open>dir/**\<close> matches a path exactly when the path lies under \<open>dir/\<close>
  and the rest of it holds no line terminator: every ordinary file below the directory is
  guarded, at any depth, and a file name with a line feed in it is not.
\<close>

theorem directory_guard:
  assumes "CHR ''*'' \<notin> set dir"
  shows "matchesAny path [dir @ ''/**''] \<longleftrightarrow>
    (\<exists>rest. path = dir @ ''/'' @ rest \<and> list_ex is_newline rest = False)"
  using assms
  by (auto simp: matchesAny_iff glob_tokens_plain tokens_match_lits list_ex_iff)

theorem directory_guard_witness:
  "CHR ''*'' \<notin> set ''scripts'' \<and> matchesAny ''scripts/ci/check.sh'' [''scripts'' @ ''/**''] \<and>
   \<not> matchesAny (''scripts/a'' @ [CHR 0x0A] @ ''.sh'') [''scripts'' @ ''/**'']"
proof -
  have g: "CHR ''*'' \<notin> set ''scripts''" by simp
  have "matchesAny ''scripts/ci/check.sh'' [''scripts'' @ ''/**'']"
    unfolding directory_guard [OF g]
    by (rule exI [of _ "''ci/check.sh''"]) (simp add: is_newline_def class_match_def line_terminators_def)
  moreover have "\<not> matchesAny (''scripts/a'' @ [CHR 0x0A] @ ''.sh'') [''scripts'' @ ''/**'']"
    unfolding directory_guard [OF g] by (simp add: is_newline_def class_match_def line_terminators_def)
  ultimately show ?thesis using g by blast
qed

lemma asNonEmptyStringArray_SomeD: "asNonEmptyStringArray v = Some gs \<Longrightarrow> gs \<noteq> [] \<and> [] \<notin> set gs"
  by (auto simp: asNonEmptyStringArray_def List.map_filter_def Let_def
      elim!: nonempty_string.elims split: json.splits if_splits)

text \<open>
  The configured guardrails fail safe. Whatever the configuration store holds, and whether it
  is missing or fails, the globs are a non-empty list of non-empty globs, and without a usable
  configuration they are the defaults.
\<close>

theorem guardrail_globs_fail_safe:
  "loadHardGuardrailGlobs env repo \<noteq> [] \<and> [] \<notin> set (loadHardGuardrailGlobs env repo) \<and>
   loadHardGuardrailGlobs None repo = DEFAULT_CRUCIAL_GUARDRAIL_GLOBS \<and>
   loadHardGuardrailGlobs (Some (\<lambda>_. Inl ())) repo = DEFAULT_CRUCIAL_GUARDRAIL_GLOBS"
proof -
  have d: "DEFAULT_CRUCIAL_GUARDRAIL_GLOBS \<noteq> [] \<and> [] \<notin> set DEFAULT_CRUCIAL_GUARDRAIL_GLOBS"
    by (simp add: DEFAULT_CRUCIAL_GUARDRAIL_GLOBS_def)
  then have "loadHardGuardrailGlobs env repo \<noteq> [] \<and> [] \<notin> set (loadHardGuardrailGlobs env repo)"
    by (auto simp: loadHardGuardrailGlobs_def nullish_def dest: asNonEmptyStringArray_SomeD
        split: option.splits sum.splits)
  then show ?thesis by (simp add: loadHardGuardrailGlobs_def)
qed

end
