(* ===== verification/Advisory_Rules.thy ===== *)
theory Advisory_Rules
  imports Domain
begin

text \<open>
  The advisory builders of \<open>rules/advisory.ts\<close>: which findings a repository, a pull request or
  an issue gets, and the severity and conclusion of the advisory. The random identifier and the
  clock the source reads are arguments (\<open>uuid\<close>, \<open>now\<close>).
\<close>

definition finding :: "string \<Rightarrow> AdvisorySeverity \<Rightarrow> string \<Rightarrow> string \<Rightarrow> string option \<Rightarrow>
    string option \<Rightarrow> AdvisoryFinding" where
  "finding c sev t d act pub =
     \<lparr>f_code = c, f_title = t, f_severity = sev, f_detail = d, f_action = act, f_publicText = pub\<rparr>"

lemma finding_sel [simp]:
  "f_code (finding c sev t d act pub) = c"
  "f_severity (finding c sev t d act pub) = sev"
  "f_title (finding c sev t d act pub) = t"
  "f_detail (finding c sev t d act pub) = d"
  "f_action (finding c sev t d act pub) = act"
  "f_publicText (finding c sev t d act pub) = pub"
  by (simp_all add: finding_def)

section \<open>Severity and conclusion\<close>

definition highestSeverity :: "AdvisoryFinding list \<Rightarrow> AdvisorySeverity" where
  "highestSeverity fs =
     (if list_ex (\<lambda>f. f_severity f = critical) fs then critical
      else if list_ex (\<lambda>f. f_severity f = warning) fs then warning
      else info)"

definition conclusionForSeverity :: "AdvisorySeverity \<Rightarrow> AdvisoryFinding list \<Rightarrow> AdvisoryConclusion" where
  "conclusionForSeverity severity fs =
     (if list_ex (\<lambda>f. f_code f = ''repo_unregistered'' \<or> f_code f = ''repo_not_seen'') fs
      then Adv_action_required
      else if severity = warning then Adv_neutral
      else if severity = critical then Adv_action_required
      else Adv_success)"

definition advisory :: "string \<Rightarrow> string \<Rightarrow> AdvisoryTarget \<Rightarrow> string \<Rightarrow> string \<Rightarrow> AdvisoryFinding list \<Rightarrow>
    string \<Rightarrow> nat option \<Rightarrow> nat option \<Rightarrow> string option \<Rightarrow> Advisory" where
  "advisory uuid now targetType targetKey repoFullName fs fallbackSummary pullNumber issueNumber headSha =
     (let severity = highestSeverity fs;
          conclusion = conclusionForSeverity severity fs
      in \<lparr>adv_id = uuid,
          adv_targetType = targetType,
          adv_targetKey = targetKey,
          adv_repoFullName = repoFullName,
          adv_pullNumber = pullNumber,
          adv_issueNumber = issueNumber,
          adv_headSha = headSha,
          adv_conclusion = conclusion,
          adv_severity = severity,
          adv_title = (if conclusion = Adv_success then ''Gittensory advisory passed''
                       else ''Gittensory advisory available''),
          adv_summary =
            (if fs \<noteq> [] then nat_str (length fs) @ '' advisory finding'' @
               (if length fs = 1 then [] else ''s'') @ '' generated.''
             else fallbackSummary),
          adv_findings = fs,
          adv_generatedAt = now\<rparr>)"

section \<open>Findings\<close>

definition addRepoFindings :: "RepositoryRecord \<Rightarrow> AdvisoryFinding list \<Rightarrow> AdvisoryFinding list" where
  "addRepoFindings repo fs =
     (if \<not> repo_isRegistered repo then
        fs @ [finding ''repo_unregistered'' warning
          ''Repository is not registered in the latest snapshot''
          ''This repository is installed in Gittensory, but the latest registry snapshot does not include it.''
          (Some ''Verify repository registration before relying on Gittensor-specific signals.'') None]
      else (case repo_registryConfig repo of
        None \<Rightarrow>
          fs @ [finding ''repo_config_missing'' warning
            ''Repository config was not parsed''
            ''The repository appears in the registry, but its config was not available in normalized form.''
            None None]
      | Some config \<Rightarrow>
          (let issueShare = cfg_issueDiscoveryShare config in
           fs
           @ (if issueShare = 0 then
                [finding ''issue_discovery_disabled'' info
                   ''Issue discovery is disabled for this repo''
                   ''The current Gittensor registry config routes this repository away from issue-discovery work.''
                   None
                   (Some ''This repo is configured for direct contribution review rather than issue-discovery flow.'')]
              else if issueShare = 1 then
                [finding ''direct_pr_pool_disabled'' info
                   ''Direct PR scoring is disabled for this repo''
                   ''The current Gittensor registry config routes this repository fully toward issue-discovery work.''
                   None
                   (Some ''This repo is configured around issue-discovery flow. Maintainers should review PR expectations manually.'')]
              else [])
           @ (if cfg_maintainerCut config > 0 then
                [finding ''maintainer_cut_enabled'' info
                   ''Maintainer allocation is configured''
                   ''This repo has a maintainer allocation configured in the registry.'' None None]
              else []))))"

definition overlappingPrs :: "PullRequestRecord \<Rightarrow> PullRequestRecord list \<Rightarrow> PullRequestRecord list" where
  "overlappingPrs pr others =
     filter (\<lambda>other. list_ex (\<lambda>n. n \<in> set (pr_linkedIssues pr)) (pr_linkedIssues other)) others"

definition addPullRequestFindings ::
  "RepositoryRecord option \<Rightarrow> PullRequestRecord \<Rightarrow> AdvisoryFinding list \<Rightarrow> PullRequestRecord list \<Rightarrow> bool \<Rightarrow>
   AdvisoryFinding list" where
  "addPullRequestFindings repo pr fs otherOpenPullRequests requireLinkedIssue =
     fs
     @ (if pr_state pr \<noteq> ''open'' then
          [finding ''pr_not_open'' info ''Pull request is not open''
             (''The pull request state is '' @ pr_state pr @ ''.'') None None]
        else [])
     @ (if pr_linkedIssues pr = [] \<and> requireLinkedIssue then
          [finding ''missing_linked_issue'' warning ''No linked issue detected''
             ''No closing reference or linked issue number was found in the PR metadata/body.''
             (Some ''If this PR is intended to solve an issue, link it explicitly in the PR body.'') None]
        else
          (let overlapping = overlappingPrs pr otherOpenPullRequests in
           if overlapping \<noteq> [] then
             [finding ''duplicate_pr_risk'' warning ''Linked issue overlaps another open PR''
                (''Other open pull requests reference the same linked issue set: '' @
                 join '', '' (map (\<lambda>p. ''#'' @ nat_str (pr_number p)) overlapping) @ ''.'')
                (Some ''Review the related PRs before spending reviewer time on duplicate work.'') None]
           else []))
     @ (if length otherOpenPullRequests \<ge> 10 then
          [finding ''busy_pr_queue'' info ''Open PR queue is busy''
             (''Gittensory has '' @ nat_str (length otherOpenPullRequests) @
              '' other open pull requests cached for this repository.'') None
             (Some ''This repo has a busy open PR queue in the local Gittensory cache.'')]
        else [])
     @ (let repoMultipliers =
              (case repo of None \<Rightarrow> Map.empty
               | Some r \<Rightarrow> (case repo_registryConfig r of None \<Rightarrow> Map.empty | Some c \<Rightarrow> map_of (cfg_labelMultipliers c)));
            matchedLabels = filter (\<lambda>l. repoMultipliers l \<noteq> None) (pr_labels pr)
        in if matchedLabels \<noteq> [] then
             [finding ''label_context_found'' info ''Configured label context found''
                (''Matched configured labels: '' @ join '', '' matchedLabels @ ''.'') None None]
           else [])
     @ (case pr_authorAssociation pr of
          None \<Rightarrow> []
        | Some a \<Rightarrow>
            if a \<in> set [''OWNER'', ''MEMBER'', ''COLLABORATOR''] then
              [finding ''maintainer_authored_pr'' info ''PR author has maintainer association''
                 ''GitHub marks this PR author as owner, member, or collaborator for the repository.'' None
                 (Some ''This PR appears to come from a maintainer-associated account.'')]
            else [])"

definition addIssueFindings ::
  "RepositoryRecord option \<Rightarrow> IssueRecord \<Rightarrow> AdvisoryFinding list \<Rightarrow> AdvisoryFinding list" where
  "addIssueFindings repo issue fs =
     fs
     @ (if iss_state issue \<noteq> ''open'' then
          [finding ''issue_not_open'' info ''Issue is not open''
             (''The issue state is '' @ iss_state issue @ ''.'') None None]
        else [])
     @ (if iss_linkedPrs issue \<noteq> [] then
          [finding ''issue_has_linked_prs'' warning ''Issue already has linked PRs''
             (''Linked pull requests detected: '' @ join '', '' (map nat_str (iss_linkedPrs issue)) @ ''.'')
             (Some ''Avoid duplicate work unless the linked PR is abandoned or incomplete.'') None]
        else [])
     @ (if (case repo of None \<Rightarrow> None | Some r \<Rightarrow> map_option cfg_issueDiscoveryShare (repo_registryConfig r))
            = Some 0 then
          [finding ''issue_discovery_not_configured'' info ''Issue discovery is not configured for this repo''
             ''The current repo config does not route this repository toward issue-discovery work.'' None None]
        else [])"

section \<open>The three builders\<close>

definition buildRepositoryAdvisory ::
  "string \<Rightarrow> string \<Rightarrow> RepositoryRecord option \<Rightarrow> string \<Rightarrow> Advisory" where
  "buildRepositoryAdvisory uuid now repo fullName =
     (let fs = (case repo of
          None \<Rightarrow> [finding ''repo_not_seen'' warning ''Repository is not in the local index''
             ''Gittensory has not seen this repository through registry sync or GitHub App installation yet.''
             (Some ''Install the GitHub App or refresh the Gittensor registry snapshot.'') None]
        | Some r \<Rightarrow> addRepoFindings r [])
      in advisory uuid now Target_repository fullName fullName fs ''Repository advisory generated.''
           None None None)"

definition buildPullRequestAdvisory ::
  "string \<Rightarrow> string \<Rightarrow> RepositoryRecord option \<Rightarrow> PullRequestRecord option \<Rightarrow>
   PullRequestRecord list option \<Rightarrow> bool option \<Rightarrow> Advisory" where
  "buildPullRequestAdvisory uuid now repo pr otherOpenPullRequests requireLinkedIssue =
     (let repoFullName = (case pr of Some p \<Rightarrow> pr_repoFullName p
                          | None \<Rightarrow> (case repo of Some r \<Rightarrow> repo_fullName r | None \<Rightarrow> ''unknown/unknown''));
          target = repoFullName @ ''#'' @ (case pr of Some p \<Rightarrow> nat_str (pr_number p) | None \<Rightarrow> ''unknown'');
          fs1 = (case repo of
            None \<Rightarrow> [finding ''repo_not_registered'' warning ''Repository registration is unknown''
               ''Gittensory cannot evaluate repo-specific rules until registry data is available.''
               (Some ''Refresh the Gittensor registry snapshot.'') None]
          | Some r \<Rightarrow> addRepoFindings r []);
          fs2 = (case pr of
            None \<Rightarrow> fs1 @ [finding ''pr_not_cached'' warning ''Pull request is not cached''
               ''The GitHub webhook or manual fetch has not recorded this pull request yet.''
               (Some ''Re-deliver the webhook or wait for the next sync.'') None]
          | Some p \<Rightarrow> addPullRequestFindings repo p fs1 (nullish otherOpenPullRequests [])
              (requireLinkedIssue = Some True))
      in advisory uuid now Target_pull_request target repoFullName fs2 ''Pull request advisory generated.''
           (map_option pr_number pr) None (case pr of None \<Rightarrow> None | Some p \<Rightarrow> pr_headSha p))"

definition buildIssueAdvisory ::
  "string \<Rightarrow> string \<Rightarrow> RepositoryRecord option \<Rightarrow> IssueRecord option \<Rightarrow> Advisory" where
  "buildIssueAdvisory uuid now repo issue =
     (let repoFullName = (case issue of Some i \<Rightarrow> iss_repoFullName i
                          | None \<Rightarrow> (case repo of Some r \<Rightarrow> repo_fullName r | None \<Rightarrow> ''unknown/unknown''));
          target = repoFullName @ ''#'' @ (case issue of Some i \<Rightarrow> nat_str (iss_number i) | None \<Rightarrow> ''unknown'');
          fs1 = (case repo of
            None \<Rightarrow> [finding ''repo_not_registered'' warning ''Repository registration is unknown''
               ''Gittensory cannot evaluate repo-specific issue rules until registry data is available.'' None None]
          | Some r \<Rightarrow> addRepoFindings r []);
          fs2 = (case issue of
            None \<Rightarrow> fs1 @ [finding ''issue_not_cached'' warning ''Issue is not cached''
               ''The GitHub webhook or manual fetch has not recorded this issue yet.'' None None]
          | Some i \<Rightarrow> addIssueFindings repo i fs1)
      in advisory uuid now Target_issue target repoFullName fs2 ''Issue advisory generated.''
           None (map_option iss_number issue) None)"

end
