(* ===== verification/Gate.thy ===== *)
theory Gate
  imports Advisory_Rules Js_Regex
begin

text \<open>
  The gate of \<open>rules/advisory.ts\<close>: which findings block under a policy, the verdict
  \<open>evaluateGateCheck\<close>, and the check-run text \<open>formatGateCheckOutput\<close>.
\<close>

datatype GateCheckConclusion = gc_success | gc_failure | gc_action_required | gc_neutral | gc_skipped

fun conclusion_name :: "GateCheckConclusion \<Rightarrow> string" where
  "conclusion_name gc_success = ''success''"
| "conclusion_name gc_failure = ''failure''"
| "conclusion_name gc_action_required = ''action_required''"
| "conclusion_name gc_neutral = ''neutral''"
| "conclusion_name gc_skipped = ''skipped''"

record GateCheckPolicy =
  linkedIssueGateMode :: "GateRuleMode option"
  duplicatePrGateMode :: "GateRuleMode option"
  qualityGateMode :: "GateRuleMode option"
  qualityGateMinScore :: "js_num option"
  aiReviewGateMode :: "GateRuleMode option"
  readinessScore :: "js_num option"
  slopGateMode :: "GateRuleMode option"
  slopGateMinScore :: "js_num option"
  slopRisk :: "js_num option"
  mergeReadinessGateMode :: "GateRuleMode option"
  manifestPolicyGateMode :: "GateRuleMode option"
  firstTimeContributorGrace :: "bool option"
  authorMergedPrCount :: "nat option"
  authorClosedUnmergedPrCount :: "nat option"
  confirmedContributor :: "bool option"

definition empty_policy :: GateCheckPolicy where
  "empty_policy =
     \<lparr>linkedIssueGateMode = None, duplicatePrGateMode = None, qualityGateMode = None,
      qualityGateMinScore = None, aiReviewGateMode = None, readinessScore = None,
      slopGateMode = None, slopGateMinScore = None, slopRisk = None,
      mergeReadinessGateMode = None, manifestPolicyGateMode = None,
      firstTimeContributorGrace = None, authorMergedPrCount = None,
      authorClosedUnmergedPrCount = None, confirmedContributor = None\<rparr>"

record GateCheckEvaluation =
  ge_enabled :: bool
  ge_conclusion :: GateCheckConclusion
  ge_title :: string
  ge_summary :: string
  ge_blockers :: "AdvisoryFinding list"
  ge_warnings :: "AdvisoryFinding list"

section \<open>Text that leaves the service\<close>

text \<open>\<open>CHECK_RUN_FORBIDDEN_TERMS\<close>, with its words in lower case for the flag \<open>i\<close>.\<close>

definition rx_spaces :: rx where
  "rx_spaces = Plus (Oneof space_items)"

definition rx_plural :: "string \<Rightarrow> rx" where
  "rx_plural w = Seq [Lit w, Opt (Lit ''s'')]"

definition CHECK_RUN_FORBIDDEN_TERMS :: rx where
  "CHECK_RUN_FORBIDDEN_TERMS = Seq [Wordb, Alt
     [rx_plural ''reward'', rx_plural ''payout'', Lit ''farming'',
      Seq [Lit ''estimated'', rx_spaces, rx_plural ''score''],
      Seq [Lit ''raw'', rx_spaces, Lit ''trust'', rx_spaces, rx_plural ''score''],
      Seq [Lit ''trust'', rx_spaces, rx_plural ''score''],
      Seq [Lit ''score'', rx_spaces, rx_plural ''estimate''],
      Seq [Lit ''reward'', rx_spaces, rx_plural ''estimate''],
      rx_plural ''wallet'', rx_plural ''hotkey'', rx_plural ''coldkey'',
      Lit ''reviewability'', Lit ''scoreability'',
      Seq [Lit ''private'', rx_spaces, rx_plural ''signal'']], Wordb]"

definition sanitizeForCheckRun :: "string \<Rightarrow> string" where
  "sanitizeForCheckRun text =
     trim (replace_all rx_spaces '' '' (replace_all_i CHECK_RUN_FORBIDDEN_TERMS ''[context]'' text))"

section \<open>Blockers\<close>

definition gateMode :: "GateRuleMode option \<Rightarrow> GateRuleMode" where
  "gateMode value = (if value = Some gate_off \<or> value = Some gate_block then the value else gate_advisory)"

definition applyMergeReadinessGate :: "GateCheckPolicy \<Rightarrow> GateCheckPolicy" where
  "applyMergeReadinessGate policy =
     (let composite = gateMode (Some (nullish (mergeReadinessGateMode policy) gate_off))
      in if composite = gate_off then policy
         else policy\<lparr>linkedIssueGateMode := Some composite, duplicatePrGateMode := Some composite,
                qualityGateMode := Some composite, slopGateMode := Some composite\<rparr>)"

definition normalizeScore :: "js_num option \<Rightarrow> int option" where
  "normalizeScore value =
     (case value of Some (Finite x) \<Rightarrow> Some (max 0 (min 100 (js_round x))) | _ \<Rightarrow> None)"

definition isEvaluationBlocker :: "string \<Rightarrow> bool" where
  "isEvaluationBlocker code \<longleftrightarrow>
     code = ''repo_not_registered'' \<or> code = ''repo_not_seen'' \<or> code = ''pr_not_cached''"

definition isConfiguredGateBlocker :: "string \<Rightarrow> GateCheckPolicy \<Rightarrow> bool" where
  "isConfiguredGateBlocker code policy =
     (if code = ''missing_linked_issue'' then
        gateMode (Some (nullish (linkedIssueGateMode policy) gate_advisory)) = gate_block
      else if code = ''duplicate_pr_risk'' then
        gateMode (Some (nullish (duplicatePrGateMode policy) gate_block)) = gate_block
      else if code = ''ai_consensus_defect'' then
        gateMode (Some (nullish (aiReviewGateMode policy) gate_advisory)) = gate_block
      else if code = ''secret_leak'' then True
      else if code = ''manifest_blocked_path'' \<or> code = ''manifest_linked_issue_required'' \<or>
              code = ''manifest_missing_tests'' then
        gateMode (Some (nullish (manifestPolicyGateMode policy) gate_off)) = gate_block
      else False)"

definition buildQualityGateBlocker :: "GateCheckPolicy \<Rightarrow> AdvisoryFinding option" where
  "buildQualityGateBlocker policy =
     (if gateMode (qualityGateMode policy) \<noteq> gate_block then None
      else (case (normalizeScore (readinessScore policy), normalizeScore (qualityGateMinScore policy)) of
        (Some score, Some minScore) \<Rightarrow>
          (if score \<ge> minScore then None
           else Some (finding ''readiness_score_below_threshold'' warning
             ''Readiness score is below the configured threshold''
             (''The public readiness score is '' @ int_str score @
              ''/100, below the repository threshold of '' @ int_str minScore @ ''/100.'')
             (Some ''Address the short explicit PR panel actions, then re-run the gate.'') None))
      | _ \<Rightarrow> None))"

definition DEFAULT_SLOP_BLOCK_THRESHOLD :: int where
  "DEFAULT_SLOP_BLOCK_THRESHOLD = 60"

definition buildSlopGateBlocker :: "GateCheckPolicy \<Rightarrow> AdvisoryFinding option" where
  "buildSlopGateBlocker policy =
     (if gateMode (slopGateMode policy) \<noteq> gate_block then None
      else (case normalizeScore (slopRisk policy) of
        None \<Rightarrow> None
      | Some risk \<Rightarrow>
          (let minScore = nullish (normalizeScore (slopGateMinScore policy)) DEFAULT_SLOP_BLOCK_THRESHOLD
           in if risk < minScore then None
              else Some (finding ''slop_risk_above_threshold'' warning
                ''Slop risk is above the configured threshold''
                (''The deterministic slop risk is '' @ int_str risk @
                 ''/100, at or above the repository threshold of '' @ int_str minScore @ ''/100.'')
                (Some ''Reduce whitespace-only churn, add test evidence, or describe the change, then re-run the gate.'')
                None))))"

definition opt_list :: "'a option \<Rightarrow> 'a list" where
  "opt_list x = (case x of None \<Rightarrow> [] | Some v \<Rightarrow> [v])"

section \<open>The verdict\<close>

definition findingWarnings :: "AdvisoryFinding list \<Rightarrow> AdvisoryFinding list" where
  "findingWarnings = filter (\<lambda>f. f_severity f = warning)"

definition gateBlockers :: "AdvisoryFinding list \<Rightarrow> GateCheckPolicy \<Rightarrow> AdvisoryFinding list" where
  "gateBlockers fs effective =
     filter (\<lambda>f. isConfiguredGateBlocker (f_code f) effective) fs
     @ opt_list (buildQualityGateBlocker effective) @ opt_list (buildSlopGateBlocker effective)"

definition graceApplies :: "GateCheckPolicy \<Rightarrow> bool" where
  "graceApplies effective =
     (let isNewcomer = nullish (authorMergedPrCount effective) 0 = 0;
          isRepeatOffender = nullish (authorClosedUnmergedPrCount effective) 0 \<ge> 3
      in firstTimeContributorGrace effective = Some True \<and> isNewcomer \<and> \<not> isRepeatOffender)"

text \<open>
  The warnings of a failing gate leave out the findings that are blockers. \<open>includes\<close> compares
  references, and the blockers that are findings are the ones the filter selected, so the
  test is the filter's condition.
\<close>

definition evaluateGateCheck :: "Advisory \<Rightarrow> GateCheckPolicy \<Rightarrow> GateCheckEvaluation" where
  "evaluateGateCheck advisoryResult policy =
     (let fs = adv_findings advisoryResult;
          warnings = findingWarnings fs
      in if list_ex (\<lambda>f. isEvaluationBlocker (f_code f)) fs then
           \<lparr>ge_enabled = True, ge_conclusion = gc_neutral,
            ge_title = ''Gittensory Gate '' @ em_dash @ '' not evaluated yet'',
            ge_summary = ''Gittensory has not finished syncing this repo/PR. The gate stays advisory and re-evaluates automatically; no action is needed.'',
            ge_blockers = [], ge_warnings = warnings\<rparr>
         else
           (let effective = applyMergeReadinessGate policy;
                blockers = gateBlockers fs effective
            in if confirmedContributor effective = Some False \<and> blockers \<noteq> [] then
                 \<lparr>ge_enabled = True, ge_conclusion = gc_neutral,
                  ge_title = ''Gittensory Gate '' @ em_dash @ '' advisory only'',
                  ge_summary = ''The PR author is not a confirmed Gittensor contributor, so gittensory does not block this PR. Findings stay advisory.'',
                  ge_blockers = [], ge_warnings = warnings\<rparr>
               else if graceApplies effective \<and> blockers \<noteq> [] then
                 \<lparr>ge_enabled = True, ge_conclusion = gc_neutral,
                  ge_title = ''Gittensory Gate '' @ em_dash @ '' first-contribution grace'',
                  ge_summary = ''This is a first-time contribution to this repo, so the gate stays advisory rather than blocking. The findings remain visible, and the gate will apply normally once this author has merge history here.'',
                  ge_blockers = [], ge_warnings = warnings\<rparr>
               else if blockers = [] then
                 \<lparr>ge_enabled = True, ge_conclusion = gc_success,
                  ge_title = ''Gittensory Gate passed'',
                  ge_summary = ''No configured hard blocker was found. Advisory findings, if any, stay advisory.'',
                  ge_blockers = blockers, ge_warnings = warnings\<rparr>
               else
                 (let titleDetail = (if length blockers = 1 then sanitizeForCheckRun (f_title (hd blockers))
                                     else nat_str (length blockers) @ '' blockers'')
                  in \<lparr>ge_enabled = True, ge_conclusion = gc_failure,
                      ge_title = ''Gittensory Gate: '' @ titleDetail,
                      ge_summary = join ''; '' (map (\<lambda>f. sanitizeForCheckRun (f_title f) @
                          (case f_action f of
                             None \<Rightarrow> []
                           | Some a \<Rightarrow> if a = [] then [] else '' '' @ em_dash @ '' '' @ sanitizeForCheckRun a))
                        blockers),
                      ge_blockers = blockers,
                      ge_warnings = filter (\<lambda>f. f_severity f = warning \<and>
                          \<not> isConfiguredGateBlocker (f_code f) effective) fs\<rparr>)))"

record GateCheckOutput =
  go_title :: string
  go_summary :: string
  go_text :: string

definition formatGateCheckOutput :: "GateCheckEvaluation \<Rightarrow> GateCheckOutput" where
  "formatGateCheckOutput gate =
     (if ge_conclusion gate = gc_success then
        \<lparr>go_title = ge_title gate,
         go_summary = ''Gittensory Gate is advisory-first. This PR has no configured hard blocker.'',
         go_text = ''No configured hard blocker was found. Advisory signals remain visible in the PR panel when comments are enabled.''\<rparr>
      else if ge_conclusion gate = gc_neutral \<or> ge_conclusion gate = gc_skipped then
        \<lparr>go_title = take 255 (ge_title gate),
         go_summary = ge_summary gate,
         go_text = ''Gittensory did not create a contributor-facing failure for this event.''\<rparr>
      else
        (let blockerLines = map (\<lambda>f. ''- '' @ sanitizeForCheckRun (f_title f) @ ''.'' @
               (case f_action f of
                  None \<Rightarrow> []
                | Some a \<Rightarrow> if a = [] then [] else '' Action: '' @ sanitizeForCheckRun a))
             (take 8 (ge_blockers gate))
         in \<lparr>go_title = take 255 (ge_title gate),
             go_summary = ''Gittensory Gate found a repo-configured hard blocker.'',
             go_text = (if blockerLines \<noteq> [] then join [CHR 0x0A] blockerLines
                        else ''A configured hard blocker was found.'')\<rparr>))"

section \<open>Lemmas\<close>

lemma gateMode_simps [simp]:
  "gateMode None = gate_advisory"
  "gateMode (Some m) = m"
  by (cases m; simp add: gateMode_def)+

lemma opt_list_Nil_iff [simp]: "opt_list x = [] \<longleftrightarrow> x = None"
  by (cases x) (simp_all add: opt_list_def)

lemma set_opt_list: "y \<in> set (opt_list x) \<longleftrightarrow> x = Some y"
  by (cases x) (auto simp: opt_list_def)

text \<open>The composite touches the four sub-gate modes only.\<close>

lemma applyMergeReadinessGate_frame [simp]:
  "confirmedContributor (applyMergeReadinessGate p) = confirmedContributor p"
  "graceApplies (applyMergeReadinessGate p) = graceApplies p"
  by (simp_all add: applyMergeReadinessGate_def graceApplies_def Let_def)

lemma applyMergeReadinessGate_empty [simp]: "applyMergeReadinessGate empty_policy = empty_policy"
  by (simp add: applyMergeReadinessGate_def empty_policy_def)

definition evaluationBlocked :: "AdvisoryFinding list \<Rightarrow> bool" where
  "evaluationBlocked fs \<longleftrightarrow> (\<exists>f\<in>set fs. isEvaluationBlocker (f_code f))"

lemma ge_conclusion_cases:
  "ge_conclusion (evaluateGateCheck a p) =
     (if evaluationBlocked (adv_findings a) then gc_neutral
      else if gateBlockers (adv_findings a) (applyMergeReadinessGate p) = [] then gc_success
      else if confirmedContributor p = Some False \<or> graceApplies p then gc_neutral
      else gc_failure)"
  by (simp add: evaluateGateCheck_def Let_def evaluationBlocked_def list_ex_iff)

lemma quality_blocker_iff: "buildQualityGateBlocker p \<noteq> None \<longleftrightarrow>
    gateMode (qualityGateMode p) = gate_block \<and>
    (\<exists>score minScore. normalizeScore (readinessScore p) = Some score \<and>
       normalizeScore (qualityGateMinScore p) = Some minScore \<and> score < minScore)"
  by (auto simp: buildQualityGateBlocker_def split: option.splits)

lemma slop_blocker_iff: "buildSlopGateBlocker p \<noteq> None \<longleftrightarrow>
    gateMode (slopGateMode p) = gate_block \<and>
    (\<exists>risk. normalizeScore (slopRisk p) = Some risk \<and>
       nullish (normalizeScore (slopGateMinScore p)) DEFAULT_SLOP_BLOCK_THRESHOLD \<le> risk)"
  by (auto simp: buildSlopGateBlocker_def Let_def split: option.splits)

lemma gateBlockers_Nil_iff: "gateBlockers fs p = [] \<longleftrightarrow>
    (\<forall>f\<in>set fs. \<not> isConfiguredGateBlocker (f_code f) p) \<and>
    buildQualityGateBlocker p = None \<and> buildSlopGateBlocker p = None"
  by (auto simp: gateBlockers_def filter_empty_conv)

lemma gateBlockers_empty_policy: "gateBlockers fs empty_policy = [] \<longleftrightarrow>
    (\<forall>f\<in>set fs. f_code f \<noteq> ''duplicate_pr_risk'' \<and> f_code f \<noteq> ''secret_leak'')"
  by (auto simp: gateBlockers_Nil_iff buildQualityGateBlocker_def buildSlopGateBlocker_def
      isConfiguredGateBlocker_def empty_policy_def)

lemma normalizeScore_bounds: "normalizeScore v = Some n \<Longrightarrow> 0 \<le> n \<and> n \<le> 100"
  by (auto simp: normalizeScore_def split: option.splits js_num.splits)

text \<open>The codes the advisory builders can produce.\<close>

lemma addRepoFindings_codes: "f \<in> set (addRepoFindings r []) \<Longrightarrow>
    f_code f \<in> set [''repo_unregistered'', ''repo_config_missing'', ''issue_discovery_disabled'',
      ''direct_pr_pool_disabled'', ''maintainer_cut_enabled'']"
  by (auto simp: addRepoFindings_def Let_def split: if_splits option.splits)

lemma overlappingPrs_Nil: "pr_linkedIssues p = [] \<Longrightarrow> overlappingPrs p others = []"
  by (simp add: overlappingPrs_def list_ex_iff)

lemma addPullRequestFindings_codes:
  assumes "f \<in> set (addPullRequestFindings repo p fs others req)"
  shows "f \<in> set fs \<or> f_code f \<in> set [''pr_not_open'', ''missing_linked_issue'', ''busy_pr_queue'',
      ''label_context_found'', ''maintainer_authored_pr''] \<or>
    (f_code f = ''duplicate_pr_risk'' \<and> overlappingPrs p others \<noteq> [])"
  (is "?goal")
proof -
  have "f \<in> set fs \<or> f_code f = ''pr_not_open'' \<or> f_code f = ''missing_linked_issue'' \<or>
      (f_code f = ''duplicate_pr_risk'' \<and> overlappingPrs p others \<noteq> []) \<or>
      f_code f = ''busy_pr_queue'' \<or> f_code f = ''label_context_found'' \<or>
      f_code f = ''maintainer_authored_pr''"
    using assms unfolding addPullRequestFindings_def Let_def set_append Un_iff
    by (elim disjE) (simp_all split: if_splits option.splits, auto)
  then show ?goal by (elim disjE) simp_all
qed

lemma addPullRequestFindings_duplicate: "overlappingPrs p others \<noteq> [] \<Longrightarrow>
    \<exists>f\<in>set (addPullRequestFindings repo p fs others req). f_code f = ''duplicate_pr_risk''"
  using overlappingPrs_Nil [of p others]
  by (cases "pr_linkedIssues p = []") (auto simp: addPullRequestFindings_def Let_def)

lemma adv_findings_advisory [simp]: "adv_findings (advisory u n t k r fs fb pn isn sha) = fs"
  by (simp add: advisory_def Let_def)

lemma pr_advisory_findings:
  "adv_findings (buildPullRequestAdvisory u n repo pr others req) =
     (let fs1 = (case repo of None \<Rightarrow> [finding ''repo_not_registered'' warning ''Repository registration is unknown''
               ''Gittensory cannot evaluate repo-specific rules until registry data is available.''
               (Some ''Refresh the Gittensor registry snapshot.'') None] | Some r \<Rightarrow> addRepoFindings r [])
      in case pr of None \<Rightarrow> fs1 @ [finding ''pr_not_cached'' warning ''Pull request is not cached''
               ''The GitHub webhook or manual fetch has not recorded this pull request yet.''
               (Some ''Re-deliver the webhook or wait for the next sync.'') None]
         | Some p \<Rightarrow> addPullRequestFindings repo p fs1 (nullish others []) (req = Some True))"
  by (simp add: buildPullRequestAdvisory_def Let_def split: option.splits)

lemma addPullRequestFindings_keeps: "set fs \<subseteq> set (addPullRequestFindings repo p fs others req)"
  by (auto simp: addPullRequestFindings_def)

lemma addRepoFindings_not_special:
  "f \<in> set (addRepoFindings r []) \<Longrightarrow> \<not> isEvaluationBlocker (f_code f) \<and>
     f_code f \<noteq> ''duplicate_pr_risk'' \<and> f_code f \<noteq> ''secret_leak''"
  by (drule addRepoFindings_codes) (auto simp: isEvaluationBlocker_def)

lemma pr_findings_not_special:
  assumes "f \<in> set (addPullRequestFindings (Some r) p (addRepoFindings r []) others req)"
  shows "\<not> isEvaluationBlocker (f_code f) \<and> f_code f \<noteq> ''secret_leak'' \<and>
    (f_code f = ''duplicate_pr_risk'' \<longrightarrow> overlappingPrs p others \<noteq> [])"
  using addPullRequestFindings_codes [OF assms]
  by (elim disjE) (auto simp: isEvaluationBlocker_def dest: addRepoFindings_not_special)

lemma pr_gate_blockers: "gateBlockers (addPullRequestFindings (Some r) p (addRepoFindings r []) others req)
    empty_policy = [] \<longleftrightarrow> overlappingPrs p others = []"
  using addPullRequestFindings_duplicate [of p others "Some r" "addRepoFindings r []" req]
  by (auto simp: gateBlockers_empty_policy dest: pr_findings_not_special)

lemma pr_not_evaluation_blocked:
  "\<not> evaluationBlocked (addPullRequestFindings (Some r) p (addRepoFindings r []) others req)"
  by (auto simp: evaluationBlocked_def dest: pr_findings_not_special)

lemma evaluation_blocked_unknown_repo:
  "evaluationBlocked (adv_findings (buildPullRequestAdvisory u n None pr others req))"
proof -
  let ?f = "finding ''repo_not_registered'' warning ''Repository registration is unknown''
    ''Gittensory cannot evaluate repo-specific rules until registry data is available.''
    (Some ''Refresh the Gittensor registry snapshot.'') None"
  have "?f \<in> set (adv_findings (buildPullRequestAdvisory u n None pr others req))"
    using addPullRequestFindings_keeps [of "[?f]"]
    by (auto simp: pr_advisory_findings Let_def split: option.splits)
  moreover have "isEvaluationBlocker (f_code ?f)" by (simp add: isEvaluationBlocker_def)
  ultimately show ?thesis unfolding evaluationBlocked_def by blast
qed

lemma evaluation_blocked_unknown_pr:
  "evaluationBlocked (adv_findings (buildPullRequestAdvisory u n (Some r) None others req))"
  by (simp add: evaluationBlocked_def pr_advisory_findings Let_def isEvaluationBlocker_def)

lemma length_nat_str_le: "length (nat_str n) \<le> Suc n"
proof (induction n rule: nat_str.induct)
  case (1 n)
  show ?case
  proof (cases "n < 10")
    case True
    then show ?thesis by (simp add: nat_str.simps [of n])
  next
    case False
    with 1 have "length (nat_str (n div 10)) \<le> Suc (n div 10)" by simp
    with False show ?thesis by (simp add: nat_str.simps [of n])
  qed
qed

section \<open>Properties\<close>

text \<open>
  C5: when the gate fails a pull request. It fails exactly when the repository and the pull
  request are known, the author was not declared unconfirmed, first-contribution grace does not
  apply, and, under the policy with the merge-readiness composite applied, some finding is a
  configured blocker, or the rounded readiness score is below its minimum, or the rounded slop
  risk has reached its minimum (60 unless configured). It never concludes \<open>action_required\<close> or
  \<open>skipped\<close>, and it names blockers exactly when it fails.
\<close>

theorem gate_failure_iff:
  "(ge_conclusion (evaluateGateCheck a p) = gc_failure \<longleftrightarrow>
     (\<nexists>f. f \<in> set (adv_findings a) \<and> isEvaluationBlocker (f_code f)) \<and>
     confirmedContributor p \<noteq> Some False \<and> \<not> graceApplies p \<and>
     (let q = applyMergeReadinessGate p in
       (\<exists>f. f \<in> set (adv_findings a) \<and> isConfiguredGateBlocker (f_code f) q) \<or>
       (gateMode (qualityGateMode q) = gate_block \<and>
         (\<exists>score minScore. normalizeScore (readinessScore q) = Some score \<and>
            normalizeScore (qualityGateMinScore q) = Some minScore \<and> score < minScore)) \<or>
       (gateMode (slopGateMode q) = gate_block \<and>
         (\<exists>risk. normalizeScore (slopRisk q) = Some risk \<and>
            nullish (normalizeScore (slopGateMinScore q)) 60 \<le> risk)))) \<and>
   ge_conclusion (evaluateGateCheck a p) \<in> {gc_success, gc_failure, gc_neutral} \<and>
   (ge_blockers (evaluateGateCheck a p) \<noteq> [] \<longleftrightarrow> ge_conclusion (evaluateGateCheck a p) = gc_failure)"
proof (intro conjI)
  let ?q = "applyMergeReadinessGate p"
  have blockers: "gateBlockers (adv_findings a) ?q \<noteq> [] \<longleftrightarrow>
      (\<exists>f. f \<in> set (adv_findings a) \<and> isConfiguredGateBlocker (f_code f) ?q) \<or>
      buildQualityGateBlocker ?q \<noteq> None \<or> buildSlopGateBlocker ?q \<noteq> None"
    by (auto simp: gateBlockers_Nil_iff)
  have verdict: "ge_conclusion (evaluateGateCheck a p) = gc_failure \<longleftrightarrow>
      \<not> evaluationBlocked (adv_findings a) \<and> confirmedContributor p \<noteq> Some False \<and>
      \<not> graceApplies p \<and> gateBlockers (adv_findings a) ?q \<noteq> []"
    by (auto simp: ge_conclusion_cases)
  show "ge_conclusion (evaluateGateCheck a p) = gc_failure \<longleftrightarrow>
     (\<nexists>f. f \<in> set (adv_findings a) \<and> isEvaluationBlocker (f_code f)) \<and>
     confirmedContributor p \<noteq> Some False \<and> \<not> graceApplies p \<and>
     (let q = applyMergeReadinessGate p in
       (\<exists>f. f \<in> set (adv_findings a) \<and> isConfiguredGateBlocker (f_code f) q) \<or>
       (gateMode (qualityGateMode q) = gate_block \<and>
         (\<exists>score minScore. normalizeScore (readinessScore q) = Some score \<and>
            normalizeScore (qualityGateMinScore q) = Some minScore \<and> score < minScore)) \<or>
       (gateMode (slopGateMode q) = gate_block \<and>
         (\<exists>risk. normalizeScore (slopRisk q) = Some risk \<and>
            nullish (normalizeScore (slopGateMinScore q)) 60 \<le> risk)))"
    unfolding verdict blockers quality_blocker_iff slop_blocker_iff evaluationBlocked_def Let_def
      DEFAULT_SLOP_BLOCK_THRESHOLD_def Bex_def ..
  show "ge_conclusion (evaluateGateCheck a p) \<in> {gc_success, gc_failure, gc_neutral}"
    by (simp add: ge_conclusion_cases)
  show "ge_blockers (evaluateGateCheck a p) \<noteq> [] \<longleftrightarrow> ge_conclusion (evaluateGateCheck a p) = gc_failure"
    by (simp add: evaluateGateCheck_def Let_def)
qed

text \<open>
  With no gate configured, the gate over the advisory of a pull request fails exactly when
  another open pull request links one of its issues, passes every other known pull request
  (missing linked issues, closed state and all other findings stay advisory), and stays neutral
  when the repository or the pull request is unknown.
\<close>

theorem default_gate_blocks_duplicates_only:
  "ge_conclusion (evaluateGateCheck (buildPullRequestAdvisory u n repo pr others req) empty_policy) =
     (case (repo, pr) of
        (Some r, Some p) \<Rightarrow>
          if \<exists>q i. q \<in> set (nullish others []) \<and> i \<in> set (pr_linkedIssues q) \<and> i \<in> set (pr_linkedIssues p)
          then gc_failure else gc_success
      | _ \<Rightarrow> gc_neutral)"
proof (cases "repo = None \<or> pr = None")
  case True
  then have "evaluationBlocked (adv_findings (buildPullRequestAdvisory u n repo pr others req))"
    using evaluation_blocked_unknown_repo evaluation_blocked_unknown_pr by (cases repo) auto
  with True show ?thesis by (auto simp: ge_conclusion_cases split: option.splits)
next
  case False
  then obtain r p where rp: "repo = Some r" "pr = Some p" by auto
  have overlap: "(overlappingPrs p (nullish others []) = []) = (\<not> (\<exists>q i. q \<in> set (nullish others []) \<and> i \<in> set (pr_linkedIssues q) \<and>
      i \<in> set (pr_linkedIssues p)))"
    by (auto simp: overlappingPrs_def filter_empty_conv list_ex_iff)
  have open_gate: "confirmedContributor empty_policy \<noteq> Some False" "\<not> graceApplies empty_policy"
    by (simp_all add: empty_policy_def graceApplies_def)
  have "ge_conclusion (evaluateGateCheck (buildPullRequestAdvisory u n repo pr others req) empty_policy) =
      (if overlappingPrs p (nullish others []) = [] then gc_success else gc_failure)"
    using open_gate
    by (simp add: rp ge_conclusion_cases pr_advisory_findings pr_not_evaluation_blocked pr_gate_blockers)
  then show ?thesis unfolding overlap by (auto simp: rp)
qed

lemma secret_leak_conclusion:
  assumes "f \<in> set (adv_findings a)" and "f_code f = ''secret_leak''"
    and "\<nexists>g. g \<in> set (adv_findings a) \<and> isEvaluationBlocker (f_code g)"
  shows "ge_conclusion (evaluateGateCheck a p) =
    (if confirmedContributor p = Some False \<or> graceApplies p then gc_neutral else gc_failure)"
proof -
  have "isConfiguredGateBlocker (f_code f) (applyMergeReadinessGate p)"
    by (simp add: assms(2) isConfiguredGateBlocker_def)
  with assms(1) have "gateBlockers (adv_findings a) (applyMergeReadinessGate p) \<noteq> []"
    by (auto simp: gateBlockers_Nil_iff)
  with assms(3) show ?thesis by (auto simp: ge_conclusion_cases evaluationBlocked_def)
qed

text \<open>
  A leaked secret is a blocker under every policy, also with all gates off: the verdict on an
  evaluated pull request that carries one is failure, except that an author declared unconfirmed
  or granted first-contribution grace gets a neutral verdict instead.
\<close>

theorem secret_leak_verdict:
  assumes "f \<in> set (adv_findings a)" and "f_code f = ''secret_leak''"
    and "\<nexists>g. g \<in> set (adv_findings a) \<and> isEvaluationBlocker (f_code g)"
  shows "ge_conclusion (evaluateGateCheck a p) =
    (if confirmedContributor p = Some False \<or> graceApplies p then gc_neutral else gc_failure)"
  by (rule secret_leak_conclusion [OF assms])

definition secret_example :: Advisory where
  "secret_example = advisory ''id'' ''now'' Target_pull_request ''o/r#1'' ''o/r''
     [finding ''secret_leak'' critical ''Leaked secret'' ''A credential was committed.'' None None]
     ''-'' (Some 1) None None"

theorem secret_leak_verdict_witness:
  "ge_conclusion (evaluateGateCheck secret_example empty_policy) = gc_failure \<and>
   ge_conclusion (evaluateGateCheck secret_example
     (empty_policy\<lparr>firstTimeContributorGrace := Some True\<rparr>)) = gc_neutral"
proof -
  let ?f = "finding ''secret_leak'' critical ''Leaked secret'' ''A credential was committed.'' None None"
  have h: "?f \<in> set (adv_findings secret_example)" "f_code ?f = ''secret_leak''"
    "\<nexists>g. g \<in> set (adv_findings secret_example) \<and> isEvaluationBlocker (f_code g)"
    by (auto simp: secret_example_def isEvaluationBlocker_def)
  show ?thesis
    unfolding secret_leak_verdict [OF h] by (simp add: empty_policy_def graceApplies_def)
qed

text \<open>
  No warning is lost. Every warning of the advisory is in the verdict, as a blocker or as a
  warning, and a failing verdict shows none of them twice.
\<close>

theorem gate_keeps_warnings:
  "set (findingWarnings (adv_findings a)) \<subseteq>
     set (ge_blockers (evaluateGateCheck a p)) \<union> set (ge_warnings (evaluateGateCheck a p)) \<and>
   set (ge_warnings (evaluateGateCheck a p)) \<subseteq> set (findingWarnings (adv_findings a)) \<and>
   filter (\<lambda>f. isConfiguredGateBlocker (f_code f) (applyMergeReadinessGate p) \<and>
       ge_conclusion (evaluateGateCheck a p) = gc_failure)
     (ge_warnings (evaluateGateCheck a p)) = []"
  by (auto simp: evaluateGateCheck_def Let_def findingWarnings_def gateBlockers_def filter_empty_conv)

text \<open>
  The title of the check run stays within GitHub's limit of 255 characters, whatever the
  blockers are called.
\<close>

theorem gate_title_bound:
  "length (go_title (formatGateCheckOutput (evaluateGateCheck a p))) \<le> 255"
proof (cases "ge_conclusion (evaluateGateCheck a p) = gc_success")
  case True
  then have "ge_title (evaluateGateCheck a p) = ''Gittensory Gate passed''"
    by (auto simp: evaluateGateCheck_def Let_def split: if_splits)
  with True show ?thesis by (simp add: formatGateCheckOutput_def)
next
  case False
  then show ?thesis by (simp add: formatGateCheckOutput_def Let_def)
qed

end
