(* ===== verification/Agent_Planner.thy ===== *)
theory Agent_Planner
  imports Guardrail Autonomy Gate
begin

text \<open>
  The maintainer auto-maintain decision layer, \<open>settings/agent-actions.ts\<close>: from the gate
  verdict, the state of the pull request and the autonomy of the repository to a list of planned
  actions. The scores are integers here: the slop risk is a clamped integer sum and its
  threshold an integer column.
\<close>

definition DEFAULT_SLOP_GATE_MIN_SCORE :: int where
  "DEFAULT_SLOP_GATE_MIN_SCORE = 60"

definition AGENT_LABEL_READY :: string where
  "AGENT_LABEL_READY = ''gittensory:ready-to-merge''"

definition AGENT_LABEL_CHANGES :: string where
  "AGENT_LABEL_CHANGES = ''gittensory:changes-requested''"

definition AGENT_LABEL_NEEDS_REVIEW :: string where
  "AGENT_LABEL_NEEDS_REVIEW = ''gittensory:needs-human-review''"

definition PROTECTED_AUTOCLOSE_AUTHORS :: "string list" where
  "PROTECTED_AUTOCLOSE_AUTHORS = [''github-actions[bot]'', ''dependabot[bot]'', ''renovate[bot]'']"

definition isProtectedAutomationAuthor :: "string option \<Rightarrow> bool" where
  "isProtectedAutomationAuthor login =
     (case login of None \<Rightarrow> False | Some l \<Rightarrow> toLowerCase l \<in> set PROTECTED_AUTOCLOSE_AUTHORS)"

record PlannedAgentAction =
  actionClass :: AgentActionClass
  requiresApproval :: bool
  pa_reason :: string
  pa_label :: "string option"
  pa_reviewBody :: "string option"
  pa_mergeMethod :: "AutoMergeMethod option"
  pa_closeComment :: "string option"

datatype CiState = ci_passed | ci_failed | ci_pending | ci_unverified

record AgentPlanPr =
  mergeableState :: "string option"
  reviewDecision :: "string option"
  ap_slopRisk :: "int option"
  labels :: "string list"
  linkedDuplicateCount :: "nat option"
  headSha :: "string option"
  mergeBlockedSha :: "string option"

record AgentActionPlanInput =
  ap_conclusion :: GateCheckConclusion
  blockerTitles :: "string list"
  ap_autonomy :: "AutonomyPolicy option"
  autoMaintain :: "AutoMaintainPolicy option"
  ap_slopGateMinScore :: "int option"
  changedPaths :: "string list"
  hardGuardrailGlobs :: "string list"
  authorIsOwner :: bool
  authorIsAutomationBot :: bool
  ciState :: CiState
  failingCheckNames :: "string list option"
  ap_pr :: AgentPlanPr

definition hasLabel :: "string list \<Rightarrow> string \<Rightarrow> bool" where
  "hasLabel ls name = list_ex (\<lambda>l. toLowerCase l = toLowerCase name) ls"

definition closeMessage :: "string list \<Rightarrow> string" where
  "closeMessage reasons =
     ''Gittensory is closing this pull request on the maintainer's behalf ('' @ join ''; '' reasons @
     ''). This is an automated maintenance action '' @ em_dash @
     '' if you believe it's mistaken, reopen the PR or ping a maintainer and it will be reviewed.''"

section \<open>The conditions of a plan\<close>

definition plan_level :: "AgentActionPlanInput \<Rightarrow> AgentActionClass \<Rightarrow> AutonomyLevel" where
  "plan_level input c = resolveAutonomy (ap_autonomy input) c"

definition acting :: "AgentActionPlanInput \<Rightarrow> AgentActionClass \<Rightarrow> bool" where
  "acting input c = isActingAutonomyLevel (plan_level input c)"

definition approval :: "AgentActionPlanInput \<Rightarrow> AgentActionClass \<Rightarrow> bool" where
  "approval input c = autonomyRequiresApproval (plan_level input c)"

definition plan_maintain :: "AgentActionPlanInput \<Rightarrow> AutoMaintainPolicy" where
  "plan_maintain input = nullish (autoMaintain input) DEFAULT_AUTO_MAINTAIN_POLICY"

definition approvalsSatisfied :: "AgentActionPlanInput \<Rightarrow> bool" where
  "approvalsSatisfied input \<longleftrightarrow>
     am_requireApprovals (plan_maintain input) = 0 \<or> reviewDecision (ap_pr input) = Some ''APPROVED''"

text \<open>The guardrail condition over any path check, used with \<open>changedPathsHittingGuardrail\<close>.\<close>

definition guardrail_blocks ::
  "(string list \<Rightarrow> string list \<Rightarrow> string list) \<Rightarrow> string list \<Rightarrow> string list \<Rightarrow> bool" where
  "guardrail_blocks hits paths globs \<longleftrightarrow> globs \<noteq> [] \<and> (paths = [] \<or> hits paths globs \<noteq> [])"

definition guardrailHit :: "AgentActionPlanInput \<Rightarrow> bool" where
  "guardrailHit input =
     guardrail_blocks changedPathsHittingGuardrail (changedPaths input) (hardGuardrailGlobs input)"

definition reviewGood :: "AgentActionPlanInput \<Rightarrow> bool" where
  "reviewGood input \<longleftrightarrow> ap_conclusion input = gc_success \<and> ciState input = ci_passed"

definition isContributor :: "AgentActionPlanInput \<Rightarrow> bool" where
  "isContributor input \<longleftrightarrow> \<not> authorIsOwner input \<and> \<not> authorIsAutomationBot input"

definition isConflict :: "AgentActionPlanInput \<Rightarrow> bool" where
  "isConflict input \<longleftrightarrow> mergeableState (ap_pr input) = Some ''dirty''"

definition mergeTerminallyBlocked :: "AgentActionPlanInput \<Rightarrow> bool" where
  "mergeTerminallyBlocked input \<longleftrightarrow>
     mergeBlockedSha (ap_pr input) \<noteq> None \<and> headSha (ap_pr input) \<noteq> None \<and>
     mergeBlockedSha (ap_pr input) = headSha (ap_pr input)"

definition canMerge :: "AgentActionPlanInput \<Rightarrow> bool" where
  "canMerge input \<longleftrightarrow>
     reviewGood input \<and> \<not> guardrailHit input \<and> acting input merge \<and>
     mergeableState (ap_pr input) = Some ''clean'' \<and> approvalsSatisfied input \<and>
     \<not> mergeTerminallyBlocked input"

definition willClose :: "AgentActionPlanInput \<Rightarrow> bool" where
  "willClose input \<longleftrightarrow>
     \<not> guardrailHit input \<and> isContributor input \<and> acting input close \<and>
     (\<not> reviewGood input \<or> isConflict input)"

definition ciReason :: "AgentActionPlanInput \<Rightarrow> string" where
  "ciReason input =
     (let failing = nullish (failingCheckNames input) []
      in if ciState input = ci_failed then
           ''CI is failing'' @ (if failing \<noteq> [] then '' ('' @ join '', '' failing @ '')'' else [])
         else if ciState input = ci_unverified then ''CI could not be verified''
         else [])"

section \<open>The three parts of a plan\<close>

definition label_actions :: "AgentActionPlanInput \<Rightarrow> PlannedAgentAction list" where
  "label_actions input =
     (if acting input label then
        (let verdict = ''verdict='' @ conclusion_name (ap_conclusion input);
             name = (if \<not> reviewGood input then AGENT_LABEL_CHANGES
                     else if guardrailHit input then AGENT_LABEL_NEEDS_REVIEW
                     else AGENT_LABEL_READY);
             rsn = (if \<not> reviewGood input then
                      verdict @ (if ciReason input \<noteq> [] then ''; '' @ ciReason input else [])
                    else if guardrailHit input then
                      verdict @ ''; guarded path '' @ rarrow @ '' owner safety review''
                    else verdict @ ''; CI green'')
         in if \<not> hasLabel (labels (ap_pr input)) name then
              [\<lparr>actionClass = label, requiresApproval = approval input label, pa_reason = rsn,
                pa_label = Some name, pa_reviewBody = None, pa_mergeMethod = None,
                pa_closeComment = None\<rparr>]
            else [])
      else [])"

definition approve_actions :: "AgentActionPlanInput \<Rightarrow> PlannedAgentAction list" where
  "approve_actions input =
     (if reviewGood input \<and> \<not> guardrailHit input \<and> acting input approve \<and>
         reviewDecision (ap_pr input) \<noteq> Some ''APPROVED'' then
        [\<lparr>actionClass = approve, requiresApproval = approval input approve,
          pa_reason = ''gate passed, CI green'', pa_label = None,
          pa_reviewBody = Some (''Gittensory approves '' @ em_dash @
            '' the gate is satisfied and CI is green.''),
          pa_mergeMethod = None, pa_closeComment = None\<rparr>]
      else [])"

definition closeReasons :: "AgentActionPlanInput \<Rightarrow> string list" where
  "closeReasons input =
     (let minScore = nullish (ap_slopGateMinScore input) DEFAULT_SLOP_GATE_MIN_SCORE;
          reasons =
            (if ciState input = ci_failed \<or> ciState input = ci_unverified then [ciReason input] else [])
            @ (if isConflict input
               then [''conflicts with the base branch '' @ em_dash @ '' resolve and open a fresh PR''] else [])
            @ blockerTitles input
            @ (case ap_slopRisk (ap_pr input) of
                 None \<Rightarrow> []
               | Some r \<Rightarrow> if r \<ge> minScore
                   then [''slop score '' @ int_str r @ '' '' @ geq_sign @ '' '' @ int_str minScore] else [])
            @ (if nullish (linkedDuplicateCount (ap_pr input)) 0 > 0
               then [''duplicate of another open PR''] else [])
      in if reasons = [] then [''the review gate is not satisfied''] else reasons)"

definition disposition_actions :: "AgentActionPlanInput \<Rightarrow> PlannedAgentAction list" where
  "disposition_actions input =
     (if canMerge input then
        [\<lparr>actionClass = merge, requiresApproval = approval input merge,
          pa_reason = ''gate passed, CI green, mergeable, '' @
            int_str (am_requireApprovals (plan_maintain input)) @ '' approval(s) satisfied'',
          pa_label = None, pa_reviewBody = None,
          pa_mergeMethod = Some (am_mergeMethod (plan_maintain input)), pa_closeComment = None\<rparr>]
      else if willClose input then
        [\<lparr>actionClass = close, requiresApproval = approval input close,
          pa_reason = join ''; '' (closeReasons input),
          pa_label = None, pa_reviewBody = None, pa_mergeMethod = None,
          pa_closeComment = Some (closeMessage (closeReasons input))\<rparr>]
      else [])"

definition planAgentMaintenanceActions :: "AgentActionPlanInput \<Rightarrow> PlannedAgentAction list" where
  "planAgentMaintenanceActions input =
     (if ap_conclusion input = gc_neutral \<or> ap_conclusion input = gc_skipped then []
      else if ciState input = ci_pending then []
      else label_actions input @ approve_actions input @ disposition_actions input)"

section \<open>Lemmas\<close>

context path_guard
begin

lemma guardrail_blocks_unknown: "globs \<noteq> [] \<Longrightarrow> guardrail_blocks hits [] globs"
  by (simp add: guardrail_blocks_def)

lemma guardrail_blocks_grows:
  "guardrail_blocks hits ps gs \<Longrightarrow> ps \<noteq> [] \<Longrightarrow> set gs \<subseteq> set gs' \<Longrightarrow> guardrail_blocks hits (ps @ qs) gs'"
  using hits_still_blocked [of ps gs gs' qs] by (auto simp: guardrail_blocks_def)

end

lemma guardrailHit_path:
  "p \<in> set (changedPaths i) \<Longrightarrow> p \<noteq> [] \<Longrightarrow> matchesAny p (hardGuardrailGlobs i) \<Longrightarrow> guardrailHit i"
  by (auto simp: guardrailHit_def guardrail_blocks_def changedPathsHittingGuardrail_def
      filter_empty_conv matchesAny_def)

lemma label_actions_class: "a \<in> set (label_actions i) \<Longrightarrow>
    actionClass a = label \<and> acting i label \<and> requiresApproval a = approval i label"
  by (auto simp: label_actions_def Let_def split: if_splits)

lemma approve_actions_class: "a \<in> set (approve_actions i) \<Longrightarrow>
    actionClass a = approve \<and> acting i approve \<and> requiresApproval a = approval i approve"
  by (auto simp: approve_actions_def split: if_splits)

lemma disposition_actions_class: "a \<in> set (disposition_actions i) \<Longrightarrow>
    (actionClass a = merge \<and> canMerge i \<or> actionClass a = close \<and> willClose i \<and> \<not> canMerge i) \<and>
    acting i (actionClass a) \<and> requiresApproval a = approval i (actionClass a)"
  by (auto simp: disposition_actions_def canMerge_def willClose_def split: if_splits)

lemma canMerge_not_willClose: "canMerge i \<Longrightarrow> \<not> willClose i"
  by (auto simp: canMerge_def willClose_def isConflict_def)

definition settled :: "AgentActionPlanInput \<Rightarrow> bool" where
  "settled i \<longleftrightarrow> ap_conclusion i \<noteq> gc_neutral \<and> ap_conclusion i \<noteq> gc_skipped \<and> ciState i \<noteq> ci_pending"

lemma plan_settled: "planAgentMaintenanceActions i =
    (if settled i then label_actions i @ approve_actions i @ disposition_actions i else [])"
  by (auto simp: planAgentMaintenanceActions_def settled_def)

definition planned_label :: "AgentActionPlanInput \<Rightarrow> string" where
  "planned_label i = (if \<not> reviewGood i then AGENT_LABEL_CHANGES
     else if guardrailHit i then AGENT_LABEL_NEEDS_REVIEW else AGENT_LABEL_READY)"

lemma label_actions_image: "actionClass ` set (label_actions i) =
    (if acting i label \<and> \<not> hasLabel (labels (ap_pr i)) (planned_label i) then {label} else {})"
  by (simp add: label_actions_def Let_def planned_label_def)

lemma approve_actions_image: "actionClass ` set (approve_actions i) =
    (if reviewGood i \<and> \<not> guardrailHit i \<and> acting i approve \<and>
        reviewDecision (ap_pr i) \<noteq> Some ''APPROVED'' then {approve} else {})"
  by (simp add: approve_actions_def)

lemma disposition_actions_image: "actionClass ` set (disposition_actions i) =
    (if canMerge i then {merge} else if willClose i then {close} else {})"
  by (simp add: disposition_actions_def)

lemma plan_image: "actionClass ` set (planAgentMaintenanceActions i) =
    (if settled i then actionClass ` set (label_actions i) \<union> actionClass ` set (approve_actions i) \<union>
       actionClass ` set (disposition_actions i) else {})"
  by (cases "settled i") (simp_all only: plan_settled if_True if_False set_append image_Un Un_assoc
      list.set image_empty)

text \<open>The irreversibility of an action class, the order plans are written in.\<close>

fun irreversibility :: "AgentActionClass \<Rightarrow> nat" where
  "irreversibility label = 0"
| "irreversibility review = 1"
| "irreversibility request_changes = 1"
| "irreversibility approve = 1"
| "irreversibility merge = 2"
| "irreversibility close = 2"

lemma label_classes: "map actionClass (label_actions i) = [] \<or> map actionClass (label_actions i) = [label]"
  by (simp add: label_actions_def Let_def)

lemma approve_classes:
  "map actionClass (approve_actions i) = [] \<or> map actionClass (approve_actions i) = [approve]"
  by (simp add: approve_actions_def)

lemma disposition_classes: "map actionClass (disposition_actions i) = [] \<or>
    map actionClass (disposition_actions i) = [merge] \<or> map actionClass (disposition_actions i) = [close]"
  by (simp add: disposition_actions_def)

lemma plan_classes:
  obtains xs ys zs where "map actionClass (planAgentMaintenanceActions i) = xs @ ys @ zs"
    and "xs = [] \<or> xs = [label]" and "ys = [] \<or> ys = [approve]"
    and "zs = [] \<or> zs = [merge] \<or> zs = [close]"
proof (cases "settled i")
  case True
  show ?thesis
    by (rule that [OF _ label_classes approve_classes disposition_classes])
      (simp only: True plan_settled if_True map_append)
next
  case False
  show ?thesis by (rule that [of "[]" "[]" "[]"]) (simp_all add: plan_settled False)
qed

section \<open>Properties\<close>

text \<open>
  C4: a merge is planned exactly when the gate passed, every check of the pull request passed, no
  changed path is guarded (and the paths are known when guards are configured), the policy lets
  the agent merge, GitHub reports the branch clean, the required approvals are in, and no earlier
  merge of this very commit was terminally refused.
\<close>

theorem merge_planned_iff:
  "merge \<in> actionClass ` set (planAgentMaintenanceActions i) \<longleftrightarrow>
     ap_conclusion i = gc_success \<and> ciState i = ci_passed \<and>
     (hardGuardrailGlobs i = [] \<or> changedPaths i \<noteq> [] \<and>
        changedPathsHittingGuardrail (changedPaths i) (hardGuardrailGlobs i) = []) \<and>
     auto_with_approval \<le> resolveAutonomy (ap_autonomy i) merge \<and>
     mergeableState (ap_pr i) = Some ''clean'' \<and>
     (am_requireApprovals (plan_maintain i) = 0 \<or> reviewDecision (ap_pr i) = Some ''APPROVED'') \<and>
     (\<nexists>sha. mergeBlockedSha (ap_pr i) = Some sha \<and> headSha (ap_pr i) = Some sha)"
proof -
  have "merge \<in> actionClass ` set (planAgentMaintenanceActions i) \<longleftrightarrow> settled i \<and> canMerge i"
    by (simp add: plan_image label_actions_image approve_actions_image disposition_actions_image)
  also have "\<dots> \<longleftrightarrow> canMerge i"
    by (auto simp: settled_def canMerge_def reviewGood_def)
  finally show ?thesis
    by (auto simp: canMerge_def reviewGood_def guardrailHit_def guardrail_blocks_def acting_def
        plan_level_def acting_iff_level approvalsSatisfied_def mergeTerminallyBlocked_def)
qed

text \<open>
  A close is planned exactly for a contributor's pull request that is settled, unguarded and
  not good enough (gate failed, or CI red or unverified) or in conflict with its base, and only
  when the policy lets the agent close. A pull request of the owner or of a maintainer's
  automation account is never closed.
\<close>

theorem close_planned_iff:
  "close \<in> actionClass ` set (planAgentMaintenanceActions i) \<longleftrightarrow>
     ap_conclusion i \<noteq> gc_neutral \<and> ap_conclusion i \<noteq> gc_skipped \<and> ciState i \<noteq> ci_pending \<and>
     (hardGuardrailGlobs i = [] \<or> changedPaths i \<noteq> [] \<and>
        changedPathsHittingGuardrail (changedPaths i) (hardGuardrailGlobs i) = []) \<and>
     \<not> authorIsOwner i \<and> \<not> authorIsAutomationBot i \<and>
     auto_with_approval \<le> resolveAutonomy (ap_autonomy i) close \<and>
     \<not> (ap_conclusion i = gc_success \<and> ciState i = ci_passed \<and>
        mergeableState (ap_pr i) \<noteq> Some ''dirty'')"
proof -
  have "close \<in> actionClass ` set (planAgentMaintenanceActions i) \<longleftrightarrow> settled i \<and> willClose i"
    using canMerge_not_willClose [of i]
    by (auto simp: plan_image label_actions_image approve_actions_image disposition_actions_image)
  then show ?thesis
    by (auto simp: settled_def willClose_def reviewGood_def guardrailHit_def guardrail_blocks_def
        acting_def plan_level_def acting_iff_level isContributor_def isConflict_def)
qed

text \<open>
  C24: every plan is coherent. It runs from the least to the most irreversible action, plans no
  class twice, never merges and closes, never requests changes; each action's class is at an
  acting level, is marked for approval exactly at the level \<open>auto_with_approval\<close>.
\<close>

theorem plan_coherent:
  "let plan = planAgentMaintenanceActions i; classes = map actionClass plan in
   sorted (map irreversibility classes) \<and> distinct classes \<and>
   \<not> (merge \<in> set classes \<and> close \<in> set classes) \<and>
   request_changes \<notin> set classes \<and> review \<notin> set classes \<and>
   list_all (\<lambda>a. isActingAutonomyLevel (resolveAutonomy (ap_autonomy i) (actionClass a)) \<and>
     requiresApproval a = (resolveAutonomy (ap_autonomy i) (actionClass a) = auto_with_approval)) plan"
proof -
  have "list_all (\<lambda>a. isActingAutonomyLevel (resolveAutonomy (ap_autonomy i) (actionClass a)) \<and>
     requiresApproval a = (resolveAutonomy (ap_autonomy i) (actionClass a) = auto_with_approval))
     (planAgentMaintenanceActions i)"
    by (auto simp: list_all_iff plan_settled acting_def approval_def plan_level_def
        autonomyRequiresApproval_def
        dest!: label_actions_class approve_actions_class disposition_actions_class split: if_splits)
  moreover obtain xs ys zs where "map actionClass (planAgentMaintenanceActions i) = xs @ ys @ zs"
    and "xs = [] \<or> xs = [label]" and "ys = [] \<or> ys = [approve]"
    and "zs = [] \<or> zs = [merge] \<or> zs = [close]"
    by (rule plan_classes)
  ultimately show ?thesis by (elim disjE) (simp_all add: Let_def del: list.map_comp map_map set_map list.set_map)
qed

text \<open>
  C9: a guarded pull request is left to a human. If a configured guardrail matches one of the
  changed paths, or guardrails are configured and the changed paths are unknown, the plan holds
  at most a label, and this label never announces the pull request as ready to merge.
\<close>

theorem guarded_pr_only_labelled:
  assumes "(\<exists>p. p \<in> set (changedPaths i) \<and> p \<noteq> [] \<and> matchesAny p (hardGuardrailGlobs i)) \<or>
    (hardGuardrailGlobs i \<noteq> [] \<and> changedPaths i = [])"
    and "a \<in> set (planAgentMaintenanceActions i)"
  shows "actionClass a = label \<and> pa_label a \<noteq> Some AGENT_LABEL_READY"
proof -
  have hit: "guardrailHit i"
    using assms(1) guardrail.guardrail_blocks_unknown [of "hardGuardrailGlobs i"]
    by (auto simp: guardrailHit_def intro: guardrailHit_path [unfolded guardrailHit_def])
  then have "approve_actions i = [] \<and> disposition_actions i = []"
    by (simp add: approve_actions_def disposition_actions_def canMerge_def willClose_def)
  with assms(2) have "a \<in> set (label_actions i)"
    by (simp add: plan_settled split: if_splits)
  then show ?thesis
    by (auto simp: label_actions_def Let_def hit AGENT_LABEL_READY_def AGENT_LABEL_CHANGES_def
        AGENT_LABEL_NEEDS_REVIEW_def split: if_splits)
qed

definition guarded_example :: AgentActionPlanInput where
  "guarded_example =
     \<lparr>ap_conclusion = gc_success, blockerTitles = [], ap_autonomy = Some (\<lambda>_. Some auto),
      autoMaintain = None, ap_slopGateMinScore = None, changedPaths = [], hardGuardrailGlobs = [''scripts/**''],
      authorIsOwner = False, authorIsAutomationBot = False, ciState = ci_passed, failingCheckNames = None,
      ap_pr = \<lparr>mergeableState = Some ''clean'', reviewDecision = Some ''APPROVED'', ap_slopRisk = None,
        labels = [], linkedDuplicateCount = None, headSha = None, mergeBlockedSha = None\<rparr>\<rparr>"

theorem guarded_pr_only_labelled_witness:
  "actionClass (hd (planAgentMaintenanceActions guarded_example)) = label \<and>
   pa_label (hd (planAgentMaintenanceActions guarded_example)) \<noteq> Some AGENT_LABEL_READY"
proof (rule guarded_pr_only_labelled)
  show "(\<exists>p. p \<in> set (changedPaths guarded_example) \<and> p \<noteq> [] \<and>
      matchesAny p (hardGuardrailGlobs guarded_example)) \<or>
    (hardGuardrailGlobs guarded_example \<noteq> [] \<and> changedPaths guarded_example = [])"
    by (simp add: guarded_example_def)
  have "label_actions guarded_example \<noteq> []"
    by (simp add: label_actions_def guarded_example_def acting_def plan_level_def resolveAutonomy_Some
        isActingAutonomyLevel_def hasLabel_def Let_def)
  then show "hd (planAgentMaintenanceActions guarded_example) \<in> set (planAgentMaintenanceActions guarded_example)"
    by (intro hd_in_set) (simp add: plan_settled settled_def guarded_example_def)
qed

text \<open>
  planning is idempotent in its reversible part: once the labels of a plan are on the pull
  request and its review decision is \<open>APPROVED\<close>, planning again plans neither a label nor an
  approval.
\<close>

theorem label_and_approval_idempotent:
  "label \<notin> actionClass ` set (planAgentMaintenanceActions (i\<lparr>ap_pr := (ap_pr i)\<lparr>
     labels := labels (ap_pr i) @ List.map_filter pa_label (planAgentMaintenanceActions i),
     reviewDecision := Some ''APPROVED''\<rparr>\<rparr>)) \<and>
   approve \<notin> actionClass ` set (planAgentMaintenanceActions (i\<lparr>ap_pr := (ap_pr i)\<lparr>
     labels := labels (ap_pr i) @ List.map_filter pa_label (planAgentMaintenanceActions i),
     reviewDecision := Some ''APPROVED''\<rparr>\<rparr>))"
  (is "label \<notin> actionClass ` set (planAgentMaintenanceActions ?i) \<and> _")
proof
  have same: "settled ?i = settled i" "planned_label ?i = planned_label i" "acting ?i = acting i"
    by (simp_all add: settled_def planned_label_def reviewGood_def guardrailHit_def acting_def
        plan_level_def fun_eq_iff)
  show "approve \<notin> actionClass ` set (planAgentMaintenanceActions ?i)"
    by (simp add: plan_image label_actions_image approve_actions_image disposition_actions_image)
  have "hasLabel (labels (ap_pr ?i)) (planned_label i)" if "settled i" "acting i label"
  proof (cases "hasLabel (labels (ap_pr i)) (planned_label i)")
    case True
    then show ?thesis by (simp add: hasLabel_def)
  next
    case False
    with that have "planned_label i \<in> set (List.map_filter pa_label (planAgentMaintenanceActions i))"
      by (simp add: plan_settled label_actions_def Let_def planned_label_def List.map_filter_def)
    then show ?thesis by (auto simp: hasLabel_def list_ex_iff)
  qed
  then have "\<not> (settled i \<and> acting i label \<and> \<not> hasLabel (labels (ap_pr ?i)) (planned_label i))"
    by blast
  then show "label \<notin> actionClass ` set (planAgentMaintenanceActions ?i)"
    by (auto simp: plan_image label_actions_image approve_actions_image disposition_actions_image same)
qed

end
