(* ===== verification/Agent_Executor.thy ===== *)
theory Agent_Executor
  imports Github_Actions Agent_Planner
begin

text \<open>
  The executor of planned maintenance actions, \<open>services/agent-action-executor.ts\<close>: the gate stack of
  each action (pause, autonomy, approval, write permission, mode), the mutation on GitHub, the
  audit record, and the bookkeeping of failed merges.
\<close>

section \<open>Context and outcomes\<close>

definition AGENT_ACTOR :: string where
  "AGENT_ACTOR = ''gittensory''"

definition PR_WRITE_CLASSES :: "AgentActionClass list" where
  "PR_WRITE_CLASSES = [request_changes, approve, merge, close]"

record AgentActionExecutionContext =
  ctx_installationId :: nat
  ctx_repoFullName :: string
  exec_pullNumber :: nat
  ctx_headSha :: "string option"
  ctx_autonomy :: "AutonomyPolicy option"
  ctx_agentPaused :: "bool option"
  ctx_agentDryRun :: "bool option"
  ctx_installationPermissions :: "(string \<rightharpoonup> string) option"
  ctx_authorLogin :: "string option"

datatype ExecOutcome = ex_completed | ex_queued | ex_denied | ex_error | ex_dry_run

record AgentActionOutcome =
  ao_actionClass :: AgentActionClass
  ao_outcome :: ExecOutcome
  ao_detail :: string

fun audit_outcome :: "ExecOutcome \<Rightarrow> AuditOutcome" where
  "audit_outcome ex_completed = Audit_completed"
| "audit_outcome ex_queued = Audit_queued"
| "audit_outcome ex_denied = Audit_denied"
| "audit_outcome ex_error = Audit_error"
| "audit_outcome ex_dry_run = Audit_completed"

definition target_key :: "AgentActionExecutionContext \<Rightarrow> string" where
  "target_key ctx = ctx_repoFullName ctx @ ''#'' @ nat_str (exec_pullNumber ctx)"

text \<open>\<open>actionClass.replace(/_/g, " ")\<close>\<close>

definition spaced_name :: "AgentActionClass \<Rightarrow> string" where
  "spaced_name c = map (\<lambda>x. if x = CHR ''_'' then CHR '' '' else x) (action_name c)"

section \<open>Staging\<close>

definition actionParams :: "PlannedAgentAction \<Rightarrow> AgentPendingActionParams" where
  "actionParams action = \<lparr>pap_label = pa_label action, pap_reviewBody = pa_reviewBody action,
     pap_mergeMethod = pa_mergeMethod action, pap_closeComment = pa_closeComment action\<rparr>"

definition pendingActionToPlanned ::
  "AgentActionClass \<Rightarrow> AgentPendingActionParams \<Rightarrow> string option \<Rightarrow> PlannedAgentAction" where
  "pendingActionToPlanned c params why =
     \<lparr>actionClass = c, requiresApproval = False, pa_reason = nullish why ''maintainer-approved'',
      pa_label = pap_label params, pa_reviewBody = pap_reviewBody params,
      pa_mergeMethod = pap_mergeMethod params, pa_closeComment = pap_closeComment params\<rparr>"

definition pending_input ::
  "AgentActionExecutionContext \<Rightarrow> PlannedAgentAction \<Rightarrow> AutonomyLevel \<Rightarrow> PendingInput" where
  "pending_input ctx action lvl =
     \<lparr>pin_repoFullName = ctx_repoFullName ctx, pin_pullNumber = exec_pullNumber ctx,
      pin_installationId = ctx_installationId ctx, pin_actionClass = actionClass action,
      pin_autonomyLevel = lvl, pin_params = actionParams action, pin_reason = Some (pa_reason action)\<rparr>"

definition approval_notification :: "AgentActionExecutionContext \<Rightarrow> PlannedAgentAction \<Rightarrow> NotificationInput" where
  "approval_notification ctx action =
     \<lparr>nin_dedupKey = ''agent.pending_action:'' @ target_key ctx @ '':'' @ action_name (actionClass action),
      nin_channel = badge,
      nin_recipientLogin = takeWhile (\<lambda>c. c \<noteq> CHR ''/'') (ctx_repoFullName ctx),
      nin_eventType = ''agent.pending_action'', nin_repoFullName = ctx_repoFullName ctx,
      nin_pullNumber = Some (exec_pullNumber ctx),
      nin_title = ''Gittensory staged a '' @ spaced_name (actionClass action) @ '' for your approval'',
      nin_body = pa_reason action @ ''. Accept to execute it, or reject to cancel.'',
      nin_deeplink = ''https://github.com/'' @ ctx_repoFullName ctx @ ''/pull/'' @ nat_str (exec_pullNumber ctx),
      nin_actorLogin = Some AGENT_ACTOR, nin_status = None\<rparr>"

definition stageForApproval ::
  "AgentActionExecutionContext \<Rightarrow> PlannedAgentAction \<Rightarrow> AutonomyLevel \<Rightarrow> Store \<Rightarrow> Store" where
  "stageForApproval ctx action lvl s =
     (let ((_, created), s1) = createPendingAgentActionIfAbsent (pending_input ctx action lvl) s
      in if \<not> created then s1
         else snd (insertNotificationDeliveryIfAbsent (approval_notification ctx action) s1))"

section \<open>Mutations\<close>

definition performAction :: "AgentActionExecutionContext \<Rightarrow> PlannedAgentAction \<Rightarrow> unit effect" where
  "performAction ctx action =
     (case actionClass action of
        label \<Rightarrow> andThen (ensurePullRequestLabel (ctx_installationId ctx) (ctx_repoFullName ctx)
            (exec_pullNumber ctx) (nullish (pa_label action) []) True) (\<lambda>_. return ())
      | request_changes \<Rightarrow> createPullRequestReview (ctx_installationId ctx) (ctx_repoFullName ctx)
            (exec_pullNumber ctx) REQUEST_CHANGES (nullish (pa_reviewBody action) [])
      | approve \<Rightarrow> createPullRequestReview (ctx_installationId ctx) (ctx_repoFullName ctx)
            (exec_pullNumber ctx) APPROVE (nullish (pa_reviewBody action) [])
      | merge \<Rightarrow> mergePullRequest (ctx_installationId ctx) (ctx_repoFullName ctx) (exec_pullNumber ctx)
            (nullish (pa_mergeMethod action) Squash) (truthy (ctx_headSha ctx))
      | close \<Rightarrow>
          andThen (case truthy (pa_closeComment action) of
              None \<Rightarrow> return ()
            | Some body \<Rightarrow> createIssueComment (ctx_installationId ctx) (ctx_repoFullName ctx) (exec_pullNumber ctx) body)
            (\<lambda>_. closePullRequest (ctx_installationId ctx) (ctx_repoFullName ctx) (exec_pullNumber ctx))
      | review \<Rightarrow> return ())"

text \<open>
  A terminal failure blocks the merge of this head; any other one is counted, and blocks when the
  count reaches the cap.
\<close>

definition merge_blocked_event :: "AgentActionExecutionContext \<Rightarrow> string \<Rightarrow> string \<Rightarrow> AuditEventRecord" where
  "merge_blocked_event ctx head why =
     \<lparr>ae_eventType = ''agent.action.merge_blocked'', ae_actor = Some AGENT_ACTOR,
      ae_targetKey = Some (target_key ctx), ae_outcome = Audit_denied,
      ae_detail = Some (''merge held for human '' @ em_dash @ '' '' @ why),
      ae_metadata = [(''repoFullName'', JString (ctx_repoFullName ctx)),
        (''pullNumber'', JNumber (Finite (of_nat (exec_pullNumber ctx)))),
        (''headSha'', JString head), (''reason'', JString (take 280 why))]\<rparr>"

definition handleMergeFailure :: "AgentActionExecutionContext \<Rightarrow> JsError \<Rightarrow> Store \<Rightarrow> Store" where
  "handleMergeFailure ctx err s =
     (case truthy (ctx_headSha ctx) of
        None \<Rightarrow> s
      | Some head \<Rightarrow>
          (let message = errorMessage err ''unknown error'';
               (classifiedTerminal, classifiedReason) = classifyMergeFailure err;
               (terminal, why, s1) =
                 (if classifiedTerminal then (True, classifiedReason, s)
                  else (let (attempts, s1) = bumpPullRequestMergeAttempt (ctx_repoFullName ctx) (exec_pullNumber ctx) head s
                        in if attempts \<ge> MERGE_RETRY_CAP
                           then (True, ''merge could not complete after '' @ nat_str attempts @ '' attempt(s): '' @ message, s1)
                           else (False, classifiedReason, s1)))
           in if \<not> terminal then s1
              else recordAuditEvent (merge_blocked_event ctx head why)
                     (markPullRequestMergeBlocked (ctx_repoFullName ctx) (exec_pullNumber ctx) head why s1)))"

section \<open>The gate stack of one action\<close>

definition audit_event :: "AgentActionExecutionContext \<Rightarrow> AgentActionMode \<Rightarrow> PlannedAgentAction \<Rightarrow> ExecOutcome \<Rightarrow> string \<Rightarrow> AuditEventRecord" where
  "audit_event ctx mode action result detail =
     buildAgentActionAudit (actionClass action) (resolveAutonomy (ctx_autonomy ctx) (actionClass action)) mode
       (audit_outcome result) (ctx_repoFullName ctx) (Some (target_key ctx)) (Some AGENT_ACTOR) (Some detail)"

definition audit ::
  "AgentActionExecutionContext \<Rightarrow> AgentActionMode \<Rightarrow> PlannedAgentAction \<Rightarrow> ExecOutcome \<Rightarrow> string \<Rightarrow> World \<Rightarrow>
   AgentActionOutcome \<times> World" where
  "audit ctx mode action result detail w =
     (\<lparr>ao_actionClass = actionClass action, ao_outcome = result, ao_detail = detail\<rparr>,
      w\<lparr>db := recordAuditEvent (audit_event ctx mode action result detail) (db w)\<rparr>)"

definition notifyOutcome :: "AgentActionClass \<Rightarrow> NotifyOutcome option" where
  "notifyOutcome c = (case c of merge \<Rightarrow> Some Notify_merged | close \<Rightarrow> Some Notify_closed
     | request_changes \<Rightarrow> Some Notify_manual | _ \<Rightarrow> None)"

definition notifyAction :: "AgentActionExecutionContext \<Rightarrow> PlannedAgentAction \<Rightarrow> World \<Rightarrow> World" where
  "notifyAction ctx action w =
     (case notifyOutcome (actionClass action) of
        None \<Rightarrow> w
      | Some out \<Rightarrow> w\<lparr>discord_log := discord_log w @
          [\<lparr>dc_repoFullName = ctx_repoFullName ctx, dc_pullNumber = exec_pullNumber ctx, dc_outcome = out,
            dc_summary = pa_reason action, dc_submitter = ctx_authorLogin ctx\<rparr>]\<rparr>)"

text \<open>Step 6, live: the mutation, and what follows its success or failure.\<close>

definition executeLive ::
  "AgentActionExecutionContext \<Rightarrow> AgentActionMode \<Rightarrow> PlannedAgentAction \<Rightarrow> World \<Rightarrow> AgentActionOutcome \<times> World" where
  "executeLive ctx mode action w =
     (case performAction ctx action w of
        (Inr _, w1) \<Rightarrow>
          (let (out, w2) = audit ctx mode action ex_completed (pa_reason action) w1
           in (out, notifyAction ctx action w2))
      | (Inl err, w1) \<Rightarrow>
          (let (out, w2) = audit ctx mode action ex_error (errorMessage err ''unknown error'') w1
           in (out, if actionClass action = merge \<and> truthy (ctx_headSha ctx) \<noteq> None
                    then w2\<lparr>db := handleMergeFailure ctx err (db w2)\<rparr> else w2)))"

definition lacks_write_permission :: "AgentActionExecutionContext \<Rightarrow> AgentActionClass \<Rightarrow> bool" where
  "lacks_write_permission ctx c \<longleftrightarrow> c \<in> set PR_WRITE_CLASSES \<and>
     resolveAgentPermissionReadiness (ctx_autonomy ctx) (ctx_installationPermissions ctx) \<noteq> ready"

definition executeAction ::
  "AgentActionExecutionContext \<Rightarrow> AgentActionMode \<Rightarrow> PlannedAgentAction \<Rightarrow> World \<Rightarrow> AgentActionOutcome \<times> World" where
  "executeAction ctx mode action w =
     (let lvl = resolveAutonomy (ctx_autonomy ctx) (actionClass action) in
      if mode = paused then audit ctx mode action ex_denied ''agent actions paused'' w
      else if \<not> isActingAutonomyLevel lvl then
        audit ctx mode action ex_denied (''autonomy for '' @ action_name (actionClass action) @ '' is '' @
          level_name lvl @ '' '' @ em_dash @ '' action not currently enabled'') w
      else if requiresApproval action then
        audit ctx mode action ex_queued (''awaiting maintainer approval '' @ em_dash @ '' '' @ pa_reason action)
          (w\<lparr>db := stageForApproval ctx action lvl (db w)\<rparr>)
      else if lacks_write_permission ctx (actionClass action) then
        audit ctx mode action ex_denied
          (''pull_requests: write not granted '' @ em_dash @ '' maintainer must re-consent'') w
      else if mode = dry_run then
        audit ctx mode action ex_dry_run (''dry-run: would '' @ action_name (actionClass action) @ '' '' @
          em_dash @ '' '' @ pa_reason action) w
      else executeLive ctx mode action w)"

definition execution_mode :: "AgentActionExecutionContext \<Rightarrow> World \<Rightarrow> AgentActionMode" where
  "execution_mode ctx w =
     resolveAgentActionMode (isGlobalAgentPause (AGENT_ACTIONS_PAUSED w)) (ctx_agentPaused ctx) (ctx_agentDryRun ctx)"

fun executeAll ::
  "AgentActionExecutionContext \<Rightarrow> AgentActionMode \<Rightarrow> PlannedAgentAction list \<Rightarrow> World \<Rightarrow> AgentActionOutcome list \<times> World" where
  "executeAll ctx mode [] w = ([], w)"
| "executeAll ctx mode (action # rest) w =
     (let (out, w1) = executeAction ctx mode action w; (outs, w2) = executeAll ctx mode rest w1
      in (out # outs, w2))"

definition executeAgentMaintenanceActions ::
  "AgentActionExecutionContext \<Rightarrow> PlannedAgentAction list \<Rightarrow> World \<Rightarrow> AgentActionOutcome list \<times> World" where
  "executeAgentMaintenanceActions ctx planned w = executeAll ctx (execution_mode ctx w) planned w"

section \<open>Locality of the GitHub effects\<close>

text \<open>The part of the world a GitHub effect reads, and effects that read nothing else.\<close>

definition gh_part :: "World \<Rightarrow> (GhRequest list \<Rightarrow> nat \<Rightarrow> bool) \<times> (GhRequest list \<Rightarrow> GhRequest \<Rightarrow> JsError + string list) \<times> GhRequest list" where
  "gh_part w = (token_cached w, github w, gh_log w)"

definition gh_local :: "'a effect \<Rightarrow> bool" where
  "gh_local m \<longleftrightarrow> (\<forall>w w'. gh_part w = gh_part w' \<longrightarrow>
     fst (m w) = fst (m w') \<and> gh_part (snd (m w)) = gh_part (snd (m w')))"

lemma gh_localI:
  "(\<And>w w'. gh_part w = gh_part w' \<Longrightarrow> fst (m w) = fst (m w') \<and> gh_part (snd (m w)) = gh_part (snd (m w'))) \<Longrightarrow>
    gh_local m"
  unfolding gh_local_def by blast

lemma gh_localD:
  assumes "gh_local m" and "gh_part w = gh_part w'"
  shows "fst (m w) = fst (m w')" and "gh_part (snd (m w)) = gh_part (snd (m w'))"
  using assms unfolding gh_local_def by blast+

lemma gh_local_request: "gh_local (request r)"
  by (simp add: gh_local_def request_def gh_part_def)

lemma gh_local_return: "gh_local (return x)"
  by (simp add: gh_local_def return_def)

lemma gh_local_throw: "gh_local (throw e)"
  by (simp add: gh_local_def throw_def)

lemma gh_local_andThen:
  assumes "gh_local m" and "\<And>x. gh_local (k x)"
  shows "gh_local (andThen m k)"
proof (rule gh_localI)
  fix w w' assume eq: "gh_part w = gh_part w'"
  obtain x w1 where m: "m w = (x, w1)" by fastforce
  obtain w1' where m': "m w' = (x, w1')" and eq1: "gh_part w1 = gh_part w1'"
    using gh_localD [OF assms(1) eq] m by (cases "m w'") simp
  show "fst (andThen m k w) = fst (andThen m k w') \<and>
      gh_part (snd (andThen m k w)) = gh_part (snd (andThen m k w'))"
    using gh_localD [OF assms(2) eq1] by (cases x) (simp_all add: andThen_def m m' eq1)
qed

lemma gh_local_if: "(b \<Longrightarrow> gh_local m) \<Longrightarrow> (\<not> b \<Longrightarrow> gh_local m') \<Longrightarrow> gh_local (if b then m else m')"
  by simp

lemma gh_local_splitRepo: "gh_local (splitRepo name)"
  by (auto simp: splitRepo_def gh_local_return gh_local_throw split: list.split)

lemma gh_local_createMissing: "gh_local (createMissing owner repo l)"
  by (auto simp: gh_local_def createMissing_def request_def gh_part_def split: sum.split)

lemma gh_local_token: "gh_local (createInstallationToken i)"
  by (auto simp: gh_local_def createInstallationToken_def andThen_def request_def return_def gh_part_def split: sum.split)

lemmas gh_local_intros = gh_local_andThen gh_local_if gh_local_request gh_local_return gh_local_throw
  gh_local_splitRepo gh_local_token gh_local_createMissing

lemma gh_local_pr_actions:
  "gh_local (createPullRequestReview i f n ev b)" "gh_local (mergePullRequest i f n m h)"
  "gh_local (updatePullRequestBranch i f n h)" "gh_local (createIssueComment i f n b)"
  "gh_local (closePullRequest i f n)" "gh_local (ensurePullRequestLabel i f n l c)"
  unfolding pr_action_defs case_prod_beta by (intro gh_local_intros)+

lemma gh_local_performAction: "gh_local (performAction ctx action)"
  by (cases "actionClass action"; cases "truthy (pa_closeComment action)")
    (simp_all add: performAction_def gh_local_andThen gh_local_return gh_local_pr_actions)

lemma gh_only_performAction: "gh_only (performAction ctx action)"
  by (cases "actionClass action"; cases "truthy (pa_closeComment action)")
    (simp_all add: performAction_def gh_only_andThen)

section \<open>What one action does\<close>

text \<open>An action that reaches the live step.\<close>

definition cleared :: "AgentActionExecutionContext \<Rightarrow> AgentActionMode \<Rightarrow> PlannedAgentAction \<Rightarrow> bool" where
  "cleared ctx mode action \<longleftrightarrow> mode = live \<and>
     isActingAutonomyLevel (resolveAutonomy (ctx_autonomy ctx) (actionClass action)) \<and>
     \<not> requiresApproval action \<and> \<not> lacks_write_permission ctx (actionClass action)"

lemma audit_gh [simp]: "gh_part (snd (audit ctx mode action r d w)) = gh_part w"
  by (simp add: audit_def gh_part_def)

lemma notify_gh [simp]: "gh_part (notifyAction ctx action w) = gh_part w"
  by (simp add: notifyAction_def gh_part_def split: option.split)

lemma gh_part_db [simp]: "gh_part (w\<lparr>db := s\<rparr>) = gh_part w"
  by (simp add: gh_part_def)

lemma executeLive_gh: "gh_part (snd (executeLive ctx mode action w)) = gh_part (snd (performAction ctx action w))"
  by (auto simp: executeLive_def Let_def split: prod.split sum.split)
    (metis audit_gh snd_conv notify_gh gh_part_db)+

lemma executeAction_gh: "gh_part (snd (executeAction ctx mode action w)) =
    (if cleared ctx mode action then gh_part (snd (performAction ctx action w)) else gh_part w)"
  by (cases mode) (simp_all add: executeAction_def cleared_def executeLive_gh Let_def)

lemma executeAction_gh_cong: "gh_part w = gh_part w' \<Longrightarrow>
    gh_part (snd (executeAction ctx mode action w)) = gh_part (snd (executeAction ctx mode action w'))"
  by (cases "cleared ctx mode action")
    (simp_all only: executeAction_gh if_True if_False, rule gh_localD(2) [OF gh_local_performAction])

lemma executeAll_Cons: "snd (executeAll ctx mode (action # rest) w) =
    snd (executeAll ctx mode rest (snd (executeAction ctx mode action w)))"
  by (simp add: Let_def split: prod.split)

lemma executeAll_gh:
  "gh_part w = gh_part w' \<Longrightarrow> gh_part (snd (executeAll ctx mode planned w)) =
     gh_part (snd (executeAll ctx mode (filter (cleared ctx mode) planned) w'))"
proof (induction planned arbitrary: w w')
  case (Cons action rest)
  show ?case
  proof (cases "cleared ctx mode action")
    case True
    then have "filter (cleared ctx mode) (action # rest) = action # filter (cleared ctx mode) rest" by simp
    then show ?thesis
      by (simp only: executeAll_Cons Cons(1) [OF executeAction_gh_cong [OF Cons(2)]])
  next
    case False
    then show ?thesis
      unfolding executeAll_Cons
      using Cons(1) [of "snd (executeAction ctx mode action w)" w'] Cons(2)
      by (simp add: executeAction_gh)
  qed
qed simp

section \<open>Audit records\<close>

abbreviation events :: "Store \<Rightarrow> AuditEventRecord list" where
  "events s \<equiv> map au_event (audit_events s)"

definition action_events :: "Store \<Rightarrow> AuditEventRecord list" where
  "action_events s = filter (\<lambda>e. ae_eventType e \<noteq> ''agent.action.merge_blocked'') (events s)"

lemma audit_event_type: "ae_eventType (audit_event ctx mode action r d) \<noteq> ''agent.action.merge_blocked''"
  by (cases "actionClass action") (simp_all add: audit_event_def buildAgentActionAudit_def)

lemma audit_events_audit: "action_events (db (snd (audit ctx mode action r d w))) =
    action_events (db w) @ [audit_event ctx mode action r d]"
  by (simp add: audit_def action_events_def audit_event_type)

lemma stage_events: "action_events (stageForApproval ctx action lvl s) = action_events s"
  by (simp add: stageForApproval_def action_events_def case_prod_beta Let_def)

lemma handleMergeFailure_events: "action_events (handleMergeFailure ctx err s) = action_events s"
  by (auto simp: handleMergeFailure_def action_events_def merge_blocked_event_def case_prod_beta Let_def
      split: option.split)

lemma perform_events: "db (snd (performAction ctx action w)) = db w"
  using gh_onlyD [OF gh_only_performAction] by blast

lemma notify_db [simp]: "db (notifyAction ctx action w) = db w"
  by (simp add: notifyAction_def split: option.split)

lemma fst_audit [simp]: "fst (audit ctx mode action r d w) =
    \<lparr>ao_actionClass = actionClass action, ao_outcome = r, ao_detail = d\<rparr>"
  by (simp add: audit_def)

lemma executeLive_events:
  "action_events (db (snd (executeLive ctx mode action w))) = action_events (db w) @
     [audit_event ctx mode action (ao_outcome (fst (executeLive ctx mode action w)))
        (ao_detail (fst (executeLive ctx mode action w)))] \<and>
   ao_actionClass (fst (executeLive ctx mode action w)) = actionClass action"
  using perform_events [of ctx action w]
  by (simp add: executeLive_def case_prod_beta Let_def audit_events_audit handleMergeFailure_events
      split: sum.split)

lemma executeAction_events:
  "action_events (db (snd (executeAction ctx mode action w))) = action_events (db w) @
     [audit_event ctx mode action (ao_outcome (fst (executeAction ctx mode action w)))
        (ao_detail (fst (executeAction ctx mode action w)))] \<and>
   ao_actionClass (fst (executeAction ctx mode action w)) = actionClass action"
  by (simp add: executeAction_def Let_def audit_events_audit stage_events executeLive_events)

lemma executeAll_events:
  "length (fst (executeAll ctx mode planned w)) = length planned \<and>
   map ao_actionClass (fst (executeAll ctx mode planned w)) = map actionClass planned \<and>
   action_events (db (snd (executeAll ctx mode planned w))) = action_events (db w) @
     map2 (\<lambda>action out. audit_event ctx mode action (ao_outcome out) (ao_detail out))
       planned (fst (executeAll ctx mode planned w))"
proof (induction planned arbitrary: w)
  case (Cons action rest)
  then show ?case
    using executeAction_events [of ctx mode action w] by (simp add: case_prod_beta Let_def)
qed simp

section \<open>Failed merges\<close>

lemma find_pull_record [simp]: "find_pull f n (recordAuditEvent e s) = find_pull f n s"
  by (simp add: find_pull_def)

text \<open>What a failed merge leaves in the row of the pull request, when the row is at the failed head.\<close>

lemma handleMergeFailure_row:
  assumes head: "ctx_headSha ctx = Some h" "h \<noteq> []"
    and row: "find_pull (ctx_repoFullName ctx) (exec_pullNumber ctx) s = Some row" "row_headSha row = Some h"
  shows "\<exists>row'. find_pull (ctx_repoFullName ctx) (exec_pullNumber ctx) (handleMergeFailure ctx err s) = Some row' \<and>
    row_headSha row' = Some h \<and>
    row_mergeAttemptCount row' = row_mergeAttemptCount row + (if fst (classifyMergeFailure err) then 0 else 1) \<and>
    row_mergeBlockedSha row' =
      (if fst (classifyMergeFailure err) \<or> row_mergeAttemptCount row + 1 \<ge> MERGE_RETRY_CAP
       then Some h else row_mergeBlockedSha row)"
proof -
  have t: "truthy (ctx_headSha ctx) = Some h" using head by (simp add: truthy_def)
  have at: "at_head (ctx_repoFullName ctx) (exec_pullNumber ctx) h row"
    using row find_pull_SomeD [OF row(1)] by (simp add: at_head_def)
  show ?thesis
  proof (cases "fst (classifyMergeFailure err)")
    case True
    then show ?thesis
      using row(1) at row(2) by (simp add: handleMergeFailure_def t case_prod_beta Let_def find_pull_markBlocked)
  next
    case False
    let ?s1 = "snd (bumpPullRequestMergeAttempt (ctx_repoFullName ctx) (exec_pullNumber ctx) h s)"
    obtain row1 where row1: "find_pull (ctx_repoFullName ctx) (exec_pullNumber ctx) ?s1 = Some row1"
      "row_mergeAttemptCount row1 = row_mergeAttemptCount row + 1" "row_headSha row1 = Some h"
      "row_mergeBlockedSha row1 = row_mergeBlockedSha row" "pull_key row1 = pull_key row"
      using row at by (auto simp: find_pull_bump pull_key_def)
    then have at1: "at_head (ctx_repoFullName ctx) (exec_pullNumber ctx) h row1"
      using at by (simp add: at_head_def)
    have count: "fst (bumpPullRequestMergeAttempt (ctx_repoFullName ctx) (exec_pullNumber ctx) h s) =
        row_mergeAttemptCount row + 1"
      using row1(1,2) by (simp add: fst_bump)
    show ?thesis
      using row1 at1 False
      by (simp add: handleMergeFailure_def t case_prod_beta Let_def find_pull_markBlocked count)
  qed
qed

text \<open>A planner input that carries the merge columns of a row plans no merge when the row is blocked at its head.\<close>

lemma blocked_row_no_merge:
  "row_mergeBlockedSha row = Some h \<Longrightarrow> row_headSha row = Some h \<Longrightarrow>
     merge \<notin> actionClass ` set (planAgentMaintenanceActions (i\<lparr>ap_pr := (ap_pr i)
       \<lparr>headSha := row_headSha row, mergeBlockedSha := row_mergeBlockedSha row\<rparr>\<rparr>))"
  by (simp add: plan_image label_actions_image approve_actions_image disposition_actions_image
      canMerge_def mergeTerminallyBlocked_def)

section \<open>Properties\<close>

text \<open>
  C3: GitHub is only touched by cleared actions. The requests a run sends are exactly the requests
  the run of its cleared actions alone would send: actions that are halted by the pause or by the
  dry run, not enabled by the current autonomy, waiting for approval, or without the write
  permission send none, and change nothing for the others.
\<close>

theorem only_cleared_actions_touch_github:
  "gh_log (snd (executeAgentMaintenanceActions ctx planned w)) =
   gh_log (snd (executeAgentMaintenanceActions ctx (filter (cleared ctx (execution_mode ctx w)) planned) w))"
  using executeAll_gh [of w w ctx "execution_mode ctx w" planned]
  by (simp add: executeAgentMaintenanceActions_def gh_part_def)

text \<open>
  every planned action is audited exactly once, in order. The run returns one outcome per
  planned action, for its class, and appends to the log one action record per outcome, with the
  same result and detail; the only other records it writes are those of blocked merges.
\<close>

theorem every_action_audited:
  "let (outs, w') = executeAgentMaintenanceActions ctx planned w in
   length outs = length planned \<and> map ao_actionClass outs = map actionClass planned \<and>
   action_events (db w') = action_events (db w) @
     map2 (\<lambda>action out. audit_event ctx (execution_mode ctx w) action (ao_outcome out) (ao_detail out)) planned outs"
  using executeAll_events [of ctx "execution_mode ctx w" planned w]
  by (simp add: executeAgentMaintenanceActions_def case_prod_beta)

text \<open>
  A failed merge is held. When a merge of the head of a pull request fails for a terminal
  reason, or for the fifth time or more, the planner plans no further merge of that head; otherwise
  the attempt is counted and nothing is blocked.
\<close>

theorem failed_merge_is_held:
  assumes "ctx_headSha ctx = Some h" and "h \<noteq> []"
    and "find_pull (ctx_repoFullName ctx) (exec_pullNumber ctx) s = Some row" and "row_headSha row = Some h"
  shows "\<exists>row'. find_pull (ctx_repoFullName ctx) (exec_pullNumber ctx) (handleMergeFailure ctx err s) = Some row' \<and>
    (if fst (classifyMergeFailure err) \<or> row_mergeAttemptCount row + 1 \<ge> 5
     then merge \<notin> actionClass ` set (planAgentMaintenanceActions (i\<lparr>ap_pr := (ap_pr i)
       \<lparr>headSha := row_headSha row', mergeBlockedSha := row_mergeBlockedSha row'\<rparr>\<rparr>))
     else row_mergeAttemptCount row' = row_mergeAttemptCount row + 1 \<and>
       row_mergeBlockedSha row' = row_mergeBlockedSha row)"
proof -
  obtain row' where row': "find_pull (ctx_repoFullName ctx) (exec_pullNumber ctx) (handleMergeFailure ctx err s) = Some row'"
    "row_headSha row' = Some h"
    "row_mergeAttemptCount row' = row_mergeAttemptCount row + (if fst (classifyMergeFailure err) then 0 else 1)"
    "row_mergeBlockedSha row' = (if fst (classifyMergeFailure err) \<or> row_mergeAttemptCount row + 1 \<ge> MERGE_RETRY_CAP
       then Some h else row_mergeBlockedSha row)"
    using handleMergeFailure_row [OF assms] by blast
  show ?thesis
  proof (cases "fst (classifyMergeFailure err) \<or> row_mergeAttemptCount row + 1 \<ge> 5")
    case True
    then have "row_mergeBlockedSha row' = Some h" using row'(4) by (auto simp: MERGE_RETRY_CAP_def)
    then show ?thesis using True row'(1,2) blocked_row_no_merge [of row' h i] by auto
  next
    case False
    then show ?thesis using row' by (simp add: MERGE_RETRY_CAP_def)
  qed
qed

definition example_ctx :: AgentActionExecutionContext where
  "example_ctx = \<lparr>ctx_installationId = 1, ctx_repoFullName = ''o/r'', exec_pullNumber = 7, ctx_headSha = Some ''a'',
     ctx_autonomy = Some (\<lambda>_. Some auto), ctx_agentPaused = None, ctx_agentDryRun = None,
     ctx_installationPermissions = None, ctx_authorLogin = None\<rparr>"

theorem failed_merge_is_held_witness:
  "\<exists>row'. find_pull ''o/r'' 7 (handleMergeFailure example_ctx
      \<lparr>err_isError = True, err_message = ''Resource not accessible by integration'', err_status = Some 403\<rparr>
      synced_store) = Some row' \<and>
    merge \<notin> actionClass ` set (planAgentMaintenanceActions (guarded_example\<lparr>ap_pr := (ap_pr guarded_example)
       \<lparr>headSha := row_headSha row', mergeBlockedSha := row_mergeBlockedSha row'\<rparr>\<rparr>))"
  using failed_merge_is_held [of example_ctx "''a''" synced_store synced_row
      "\<lparr>err_isError = True, err_message = ''Resource not accessible by integration'', err_status = Some 403\<rparr>"
      guarded_example] find_synced
  by (simp add: example_ctx_def synced_row_def new_pull_row_def sync_payload_def classifyMergeFailure_def Let_def)

text \<open>
  C25: merges are not retried forever. After five failed merges of one head, whatever the errors
  were, the merge of that head is blocked.
\<close>

theorem five_failures_block:
  assumes "ctx_headSha ctx = Some h" and "h \<noteq> []"
    and "find_pull (ctx_repoFullName ctx) (exec_pullNumber ctx) s = Some row" and "row_headSha row = Some h"
    and "length errs = 5"
  shows "\<exists>row'. find_pull (ctx_repoFullName ctx) (exec_pullNumber ctx) (foldr (handleMergeFailure ctx) errs s) = Some row' \<and>
    row_mergeBlockedSha row' = Some h"
proof -
  have "\<exists>row'. find_pull (ctx_repoFullName ctx) (exec_pullNumber ctx) (foldr (handleMergeFailure ctx) es s) = Some row' \<and>
      row_headSha row' = Some h \<and>
      (row_mergeBlockedSha row' = Some h \<or>
       row_mergeAttemptCount row' \<ge> row_mergeAttemptCount row + length es \<and> length es < 5)" for es
  proof (induction es)
    case Nil
    then show ?case using assms(3,4) by simp
  next
    case (Cons e es)
    then obtain row1 where row1: "find_pull (ctx_repoFullName ctx) (exec_pullNumber ctx)
        (foldr (handleMergeFailure ctx) es s) = Some row1" "row_headSha row1 = Some h"
      "row_mergeBlockedSha row1 = Some h \<or>
       row_mergeAttemptCount row1 \<ge> row_mergeAttemptCount row + length es \<and> length es < 5" by blast
    then show ?case
      using handleMergeFailure_row [OF assms(1,2) row1(1,2), of e] by (auto simp: MERGE_RETRY_CAP_def)
  qed
  then obtain row' where "find_pull (ctx_repoFullName ctx) (exec_pullNumber ctx) (foldr (handleMergeFailure ctx) errs s) = Some row'"
    "row_mergeBlockedSha row' = Some h \<or> length errs < 5" by blast
  then show ?thesis using assms(5) by auto
qed

theorem five_failures_block_witness:
  "\<exists>row'. find_pull ''o/r'' 7 (foldr (handleMergeFailure example_ctx)
      (replicate 5 (new_error ''Base branch was modified'')) synced_store) = Some row' \<and>
    row_mergeBlockedSha row' = Some ''a''"
  using five_failures_block [of example_ctx "''a''" synced_store synced_row
      "replicate 5 (new_error ''Base branch was modified'')"] find_synced
  by (simp add: example_ctx_def synced_row_def new_pull_row_def sync_payload_def)

text \<open>
  staging is sticky and silent. When an action of the same class was ever staged on the pull
  request, also one a maintainer rejected, an action that needs approval stages nothing and
  notifies nobody; it is still reported and audited as queued for approval.
\<close>

theorem restaging_is_silent:
  assumes "r \<in> set (agent_pending_actions (db w))"
    and "pending_key r = pending_input_key (pending_input ctx action lvl)"
    and "execution_mode ctx w \<noteq> paused"
    and "isActingAutonomyLevel (resolveAutonomy (ctx_autonomy ctx) (actionClass action))"
    and "requiresApproval action"
  shows "let (outs, w') = executeAgentMaintenanceActions ctx [action] w in
    map ao_outcome outs = [ex_queued] \<and>
    agent_pending_actions (db w') = agent_pending_actions (db w) \<and>
    notification_deliveries (db w') = notification_deliveries (db w)"
proof -
  let ?lvl = "resolveAutonomy (ctx_autonomy ctx) (actionClass action)"
  have key: "pending_input_key (pending_input ctx action ?lvl) \<in> pending_key ` set (agent_pending_actions (db w))"
    using assms(1,2) by (auto simp: pending_input_key_def pending_input_def intro: rev_image_eqI)
  have "\<not> snd (fst (createPendingAgentActionIfAbsent (pending_input ctx action ?lvl) (db w)))"
    using key by (simp add: staging.created_iff)
  then have "agent_pending_actions (stageForApproval ctx action ?lvl (db w)) = agent_pending_actions (db w)"
    and "notification_deliveries (stageForApproval ctx action ?lvl (db w)) = notification_deliveries (db w)"
    by (simp_all add: stageForApproval_def case_prod_beta staging.rows_after Let_def)
  then show ?thesis
    using assms(3-5)
    by (simp add: executeAgentMaintenanceActions_def executeAction_def audit_def Let_def)
qed

definition example_action :: PlannedAgentAction where
  "example_action = \<lparr>actionClass = merge, requiresApproval = True, pa_reason = ''gate passed'', pa_label = None,
     pa_reviewBody = None, pa_mergeMethod = Some Squash, pa_closeComment = None\<rparr>"

definition rejected_row :: AgentPendingActionRecord where
  "rejected_row = \<lparr>pend_id = ''1'', pend_repoFullName = ''o/r'', pend_pullNumber = 7, pend_installationId = 1,
     pend_actionClass = merge, pend_autonomyLevel = auto_with_approval, pend_params = actionParams example_action,
     pend_reason = None, pend_status = status_rejected, pend_decidedBy = Some ''ada'', pend_decidedAt = None,
     pend_createdAt = [], pend_updatedAt = []\<rparr>"

definition example_world :: World where
  "example_world = \<lparr>AGENT_ACTIONS_PAUSED = None,
     db = (empty_store (\<lambda>_. []) (\<lambda>_. []))\<lparr>agent_pending_actions := [rejected_row]\<rparr>,
     token_cached = (\<lambda>_ _. False), github = (\<lambda>_ _. Inr []), gh_log = [], discord_log = []\<rparr>"

theorem restaging_is_silent_witness:
  "map ao_outcome (fst (executeAgentMaintenanceActions example_ctx [example_action] example_world)) = [ex_queued] \<and>
   agent_pending_actions (db (snd (executeAgentMaintenanceActions example_ctx [example_action] example_world))) =
     [rejected_row]"
proof -
  have live: "execution_mode example_ctx example_world \<noteq> paused"
    by (simp add: execution_mode_def example_world_def example_ctx_def resolveAgentActionMode_def
        isGlobalAgentPause_def truthy_flag_def toLowerCase_def)
  have acting: "isActingAutonomyLevel (resolveAutonomy (ctx_autonomy example_ctx) (actionClass example_action))"
    by (simp add: example_ctx_def resolveAutonomy_Some isActingAutonomyLevel_def)
  have mem: "rejected_row \<in> set (agent_pending_actions (db example_world))"
    by (simp add: example_world_def)
  have key: "pending_key rejected_row = pending_input_key (pending_input example_ctx example_action auto)"
    by (simp add: rejected_row_def pending_key_def pending_input_key_def pending_input_def example_ctx_def
        example_action_def boundedString_def)
  show ?thesis
    using restaging_is_silent [OF mem key live acting]
    by (simp add: example_action_def case_prod_beta Let_def) (simp add: example_world_def)
qed

end
