(* ===== verification/Check_Run.thy ===== *)
theory Check_Run
  imports Gate
begin

text \<open>
  The public check run of \<open>rules/advisory.ts\<close>: the inline annotations
  (\<open>buildCheckRunAnnotations\<close>) and the text (\<open>formatCheckRunOutput\<close>).
\<close>

definition CHECK_RUN_ANNOTATION_LIMIT :: nat where
  "CHECK_RUN_ANNOTATION_LIMIT = 50"

datatype AnnotationLevel = level_notice | level_warning | level_failure

record CheckRunAnnotation =
  an_path :: string
  start_line :: nat
  end_line :: nat
  annotation_level :: AnnotationLevel
  an_message :: string
  an_title :: string

record CheckRunOutput =
  co_title :: string
  co_summary :: string
  co_text :: string
  co_annotations :: "CheckRunAnnotation list option"

record CheckRunAnnotationContext =
  ctx_files :: "PullRequestFileRecord list"
  ctx_clusters :: "CollisionCluster list"
  ctx_pullNumber :: nat

record CheckRunAnnotationBuildResult =
  br_annotations :: "CheckRunAnnotation list"
  br_omittedCount :: nat

datatype DetailLevel = Minimal | Standard | Deep

definition severityToAnnotationLevel :: "AdvisorySeverity \<Rightarrow> AnnotationLevel" where
  "severityToAnnotationLevel severity =
     (if severity = critical then level_failure
      else if severity = warning then level_warning
      else level_notice)"

section \<open>Paths\<close>

definition rx_slash :: rx where
  "rx_slash = Oneof [One CHR ''/'']"

definition rx_segment_start :: rx where
  "rx_segment_start = Or Bol rx_slash"

definition rx_not_slash :: rx where
  "rx_not_slash = Plus (Noneof [One CHR ''/''])"

definition rx_ext :: "string list \<Rightarrow> rx" where
  "rx_ext exts = Seq [Lit ''.'', Alt (map Lit exts), Eol]"

definition isCodePath :: "string \<Rightarrow> bool" where
  "isCodePath path = rx_test_i (rx_ext
     [''ts'', ''tsx'', ''js'', ''jsx'', ''py'', ''go'', ''rs'', ''java'', ''rb'', ''php'', ''cs'', ''cpp'', ''c'',
      ''h'', ''swift'', ''kt'', ''m'', ''sql'', ''yaml'', ''yml'', ''json'', ''toml'', ''md'']) path"

definition isTestPath :: "string \<Rightarrow> bool" where
  "isTestPath path \<longleftrightarrow>
     rx_test_i (Seq [rx_segment_start, Alt [Lit ''test'', Lit ''tests'', Lit ''spec'', Lit ''__tests__''], rx_slash]) path
     \<or> rx_test_i (Seq [Lit ''.'', Alt [Lit ''test'', Lit ''spec''],
          rx_ext [''ts'', ''tsx'', ''js'', ''jsx'', ''py'', ''go'', ''rs'']]) path
     \<or> rx_test_i (Seq [rx_segment_start, rx_not_slash, Lit ''_test.go'', Eol]) path"

definition collisionClustersForPull :: "CollisionCluster list \<Rightarrow> nat \<Rightarrow> CollisionCluster list" where
  "collisionClustersForPull clusters pullNumber =
     filter (\<lambda>cluster. list_ex (\<lambda>item. item_type item = Item_pull_request \<and> item_number item = pullNumber)
       (cl_items cluster)) clusters"

section \<open>The first added line of a patch\<close>

definition is_digit :: "char \<Rightarrow> bool" where
  "is_digit c = class_match digit_items c"

definition strip_prefix :: "string \<Rightarrow> string \<Rightarrow> string option" where
  "strip_prefix p s = (if startsWith s p then Some (drop (length p) s) else None)"

fun digits_value :: "nat \<Rightarrow> string \<Rightarrow> nat" where
  "digits_value acc [] = acc"
| "digits_value acc (c # cs) = digits_value (10 * acc + (of_char c - 48)) cs"

text \<open>\<open>\d+\<close> and then \<open>(?:,\d+)?\<close>: the digits of the first group and the rest.\<close>

definition hunk_range :: "string \<Rightarrow> (string \<times> string) option" where
  "hunk_range s =
     (let ds = takeWhile is_digit s; r = dropWhile is_digit s in
      if ds = [] then None
      else if r \<noteq> [] \<and> hd r = CHR '','' \<and> takeWhile is_digit (tl r) \<noteq> []
        then Some (ds, dropWhile is_digit (tl r))
      else Some (ds, r))"

text \<open>\<open>/^@@ -\d+(?:,\d+)? \+(\d+)(?:,\d+)? @@/\<close>\<close>

definition hunk_header :: "string \<Rightarrow> string option" where
  "hunk_header line =
     Option.bind (strip_prefix ''@@ -'' line) (\<lambda>s1.
     Option.bind (hunk_range s1) (\<lambda>(_, s2).
     Option.bind (strip_prefix '' +'' s2) (\<lambda>s3.
     Option.bind (hunk_range s3) (\<lambda>(ds, s4).
     Option.bind (strip_prefix '' @@'' s4) (\<lambda>_. Some ds)))))"

fun first_hunk :: "string list \<Rightarrow> nat option" where
  "first_hunk [] = None"
| "first_hunk (line # rest) =
     (case hunk_header line of Some ds \<Rightarrow> Some (max 1 (digits_value 0 ds)) | None \<Rightarrow> first_hunk rest)"

definition firstAddedLineFromPatch :: "string \<Rightarrow> nat option" where
  "firstAddedLineFromPatch patch = first_hunk (split_on CHR 0x0A patch)"

definition ANNOTATABLE_PR_FILE_STATUSES :: "string list" where
  "ANNOTATABLE_PR_FILE_STATUSES = [''added'', ''changed'', ''modified'']"

definition annotationLineForFile :: "PullRequestFileRecord \<Rightarrow> nat option" where
  "annotationLineForFile file =
     (if file_additions file \<le> 0 then None
      else
        (let status = toLowerCase (nullish (file_status file) [])
         in if status \<noteq> [] \<and> status \<notin> set ANNOTATABLE_PR_FILE_STATUSES then None
            else
              (let patch = (case jget (file_payload file) ''patch'' of JString s \<Rightarrow> s | _ \<Rightarrow> [])
               in case firstAddedLineFromPatch patch of
                    Some l \<Rightarrow> Some l
                  | None \<Rightarrow> if status = ''added'' \<or> status = [] then Some 1 else None)))"

definition annotatablePullRequestFiles :: "PullRequestFileRecord list \<Rightarrow> PullRequestFileRecord list" where
  "annotatablePullRequestFiles files =
     filter (\<lambda>file. file_path file \<noteq> [] \<and> isCodePath (file_path file) \<and> annotationLineForFile file \<noteq> None)
       files"

section \<open>Annotations\<close>

text \<open>The keys already seen and the candidates collected, both in order of arrival.\<close>

type_synonym candidates = "string list \<times> CheckRunAnnotation list"

definition addCandidate ::
  "string \<Rightarrow> nat \<Rightarrow> AnnotationLevel \<Rightarrow> string \<Rightarrow> string \<Rightarrow> candidates \<Rightarrow> candidates" where
  "addCandidate path line lvl title message st =
     (let safeTitle = take 255 (sanitizeForCheckRun title);
          safeMessage = take 65535 (sanitizeForCheckRun message);
          key = path @ '':'' @ safeTitle @ '':'' @ safeMessage
      in if path = [] \<or> safeTitle = [] \<or> safeMessage = [] then st
         else if key \<in> set (fst st) then st
         else (let startLine = max 1 line
               in (fst st @ [key],
                   snd st @ [\<lparr>an_path = path, start_line = startLine, end_line = startLine,
                     annotation_level = lvl, an_message = safeMessage, an_title = safeTitle\<rparr>])))"

definition missingTestCandidates :: "PullRequestFileRecord list \<Rightarrow> candidates \<Rightarrow> candidates" where
  "missingTestCandidates annotatable st =
     (let codeFiles = filter (\<lambda>f. \<not> isTestPath (file_path f)) annotatable;
          testFiles = filter (\<lambda>f. isTestPath (file_path f)) annotatable
      in if codeFiles \<noteq> [] \<and> testFiles = [] then
           foldl (\<lambda>s file. addCandidate (file_path file) (nullish (annotationLineForFile file) 1) level_warning
               ''Missing test evidence''
               ''Code changed without an obvious test file in this PR. Add focused tests or explain why existing coverage is sufficient.''
               s) st codeFiles
         else st)"

definition collisionCandidates ::
  "CheckRunAnnotationContext \<Rightarrow> PullRequestFileRecord list \<Rightarrow> candidates \<Rightarrow> candidates" where
  "collisionCandidates ctx annotatable st =
     foldl (\<lambda>s cluster.
         foldl (\<lambda>s' file. addCandidate (file_path file) (nullish (annotationLineForFile file) 1)
             (if cl_risk cluster = Risk_high then level_warning else level_notice)
             ''Possible duplicate overlap'' (cl_reason cluster) s')
           s annotatable)
       st (collisionClustersForPull (ctx_clusters ctx) (ctx_pullNumber ctx))"

definition findingCandidates ::
  "AdvisoryFinding list \<Rightarrow> PullRequestFileRecord list \<Rightarrow> candidates \<Rightarrow> candidates" where
  "findingCandidates fs annotatable st =
     foldl (\<lambda>s f.
         (let text = nullish (f_publicText f) [] in
          if text = [] then s
          else foldl (\<lambda>s' path.
                 addCandidate path
                   (nullish (Option.bind (List.find (\<lambda>file. file_path file = path) annotatable)
                      annotationLineForFile) 1)
                   (severityToAnnotationLevel (f_severity f)) (f_title f) text s')
               s (map file_path annotatable)))
       st fs"

definition annotationCandidates :: "Advisory \<Rightarrow> CheckRunAnnotationContext \<Rightarrow> candidates" where
  "annotationCandidates advisoryResult ctx =
     (let annotatable = annotatablePullRequestFiles (ctx_files ctx)
      in findingCandidates (adv_findings advisoryResult) annotatable
           (collisionCandidates ctx annotatable (missingTestCandidates annotatable ([], []))))"

definition buildCheckRunAnnotations ::
  "Advisory \<Rightarrow> CheckRunAnnotationContext option \<Rightarrow> DetailLevel \<Rightarrow> CheckRunAnnotationBuildResult" where
  "buildCheckRunAnnotations advisoryResult annotationContext detailLevel =
     (case annotationContext of
        None \<Rightarrow> \<lparr>br_annotations = [], br_omittedCount = 0\<rparr>
      | Some ctx \<Rightarrow>
          if detailLevel = Minimal then \<lparr>br_annotations = [], br_omittedCount = 0\<rparr>
          else
            (let candidates = snd (annotationCandidates advisoryResult ctx)
             in \<lparr>br_annotations = take CHECK_RUN_ANNOTATION_LIMIT candidates,
                 br_omittedCount = length candidates - CHECK_RUN_ANNOTATION_LIMIT\<rparr>))"

section \<open>The text of the check run\<close>

definition warning_sign :: string where
  "warning_sign = [CHR 0xE2, CHR 0x9A, CHR 0xA0, CHR 0xEF, CHR 0xB8, CHR 0x8F]"

definition info_sign :: string where
  "info_sign = [CHR 0xE2, CHR 0x84, CHR 0xB9, CHR 0xEF, CHR 0xB8, CHR 0x8F]"

definition no_detail_text :: string where
  "no_detail_text = ''No detailed findings are published in check runs.''"

definition publicLines :: "AdvisoryFinding list \<Rightarrow> string list" where
  "publicLines fs = concat (map (\<lambda>f.
     (let text = nullish (f_publicText f) [] in
      if text = [] then []
      else [(if f_severity f = warning then warning_sign else info_sign) @ '' '' @ sanitizeForCheckRun text])) fs)"

definition formatCheckRunOutput ::
  "Advisory \<Rightarrow> DetailLevel \<Rightarrow> CheckRunAnnotationContext option \<Rightarrow> CheckRunOutput" where
  "formatCheckRunOutput advisoryResult detailLevel annotationContext =
     (let text0 = (if detailLevel = Minimal then no_detail_text
                   else if adv_findings advisoryResult = [] then no_detail_text
                   else (let ls = publicLines (adv_findings advisoryResult)
                         in if ls = [] then no_detail_text else join [CHR 0x0A] ls));
          built = buildCheckRunAnnotations advisoryResult annotationContext detailLevel;
          text = (if br_omittedCount built > 0
                  then text0 @ [CHR 0x0A, CHR 0x0A] @ ellipsis @ nat_str (br_omittedCount built) @
                    '' more hotspot annotation(s) omitted from inline check output.''
                  else text0)
      in \<lparr>co_title = (if adv_conclusion advisoryResult = Adv_success then ''Gittensory context checked''
                      else ''Gittensory context posted''),
          co_summary = ''Gittensory public check output is intentionally minimal. Detailed maintainer context is available only through private API/MCP surfaces.'',
          co_text = text,
          co_annotations = (if br_annotations built \<noteq> [] then Some (br_annotations built) else None)\<rparr>)"

section \<open>Lemmas\<close>

text \<open>
  What every candidate satisfies: a non-empty path of an annotatable file, one line counted from
  1, texts within GitHub's limits, and a key of its own.
\<close>

definition annotation_key :: "CheckRunAnnotation \<Rightarrow> string" where
  "annotation_key x = an_path x @ '':'' @ an_title x @ '':'' @ an_message x"

definition annotation_ok :: "string set \<Rightarrow> CheckRunAnnotation \<Rightarrow> bool" where
  "annotation_ok paths x \<longleftrightarrow> an_path x \<in> paths \<and> an_path x \<noteq> [] \<and> 1 \<le> start_line x \<and>
     end_line x = start_line x \<and> an_title x \<noteq> [] \<and> length (an_title x) \<le> 255 \<and>
     an_message x \<noteq> [] \<and> length (an_message x) \<le> 65535"

definition candidates_inv :: "string set \<Rightarrow> candidates \<Rightarrow> bool" where
  "candidates_inv paths st \<longleftrightarrow> fst st = map annotation_key (snd st) \<and> distinct (fst st) \<and>
     list_all (annotation_ok paths) (snd st)"

lemma addCandidate_inv:
  "candidates_inv paths st \<Longrightarrow> path \<in> paths \<Longrightarrow> candidates_inv paths (addCandidate path l lvl t m st)"
  by (auto simp: addCandidate_def Let_def candidates_inv_def annotation_ok_def annotation_key_def)

lemma foldl_inv:
  "P s \<Longrightarrow> (\<And>s x. P s \<Longrightarrow> x \<in> set xs \<Longrightarrow> P (g s x)) \<Longrightarrow> P (foldl g s xs)"
  by (induction xs arbitrary: s) auto

lemma candidates_inv_foldl: "candidates_inv ps st \<Longrightarrow>
    (\<And>s x. candidates_inv ps s \<Longrightarrow> x \<in> set xs \<Longrightarrow> candidates_inv ps (g s x)) \<Longrightarrow>
    candidates_inv ps (foldl g st xs)"
  by (rule foldl_inv [where P = "candidates_inv ps"]) auto

lemma missingTestCandidates_inv:
  "candidates_inv (file_path ` set fs) st \<Longrightarrow> candidates_inv (file_path ` set fs) (missingTestCandidates fs st)"
  unfolding missingTestCandidates_def Let_def
  by (cases "filter (\<lambda>f. \<not> isTestPath (file_path f)) fs \<noteq> [] \<and> filter (\<lambda>f. isTestPath (file_path f)) fs = []")
    (simp_all, rule candidates_inv_foldl, assumption, rule addCandidate_inv, auto)

lemma collisionCandidates_inv:
  "candidates_inv (file_path ` set fs) st \<Longrightarrow> candidates_inv (file_path ` set fs) (collisionCandidates ctx fs st)"
  unfolding collisionCandidates_def
  by (rule candidates_inv_foldl, assumption, rule candidates_inv_foldl, assumption, rule addCandidate_inv) auto

lemma findingCandidates_inv:
  "candidates_inv (file_path ` set fs) st \<Longrightarrow> candidates_inv (file_path ` set fs) (findingCandidates ff fs st)"
  unfolding findingCandidates_def Let_def
proof (rule candidates_inv_foldl, assumption)
  fix s f
  assume s: "candidates_inv (file_path ` set fs) s"
  show "candidates_inv (file_path ` set fs)
      (if nullish (f_publicText f) [] = [] then s
       else foldl (\<lambda>s' path. addCandidate path
           (nullish (Option.bind (List.find (\<lambda>file. file_path file = path) fs) annotationLineForFile) 1)
           (severityToAnnotationLevel (f_severity f)) (f_title f) (nullish (f_publicText f) []) s')
         s (map file_path fs))"
  proof (cases "nullish (f_publicText f) [] = []")
    case False
    then show ?thesis
      by simp (rule candidates_inv_foldl, rule s, rule addCandidate_inv, auto)
  qed (simp add: s)
qed

lemma candidates_inv_init: "candidates_inv paths ([], [])"
  by (simp add: candidates_inv_def)

lemma annotationCandidates_inv:
  "candidates_inv (file_path ` set (annotatablePullRequestFiles (ctx_files ctx))) (annotationCandidates a ctx)"
  unfolding annotationCandidates_def Let_def
  by (intro findingCandidates_inv collisionCandidates_inv missingTestCandidates_inv candidates_inv_init)

lemma candidates_inv_take: "candidates_inv paths st \<Longrightarrow>
    distinct (map annotation_key (take n (snd st))) \<and> list_all (annotation_ok paths) (take n (snd st))"
  by (auto simp: candidates_inv_def list_all_iff take_map [symmetric] intro: distinct_take dest: in_set_takeD)

section \<open>Properties\<close>

text \<open>
  The inline annotations of a check run. There are at most 50 and the omitted ones are
  counted, never dropped silently; each stands on one line numbered from 1 of a changed file
  that is annotatable, with a non-empty sanitized title and message within GitHub's limits; no
  two say the same about the same path; and the minimal detail level publishes none.
\<close>

theorem check_run_annotations:
  "let r = buildCheckRunAnnotations a (Some ctx) d; anns = br_annotations r in
   length anns \<le> 50 \<and> (br_omittedCount r = 0 \<or> length anns = 50) \<and>
   distinct (map annotation_key anns) \<and>
   list_all (annotation_ok (file_path ` set (annotatablePullRequestFiles (ctx_files ctx)))) anns \<and>
   br_annotations (buildCheckRunAnnotations a (Some ctx) Minimal) = []"
proof -
  let ?cs = "snd (annotationCandidates a ctx)"
  have "distinct (map annotation_key (take 50 ?cs))"
    "list_all (annotation_ok (file_path ` set (annotatablePullRequestFiles (ctx_files ctx)))) (take 50 ?cs)"
    using candidates_inv_take [OF annotationCandidates_inv] by blast+
  then show ?thesis
    by (simp add: buildCheckRunAnnotations_def Let_def CHECK_RUN_ANNOTATION_LIMIT_def min_def)
qed

end
