(* ===== verification/Command_Auth.thy ===== *)
theory Command_Auth
  imports Prelude
begin

text \<open>
  Who may run a \<open>@gittensory\<close> command on a pull request, \<open>settings/command-authorization.ts\<close>. A policy
  is an object, kept as its entries in insertion order; warnings are threaded as the list the
  source pushes to.
\<close>

datatype CommandAuthorizationRole = role_maintainer | role_collaborator | role_pr_author | role_confirmed_miner

fun role_name :: "CommandAuthorizationRole \<Rightarrow> string" where
  "role_name role_maintainer = ''maintainer''"
| "role_name role_collaborator = ''collaborator''"
| "role_name role_pr_author = ''pr_author''"
| "role_name role_confirmed_miner = ''confirmed_miner''"

definition COMMAND_AUTHORIZATION_ROLES :: "CommandAuthorizationRole list" where
  "COMMAND_AUTHORIZATION_ROLES = [role_maintainer, role_collaborator, role_pr_author, role_confirmed_miner]"

definition role_of_name :: "string \<Rightarrow> CommandAuthorizationRole option" where
  "role_of_name s = List.find (\<lambda>r. role_name r = s) COMMAND_AUTHORIZATION_ROLES"

type_synonym role_table = "(string \<times> CommandAuthorizationRole list) list"

record CommandAuthorizationPolicy =
  policy_default :: "CommandAuthorizationRole list"
  policy_commands :: role_table

definition DEFAULT_COMMAND_AUTHORIZATION_POLICY :: CommandAuthorizationPolicy where
  "DEFAULT_COMMAND_AUTHORIZATION_POLICY =
     \<lparr>policy_default = [role_maintainer, role_collaborator, role_confirmed_miner],
      policy_commands = map (\<lambda>c. (c, [role_maintainer, role_collaborator]))
        [''queue-summary'', ''confirmed-miners'', ''review-now'', ''needs-author'', ''duplicate-clusters'',
         ''burden-forecast'', ''intake-health'', ''outcome-patterns'', ''noise-report'', ''gate-override'']\<rparr>"

definition MAINTAINER_COMMAND_AUTHORIZATION_ROLES :: "CommandAuthorizationRole list" where
  "MAINTAINER_COMMAND_AUTHORIZATION_ROLES = [role_maintainer, role_collaborator, role_confirmed_miner]"

definition MAINTAINER_ONLY_DEFAULT_COMMANDS :: "string list" where
  "MAINTAINER_ONLY_DEFAULT_COMMANDS = map fst (policy_commands DEFAULT_COMMAND_AUTHORIZATION_POLICY)"

datatype ActorKind = actor_maintainer | actor_author | actor_none

datatype MinerStatus = miner_confirmed | miner_not_found | miner_unavailable

record CommandAuthorizationDecision =
  authorized :: bool
  dec_reason :: string
  actorKind :: ActorKind
  matchedRole :: "CommandAuthorizationRole option"
  allowedRoles :: "CommandAuthorizationRole list"

section \<open>Reading a policy\<close>

fun role_of_json :: "json \<Rightarrow> CommandAuthorizationRole option" where
  "role_of_json (JString s) = role_of_name s"
| "role_of_json _ = None"

definition normalizeRoleList ::
  "json \<Rightarrow> CommandAuthorizationRole list \<Rightarrow> string \<Rightarrow> CommandAuthorizationRole list \<times> string list" where
  "normalizeRoleList input fallback lbl =
     (case input of
        JArray vs \<Rightarrow>
          (let roles = List.map_filter role_of_json vs;
               invalid = map (\<lambda>_. ''Ignored invalid command authorization role for '' @ lbl @ ''.'')
                 (filter (\<lambda>v. role_of_json v = None) vs)
           in if roles = []
              then (dedupe fallback, invalid @ [''commandAuthorization.'' @ lbl @ '' had no valid roles; using fallback roles.''])
              else (dedupe roles, invalid))
      | JUndefined \<Rightarrow> (dedupe fallback, [])
      | _ \<Rightarrow> (dedupe fallback,
              [''commandAuthorization.'' @ lbl @ '' must be an array of roles; using fallback roles.'']))"

definition normalizeCommandRoleList ::
  "string \<Rightarrow> CommandAuthorizationRole list \<Rightarrow> CommandAuthorizationRole list \<times> string list" where
  "normalizeCommandRoleList commandName roles =
     (if commandName \<notin> set MAINTAINER_ONLY_DEFAULT_COMMANDS then (roles, [])
      else
        (let maintainerRoles = filter (\<lambda>r. r \<in> set MAINTAINER_COMMAND_AUTHORIZATION_ROLES) roles
         in if length maintainerRoles = length roles then (roles, [])
            else (if maintainerRoles \<noteq> [] then dedupe maintainerRoles
                  else nullish (map_of (policy_commands DEFAULT_COMMAND_AUTHORIZATION_POLICY) commandName)
                         [role_maintainer, role_collaborator],
                  [''Ignored author command authorization roles for maintainer-only command: '' @ commandName @ ''.''])))"

text \<open>\<open>commands[name] = value\<close> on an object: in place, or a new entry at the end.\<close>

fun set_entry :: "string \<Rightarrow> 'v \<Rightarrow> (string \<times> 'v) list \<Rightarrow> (string \<times> 'v) list" where
  "set_entry k v [] = [(k, v)]"
| "set_entry k v ((k', v') # rest) = (if k' = k then (k, v) # rest else (k', v') # set_entry k v rest)"

text \<open>\<open>/^[a-z][a-z-]{0,63}$/\<close>\<close>

definition lower_letter :: "char \<Rightarrow> bool" where
  "lower_letter c \<longleftrightarrow> 97 \<le> (of_char c :: nat) \<and> (of_char c :: nat) \<le> 122"

definition is_command_name :: "string \<Rightarrow> bool" where
  "is_command_name s \<longleftrightarrow> (case s of [] \<Rightarrow> False
     | c # cs \<Rightarrow> lower_letter c \<and> list_all (\<lambda>x. lower_letter x \<or> x = CHR ''-'') cs \<and> length cs \<le> 63)"

text \<open>One entry of \<open>input.commands\<close>.\<close>

definition addCommandEntry ::
  "CommandAuthorizationRole list \<Rightarrow> string \<times> json \<Rightarrow> role_table \<times> string list \<Rightarrow> role_table \<times> string list" where
  "addCommandEntry defaultRoles entry st =
     (let commandName = toLowerCase (trim (fst entry)) in
      if \<not> is_command_name commandName
      then (fst st, snd st @ [''Ignored malformed command authorization key: '' @ take 64 (fst entry)])
      else (let (roles, w1) = normalizeRoleList (snd entry) defaultRoles commandName;
                (clamped, w2) = normalizeCommandRoleList commandName roles
            in (set_entry commandName clamped (fst st), snd st @ w1 @ w2)))"

definition normalizeCommandAuthorizationPolicy :: "json \<Rightarrow> CommandAuthorizationPolicy \<times> string list" where
  "normalizeCommandAuthorizationPolicy input =
     (case input of
        JObject props \<Rightarrow>
          (let (defaultRoles, w0) = normalizeRoleList (jget props ''default'')
                 (policy_default DEFAULT_COMMAND_AUTHORIZATION_POLICY) ''default'';
               base = policy_commands DEFAULT_COMMAND_AUTHORIZATION_POLICY;
               (commands, ws) = (case jget props ''commands'' of
                   JUndefined \<Rightarrow> (base, w0)
                 | JObject entries \<Rightarrow> fold (addCommandEntry defaultRoles) entries (base, w0)
                 | _ \<Rightarrow> (base, w0 @ [''commandAuthorization.commands must be an object; using command defaults.'']))
           in (\<lparr>policy_default = defaultRoles, policy_commands = commands\<rparr>, ws))
      | JNull \<Rightarrow> (DEFAULT_COMMAND_AUTHORIZATION_POLICY, [])
      | JUndefined \<Rightarrow> (DEFAULT_COMMAND_AUTHORIZATION_POLICY, [])
      | _ \<Rightarrow> (DEFAULT_COMMAND_AUTHORIZATION_POLICY,
              [''commandAuthorization must be an object; using secure defaults.'']))"

text \<open>A typed policy passed as the untyped input of the normalizer.\<close>

definition roles_json :: "CommandAuthorizationRole list \<Rightarrow> json" where
  "roles_json rs = JArray (map (\<lambda>r. JString (role_name r)) rs)"

definition command_policy_json :: "CommandAuthorizationPolicy option \<Rightarrow> json" where
  "command_policy_json policy = (case policy of
     None \<Rightarrow> JNull
   | Some p \<Rightarrow> JObject [(''default'', roles_json (policy_default p)),
       (''commands'', JObject (map (\<lambda>(k, rs). (k, roles_json rs)) (policy_commands p)))])"

section \<open>Deciding\<close>

definition commandAuthorizationAllowedRoles ::
  "CommandAuthorizationPolicy option \<Rightarrow> string \<Rightarrow> CommandAuthorizationRole list" where
  "commandAuthorizationAllowedRoles policy commandName =
     (let normalized = fst (normalizeCommandAuthorizationPolicy (command_policy_json policy))
      in dedupe (nullish (map_of (policy_commands normalized) commandName) (policy_default normalized)))"

definition isSameLogin :: "string option \<Rightarrow> string option \<Rightarrow> bool" where
  "isSameLogin left right \<longleftrightarrow> nullish left [] \<noteq> [] \<and> nullish right [] \<noteq> [] \<and>
     toLowerCase (nullish left []) = toLowerCase (nullish right [])"

record CommandActor =
  commenterLogin :: "string option"
  commenterAssociation :: "string option"
  pullRequestAuthorLogin :: "string option"
  minerStatus :: "MinerStatus option"

definition actorRoles :: "CommandActor \<Rightarrow> CommandAuthorizationRole list" where
  "actorRoles a =
     (if commenterAssociation a = Some ''OWNER'' \<or> commenterAssociation a = Some ''MEMBER'' then [role_maintainer] else [])
     @ (if commenterAssociation a = Some ''COLLABORATOR'' then [role_collaborator] else [])
     @ (if isSameLogin (commenterLogin a) (pullRequestAuthorLogin a)
        then role_pr_author # (if minerStatus a = Some miner_confirmed then [role_confirmed_miner] else [])
        else [])"

definition commandAuthorizationNeedsMinerDetection ::
  "CommandAuthorizationPolicy option \<Rightarrow> string \<Rightarrow> CommandActor \<Rightarrow> bool" where
  "commandAuthorizationNeedsMinerDetection policy commandName a =
     (let allowed = commandAuthorizationAllowedRoles policy commandName in
      if role_confirmed_miner \<notin> set allowed then False
      else if \<not> isSameLogin (commenterLogin a) (pullRequestAuthorLogin a) then False
      else \<not> list_ex (\<lambda>r. r \<in> set allowed) (actorRoles (a\<lparr>minerStatus := None\<rparr>)))"

fun authorizationReason :: "CommandAuthorizationRole \<Rightarrow> string" where
  "authorizationReason role_maintainer = ''maintainer_invocation''"
| "authorizationReason role_collaborator = ''collaborator_invocation''"
| "authorizationReason role_confirmed_miner = ''confirmed_miner_pr_author''"
| "authorizationReason role_pr_author = ''allowed_pr_author''"

definition evaluateCommandAuthorization ::
  "CommandAuthorizationPolicy option \<Rightarrow> string \<Rightarrow> CommandActor \<Rightarrow> CommandAuthorizationDecision" where
  "evaluateCommandAuthorization policy commandName a =
     (let allowed = commandAuthorizationAllowedRoles policy commandName;
          denied = (\<lambda>why kind. \<lparr>authorized = False, dec_reason = why, actorKind = kind,
            matchedRole = None, allowedRoles = allowed\<rparr>);
          ownPrAuthor = isSameLogin (commenterLogin a) (pullRequestAuthorLogin a)
      in case List.find (\<lambda>r. r \<in> set allowed) (actorRoles a) of
           Some r \<Rightarrow> \<lparr>authorized = True, dec_reason = authorizationReason r,
             actorKind = (if r = role_maintainer \<or> r = role_collaborator then actor_maintainer else actor_author),
             matchedRole = Some r, allowedRoles = allowed\<rparr>
         | None \<Rightarrow>
             if ownPrAuthor \<and> role_confirmed_miner \<in> set allowed then
               denied (if minerStatus a = Some miner_unavailable \<or> minerStatus a = None
                       then ''miner_detection_unavailable'' else ''pr_author_not_confirmed_miner'') actor_author
             else if ownPrAuthor \<and> commandName \<in> set MAINTAINER_ONLY_DEFAULT_COMMANDS \<and>
                 list_all (\<lambda>r. r = role_maintainer \<or> r = role_collaborator) allowed then
               denied ''maintainer_command_requires_maintainer'' actor_author
             else
               denied (if ownPrAuthor then ''command_policy_denied'' else ''not_maintainer_or_pr_author'')
                 (if ownPrAuthor then actor_author else actor_none))"

text \<open>The order of \<open>localeCompare\<close> is a parameter.\<close>

definition summarizeCommandAuthorizationPolicy ::
  "(string \<Rightarrow> string \<Rightarrow> bool) \<Rightarrow> CommandAuthorizationPolicy option \<Rightarrow> CommandAuthorizationRole list \<times> role_table" where
  "summarizeCommandAuthorizationPolicy locale_le policy =
     (let normalized = fst (normalizeCommandAuthorizationPolicy (command_policy_json policy))
      in (policy_default normalized, sort_by (\<lambda>l r. locale_le (fst l) (fst r)) (policy_commands normalized)))"

section \<open>Normal policies\<close>

lemma role_of_name_name [simp]: "role_of_name (role_name r) = Some r"
  by (cases r) (simp_all add: role_of_name_def COMMAND_AUTHORIZATION_ROLES_def)

lemma map_fst_set_entry: "map fst (set_entry k v t) = map fst t @ (if k \<in> fst ` set t then [] else [k])"
  by (induction k v t rule: set_entry.induct) (auto simp: rev_image_eqI)

lemma set_entry_values: "(k', rs) \<in> set (set_entry k v t) \<Longrightarrow> (k', rs) = (k, v) \<or> (k', rs) \<in> set t"
  by (induction t) (auto split: if_splits)

lemma set_entry_new: "k \<notin> fst ` set t \<Longrightarrow> set_entry k v t = t @ [(k, v)]"
  by (induction t) auto

lemma set_entry_replace: "k \<notin> fst ` set t \<Longrightarrow> set_entry k v (t @ (k, v') # u) = t @ (k, v) # u"
  by (induction t) auto

text \<open>What every role list of a normal policy is, and what a normal policy is.\<close>

definition role_list_ok :: "CommandAuthorizationRole list \<Rightarrow> bool" where
  "role_list_ok rs \<longleftrightarrow> rs \<noteq> [] \<and> distinct rs"

definition entry_ok :: "string \<times> CommandAuthorizationRole list \<Rightarrow> bool" where
  "entry_ok e \<longleftrightarrow> is_command_name (fst e) \<and> role_list_ok (snd e) \<and>
     (fst e \<in> set MAINTAINER_ONLY_DEFAULT_COMMANDS \<longrightarrow> role_pr_author \<notin> set (snd e))"

definition table_ok :: "role_table \<Rightarrow> bool" where
  "table_ok t \<longleftrightarrow> list_all entry_ok t \<and> distinct (map fst t) \<and>
     (\<exists>ks. map fst t = MAINTAINER_ONLY_DEFAULT_COMMANDS @ ks)"

definition policy_ok :: "CommandAuthorizationPolicy \<Rightarrow> bool" where
  "policy_ok p \<longleftrightarrow> role_list_ok (policy_default p) \<and> table_ok (policy_commands p)"

lemma role_list_ok_dedupe [simp]: "role_list_ok (dedupe rs) \<longleftrightarrow> rs \<noteq> []"
  by (simp add: role_list_ok_def)

lemma normalizeRoleList_ok: "fallback \<noteq> [] \<Longrightarrow> role_list_ok (fst (normalizeRoleList input fallback lbl))"
  by (cases input) (simp_all add: normalizeRoleList_def Let_def)

lemma maintainer_filter: "filter (\<lambda>r. r \<in> set MAINTAINER_COMMAND_AUTHORIZATION_ROLES) rs =
    filter (\<lambda>r. r \<noteq> role_pr_author) rs"
proof (rule filter_cong [OF refl])
  show "r \<in> set MAINTAINER_COMMAND_AUTHORIZATION_ROLES \<longleftrightarrow> r \<noteq> role_pr_author" for r
    by (cases r) (simp_all add: MAINTAINER_COMMAND_AUTHORIZATION_ROLES_def)
qed

lemma default_role_list_ok:
  "role_list_ok (nullish (map_of (policy_commands DEFAULT_COMMAND_AUTHORIZATION_POLICY) c)
     [role_maintainer, role_collaborator]) \<and>
   role_pr_author \<notin> set (nullish (map_of (policy_commands DEFAULT_COMMAND_AUTHORIZATION_POLICY) c)
     [role_maintainer, role_collaborator])"
  by (simp add: DEFAULT_COMMAND_AUTHORIZATION_POLICY_def role_list_ok_def)

lemma normalizeCommandRoleList_ok:
  assumes "role_list_ok rs"
  shows "role_list_ok (fst (normalizeCommandRoleList c rs)) \<and>
    (c \<in> set MAINTAINER_ONLY_DEFAULT_COMMANDS \<longrightarrow> role_pr_author \<notin> set (fst (normalizeCommandRoleList c rs)))"
proof -
  have "role_pr_author \<notin> set rs" if "length (filter (\<lambda>r. r \<noteq> role_pr_author) rs) = length rs"
    using that by (metis (mono_tags, lifting) length_filter_less less_irrefl)
  then show ?thesis
    using assms default_role_list_ok [of c]
    by (auto simp: normalizeCommandRoleList_def Let_def maintainer_filter)
qed

lemma addCommandEntry_ok:
  assumes "table_ok (fst st)" and "role_list_ok d"
  shows "table_ok (fst (addCommandEntry d e st))"
proof (cases "is_command_name (toLowerCase (trim (fst e)))")
  case True
  let ?c = "toLowerCase (trim (fst e))"
  let ?rs = "fst (normalizeCommandRoleList ?c (fst (normalizeRoleList (snd e) d ?c)))"
  have eq: "fst (addCommandEntry d e st) = set_entry ?c ?rs (fst st)"
    using True by (simp add: addCommandEntry_def case_prod_beta Let_def)
  have "role_list_ok (fst (normalizeRoleList (snd e) d ?c))"
    using assms(2) by (intro normalizeRoleList_ok) (simp add: role_list_ok_def)
  then have "entry_ok (?c, ?rs)"
    using True normalizeCommandRoleList_ok by (simp add: entry_ok_def)
  then show ?thesis
    using assms(1) unfolding eq table_ok_def map_fst_set_entry list_all_iff
    by (auto dest!: set_entry_values)
next
  case False
  then show ?thesis using assms by (simp add: addCommandEntry_def)
qed

lemma fold_addCommandEntry_ok:
  "table_ok (fst st) \<Longrightarrow> role_list_ok d \<Longrightarrow> table_ok (fst (fold (addCommandEntry d) es st))"
  by (induction es arbitrary: st) (simp_all add: addCommandEntry_ok)

lemma default_table_ok: "table_ok (policy_commands DEFAULT_COMMAND_AUTHORIZATION_POLICY)"
  by (simp add: table_ok_def MAINTAINER_ONLY_DEFAULT_COMMANDS_def)
    (simp add: DEFAULT_COMMAND_AUTHORIZATION_POLICY_def entry_ok_def role_list_ok_def is_command_name_def
      lower_letter_def)

lemma default_policy_ok: "policy_ok DEFAULT_COMMAND_AUTHORIZATION_POLICY"
  using default_table_ok
  by (simp add: policy_ok_def) (simp add: DEFAULT_COMMAND_AUTHORIZATION_POLICY_def role_list_ok_def)

lemma normalize_policy_ok: "policy_ok (fst (normalizeCommandAuthorizationPolicy input))"
proof (cases input)
  case (JObject props)
  have d: "role_list_ok (fst (normalizeRoleList (jget props ''default'')
      (policy_default DEFAULT_COMMAND_AUTHORIZATION_POLICY) ''default''))"
    by (rule normalizeRoleList_ok) (simp add: DEFAULT_COMMAND_AUTHORIZATION_POLICY_def)
  show ?thesis
  proof (cases "jget props ''commands''")
    case (JObject es)
    then show ?thesis
      using \<open>input = JObject props\<close> d default_table_ok fold_addCommandEntry_ok [OF _ d]
      by (simp add: normalizeCommandAuthorizationPolicy_def case_prod_beta Let_def policy_ok_def)
  qed (use \<open>input = JObject props\<close> d default_table_ok in
    \<open>simp_all add: normalizeCommandAuthorizationPolicy_def case_prod_beta Let_def policy_ok_def\<close>)
qed (simp_all add: normalizeCommandAuthorizationPolicy_def default_policy_ok)

section \<open>A normal policy survives being read again\<close>

lemma lower_letter_id: "lower_letter c \<or> c = CHR ''-'' \<Longrightarrow> lower_char c = c \<and> \<not> is_ws c"
  by (auto simp: lower_letter_def lower_char_def is_ws_def Let_def)

lemma dropWhile_none: "(\<And>x. x \<in> set xs \<Longrightarrow> \<not> P x) \<Longrightarrow> dropWhile P xs = xs"
  by (cases xs) auto

lemma command_name_fixed:
  assumes "is_command_name s"
  shows "toLowerCase (trim s) = s"
proof -
  have "\<And>c. c \<in> set s \<Longrightarrow> lower_letter c \<or> c = CHR ''-''"
    using assms by (auto simp: is_command_name_def list_all_iff split: list.splits)
  then have "\<And>c. c \<in> set s \<Longrightarrow> lower_char c = c \<and> \<not> is_ws c" using lower_letter_id by blast
  then have "dropWhile is_ws s = s" "dropWhile is_ws (rev s) = rev s" "toLowerCase s = s"
    by (auto simp: toLowerCase_def intro: dropWhile_none map_idI)
  then show ?thesis by (simp add: trim_def)
qed

lemma map_filter_roles_json: "List.map_filter role_of_json (map (\<lambda>r. JString (role_name r)) rs) = rs"
  by (induction rs) (simp_all add: List.map_filter_simps)

lemma normalizeRoleList_json: "role_list_ok rs \<Longrightarrow> normalizeRoleList (roles_json rs) fallback lbl = (rs, [])"
  by (simp add: normalizeRoleList_def roles_json_def map_filter_roles_json role_list_ok_def dedupe_id
      filter_empty_conv Let_def)

lemma normalizeCommandRoleList_id:
  "(c \<in> set MAINTAINER_ONLY_DEFAULT_COMMANDS \<Longrightarrow> role_pr_author \<notin> set rs) \<Longrightarrow>
     normalizeCommandRoleList c rs = (rs, [])"
proof -
  assume *: "c \<in> set MAINTAINER_ONLY_DEFAULT_COMMANDS \<Longrightarrow> role_pr_author \<notin> set rs"
  have "filter (\<lambda>r. r \<noteq> role_pr_author) rs = rs" if "role_pr_author \<notin> set rs"
    using that by (auto intro: filter_True)
  with * show ?thesis by (auto simp: normalizeCommandRoleList_def Let_def maintainer_filter)
qed

lemma addCommandEntry_id: "entry_ok (c, rs) \<Longrightarrow>
    addCommandEntry d (c, roles_json rs) (t, ws) = (set_entry c rs t, ws)"
  by (simp add: addCommandEntry_def entry_ok_def command_name_fixed normalizeRoleList_json
      normalizeCommandRoleList_id Let_def)

lemma fold_entries:
  "list_all entry_ok es \<Longrightarrow> distinct (map fst (done @ es)) \<Longrightarrow> \<exists>ks. map fst es = map fst rest @ ks \<Longrightarrow>
     fold (addCommandEntry d) (map (\<lambda>(k, rs). (k, roles_json rs)) es) (done @ rest, ws) = (done @ es, ws)"
proof (induction es arbitrary: "done" rest)
  case Nil
  then show ?case by simp
next
  case (Cons e es)
  obtain k rs where e: "e = (k, rs)" by (cases e)
  have k: "k \<notin> fst ` set done" using Cons(3) e by auto
  show ?case
  proof (cases rest)
    case Nil
    then show ?thesis
      using Cons(1) [of "done @ [e]" "[]"] Cons(2,3) e k by (simp add: addCommandEntry_id set_entry_new)
  next
    case (Cons e' rest')
    then obtain rs' where e': "e' = (k, rs')" using Cons.prems(3) e by (cases e') auto
    then show ?thesis
      using Cons.IH [of "done @ [e]" rest'] Cons.prems e k Cons
      by (simp add: addCommandEntry_id set_entry_replace)
  qed
qed

lemma normalize_policy_fixed:
  assumes "policy_ok p"
  shows "normalizeCommandAuthorizationPolicy (command_policy_json (Some p)) = (p, [])"
proof -
  have t: "list_all entry_ok (policy_commands p)" "distinct (map fst (policy_commands p))"
    "\<exists>ks. map fst (policy_commands p) = map fst (policy_commands DEFAULT_COMMAND_AUTHORIZATION_POLICY) @ ks"
    and d: "role_list_ok (policy_default p)"
    using assms by (auto simp: policy_ok_def table_ok_def MAINTAINER_ONLY_DEFAULT_COMMANDS_def)
  have "fold (addCommandEntry (policy_default p)) (map (\<lambda>(k, rs). (k, roles_json rs)) (policy_commands p))
      (policy_commands DEFAULT_COMMAND_AUTHORIZATION_POLICY, []) = (policy_commands p, [])"
    using fold_entries [OF t(1) _ t(3), of "[]" "policy_default p" "[]"] t(2) by simp
  then show ?thesis
    using d by (simp add: normalizeCommandAuthorizationPolicy_def command_policy_json_def jget_def
        normalizeRoleList_json case_prod_beta Let_def)
qed

section \<open>Decisions\<close>

lemma allowedRoles_normal:
  assumes "policy_ok p" and "policy = Some p"
  shows "commandAuthorizationAllowedRoles policy c =
    dedupe (nullish (map_of (policy_commands p) c) (policy_default p))"
  using normalize_policy_fixed [OF assms(1)] assms(2) by (simp add: commandAuthorizationAllowedRoles_def)

lemma allowedRoles_ok: "role_list_ok (commandAuthorizationAllowedRoles policy c)"
proof -
  let ?p = "fst (normalizeCommandAuthorizationPolicy (command_policy_json policy))"
  have "policy_ok ?p" by (rule normalize_policy_ok)
  then have "nullish (map_of (policy_commands ?p) c) (policy_default ?p) \<noteq> []"
    by (cases "map_of (policy_commands ?p) c")
      (auto simp: policy_ok_def role_list_ok_def table_ok_def list_all_iff entry_ok_def dest!: map_of_SomeD)
  then show ?thesis by (simp add: commandAuthorizationAllowedRoles_def Let_def)
qed

lemma maintainer_only_allowed:
  assumes "c \<in> set MAINTAINER_ONLY_DEFAULT_COMMANDS"
  shows "role_pr_author \<notin> set (commandAuthorizationAllowedRoles policy c)"
proof -
  let ?p = "fst (normalizeCommandAuthorizationPolicy (command_policy_json policy))"
  have ok: "table_ok (policy_commands ?p)" using normalize_policy_ok by (simp add: policy_ok_def)
  then obtain ks where "map fst (policy_commands ?p) = MAINTAINER_ONLY_DEFAULT_COMMANDS @ ks"
    by (auto simp: table_ok_def)
  then have "c \<in> set (map fst (policy_commands ?p))" using assms by simp
  then obtain rs where rs: "map_of (policy_commands ?p) c = Some rs"
    by (cases "map_of (policy_commands ?p) c") (auto simp: map_of_eq_None_iff)
  then have "entry_ok (c, rs)" using ok by (auto simp: table_ok_def list_all_iff dest: map_of_SomeD)
  then show ?thesis using assms rs by (simp add: commandAuthorizationAllowedRoles_def Let_def entry_ok_def)
qed

lemma authorized_iff: "authorized (evaluateCommandAuthorization policy c a) \<longleftrightarrow>
    list_ex (\<lambda>r. r \<in> set (commandAuthorizationAllowedRoles policy c)) (actorRoles a)"
proof -
  have "authorized (evaluateCommandAuthorization policy c a) \<longleftrightarrow>
      List.find (\<lambda>r. r \<in> set (commandAuthorizationAllowedRoles policy c)) (actorRoles a) \<noteq> None"
    by (simp add: evaluateCommandAuthorization_def Let_def split: option.split)
  then show ?thesis by (auto simp only: List_find_None_iff list_ex_iff)
qed

section \<open>Properties\<close>

text \<open>
  C26: a maintainer-only command cannot be opened to the author of a pull request. Whatever policy
  is configured, whoever it authorizes for such a command is an owner, member or collaborator by
  GitHub's association, or is both the author of the pull request and a confirmed miner.
\<close>

theorem maintainer_command_needs_maintainer_or_miner:
  assumes "c \<in> set MAINTAINER_ONLY_DEFAULT_COMMANDS"
    and "authorized (evaluateCommandAuthorization policy c a)"
  shows "commenterAssociation a \<in> {Some ''OWNER'', Some ''MEMBER'', Some ''COLLABORATOR''} \<or>
    isSameLogin (commenterLogin a) (pullRequestAuthorLogin a) \<and> minerStatus a = Some miner_confirmed"
proof -
  obtain r where r: "r \<in> set (actorRoles a)" "r \<in> set (commandAuthorizationAllowedRoles policy c)"
    using assms(2) by (auto simp: authorized_iff list_ex_iff)
  then have "r \<noteq> role_pr_author" using maintainer_only_allowed [OF assms(1)] by metis
  with r(1) show ?thesis by (auto simp: actorRoles_def split: if_splits)
qed

theorem maintainer_command_needs_maintainer_or_miner_witness:
  "isSameLogin (Some ''Ada'') (Some ''ada'') \<and> Some miner_confirmed = Some miner_confirmed"
proof -
  let ?policy = "Some \<lparr>policy_default = [], policy_commands =
    [(''review-now'', [role_pr_author, role_confirmed_miner])]\<rparr>"
  let ?actor = "\<lparr>commenterLogin = Some ''Ada'', commenterAssociation = Some ''NONE'',
    pullRequestAuthorLogin = Some ''ada'', minerStatus = Some miner_confirmed\<rparr>"
  have "''review-now'' \<in> set MAINTAINER_ONLY_DEFAULT_COMMANDS"
    by (simp add: MAINTAINER_ONLY_DEFAULT_COMMANDS_def DEFAULT_COMMAND_AUTHORIZATION_POLICY_def)
  moreover have "authorized (evaluateCommandAuthorization ?policy ''review-now'' ?actor)"
    by code_simp
  ultimately show ?thesis
    using maintainer_command_needs_maintainer_or_miner [of "''review-now''" ?policy ?actor] by simp
qed

text \<open>
  skipping the miner lookup is sound. When the check says that no miner detection is needed,
  the decision to authorize is the same for every possible result of the detection.
\<close>

theorem skipped_miner_detection_is_irrelevant:
  assumes "\<not> commandAuthorizationNeedsMinerDetection policy c a"
  shows "authorized (evaluateCommandAuthorization policy c (a\<lparr>minerStatus := m\<rparr>)) =
    authorized (evaluateCommandAuthorization policy c (a\<lparr>minerStatus := None\<rparr>))"
proof -
  have roles: "set (actorRoles (a\<lparr>minerStatus := None\<rparr>)) \<subseteq> set (actorRoles (a\<lparr>minerStatus := m\<rparr>))"
    "set (actorRoles (a\<lparr>minerStatus := m\<rparr>)) \<subseteq> insert role_confirmed_miner (set (actorRoles (a\<lparr>minerStatus := None\<rparr>)))"
    by (auto simp: actorRoles_def)
  have "role_confirmed_miner \<notin> set (actorRoles (a\<lparr>minerStatus := m\<rparr>))"
    if "\<not> isSameLogin (commenterLogin a) (pullRequestAuthorLogin a)"
    using that by (auto simp: actorRoles_def)
  then show ?thesis
    using assms roles unfolding authorized_iff list_ex_iff
    by (simp add: commandAuthorizationNeedsMinerDetection_def Let_def list_ex_iff split: if_splits) blast+
qed

theorem skipped_miner_detection_is_irrelevant_witness:
  "authorized (evaluateCommandAuthorization None ''review-now'' \<lparr>commenterLogin = Some ''ada'',
     commenterAssociation = Some ''OWNER'', pullRequestAuthorLogin = None, minerStatus = Some miner_not_found\<rparr>)"
proof -
  let ?a = "\<lparr>commenterLogin = Some ''ada'', commenterAssociation = Some ''OWNER'',
    pullRequestAuthorLogin = None, minerStatus = None\<rparr>"
  have "\<not> commandAuthorizationNeedsMinerDetection None ''review-now'' ?a"
    by (simp add: commandAuthorizationNeedsMinerDetection_def isSameLogin_def)
  moreover have "authorized (evaluateCommandAuthorization None ''review-now'' (?a\<lparr>minerStatus := None\<rparr>))"
    by code_simp
  ultimately show ?thesis
    using skipped_miner_detection_is_irrelevant [of None "''review-now''" ?a "Some miner_not_found"] by simp
qed

end
