(* ===== verification/Repo_Settings.thy ===== *)
theory Repo_Settings
  imports Check_Run Autonomy Command_Auth
begin

text \<open>
  The settings of a repository: the type of \<open>types.ts\<close>, and how \<open>db/repositories.ts\<close> reads a row of
  \<open>repository_settings\<close>, fills a missing one with defaults, and writes a partial update. Text columns
  hold the names of the modes; a JSON column is the value its text parses to.
\<close>

section \<open>Modes and their names\<close>

datatype CommentMode = cm_off | cm_detected_contributors_only | cm_all_prs

datatype PublicAudienceMode = aud_oss_maintainer | aud_gittensor_only

datatype PublicSignalLevel = signal_minimal | signal_standard

datatype EnabledMode = mode_off | mode_enabled

datatype GatePolicyPack = pack_gittensor | pack_oss_anti_slop

datatype AiProvider = provider_anthropic | provider_openai

datatype PublicSurface = surface_off | surface_comment_and_label | surface_comment_only | surface_label_only

fun comment_mode_name :: "CommentMode \<Rightarrow> string" where
  "comment_mode_name cm_off = ''off''"
| "comment_mode_name cm_detected_contributors_only = ''detected_contributors_only''"
| "comment_mode_name cm_all_prs = ''all_prs''"

fun audience_mode_name :: "PublicAudienceMode \<Rightarrow> string" where
  "audience_mode_name aud_oss_maintainer = ''oss_maintainer''"
| "audience_mode_name aud_gittensor_only = ''gittensor_only''"

fun signal_level_name :: "PublicSignalLevel \<Rightarrow> string" where
  "signal_level_name signal_minimal = ''minimal''"
| "signal_level_name signal_standard = ''standard''"

fun enabled_mode_name :: "EnabledMode \<Rightarrow> string" where
  "enabled_mode_name mode_off = ''off''"
| "enabled_mode_name mode_enabled = ''enabled''"

fun detail_level_name :: "DetailLevel \<Rightarrow> string" where
  "detail_level_name Minimal = ''minimal''"
| "detail_level_name Standard = ''standard''"
| "detail_level_name Deep = ''deep''"

fun gate_pack_name :: "GatePolicyPack \<Rightarrow> string" where
  "gate_pack_name pack_gittensor = ''gittensor''"
| "gate_pack_name pack_oss_anti_slop = ''oss-anti-slop''"

fun rule_mode_name :: "GateRuleMode \<Rightarrow> string" where
  "rule_mode_name gate_off = ''off''"
| "rule_mode_name gate_advisory = ''advisory''"
| "rule_mode_name gate_block = ''block''"

fun provider_name :: "AiProvider \<Rightarrow> string" where
  "provider_name provider_anthropic = ''anthropic''"
| "provider_name provider_openai = ''openai''"

fun surface_name :: "PublicSurface \<Rightarrow> string" where
  "surface_name surface_off = ''off''"
| "surface_name surface_comment_and_label = ''comment_and_label''"
| "surface_name surface_comment_only = ''comment_only''"
| "surface_name surface_label_only = ''label_only''"

section \<open>Parsers of columns\<close>

definition parseCommentMode :: "string \<Rightarrow> CommentMode" where
  "parseCommentMode value =
     (if value = ''detected_contributors_only'' then cm_detected_contributors_only
      else if value = ''all_prs'' then cm_all_prs else cm_off)"

definition parsePublicAudienceMode :: "string \<Rightarrow> PublicAudienceMode" where
  "parsePublicAudienceMode value = (if value = ''gittensor_only'' then aud_gittensor_only else aud_oss_maintainer)"

definition parsePublicSignalLevel :: "string \<Rightarrow> PublicSignalLevel" where
  "parsePublicSignalLevel value = (if value = ''minimal'' then signal_minimal else signal_standard)"

text \<open>\<open>parseCheckRunMode\<close> and \<open>parseGateCheckMode\<close>, which are the same function.\<close>

definition parseEnabledMode :: "string \<Rightarrow> EnabledMode" where
  "parseEnabledMode value = (if value = ''enabled'' then mode_enabled else mode_off)"

definition parseCheckRunDetailLevel :: "string \<Rightarrow> DetailLevel" where
  "parseCheckRunDetailLevel value =
     (if value = ''minimal'' then Minimal else if value = ''deep'' then Deep else Standard)"

definition parseGatePack :: "string option \<Rightarrow> GatePolicyPack" where
  "parseGatePack value = (if value = Some ''oss-anti-slop'' then pack_oss_anti_slop else pack_gittensor)"

definition parseGateRuleMode :: "string \<Rightarrow> GateRuleMode" where
  "parseGateRuleMode value =
     (if value = ''off'' then gate_off else if value = ''block'' then gate_block else gate_advisory)"

definition normalizeAiReviewProvider :: "string option \<Rightarrow> AiProvider option" where
  "normalizeAiReviewProvider value =
     (if value = Some ''anthropic'' then Some provider_anthropic
      else if value = Some ''openai'' then Some provider_openai else None)"

fun normalizeQualityGateMinScore :: "js_num option \<Rightarrow> int option" where
  "normalizeQualityGateMinScore (Some (Finite r)) = Some (max 0 (min 100 (js_round r)))"
| "normalizeQualityGateMinScore _ = None"

definition parsePublicSurface :: "string \<Rightarrow> PublicSurface" where
  "parsePublicSurface value =
     (if value = ''comment_only'' then surface_comment_only
      else if value = ''label_only'' then surface_label_only
      else if value = ''off'' then surface_off else surface_comment_and_label)"

text \<open>\<open>settings.aiReviewModel.trim()\<close> when that leaves something.\<close>

definition trimmedModel :: "string option \<Rightarrow> string option" where
  "trimmedModel value = (case value of None \<Rightarrow> None | Some v \<Rightarrow> if trim v = [] then None else Some (trim v))"

text \<open>A stored score and the auto-maintain policy as column values.\<close>

definition score_number :: "int option \<Rightarrow> js_num option" where
  "score_number = map_option (\<lambda>n. Finite (of_int n))"

definition maintain_json :: "AutoMaintainPolicy \<Rightarrow> json" where
  "maintain_json p = JObject [(''requireApprovals'', JNumber (Finite (of_int (am_requireApprovals p)))),
     (''mergeMethod'', JString (method_name (am_mergeMethod p)))]"

section \<open>Settings, partial settings and rows\<close>

record RepositorySettings =
  rs_repoFullName :: string
  rs_commentMode :: CommentMode
  rs_publicAudienceMode :: PublicAudienceMode
  rs_publicSignalLevel :: PublicSignalLevel
  rs_checkRunMode :: EnabledMode
  rs_checkRunDetailLevel :: DetailLevel
  rs_gateCheckMode :: EnabledMode
  rs_gatePack :: GatePolicyPack
  rs_linkedIssueGateMode :: GateRuleMode
  rs_duplicatePrGateMode :: GateRuleMode
  rs_qualityGateMode :: GateRuleMode
  rs_qualityGateMinScore :: "int option"
  rs_slopGateMode :: GateRuleMode
  rs_mergeReadinessGateMode :: GateRuleMode
  rs_manifestPolicyGateMode :: GateRuleMode
  rs_firstTimeContributorGrace :: bool
  rs_slopGateMinScore :: "int option"
  rs_slopAiAdvisory :: bool
  rs_aiReviewMode :: GateRuleMode
  rs_aiReviewByok :: bool
  rs_aiReviewProvider :: "AiProvider option"
  rs_aiReviewModel :: "string option"
  rs_autoLabelEnabled :: bool
  rs_gittensorLabel :: string
  rs_createMissingLabel :: bool
  rs_publicSurface :: PublicSurface
  rs_includeMaintainerAuthors :: bool
  rs_requireLinkedIssue :: bool
  rs_backfillEnabled :: bool
  rs_privateTrustEnabled :: bool
  rs_badgeEnabled :: bool
  rs_agentPaused :: bool
  rs_agentDryRun :: bool
  rs_commandAuthorization :: CommandAuthorizationPolicy
  rs_autonomy :: AutonomyPolicy
  rs_autoMaintain :: AutoMaintainPolicy
  rs_createdAt :: "string option"
  rs_updatedAt :: "string option"

text \<open>\<open>Partial<RepositorySettings>\<close>: an absent or null field is \<open>None\<close> (\<open>JUndefined\<close> for a policy).\<close>

record SettingsPatch =
  sp_repoFullName :: string
  sp_commentMode :: "CommentMode option"
  sp_publicAudienceMode :: "PublicAudienceMode option"
  sp_publicSignalLevel :: "PublicSignalLevel option"
  sp_checkRunMode :: "EnabledMode option"
  sp_checkRunDetailLevel :: "DetailLevel option"
  sp_gateCheckMode :: "EnabledMode option"
  sp_gatePack :: "string option"
  sp_linkedIssueGateMode :: "GateRuleMode option"
  sp_duplicatePrGateMode :: "GateRuleMode option"
  sp_qualityGateMode :: "GateRuleMode option"
  sp_qualityGateMinScore :: "js_num option"
  sp_slopGateMode :: "GateRuleMode option"
  sp_mergeReadinessGateMode :: "GateRuleMode option"
  sp_manifestPolicyGateMode :: "GateRuleMode option"
  sp_firstTimeContributorGrace :: "bool option"
  sp_slopGateMinScore :: "js_num option"
  sp_slopAiAdvisory :: "bool option"
  sp_aiReviewMode :: "GateRuleMode option"
  sp_aiReviewByok :: "bool option"
  sp_aiReviewProvider :: "string option"
  sp_aiReviewModel :: "string option"
  sp_autoLabelEnabled :: "bool option"
  sp_gittensorLabel :: "string option"
  sp_createMissingLabel :: "bool option"
  sp_publicSurface :: "PublicSurface option"
  sp_includeMaintainerAuthors :: "bool option"
  sp_requireLinkedIssue :: "bool option"
  sp_backfillEnabled :: "bool option"
  sp_privateTrustEnabled :: "bool option"
  sp_badgeEnabled :: "bool option"
  sp_agentPaused :: "bool option"
  sp_agentDryRun :: "bool option"
  sp_commandAuthorization :: json
  sp_autonomy :: json
  sp_autoMaintain :: json

record SettingsRow =
  col_repoFullName :: string
  col_commentMode :: string
  col_publicAudienceMode :: string
  col_publicSignalLevel :: string
  col_checkRunMode :: string
  col_checkRunDetailLevel :: string
  col_gateCheckMode :: string
  col_gatePack :: string
  col_linkedIssueGateMode :: string
  col_duplicatePrGateMode :: string
  col_qualityGateMode :: string
  col_qualityGateMinScore :: "js_num option"
  col_slopGateMode :: string
  col_mergeReadinessGateMode :: string
  col_manifestPolicyGateMode :: string
  col_firstTimeContributorGrace :: bool
  col_slopGateMinScore :: "js_num option"
  col_slopAiAdvisory :: bool
  col_aiReviewMode :: string
  col_aiReviewByok :: bool
  col_aiReviewProvider :: "string option"
  col_aiReviewModel :: "string option"
  col_autoLabelEnabled :: bool
  col_gittensorLabel :: string
  col_createMissingLabel :: bool
  col_publicSurface :: string
  col_includeMaintainerAuthors :: bool
  col_requireLinkedIssue :: bool
  col_backfillEnabled :: bool
  col_privateTrustEnabled :: bool
  col_badgeEnabled :: bool
  col_agentPaused :: bool
  col_agentDryRun :: bool
  col_commandAuthorization :: json
  col_autonomy :: json
  col_autoMaintain :: json
  col_createdAt :: string
  col_updatedAt :: string

definition default_settings :: "string \<Rightarrow> RepositorySettings" where
  "default_settings fullName =
     \<lparr>rs_repoFullName = fullName,
      rs_commentMode = cm_detected_contributors_only,
      rs_publicAudienceMode = aud_oss_maintainer,
      rs_publicSignalLevel = signal_standard,
      rs_checkRunMode = mode_off,
      rs_checkRunDetailLevel = Minimal,
      rs_gateCheckMode = mode_off,
      rs_gatePack = pack_gittensor,
      rs_linkedIssueGateMode = gate_advisory,
      rs_duplicatePrGateMode = gate_block,
      rs_qualityGateMode = gate_advisory,
      rs_qualityGateMinScore = None,
      rs_slopGateMode = gate_off,
      rs_mergeReadinessGateMode = gate_off,
      rs_manifestPolicyGateMode = gate_off,
      rs_firstTimeContributorGrace = False,
      rs_slopGateMinScore = None,
      rs_slopAiAdvisory = False,
      rs_aiReviewMode = gate_off,
      rs_aiReviewByok = False,
      rs_aiReviewProvider = None,
      rs_aiReviewModel = None,
      rs_autoLabelEnabled = True,
      rs_gittensorLabel = ''gittensor'',
      rs_createMissingLabel = True,
      rs_publicSurface = surface_comment_and_label,
      rs_includeMaintainerAuthors = False,
      rs_requireLinkedIssue = False,
      rs_backfillEnabled = True,
      rs_privateTrustEnabled = True,
      rs_badgeEnabled = False,
      rs_agentPaused = False,
      rs_agentDryRun = False,
      rs_commandAuthorization = fst (normalizeCommandAuthorizationPolicy (command_policy_json (Some DEFAULT_COMMAND_AUTHORIZATION_POLICY))),
      rs_autonomy = Map.empty,
      rs_autoMaintain = DEFAULT_AUTO_MAINTAIN_POLICY,
      rs_createdAt = None, rs_updatedAt = None\<rparr>"

definition settings_of_row :: "SettingsRow \<Rightarrow> RepositorySettings" where
  "settings_of_row row =
     \<lparr>rs_repoFullName = col_repoFullName row,
      rs_commentMode = parseCommentMode (col_commentMode row),
      rs_publicAudienceMode = parsePublicAudienceMode (col_publicAudienceMode row),
      rs_publicSignalLevel = parsePublicSignalLevel (col_publicSignalLevel row),
      rs_checkRunMode = parseEnabledMode (col_checkRunMode row),
      rs_checkRunDetailLevel = parseCheckRunDetailLevel (col_checkRunDetailLevel row),
      rs_gateCheckMode = parseEnabledMode (col_gateCheckMode row),
      rs_gatePack = parseGatePack (Some (col_gatePack row)),
      rs_linkedIssueGateMode = parseGateRuleMode (col_linkedIssueGateMode row),
      rs_duplicatePrGateMode = parseGateRuleMode (col_duplicatePrGateMode row),
      rs_qualityGateMode = parseGateRuleMode (col_qualityGateMode row),
      rs_qualityGateMinScore = normalizeQualityGateMinScore (col_qualityGateMinScore row),
      rs_slopGateMode = parseGateRuleMode (col_slopGateMode row),
      rs_mergeReadinessGateMode = parseGateRuleMode (col_mergeReadinessGateMode row),
      rs_manifestPolicyGateMode = parseGateRuleMode (col_manifestPolicyGateMode row),
      rs_firstTimeContributorGrace = col_firstTimeContributorGrace row,
      rs_slopGateMinScore = normalizeQualityGateMinScore (col_slopGateMinScore row),
      rs_slopAiAdvisory = col_slopAiAdvisory row,
      rs_aiReviewMode = parseGateRuleMode (col_aiReviewMode row),
      rs_aiReviewByok = col_aiReviewByok row,
      rs_aiReviewProvider = normalizeAiReviewProvider (col_aiReviewProvider row),
      rs_aiReviewModel = col_aiReviewModel row,
      rs_autoLabelEnabled = col_autoLabelEnabled row,
      rs_gittensorLabel = col_gittensorLabel row,
      rs_createMissingLabel = col_createMissingLabel row,
      rs_publicSurface = parsePublicSurface (col_publicSurface row),
      rs_includeMaintainerAuthors = col_includeMaintainerAuthors row,
      rs_requireLinkedIssue = col_requireLinkedIssue row,
      rs_backfillEnabled = col_backfillEnabled row,
      rs_privateTrustEnabled = col_privateTrustEnabled row,
      rs_badgeEnabled = col_badgeEnabled row,
      rs_agentPaused = col_agentPaused row,
      rs_agentDryRun = col_agentDryRun row,
      rs_commandAuthorization = fst (normalizeCommandAuthorizationPolicy (col_commandAuthorization row)),
      rs_autonomy = normalizeAutonomyPolicy (col_autonomy row),
      rs_autoMaintain = normalizeAutoMaintainPolicy (col_autoMaintain row),
      rs_createdAt = Some (col_createdAt row), rs_updatedAt = Some (col_updatedAt row)\<rparr>"

definition getRepositorySettings :: "string \<Rightarrow> SettingsRow list \<Rightarrow> RepositorySettings" where
  "getRepositorySettings fullName table =
     (case List.find (\<lambda>row. col_repoFullName row = fullName) table of
        None \<Rightarrow> default_settings fullName
      | Some row \<Rightarrow> settings_of_row row)"

text \<open>The value \<open>resolved\<close> of an update: every missing field gets its default, whatever the row held.\<close>

definition resolveSettings :: "SettingsPatch \<Rightarrow> RepositorySettings" where
  "resolveSettings settings =
     \<lparr>rs_repoFullName = sp_repoFullName settings,
      rs_commentMode = nullish (sp_commentMode settings) cm_detected_contributors_only,
      rs_publicAudienceMode = nullish (sp_publicAudienceMode settings) aud_oss_maintainer,
      rs_publicSignalLevel = nullish (sp_publicSignalLevel settings) signal_standard,
      rs_checkRunMode = nullish (sp_checkRunMode settings) mode_off,
      rs_checkRunDetailLevel = nullish (sp_checkRunDetailLevel settings) Minimal,
      rs_gateCheckMode = nullish (sp_gateCheckMode settings) mode_off,
      rs_gatePack = parseGatePack (sp_gatePack settings),
      rs_linkedIssueGateMode = nullish (sp_linkedIssueGateMode settings) gate_advisory,
      rs_duplicatePrGateMode = nullish (sp_duplicatePrGateMode settings) gate_block,
      rs_qualityGateMode = nullish (sp_qualityGateMode settings) gate_advisory,
      rs_qualityGateMinScore = normalizeQualityGateMinScore (sp_qualityGateMinScore settings),
      rs_slopGateMode = nullish (sp_slopGateMode settings) gate_off,
      rs_mergeReadinessGateMode = nullish (sp_mergeReadinessGateMode settings) gate_off,
      rs_manifestPolicyGateMode = nullish (sp_manifestPolicyGateMode settings) gate_off,
      rs_firstTimeContributorGrace = nullish (sp_firstTimeContributorGrace settings) False,
      rs_slopGateMinScore = normalizeQualityGateMinScore (sp_slopGateMinScore settings),
      rs_slopAiAdvisory = nullish (sp_slopAiAdvisory settings) False,
      rs_aiReviewMode = nullish (sp_aiReviewMode settings) gate_off,
      rs_aiReviewByok = nullish (sp_aiReviewByok settings) False,
      rs_aiReviewProvider = normalizeAiReviewProvider (sp_aiReviewProvider settings),
      rs_aiReviewModel = trimmedModel (sp_aiReviewModel settings),
      rs_autoLabelEnabled = nullish (sp_autoLabelEnabled settings) True,
      rs_gittensorLabel = nullish (sp_gittensorLabel settings) ''gittensor'',
      rs_createMissingLabel = nullish (sp_createMissingLabel settings) True,
      rs_publicSurface = nullish (sp_publicSurface settings) surface_comment_and_label,
      rs_includeMaintainerAuthors = nullish (sp_includeMaintainerAuthors settings) False,
      rs_requireLinkedIssue = nullish (sp_requireLinkedIssue settings) False,
      rs_backfillEnabled = nullish (sp_backfillEnabled settings) True,
      rs_privateTrustEnabled = nullish (sp_privateTrustEnabled settings) True,
      rs_badgeEnabled = nullish (sp_badgeEnabled settings) False,
      rs_agentPaused = nullish (sp_agentPaused settings) False,
      rs_agentDryRun = nullish (sp_agentDryRun settings) False,
      rs_commandAuthorization = fst (normalizeCommandAuthorizationPolicy (sp_commandAuthorization settings)),
      rs_autonomy = normalizeAutonomyPolicy (sp_autonomy settings),
      rs_autoMaintain = normalizeAutoMaintainPolicy (sp_autoMaintain settings),
      rs_createdAt = None, rs_updatedAt = None\<rparr>"

text \<open>The columns both branches of the upsert write.\<close>

definition write_columns :: "RepositorySettings \<Rightarrow> string \<Rightarrow> SettingsRow \<Rightarrow> SettingsRow" where
  "write_columns resolved now row = row\<lparr>
       col_commentMode := comment_mode_name (rs_commentMode resolved),
       col_publicAudienceMode := audience_mode_name (rs_publicAudienceMode resolved),
       col_publicSignalLevel := signal_level_name (rs_publicSignalLevel resolved),
       col_checkRunMode := enabled_mode_name (rs_checkRunMode resolved),
       col_checkRunDetailLevel := detail_level_name (rs_checkRunDetailLevel resolved),
       col_gateCheckMode := enabled_mode_name (rs_gateCheckMode resolved),
       col_gatePack := gate_pack_name (rs_gatePack resolved),
       col_linkedIssueGateMode := rule_mode_name (rs_linkedIssueGateMode resolved),
       col_duplicatePrGateMode := rule_mode_name (rs_duplicatePrGateMode resolved),
       col_qualityGateMode := rule_mode_name (rs_qualityGateMode resolved),
       col_qualityGateMinScore := score_number (rs_qualityGateMinScore resolved),
       col_slopGateMode := rule_mode_name (rs_slopGateMode resolved),
       col_mergeReadinessGateMode := rule_mode_name (rs_mergeReadinessGateMode resolved),
       col_manifestPolicyGateMode := rule_mode_name (rs_manifestPolicyGateMode resolved),
       col_firstTimeContributorGrace := rs_firstTimeContributorGrace resolved,
       col_slopGateMinScore := score_number (rs_slopGateMinScore resolved),
       col_slopAiAdvisory := rs_slopAiAdvisory resolved,
       col_aiReviewMode := rule_mode_name (rs_aiReviewMode resolved),
       col_aiReviewByok := rs_aiReviewByok resolved,
       col_aiReviewProvider := map_option provider_name (rs_aiReviewProvider resolved),
       col_aiReviewModel := rs_aiReviewModel resolved,
       col_autoLabelEnabled := rs_autoLabelEnabled resolved,
       col_gittensorLabel := rs_gittensorLabel resolved,
       col_createMissingLabel := rs_createMissingLabel resolved,
       col_publicSurface := surface_name (rs_publicSurface resolved),
       col_includeMaintainerAuthors := rs_includeMaintainerAuthors resolved,
       col_requireLinkedIssue := rs_requireLinkedIssue resolved,
       col_backfillEnabled := rs_backfillEnabled resolved,
       col_privateTrustEnabled := rs_privateTrustEnabled resolved,
       col_badgeEnabled := rs_badgeEnabled resolved,
       col_agentPaused := rs_agentPaused resolved,
       col_agentDryRun := rs_agentDryRun resolved,
       col_commandAuthorization := command_policy_json (Some (rs_commandAuthorization resolved)),
       col_autonomy := policy_json (rs_autonomy resolved),
       col_autoMaintain := maintain_json (rs_autoMaintain resolved),
       col_updatedAt := now\<rparr>"

definition insert_columns :: "RepositorySettings \<Rightarrow> string \<Rightarrow> SettingsRow" where
  "insert_columns resolved now = \<lparr>col_repoFullName = rs_repoFullName resolved,
       col_commentMode = comment_mode_name (rs_commentMode resolved),
       col_publicAudienceMode = audience_mode_name (rs_publicAudienceMode resolved),
       col_publicSignalLevel = signal_level_name (rs_publicSignalLevel resolved),
       col_checkRunMode = enabled_mode_name (rs_checkRunMode resolved),
       col_checkRunDetailLevel = detail_level_name (rs_checkRunDetailLevel resolved),
       col_gateCheckMode = enabled_mode_name (rs_gateCheckMode resolved),
       col_gatePack = gate_pack_name (rs_gatePack resolved),
       col_linkedIssueGateMode = rule_mode_name (rs_linkedIssueGateMode resolved),
       col_duplicatePrGateMode = rule_mode_name (rs_duplicatePrGateMode resolved),
       col_qualityGateMode = rule_mode_name (rs_qualityGateMode resolved),
       col_qualityGateMinScore = score_number (rs_qualityGateMinScore resolved),
       col_slopGateMode = rule_mode_name (rs_slopGateMode resolved),
       col_mergeReadinessGateMode = rule_mode_name (rs_mergeReadinessGateMode resolved),
       col_manifestPolicyGateMode = rule_mode_name (rs_manifestPolicyGateMode resolved),
       col_firstTimeContributorGrace = rs_firstTimeContributorGrace resolved,
       col_slopGateMinScore = score_number (rs_slopGateMinScore resolved),
       col_slopAiAdvisory = rs_slopAiAdvisory resolved,
       col_aiReviewMode = rule_mode_name (rs_aiReviewMode resolved),
       col_aiReviewByok = rs_aiReviewByok resolved,
       col_aiReviewProvider = map_option provider_name (rs_aiReviewProvider resolved),
       col_aiReviewModel = rs_aiReviewModel resolved,
       col_autoLabelEnabled = rs_autoLabelEnabled resolved,
       col_gittensorLabel = rs_gittensorLabel resolved,
       col_createMissingLabel = rs_createMissingLabel resolved,
       col_publicSurface = surface_name (rs_publicSurface resolved),
       col_includeMaintainerAuthors = rs_includeMaintainerAuthors resolved,
       col_requireLinkedIssue = rs_requireLinkedIssue resolved,
       col_backfillEnabled = rs_backfillEnabled resolved,
       col_privateTrustEnabled = rs_privateTrustEnabled resolved,
       col_badgeEnabled = rs_badgeEnabled resolved,
       col_agentPaused = rs_agentPaused resolved,
       col_agentDryRun = rs_agentDryRun resolved,
       col_commandAuthorization = command_policy_json (Some (rs_commandAuthorization resolved)),
       col_autonomy = policy_json (rs_autonomy resolved),
       col_autoMaintain = maintain_json (rs_autoMaintain resolved),
       col_createdAt = now, col_updatedAt = now\<rparr>"

definition upsertRepositorySettings ::
  "SettingsPatch \<Rightarrow> string \<Rightarrow> SettingsRow list \<Rightarrow> RepositorySettings \<times> SettingsRow list" where
  "upsertRepositorySettings settings now table =
     (let resolved = resolveSettings settings;
          table' = (if rs_repoFullName resolved \<in> col_repoFullName ` set table
                    then map (\<lambda>row. if col_repoFullName row = rs_repoFullName resolved
                      then write_columns resolved now row else row) table
                    else table @ [insert_columns resolved now])
      in (getRepositorySettings (rs_repoFullName resolved) table', table'))"

section \<open>Lemmas\<close>

lemma column_round_trips [simp]:
  "parseCommentMode (comment_mode_name cm) = cm"
  "parsePublicAudienceMode (audience_mode_name am) = am"
  "parsePublicSignalLevel (signal_level_name sl) = sl"
  "parseEnabledMode (enabled_mode_name em) = em"
  "parseCheckRunDetailLevel (detail_level_name dl) = dl"
  "parseGatePack (Some (gate_pack_name gp)) = gp"
  "parseGateRuleMode (rule_mode_name rm) = rm"
  "parsePublicSurface (surface_name ps) = ps"
  "normalizeAiReviewProvider (map_option provider_name ap) = ap"
proof -
  show "parseCommentMode (comment_mode_name cm) = cm" by (cases cm) (simp_all add: parseCommentMode_def)
  show "parsePublicAudienceMode (audience_mode_name am) = am"
    by (cases am) (simp_all add: parsePublicAudienceMode_def)
  show "parsePublicSignalLevel (signal_level_name sl) = sl"
    by (cases sl) (simp_all add: parsePublicSignalLevel_def)
  show "parseEnabledMode (enabled_mode_name em) = em" by (cases em) (simp_all add: parseEnabledMode_def)
  show "parseCheckRunDetailLevel (detail_level_name dl) = dl"
    by (cases dl) (simp_all add: parseCheckRunDetailLevel_def)
  show "parseGatePack (Some (gate_pack_name gp)) = gp" by (cases gp) (simp_all add: parseGatePack_def)
  show "parseGateRuleMode (rule_mode_name rm) = rm" by (cases rm) (simp_all add: parseGateRuleMode_def)
  show "parsePublicSurface (surface_name ps) = ps" by (cases ps) (simp_all add: parsePublicSurface_def)
  show "normalizeAiReviewProvider (map_option provider_name ap) = ap"
  proof (cases ap)
    case (Some p)
    then show ?thesis by (cases p) (simp_all add: normalizeAiReviewProvider_def)
  qed (simp add: normalizeAiReviewProvider_def)
qed

lemma score_round_trip [simp]:
  "normalizeQualityGateMinScore (score_number (normalizeQualityGateMinScore x)) = normalizeQualityGateMinScore x"
  by (induction x rule: normalizeQualityGateMinScore.induct) (auto simp: score_number_def)

lemma method_of_name_name [simp]: "method_of_name (method_name m) = Some m"
  by (cases m) (simp_all add: method_of_name_def AUTO_MERGE_METHODS_def)

lemma maintain_round_trip [simp]:
  "normalizeAutoMaintainPolicy (maintain_json (normalizeAutoMaintainPolicy x)) = normalizeAutoMaintainPolicy x"
proof -
  have "normalizeAutoMaintainPolicy (maintain_json p) = p"
    if "0 \<le> am_requireApprovals p" "am_requireApprovals p \<le> 10" for p
    using that by (simp add: normalizeAutoMaintainPolicy_def maintain_json_def jget_def MAX_REQUIRE_APPROVALS_def)
  then show ?thesis using normalizeAutoMaintainPolicy_bounds [of x] by blast
qed

lemma command_policy_round_trip [simp]:
  "fst (normalizeCommandAuthorizationPolicy (command_policy_json
     (Some (fst (normalizeCommandAuthorizationPolicy x))))) = fst (normalizeCommandAuthorizationPolicy x)"
  by (simp add: normalize_policy_fixed normalize_policy_ok)

declare normalizeAutonomyPolicy_json [simp]

text \<open>The settings without the two times, which an update sets by the clock.\<close>

definition settings_content :: "RepositorySettings \<Rightarrow> RepositorySettings" where
  "settings_content s = s\<lparr>rs_createdAt := None, rs_updatedAt := None\<rparr>"

lemma content_written: "settings_content (settings_of_row (write_columns (resolveSettings patch) now row)) =
    (resolveSettings patch)\<lparr>rs_repoFullName := col_repoFullName row\<rparr>"
  by (simp add: settings_content_def settings_of_row_def write_columns_def resolveSettings_def)

lemma content_inserted: "settings_content (settings_of_row (insert_columns (resolveSettings patch) now)) =
    resolveSettings patch"
  by (simp add: settings_content_def settings_of_row_def insert_columns_def resolveSettings_def)

lemma rs_repo_resolve [simp]: "rs_repoFullName (resolveSettings patch) = sp_repoFullName patch"
  by (simp add: resolveSettings_def)

lemma col_repo_write [simp]: "col_repoFullName (write_columns s now row) = col_repoFullName row"
  by (simp add: write_columns_def)

lemma col_repo_insert [simp]: "col_repoFullName (insert_columns s now) = rs_repoFullName s"
  by (simp add: insert_columns_def)

lemma find_written: "List.find (\<lambda>row. col_repoFullName row = f)
     (map (\<lambda>row. if col_repoFullName row = g then write_columns s now row else row) table) =
   (if f = g then map_option (write_columns s now) (List.find (\<lambda>row. col_repoFullName row = f) table)
    else List.find (\<lambda>row. col_repoFullName row = f) table)"
  by (induction table) auto

lemma find_append: "List.find P (xs @ ys) = (case List.find P xs of None \<Rightarrow> List.find P ys | Some x \<Rightarrow> Some x)"
  by (induction xs) auto

section \<open>Properties\<close>

text \<open>
  Settings survive the store. After an update the settings of the repository read back as the
  resolved update (every policy normalized, every score clamped, every missing field at its
  default), whether the row existed or not, and the settings of every other repository are
  unchanged.
\<close>

theorem settings_round_trip:
  "let (result, table') = upsertRepositorySettings patch now table in
   getRepositorySettings (sp_repoFullName patch) table' = result \<and>
   settings_content result = resolveSettings patch \<and>
   (other = sp_repoFullName patch \<or> getRepositorySettings other table' = getRepositorySettings other table)"
proof (cases "sp_repoFullName patch \<in> col_repoFullName ` set table")
  case True
  then obtain row where row: "List.find (\<lambda>row. col_repoFullName row = sp_repoFullName patch) table = Some row"
    by (cases "List.find (\<lambda>row. col_repoFullName row = sp_repoFullName patch) table")
      (auto simp: List_find_None_iff)
  then have "col_repoFullName row = sp_repoFullName patch" by (auto dest: List_find_SomeD)
  then have "(resolveSettings patch)\<lparr>rs_repoFullName := col_repoFullName row\<rparr> = resolveSettings patch"
    by (simp add: resolveSettings_def)
  with True row show ?thesis
    by (simp add: upsertRepositorySettings_def getRepositorySettings_def find_written content_written Let_def)
next
  case False
  then have "List.find (\<lambda>row. col_repoFullName row = sp_repoFullName patch) table = None"
    unfolding List_find_None_iff by (metis imageI)
  with False show ?thesis
    by (simp add: upsertRepositorySettings_def getRepositorySettings_def find_append content_inserted Let_def
        split: option.split)
qed

end
