(* ===== verification/Approval_Queue.thy ===== *)
theory Approval_Queue
  imports Agent_Executor Repo_Settings
begin

text \<open>
  The maintainer's decision on a staged action, \<open>services/agent-approval-queue.ts\<close>. The settings
  table and the permissions of the installations are only read here. The locale \<open>decision_store\<close>
  states what the decision relies on in the store of staged actions.
\<close>

datatype ApprovalDecision = Decide_accept | Decide_reject

datatype DecisionStatus = decided_accepted | decided_rejected | already_decided | not_found

record ApprovalDecisionResult =
  adr_status :: DecisionStatus
  adr_action :: "AgentPendingActionRecord option"
  adr_executionOutcome :: "ExecOutcome option"

fun exec_outcome_name :: "ExecOutcome \<Rightarrow> string" where
  "exec_outcome_name ex_completed = ''completed''"
| "exec_outcome_name ex_queued = ''queued''"
| "exec_outcome_name ex_denied = ''denied''"
| "exec_outcome_name ex_error = ''error''"
| "exec_outcome_name ex_dry_run = ''dry_run''"

definition decision_metadata :: "AgentPendingActionRecord \<Rightarrow> (string \<times> json) list" where
  "decision_metadata pending =
     [(''pendingId'', JString (pend_id pending)), (''repoFullName'', JString (pend_repoFullName pending)),
      (''pullNumber'', JNumber (Finite (of_nat (pend_pullNumber pending)))),
      (''actionClass'', JString (action_name (pend_actionClass pending))),
      (''autonomyLevel'', JString (level_name (pend_autonomyLevel pending)))]"

definition decision_event ::
  "AgentPendingActionRecord \<Rightarrow> string \<Rightarrow> string \<Rightarrow> AuditOutcome \<Rightarrow> string \<Rightarrow> (string \<times> json) list \<Rightarrow> AuditEventRecord" where
  "decision_event pending who kind out detail extra =
     \<lparr>ae_eventType = ''agent.pending_action.'' @ kind, ae_actor = Some who,
      ae_targetKey = Some (pend_repoFullName pending @ ''#'' @ nat_str (pend_pullNumber pending)),
      ae_outcome = out, ae_detail = Some detail, ae_metadata = decision_metadata pending @ extra\<rparr>"

definition decided :: "AgentPendingActionRecord \<Rightarrow> AgentPendingActionStatus \<Rightarrow> string \<Rightarrow> AgentPendingActionRecord" where
  "decided pending st who = pending\<lparr>pend_status := st, pend_decidedBy := Some who\<rparr>"

text \<open>The context and the single action an accept executes, under the settings of now.\<close>

definition accept_context ::
  "SettingsRow list \<Rightarrow> (nat \<Rightarrow> (string \<rightharpoonup> string) option) \<Rightarrow> AgentPendingActionRecord \<Rightarrow> Store \<Rightarrow>
   AgentActionExecutionContext" where
  "accept_context settings_table installations pending s =
     (let settings = getRepositorySettings (pend_repoFullName pending) settings_table
      in \<lparr>ctx_installationId = pend_installationId pending, ctx_repoFullName = pend_repoFullName pending,
          exec_pullNumber = pend_pullNumber pending,
          ctx_headSha = Option.bind (getPullRequest (pend_repoFullName pending) (pend_pullNumber pending) s) pr_headSha,
          ctx_autonomy = Some (rs_autonomy settings), ctx_agentPaused = Some (rs_agentPaused settings),
          ctx_agentDryRun = Some (rs_agentDryRun settings),
          ctx_installationPermissions = installations (pend_installationId pending), ctx_authorLogin = None\<rparr>)"

definition accepted_action :: "AgentPendingActionRecord \<Rightarrow> PlannedAgentAction" where
  "accepted_action pending =
     pendingActionToPlanned (pend_actionClass pending) (pend_params pending) (pend_reason pending)"

definition acceptPending ::
  "SettingsRow list \<Rightarrow> (nat \<Rightarrow> (string \<rightharpoonup> string) option) \<Rightarrow> AgentPendingActionRecord \<Rightarrow> string \<Rightarrow> World \<Rightarrow>
   ApprovalDecisionResult \<times> World" where
  "acceptPending settings_table installations pending who w =
     (let (outcomes, w1) = executeAgentMaintenanceActions
            (accept_context settings_table installations pending (db w)) [accepted_action pending] w;
          execOutcome = (case outcomes of [] \<Rightarrow> None | out # _ \<Rightarrow> Some (ao_outcome out));
          execName = (case execOutcome of None \<Rightarrow> ''no_outcome'' | Some out \<Rightarrow> exec_outcome_name out);
          s2 = setPendingAgentActionStatus (pend_id pending) status_accepted (Some who) (db w1);
          s3 = recordAuditEvent (decision_event pending who ''accepted''
                 (if execOutcome = Some ex_completed then Audit_completed else Audit_error)
                 (''accepted '' @ action_name (pend_actionClass pending) @ '' '' @ rarrow @ '' '' @ execName)
                 [(''executionOutcome'', JString execName)]) s2
      in (\<lparr>adr_status = decided_accepted, adr_action = Some (decided pending status_accepted who),
           adr_executionOutcome = execOutcome\<rparr>, w1\<lparr>db := s3\<rparr>))"

definition rejectPending ::
  "AgentPendingActionRecord \<Rightarrow> string \<Rightarrow> World \<Rightarrow> ApprovalDecisionResult \<times> World" where
  "rejectPending pending who w =
     (let s1 = setPendingAgentActionStatus (pend_id pending) status_rejected (Some who) (db w);
          s2 = recordAuditEvent (decision_event pending who ''rejected'' Audit_completed
                 (''rejected '' @ action_name (pend_actionClass pending)) []) s1
      in (\<lparr>adr_status = decided_rejected, adr_action = Some (decided pending status_rejected who),
           adr_executionOutcome = None\<rparr>, w\<lparr>db := s2\<rparr>))"

definition decidePendingAgentAction ::
  "SettingsRow list \<Rightarrow> (nat \<Rightarrow> (string \<rightharpoonup> string) option) \<Rightarrow> string \<Rightarrow> ApprovalDecision \<Rightarrow> string \<Rightarrow> World \<Rightarrow>
   ApprovalDecisionResult \<times> World" where
  "decidePendingAgentAction settings_table installations i decision who w =
     (case getPendingAgentAction i (db w) of
        None \<Rightarrow> (\<lparr>adr_status = not_found, adr_action = None, adr_executionOutcome = None\<rparr>, w)
      | Some pending \<Rightarrow>
          if pend_status pending \<noteq> status_pending
          then (\<lparr>adr_status = already_decided, adr_action = Some pending, adr_executionOutcome = None\<rparr>, w)
          else (case decision of
                  Decide_reject \<Rightarrow> rejectPending pending who w
                | Decide_accept \<Rightarrow> acceptPending settings_table installations pending who w))"

section \<open>The store of decisions\<close>

locale decision_store =
  fixes lookup :: "string \<Rightarrow> 's \<Rightarrow> 'r option"
    and set_status :: "string \<Rightarrow> 'st \<Rightarrow> string option \<Rightarrow> 's \<Rightarrow> 's"
    and status :: "'r \<Rightarrow> 'st"
  assumes status_set: "map_option status (lookup i (set_status j st who s)) =
      (if i = j then map_option (\<lambda>_. st) (lookup i s) else map_option status (lookup i s))"
begin

lemma found_after: "lookup i (set_status j st who s) = None \<longleftrightarrow> lookup i s = None"
  by (metis option.map_disc_iff status_set)

lemma set_status_status: "lookup i s = Some r \<Longrightarrow> \<exists>r'. lookup i (set_status i st who s) = Some r' \<and> status r' = st"
  using status_set [of i i st who s] by auto

lemma other_status: "i \<noteq> j \<Longrightarrow> map_option status (lookup i (set_status j st who s)) = map_option status (lookup i s)"
  using status_set [of i j st who s] by simp

end

interpretation queue: decision_store getPendingAgentAction setPendingAgentActionStatus pend_status
proof
  fix i j :: string and st :: AgentPendingActionStatus and who :: "string option" and s :: Store
  show "map_option pend_status (getPendingAgentAction i (setPendingAgentActionStatus j st who s)) =
      (if i = j then map_option (\<lambda>_. st) (getPendingAgentAction i s)
       else map_option pend_status (getPendingAgentAction i s))"
    by (simp add: getPending_setStatus option.map_comp comp_def)
qed

section \<open>Execution leaves staged actions that need no approval alone\<close>

lemma markBlocked_pending: "agent_pending_actions (handleMergeFailure ctx err s) = agent_pending_actions s"
  by (auto simp: handleMergeFailure_def case_prod_beta Let_def split: option.split)

lemma executeAction_pending:
  assumes "\<not> requiresApproval action"
  shows "agent_pending_actions (db (snd (executeAction ctx mode action w))) = agent_pending_actions (db w)"
proof -
  have "agent_pending_actions (db (snd (executeLive ctx mode action w))) = agent_pending_actions (db w)"
    using perform_events [of ctx action w]
    by (simp add: executeLive_def audit_def case_prod_beta Let_def markBlocked_pending split: sum.split)
  then show ?thesis using assms by (simp add: executeAction_def audit_def Let_def)
qed

lemma accepted_no_approval [simp]: "\<not> requiresApproval (accepted_action pending)"
  by (simp add: accepted_action_def pendingActionToPlanned_def)

lemma accept_execution: "executeAgentMaintenanceActions ctx [action] w =
    ([fst (executeAction ctx (execution_mode ctx w) action w)], snd (executeAction ctx (execution_mode ctx w) action w))"
  by (simp add: executeAgentMaintenanceActions_def case_prod_beta Let_def)

lemma decide_status:
  assumes "getPendingAgentAction i (db w) = Some pending" and "pend_status pending = status_pending"
  shows "\<exists>r. getPendingAgentAction i (db (snd (decidePendingAgentAction tbl inst i d who w))) = Some r \<and>
    pend_status r = (case d of Decide_accept \<Rightarrow> status_accepted | Decide_reject \<Rightarrow> status_rejected)"
proof -
  have i: "pend_id pending = i" using assms(1) by (auto simp: getPendingAgentAction_def dest: List_find_SomeD)
  show ?thesis
  proof (cases d)
    case Decide_reject
    then show ?thesis
      using queue.set_status_status [OF assms(1), of status_rejected "Some who"] assms i
      by (simp add: decidePendingAgentAction_def rejectPending_def Let_def
          getPending_cong [of "recordAuditEvent _ _" "setPendingAgentActionStatus _ _ _ _"])
  next
    case Decide_accept
    let ?ctx = "accept_context tbl inst pending (db w)"
    let ?w1 = "snd (executeAction ?ctx (execution_mode ?ctx w) (accepted_action pending) w)"
    have "getPendingAgentAction i (db ?w1) = Some pending"
      using assms(1) getPending_cong [OF executeAction_pending [OF accepted_no_approval]] by metis
    then show ?thesis
      using queue.set_status_status [of i "db ?w1" pending status_accepted "Some who"] Decide_accept assms i
      by (simp add: decidePendingAgentAction_def acceptPending_def accept_execution Let_def
          getPending_cong [of "recordAuditEvent _ _" "setPendingAgentActionStatus _ _ _ _"])
  qed
qed

section \<open>Properties\<close>

text \<open>
  A staged action is decided once. After any decision, a second decision on the same action,
  whatever it is, whoever makes it and under whatever settings, changes nothing: it reports that
  the action is already decided (or not found, when there was none), and neither the store nor
  GitHub is touched.
\<close>

theorem second_decision_is_a_no_op:
  "let w' = snd (decidePendingAgentAction tbl inst i d who w) in
   snd (decidePendingAgentAction tbl' inst' i d' who' w') = w' \<and>
   adr_status (fst (decidePendingAgentAction tbl' inst' i d' who' w')) =
     (if getPendingAgentAction i (db w) = None then not_found else already_decided)"
proof (cases "getPendingAgentAction i (db w)")
  case None
  then show ?thesis by (simp add: decidePendingAgentAction_def)
next
  case (Some pending)
  let ?w' = "snd (decidePendingAgentAction tbl inst i d who w)"
  obtain r where "getPendingAgentAction i (db ?w') = Some r" "pend_status r \<noteq> status_pending"
  proof (cases "pend_status pending = status_pending")
    case True
    then show ?thesis
      using that decide_status [OF Some, of tbl inst d who] by (cases d) auto
  next
    case False
    then show ?thesis using that [of pending] Some by (simp add: decidePendingAgentAction_def)
  qed
  then have "decidePendingAgentAction tbl' inst' i d' who' ?w' =
      (\<lparr>adr_status = already_decided, adr_action = Some r, adr_executionOutcome = None\<rparr>, ?w')"
    by (simp add: decidePendingAgentAction_def)
  then show ?thesis using Some by (simp add: Let_def)
qed


end
