(* ===== verification/Path_Matchers.thy ===== *)
theory Path_Matchers
  imports Check_Run
begin

text \<open>
  Classification of changed files: \<open>signals/path-matchers.ts\<close>, the test-path rules of
  \<open>signals/test-evidence.ts\<close> and \<open>isTestFile\<close>, \<open>isCodeFile\<close> of \<open>signals/local-branch.ts\<close>.
  Paths are lowered and their backslashes turned to slashes before most patterns see them, so
  the patterns are run on that normal form; the patterns with the flag \<open>i\<close> lower the path
  themselves and see its backslashes.
\<close>

section \<open>Normal form, base name and extension\<close>

definition normalize :: "string \<Rightarrow> string" where
  "normalize path = toLowerCase (map (\<lambda>c. if c = CHR 0x5C then CHR ''/'' else c) path)"

definition basename :: "string \<Rightarrow> string" where
  "basename path = rev (takeWhile (\<lambda>c. c \<noteq> CHR ''/'') (rev (normalize path)))"

definition extension :: "string \<Rightarrow> string" where
  "extension path =
     (let base = basename path; ext = rev (takeWhile (\<lambda>c. c \<noteq> CHR ''.'') (rev base))
      in if CHR ''.'' \<in> set base \<and> length base - length ext - 1 > 0 then ext else [])"

definition LOCKFILE_NAMES :: "string list" where
  "LOCKFILE_NAMES =
     [''package-lock.json'', ''npm-shrinkwrap.json'', ''yarn.lock'', ''pnpm-lock.yaml'', ''bun.lockb'',
      ''cargo.lock'', ''poetry.lock'', ''pipfile.lock'', ''composer.lock'', ''gemfile.lock'', ''go.sum'',
      ''uv.lock'', ''packages.lock.json'', ''flake.lock'']"

definition DEPENDENCY_MANIFEST_NAMES :: "string list" where
  "DEPENDENCY_MANIFEST_NAMES =
     [''package.json'', ''cargo.toml'', ''go.mod'', ''requirements.txt'', ''pyproject.toml'', ''pipfile'',
      ''gemfile'', ''composer.json'', ''build.gradle'', ''build.gradle.kts'', ''pom.xml'']"

definition DOCS_EXTENSIONS :: "string list" where
  "DOCS_EXTENSIONS = [''md'', ''mdx'', ''markdown'', ''rst'', ''adoc'', ''asciidoc'']"

definition CONFIG_FILE_NAMES :: "string list" where
  "CONFIG_FILE_NAMES =
     [''dockerfile'', ''makefile'', ''.editorconfig'', ''.nvmrc'', ''.npmrc'', ''.browserslistrc'']"

definition CONFIG_FILE_PREFIXES :: "string list" where
  "CONFIG_FILE_PREFIXES =
     [''tsconfig'', ''jsconfig'', ''jest.config'', ''vitest.config'', ''vite.config'', ''webpack.config'',
      ''rollup.config'', ''postcss.config'', ''tailwind.config'', ''next.config'', ''.env'', ''.eslint'',
      ''.prettier'', ''.babel'']"

section \<open>Test and code files\<close>

text \<open>The two files spell out the same five patterns.\<close>

definition isTestFile :: "string \<Rightarrow> bool" where
  "isTestFile file \<longleftrightarrow>
     rx_test_i (Seq [rx_segment_start, Alt [Lit ''test'', Lit ''tests'', Lit ''spec'', Lit ''__tests__''], rx_slash]) file
     \<or> rx_test_i (Seq [rx_segment_start, Lit ''src/test/'']) file
     \<or> rx_test_i (Seq [rx_segment_start, rx_not_slash, Lit ''_test'', rx_ext [''go'', ''py'', ''rb'']]) file
     \<or> rx_test_i (Seq [rx_segment_start, rx_not_slash, Lit ''_spec'', rx_ext [''rb'']]) file
     \<or> rx_test_i (Seq [Lit ''.'', Alt [Lit ''test'', Lit ''spec''],
          rx_ext [''ts'', ''tsx'', ''js'', ''jsx'', ''py'', ''rb'', ''rs'']]) file"

definition isTestPath :: "string \<Rightarrow> bool" where
  "isTestPath file \<longleftrightarrow>
     rx_test_i (Seq [rx_segment_start, Alt [Lit ''test'', Lit ''tests'', Lit ''spec'', Lit ''__tests__''], rx_slash]) file
     \<or> rx_test_i (Seq [rx_segment_start, Lit ''src/test/'']) file
     \<or> rx_test_i (Seq [rx_segment_start, rx_not_slash, Lit ''_test'', rx_ext [''go'', ''py'', ''rb'']]) file
     \<or> rx_test_i (Seq [rx_segment_start, rx_not_slash, Lit ''_spec'', rx_ext [''rb'']]) file
     \<or> rx_test_i (Seq [Lit ''.'', Alt [Lit ''test'', Lit ''spec''],
          rx_ext [''ts'', ''tsx'', ''js'', ''jsx'', ''py'', ''rb'', ''rs'']]) file"

definition isCodeFile :: "string \<Rightarrow> bool" where
  "isCodeFile file \<longleftrightarrow>
     rx_test_i (rx_ext [''ts'', ''tsx'', ''js'', ''jsx'', ''py'', ''rb'', ''rs'', ''kt'', ''scala'', ''java'',
       ''go'', ''sql'']) file \<and> \<not> isTestFile file"

definition hasLocalTestEvidence :: "string list option \<Rightarrow> string list option \<Rightarrow> bool" where
  "hasLocalTestEvidence tests testFiles \<longleftrightarrow>
     nullish tests [] \<noteq> [] \<or> list_ex isTestPath (nullish testFiles [])"

datatype TestCoverageClassification = strong | adequate | weak | absent

definition classifyTestCoverage :: "string list \<Rightarrow> TestCoverageClassification" where
  "classifyTestCoverage changedPaths =
     (if changedPaths = [] then absent
      else let testCount = length (filter isTestPath changedPaths)
           in if testCount = 0 then absent
              else let ratio = (of_nat testCount / of_nat (length changedPaths) :: rat)
                   in if ratio \<ge> 4 / 10 then strong else if ratio \<ge> 2 / 10 then adequate else weak)"

section \<open>The matchers\<close>

definition rx_dir :: "string list \<Rightarrow> rx" where
  "rx_dir names = Cat rx_segment_start (Cat (Alt (map Lit names)) rx_slash)"

definition GENERATED_DIRS :: "string list" where
  "GENERATED_DIRS = [''__generated__'', ''generated'']"

definition VENDORED_DIRS :: "string list" where
  "VENDORED_DIRS = [''vendor'', ''vendored'', ''third_party'', ''third-party'', ''node_modules'']"

definition DOCS_DIRS :: "string list" where
  "DOCS_DIRS = [''doc'', ''docs'']"

definition isGeneratedFile :: "string \<Rightarrow> bool" where
  "isGeneratedFile path \<longleftrightarrow>
     (let norm = normalize path
      in rx_test (rx_dir GENERATED_DIRS) norm
         \<or> rx_test (Seq [Lit ''.'', Alt [Lit ''generated'', Lit ''gen''], Lit ''.'', rx_not_slash, Eol]) norm
         \<or> rx_test (Seq [Lit ''.pb'', rx_ext [''go'', ''ts'', ''js'']]) norm
         \<or> rx_test (Seq [Lit ''_pb2.py'', Opt (Lit ''i''), Eol]) norm
         \<or> rx_test (Seq [Lit ''.g.dart'', Eol]) norm
         \<or> rx_test (Seq [Lit ''.'', Alt (map Lit [''js'', ''jsx'', ''ts'', ''tsx'', ''css'']), Lit ''.map'', Eol]) norm
         \<or> basename norm = ''worker-configuration.d.ts'')"

definition isVendoredFile :: "string \<Rightarrow> bool" where
  "isVendoredFile path = rx_test (rx_dir VENDORED_DIRS) (normalize path)"

definition isLockfile :: "string \<Rightarrow> bool" where
  "isLockfile path \<longleftrightarrow> basename path \<in> set LOCKFILE_NAMES"

definition alnum_items :: "rx_item list" where
  "alnum_items = [Between CHR ''a'' CHR ''z'', Between CHR ''0'' CHR ''9'']"

definition isMinifiedFile :: "string \<Rightarrow> bool" where
  "isMinifiedFile path = rx_test (Seq [Lit ''.min.'', Plus (Oneof alnum_items), Eol]) (normalize path)"

definition isDocsFile :: "string \<Rightarrow> bool" where
  "isDocsFile path \<longleftrightarrow>
     (let norm = normalize path
      in rx_test (rx_dir DOCS_DIRS) norm \<or> extension norm \<in> set DOCS_EXTENSIONS)"

definition isDependencyManifestFile :: "string \<Rightarrow> bool" where
  "isDependencyManifestFile path \<longleftrightarrow> basename path \<in> set DEPENDENCY_MANIFEST_NAMES"

definition isConfigFile :: "string \<Rightarrow> bool" where
  "isConfigFile path =
     (let base = basename path
      in if base \<in> set CONFIG_FILE_NAMES then True
         else if list_ex (startsWith base) CONFIG_FILE_PREFIXES then True
         else if rx_test_i (Seq [Lit ''.'', Alt [Lit ''config'', Lit ''rc''], Lit ''.'', Plus (Oneof alnum_items), Eol]) base
         then True
         else endsWith base ''.rc''
           \<or> rx_test_i (Seq [Bol, Lit ''.'', Plus (Noneof [One CHR ''.'']), Lit ''rc'', Eol]) base)"

definition isNonSubstantivePaddingFile :: "string \<Rightarrow> bool" where
  "isNonSubstantivePaddingFile path \<longleftrightarrow> isMinifiedFile path \<or> isGeneratedFile path \<or> isVendoredFile path"

datatype ChangedFileCategory =
    cat_minified | cat_generated | cat_vendored | cat_lockfile | cat_dependency_manifest
  | cat_config | cat_test | cat_docs | cat_source | cat_other

definition classifyChangedFile :: "string \<Rightarrow> ChangedFileCategory" where
  "classifyChangedFile path =
     (if isMinifiedFile path then cat_minified
      else if isGeneratedFile path then cat_generated
      else if isVendoredFile path then cat_vendored
      else if isLockfile path then cat_lockfile
      else if isDependencyManifestFile path then cat_dependency_manifest
      else if isConfigFile path then cat_config
      else if isTestFile path \<or> isTestPath path then cat_test
      else if isDocsFile path then cat_docs
      else if isCodeFile path then cat_source
      else cat_other)"

section \<open>Directory patterns are tests of path segments\<close>

lemma rx_match_slash: "rx_match rx_slash (d, s) q \<longleftrightarrow> (\<exists>s'. s = CHR ''/'' # s' \<and> q = (CHR ''/'' # d, s'))"
  by (auto simp: rx_slash_def class_match_def elim!: rx_match_elims intro!: rx_match.oneof)

lemma rx_match_segment_start: "rx_match rx_segment_start (d, s) q \<longleftrightarrow>
    d = [] \<and> q = ([], s) \<or> (\<exists>s'. s = CHR ''/'' # s' \<and> q = (CHR ''/'' # d, s'))"
proof -
  have bol: "rx_match Bol (d, s) q \<longleftrightarrow> d = [] \<and> q = ([], s)"
    by (auto elim!: rx_match_elims intro: rx_match.bol)
  have "rx_match rx_segment_start (d, s) q \<longleftrightarrow> rx_match Bol (d, s) q \<or> rx_match rx_slash (d, s) q"
    unfolding rx_segment_start_def by (blast elim: rx_match_elims(5) intro: rx_match.or1 rx_match.or2)
  then show ?thesis by (simp add: bol rx_match_slash)
qed

lemma rx_match_names: "(\<exists>q. rx_match (Cat (Alt (map Lit names)) rx_slash) (d, s) q) \<longleftrightarrow>
    (\<exists>n\<in>set names. \<exists>v. s = n @ ''/'' @ v)"
  by (auto simp: rx_match_Cat rx_match_Alt rx_match_Lit rx_match_slash; blast)

lemma rx_match_dir: "(\<exists>q. rx_match (rx_dir names) (d, s) q) \<longleftrightarrow>
    (\<exists>n\<in>set names. \<exists>v. d = [] \<and> s = n @ ''/'' @ v \<or> s = ''/'' @ n @ ''/'' @ v)"
proof -
  have "(\<exists>q. rx_match (rx_dir names) (d, s) q) \<longleftrightarrow>
      (\<exists>m. rx_match rx_segment_start (d, s) m \<and>
        (\<exists>q. rx_match (Cat (Alt (map Lit names)) rx_slash) (fst m, snd m) q))"
    unfolding rx_dir_def by (auto simp: rx_match_Cat [of rx_segment_start])
  also have "\<dots> \<longleftrightarrow> (\<exists>m. rx_match rx_segment_start (d, s) m \<and> (\<exists>n\<in>set names. \<exists>v. snd m = n @ ''/'' @ v))"
    by (simp only: rx_match_names)
  also have "\<dots> \<longleftrightarrow> (\<exists>n\<in>set names. \<exists>v. d = [] \<and> s = n @ ''/'' @ v \<or> s = ''/'' @ n @ ''/'' @ v)"
    by (auto simp: rx_match_segment_start)
  finally show ?thesis .
qed

lemma rx_test_dir: "rx_test (rx_dir names) s \<longleftrightarrow>
    (\<exists>n\<in>set names. \<exists>v. s = n @ ''/'' @ v \<or> (\<exists>u. s = u @ ''/'' @ n @ ''/'' @ v))"
proof -
  have "rx_test (rx_dir names) s \<longleftrightarrow> (\<exists>u w. s = u @ w \<and> (\<exists>q. rx_match (rx_dir names) (rev u, w) q))"
    unfolding rx_test_iff by blast
  also have "\<dots> \<longleftrightarrow> (\<exists>u w. s = u @ w \<and>
      (\<exists>n\<in>set names. \<exists>v. u = [] \<and> w = n @ ''/'' @ v \<or> w = ''/'' @ n @ ''/'' @ v))"
    unfolding rx_match_dir by simp
  also have "\<dots> \<longleftrightarrow> (\<exists>n\<in>set names. \<exists>v. s = n @ ''/'' @ v \<or> (\<exists>u. s = u @ ''/'' @ n @ ''/'' @ v))"
    by blast
  finally show ?thesis .
qed

text \<open>The directories of a path: its segments but the last.\<close>

definition path_dirs :: "string \<Rightarrow> string list" where
  "path_dirs path = butlast (split_on CHR ''/'' path)"

lemma path_dirs_Cons: "CHR ''/'' \<notin> set n \<Longrightarrow> path_dirs (n @ ''/'' @ v) = n # path_dirs v"
  by (simp add: path_dirs_def split_on_first)

lemma path_segment: "CHR ''/'' \<notin> set s \<or> (\<exists>n v. s = n @ ''/'' @ v \<and> CHR ''/'' \<notin> set n)"
  using split_list_first [of "CHR ''/''" s] by auto

lemma path_dirs_flat: "CHR ''/'' \<notin> set s \<Longrightarrow> path_dirs s = []"
proof -
  assume "CHR ''/'' \<notin> set s"
  then have "split_on CHR ''/'' s = [s]" by (induction s) auto
  then show ?thesis by (simp add: path_dirs_def)
qed

lemma segment_eq_iff: "sep \<notin> set a \<Longrightarrow> sep \<notin> set b \<Longrightarrow> a @ sep # x = b @ sep # y \<longleftrightarrow> a = b \<and> x = y"
proof (induction a arbitrary: b)
  case Nil
  then show ?case by (cases b) auto
next
  case (Cons c a)
  then show ?case by (cases b) auto
qed

lemma dir_in_path_dirs: "CHR ''/'' \<notin> set n \<Longrightarrow>
    (\<exists>v. s = n @ ''/'' @ v \<or> (\<exists>u. s = u @ ''/'' @ n @ ''/'' @ v)) \<longleftrightarrow> n \<in> set (path_dirs s)"
proof (induction "length s" arbitrary: s rule: less_induct)
  case less
  show ?case
  proof (cases "CHR ''/'' \<in> set s")
    case False
    then show ?thesis by (auto simp: path_dirs_flat)
  next
    case True
    then obtain m w where s: "s = m @ ''/'' @ w" "CHR ''/'' \<notin> set m" using path_segment by blast
    have step: "(\<exists>v. s = n @ ''/'' @ v \<or> (\<exists>u. s = u @ ''/'' @ n @ ''/'' @ v)) \<longleftrightarrow>
        m = n \<or> (\<exists>v. w = n @ ''/'' @ v \<or> (\<exists>u. w = u @ ''/'' @ n @ ''/'' @ v))" (is "?L \<longleftrightarrow> ?R")
    proof
      assume ?L
      then obtain v where "s = n @ ''/'' @ v \<or> (\<exists>u. s = u @ ''/'' @ n @ ''/'' @ v)" by blast
      then show ?R
      proof
        assume "s = n @ ''/'' @ v"
        then have "m @ CHR ''/'' # w = n @ CHR ''/'' # v" using s(1) by simp
        with s(2) less.prems show ?R by (simp add: segment_eq_iff)
      next
        assume "\<exists>u. s = u @ ''/'' @ n @ ''/'' @ v"
        then obtain u where "m @ CHR ''/'' # w = u @ CHR ''/'' # n @ ''/'' @ v" using s(1) by auto
        show ?R
        proof (cases "CHR ''/'' \<in> set u")
          case False
          with \<open>m @ CHR ''/'' # w = u @ _\<close> s(2) have "w = n @ ''/'' @ v" by (simp add: segment_eq_iff)
          then show ?R by blast
        next
          case True
          then obtain a b where u: "u = a @ CHR ''/'' # b" "CHR ''/'' \<notin> set a"
            using split_list_first [of "CHR ''/''" u] by blast
          with \<open>m @ CHR ''/'' # w = u @ _\<close> s(2) have "w = b @ ''/'' @ n @ ''/'' @ v"
            by (simp add: segment_eq_iff)
          then show ?R by blast
        qed
      qed
    next
      assume ?R
      then show ?L unfolding s(1) by (metis append_assoc append_Cons append_Nil)
    qed
    have "length w < length s" using s(1) by simp
    have "set (path_dirs s) = insert m (set (path_dirs w))"
      unfolding s(1) path_dirs_Cons [OF s(2)] by simp
    then have "n \<in> set (path_dirs s) \<longleftrightarrow> m = n \<or> n \<in> set (path_dirs w)" by auto
    then show ?thesis by (simp only: step less.hyps [OF \<open>length w < length s\<close> less.prems])
  qed
qed

lemma rx_test_dir_iff:
  assumes "\<forall>n\<in>set names. CHR ''/'' \<notin> set n"
  shows "rx_test (rx_dir names) s \<longleftrightarrow> list_ex (\<lambda>d. d \<in> set names) (path_dirs s)"
proof -
  have "rx_test (rx_dir names) s \<longleftrightarrow> (\<exists>n\<in>set names. n \<in> set (path_dirs s))"
    unfolding rx_test_dir by (intro bex_cong refl dir_in_path_dirs) (use assms in blast)
  then show ?thesis by (auto simp: list_ex_iff)
qed

section \<open>Properties\<close>

text \<open>
  Imported code cannot pass as work. A path is vendored exactly when one of its directories,
  whatever its case and with either separator, is one of the vendored names, and a file is
  classified as padding (minified, generated or vendored) exactly when a padding matcher fires,
  so no later rule (lockfile, configuration, test, docs or source) can claim it.
\<close>

theorem vendored_code_is_padding:
  "(isVendoredFile path \<longleftrightarrow> list_ex (\<lambda>d. d \<in> set VENDORED_DIRS) (path_dirs (normalize path))) \<and>
   (classifyChangedFile path \<in> {cat_minified, cat_generated, cat_vendored} \<longleftrightarrow>
      isMinifiedFile path \<or> isGeneratedFile path \<or>
      list_ex (\<lambda>d. d \<in> set VENDORED_DIRS) (path_dirs (normalize path)))"
proof -
  have "\<forall>n\<in>set VENDORED_DIRS. CHR ''/'' \<notin> set n" by (simp add: VENDORED_DIRS_def)
  then have v: "isVendoredFile path \<longleftrightarrow> list_ex (\<lambda>d. d \<in> set VENDORED_DIRS) (path_dirs (normalize path))"
    unfolding isVendoredFile_def by (rule rx_test_dir_iff)
  then show ?thesis unfolding classifyChangedFile_def by simp
qed

end
