(* ===== verification/Public_Safe.thy ===== *)
theory Public_Safe
  imports Path_Matchers
begin

text \<open>
  The redaction guard on public text, \<open>isFocusManifestPublicSafe\<close> of \<open>signals/focus-manifest.ts\<close>,
  and a way to prove texts safe without running the pattern: every match of the pattern contains
  one of \<open>unsafe_keywords\<close> (\<open>public_safe_if_no_keyword\<close>), and the keywords of a template are those
  of its fixed parts, because the numbers put into it are digits.
\<close>

section \<open>The guard\<close>

text \<open>\<open>[-\s]\<close>, and optional.\<close>

definition rx_dash_space :: rx where
  "rx_dash_space = Oneof (One CHR ''-'' # space_items)"

definition rx_gap :: rx where
  "rx_gap = Opt rx_dash_space"

definition rx_word_tail :: rx where
  "rx_word_tail = Many (Oneof word_items)"

definition UNSAFE_TERMS :: "rx list" where
  "UNSAFE_TERMS =
     [Seq [Lit ''reward'', rx_word_tail],
      Seq [Lit ''score'', rx_word_tail],
      Seq [Lit ''wallet'', Opt (Lit ''s'')],
      Seq [Lit ''hotkey'', Opt (Lit ''s'')],
      Seq [Lit ''coldkey'', Opt (Lit ''s'')],
      Seq [Lit ''seed'', rx_gap, Lit ''phrase'', Opt (Lit ''s'')],
      Seq [Lit ''mnemonic'', Opt (Lit ''s'')],
      Seq [Lit ''private'', rx_gap, Lit ''key'', Opt (Lit ''s'')],
      Seq [Lit ''farming''],
      Seq [Lit ''payout'', Opt (Lit ''s'')],
      Seq [Lit ''ranking'', Opt (Lit ''s'')],
      Seq [Lit ''raw'', rx_gap, Lit ''trust'', Opt (Seq [rx_gap, Lit ''score'', Opt (Lit ''s'')])],
      Seq [Lit ''trust'', rx_gap, Lit ''score'', Opt (Lit ''s'')],
      Seq [Lit ''private'', rx_gap, Lit ''reviewability''],
      Seq [Lit ''reviewability'', Opt (Seq [rx_gap, Lit ''internal'', Opt (Lit ''s'')])],
      Seq [Lit ''private'', rx_gap, Lit ''scoreability''],
      Seq [Lit ''scoreability''],
      Seq [Lit ''public'', rx_gap, Lit ''score'', rx_gap,
        Alt [Lit ''estimate'', Lit ''prediction'', Lit ''claim''], Opt (Lit ''s'')],
      Seq [Lit ''estimated'', rx_gap, Lit ''score'', Opt (Lit ''s'')],
      Seq [Lit ''score'', rx_gap, Alt [Lit ''estimate'', Lit ''prediction'', Lit ''preview''], Opt (Lit ''s'')]]"

definition UNSAFE_PATHS :: "rx list" where
  "UNSAFE_PATHS =
     [Seq [Lit ''/users/''], Seq [Lit ''/home/''], Seq [Lit ''/tmp/''],
      Seq [Oneof [Between CHR ''a'' CHR ''z''], Lit ([CHR '':'', CHR 0x5C] @ ''users'' @ [CHR 0x5C])]]"

definition PUBLIC_UNSAFE :: rx where
  "PUBLIC_UNSAFE = Alt (Seq [Wordb, Alt UNSAFE_TERMS, Wordb] # UNSAFE_PATHS)"

definition isFocusManifestPublicSafe :: "string \<Rightarrow> bool" where
  "isFocusManifestPublicSafe text \<longleftrightarrow> \<not> rx_test_i PUBLIC_UNSAFE text"

section \<open>Keywords that every match contains\<close>

definition needs :: "rx \<Rightarrow> string list \<Rightarrow> bool" where
  "needs r ks \<longleftrightarrow> (\<forall>d s q. rx_match r (d, s) q \<longrightarrow> (\<exists>k\<in>set ks. str_includes s k))"

lemma includes_append: "str_includes t k \<Longrightarrow> str_includes (s @ t @ u) k"
  unfolding includes_iff by (metis append_assoc)

lemma needs_mono: "needs r ks \<Longrightarrow> set ks \<subseteq> set ls \<Longrightarrow> needs r ls"
  unfolding needs_def by blast

lemma needs_Lit: "needs (Lit w) [w]"
  unfolding needs_def by (auto simp: rx_match_Lit includes_iff)

lemma needs_Cat1: "needs a ks \<Longrightarrow> needs (Cat a b) ks"
  unfolding needs_def by (simp add: rx_match_Cat) blast

lemma match_suffix: "rx_match a (d, s) (d', s') \<Longrightarrow> \<exists>c. s = c @ s'"
proof -
  assume m: "rx_match a (d, s) (d', s')"
  have "rev d' @ s' = rev d @ s" "length s' \<le> length s"
    using rx_match_text [OF m] rx_match_shrinks [OF m] by simp_all
  then have "s' = drop (length s - length s') s"
    by (auto simp: append_eq_append_conv2)
  then show ?thesis by (metis append_take_drop_id)
qed

lemma needs_Cat2: "needs b ks \<Longrightarrow> needs (Cat a b) ks"
  unfolding needs_def
  by (simp add: rx_match_Cat) (metis append_Nil2 includes_append match_suffix)

lemma needs_Seq_head: "needs r ks \<Longrightarrow> needs (Seq (r # rs)) ks"
  by (cases rs) (simp_all add: needs_Cat1)

lemma needs_Seq_tail: "rs \<noteq> [] \<Longrightarrow> needs (Seq rs) ks \<Longrightarrow> needs (Seq (r # rs)) ks"
  by (cases rs) (simp_all add: needs_Cat2)

lemma needs_Alt: "list_all (\<lambda>r. needs r ks) rs \<Longrightarrow> needs (Alt rs) ks"
  unfolding needs_def by (simp add: rx_match_Alt list_all_iff) blast

lemma needs_Seq_Lit: "w \<in> set ks \<Longrightarrow> needs (Seq (Lit w # rs)) ks"
  by (rule needs_Seq_head [OF needs_mono [OF needs_Lit]]) simp

definition unsafe_keywords :: "string list" where
  "unsafe_keywords =
     [''reward'', ''score'', ''wallet'', ''hotkey'', ''coldkey'', ''seed'', ''mnemonic'', ''private'', ''farming'',
      ''payout'', ''ranking'', ''raw'', ''trust'', ''reviewability'', ''scoreability'', ''public'', ''estimated'',
      ''/users/'', ''/home/'', ''/tmp/'', [CHR '':'', CHR 0x5C] @ ''users'' @ [CHR 0x5C]]"

lemma needs_PUBLIC_UNSAFE: "needs PUBLIC_UNSAFE unsafe_keywords"
proof -
  have "list_all (\<lambda>r. needs r unsafe_keywords) UNSAFE_TERMS"
    unfolding UNSAFE_TERMS_def list.pred_inject
    by (intro conjI needs_Seq_Lit TrueI) (simp_all add: unsafe_keywords_def)
  then have "needs (Seq [Wordb, Alt UNSAFE_TERMS, Wordb]) unsafe_keywords"
    by (intro needs_Seq_tail needs_Seq_head needs_Alt) simp_all
  moreover have "list_all (\<lambda>r. needs r unsafe_keywords) UNSAFE_PATHS"
    unfolding UNSAFE_PATHS_def list.pred_inject
    by (intro conjI needs_Seq_Lit needs_Seq_tail needs_mono [OF needs_Lit] TrueI)
      (simp_all add: unsafe_keywords_def needs_mono [OF needs_Lit])
  ultimately show ?thesis
    unfolding PUBLIC_UNSAFE_def by (intro needs_Alt) simp
qed

definition no_keyword :: "string \<Rightarrow> bool" where
  "no_keyword s = list_all (\<lambda>k. \<not> str_includes s k) unsafe_keywords"

definition keyword_free :: "string \<Rightarrow> bool" where
  "keyword_free s = no_keyword (toLowerCase s)"

lemma public_safe_if_no_keyword: "keyword_free text \<Longrightarrow> isFocusManifestPublicSafe text"
proof -
  assume free: "keyword_free text"
  show ?thesis
  proof (rule ccontr)
    assume "\<not> isFocusManifestPublicSafe text"
    then obtain u v q where uv: "toLowerCase text = u @ v" "rx_match PUBLIC_UNSAFE (rev u, v) q"
      by (auto simp: isFocusManifestPublicSafe_def rx_test_i_def rx_test_iff)
    then obtain k where k: "k \<in> set unsafe_keywords" "str_includes v k"
      using needs_PUBLIC_UNSAFE unfolding needs_def by blast
    then have "str_includes (toLowerCase text) k"
      using includes_append [OF k(2), of u "[]"] uv(1) by simp
    with free k(1) show False by (simp add: keyword_free_def no_keyword_def list_all_iff)
  qed
qed

section \<open>Texts with numbers in them\<close>

definition is_decimal :: "char \<Rightarrow> bool" where
  "is_decimal c = class_match digit_items c"

lemma digit_char_digit: "d < 10 \<Longrightarrow> is_decimal (digit_char d)"
  by (simp add: is_decimal_def digit_char_def class_match_def digit_items_def)

lemma nat_str_digits: "list_all is_decimal (nat_str n)"
  by (induction n rule: nat_str.induct) (subst nat_str.simps, simp add: digit_char_digit)

lemma nat_str_not_Nil: "nat_str n \<noteq> []"
  by (subst nat_str.simps) simp

lemma lower_digit: "is_decimal c \<Longrightarrow> lower_char c = c"
  by (auto simp: is_decimal_def class_match_def digit_items_def lower_char_def Let_def)

lemma toLowerCase_digits: "list_all is_decimal ds \<Longrightarrow> toLowerCase ds = ds"
  by (induction ds) (auto simp: toLowerCase_def lower_digit)

text \<open>A keyword without digits that occurs in \<open>s @ ds @ t\<close> occurs in \<open>s\<close> or in \<open>t\<close>.\<close>

lemma startsWith_cut: "startsWith (s @ d # t) k \<Longrightarrow> is_decimal d \<Longrightarrow>
    list_all (\<lambda>c. \<not> is_decimal c) k \<Longrightarrow> startsWith s k"
  by (induction s k rule: startsWith.induct) auto

lemma startsWith_append: "startsWith s k \<Longrightarrow> startsWith (s @ t) k"
  by (auto simp: startsWith_iff)

lemma includes_cut:
  assumes "is_decimal d" "list_all (\<lambda>c. \<not> is_decimal c) k" "k \<noteq> []"
  shows "str_includes (s @ d # t) k \<longleftrightarrow> str_includes s k \<or> str_includes t k"
proof (induction s)
  case Nil
  from assms have "\<not> startsWith (d # t) k" by (cases k) auto
  with assms(3) show ?case by simp
next
  case (Cons c s)
  have "startsWith (c # s @ d # t) k \<longleftrightarrow> startsWith (c # s) k"
    using startsWith_cut [of "c # s" d t k] assms(1,2) startsWith_append [of "c # s" k "d # t"] by auto
  with Cons show ?case by simp
qed

lemma keyword_chars: "list_all (\<lambda>k. k \<noteq> [] \<and> list_all (\<lambda>c. \<not> is_decimal c) k) unsafe_keywords"
  by (simp add: unsafe_keywords_def is_decimal_def class_match_def digit_items_def)

lemma toLowerCase_append: "toLowerCase (s @ t) = toLowerCase s @ toLowerCase t"
  by (simp add: toLowerCase_def)

lemma toLowerCase_Cons: "toLowerCase (c # s) = lower_char c # toLowerCase s"
  by (simp add: toLowerCase_def)

lemma keyword_free_digit: "is_decimal d \<Longrightarrow> keyword_free s \<Longrightarrow> keyword_free t \<Longrightarrow> keyword_free (s @ d # t)"
  using keyword_chars
  by (auto simp: keyword_free_def no_keyword_def list_all_iff toLowerCase_append toLowerCase_Cons lower_digit includes_cut)

lemma keyword_free_Nil: "keyword_free []"
  using keyword_chars by (auto simp: keyword_free_def no_keyword_def list_all_iff toLowerCase_def)

lemma keyword_free_digits:
  "list_all is_decimal ds \<Longrightarrow> ds \<noteq> [] \<Longrightarrow> keyword_free s \<Longrightarrow> keyword_free t \<Longrightarrow> keyword_free (s @ ds @ t)"
proof (induction ds arbitrary: s)
  case (Cons d ds)
  show ?case
  proof (cases "ds = []")
    case True
    with Cons.prems show ?thesis by (simp add: keyword_free_digit)
  next
    case False
    with Cons.IH [of "[]"] Cons.prems have "keyword_free (ds @ t)" by (simp add: keyword_free_Nil)
    with Cons.prems show ?thesis by (simp add: keyword_free_digit)
  qed
qed simp

lemma keyword_free_nat: "keyword_free s \<Longrightarrow> keyword_free t \<Longrightarrow> keyword_free (s @ nat_str n @ t)"
  by (rule keyword_free_digits [OF nat_str_digits nat_str_not_Nil])

end
