(* ===== verification/Slop.thy ===== *)
theory Slop
  imports Public_Safe "HOL-Library.Multiset"
begin

text \<open>
  The deterministic slop assessment of pull requests and issues, \<open>signals/slop.ts\<close>, with the
  commit pattern, the rationale pattern and the duplicate-cluster test it takes from
  \<open>signals/engine.ts\<close>. Line counts are exact integers and shares are exact quotients; the code
  divides doubles, which gives the same comparisons for all counts below \<open>2\<^sup>4\<^sup>7\<close>.
\<close>

section \<open>Input and result\<close>

datatype SlopBand = band_clean | band_low | band_elevated | band_high

record SlopChangedFile =
  sf_path :: string
  sf_additions :: "js_num option"
  sf_deletions :: "js_num option"

record SlopAssessmentInput =
  in_changedFiles :: "SlopChangedFile list option"
  in_tests :: "string list option"
  in_testFiles :: "string list option"
  in_description :: "string option"
  in_commitMessages :: "string list option"
  in_inDuplicateCluster :: "bool option"
  in_hasLinkedIssue :: "bool option"
  in_issueDiscoveryLane :: "bool option"

record SlopAssessment =
  sa_slopRisk :: nat
  sa_band :: SlopBand
  sa_findings :: "AdvisoryFinding list"

record SlopWeights =
  w_trivialWhitespaceChurn :: nat
  w_missingTestEvidence :: nat
  w_nonSubstantivePadding :: nat
  w_emptyDescription :: nat
  w_lowQualityCommitMessage :: nat
  w_duplicateClusterMembership :: nat
  w_noLinkedIssueWithoutRationale :: nat

definition SLOP_WEIGHTS :: SlopWeights where
  "SLOP_WEIGHTS =
     \<lparr>w_trivialWhitespaceChurn = 30, w_missingTestEvidence = 30, w_nonSubstantivePadding = 30,
      w_emptyDescription = 15, w_lowQualityCommitMessage = 15, w_duplicateClusterMembership = 15,
      w_noLinkedIssueWithoutRationale = 15\<rparr>"

definition MIN_CHURN_LINES :: nat where
  "MIN_CHURN_LINES = 40"

definition MAX_SOURCE_LINE_SHARE :: rat where
  "MAX_SOURCE_LINE_SHARE = 15 / 100"

definition PADDING_DOMINANCE_SHARE :: rat where
  "PADDING_DOMINANCE_SHARE = 1 / 2"

definition nonNegative :: "js_num option \<Rightarrow> nat" where
  "nonNegative value =
     (case value of
        Some (Finite r) \<Rightarrow> if r > 0 then nat (js_trunc r) else 0
      | _ \<Rightarrow> 0)"

definition ensurePublicSafeText :: "string \<Rightarrow> string \<Rightarrow> string" where
  "ensurePublicSafeText text fallback = (if isFocusManifestPublicSafe text then text else fallback)"

definition slopBandFor :: "nat \<Rightarrow> SlopBand" where
  "slopBandFor risk =
     (if risk = 0 then band_clean
      else if risk < 25 then band_low
      else if risk < 60 then band_elevated
      else band_high)"

definition file_lines :: "SlopChangedFile \<Rightarrow> nat" where
  "file_lines file = nonNegative (sf_additions file) + nonNegative (sf_deletions file)"

section \<open>Trivial churn\<close>

record LineTotals =
  lt_changed :: nat
  lt_source :: nat
  lt_test :: nat
  lt_nonCode :: nat

definition summarizeChangedLines :: "SlopChangedFile list \<Rightarrow> LineTotals" where
  "summarizeChangedLines changedFiles =
     (let changedLineCount = sum_list (map file_lines changedFiles);
          sourceLineCount = sum_list (map file_lines (filter (\<lambda>f. isCodeFile (sf_path f)) changedFiles));
          testLineCount = sum_list (map file_lines (filter (\<lambda>f. isTestFile (sf_path f)) changedFiles))
      in \<lparr>lt_changed = changedLineCount, lt_source = sourceLineCount, lt_test = testLineCount,
          lt_nonCode = changedLineCount - sourceLineCount - testLineCount\<rparr>)"

definition buildTrivialChurnFinding :: "nat \<Rightarrow> nat \<Rightarrow> AdvisoryFinding" where
  "buildTrivialChurnFinding changedLineCount nonCodeLineCount =
     (let detail = ensurePublicSafeText
            (''The diff churns '' @ nat_str changedLineCount @ '' line(s) with only ''
             @ nat_str (changedLineCount - nonCodeLineCount) @ '' substantive source line(s) touched.'')
            ''The diff shows high churn with minimal substantive source changes.'';
          action = ensurePublicSafeText
            ''Reduce whitespace-only or formatting-only churn and keep the diff focused on substantive changes.''
            ''Reduce formatting-only churn and keep the diff focused on substantive changes.''
      in finding ''trivial_whitespace_churn'' warning ''Diff looks like trivial or whitespace-only churn''
           detail (Some action) (Some detail))"

definition buildTrivialWhitespaceChurnFinding :: "SlopAssessmentInput \<Rightarrow> AdvisoryFinding option" where
  "buildTrivialWhitespaceChurnFinding input =
     (let lineTotals = summarizeChangedLines (nullish (in_changedFiles input) [])
      in if lt_changed lineTotals < MIN_CHURN_LINES then None
         else if lt_source lineTotals = 0
         then Some (buildTrivialChurnFinding (lt_changed lineTotals) (lt_nonCode lineTotals))
         else if (of_nat (lt_source lineTotals) / of_nat (lt_changed lineTotals) :: rat) > MAX_SOURCE_LINE_SHARE
         then None
         else Some (buildTrivialChurnFinding (lt_changed lineTotals) (lt_nonCode lineTotals)))"

section \<open>Padding\<close>

record PaddingTotals =
  pt_changed :: nat
  pt_padding :: nat
  pt_substantive :: nat

definition padding_step :: "SlopChangedFile \<Rightarrow> PaddingTotals \<Rightarrow> PaddingTotals" where
  "padding_step file t =
     (let lines = file_lines file; category = classifyChangedFile (sf_path file)
      in if lines = 0 then t
         else if category \<in> {cat_minified, cat_generated, cat_vendored}
         then t\<lparr>pt_changed := pt_changed t + lines, pt_padding := pt_padding t + lines\<rparr>
         else if category \<in> {cat_source, cat_test}
         then t\<lparr>pt_changed := pt_changed t + lines, pt_substantive := pt_substantive t + lines\<rparr>
         else t\<lparr>pt_changed := pt_changed t + lines\<rparr>)"

definition summarizePaddingLines :: "SlopChangedFile list \<Rightarrow> PaddingTotals" where
  "summarizePaddingLines changedFiles =
     fold padding_step changedFiles \<lparr>pt_changed = 0, pt_padding = 0, pt_substantive = 0\<rparr>"

definition buildPaddingFinding :: "nat \<Rightarrow> nat \<Rightarrow> AdvisoryFinding" where
  "buildPaddingFinding changedLineCount paddingLineCount =
     (let detail = nat_str paddingLineCount @ '' of '' @ nat_str changedLineCount
            @ '' changed line(s) are in generated, vendored, or minified files with little substantive source.''
      in finding ''non_substantive_padding'' warning ''Diff is mostly generated, vendored, or minified output''
           detail
           (Some ''Exclude generated, vendored, and minified output and keep the diff focused on substantive changes.'')
           (Some detail))"

definition buildNonSubstantivePaddingFinding :: "SlopAssessmentInput \<Rightarrow> AdvisoryFinding option" where
  "buildNonSubstantivePaddingFinding input =
     (let totals = summarizePaddingLines (nullish (in_changedFiles input) [])
      in if pt_changed totals < MIN_CHURN_LINES then None
         else if pt_padding totals = 0 then None
         else if (of_nat (pt_padding totals) / of_nat (pt_changed totals) :: rat) < PADDING_DOMINANCE_SHARE then None
         else if (of_nat (pt_substantive totals) / of_nat (pt_changed totals) :: rat) > MAX_SOURCE_LINE_SHARE then None
         else Some (buildPaddingFinding (pt_changed totals) (pt_padding totals)))"

section \<open>Description, tests, commit message\<close>

definition buildEmptyDescriptionFinding :: "SlopAssessmentInput \<Rightarrow> AdvisoryFinding option" where
  "buildEmptyDescriptionFinding input =
     (let codeFileCount = length (filter (\<lambda>f. sf_path f \<noteq> [] \<and> isCodeFile (sf_path f))
            (nullish (in_changedFiles input) []))
      in if codeFileCount = 0 then None
         else if trim (nullish (in_description input) []) \<noteq> [] then None
         else let detail = ensurePublicSafeText
                    (nat_str codeFileCount @ '' code file(s) changed with an empty pull request description.'')
                    ''Code changed with an empty pull request description.''
              in Some (finding ''empty_pr_description'' warning ''Code change has no description'' detail
                   (Some ''Describe what changed and why so reviewers can evaluate it.'') (Some detail)))"

definition buildMissingTestEvidenceFinding :: "SlopAssessmentInput \<Rightarrow> AdvisoryFinding option" where
  "buildMissingTestEvidenceFinding input =
     (let changedPaths = filter (\<lambda>p. p \<noteq> []) (map sf_path (nullish (in_changedFiles input) []));
          codePaths = filter isCodeFile changedPaths
      in if codePaths = [] then None
         else if list_ex (\<lambda>path. isTestFile path \<or> isTestPath path) changedPaths
              \<or> hasLocalTestEvidence (in_tests input) (in_testFiles input) then None
         else let detail = ensurePublicSafeText
                    (''Changed paths include '' @ nat_str (length codePaths)
                     @ '' code file(s) without accompanying test evidence.'')
                    ''Code changes were detected without accompanying test evidence.'';
                  action = ensurePublicSafeText
                    ''Add focused regression tests or explain why existing coverage is sufficient.''
                    ''Add focused tests or explain why existing coverage is sufficient.''
              in Some (finding ''missing_test_evidence'' warning ''Code changes lack test evidence'' detail
                   (Some action) (Some detail)))"

definition GENERIC_COMMIT_PATTERN :: rx where
  "GENERIC_COMMIT_PATTERN = Seq [Bol,
     Alt [Seq [Alt
       [Lit ''wip'',
        Seq [Lit ''fix'', Opt (Alt [Lit ''es'', Lit ''ed'', Lit ''ing''])],
        Seq [Lit ''updat'', Alt [Lit ''e'', Lit ''es'', Lit ''ed'', Lit ''ing'']],
        Seq [Lit ''change'', Opt (Oneof [One CHR ''s'', One CHR ''d''])],
        Seq [Lit ''edit'', Opt (Oneof [One CHR ''s'', One CHR ''d''])],
        Lit ''patch'', Lit ''minor'',
        Seq [Lit ''tweak'', Opt (Oneof [One CHR ''s'', One CHR ''d''])],
        Lit ''misc'', Lit ''cleanup'', Lit ''chore'', Lit ''stuff'', Lit ''temp'', Lit ''tmp'', Lit ''test'',
        Lit ''final'', Lit ''done'', Lit ''commit'', Seq [Lit ''asd'', Plus (Lit ''f'')]], Wordb],
      Plus (Lit ''.'')],
     Many (Oneof (space_items @ [One CHR ''.'', One CHR ''!''])), Eol]"

definition buildLowQualityCommitMessageFinding :: "SlopAssessmentInput \<Rightarrow> AdvisoryFinding option" where
  "buildLowQualityCommitMessageFinding input =
     (case in_commitMessages input of
        None \<Rightarrow> None
      | Some commitMessages \<Rightarrow>
          if commitMessages = [] then None
          else (let messages = filter (\<lambda>m. m \<noteq> []) (map trim commitMessages);
                    primary = (case messages of [] \<Rightarrow> None | m # _ \<Rightarrow> Some m)
                in if (case primary of None \<Rightarrow> False | Some m \<Rightarrow> \<not> rx_test_i GENERIC_COMMIT_PATTERN m) then None
                   else let detail = (if primary = None then ''The commit message is empty.''
                          else ''The commit message is generic (e.g. wip / fix / update) with no specific detail.'')
                        in Some (finding ''low_quality_commit_message'' warning
                             ''Commit message is generic or empty'' detail
                             (Some ''Write a specific commit subject that names what changed and why (a Conventional Commit like 'feat(api): add cursor pagination' works well).'')
                             (Some detail))))"

section \<open>Duplicates and linked issues\<close>

definition isPullRequestInDuplicateCluster :: "CollisionCluster list \<Rightarrow> nat \<Rightarrow> bool" where
  "isPullRequestInDuplicateCluster clusters pullNumber =
     list_ex (\<lambda>cluster. cl_risk cluster = Risk_high
       \<and> length (filter (\<lambda>item. item_type item = Item_pull_request) (cl_items cluster)) \<ge> 2
       \<and> list_ex (\<lambda>item. item_type item = Item_pull_request \<and> item_number item = pullNumber) (cl_items cluster))
       clusters"

definition buildDuplicateClusterFinding :: "SlopAssessmentInput \<Rightarrow> AdvisoryFinding option" where
  "buildDuplicateClusterFinding input =
     (if in_inDuplicateCluster input \<noteq> Some True then None
      else let detail = ''This pull request overlaps a high-risk cluster of other open pull requests doing similar work.''
           in Some (finding ''duplicate_cluster_membership'' warning
                ''Pull request duplicates other open work'' detail
                (Some ''Check for an existing pull request or issue covering this change and coordinate or consolidate before continuing.'')
                (Some detail)))"

definition no_issue_phrase :: "string \<Rightarrow> rx" where
  "no_issue_phrase w = Seq [Lit w, Many (Oneof space_items), Alt [Seq [Lit ''because'', Wordb], Lit '':'']]"

definition NO_ISSUE_RATIONALE :: rx where
  "NO_ISSUE_RATIONALE = Seq [Wordb, Alt
     [no_issue_phrase ''no issue'', no_issue_phrase ''no linked issue'', no_issue_phrase ''no ticket'',
      Seq [Alt [Lit ''maintenance'', Seq [Lit ''doc'', Opt (Lit ''s''), Lit '' only''], Lit ''typo'',
        Lit ''chore'', Lit ''cleanup''], Wordb]]]"

definition hasClearNoIssueRationale :: "string \<Rightarrow> string option \<Rightarrow> bool" where
  "hasClearNoIssueRationale title body = rx_test_i NO_ISSUE_RATIONALE (join '' '' [title, nullish body []])"

definition buildNoLinkedIssueRationaleFinding :: "SlopAssessmentInput \<Rightarrow> AdvisoryFinding option" where
  "buildNoLinkedIssueRationaleFinding input =
     (if in_hasLinkedIssue input \<noteq> Some False then None
      else if in_issueDiscoveryLane input = Some True then None
      else if hasClearNoIssueRationale [] (Some (nullish (in_description input) [])) then None
      else let detail = ''This pull request links no issue and gives no rationale for working without one.''
           in Some (finding ''no_linked_issue_without_rationale'' warning ''No linked issue and no rationale'' detail
                (Some ''Link the issue this addresses, or explain in the description why no issue applies (e.g. a typo, docs-only, or maintenance change).'')
                (Some detail)))"

section \<open>The assessment of a pull request\<close>

definition weigh :: "AdvisoryFinding option \<Rightarrow> nat \<Rightarrow> nat" where
  "weigh f w = (if f = None then 0 else w)"

definition buildSlopAssessment :: "SlopAssessmentInput \<Rightarrow> SlopAssessment" where
  "buildSlopAssessment input =
     (let churn = buildTrivialWhitespaceChurnFinding input;
          tests = buildMissingTestEvidenceFinding input;
          padding = buildNonSubstantivePaddingFinding input;
          description = buildEmptyDescriptionFinding input;
          commit = buildLowQualityCommitMessageFinding input;
          duplicate = buildDuplicateClusterFinding input;
          unlinked = buildNoLinkedIssueRationaleFinding input;
          risk = min 100 (weigh churn (w_trivialWhitespaceChurn SLOP_WEIGHTS)
            + weigh tests (w_missingTestEvidence SLOP_WEIGHTS)
            + weigh padding (w_nonSubstantivePadding SLOP_WEIGHTS)
            + weigh description (w_emptyDescription SLOP_WEIGHTS)
            + weigh commit (w_lowQualityCommitMessage SLOP_WEIGHTS)
            + weigh duplicate (w_duplicateClusterMembership SLOP_WEIGHTS)
            + weigh unlinked (w_noLinkedIssueWithoutRationale SLOP_WEIGHTS))
      in \<lparr>sa_slopRisk = risk, sa_band = slopBandFor risk,
          sa_findings = opt_list churn @ opt_list tests @ opt_list padding @ opt_list description
            @ opt_list commit @ opt_list duplicate @ opt_list unlinked\<rparr>)"

section \<open>The assessment of an issue\<close>

record IssueSlopAssessmentInput =
  issue_title :: "string option"
  issue_body :: "string option"

definition unfilledTemplate_weight :: nat where
  "unfilledTemplate_weight = 50"

definition emptyBody_weight :: nat where
  "emptyBody_weight = 40"

definition buildEmptyIssueBodyFinding :: "IssueSlopAssessmentInput \<Rightarrow> AdvisoryFinding option" where
  "buildEmptyIssueBodyFinding input =
     (if trim (nullish (issue_body input) []) \<noteq> [] then None
      else let detail = ''This issue was opened with an empty body.''
           in Some (finding ''empty_issue_body'' warning ''Issue has no description'' detail
                (Some ''Add a clear description: what is wrong, where, and why it matters.'') (Some detail)))"

text \<open>The text before the first occurrence of \<open>t\<close>, and the text from there on.\<close>

fun split_at :: "string \<Rightarrow> string \<Rightarrow> (string \<times> string) option" where
  "split_at t [] = None"
| "split_at t (c # s) =
     (if startsWith (c # s) t then Some ([], c # s)
      else map_option (\<lambda>(a, r). (c # a, r)) (split_at t s))"

lemma split_at_SomeD: "split_at t s = Some (a, r) \<Longrightarrow> s = a @ r \<and> r \<noteq> [] \<and> startsWith r t"
  by (induction s arbitrary: a) (auto split: if_splits)

lemma split_at_shorter: "split_at t s = Some (a, r) \<Longrightarrow> length r \<le> length s \<and> 0 < length r"
  by (auto dest: split_at_SomeD)

function stripHtmlComments :: "string \<Rightarrow> string" where
  "stripHtmlComments s =
     (case split_at ''<!--'' s of
        None \<Rightarrow> s
      | Some (before, rest) \<Rightarrow>
          (case split_at ''-->'' (drop 4 rest) of
             None \<Rightarrow> before @ rest
           | Some (_, close) \<Rightarrow> before @ stripHtmlComments (drop 3 close)))"
  by pat_completeness auto
termination
proof (relation "measure length")
  fix s a before rest b skipped close
  assume "split_at ''<!--'' s = Some a" "(before, rest) = a"
    "split_at ''-->'' (drop 4 rest) = Some b" "(skipped, close) = b"
  then have "length rest \<le> length s" "length close \<le> length rest - 4" "0 < length close"
    using split_at_shorter [of _ s before rest] split_at_shorter [of _ "drop 4 rest" skipped close] by auto
  then show "(drop 3 close, s) \<in> measure length" unfolding in_measure length_drop by linarith
qed simp


declare stripHtmlComments.simps [simp del]

definition HEADING_LINE :: rx where
  "HEADING_LINE = Seq [Bolm, Repeat 1 5 (Lit ''#''), Oneof space_items, Many Dot, Eolm]"

definition EMPTY_BULLET :: rx where
  "EMPTY_BULLET = Seq [Bolm, Many (Oneof space_items), Oneof [One CHR ''-'', One CHR ''*''],
     Many (Oneof space_items),
     Opt (Seq [Lit ''['', Oneof [One CHR '' '', One CHR ''x'', One CHR ''X''], Lit '']'']),
     Many (Oneof space_items), Eolm]"

definition RESIDUAL_MARKUP :: rx where
  "RESIDUAL_MARKUP = Oneof (space_items @ map One [CHR ''>'', CHR ''#'', CHR ''*'', CHR ''_'', CHR 0x60, CHR ''+'', CHR ''-''])"

definition template_substance :: "string \<Rightarrow> string" where
  "template_substance body =
     trim (replace_all RESIDUAL_MARKUP [] (replace_all EMPTY_BULLET []
       (replace_all HEADING_LINE [] (stripHtmlComments body))))"

definition buildUnfilledIssueTemplateFinding :: "IssueSlopAssessmentInput \<Rightarrow> AdvisoryFinding option" where
  "buildUnfilledIssueTemplateFinding input =
     (let body = trim (nullish (issue_body input) [])
      in if body = [] then None
         else if template_substance body \<noteq> [] then None
         else let detail = ''The issue body contains only an unfilled template (headings or comment placeholders, no details).''
              in Some (finding ''unfilled_issue_template'' warning ''Issue template left unfilled'' detail
                   (Some ''Fill in the template sections with the actual problem details.'') (Some detail)))"

definition buildIssueSlopAssessment :: "IssueSlopAssessmentInput \<Rightarrow> SlopAssessment" where
  "buildIssueSlopAssessment input =
     (let emptyBody = buildEmptyIssueBodyFinding input;
          unfilled = (if emptyBody \<noteq> None then None else buildUnfilledIssueTemplateFinding input);
          risk = min 100 (weigh emptyBody emptyBody_weight + weigh unfilled unfilledTemplate_weight)
      in \<lparr>sa_slopRisk = risk, sa_band = slopBandFor risk, sa_findings = opt_list unfilled @ opt_list emptyBody\<rparr>)"

section \<open>Each finding has its code and a safe text\<close>

lemmas slop_finders = buildTrivialWhitespaceChurnFinding_def buildMissingTestEvidenceFinding_def
  buildNonSubstantivePaddingFinding_def buildEmptyDescriptionFinding_def
  buildLowQualityCommitMessageFinding_def buildDuplicateClusterFinding_def
  buildNoLinkedIssueRationaleFinding_def buildTrivialChurnFinding_def buildPaddingFinding_def

definition public_safe_finding :: "AdvisoryFinding \<Rightarrow> bool" where
  "public_safe_finding f \<longleftrightarrow> isFocusManifestPublicSafe (f_title f) \<and> isFocusManifestPublicSafe (f_detail f)
     \<and> isFocusManifestPublicSafe (nullish (f_action f) []) \<and> isFocusManifestPublicSafe (nullish (f_publicText f) [])"

lemma ensure_safe: "isFocusManifestPublicSafe fallback \<Longrightarrow> isFocusManifestPublicSafe (ensurePublicSafeText text fallback)"
  by (simp add: ensurePublicSafeText_def)

text \<open>What \<open>f\<close> may be: nothing, or a safe finding with the code \<open>c\<close>.\<close>

definition signal :: "string \<Rightarrow> AdvisoryFinding option \<Rightarrow> bool" where
  "signal c f \<longleftrightarrow> (case f of None \<Rightarrow> True | Some x \<Rightarrow> f_code x = c \<and> public_safe_finding x)"

lemma safe_static: "keyword_free t \<Longrightarrow> isFocusManifestPublicSafe t"
  by (rule public_safe_if_no_keyword)

lemma signal_churn: "signal ''trivial_whitespace_churn'' (buildTrivialWhitespaceChurnFinding input)"
proof -
  have "signal ''trivial_whitespace_churn'' (Some (buildTrivialChurnFinding m n))" for m n
    unfolding signal_def public_safe_finding_def buildTrivialChurnFinding_def Let_def option.case finding_sel nullish_simps
    by (intro conjI ensure_safe safe_static refl) code_simp+
  then show ?thesis by (simp add: buildTrivialWhitespaceChurnFinding_def Let_def signal_def)
qed

lemma signal_tests: "signal ''missing_test_evidence'' (buildMissingTestEvidenceFinding input)"
proof -
  have "public_safe_finding (finding c warning ''Code changes lack test evidence''
      (ensurePublicSafeText d ''Code changes were detected without accompanying test evidence.'')
      (Some (ensurePublicSafeText e ''Add focused tests or explain why existing coverage is sufficient.''))
      (Some (ensurePublicSafeText d ''Code changes were detected without accompanying test evidence.'')))" for c d e
    unfolding public_safe_finding_def finding_sel nullish_simps
    by (intro conjI ensure_safe safe_static) code_simp+
  then show ?thesis by (simp add: buildMissingTestEvidenceFinding_def Let_def signal_def)
qed

lemma safe_padding_detail: "isFocusManifestPublicSafe (nat_str m @ '' of '' @ nat_str n
    @ '' changed line(s) are in generated, vendored, or minified files with little substantive source.'')"
proof (rule public_safe_if_no_keyword)
  have k: "keyword_free '' changed line(s) are in generated, vendored, or minified files with little substantive source.''"
    by code_simp
  have of: "keyword_free '' of ''" by code_simp
  have "keyword_free ('' of '' @ nat_str n
      @ '' changed line(s) are in generated, vendored, or minified files with little substantive source.'')"
    by (rule keyword_free_nat [OF of k])
  from keyword_free_nat [OF keyword_free_Nil this, of m]
  show "keyword_free (nat_str m @ '' of '' @ nat_str n
      @ '' changed line(s) are in generated, vendored, or minified files with little substantive source.'')"
    by simp
qed

lemma signal_padding: "signal ''non_substantive_padding'' (buildNonSubstantivePaddingFinding input)"
proof -
  have "signal ''non_substantive_padding'' (Some (buildPaddingFinding m n))" for m n
    unfolding signal_def public_safe_finding_def buildPaddingFinding_def Let_def option.case finding_sel nullish_simps
    by (intro conjI safe_padding_detail safe_static refl) code_simp+
  then show ?thesis by (simp add: buildNonSubstantivePaddingFinding_def Let_def signal_def)
qed

lemma signal_description: "signal ''empty_pr_description'' (buildEmptyDescriptionFinding input)"
proof -
  have "public_safe_finding (finding c warning ''Code change has no description''
      (ensurePublicSafeText d ''Code changed with an empty pull request description.'')
      (Some ''Describe what changed and why so reviewers can evaluate it.'')
      (Some (ensurePublicSafeText d ''Code changed with an empty pull request description.'')))" for c d
    unfolding public_safe_finding_def finding_sel nullish_simps
    by (intro conjI ensure_safe safe_static) code_simp+
  then show ?thesis by (simp add: buildEmptyDescriptionFinding_def Let_def signal_def)
qed

lemma signal_duplicate: "signal ''duplicate_cluster_membership'' (buildDuplicateClusterFinding input)"
  unfolding signal_def public_safe_finding_def buildDuplicateClusterFinding_def Let_def
  by (simp, intro impI conjI safe_static) code_simp+

lemma signal_unlinked: "signal ''no_linked_issue_without_rationale'' (buildNoLinkedIssueRationaleFinding input)"
  unfolding signal_def public_safe_finding_def buildNoLinkedIssueRationaleFinding_def Let_def
  by (simp, intro impI conjI safe_static) code_simp+

lemma signal_commit: "signal ''low_quality_commit_message'' (buildLowQualityCommitMessageFinding input)"
proof -
  have "public_safe_finding (finding c warning ''Commit message is generic or empty'' (if b then ''The commit message is empty.''
      else ''The commit message is generic (e.g. wip / fix / update) with no specific detail.'')
      (Some ''Write a specific commit subject that names what changed and why (a Conventional Commit like 'feat(api): add cursor pagination' works well).'')
      (Some (if b then ''The commit message is empty.''
      else ''The commit message is generic (e.g. wip / fix / update) with no specific detail.'')))" for b c
    unfolding public_safe_finding_def finding_sel nullish_simps
    by (cases b; simp only: if_True if_False; intro conjI safe_static) code_simp+
  then show ?thesis
    by (simp add: buildLowQualityCommitMessageFinding_def Let_def signal_def split: option.split)
qed

lemmas slop_signals = signal_churn signal_tests signal_padding signal_description signal_commit
  signal_duplicate signal_unlinked

section \<open>Risk and findings\<close>

definition slop_weight :: "string \<Rightarrow> nat" where
  "slop_weight c =
     (if c \<in> {''trivial_whitespace_churn'', ''missing_test_evidence'', ''non_substantive_padding''} then 30 else 15)"

definition total_weight :: "AdvisoryFinding list \<Rightarrow> nat" where
  "total_weight fs = sum_list (map (\<lambda>f. slop_weight (f_code f)) fs)"

lemma total_weight_append: "total_weight (fs @ gs) = total_weight fs + total_weight gs"
  by (simp add: total_weight_def)

lemma total_weight_signal: "signal c f \<Longrightarrow> total_weight (opt_list f) = weigh f (slop_weight c)"
  by (cases f) (simp_all add: total_weight_def signal_def opt_list_def weigh_def)

lemma total_weight_bound: "total_weight fs \<le> 30 * length fs"
  by (induction fs) (auto simp: total_weight_def slop_weight_def)

lemma signal_safe: "signal c f \<Longrightarrow> list_all public_safe_finding (opt_list f)"
  by (cases f) (simp_all add: signal_def opt_list_def)

lemma slop_risk_total: "sa_slopRisk (buildSlopAssessment input) = min 100 (total_weight (sa_findings (buildSlopAssessment input)))"
  unfolding buildSlopAssessment_def Let_def
  by (simp add: total_weight_append slop_signals [THEN total_weight_signal] SLOP_WEIGHTS_def slop_weight_def)

lemma codes_signal: "signal c f \<Longrightarrow> map f_code (opt_list f) = (if f = None then [] else [c])"
  by (cases f) (simp_all add: signal_def opt_list_def)

lemma slop_codes_distinct: "distinct (map f_code (sa_findings (buildSlopAssessment input)))"
  unfolding buildSlopAssessment_def Let_def
  by (simp add: slop_signals [THEN codes_signal])

text \<open>
  The slop risk of a pull request is the weight of its findings capped at 100, each finding
  counted once; the band is high exactly from 60 points on, so one finding, whatever it is,
  never makes the band high, and no finding at all is the band clean.
\<close>

theorem slop_risk_explained:
  "let a = buildSlopAssessment input in
     sa_slopRisk a = min 100 (total_weight (sa_findings a)) \<and> distinct (map f_code (sa_findings a)) \<and>
     (sa_band a = band_high \<longleftrightarrow> 60 \<le> sa_slopRisk a) \<and> (sa_band a = band_clean \<longleftrightarrow> sa_findings a = []) \<and>
     \<not> (sa_band a = band_high \<and> length (sa_findings a) < 2)"
proof -
  let ?a = "buildSlopAssessment input"
  have band: "sa_band ?a = slopBandFor (sa_slopRisk ?a)" by (simp add: buildSlopAssessment_def Let_def)
  then have high: "sa_band ?a = band_high \<longleftrightarrow> 60 \<le> sa_slopRisk ?a" by (simp add: slopBandFor_def)
  have "sa_band ?a = band_clean \<longleftrightarrow> total_weight (sa_findings ?a) = 0"
    by (simp add: band slopBandFor_def slop_risk_total)
  then have clean: "sa_band ?a = band_clean \<longleftrightarrow> sa_findings ?a = []"
    by (cases "sa_findings ?a") (simp_all add: total_weight_def slop_weight_def)
  have "2 \<le> length (sa_findings ?a)" if "sa_band ?a = band_high"
    using that high total_weight_bound [of "sa_findings ?a"] slop_risk_total [of input] by simp
  with high clean slop_risk_total slop_codes_distinct show ?thesis by (fastforce simp: Let_def)
qed

text \<open>
  Everything a slop finding says in public passes the redaction guard. The texts are fixed
  but for line counts, and the padding text, which the code does not guard, is safe for every
  pair of numbers.
\<close>

theorem slop_findings_public_safe:
  "list_all public_safe_finding (sa_findings (buildSlopAssessment input))"
  unfolding buildSlopAssessment_def Let_def
  by (simp add: slop_signals [THEN signal_safe])

section \<open>The order of the changed files does not matter\<close>

lemma sum_list_mset: "mset (xs :: nat list) = mset ys \<Longrightarrow> sum_list xs = sum_list ys"
  by (metis sum_mset_sum_list)

lemma lines_mset: "mset fs = mset gs \<Longrightarrow>
    sum_list (map file_lines (filter P fs)) = sum_list (map file_lines (filter P gs))"
  by (rule sum_list_mset) simp

lemma count_mset: "mset fs = mset gs \<Longrightarrow> length (filter P fs) = length (filter P gs)"
  by (metis mset_eq_length mset_filter)

lemma padding_step_commute: "padding_step a (padding_step b t) = padding_step b (padding_step a t)"
  by (simp add: padding_step_def Let_def)

lemma fold_padding_mset: "mset fs = mset gs \<Longrightarrow> fold padding_step fs = fold padding_step gs"
  by (rule fold_multiset_equiv) (auto simp: padding_step_commute)

lemma summaries_mset:
  assumes "mset fs = mset gs"
  shows "summarizeChangedLines fs = summarizeChangedLines gs" "summarizePaddingLines fs = summarizePaddingLines gs"
  using lines_mset [OF assms, of "\<lambda>_. True"] lines_mset [OF assms] fold_padding_mset [OF assms]
  by (simp_all add: summarizeChangedLines_def summarizePaddingLines_def)

lemma tests_finding_mset:
  assumes "mset fs = mset gs"
  shows "buildMissingTestEvidenceFinding (input\<lparr>in_changedFiles := Some fs\<rparr>)
    = buildMissingTestEvidenceFinding (input\<lparr>in_changedFiles := Some gs\<rparr>)"
proof -
  have "mset (map sf_path fs) = mset (map sf_path gs)" using assms by simp
  then have paths: "mset (filter P (map sf_path fs)) = mset (filter P (map sf_path gs))" for P by simp
  let ?ps = "filter (\<lambda>p. p \<noteq> []) (map sf_path fs)" and ?qs = "filter (\<lambda>p. p \<noteq> []) (map sf_path gs)"
  have code: "length (filter isCodeFile ?ps) = length (filter isCodeFile ?qs)"
    by (rule count_mset [OF paths])
  then have none: "filter isCodeFile ?ps = [] \<longleftrightarrow> filter isCodeFile ?qs = []"
    by (metis length_0_conv)
  have some: "list_ex P ?ps = list_ex P ?qs" for P
    using mset_eq_setD [OF paths] by (simp add: list_ex_iff)
  show ?thesis
    unfolding buildMissingTestEvidenceFinding_def
    by (simp add: code none some Let_def del: filter_filter)
qed

text \<open>
  The assessment of a pull request does not depend on the order in which GitHub lists its
  changed files.
\<close>

theorem slop_order_irrelevant:
  assumes "mset fs = mset gs"
  shows "buildSlopAssessment (input\<lparr>in_changedFiles := Some fs\<rparr>) = buildSlopAssessment (input\<lparr>in_changedFiles := Some gs\<rparr>)"
proof -
  let ?f = "input\<lparr>in_changedFiles := Some fs\<rparr>" and ?g = "input\<lparr>in_changedFiles := Some gs\<rparr>"
  have "buildTrivialWhitespaceChurnFinding ?f = buildTrivialWhitespaceChurnFinding ?g"
    "buildNonSubstantivePaddingFinding ?f = buildNonSubstantivePaddingFinding ?g"
    by (simp_all add: buildTrivialWhitespaceChurnFinding_def buildNonSubstantivePaddingFinding_def summaries_mset [OF assms])
  moreover have "buildEmptyDescriptionFinding ?f = buildEmptyDescriptionFinding ?g"
    by (simp add: buildEmptyDescriptionFinding_def count_mset [OF assms])
  moreover have "buildLowQualityCommitMessageFinding ?f = buildLowQualityCommitMessageFinding ?g"
    "buildDuplicateClusterFinding ?f = buildDuplicateClusterFinding ?g"
    "buildNoLinkedIssueRationaleFinding ?f = buildNoLinkedIssueRationaleFinding ?g"
    by (simp_all add: buildLowQualityCommitMessageFinding_def buildDuplicateClusterFinding_def
        buildNoLinkedIssueRationaleFinding_def)
  ultimately show ?thesis by (simp add: buildSlopAssessment_def tests_finding_mset [OF assms])
qed

definition plain_input :: SlopAssessmentInput where
  "plain_input = \<lparr>in_changedFiles = None, in_tests = None, in_testFiles = None, in_description = Some ''d'',
     in_commitMessages = None, in_inDuplicateCluster = None, in_hasLinkedIssue = None,
     in_issueDiscoveryLane = None\<rparr>"

definition plain_file :: "string \<Rightarrow> SlopChangedFile" where
  "plain_file p = \<lparr>sf_path = p, sf_additions = Some (Finite 50), sf_deletions = None\<rparr>"

theorem slop_order_irrelevant_witness:
  "buildSlopAssessment (plain_input\<lparr>in_changedFiles := Some [plain_file ''a.ts'', plain_file ''b.min.js'']\<rparr>)
   = buildSlopAssessment (plain_input\<lparr>in_changedFiles := Some [plain_file ''b.min.js'', plain_file ''a.ts'']\<rparr>)"
  by (rule slop_order_irrelevant) simp

end
