(* ===== verification/Auto_Tune.thy ===== *)
theory Auto_Tune
  imports Js_Regex
begin

text \<open>
  The accuracy circuit breaker and the tuning advisor, \<open>review/auto-tune.ts\<close>, with the evaluation
  row \<open>review/selftune-wire.ts\<close> feeds it. Precisions are exact quotients. The flag store is an
  interface whose implementation the host supplies, so its operations are the fields of a record;
  a read or a write that throws is \<open>Inl\<close> its message. \<open>Date.parse\<close> and the collation of
  \<open>localeCompare\<close> are arguments.
\<close>

section \<open>The evaluation report\<close>

record GateEvalRow =
  ev_project :: string
  ev_wouldMerge :: nat
  ev_mergeConfirmed :: nat
  ev_mergeFalse :: nat
  ev_wouldClose :: nat
  ev_closeConfirmed :: nat
  ev_closeFalse :: nat
  ev_hold :: nat
  ev_decided :: nat
  ev_mergePrecision :: "rat option"
  ev_closePrecision :: "rat option"

record GateEvalReport =
  rep_rows :: "GateEvalRow list"
  rep_hasSignal :: bool

definition evalRowFromCalibration :: "string \<Rightarrow> nat \<Rightarrow> nat \<Rightarrow> GateEvalRow" where
  "evalRowFromCalibration project positive negative =
     (let wouldMerge = positive + negative
      in \<lparr>ev_project = project, ev_wouldMerge = wouldMerge, ev_mergeConfirmed = positive,
          ev_mergeFalse = negative, ev_wouldClose = 0, ev_closeConfirmed = 0, ev_closeFalse = 0, ev_hold = 0,
          ev_decided = wouldMerge,
          ev_mergePrecision = (if wouldMerge > 0 then Some (of_nat positive / of_nat wouldMerge) else None),
          ev_closePrecision = None\<rparr>)"

text \<open>\<open>/^(1|true|yes|on)$/i\<close> on the environment variable.\<close>

definition isSelfTuneEnabled :: "string option \<Rightarrow> bool" where
  "isSelfTuneEnabled GITTENSORY_REVIEW_SELFTUNE =
     rx_test_i (Seq [Bol, Alt [Lit ''1'', Lit ''true'', Lit ''yes'', Lit ''on''], Eol])
       (nullish GITTENSORY_REVIEW_SELFTUNE [])"

section \<open>The circuit breaker\<close>

record 'h FlagStore =
  isHoldOnly :: "'h \<Rightarrow> string \<Rightarrow> string + bool"
  setFlag :: "'h \<Rightarrow> string \<Rightarrow> bool \<Rightarrow> string + 'h"
  flagSetAt :: "'h \<Rightarrow> string \<Rightarrow> string + string option"

definition AUTOTUNE_MIN_DECIDED :: nat where
  "AUTOTUNE_MIN_DECIDED = 10"

definition AUTOTUNE_MERGE_PRECISION_FLOOR :: rat where
  "AUTOTUNE_MERGE_PRECISION_FLOOR = 85 / 100"

definition AUTOCLEAR_AFTER_MS :: int where
  "AUTOCLEAR_AFTER_MS = 24 * 60 * 60 * 1000"

record AutoTuneAction =
  at_project :: string
  at_mergePrecision :: rat
  at_decided :: nat
  at_message :: string

definition percent :: "rat \<Rightarrow> string" where
  "percent x = int_str (js_round (x * 100)) @ ''%''"

definition breaker_message :: "string \<Rightarrow> rat \<Rightarrow> nat \<Rightarrow> string" where
  "breaker_message project precision decided =
     ''Auto-merge DISABLED for '' @ project @ '': merge precision '' @ percent precision @ '' over ''
     @ nat_str decided @ '' decided PR(s) (< '' @ percent AUTOTUNE_MERGE_PRECISION_FLOOR
     @ ''). Would-merges now HOLD for review. Investigate, then clear holdonly:'' @ project @ ''.''"

fun planAutoTune_rows :: "GateEvalRow list \<Rightarrow> AutoTuneAction list" where
  "planAutoTune_rows [] = []"
| "planAutoTune_rows (r # rows) =
     (case ev_mergePrecision r of
        None \<Rightarrow> planAutoTune_rows rows
      | Some precision \<Rightarrow>
          if ev_decided r < AUTOTUNE_MIN_DECIDED then planAutoTune_rows rows
          else if precision < AUTOTUNE_MERGE_PRECISION_FLOOR
          then \<lparr>at_project = ev_project r, at_mergePrecision = precision, at_decided = ev_decided r,
                at_message = breaker_message (ev_project r) precision (ev_decided r)\<rparr> # planAutoTune_rows rows
          else planAutoTune_rows rows)"

definition planAutoTune :: "GateEvalReport \<Rightarrow> AutoTuneAction list" where
  "planAutoTune report = planAutoTune_rows (rep_rows report)"

definition holdonly_key :: "string \<Rightarrow> string" where
  "holdonly_key project = ''holdonly:'' @ project"

text \<open>A read or a write that throws is logged, and the loop goes on.\<close>

fun engage :: "'h FlagStore \<Rightarrow> AutoTuneAction list \<Rightarrow> 'h \<Rightarrow> AutoTuneAction list \<times> 'h" where
  "engage flags [] host = ([], host)"
| "engage flags (action # actions) host =
     (case isHoldOnly flags host (at_project action) of
        Inl _ \<Rightarrow> engage flags actions host
      | Inr True \<Rightarrow> engage flags actions host
      | Inr False \<Rightarrow>
          (case setFlag flags host (holdonly_key (at_project action)) True of
             Inl _ \<Rightarrow> engage flags actions host
           | Inr host' \<Rightarrow> (let (engaged, host'') = engage flags actions host' in (action # engaged, host''))))"

definition applyAutoTune :: "'h FlagStore \<Rightarrow> GateEvalReport \<Rightarrow> 'h \<Rightarrow> AutoTuneAction list \<times> 'h" where
  "applyAutoTune flags report host = engage flags (planAutoTune report) host"

definition ISO_ZONE :: rx where
  "ISO_ZONE = Seq [Oneof [One CHR ''+'', One CHR ''-''], Oneof digit_items, Oneof digit_items,
     Opt (Lit '':''), Oneof digit_items, Oneof digit_items, Eol]"

text \<open>\<open>replace(" ", "T")\<close>: the first space only.\<close>

fun replace_first_space :: "string \<Rightarrow> string" where
  "replace_first_space [] = []"
| "replace_first_space (c # s) = (if c = CHR '' '' then CHR ''T'' # s else c # replace_first_space s)"

definition sqlite_utc :: "string \<Rightarrow> string" where
  "sqlite_utc setAtIso =
     (let t = (if str_includes setAtIso ''T'' then setAtIso else replace_first_space setAtIso);
          hasZone = (endsWith t ''Z'' \<or> rx_test ISO_ZONE t)
      in if hasZone then t else t @ ''Z'')"

definition still_failing :: "GateEvalReport \<Rightarrow> string \<Rightarrow> bool" where
  "still_failing report project =
     (case List.find (\<lambda>r. ev_project r = project) (rep_rows report) of
        None \<Rightarrow> False
      | Some row \<Rightarrow>
          (case ev_mergePrecision row of
             None \<Rightarrow> False
           | Some precision \<Rightarrow>
               ev_decided row \<ge> AUTOTUNE_MIN_DECIDED \<and> precision < AUTOTUNE_MERGE_PRECISION_FLOOR))"

definition shouldAutoClear ::
  "(string \<Rightarrow> int option) \<Rightarrow> GateEvalReport \<Rightarrow> string \<Rightarrow> string option \<Rightarrow> int \<Rightarrow> bool" where
  "shouldAutoClear date_parse report project setAtIso nowMs =
     (case setAtIso of
        None \<Rightarrow> False
      | Some s \<Rightarrow>
          if s = [] then False
          else (case date_parse (sqlite_utc s) of
                  None \<Rightarrow> False
                | Some setMs \<Rightarrow>
                    if nowMs - setMs < AUTOCLEAR_AFTER_MS then False
                    else \<not> still_failing report project))"

definition maybeAutoClearHoldOnly ::
  "(string \<Rightarrow> int option) \<Rightarrow> 'h FlagStore \<Rightarrow> GateEvalReport \<Rightarrow> string \<Rightarrow> int \<Rightarrow> 'h \<Rightarrow> bool \<times> 'h" where
  "maybeAutoClearHoldOnly date_parse flags report project nowMs host =
     (case flagSetAt flags host (holdonly_key project) of
        Inl _ \<Rightarrow> (False, host)
      | Inr setAt \<Rightarrow>
          if \<not> shouldAutoClear date_parse report project setAt nowMs then (False, host)
          else (case setFlag flags host (holdonly_key project) False of
                  Inl _ \<Rightarrow> (False, host)
                | Inr host' \<Rightarrow> (True, host')))"

section \<open>The tuning advisor\<close>

datatype RecSeverity = rec_good | rec_warn | rec_info

record ScopeCap =
  cap_files :: rat
  cap_lines :: rat

text \<open>\<open>TunableOverride\<close> of \<open>auto-apply.ts\<close> has the same fields as \<open>OverridePayload\<close>.\<close>

record OverridePayload =
  ov_confidenceFloor :: "rat option"
  ov_scopeCap :: "ScopeCap option"

record TuningRec =
  rec_project :: string
  rec_severity :: RecSeverity
  rec_message :: string
  rec_overridePayload :: "OverridePayload option"

definition MIN_DECIDED :: nat where "MIN_DECIDED = 10"
definition READY_MERGE_PRECISION :: rat where "READY_MERGE_PRECISION = 95 / 100"
definition READY_CLOSE_PRECISION :: rat where "READY_CLOSE_PRECISION = 9 / 10"
definition RISK_MERGE_PRECISION :: rat where "RISK_MERGE_PRECISION = 9 / 10"
definition TIGHTEN_FLOOR_TARGET :: rat where "TIGHTEN_FLOOR_TARGET = READY_MERGE_PRECISION"

definition pct :: "rat option \<Rightarrow> string" where
  "pct x = (case x of None \<Rightarrow> em_dash | Some v \<Rightarrow> percent v)"

definition risky_row :: "GateEvalRow \<Rightarrow> bool" where
  "risky_row r = (case ev_mergePrecision r of None \<Rightarrow> False | Some p \<Rightarrow> p < RISK_MERGE_PRECISION)"

definition ready_row :: "GateEvalRow \<Rightarrow> bool" where
  "ready_row r \<longleftrightarrow>
     (case ev_mergePrecision r of None \<Rightarrow> False | Some p \<Rightarrow> p \<ge> READY_MERGE_PRECISION)
     \<and> (case ev_closePrecision r of None \<Rightarrow> True | Some p \<Rightarrow> p \<ge> READY_CLOSE_PRECISION)"

definition row_recommendations :: "GateEvalRow \<Rightarrow> TuningRec list" where
  "row_recommendations r =
     (if ev_decided r < MIN_DECIDED then
        [\<lparr>rec_project = ev_project r, rec_severity = rec_info,
          rec_message = ''Only '' @ nat_str (ev_decided r) @ '' decided PR(s) '' @ em_dash
            @ '' collect more shadow data before judging accuracy or flipping live.'',
          rec_overridePayload = None\<rparr>]
      else
        (if risky_row r then
           [\<lparr>rec_project = ev_project r, rec_severity = rec_warn,
             rec_message = ''Would have auto-merged '' @ nat_str (ev_mergeFalse r)
               @ '' PR(s) the human CLOSED (merge precision '' @ pct (ev_mergePrecision r) @ '' over ''
               @ nat_str (ev_wouldMerge r) @ ''). Tighten guardrails / raise the confidence floor '' @ em_dash
               @ '' do NOT flip live yet.'',
             rec_overridePayload = Some \<lparr>ov_confidenceFloor = Some TIGHTEN_FLOOR_TARGET, ov_scopeCap = None\<rparr>\<rparr>]
         else [])
        @ (if ev_closeFalse r > 0 then
             [\<lparr>rec_project = ev_project r, rec_severity = rec_warn,
               rec_message = ''Would have auto-closed '' @ nat_str (ev_closeFalse r)
                 @ '' PR(s) the human MERGED (close precision '' @ pct (ev_closePrecision r)
                 @ ''). Loosen the area/scope rules before going live.'',
               rec_overridePayload = None\<rparr>]
           else [])
        @ (if \<not> risky_row r \<and> \<not> ev_closeFalse r > 0 \<and> ready_row r then
             [\<lparr>rec_project = ev_project r, rec_severity = rec_good,
               rec_message = ''Merge precision '' @ pct (ev_mergePrecision r) @ '' over ''
                 @ nat_str (ev_decided r) @ '' decided PR(s) with no false closes '' @ em_dash
                 @ '' looks ready to flip live (shadow:false).'',
               rec_overridePayload = None\<rparr>]
           else []))"

fun rec_order :: "RecSeverity \<Rightarrow> nat" where
  "rec_order rec_warn = 0"
| "rec_order rec_good = 1"
| "rec_order rec_info = 2"

definition rec_le :: "(string \<Rightarrow> string \<Rightarrow> bool) \<Rightarrow> TuningRec \<Rightarrow> TuningRec \<Rightarrow> bool" where
  "rec_le collate a b \<longleftrightarrow> rec_order (rec_severity a) < rec_order (rec_severity b)
     \<or> rec_order (rec_severity a) = rec_order (rec_severity b) \<and> collate (rec_project a) (rec_project b)"

definition computeTuningRecommendations ::
  "(string \<Rightarrow> string \<Rightarrow> bool) \<Rightarrow> GateEvalReport \<Rightarrow> TuningRec list" where
  "computeTuningRecommendations collate report =
     sort_by (rec_le collate) (concat (map row_recommendations (rep_rows report)))"

section \<open>The breaker is engaged once and not cleared while it is needed\<close>

text \<open>
  What the breaker relies on of the host's flag store: a flag that was set is read as on, and
  setting another flag does not turn it off.
\<close>

definition flags_hold :: "'h FlagStore \<Rightarrow> bool" where
  "flags_hold flags \<longleftrightarrow>
     (\<forall>host host' p. setFlag flags host (holdonly_key p) True = Inr host' \<longrightarrow> isHoldOnly flags host' p = Inr True) \<and>
     (\<forall>host host' p q. setFlag flags host (holdonly_key q) True = Inr host' \<longrightarrow>
        isHoldOnly flags host p = Inr True \<longrightarrow> isHoldOnly flags host' p = Inr True)"

definition engage_step :: "'h FlagStore \<Rightarrow> 'h \<Rightarrow> AutoTuneAction \<Rightarrow> 'h option" where
  "engage_step flags host x =
     (if isHoldOnly flags host (at_project x) = Inr False
      then (case setFlag flags host (holdonly_key (at_project x)) True of Inl _ \<Rightarrow> None | Inr host' \<Rightarrow> Some host')
      else None)"

lemma engage_Cons: "engage flags (x # xs) host =
    (case engage_step flags host x of
       None \<Rightarrow> engage flags xs host
     | Some host' \<Rightarrow> (x # fst (engage flags xs host'), snd (engage flags xs host')))"
  by (auto simp: engage_step_def Let_def split: sum.split bool.split prod.split)

declare engage.simps(2) [simp del]

lemma engage_step_holds: "flags_hold flags \<Longrightarrow> engage_step flags host x = Some host' \<Longrightarrow>
    isHoldOnly flags host (at_project x) = Inr False \<and> isHoldOnly flags host' (at_project x) = Inr True \<and>
    (isHoldOnly flags host p = Inr True \<longrightarrow> isHoldOnly flags host' p = Inr True)"
  by (fastforce simp: flags_hold_def engage_step_def split: if_splits sum.splits)

lemma engage_keeps: "flags_hold flags \<Longrightarrow> isHoldOnly flags host p = Inr True \<Longrightarrow>
    isHoldOnly flags (snd (engage flags xs host)) p = Inr True"
proof (induction xs arbitrary: host)
  case (Cons x xs)
  then show ?case using engage_step_holds [OF Cons.prems(1), of host x _ p]
    by (auto simp: engage_Cons split: option.split)
qed simp

lemma engaged_planned: "set (fst (engage flags xs host)) \<subseteq> set xs"
proof (induction xs arbitrary: host)
  case (Cons x xs)
  show ?case by (auto simp: engage_Cons split: option.split dest: subsetD [OF Cons.IH])
qed simp

lemma engaged_held: "flags_hold flags \<Longrightarrow> a \<in> set (fst (engage flags xs host)) \<Longrightarrow>
    isHoldOnly flags host (at_project a) \<noteq> Inr True \<and>
    isHoldOnly flags (snd (engage flags xs host)) (at_project a) = Inr True"
proof (induction xs arbitrary: host)
  case (Cons x xs)
  show ?case
  proof (cases "engage_step flags host x")
    case None
    with Cons show ?thesis by (simp add: engage_Cons)
  next
    case (Some host')
    note held = engage_step_holds [OF Cons.prems(1) Some]
    show ?thesis
    proof (cases "a = x")
      case True
      with held engage_keeps [OF Cons.prems(1), of host' "at_project x" xs] Some show ?thesis
        by (simp add: engage_Cons)
    next
      case False
      with Cons.prems Some have "a \<in> set (fst (engage flags xs host'))" by (simp add: engage_Cons)
      from Cons.IH [OF Cons.prems(1) this] held [of "at_project a"] Some show ?thesis
        by (auto simp: engage_Cons)
    qed
  qed
qed simp

lemma plan_rows_project: "at_project a = p \<Longrightarrow> a \<in> set (planAutoTune_rows rows) \<Longrightarrow>
    \<exists>r\<in>set rows. ev_project r = p \<and> ev_decided r \<ge> AUTOTUNE_MIN_DECIDED \<and>
      (\<exists>x. ev_mergePrecision r = Some x \<and> x < AUTOTUNE_MERGE_PRECISION_FLOOR)"
  by (induction rows) (auto split: option.splits if_splits)

lemma find_distinct: "distinct (map f xs) \<Longrightarrow> x \<in> set xs \<Longrightarrow> List.find (\<lambda>y. f y = f x) xs = Some x"
  by (induction xs) (auto simp: image_iff)

lemma planned_still_failing:
  assumes "distinct (map ev_project (rep_rows report))" "a \<in> set (planAutoTune report)"
  shows "still_failing report (at_project a)"
proof -
  obtain r x where r: "r \<in> set (rep_rows report)" "ev_project r = at_project a"
    "ev_decided r \<ge> AUTOTUNE_MIN_DECIDED" "ev_mergePrecision r = Some x" "x < AUTOTUNE_MERGE_PRECISION_FLOOR"
    using plan_rows_project [OF refl assms(2) [unfolded planAutoTune_def]] by blast
  from find_distinct [OF assms(1) r(1)] r show ?thesis by (simp add: still_failing_def)
qed

text \<open>
  On a flag store that keeps what it is told, the breaker alerts once per project: a run
  engages only projects that were not held, they are held after it, and the same report engages
  none of them again. A project the plan names is not cleared by the auto-clear on the same
  report, whatever the time.
\<close>

theorem breaker_engages_once:
  assumes "flags_hold flags" and "distinct (map ev_project (rep_rows report))"
    and "applyAutoTune flags report host = (engaged, host')" and "a \<in> set engaged"
  shows "isHoldOnly flags host (at_project a) \<noteq> Inr True \<and> isHoldOnly flags host' (at_project a) = Inr True \<and>
    a \<notin> set (fst (applyAutoTune flags report host')) \<and>
    (a \<in> set (planAutoTune report) \<and> \<not> shouldAutoClear date_parse report (at_project a) setAt now)"
proof -
  have e: "engage flags (planAutoTune report) host = (engaged, host')"
    using assms(3) by (simp add: applyAutoTune_def)
  have held: "isHoldOnly flags host (at_project a) \<noteq> Inr True \<and> isHoldOnly flags host' (at_project a) = Inr True"
    using engaged_held [OF assms(1), of a "planAutoTune report" host] assms(4) e by simp
  moreover have "a \<notin> set (fst (applyAutoTune flags report host'))"
    using engaged_held [OF assms(1), of a "planAutoTune report" host'] held by (auto simp: applyAutoTune_def)
  moreover have planned: "a \<in> set (planAutoTune report)"
    using engaged_planned [of flags "planAutoTune report" host] assms(4) e by auto
  ultimately show ?thesis
    using planned_still_failing [OF assms(2) planned]
    by (auto simp: shouldAutoClear_def split: option.split)
qed

definition map_flags :: "(string \<Rightarrow> bool) FlagStore" where
  "map_flags = \<lparr>isHoldOnly = (\<lambda>m p. Inr (m (holdonly_key p))), setFlag = (\<lambda>m k b. Inr (m(k := b))),
     flagSetAt = (\<lambda>m k. Inr None)\<rparr>"

theorem breaker_engages_once_witness:
  "fst (applyAutoTune map_flags \<lparr>rep_rows = [evalRowFromCalibration ''o/r'' 5 5], rep_hasSignal = True\<rparr>
     (snd (applyAutoTune map_flags \<lparr>rep_rows = [evalRowFromCalibration ''o/r'' 5 5], rep_hasSignal = True\<rparr>
        (\<lambda>_. False)))) = []"
proof -
  let ?report = "\<lparr>rep_rows = [evalRowFromCalibration ''o/r'' 5 5], rep_hasSignal = True\<rparr>"
  let ?a = "\<lparr>at_project = ''o/r'', at_mergePrecision = 1 / 2, at_decided = 10,
    at_message = breaker_message ''o/r'' (1 / 2) 10\<rparr>"
  have plan: "planAutoTune ?report = [?a]"
    by (simp add: planAutoTune_def evalRowFromCalibration_def AUTOTUNE_MIN_DECIDED_def AUTOTUNE_MERGE_PRECISION_FLOOR_def)
  have run: "applyAutoTune map_flags ?report (\<lambda>_. False) = ([?a], (\<lambda>_. False)(holdonly_key ''o/r'' := True))"
    by (simp add: applyAutoTune_def plan engage_Cons engage_step_def map_flags_def)
  have hold: "flags_hold map_flags" by (auto simp: flags_hold_def map_flags_def)
  have "?a \<notin> set (fst (applyAutoTune map_flags ?report ((\<lambda>_. False)(holdonly_key ''o/r'' := True))))"
    using breaker_engages_once [OF hold _ run, of ?a] by simp
  moreover have "set (fst (applyAutoTune map_flags ?report h)) \<subseteq> {?a}" for h
    using engaged_planned [of map_flags "planAutoTune ?report" h] by (simp add: applyAutoTune_def plan)
  ultimately show ?thesis unfolding run snd_conv by (metis subset_singletonD insertI1 set_empty)
qed

end
