(* ===== verification/Auto_Apply.thy ===== *)
theory Auto_Apply
  imports Auto_Tune Autonomy Domain
begin

text \<open>
  The override store and the auto-apply tick of the self-tuning loop, \<open>review/auto-apply.ts\<close>, and
  the tick over all repositories in \<open>review/selftune-wire.ts\<close>. The three D1 tables are fields of a
  store, and every statement sent to D1 may fail: \<open>db_fault n\<close> tells whether the \<open>n\<close>-th one does.
  A function that lets the rejection pass returns \<open>None\<close>; the functions with a \<open>catch\<close> return
  a plain value, as in the source. Row texts are compared by code units. \<open>toISOString\<close> on a
  millisecond clock is the argument \<open>toISO\<close>, the rendering of a number in a message is \<open>num\<close>, and
  log lines are left out.
\<close>

section \<open>Overrides\<close>

type_synonym TunableOverride = OverridePayload

record OverrideRow =
  or_confidence_floor :: "rat option"
  or_scope_cap_files :: "rat option"
  or_scope_cap_lines :: "rat option"
  or_clear_at :: "string option"

definition empty_override :: TunableOverride where
  "empty_override = \<lparr>ov_confidenceFloor = None, ov_scopeCap = None\<rparr>"

definition nonempty_override :: "TunableOverride \<Rightarrow> TunableOverride option" where
  "nonempty_override o' = (if ov_confidenceFloor o' = None \<and> ov_scopeCap o' = None then None else Some o')"

definition row_expired :: "OverrideRow \<Rightarrow> string option \<Rightarrow> bool" where
  "row_expired row nowIso =
     (case (or_clear_at row, nowIso) of
        (Some c, Some n) \<Rightarrow> c \<noteq> [] \<and> n \<noteq> [] \<and> str_le c n
      | _ \<Rightarrow> False)"

definition rowToOverride :: "OverrideRow option \<Rightarrow> string option \<Rightarrow> TunableOverride option" where
  "rowToOverride row nowIso =
     (case row of
        None \<Rightarrow> None
      | Some r \<Rightarrow>
          if row_expired r nowIso then None
          else nonempty_override
            \<lparr>ov_confidenceFloor =
               (case or_confidence_floor r of
                  Some f \<Rightarrow> if 0 \<le> f \<and> f \<le> 1 then Some f else None
                | None \<Rightarrow> None),
             ov_scopeCap =
               (case (or_scope_cap_files r, or_scope_cap_lines r) of
                  (Some files, Some lines) \<Rightarrow>
                    if files > 0 \<and> lines > 0 then Some \<lparr>cap_files = files, cap_lines = lines\<rparr> else None
                | _ \<Rightarrow> None)\<rparr>)"

definition describeOverride :: "(rat \<Rightarrow> string) \<Rightarrow> TunableOverride \<Rightarrow> string" where
  "describeOverride num o' =
     (let parts = (case ov_confidenceFloor o' of None \<Rightarrow> [] | Some f \<Rightarrow> [''floor='' @ num f])
            @ (case ov_scopeCap o' of None \<Rightarrow> []
               | Some c \<Rightarrow> [''cap='' @ num (cap_files c) @ ''f/'' @ num (cap_lines c) @ ''l'']);
          text = join '' '' parts
      in if text = [] then ''(empty)'' else text)"

text \<open>
  Validation of an untrusted payload. \<open>Number\<close> on an arbitrary value is the argument \<open>number\<close>,
  and reading a field of a value that is no object gives \<open>undefined\<close>.
\<close>

definition jfield :: "json \<Rightarrow> string \<Rightarrow> json" where
  "jfield v k = (case v of JObject fs \<Rightarrow> jget fs k | _ \<Rightarrow> JUndefined)"

definition jnullish :: "json \<Rightarrow> bool" where
  "jnullish v \<longleftrightarrow> v = JUndefined \<or> v = JNull"

definition positive_integer :: "js_num \<Rightarrow> rat option" where
  "positive_integer x =
     (case x of Finite r \<Rightarrow> if r = of_int \<lfloor>r\<rfloor> \<and> r > 0 then Some r else None | _ \<Rightarrow> None)"

definition unit_number :: "js_num \<Rightarrow> rat option" where
  "unit_number x = (case x of Finite r \<Rightarrow> if 0 \<le> r \<and> r \<le> 1 then Some r else None | _ \<Rightarrow> None)"

definition sanitizeOverridePayload :: "(json \<Rightarrow> js_num) \<Rightarrow> json \<Rightarrow> TunableOverride option" where
  "sanitizeOverridePayload number input =
     (let raw_floor = jfield input ''confidenceFloor''; raw_cap = jfield input ''scopeCap'';
          floor = unit_number (number raw_floor);
          files = positive_integer (number (jfield raw_cap ''files''));
          lines = positive_integer (number (jfield raw_cap ''lines''))
      in if (case input of JObject _ \<Rightarrow> False | JArray _ \<Rightarrow> False | _ \<Rightarrow> True) then None
         else if \<not> jnullish raw_floor \<and> floor = None then None
         else if \<not> jnullish raw_cap \<and> (files = None \<or> lines = None) then None
         else nonempty_override
           \<lparr>ov_confidenceFloor = (if jnullish raw_floor then None else floor),
            ov_scopeCap = (if jnullish raw_cap then None
              else (case (files, lines) of
                      (Some f, Some l) \<Rightarrow> Some \<lparr>cap_files = f, cap_lines = l\<rparr> | _ \<Rightarrow> None))\<rparr>)"

definition mergeOverride :: "TunableOverride option \<Rightarrow> TunableOverride \<Rightarrow> TunableOverride" where
  "mergeOverride base next_override =
     \<lparr>ov_confidenceFloor = (case ov_confidenceFloor next_override of
        Some f \<Rightarrow> Some f | None \<Rightarrow> Option.bind base ov_confidenceFloor),
      ov_scopeCap = (case ov_scopeCap next_override of
        Some c \<Rightarrow> Some c | None \<Rightarrow> Option.bind base ov_scopeCap)\<rparr>"

definition isStrictlyTightening :: "TunableOverride \<Rightarrow> rat option \<Rightarrow> ScopeCap option \<Rightarrow> bool" where
  "isStrictlyTightening o' liveFloor liveScopeCap =
     (let floor_drop = (case (ov_confidenceFloor o', liveFloor) of (Some f, Some l) \<Rightarrow> f < l | _ \<Rightarrow> False);
          floor_tightens = (case (ov_confidenceFloor o', liveFloor) of
              (Some f, Some l) \<Rightarrow> f > l | (Some f, None) \<Rightarrow> True | _ \<Rightarrow> False);
          cap_raise = (case (ov_scopeCap o', liveScopeCap) of
              (Some c, Some l) \<Rightarrow> cap_files c > cap_files l \<or> cap_lines c > cap_lines l | _ \<Rightarrow> False);
          cap_tightens = (case (ov_scopeCap o', liveScopeCap) of
              (Some c, Some l) \<Rightarrow> cap_files c < cap_files l \<or> cap_lines c < cap_lines l
            | (Some c, None) \<Rightarrow> True | _ \<Rightarrow> False)
      in if floor_drop \<or> cap_raise then False else floor_tightens \<or> cap_tightens)"

definition SHADOW_PROMOTION_MIN_DECIDED :: nat where
  "SHADOW_PROMOTION_MIN_DECIDED = 10"

definition SHADOW_SOAK_MS :: int where
  "SHADOW_SOAK_MS = 24 * 60 * 60 * 1000"

definition str_lt :: "string \<Rightarrow> string \<Rightarrow> bool" where
  "str_lt s t \<longleftrightarrow> \<not> str_le t s"

definition evaluateShadowPromotion ::
  "TunableOverride \<Rightarrow> rat option \<Rightarrow> ScopeCap option \<Rightarrow> nat \<Rightarrow> string option \<Rightarrow> string \<Rightarrow> bool \<times> string" where
  "evaluateShadowPromotion o' liveFloor liveScopeCap decided validatedUntilIso nowIso =
     (if \<not> isStrictlyTightening o' liveFloor liveScopeCap
      then (False, ''not strictly tightening vs live config'')
      else if decided < SHADOW_PROMOTION_MIN_DECIDED
      then (False, ''insufficient evidence ('' @ nat_str decided @ '' < ''
        @ nat_str SHADOW_PROMOTION_MIN_DECIDED @ '' decided)'')
      else (case validatedUntilIso of
              None \<Rightarrow> (False, ''still soaking'')
            | Some v \<Rightarrow>
                if v = [] then (False, ''still soaking'')
                else if str_lt nowIso v then (False, ''still soaking until '' @ v)
                else (True, ''tightening + evidence + soaked'')))"

section \<open>The store\<close>

record ShadowRow =
  sr_row :: OverrideRow
  sr_validated_until :: "string option"

record OverrideAudit =
  oa_project :: string
  oa_eventType :: string
  oa_detail :: "(string \<times> json) list"
  oa_createdAt :: string

record OverrideStore =
  tunables_overrides :: "string \<Rightarrow> OverrideRow option"
  tunables_overrides_shadow :: "string \<Rightarrow> ShadowRow option"
  override_audit :: "OverrideAudit list"
  db_now :: string
  db_fault :: "nat \<Rightarrow> bool"
  db_calls :: nat

type_synonym 'a db = "OverrideStore \<Rightarrow> 'a option \<times> OverrideStore"

text \<open>One statement: it fails, or it runs.\<close>

definition db_call :: "(OverrideStore \<Rightarrow> 'a \<times> OverrideStore) \<Rightarrow> 'a db" where
  "db_call f s =
     (let s' = s\<lparr>db_calls := Suc (db_calls s)\<rparr>
      in if db_fault s (db_calls s) then (None, s') else (case f s' of (x, s'') \<Rightarrow> (Some x, s'')))"

definition db_bind :: "'a db \<Rightarrow> ('a \<Rightarrow> 'b db) \<Rightarrow> 'b db" where
  "db_bind m k s = (case m s of (None, s') \<Rightarrow> (None, s') | (Some x, s') \<Rightarrow> k x s')"

definition db_return :: "'a \<Rightarrow> 'a db" where
  "db_return x s = (Some x, s)"

definition loadOverride :: "string \<Rightarrow> string option \<Rightarrow> OverrideStore \<Rightarrow> TunableOverride option \<times> OverrideStore" where
  "loadOverride project nowIso s =
     (case db_call (\<lambda>s. (tunables_overrides s project, s)) s of
        (None, s') \<Rightarrow> (None, s')
      | (Some row, s') \<Rightarrow> (rowToOverride row nowIso, s'))"

definition override_row :: "TunableOverride \<Rightarrow> OverrideRow" where
  "override_row o' =
     \<lparr>or_confidence_floor = ov_confidenceFloor o', or_scope_cap_files = map_option cap_files (ov_scopeCap o'),
      or_scope_cap_lines = map_option cap_lines (ov_scopeCap o'), or_clear_at = None\<rparr>"

definition writeLiveOverride :: "string \<Rightarrow> TunableOverride \<Rightarrow> unit db" where
  "writeLiveOverride project o' s =
     (let (existing, s1) = loadOverride project None s; merged = mergeOverride existing o'
      in db_call (\<lambda>s. ((), s\<lparr>tunables_overrides := (tunables_overrides s)(project \<mapsto> override_row merged)\<rparr>)) s1)"

definition deleteLiveOverride :: "string \<Rightarrow> unit db" where
  "deleteLiveOverride project =
     db_call (\<lambda>s. ((), s\<lparr>tunables_overrides := (tunables_overrides s)(project := None)\<rparr>))"

record ShadowOverride =
  so_override :: TunableOverride
  so_validatedUntil :: "string option"

definition loadShadowOverride :: "string \<Rightarrow> OverrideStore \<Rightarrow> ShadowOverride option \<times> OverrideStore" where
  "loadShadowOverride project s =
     (case db_call (\<lambda>s. (tunables_overrides_shadow s project, s)) s of
        (None, s') \<Rightarrow> (None, s')
      | (Some None, s') \<Rightarrow> (None, s')
      | (Some (Some row), s') \<Rightarrow>
          (map_option (\<lambda>o'. \<lparr>so_override = o', so_validatedUntil = sr_validated_until row\<rparr>)
             (rowToOverride (Some (sr_row row)) None), s'))"

definition writeShadowOverride :: "string \<Rightarrow> TunableOverride \<Rightarrow> string \<Rightarrow> unit db" where
  "writeShadowOverride project o' validatedUntilIso s =
     (let (existing, s1) = loadShadowOverride project s;
          merged = mergeOverride (map_option so_override existing) o'
      in db_call (\<lambda>s. ((), s\<lparr>tunables_overrides_shadow := (tunables_overrides_shadow s)
           (project \<mapsto> \<lparr>sr_row = override_row merged, sr_validated_until = Some validatedUntilIso\<rparr>)\<rparr>)) s1)"

definition deleteShadowOverride :: "string \<Rightarrow> unit db" where
  "deleteShadowOverride project =
     db_call (\<lambda>s. ((), s\<lparr>tunables_overrides_shadow := (tunables_overrides_shadow s)(project := None)\<rparr>))"

definition recordOverrideAudit :: "string \<Rightarrow> string \<Rightarrow> (string \<times> json) list \<Rightarrow> OverrideStore \<Rightarrow> OverrideStore" where
  "recordOverrideAudit project eventType detail s =
     snd (db_call (\<lambda>s. ((), s\<lparr>override_audit := override_audit s @
       [\<lparr>oa_project = project, oa_eventType = eventType, oa_detail = detail, oa_createdAt = db_now s\<rparr>]\<rparr>)) s)"

definition listOverrideAudit :: "string \<Rightarrow> nat \<Rightarrow> OverrideStore \<Rightarrow> (string \<times> (string \<times> json) list \<times> string) list \<times> OverrideStore" where
  "listOverrideAudit project limit s =
     (case db_call (\<lambda>s. (take limit (sort_by (\<lambda>a b. str_le (oa_createdAt b) (oa_createdAt a))
          (filter (\<lambda>a. oa_project a = project) (override_audit s))), s)) s of
        (None, s') \<Rightarrow> ([], s')
      | (Some rows, s') \<Rightarrow> (map (\<lambda>r. (oa_eventType r, oa_detail r, oa_createdAt r)) rows, s'))"

section \<open>Applying a recommendation\<close>

record ApplyResult =
  ar_applied :: bool
  ar_shadowed :: "bool option"
  ar_validatedUntil :: "string option"
  ar_reason :: string

definition override_json :: "TunableOverride \<Rightarrow> json" where
  "override_json o' = JObject
     ((case ov_confidenceFloor o' of None \<Rightarrow> [] | Some f \<Rightarrow> [(''confidenceFloor'', JNumber (Finite f))])
      @ (case ov_scopeCap o' of None \<Rightarrow> []
         | Some c \<Rightarrow> [(''scopeCap'', JObject [(''files'', JNumber (Finite (cap_files c))),
             (''lines'', JNumber (Finite (cap_lines c)))])]))"

definition applyOverrideRecommendation ::
  "(int \<Rightarrow> string) \<Rightarrow> (rat \<Rightarrow> string) \<Rightarrow> string \<Rightarrow> TunableOverride \<Rightarrow> bool \<Rightarrow> int \<Rightarrow> int \<Rightarrow> ApplyResult db" where
  "applyOverrideRecommendation toISO num project payload force soakMs nowMs =
     (if force then
        db_bind (writeLiveOverride project payload) (\<lambda>_ s.
          db_return \<lparr>ar_applied = True, ar_shadowed = None, ar_validatedUntil = None,
              ar_reason = ''force-applied '' @ describeOverride num payload\<rparr>
            (recordOverrideAudit project ''override_applied''
               [(''override'', override_json payload), (''force'', JBool True)] s))
      else
        (let validatedUntil = toISO (nowMs + soakMs)
         in db_bind (writeShadowOverride project payload validatedUntil) (\<lambda>_ s.
              db_return \<lparr>ar_applied = False, ar_shadowed = Some True, ar_validatedUntil = Some validatedUntil,
                  ar_reason = ''shadow-queued '' @ describeOverride num payload @ '' until '' @ validatedUntil\<rparr>
                (recordOverrideAudit project ''override_shadowed''
                   [(''override'', override_json payload), (''validatedUntil'', JString validatedUntil)] s))))"

section \<open>The tick of a project\<close>

record AutoApplyContext =
  ctx_project :: string
  ctx_autoTune :: bool
  ctx_baseConfidenceFloor :: rat
  ctx_baseScopeCap :: "ScopeCap option"
  ctx_decided :: nat
  ctx_recs :: "TuningRec list"
  ctx_nowMs :: int

definition rec_payloads :: "TuningRec list \<Rightarrow> OverridePayload list" where
  "rec_payloads recs = List.map_filter rec_overridePayload recs"

text \<open>The floor and cap in force: the live override over the base configuration.\<close>

definition liveFloor :: "AutoApplyContext \<Rightarrow> TunableOverride option \<Rightarrow> rat" where
  "liveFloor ctx current = nullish (Option.bind current ov_confidenceFloor) (ctx_baseConfidenceFloor ctx)"

definition liveCap :: "AutoApplyContext \<Rightarrow> TunableOverride option \<Rightarrow> ScopeCap option" where
  "liveCap ctx current =
     (case Option.bind current ov_scopeCap of Some c \<Rightarrow> Some c | None \<Rightarrow> ctx_baseScopeCap ctx)"

text \<open>Step 1: queue the first tightening recommendation.\<close>

definition queueTightening ::
  "(int \<Rightarrow> string) \<Rightarrow> (rat \<Rightarrow> string) \<Rightarrow> AutoApplyContext \<Rightarrow> TunableOverride option \<Rightarrow> unit db" where
  "queueTightening toISO num ctx current =
     (case List.find (\<lambda>p. isStrictlyTightening p (Some (liveFloor ctx current)) (liveCap ctx current))
         (rec_payloads (ctx_recs ctx)) of
        None \<Rightarrow> db_return ()
      | Some payload \<Rightarrow>
          db_bind (applyOverrideRecommendation toISO num (ctx_project ctx) payload False SHADOW_SOAK_MS (ctx_nowMs ctx))
            (\<lambda>_. db_return ()))"

text \<open>Step 2: promote a soaked shadow override.\<close>

definition promoteShadow ::
  "AutoApplyContext \<Rightarrow> string \<Rightarrow> TunableOverride option \<Rightarrow> ShadowOverride \<Rightarrow> unit db" where
  "promoteShadow ctx nowIso current shadow =
     (case evaluateShadowPromotion (so_override shadow) (Some (liveFloor ctx current)) (liveCap ctx current)
         (ctx_decided ctx) (so_validatedUntil shadow) nowIso of
        (False, reason) \<Rightarrow> db_return ()
      | (True, reason) \<Rightarrow>
          db_bind (writeLiveOverride (ctx_project ctx) (so_override shadow)) (\<lambda>_.
          db_bind (deleteShadowOverride (ctx_project ctx)) (\<lambda>_ s.
            db_return () (recordOverrideAudit (ctx_project ctx) ''override_promoted''
              [(''override'', override_json (so_override shadow)), (''reason'', JString reason)] s))))"

definition runAutoApplyRecommendations ::
  "(int \<Rightarrow> string) \<Rightarrow> (rat \<Rightarrow> string) \<Rightarrow> AutoApplyContext \<Rightarrow> OverrideStore \<Rightarrow> OverrideStore" where
  "runAutoApplyRecommendations toISO num ctx s =
     (if \<not> ctx_autoTune ctx then s
      else
        (let nowIso = toISO (ctx_nowMs ctx);
             (current, s1) = loadOverride (ctx_project ctx) (Some nowIso) s;
             (alreadyShadowed, s2) = loadShadowOverride (ctx_project ctx) s1
         in (case alreadyShadowed of
               Some shadow \<Rightarrow> snd (promoteShadow ctx nowIso current shadow s2)
             | None \<Rightarrow>
                 (case queueTightening toISO num ctx current s2 of
                    (None, s3) \<Rightarrow> s3
                  | (Some _, s3) \<Rightarrow>
                      (let (shadow, s4) = loadShadowOverride (ctx_project ctx) s3
                       in (case shadow of
                             None \<Rightarrow> s4
                           | Some sh \<Rightarrow> snd (promoteShadow ctx nowIso current sh s4)))))))"

section \<open>The tick over all repositories\<close>

definition SELFTUNE_BASE_CONFIDENCE_FLOOR :: rat where
  "SELFTUNE_BASE_CONFIDENCE_FLOOR = 0"

text \<open>
  \<open>settings\<close> gives the autonomy policy of a repository's resolved settings, and \<open>calibration\<close> its
  positive and negative recommendation outcomes; either may throw (\<open>Inl\<close>).
\<close>

definition selfTuneRepos :: "RepositoryRecord list \<Rightarrow> (string \<Rightarrow> string + AutonomyPolicy option) \<Rightarrow> string list" where
  "selfTuneRepos repositories settings =
     List.map_filter (\<lambda>repo. case settings (repo_fullName repo) of
        Inl _ \<Rightarrow> None
      | Inr autonomy \<Rightarrow> if isAgentConfigured autonomy then Some (repo_fullName repo) else None)
       (filter repo_isRegistered repositories)"

definition selfTuneContext :: "(string \<Rightarrow> string \<Rightarrow> bool) \<Rightarrow> string \<Rightarrow> nat \<Rightarrow> nat \<Rightarrow> int \<Rightarrow> AutoApplyContext" where
  "selfTuneContext collate repoFullName positive negative nowMs =
     (let row = evalRowFromCalibration repoFullName positive negative;
          report = \<lparr>rep_rows = [row], rep_hasSignal = ev_decided row \<ge> 10\<rparr>
      in \<lparr>ctx_project = repoFullName, ctx_autoTune = True,
          ctx_baseConfidenceFloor = SELFTUNE_BASE_CONFIDENCE_FLOOR, ctx_baseScopeCap = None,
          ctx_decided = ev_decided row, ctx_recs = computeTuningRecommendations collate report,
          ctx_nowMs = nowMs\<rparr>)"

definition runSelfTune ::
  "(string \<Rightarrow> string \<Rightarrow> bool) \<Rightarrow> (int \<Rightarrow> string) \<Rightarrow> (rat \<Rightarrow> string) \<Rightarrow> RepositoryRecord list \<Rightarrow>
   (string \<Rightarrow> string + AutonomyPolicy option) \<Rightarrow> (string \<Rightarrow> string + nat \<times> nat) \<Rightarrow> int \<Rightarrow> OverrideStore \<Rightarrow> OverrideStore" where
  "runSelfTune collate toISO num repositories settings calibration nowMs s =
     fold (\<lambda>repoFullName s.
        case calibration repoFullName of
          Inl _ \<Rightarrow> s
        | Inr (positive, negative) \<Rightarrow>
            runAutoApplyRecommendations toISO num (selfTuneContext collate repoFullName positive negative nowMs) s)
       (selfTuneRepos repositories settings) s"

section \<open>Stored overrides are valid\<close>

definition valid_override :: "TunableOverride \<Rightarrow> bool" where
  "valid_override o' \<longleftrightarrow>
     (case ov_confidenceFloor o' of None \<Rightarrow> True | Some f \<Rightarrow> 0 \<le> f \<and> f \<le> 1) \<and>
     (case ov_scopeCap o' of None \<Rightarrow> True | Some c \<Rightarrow> 0 < cap_files c \<and> 0 < cap_lines c)"

lemma rowToOverride_valid: "rowToOverride row now = Some o' \<Longrightarrow> valid_override o' \<and> nonempty_override o' = Some o'"
  by (auto simp: rowToOverride_def nonempty_override_def valid_override_def split: option.splits if_splits)

lemma mergeOverride_valid:
  "valid_override o' \<Longrightarrow> (\<forall>b. base = Some b \<longrightarrow> valid_override b) \<Longrightarrow> valid_override (mergeOverride base o')"
  by (cases base) (auto simp: mergeOverride_def valid_override_def split: option.splits)

lemma mergeOverride_nonempty: "nonempty_override o' = Some o' \<Longrightarrow>
    nonempty_override (mergeOverride base o') = Some (mergeOverride base o')"
  by (auto simp: mergeOverride_def nonempty_override_def split: if_splits option.splits)

lemma rowToOverride_row: "valid_override o' \<Longrightarrow> rowToOverride (Some (override_row o')) now = nonempty_override o'"
  by (cases o'; cases "ov_scopeCap o'")
    (auto simp: rowToOverride_def override_row_def row_expired_def valid_override_def nonempty_override_def
      split: option.splits)

lemma valid_none: "nonempty_override o' = Some x \<longleftrightarrow> x = o' \<and> (ov_confidenceFloor o' \<noteq> None \<or> ov_scopeCap o' \<noteq> None)"
  by (auto simp: nonempty_override_def)

section \<open>What a tick does when every statement runs\<close>

definition reliable :: "OverrideStore \<Rightarrow> bool" where
  "reliable s \<longleftrightarrow> db_fault s = (\<lambda>_. False)"

lemma db_call_reliable: "reliable s \<Longrightarrow> db_call f s = (Some (fst (f (s\<lparr>db_calls := Suc (db_calls s)\<rparr>))),
    snd (f (s\<lparr>db_calls := Suc (db_calls s)\<rparr>)))"
  by (simp add: db_call_def reliable_def Let_def split: prod.split)

lemma reliable_calls [simp]: "reliable (s\<lparr>db_calls := n\<rparr>) = reliable s"
  "reliable (s\<lparr>tunables_overrides := m\<rparr>) = reliable s"
  "reliable (s\<lparr>tunables_overrides_shadow := m'\<rparr>) = reliable s"
  by (simp_all add: reliable_def)

lemma writeLive_reliable: "reliable s \<Longrightarrow>
    \<exists>s'. writeLiveOverride p o' s = (Some (), s') \<and> reliable s' \<and>
      tunables_overrides s' = (tunables_overrides s)
        (p \<mapsto> override_row (mergeOverride (rowToOverride (tunables_overrides s p) None) o'))"
  by (simp add: writeLiveOverride_def loadOverride_def db_call_reliable)

lemma recordAudit_live [simp]: "tunables_overrides (recordOverrideAudit p e d s) = tunables_overrides s"
  by (simp add: recordOverrideAudit_def db_call_def Let_def)

lemma promote_live:
  assumes "reliable s"
  shows "tunables_overrides (snd (promoteShadow ctx now current sh s)) =
    (if fst (evaluateShadowPromotion (so_override sh) (Some (liveFloor ctx current)) (liveCap ctx current)
          (ctx_decided ctx) (so_validatedUntil sh) now)
     then (tunables_overrides s)(ctx_project ctx \<mapsto>
       override_row (mergeOverride (rowToOverride (tunables_overrides s (ctx_project ctx)) None) (so_override sh)))
     else tunables_overrides s)"
proof -
  obtain s' where s': "writeLiveOverride (ctx_project ctx) (so_override sh) s = (Some (), s')" "reliable s'"
    "tunables_overrides s' = (tunables_overrides s)(ctx_project ctx \<mapsto>
       override_row (mergeOverride (rowToOverride (tunables_overrides s (ctx_project ctx)) None) (so_override sh)))"
    using writeLive_reliable [OF assms] by blast
  then show ?thesis
    by (auto simp: promoteShadow_def db_bind_def db_return_def deleteShadowOverride_def db_call_reliable
        split: prod.split bool.split)
qed

section \<open>Only a promotion touches the live table\<close>

lemma load_live [simp]: "tunables_overrides (snd (loadOverride p now s)) = tunables_overrides s"
  "tunables_overrides_shadow (snd (loadOverride p now s)) = tunables_overrides_shadow s"
  by (simp_all add: loadOverride_def db_call_def Let_def)

lemma loadShadow_tables [simp]: "tunables_overrides (snd (loadShadowOverride p s)) = tunables_overrides s"
  "tunables_overrides_shadow (snd (loadShadowOverride p s)) = tunables_overrides_shadow s"
  by (auto simp: loadShadowOverride_def db_call_def Let_def split: option.split)

lemma loadShadow_SomeD: "loadShadowOverride p s = (Some sh, s') \<Longrightarrow>
    \<exists>row. tunables_overrides_shadow s p = Some row \<and> so_validatedUntil sh = sr_validated_until row \<and>
      rowToOverride (Some (sr_row row)) None = Some (so_override sh)"
  by (auto simp: loadShadowOverride_def db_call_def Let_def split: option.splits if_splits)

lemma writeShadow_tables:
  "tunables_overrides (snd (writeShadowOverride p o' v s)) = tunables_overrides s \<and>
   (fst (writeShadowOverride p o' v s) = Some () \<longrightarrow>
      (\<exists>row. tunables_overrides_shadow (snd (writeShadowOverride p o' v s)) p = Some row \<and>
         sr_validated_until row = Some v))"
proof -
  obtain e s1 where l: "loadShadowOverride p s = (e, s1)" by fastforce
  then have "tunables_overrides s1 = tunables_overrides s" using loadShadow_tables(1) [of p s] by simp
  with l show ?thesis by (simp add: writeShadowOverride_def db_call_def Let_def)
qed

lemma recordAudit_shadow [simp]: "tunables_overrides_shadow (recordOverrideAudit p e d s) = tunables_overrides_shadow s"
  by (simp add: recordOverrideAudit_def db_call_def Let_def)

lemma queue_tables:
  assumes "queueTightening toISO num ctx current s = (r, s')"
  shows "tunables_overrides s' = tunables_overrides s"
    and "r = Some () \<Longrightarrow> s' = s \<or>
      (\<exists>row. tunables_overrides_shadow s' (ctx_project ctx) = Some row \<and>
         sr_validated_until row = Some (toISO (ctx_nowMs ctx + SHADOW_SOAK_MS)))"
proof -
  let ?v = "toISO (ctx_nowMs ctx + SHADOW_SOAK_MS)"
  have "tunables_overrides s' = tunables_overrides s \<and> (r = Some () \<longrightarrow> s' = s \<or>
      (\<exists>row. tunables_overrides_shadow s' (ctx_project ctx) = Some row \<and> sr_validated_until row = Some ?v))"
  proof (cases "List.find (\<lambda>p. isStrictlyTightening p (Some (liveFloor ctx current)) (liveCap ctx current))
      (rec_payloads (ctx_recs ctx))")
    case None
    with assms show ?thesis by (auto simp: queueTightening_def db_return_def)
  next
    case (Some payload)
    obtain w s1 where w: "writeShadowOverride (ctx_project ctx) payload ?v s = (w, s1)" by fastforce
    from writeShadow_tables [of "ctx_project ctx" payload ?v s] w Some assms show ?thesis
      by (cases w) (auto simp: queueTightening_def applyOverrideRecommendation_def db_bind_def db_return_def Let_def)
  qed
  then show "tunables_overrides s' = tunables_overrides s"
    and "r = Some () \<Longrightarrow> s' = s \<or>
      (\<exists>row. tunables_overrides_shadow s' (ctx_project ctx) = Some row \<and> sr_validated_until row = Some ?v)"
    by blast+
qed

lemma writeLive_other: "q \<noteq> p \<Longrightarrow> tunables_overrides (snd (writeLiveOverride p o' s)) q = tunables_overrides s q"
  by (simp add: writeLiveOverride_def loadOverride_def db_call_def Let_def split: prod.split)

lemma promote_gate: "promoteShadow ctx now current sh s = (if fst (evaluateShadowPromotion (so_override sh)
       (Some (liveFloor ctx current)) (liveCap ctx current) (ctx_decided ctx) (so_validatedUntil sh) now)
     then promoteShadow ctx now current sh s else (Some (), s))"
  by (auto simp: promoteShadow_def db_return_def split: prod.split bool.split)

lemma deleteShadow_live [simp]: "tunables_overrides (snd (deleteShadowOverride p s)) = tunables_overrides s"
  by (simp add: deleteShadowOverride_def db_call_def Let_def)

lemma promote_other: "q \<noteq> ctx_project ctx \<Longrightarrow>
    tunables_overrides (snd (promoteShadow ctx now current sh s)) q = tunables_overrides s q"
proof -
  assume q: "q \<noteq> ctx_project ctx"
  obtain w s1 where w: "writeLiveOverride (ctx_project ctx) (so_override sh) s = (w, s1)" by fastforce
  obtain d s2 where d: "deleteShadowOverride (ctx_project ctx) s1 = (d, s2)" by fastforce
  have "tunables_overrides s1 q = tunables_overrides s q" "tunables_overrides s2 = tunables_overrides s1"
    using writeLive_other [OF q, of "so_override sh" s] deleteShadow_live [of "ctx_project ctx" s1] w d by simp_all
  then show ?thesis
    by (auto simp: promoteShadow_def db_bind_def db_return_def w d split: prod.split bool.split option.split)
qed

lemma gate_trueD: "fst (evaluateShadowPromotion o' f c n v now) \<Longrightarrow>
    isStrictlyTightening o' f c \<and> SHADOW_PROMOTION_MIN_DECIDED \<le> n \<and> (\<exists>u. v = Some u \<and> \<not> str_lt now u)"
  by (auto simp: evaluateShadowPromotion_def split: if_splits option.splits)

lemma promote_changes: "tunables_overrides (snd (promoteShadow ctx now current sh s)) \<noteq> tunables_overrides s \<Longrightarrow>
    SHADOW_PROMOTION_MIN_DECIDED \<le> ctx_decided ctx \<and>
    isStrictlyTightening (so_override sh) (Some (liveFloor ctx current)) (liveCap ctx current) \<and>
    (\<exists>u. so_validatedUntil sh = Some u \<and> \<not> str_lt now u)"
  by (subst (asm) promote_gate) (auto dest: gate_trueD split: if_splits)

text \<open>
  C27: nothing goes live unsoaked, however the database fails. A tick changes the live override of
  its own project alone, and only when a shadow override was in the table before the tick, its
  soak deadline has passed, ten outcomes are decided, and it is strictly tighter than the live override as
  the tick read it (a failed read finds none, and the base configuration counts); an override
  queued by a tick waits for a later one.
\<close>

theorem promotion_needs_soak:
  assumes "str_lt (toISO (ctx_nowMs ctx)) (toISO (ctx_nowMs ctx + SHADOW_SOAK_MS))"
    and "runAutoApplyRecommendations toISO num ctx s = s'"
    and "tunables_overrides s' q \<noteq> tunables_overrides s q"
  shows "q = ctx_project ctx \<and> 10 \<le> ctx_decided ctx \<and>
    (\<exists>row u o'. tunables_overrides_shadow s q = Some row \<and> sr_validated_until row = Some u \<and>
       \<not> str_lt (toISO (ctx_nowMs ctx)) u \<and> rowToOverride (Some (sr_row row)) None = Some o' \<and>
       (let current = fst (loadOverride q (Some (toISO (ctx_nowMs ctx))) s)
        in isStrictlyTightening o' (Some (liveFloor ctx current)) (liveCap ctx current)))"
proof -
  let ?p = "ctx_project ctx" and ?now = "toISO (ctx_nowMs ctx)"
  obtain current s1 where l: "loadOverride ?p (Some ?now) s = (current, s1)" by fastforce
  obtain shadowed s2 where ls: "loadShadowOverride ?p s1 = (shadowed, s2)" by fastforce
  have t1: "tunables_overrides s2 = tunables_overrides s" "tunables_overrides_shadow s2 = tunables_overrides_shadow s"
      "tunables_overrides_shadow s1 = tunables_overrides_shadow s"
    using load_live [of ?p "Some ?now" s] loadShadow_tables [of ?p s1] l ls by simp_all
  obtain sh s3 row where promoted: "s' = snd (promoteShadow ctx ?now current sh s3)"
    "tunables_overrides s3 = tunables_overrides s" "so_validatedUntil sh = sr_validated_until row"
    "rowToOverride (Some (sr_row row)) None = Some (so_override sh)"
    "tunables_overrides_shadow s ?p = Some row \<or>
     sr_validated_until row = Some (toISO (ctx_nowMs ctx + SHADOW_SOAK_MS))"
  proof (cases shadowed)
    case (Some sh)
    then obtain row where "tunables_overrides_shadow s1 ?p = Some row" "so_validatedUntil sh = sr_validated_until row"
      "rowToOverride (Some (sr_row row)) None = Some (so_override sh)"
      using loadShadow_SomeD ls by blast
    moreover have "s' = snd (promoteShadow ctx ?now current sh s2)"
      using assms(2,3) l ls Some by (auto simp: runAutoApplyRecommendations_def Let_def split: if_splits)
    ultimately show ?thesis using that t1 by metis
  next
    case None
    obtain r s3 where qt: "queueTightening toISO num ctx current s2 = (r, s3)" by fastforce
    obtain sh' s4 where l4: "loadShadowOverride ?p s3 = (sh', s4)" by fastforce
    have t3: "tunables_overrides s3 = tunables_overrides s" using queue_tables(1) [OF qt] t1 by simp
    have t4: "tunables_overrides s4 = tunables_overrides s" using loadShadow_tables(1) [of ?p s3] l4 t3 by simp
    from assms(2,3) l ls None qt l4 t3 t4 obtain sh where sh: "r = Some ()" "sh' = Some sh"
      "s' = snd (promoteShadow ctx ?now current sh s4)"
      by (auto simp: runAutoApplyRecommendations_def Let_def split: if_splits option.splits)
    obtain row where row: "tunables_overrides_shadow s3 ?p = Some row" "so_validatedUntil sh = sr_validated_until row"
      "rowToOverride (Some (sr_row row)) None = Some (so_override sh)"
      using loadShadow_SomeD l4 sh(2) by blast
    from queue_tables(2) [OF qt sh(1)] row(1) t1
    have "tunables_overrides_shadow s ?p = Some row \<or>
        sr_validated_until row = Some (toISO (ctx_nowMs ctx + SHADOW_SOAK_MS))" by auto
    with that [OF sh(3) t4 row(2,3)] show ?thesis by blast
  qed
  have "q = ?p" using promote_other [of q ctx ?now current sh s3] promoted(1,2) assms(3) by metis
  moreover have "tunables_overrides s' \<noteq> tunables_overrides s3" using assms(3) promoted(2) by metis
  with promote_changes promoted(1) obtain u where u: "SHADOW_PROMOTION_MIN_DECIDED \<le> ctx_decided ctx"
      "so_validatedUntil sh = Some u" "\<not> str_lt ?now u"
      "isStrictlyTightening (so_override sh) (Some (liveFloor ctx current)) (liveCap ctx current)" by blast
  moreover have "tunables_overrides_shadow s ?p = Some row"
    using promoted(3,5) u assms(1) by auto
  ultimately show ?thesis using promoted(3,4) l by (auto simp: SHADOW_PROMOTION_MIN_DECIDED_def)
qed

definition sample_cap :: ScopeCap where
  "sample_cap = \<lparr>cap_files = 20, cap_lines = 400\<rparr>"

definition sample_row :: "rat option \<Rightarrow> ScopeCap option \<Rightarrow> OverrideRow" where
  "sample_row f c = override_row \<lparr>ov_confidenceFloor = f, ov_scopeCap = c\<rparr>"

text \<open>A clock that runs from the text \<open>a\<close> to \<open>b\<close>, and stores with one live and one shadow row.\<close>

definition sample_iso :: "int \<Rightarrow> string" where
  "sample_iso t = (if t \<le> 0 then ''a'' else ''b'')"

definition sample_store :: "OverrideRow option \<Rightarrow> OverrideRow option \<Rightarrow> (nat \<Rightarrow> bool) \<Rightarrow> OverrideStore" where
  "sample_store current_row shadow_row faults =
     \<lparr>tunables_overrides = (\<lambda>_. current_row),
      tunables_overrides_shadow = (\<lambda>_. map_option (\<lambda>r. \<lparr>sr_row = r, sr_validated_until = Some ''a''\<rparr>) shadow_row),
      override_audit = [], db_now = ''a'', db_fault = faults, db_calls = 0\<rparr>"

definition sample_ctx :: "rat \<Rightarrow> AutoApplyContext" where
  "sample_ctx base = \<lparr>ctx_project = ''o/r'', ctx_autoTune = True, ctx_baseConfidenceFloor = base,
     ctx_baseScopeCap = None, ctx_decided = 10, ctx_recs = [], ctx_nowMs = 0\<rparr>"

lemmas sample_defs = sample_store_def sample_ctx_def sample_row_def sample_iso_def override_row_def
  str_lt_def SHADOW_SOAK_MS_def

lemmas tick_eval = runAutoApplyRecommendations_def loadOverride_def loadShadowOverride_def db_call_def
  rowToOverride_def row_expired_def nonempty_override_def promoteShadow_def evaluateShadowPromotion_def
  isStrictlyTightening_def liveFloor_def liveCap_def db_bind_def writeLiveOverride_def mergeOverride_def
  SHADOW_PROMOTION_MIN_DECIDED_def deleteShadowOverride_def db_return_def

theorem promotion_needs_soak_witness:
  "\<exists>row u o'. tunables_overrides_shadow (sample_store None (Some (sample_row (Some (95 / 100)) None)) (\<lambda>_. False)) ''o/r'' = Some row
     \<and> sr_validated_until row = Some u \<and> \<not> str_lt (sample_iso 0) u \<and> rowToOverride (Some (sr_row row)) None = Some o'
     \<and> isStrictlyTightening o' (Some 0) None"
proof -
  let ?s = "sample_store None (Some (sample_row (Some (95 / 100)) None)) (\<lambda>_. False)"
  have "tunables_overrides (runAutoApplyRecommendations sample_iso (\<lambda>_. []) (sample_ctx 0) ?s) ''o/r'' \<noteq> tunables_overrides ?s ''o/r''"
    by (simp add: sample_defs tick_eval Let_def)
  from promotion_needs_soak [OF _ refl this]
  have "\<exists>row u o'. tunables_overrides_shadow ?s ''o/r'' = Some row \<and> sr_validated_until row = Some u \<and> \<not> str_lt (sample_iso 0) u \<and>
      rowToOverride (Some (sr_row row)) None = Some o' \<and>
      (let current = fst (loadOverride ''o/r'' (Some (sample_iso 0)) ?s)
       in isStrictlyTightening o' (Some (liveFloor (sample_ctx 0) current)) (liveCap (sample_ctx 0) current))"
    by (simp add: sample_ctx_def str_lt_def sample_iso_def SHADOW_SOAK_MS_def)
  moreover have "fst (loadOverride ''o/r'' (Some (sample_iso 0)) ?s) = None"
    by (simp add: sample_defs tick_eval Let_def)
  ultimately show ?thesis by (simp add: Let_def liveFloor_def liveCap_def sample_ctx_def)
qed

section \<open>A tick only tightens, if it can read the live override\<close>

definition cap_within :: "ScopeCap option \<Rightarrow> ScopeCap option \<Rightarrow> bool" where
  "cap_within c l = (case l of None \<Rightarrow> True
     | Some b \<Rightarrow> (case c of None \<Rightarrow> False | Some a \<Rightarrow> cap_files a \<le> cap_files b \<and> cap_lines a \<le> cap_lines b))"

lemma cap_within_refl [simp]: "cap_within c c"
  by (simp add: cap_within_def split: option.split)

lemma tightening_merge:
  assumes "isStrictlyTightening o' (Some (liveFloor ctx current)) (liveCap ctx current)"
  shows "liveFloor ctx current \<le> liveFloor ctx (Some (mergeOverride current o')) \<and>
    cap_within (liveCap ctx (Some (mergeOverride current o'))) (liveCap ctx current)"
proof -
  have "liveFloor ctx current \<le> liveFloor ctx (Some (mergeOverride current o'))"
    using assms by (cases "ov_confidenceFloor o'")
      (auto simp: isStrictlyTightening_def Let_def liveFloor_def mergeOverride_def split: if_splits)
  moreover have "cap_within (liveCap ctx (Some (mergeOverride current o'))) (liveCap ctx current)"
  proof (cases "ov_scopeCap o'")
    case None
    then have "liveCap ctx (Some (mergeOverride current o')) = liveCap ctx current"
      by (simp add: liveCap_def mergeOverride_def)
    then show ?thesis by simp
  next
    case (Some c)
    then have "liveCap ctx (Some (mergeOverride current o')) = Some c"
      by (simp add: liveCap_def mergeOverride_def)
    with Some assms show ?thesis
      by (cases "liveCap ctx current") (auto simp: isStrictlyTightening_def Let_def cap_within_def split: if_splits)
  qed
  ultimately show ?thesis by blast
qed

lemma loadOverride_reliable: "reliable s \<Longrightarrow> loadOverride p now s =
    (rowToOverride (tunables_overrides s p) now, s\<lparr>db_calls := Suc (db_calls s)\<rparr>)"
  by (simp add: loadOverride_def db_call_reliable)

lemma fault_unchanged: "db_fault (snd (loadShadowOverride p s)) = db_fault s"
  "db_fault (snd (writeShadowOverride p o' v s)) = db_fault s"
  "db_fault (recordOverrideAudit p e d s) = db_fault s"
  by (auto simp: loadShadowOverride_def writeShadowOverride_def recordOverrideAudit_def db_call_def Let_def
      split: option.split prod.split)

lemma queue_fault: "db_fault (snd (queueTightening toISO num ctx current s)) = db_fault s"
proof (cases "List.find (\<lambda>p. isStrictlyTightening p (Some (liveFloor ctx current)) (liveCap ctx current))
    (rec_payloads (ctx_recs ctx))")
  case (Some payload)
  obtain w s1 where w: "writeShadowOverride (ctx_project ctx) payload (toISO (ctx_nowMs ctx + SHADOW_SOAK_MS)) s = (w, s1)"
    by fastforce
  then have "db_fault s1 = db_fault s" using fault_unchanged(2) [of "ctx_project ctx" payload] by (metis snd_conv)
  with Some w show ?thesis
    by (cases w) (auto simp: queueTightening_def applyOverrideRecommendation_def db_bind_def db_return_def Let_def
        fault_unchanged)
qed (simp add: queueTightening_def db_return_def)

text \<open>The live table after a tick: unchanged, or with a tightening override merged into the row.\<close>

lemma tick_outcome:
  assumes "reliable s" and "runAutoApplyRecommendations toISO num ctx s = s'"
  defines "current \<equiv> rowToOverride (tunables_overrides s (ctx_project ctx)) (Some (toISO (ctx_nowMs ctx)))"
  shows "tunables_overrides s' = tunables_overrides s \<or>
    (\<exists>row o'. rowToOverride (Some row) None = Some o' \<and>
       isStrictlyTightening o' (Some (liveFloor ctx current)) (liveCap ctx current) \<and>
       tunables_overrides s' = (tunables_overrides s)(ctx_project ctx \<mapsto>
         override_row (mergeOverride (rowToOverride (tunables_overrides s (ctx_project ctx)) None) o')))"
proof -
  let ?p = "ctx_project ctx" and ?now = "toISO (ctx_nowMs ctx)"
  let ?s1 = "s\<lparr>db_calls := Suc (db_calls s)\<rparr>"
  have promoted: ?thesis if sh: "s' = snd (promoteShadow ctx ?now current sh t)" "reliable t"
      "tunables_overrides t = tunables_overrides s" "\<exists>row. rowToOverride (Some row) None = Some (so_override sh)" for sh t
  proof (cases "fst (evaluateShadowPromotion (so_override sh) (Some (liveFloor ctx current)) (liveCap ctx current)
        (ctx_decided ctx) (so_validatedUntil sh) ?now)")
    case True
    note gate_trueD [OF this]
    moreover have "tunables_overrides s' = (tunables_overrides s)(?p \<mapsto>
        override_row (mergeOverride (rowToOverride (tunables_overrides s ?p) None) (so_override sh)))"
      unfolding sh(1) promote_live [OF sh(2)] sh(3) using True by simp
    ultimately show ?thesis using sh(4) by blast
  next
    case False
    then show ?thesis unfolding sh(1) promote_live [OF sh(2)] sh(3) by simp
  qed
  have shadow_row: "\<exists>row. rowToOverride (Some row) None = Some (so_override sh)"
    if "loadShadowOverride ?p t = (Some sh, t')" for sh t t'
    using that by (auto simp: loadShadowOverride_def split: prod.splits option.splits)
  obtain shadowed s2 where ls: "loadShadowOverride ?p ?s1 = (shadowed, s2)" by fastforce
  then have s2: "reliable s2" "tunables_overrides s2 = tunables_overrides s"
    using assms(1) fault_unchanged(1) [of ?p ?s1] loadShadow_tables(1) [of ?p ?s1] by (simp_all add: reliable_def)
  obtain r s3 where qt: "queueTightening toISO num ctx current s2 = (r, s3)" by fastforce
  then have s3: "reliable s3" "tunables_overrides s3 = tunables_overrides s"
    using s2 queue_fault [of toISO num ctx current s2] queue_tables(1) [OF qt] by (simp_all add: reliable_def)
  obtain sh' s4 where l4: "loadShadowOverride ?p s3 = (sh', s4)" by fastforce
  then have s4: "reliable s4" "tunables_overrides s4 = tunables_overrides s"
    using s3 fault_unchanged(1) [of ?p s3] loadShadow_tables(1) [of ?p s3] by (simp_all add: reliable_def)
  have run: "s' = s \<or> (\<exists>sh. shadowed = Some sh \<and> s' = snd (promoteShadow ctx ?now current sh s2)) \<or>
      s' = s3 \<or> s' = s4 \<or> (\<exists>sh. sh' = Some sh \<and> s' = snd (promoteShadow ctx ?now current sh s4))"
    using assms(2) by (auto simp: runAutoApplyRecommendations_def Let_def loadOverride_reliable [OF assms(1)]
        current_def ls qt [unfolded current_def] l4 split: if_splits option.splits)
  then show ?thesis using promoted s2 s3 s4 shadow_row [of ?s1] shadow_row [of s3] ls l4 by metis
qed

text \<open>
  The loop only tightens. If every statement runs and the live row has not expired, then after
  a tick the floor in force is at least the floor before, and the scope cap in force is within the
  cap before.
\<close>

theorem tick_only_tightens:
  assumes "reliable s" and "runAutoApplyRecommendations toISO num ctx s = s'"
    and "rowToOverride (tunables_overrides s (ctx_project ctx)) (Some (toISO (ctx_nowMs ctx)))
      = rowToOverride (tunables_overrides s (ctx_project ctx)) None"
  shows "let before = rowToOverride (tunables_overrides s (ctx_project ctx)) None;
      after = rowToOverride (tunables_overrides s' (ctx_project ctx)) None
    in liveFloor ctx before \<le> liveFloor ctx after \<and> cap_within (liveCap ctx after) (liveCap ctx before)"
proof -
  let ?p = "ctx_project ctx"
  let ?before = "rowToOverride (tunables_overrides s ?p) None"
  from tick_outcome [OF assms(1,2)] consider "tunables_overrides s' = tunables_overrides s"
    | row o' where "rowToOverride (Some row) None = Some o'"
      "isStrictlyTightening o' (Some (liveFloor ctx ?before)) (liveCap ctx ?before)"
      "tunables_overrides s' ?p = Some (override_row (mergeOverride ?before o'))"
    unfolding assms(3) by fastforce
  then show ?thesis
  proof cases
    case (2 row o')
    note o' = rowToOverride_valid [OF 2(1)]
    have "rowToOverride (tunables_overrides s' ?p) None = Some (mergeOverride ?before o')"
      unfolding 2(3) using o' rowToOverride_valid
      by (subst rowToOverride_row) (auto intro!: mergeOverride_valid mergeOverride_nonempty)
    then show ?thesis using tightening_merge [OF 2(2)] by (simp add: Let_def)
  qed (simp add: Let_def)
qed

theorem tick_only_tightens_witness:
  "let s = sample_store (Some (sample_row (Some (9 / 10)) None)) (Some (sample_row (Some (95 / 100)) None)) (\<lambda>_. False)
   in liveFloor (sample_ctx 0) (rowToOverride (tunables_overrides s ''o/r'') None)
     \<le> liveFloor (sample_ctx 0) (rowToOverride (tunables_overrides
          (runAutoApplyRecommendations sample_iso (\<lambda>_. []) (sample_ctx 0) s) ''o/r'') None)"
proof -
  let ?s = "sample_store (Some (sample_row (Some (9 / 10)) None)) (Some (sample_row (Some (95 / 100)) None)) (\<lambda>_. False)"
  have "reliable ?s" by (simp add: reliable_def sample_store_def)
  moreover have "rowToOverride (tunables_overrides ?s (ctx_project (sample_ctx 0))) (Some (sample_iso (ctx_nowMs (sample_ctx 0))))
      = rowToOverride (tunables_overrides ?s (ctx_project (sample_ctx 0))) None"
    by (simp add: sample_defs rowToOverride_def row_expired_def)
  ultimately show ?thesis
    using tick_only_tightens [of ?s sample_iso "\<lambda>_. []" "sample_ctx 0", OF _ refl]
    by (simp add: Let_def sample_ctx_def)
qed

section \<open>When the live override cannot be read\<close>

text \<open>
  C28: the fail-safe read of the live override is not safe for the promotion. When that one read
  fails, the tick judges a soaked shadow floor against the base configuration and writes it over
  the live one, even if the live floor is higher; and a live override that has expired is counted
  as absent by the judgement but merged back by the write, with its expiry date dropped.
\<close>

theorem unread_live_override_is_loosened:
  assumes "0 \<le> base" "base < new_floor" "new_floor < old_floor" "old_floor \<le> 1"
  shows "rowToOverride (tunables_overrides (runAutoApplyRecommendations sample_iso num (sample_ctx base)
      (sample_store (Some (sample_row (Some old_floor) None)) (Some (sample_row (Some new_floor) None)) (\<lambda>n. n = 0))) ''o/r'') None
    = Some \<lparr>ov_confidenceFloor = Some new_floor, ov_scopeCap = None\<rparr> \<and>
   rowToOverride (tunables_overrides (runAutoApplyRecommendations sample_iso num (sample_ctx new_floor)
      (sample_store (Some ((sample_row (Some base) None)\<lparr>or_clear_at := Some ''a''\<rparr>))
         (Some (sample_row None (Some sample_cap))) (\<lambda>_. False))) ''o/r'') None
    = Some \<lparr>ov_confidenceFloor = Some base, ov_scopeCap = Some sample_cap\<rparr>"
  using assms by (simp add: sample_defs sample_cap_def tick_eval Let_def)

theorem unread_live_override_is_loosened_witness:
  "rowToOverride (tunables_overrides (runAutoApplyRecommendations sample_iso (\<lambda>_. []) (sample_ctx 0)
      (sample_store (Some (sample_row (Some (97 / 100)) None)) (Some (sample_row (Some (95 / 100)) None)) (\<lambda>n. n = 0))) ''o/r'') None
    = Some \<lparr>ov_confidenceFloor = Some (95 / 100), ov_scopeCap = None\<rparr>"
  using unread_live_override_is_loosened [of 0 "95 / 100" "97 / 100" "\<lambda>_. []"] by simp

end
