(* ===== verification/Reputation.thy ===== *)
theory Reputation
  imports Js_Regex "HOL-Library.Multiset"
begin

text \<open>
  The internal submitter reputation, \<open>review/submitter-reputation.ts\<close>, and its use in front of
  the AI review, \<open>review/reputation-wire.ts\<close>. Rates are exact quotients. The two D1 reads of
  \<open>getSubmitterReputation\<close> fail independently: \<open>stats_fault\<close> and \<open>window_fault\<close> of the store
  say whether they do. \<open>datetime('now', '-N days')\<close> is the field \<open>window_start\<close>.
\<close>

section \<open>Outcomes and buckets\<close>

record ReputationConfig =
  windowDays :: nat
  minSample :: nat
  qualityFailLowRate :: rat
  qualityFailLowMaxSuccess :: nat
  lightFailWeight :: rat
  trustedMinSuccess :: nat
  trustedMaxFailRate :: rat

datatype ReputationSignal = rep_trusted | rep_neutral | rep_low

datatype SubmissionOutcome = sub_merged | sub_closed | sub_manual

record SubmitterStats =
  ss_submissions :: nat
  ss_merged :: nat
  ss_closed :: nat
  ss_manual :: nat
  ss_closeRate :: rat
  ss_signal :: ReputationSignal

definition REPUTATION_WINDOW_DAYS :: nat where "REPUTATION_WINDOW_DAYS = 90"
definition REPUTATION_WINDOW_ROW_CAP :: nat where "REPUTATION_WINDOW_ROW_CAP = 500"

definition SUCCESS_CODES :: "string list" where
  "SUCCESS_CODES = [''dual_review_approved'', ''dual_review_approved_tiebreak'', ''maintainer_cleanup'']"

definition QUALITY_FAIL_CODES :: "string list" where
  "QUALITY_FAIL_CODES = [''dual_review_declined'', ''scope_failure'', ''thin_description'']"

definition QUALITY_FAIL_LIGHT_CODES :: "string list" where
  "QUALITY_FAIL_LIGHT_CODES =
     [''checks_failed'', ''strict_duplicate'', ''source_unfetchable'', ''source_archived'', ''protected_metadata_edit'']"

definition PROMPT_INJECTION_CODE :: string where
  "PROMPT_INJECTION_CODE = ''source_prompt_injection''"

definition CONFLICT_CODES :: "string list" where
  "CONFLICT_CODES = [''merge_conflict_closed'', ''merge_conflict_close'', ''pr_closed_before_merge'']"

datatype Bucket = b_success | b_quality_fail | b_quality_fail_light | b_prompt_injection | b_exclude

definition classifyOutcome :: "string \<Rightarrow> string option \<Rightarrow> Bucket" where
  "classifyOutcome status reasonCode =
     (if status = ''manual'' then b_exclude
      else if status = ''merged'' then b_success
      else (case reasonCode of
        None \<Rightarrow> b_exclude
      | Some code \<Rightarrow>
          if code \<in> set SUCCESS_CODES then b_exclude
          else if code \<in> set CONFLICT_CODES then b_exclude
          else if code = PROMPT_INJECTION_CODE then b_prompt_injection
          else if code \<in> set QUALITY_FAIL_CODES then b_quality_fail
          else if code \<in> set QUALITY_FAIL_LIGHT_CODES then b_quality_fail_light
          else b_exclude))"

record ReputationCounts =
  success :: nat
  qualityFail :: nat
  qualityFailLight :: nat
  promptInjection :: nat

definition DEFAULT_REPUTATION_CONFIG :: ReputationConfig where
  "DEFAULT_REPUTATION_CONFIG =
     \<lparr>windowDays = REPUTATION_WINDOW_DAYS, minSample = 5, qualityFailLowRate = 7 / 10,
      qualityFailLowMaxSuccess = 2, lightFailWeight = 1 / 2, trustedMinSuccess = 5, trustedMaxFailRate = 1 / 5\<rparr>"

definition sample_size :: "ReputationCounts \<Rightarrow> nat" where
  "sample_size c = success c + qualityFail c + qualityFailLight c + promptInjection c"

definition fail_rate :: "ReputationCounts \<Rightarrow> ReputationConfig \<Rightarrow> rat" where
  "fail_rate c cfg =
     (if sample_size c > 0
      then (of_nat (qualityFail c) + of_nat (qualityFailLight c) * lightFailWeight cfg) / of_nat (sample_size c)
      else 0)"

definition signalFromCounts :: "ReputationCounts \<Rightarrow> ReputationConfig \<Rightarrow> ReputationSignal" where
  "signalFromCounts c cfg =
     (if sample_size c < minSample cfg then rep_neutral
      else if promptInjection c > 0 then rep_low
      else if fail_rate c cfg \<ge> qualityFailLowRate cfg \<and> success c < qualityFailLowMaxSuccess cfg then rep_low
      else if success c \<ge> trustedMinSuccess cfg \<and> fail_rate c cfg \<le> trustedMaxFailRate cfg then rep_trusted
      else rep_neutral)"

fun count_bucket :: "Bucket \<Rightarrow> ReputationCounts \<Rightarrow> ReputationCounts" where
  "count_bucket b_success c = c\<lparr>success := success c + 1\<rparr>"
| "count_bucket b_quality_fail c = c\<lparr>qualityFail := qualityFail c + 1\<rparr>"
| "count_bucket b_quality_fail_light c = c\<lparr>qualityFailLight := qualityFailLight c + 1\<rparr>"
| "count_bucket b_prompt_injection c = c\<lparr>promptInjection := promptInjection c + 1\<rparr>"
| "count_bucket b_exclude c = c"

definition no_counts :: ReputationCounts where
  "no_counts = \<lparr>success = 0, qualityFail = 0, qualityFailLight = 0, promptInjection = 0\<rparr>"

definition countOutcomes :: "(string \<times> string option) list \<Rightarrow> ReputationCounts" where
  "countOutcomes rows = fold (\<lambda>(status, reasonCode) c. count_bucket (classifyOutcome status reasonCode) c) rows no_counts"

section \<open>The store\<close>

record StatsRow =
  st_submissions :: nat
  st_merged :: nat
  st_closed :: nat
  st_manual :: nat

record ReviewTarget =
  rt_project :: string
  rt_submitter :: string
  rt_status :: string
  rt_reasonCode :: "string option"
  rt_terminal_at :: "string option"

record ReputationStore =
  submitter_stats :: "string \<times> string \<Rightarrow> StatsRow option"
  review_targets :: "ReviewTarget list"
  window_start :: "nat \<Rightarrow> string"
  stats_fault :: bool
  window_fault :: bool

definition bump :: "SubmissionOutcome \<Rightarrow> StatsRow \<Rightarrow> StatsRow" where
  "bump outcome row =
     (case outcome of
        sub_merged \<Rightarrow> row\<lparr>st_submissions := st_submissions row + 1, st_merged := st_merged row + 1\<rparr>
      | sub_closed \<Rightarrow> row\<lparr>st_submissions := st_submissions row + 1, st_closed := st_closed row + 1\<rparr>
      | sub_manual \<Rightarrow> row\<lparr>st_submissions := st_submissions row + 1, st_manual := st_manual row + 1\<rparr>)"

definition new_stats :: StatsRow where
  "new_stats = \<lparr>st_submissions = 0, st_merged = 0, st_closed = 0, st_manual = 0\<rparr>"

text \<open>The upsert inserts a row of defaults with the two counters at one, or adds one to both.\<close>

definition recordSubmissionOutcome ::
  "string \<Rightarrow> string option \<Rightarrow> SubmissionOutcome \<Rightarrow> ReputationStore \<Rightarrow> ReputationStore" where
  "recordSubmissionOutcome project submitter outcome s =
     (case submitter of
        None \<Rightarrow> s
      | Some name \<Rightarrow>
          if name = [] then s
          else if stats_fault s then s
          else s\<lparr>submitter_stats := (submitter_stats s)
                 ((project, name) \<mapsto> bump outcome (nullish (submitter_stats s (project, name)) new_stats))\<rparr>)"

definition neutral_stats :: SubmitterStats where
  "neutral_stats = \<lparr>ss_submissions = 0, ss_merged = 0, ss_closed = 0, ss_manual = 0, ss_closeRate = 0,
     ss_signal = rep_neutral\<rparr>"

definition in_window :: "ReputationStore \<Rightarrow> nat \<Rightarrow> string \<Rightarrow> string \<Rightarrow> ReviewTarget \<Rightarrow> bool" where
  "in_window s days project name t \<longleftrightarrow>
     rt_project t = project \<and> rt_submitter t = name \<and>
     (case rt_terminal_at t of None \<Rightarrow> False | Some instant \<Rightarrow> str_le (window_start s days) instant)"

definition window_rows :: "ReputationStore \<Rightarrow> nat \<Rightarrow> string \<Rightarrow> string \<Rightarrow> (string \<times> string option) list" where
  "window_rows s days project name =
     map (\<lambda>t. (rt_status t, rt_reasonCode t))
       (take REPUTATION_WINDOW_ROW_CAP
         (sort_by (\<lambda>a b. str_le (nullish (rt_terminal_at b) []) (nullish (rt_terminal_at a) []))
           (filter (in_window s days project name) (review_targets s))))"

definition getSubmitterReputation ::
  "string \<Rightarrow> string option \<Rightarrow> ReputationConfig \<Rightarrow> ReputationStore \<Rightarrow> SubmitterStats" where
  "getSubmitterReputation project submitter cfg s =
     (case submitter of
        None \<Rightarrow> neutral_stats
      | Some name \<Rightarrow>
          if name = [] then neutral_stats
          else
            (let agg = (if stats_fault s then new_stats else nullish (submitter_stats s (project, name)) new_stats);
                 sig = (if window_fault s then rep_neutral
                   else signalFromCounts (countOutcomes (window_rows s (windowDays cfg) project name)) cfg);
                 decided = st_merged agg + st_closed agg
             in \<lparr>ss_submissions = st_submissions agg, ss_merged = st_merged agg, ss_closed = st_closed agg,
                 ss_manual = st_manual agg,
                 ss_closeRate = (if decided > 0 then of_nat (st_closed agg) / of_nat decided else 0),
                 ss_signal = sig\<rparr>))"

section \<open>reputation-wire.ts\<close>

definition isReputationEnabled :: "string option \<Rightarrow> bool" where
  "isReputationEnabled GITTENSORY_REVIEW_REPUTATION =
     rx_test_i (Seq [Bol, Alt [Lit ''1'', Lit ''true'', Lit ''yes'', Lit ''on''], Eol])
       (nullish GITTENSORY_REVIEW_REPUTATION [])"

definition REPUTATION_BURST_SUBMISSION_FLOOR :: nat where "REPUTATION_BURST_SUBMISSION_FLOOR = 8"
definition REPUTATION_BURST_MAX_MERGED :: nat where "REPUTATION_BURST_MAX_MERGED = 1"
definition REPUTATION_CLOSE_RATE_FLOOR :: rat where "REPUTATION_CLOSE_RATE_FLOOR = 85 / 100"

definition shouldDowngradeToDeterministic :: "SubmitterStats \<Rightarrow> bool" where
  "shouldDowngradeToDeterministic stats =
     (if ss_signal stats = rep_low then True
      else if ss_submissions stats \<ge> REPUTATION_BURST_SUBMISSION_FLOOR
           \<and> ss_merged stats < REPUTATION_BURST_MAX_MERGED then True
      else if ss_submissions stats \<ge> REPUTATION_BURST_SUBMISSION_FLOOR
           \<and> ss_closeRate stats \<ge> REPUTATION_CLOSE_RATE_FLOOR
           \<and> ss_merged stats < REPUTATION_BURST_MAX_MERGED then True
      else False)"

definition shouldSkipAiForReputation :: "string option \<Rightarrow> string \<Rightarrow> string option \<Rightarrow> ReputationStore \<Rightarrow> bool" where
  "shouldSkipAiForReputation flag project submitter s =
     (if \<not> isReputationEnabled flag then False
      else shouldDowngradeToDeterministic (getSubmitterReputation project submitter DEFAULT_REPUTATION_CONFIG s))"

definition recordReputationOutcome ::
  "string option \<Rightarrow> string \<Rightarrow> string option \<Rightarrow> SubmissionOutcome \<Rightarrow> ReputationStore \<Rightarrow> ReputationStore" where
  "recordReputationOutcome flag project submitter outcome s =
     (if \<not> isReputationEnabled flag then s else recordSubmissionOutcome project submitter outcome s)"

section \<open>The counts are those of the buckets\<close>

definition bucket_count :: "Bucket \<Rightarrow> (string \<times> string option) list \<Rightarrow> nat" where
  "bucket_count b rows = length (filter (\<lambda>(status, code). classifyOutcome status code = b) rows)"

lemma count_fold: "fold (\<lambda>(status, reasonCode) c. count_bucket (classifyOutcome status reasonCode) c) rows c0 =
    \<lparr>success = success c0 + bucket_count b_success rows,
     qualityFail = qualityFail c0 + bucket_count b_quality_fail rows,
     qualityFailLight = qualityFailLight c0 + bucket_count b_quality_fail_light rows,
     promptInjection = promptInjection c0 + bucket_count b_prompt_injection rows\<rparr>"
proof (induction rows arbitrary: c0)
  case (Cons r rows)
  obtain status code where "r = (status, code)" by fastforce
  with Cons show ?case by (cases "classifyOutcome status code") (simp_all add: bucket_count_def)
qed (simp add: bucket_count_def)

lemma countOutcomes_buckets: "countOutcomes rows =
    \<lparr>success = bucket_count b_success rows, qualityFail = bucket_count b_quality_fail rows,
     qualityFailLight = bucket_count b_quality_fail_light rows,
     promptInjection = bucket_count b_prompt_injection rows\<rparr>"
  by (simp add: countOutcomes_def count_fold no_counts_def)

lemma countOutcomes_mset: "mset rows = mset rows' \<Longrightarrow> countOutcomes rows = countOutcomes rows'"
proof -
  assume "mset rows = mset rows'"
  then have "bucket_count b rows = bucket_count b rows'" for b
    unfolding bucket_count_def by (metis mset_filter size_mset)
  then show ?thesis by (simp add: countOutcomes_buckets)
qed

lemma countOutcomes_excluded: "countOutcomes (filter (\<lambda>(status, code). classifyOutcome status code \<noteq> b_exclude) rows)
    = countOutcomes rows"
proof -
  have "bucket_count b (filter (\<lambda>(status, code). classifyOutcome status code \<noteq> b_exclude) rows) = bucket_count b rows"
    if "b \<noteq> b_exclude" for b
    unfolding bucket_count_def filter_filter by (rule arg_cong [of _ _ length], rule filter_cong) (use that in auto)
  then show ?thesis by (simp add: countOutcomes_buckets)
qed

section \<open>Properties\<close>

text \<open>
  Who is sent to the deterministic review. The signal of a submitter is the one of the rows
  of the window that are neither manual, nor conflicts, nor unknown; it is low only with a
  prompt injection or with fewer than two merges; and the downgrade is the low signal or the
  burst rule, so that the rate of closed submissions has no effect of its own.
\<close>

theorem reputation_downgrade_iff:
  "signalFromCounts (countOutcomes rows) DEFAULT_REPUTATION_CONFIG =
     signalFromCounts (countOutcomes (filter (\<lambda>(status, code). classifyOutcome status code \<noteq> b_exclude) rows))
       DEFAULT_REPUTATION_CONFIG \<and>
   \<not> (signalFromCounts (countOutcomes rows) DEFAULT_REPUTATION_CONFIG = rep_low \<and>
      bucket_count b_prompt_injection rows = 0 \<and> 2 \<le> bucket_count b_success rows) \<and>
   (shouldDowngradeToDeterministic stats \<longleftrightarrow>
      ss_signal stats = rep_low \<or> 8 \<le> ss_submissions stats \<and> ss_merged stats = 0)"
proof -
  have "\<not> (signalFromCounts (countOutcomes rows) DEFAULT_REPUTATION_CONFIG = rep_low \<and>
      bucket_count b_prompt_injection rows = 0 \<and> 2 \<le> bucket_count b_success rows)"
    by (auto simp: signalFromCounts_def countOutcomes_buckets DEFAULT_REPUTATION_CONFIG_def split: if_splits)
  moreover have "shouldDowngradeToDeterministic stats \<longleftrightarrow>
      ss_signal stats = rep_low \<or> 8 \<le> ss_submissions stats \<and> ss_merged stats = 0"
    by (auto simp: shouldDowngradeToDeterministic_def REPUTATION_BURST_SUBMISSION_FLOOR_def
        REPUTATION_BURST_MAX_MERGED_def)
  ultimately show ?thesis by (simp add: countOutcomes_excluded)
qed

definition outcome_counts :: "StatsRow \<Rightarrow> SubmissionOutcome list \<Rightarrow> StatsRow" where
  "outcome_counts row os =
     \<lparr>st_submissions = st_submissions row + length os, st_merged = st_merged row + count_list os sub_merged,
      st_closed = st_closed row + count_list os sub_closed, st_manual = st_manual row + count_list os sub_manual\<rparr>"

lemma fold_bump: "fold bump os row = outcome_counts row os"
proof (induction os arbitrary: row)
  case (Cons out os)
  then show ?case by (cases out) (simp_all add: outcome_counts_def bump_def)
qed (simp add: outcome_counts_def)

lemma record_faults [simp]: "stats_fault (recordSubmissionOutcome p n out s) = stats_fault s"
  by (simp add: recordSubmissionOutcome_def split: option.split)

text \<open>
  What is recorded is what is read. After any sequence of outcomes of one submitter the
  aggregate counts are the numbers of those outcomes added to the counts before, the counts of
  other submitters are unchanged, and with the flag off nothing is recorded and no review skipped.
\<close>

theorem reputation_counts_recorded:
  assumes "name \<noteq> []" "\<not> stats_fault s" and "os \<noteq> []"
    and "fold (recordSubmissionOutcome project (Some name)) os s = s'"
  shows "submitter_stats s' = (submitter_stats s)((project, name) \<mapsto>
      outcome_counts (nullish (submitter_stats s (project, name)) new_stats) os) \<and>
    recordReputationOutcome None project (Some name) outcome s = s \<and>
    \<not> shouldSkipAiForReputation None project (Some name) s"
proof -
  have "submitter_stats (fold (recordSubmissionOutcome project (Some name)) os s) =
      (submitter_stats s)((project, name) \<mapsto> fold bump os (nullish (submitter_stats s (project, name)) new_stats))"
    if "os \<noteq> []" "\<not> stats_fault s" for os s
    using that
  proof (induction os arbitrary: s rule: list_nonempty_induct)
    case (single out)
    then show ?case using assms(1) by (simp add: recordSubmissionOutcome_def)
  next
    case (cons out os)
    let ?s = "recordSubmissionOutcome project (Some name) out s"
    have "submitter_stats ?s = (submitter_stats s)((project, name) \<mapsto>
        bump out (nullish (submitter_stats s (project, name)) new_stats))"
      using assms(1) cons.prems by (simp add: recordSubmissionOutcome_def)
    with cons.IH [of ?s] cons.prems show ?case by (simp add: fun_eq_iff)
  qed
  from this [OF assms(3,2)] assms(4) have "submitter_stats s' = (submitter_stats s)((project, name) \<mapsto>
      outcome_counts (nullish (submitter_stats s (project, name)) new_stats) os)"
    by (simp add: fold_bump)
  moreover have "\<not> isReputationEnabled None"
    by (simp add: isReputationEnabled_def) code_simp
  ultimately show ?thesis by (simp add: recordReputationOutcome_def shouldSkipAiForReputation_def)
qed

definition empty_reputation :: ReputationStore where
  "empty_reputation = \<lparr>submitter_stats = (\<lambda>_. None), review_targets = [], window_start = (\<lambda>_. []),
     stats_fault = False, window_fault = False\<rparr>"

theorem reputation_counts_recorded_witness:
  "submitter_stats (fold (recordSubmissionOutcome ''p'' (Some ''ada'')) [sub_merged, sub_closed] empty_reputation) (''p'', ''ada'')
    = Some \<lparr>st_submissions = 2, st_merged = 1, st_closed = 1, st_manual = 0\<rparr>"
  using reputation_counts_recorded [of "''ada''" empty_reputation "[sub_merged, sub_closed]" "''p''", OF _ _ _ refl]
  by (simp add: empty_reputation_def outcome_counts_def new_stats_def)

end
