(* ===== verification/Auth.thy ===== *)
theory Auth
  imports Crypto Autonomy
begin

text \<open>
  Tokens and sessions: \<open>auth/security.ts\<close>, the session table of \<open>db/repositories.ts\<close>, and the
  signed state and return address of the web sign-in in \<open>auth/github-oauth.ts\<close>. The clock in
  milliseconds and the tables are a store; \<open>toISOString\<close>, \<open>Date.parse\<close>, the URL parser, the JSON
  text of the sign-in state and the primitives of Web Crypto are the fields of \<open>AuthLib\<close>, random
  bytes and identifiers are arguments, and database calls succeed unless a unique index refuses
  the row. The locale \<open>session_table\<close> states what authentication relies on of the table.
\<close>

record AuthSessionRecord =
  as_id :: string
  as_tokenHash :: string
  as_login :: string
  as_githubUserId :: "int option"
  as_scopes :: "string list"
  as_expiresAt :: string
  as_revokedAt :: "string option"
  as_createdAt :: string
  as_lastSeenAt :: "string option"
  as_metadata :: "(string \<times> json) list"

datatype static_actor = actor_api | actor_mcp | actor_internal

datatype AuthIdentity = Static static_actor | Session string AuthSessionRecord

record GitHubWebOAuthState =
  ws_nonce :: string
  ws_returnTo :: string
  ws_exp :: int

record 'key AuthLib =
  al_crypto :: "'key WebCrypto"
  al_toISO :: "int \<Rightarrow> string"
  al_date_parse :: "string \<Rightarrow> int option"
  al_url :: "string \<Rightarrow> string option \<Rightarrow> (string \<times> string \<times> string) option"
  al_state_json :: "GitHubWebOAuthState \<Rightarrow> string"
  al_state_parse :: "string \<Rightarrow> GitHubWebOAuthState option"

text \<open>\<open>al_url value base\<close> is the origin, the host name and the text of \<open>new URL(value, base)\<close>.\<close>

record AuthEnv =
  GITTENSORY_API_TOKEN :: "string option"
  GITTENSORY_MCP_TOKEN :: "string option"
  INTERNAL_JOB_TOKEN :: "string option"
  ADMIN_GITHUB_LOGINS :: "string option"
  PUBLIC_SITE_ORIGIN :: "string option"
  PUBLIC_API_ORIGIN :: "string option"
  GITHUB_OAUTH_CLIENT_SECRET :: "string option"

record AuthStore =
  auth_sessions :: "AuthSessionRecord list"
  auth_audit :: "AuditEventRecord list"
  auth_now :: int

section \<open>Constants, tokens and cookies\<close>

definition SESSION_TTL_SECONDS :: int where "SESSION_TTL_SECONDS = 7 * 24 * 60 * 60"
definition BROWSER_SESSION_COOKIE :: string where "BROWSER_SESSION_COOKIE = ''gittensory_session''"
definition GITHUB_OAUTH_STATE_COOKIE :: string where "GITHUB_OAUTH_STATE_COOKIE = ''gittensory_oauth_state''"
definition GITHUB_OAUTH_STATE_TTL_SECONDS :: int where "GITHUB_OAUTH_STATE_TTL_SECONDS = 10 * 60"

text \<open>\<open>/^Bearer\s+(.+)$/i\<close>: the group, trimmed, is what follows the white space, as long as it is one line.\<close>

definition BEARER :: rx where
  "BEARER = Seq [Bol, Lit ''bearer'', Plus (Oneof space_items), Plus Dot, Eol]"

definition extractBearerToken :: "string option \<Rightarrow> string option" where
  "extractBearerToken header =
     (let h = nullish header []; token = trim (drop (length ''Bearer'') h)
      in if rx_test_i BEARER h \<and> token \<noteq> [] then Some token else None)"

text \<open>
  \<open>encodeURIComponent\<close> and \<open>decodeURIComponent\<close> work on the UTF-8 bytes of a text; decoding throws
  on a malformed escape or ill-formed bytes.
\<close>

definition unreserved :: "char \<Rightarrow> bool" where
  "unreserved c = class_match (word_items @ map One [CHR ''-'', CHR ''.'', CHR ''!'', CHR ''~'', CHR ''*'', CHR 0x27, CHR ''('', CHR '')'']) c"

definition upper_hex :: "nat \<Rightarrow> char" where
  "upper_hex d = (if d < 10 then char_of (48 + d) else char_of (55 + d))"

definition encodeURIComponent :: "string \<Rightarrow> string" where
  "encodeURIComponent s = concat (map (\<lambda>c. if unreserved c then [c]
     else [CHR ''%'', upper_hex (of_char c div 16), upper_hex (of_char c mod 16)]) s)"

fun percent_decode :: "string \<Rightarrow> string option" where
  "percent_decode [] = Some []"
| "percent_decode (c # s) =
     (if c = CHR ''%'' then
        (case s of
           x # y # s' \<Rightarrow>
             (case (hex_value x, hex_value y) of
                (Some h, Some l) \<Rightarrow> map_option ((#) (char_of (16 * h + l))) (percent_decode s')
              | _ \<Rightarrow> None)
         | _ \<Rightarrow> None)
      else map_option ((#) c) (percent_decode s))"

definition decodeURIComponent :: "string \<Rightarrow> string option" where
  "decodeURIComponent s = Option.bind (percent_decode s) (\<lambda>t. if well_formed t then Some t else None)"

fun first_cookie :: "string \<Rightarrow> string list \<Rightarrow> string option" where
  "first_cookie name [] = None"
| "first_cookie name (cookie # cookies) =
     (case split_on CHR ''='' (trim cookie) of
        [] \<Rightarrow> first_cookie name cookies
      | rawKey # rawValue \<Rightarrow>
          if rawKey = name then decodeURIComponent (join ''='' rawValue) else first_cookie name cookies)"

definition extractCookieValue :: "string option \<Rightarrow> string \<Rightarrow> string option" where
  "extractCookieValue header name = first_cookie name (split_on CHR '';'' (nullish header []))"

definition extractBrowserSessionToken :: "string option \<Rightarrow> string option" where
  "extractBrowserSessionToken cookieHeader = extractCookieValue cookieHeader BROWSER_SESSION_COOKIE"

record CookieOptions =
  co_maxAge :: int
  co_path :: string
  co_httpOnly :: bool
  co_sameSite :: string
  co_secure :: bool

definition serializeCookie :: "string \<Rightarrow> string \<Rightarrow> CookieOptions \<Rightarrow> string" where
  "serializeCookie name value options =
     join ''; '' ([name @ ''='' @ encodeURIComponent value, ''Max-Age='' @ int_str (co_maxAge options),
        ''Path='' @ co_path options, ''SameSite='' @ co_sameSite options]
      @ (if co_httpOnly options then [''HttpOnly''] else [])
      @ (if co_secure options then [''Secure''] else []))"

definition shouldUseSecureCookie :: "'key AuthLib \<Rightarrow> string \<Rightarrow> bool" where
  "shouldUseSecureCookie lib requestUrl =
     (case al_url lib requestUrl None of
        None \<Rightarrow> True
      | Some (_, hostname, _) \<Rightarrow> hostname \<noteq> ''localhost'' \<and> hostname \<noteq> ''127.0.0.1'')"

definition session_cookie_options :: "'key AuthLib \<Rightarrow> string \<Rightarrow> int \<Rightarrow> string \<Rightarrow> CookieOptions" where
  "session_cookie_options lib requestUrl maxAge path =
     \<lparr>co_maxAge = maxAge, co_path = path, co_httpOnly = True, co_sameSite = ''Lax'',
      co_secure = shouldUseSecureCookie lib requestUrl\<rparr>"

definition buildBrowserSessionCookie :: "'key AuthLib \<Rightarrow> string \<Rightarrow> string \<Rightarrow> string" where
  "buildBrowserSessionCookie lib token requestUrl =
     serializeCookie BROWSER_SESSION_COOKIE token (session_cookie_options lib requestUrl SESSION_TTL_SECONDS ''/'')"

definition buildClearedBrowserSessionCookie :: "'key AuthLib \<Rightarrow> string \<Rightarrow> string" where
  "buildClearedBrowserSessionCookie lib requestUrl =
     serializeCookie BROWSER_SESSION_COOKIE [] (session_cookie_options lib requestUrl 0 ''/'')"

definition buildGitHubOAuthStateCookie :: "'key AuthLib \<Rightarrow> string \<Rightarrow> string \<Rightarrow> string" where
  "buildGitHubOAuthStateCookie lib state requestUrl =
     serializeCookie GITHUB_OAUTH_STATE_COOKIE state
       (session_cookie_options lib requestUrl GITHUB_OAUTH_STATE_TTL_SECONDS ''/v1/auth/github'')"

definition buildClearedGitHubOAuthStateCookie :: "'key AuthLib \<Rightarrow> string \<Rightarrow> string" where
  "buildClearedGitHubOAuthStateCookie lib requestUrl =
     serializeCookie GITHUB_OAUTH_STATE_COOKIE []
       (session_cookie_options lib requestUrl 0 ''/v1/auth/github'')"

text \<open>The comparison of tokens runs over their digests, in 32-bit integers.\<close>

definition digest_diff :: "byte list \<Rightarrow> byte list \<Rightarrow> 32 word" where
  "digest_diff left right =
     fold (\<lambda>(a, b) diff. diff OR (ucast a XOR ucast b)) (zip left right)
       (of_nat (length left) XOR of_nat (length right))"

definition timingSafeEqual :: "'key WebCrypto \<Rightarrow> string option \<Rightarrow> string option \<Rightarrow> bool" where
  "timingSafeEqual lib actual expected =
     (if nullish actual [] = [] \<or> nullish expected [] = [] then False
      else digest_diff (sha256 lib (text_encode (nullish actual []))) (sha256 lib (text_encode (nullish expected []))) = 0)"

definition hashToken :: "'key WebCrypto \<Rightarrow> string \<Rightarrow> string" where
  "hashToken lib token = bytes_hex (sha256 lib (text_encode token))"

definition createOpaqueToken :: "byte list \<Rightarrow> string \<Rightarrow> string" where
  "createOpaqueToken random_bytes prefix = prefix @ ''_'' @ bytes_hex random_bytes"

section \<open>The session table\<close>

definition createAuthSession :: "AuthSessionRecord \<Rightarrow> AuthStore \<Rightarrow> AuthStore option" where
  "createAuthSession session s =
     (if list_ex (\<lambda>r. as_tokenHash r = as_tokenHash session \<or> as_id r = as_id session) (auth_sessions s) then None
      else Some (s\<lparr>auth_sessions := auth_sessions s @ [session]\<rparr>))"

definition getAuthSessionByTokenHash :: "string \<Rightarrow> AuthStore \<Rightarrow> AuthSessionRecord option" where
  "getAuthSessionByTokenHash tokenHash s = List.find (\<lambda>r. as_tokenHash r = tokenHash) (auth_sessions s)"

definition update_session :: "string \<Rightarrow> (AuthSessionRecord \<Rightarrow> AuthSessionRecord) \<Rightarrow> AuthStore \<Rightarrow> AuthStore" where
  "update_session sessionId f s =
     s\<lparr>auth_sessions := map (\<lambda>r. if as_id r = sessionId then f r else r) (auth_sessions s)\<rparr>"

definition touchAuthSession :: "'key AuthLib \<Rightarrow> string \<Rightarrow> AuthStore \<Rightarrow> AuthStore" where
  "touchAuthSession lib sessionId s =
     update_session sessionId (\<lambda>r. r\<lparr>as_lastSeenAt := Some (al_toISO lib (auth_now s))\<rparr>) s"

definition revokeAuthSession :: "'key AuthLib \<Rightarrow> string \<Rightarrow> AuthStore \<Rightarrow> AuthStore" where
  "revokeAuthSession lib sessionId s =
     update_session sessionId (\<lambda>r. r\<lparr>as_revokedAt := Some (al_toISO lib (auth_now s)),
       as_lastSeenAt := Some (al_toISO lib (auth_now s))\<rparr>) s"

definition countActiveAuthSessions :: "'key AuthLib \<Rightarrow> AuthStore \<Rightarrow> nat" where
  "countActiveAuthSessions lib s =
     length (filter (\<lambda>r. as_revokedAt r = None \<and> str_le (al_toISO lib (auth_now s)) (as_expiresAt r)) (auth_sessions s))"

section \<open>Authentication\<close>

definition revoked :: "AuthSessionRecord \<Rightarrow> bool" where
  "revoked session \<longleftrightarrow> nullish (as_revokedAt session) [] \<noteq> []"

definition expired :: "'key AuthLib \<Rightarrow> int \<Rightarrow> AuthSessionRecord \<Rightarrow> bool" where
  "expired lib now session =
     (case al_date_parse lib (as_expiresAt session) of None \<Rightarrow> False | Some t \<Rightarrow> t \<le> now)"

definition authenticateSessionToken ::
  "'key AuthLib \<Rightarrow> string option \<Rightarrow> AuthStore \<Rightarrow> AuthIdentity option \<times> AuthStore" where
  "authenticateSessionToken lib token s =
     (if nullish token [] = [] then (None, s)
      else
        (case getAuthSessionByTokenHash (hashToken (al_crypto lib) (nullish token [])) s of
           None \<Rightarrow> (None, s)
         | Some session \<Rightarrow>
             if revoked session \<or> expired lib (auth_now s) session then (None, s)
             else (Some (Session (as_login session) session), touchAuthSession lib (as_id session) s)))"

definition authenticatePrivateToken ::
  "'key AuthLib \<Rightarrow> AuthEnv \<Rightarrow> string option \<Rightarrow> AuthStore \<Rightarrow> AuthIdentity option \<times> AuthStore" where
  "authenticatePrivateToken lib env token s =
     (if nullish token [] = [] then (None, s)
      else if timingSafeEqual (al_crypto lib) token (GITTENSORY_API_TOKEN env) then (Some (Static actor_api), s)
      else if timingSafeEqual (al_crypto lib) token (GITTENSORY_MCP_TOKEN env) then (Some (Static actor_mcp), s)
      else authenticateSessionToken lib token s)"

definition authenticateInternalToken :: "'key AuthLib \<Rightarrow> AuthEnv \<Rightarrow> string option \<Rightarrow> AuthIdentity option" where
  "authenticateInternalToken lib env token =
     (if timingSafeEqual (al_crypto lib) token (INTERNAL_JOB_TOKEN env) then Some (Static actor_internal) else None)"

text \<open>\<open>split(/[\s,]+/)\<close>: the pieces between runs of separators.\<close>

fun split_runs :: "(char \<Rightarrow> bool) \<Rightarrow> string \<Rightarrow> string list" where
  "split_runs sep [] = [[]]"
| "split_runs sep (c # s) =
     (if sep c then
        (case s of
           [] \<Rightarrow> [[], []]
         | d # _ \<Rightarrow> if sep d then split_runs sep s else [] # split_runs sep s)
      else (case split_runs sep s of [] \<Rightarrow> [[c]] | w # ws \<Rightarrow> (c # w) # ws))"

definition parseGitHubLoginList :: "string option \<Rightarrow> string list" where
  "parseGitHubLoginList value =
     dedupe (filter (\<lambda>l. l \<noteq> []) (map (\<lambda>login. toLowerCase (trim login))
       (split_runs (\<lambda>c. is_ws c \<or> c = CHR '','') (nullish value []))))"

definition isAuthorizedGitHubSessionLogin :: "AuthEnv \<Rightarrow> string \<Rightarrow> bool" where
  "isAuthorizedGitHubSessionLogin env login =
     (let allowedLogins = parseGitHubLoginList (ADMIN_GITHUB_LOGINS env)
      in if allowedLogins = [] then False else toLowerCase login \<in> set allowedLogins)"

definition auth_audit_event :: "string \<Rightarrow> string option \<Rightarrow> (string \<times> json) list \<Rightarrow> AuditEventRecord" where
  "auth_audit_event eventType who metadata =
     \<lparr>ae_eventType = eventType, ae_actor = who, ae_targetKey = None, ae_outcome = Audit_success,
      ae_detail = None, ae_metadata = metadata\<rparr>"

definition record_auth_event :: "AuditEventRecord \<Rightarrow> AuthStore \<Rightarrow> AuthStore" where
  "record_auth_event event s = s\<lparr>auth_audit := auth_audit s @ [event]\<rparr>"

text \<open>\<open>random_bytes\<close> and \<open>uuid\<close> are the 32 random bytes of the token and the fresh identifier.\<close>

definition createSessionForGitHubUser ::
  "'key AuthLib \<Rightarrow> byte list \<Rightarrow> string \<Rightarrow> string \<Rightarrow> int option \<Rightarrow> string list \<Rightarrow> (string \<times> json) list \<Rightarrow>
   AuthStore \<Rightarrow> (string \<times> AuthSessionRecord) option \<times> AuthStore" where
  "createSessionForGitHubUser lib random_bytes uuid login user_id scopes metadata s =
     (let token = createOpaqueToken random_bytes ''gts'';
          issuedAt = al_toISO lib (auth_now s);
          session = \<lparr>as_id = uuid, as_tokenHash = hashToken (al_crypto lib) token, as_login = login,
            as_githubUserId = user_id, as_scopes = scopes,
            as_expiresAt = al_toISO lib (auth_now s + SESSION_TTL_SECONDS * 1000), as_revokedAt = None,
            as_createdAt = issuedAt, as_lastSeenAt = Some issuedAt, as_metadata = metadata\<rparr>
      in (case createAuthSession session s of
            None \<Rightarrow> (None, s)
          | Some s' \<Rightarrow>
              (Some (token, session),
               record_auth_event (auth_audit_event ''auth.session_created'' (Some login)
                 [(''scopes'', JArray (map JString scopes)),
                  (''githubUserId'', (case user_id of None \<Rightarrow> JNull | Some i \<Rightarrow> JNumber (Finite (of_int i))))]) s')))"

definition revokeSession :: "'key AuthLib \<Rightarrow> AuthIdentity option \<Rightarrow> AuthStore \<Rightarrow> bool \<times> AuthStore" where
  "revokeSession lib identity s =
     (case identity of
        Some (Session actor session) \<Rightarrow>
          (True, record_auth_event (auth_audit_event ''auth.session_revoked'' (Some actor) [])
             (revokeAuthSession lib (as_id session) s))
      | _ \<Rightarrow> (False, s))"

section \<open>The signed state of the web sign-in\<close>

definition strip_slash :: "string \<Rightarrow> string" where
  "strip_slash s = (if s \<noteq> [] \<and> last s = CHR ''/'' then butlast s else s)"

definition site_origin :: "AuthEnv \<Rightarrow> string" where
  "site_origin env = nullish (PUBLIC_SITE_ORIGIN env) ''https://gittensory.aethereal.dev''"

definition allowed_origins :: "AuthEnv \<Rightarrow> string list" where
  "allowed_origins env =
     [strip_slash (site_origin env), ''https://gittensory.aethereal.dev'', ''http://localhost:3000'',
      ''http://localhost:4173'', ''http://localhost:5173'', ''http://127.0.0.1:3000'',
      ''http://127.0.0.1:4173'', ''http://127.0.0.1:5173'']"

definition normalizeReturnTo :: "'key AuthLib \<Rightarrow> AuthEnv \<Rightarrow> string option \<Rightarrow> string" where
  "normalizeReturnTo lib env value =
     (let fallback = strip_slash (site_origin env) @ ''/app''
      in if nullish value [] = [] then fallback
         else (case al_url lib (nullish value []) (Some (site_origin env)) of
                 None \<Rightarrow> fallback
               | Some (url_origin, _, href) \<Rightarrow>
                   if url_origin \<in> set (allowed_origins env) then href else fallback))"

definition oauthStateSecret :: "AuthEnv \<Rightarrow> string + string" where
  "oauthStateSecret env =
     (if nullish (GITHUB_OAUTH_CLIENT_SECRET env) [] = [] then Inl ''github_oauth_not_configured''
      else Inr (nullish (GITHUB_OAUTH_CLIENT_SECRET env) []))"

definition oauth_hmac :: "'key AuthLib \<Rightarrow> string \<Rightarrow> string \<Rightarrow> string" where
  "oauth_hmac lib secret value =
     base64UrlEncode (hmac_sha256 (al_crypto lib) (text_encode secret) (text_encode value))"

definition signOAuthState :: "'key AuthLib \<Rightarrow> AuthEnv \<Rightarrow> GitHubWebOAuthState \<Rightarrow> string + string" where
  "signOAuthState lib env payload =
     (let encoded = base64UrlEncode (text_encode (al_state_json lib payload))
      in map_sum id (\<lambda>secret. encoded @ ''.'' @ oauth_hmac lib secret encoded) (oauthStateSecret env))"

text \<open>A payload that does not decode, parse or have the three fields at their types is \<open>None\<close>.\<close>

definition parseOAuthStatePayload :: "'key AuthLib \<Rightarrow> string \<Rightarrow> GitHubWebOAuthState option" where
  "parseOAuthStatePayload lib encoded =
     (case base64UrlDecode encoded of
        None \<Rightarrow> None
      | Some bytes \<Rightarrow> al_state_parse lib (text_decode (utf8_lossy (al_crypto lib)) bytes))"

definition verifyOAuthState ::
  "'key AuthLib \<Rightarrow> AuthEnv \<Rightarrow> int \<Rightarrow> string \<Rightarrow> string + GitHubWebOAuthState option" where
  "verifyOAuthState lib env nowMs state =
     (case split_on CHR ''.'' state of
        encoded # signature # _ \<Rightarrow>
          if encoded = [] \<or> signature = [] then Inr None
          else
            (case oauthStateSecret env of
               Inl e \<Rightarrow> Inl e
             | Inr secret \<Rightarrow>
                 if \<not> timingSafeEqual (al_crypto lib) (Some signature) (Some (oauth_hmac lib secret encoded)) then Inr None
                 else
                   (case parseOAuthStatePayload lib encoded of
                      None \<Rightarrow> Inr None
                    | Some payload \<Rightarrow>
                        if ws_exp payload < nowMs div 1000 then Inr None
                        else Inr (Some (payload\<lparr>ws_returnTo := normalizeReturnTo lib env (Some (ws_returnTo payload))\<rparr>))))
      | _ \<Rightarrow> Inr None)"

text \<open>\<open>startGitHubWebOAuth\<close> up to the address it redirects to, which is built from this state.\<close>

definition web_oauth_state :: "'key AuthLib \<Rightarrow> AuthEnv \<Rightarrow> byte list \<Rightarrow> int \<Rightarrow> string option \<Rightarrow> GitHubWebOAuthState" where
  "web_oauth_state lib env random_bytes nowMs returnTo =
     \<lparr>ws_nonce = createOpaqueToken random_bytes ''oauth'', ws_returnTo = normalizeReturnTo lib env returnTo,
      ws_exp = nowMs div 1000 + GITHUB_OAUTH_STATE_TTL_SECONDS\<rparr>"

definition parseScopes :: "string option \<Rightarrow> string list" where
  "parseScopes scopeHeader =
     filter (\<lambda>scope. scope \<noteq> []) (map trim (split_runs (\<lambda>c. is_ws c \<or> c = CHR '','') (nullish scopeHeader [])))"

definition githubOAuthCallbackUrl :: "'key AuthLib \<Rightarrow> AuthEnv \<Rightarrow> string \<Rightarrow> string option" where
  "githubOAuthCallbackUrl lib env requestUrl =
     (case PUBLIC_API_ORIGIN env of
        Some url_origin \<Rightarrow> Some (strip_slash url_origin @ ''/v1/auth/github/callback'')
      | None \<Rightarrow> map_option (\<lambda>(url_origin, _, _). strip_slash url_origin @ ''/v1/auth/github/callback'') (al_url lib requestUrl None))"

section \<open>The interface of the session table\<close>

text \<open>
  What revocation relies on: a new row has an identifier of its own, recording a visit changes
  neither identifiers nor revocations, and revoking marks exactly the rows of its identifier
  (as long as the clock has a text, which \<open>good\<close> says).
\<close>

locale session_table =
  fixes rows :: "'s \<Rightarrow> AuthSessionRecord list"
    and create :: "AuthSessionRecord \<Rightarrow> 's \<Rightarrow> 's option"
    and touch :: "string \<Rightarrow> 's \<Rightarrow> 's"
    and revoke :: "string \<Rightarrow> 's \<Rightarrow> 's"
    and good :: "'s \<Rightarrow> bool"
  assumes create_row: "create r s = Some s' \<Longrightarrow> rows s' = rows s @ [r] \<and> as_id r \<notin> as_id ` set (rows s)"
    and touch_rows: "map (\<lambda>r. (as_id r, revoked r)) (rows (touch i s)) = map (\<lambda>r. (as_id r, revoked r)) (rows s)"
    and revoke_rows: "good s \<Longrightarrow> map (\<lambda>r. (as_id r, revoked r)) (rows (revoke i s))
      = map (\<lambda>r. (as_id r, as_id r = i \<or> revoked r)) (rows s)"
begin

text \<open>A session is dead when its identifier is taken by revoked rows only.\<close>

definition dead :: "string \<Rightarrow> 's \<Rightarrow> bool" where
  "dead i s \<longleftrightarrow> (i, True) \<in> set (map (\<lambda>r. (as_id r, revoked r)) (rows s)) \<and>
     (i, False) \<notin> set (map (\<lambda>r. (as_id r, revoked r)) (rows s))"

lemma dead_not_live: "dead i s \<Longrightarrow> r \<in> set (rows s) \<Longrightarrow> as_id r = i \<Longrightarrow> revoked r"
  unfolding dead_def by force

lemma dead_touch: "dead i (touch j s) \<longleftrightarrow> dead i s"
  by (simp only: dead_def touch_rows)

lemma dead_revoke: "good s \<Longrightarrow> dead i s \<Longrightarrow> dead i (revoke j s)"
  unfolding dead_def revoke_rows by (auto simp: image_iff)

lemma dead_create: "dead i s \<Longrightarrow> create r s = Some s' \<Longrightarrow> dead i s'"
  using create_row [of r s s'] unfolding dead_def by (auto simp: image_iff)

lemma revoke_kills: "good s \<Longrightarrow> i \<in> as_id ` set (rows s) \<Longrightarrow> dead i (revoke i s)"
  unfolding dead_def revoke_rows by (auto simp: image_iff)

end

lemma update_sessions: "auth_sessions (update_session i f s) = map (\<lambda>r. if as_id r = i then f r else r) (auth_sessions s)"
  by (simp add: update_session_def)

interpretation sessions: session_table auth_sessions createAuthSession "touchAuthSession lib" "revokeAuthSession lib"
  "\<lambda>s :: AuthStore. al_toISO lib (auth_now s) \<noteq> []" for lib :: "'key AuthLib"
proof
  fix r and s s' :: AuthStore assume "createAuthSession r s = Some s'"
  then show "auth_sessions s' = auth_sessions s @ [r] \<and> as_id r \<notin> as_id ` set (auth_sessions s)"
    by (auto simp: createAuthSession_def list_ex_iff split: if_splits)
next
  fix i and s :: AuthStore
  show "map (\<lambda>r. (as_id r, revoked r)) (auth_sessions (touchAuthSession lib i s)) = map (\<lambda>r. (as_id r, revoked r)) (auth_sessions s)"
    by (simp add: touchAuthSession_def update_sessions revoked_def)
next
  fix s :: AuthStore and i assume "al_toISO lib (auth_now s) \<noteq> []"
  then show "map (\<lambda>r. (as_id r, revoked r)) (auth_sessions (revokeAuthSession lib i s))
      = map (\<lambda>r. (as_id r, as_id r = i \<or> revoked r)) (auth_sessions s)"
    by (simp add: revokeAuthSession_def update_sessions revoked_def)
qed

section \<open>A revoked session stays out\<close>

inductive auth_step :: "'key AuthLib \<Rightarrow> AuthStore \<Rightarrow> AuthStore \<Rightarrow> bool" for lib where
  sign_in: "auth_step lib s (snd (createSessionForGitHubUser lib bytes uuid login user_id scopes metadata s))"
| request: "auth_step lib s (snd (authenticatePrivateToken lib env token s))"
| sign_out: "auth_step lib s (snd (revokeSession lib identity s))"
| time: "auth_now s \<le> now \<Longrightarrow> auth_step lib s (s\<lparr>auth_now := now\<rparr>)"

lemma audit_sessions [simp]: "auth_sessions (record_auth_event e s) = auth_sessions s"
  by (simp add: record_auth_event_def)

lemma dead_same_rows: "auth_sessions s' = auth_sessions s \<Longrightarrow> sessions.dead i s' \<longleftrightarrow> sessions.dead i s"
  by (simp add: sessions.dead_def)

lemma authenticated_effect: "snd (authenticatePrivateToken lib env token s) = s \<or>
    (\<exists>i. snd (authenticatePrivateToken lib env token s) = touchAuthSession lib i s)"
  by (auto simp: authenticatePrivateToken_def authenticateSessionToken_def split: option.split)

lemma dead_step:
  assumes "auth_step lib s s'" and "sessions.dead i s" and "\<And>t. al_toISO lib t \<noteq> []"
  shows "sessions.dead i s'"
  using assms(1)
proof cases
  case (sign_in bytes uuid login user_id scopes metadata)
  then show ?thesis using assms(2) sessions.dead_create [of i s]
    by (auto simp: createSessionForGitHubUser_def Let_def dead_same_rows [OF audit_sessions] split: option.split)
next
  case (request env token)
  then show ?thesis using authenticated_effect [of lib env token s] assms(2) sessions.dead_touch by metis
next
  case (sign_out identity)
  have "sessions.dead i (revokeAuthSession lib j s)" for j
    by (rule sessions.dead_revoke [OF assms(3,2)])
  with sign_out assms(2) show ?thesis
    by (auto simp: revokeSession_def dead_same_rows [OF audit_sessions] split: option.split AuthIdentity.split)
next
  case (time now)
  then show ?thesis using assms(2) dead_same_rows [of s' s] by simp
qed

lemma session_row: "authenticateSessionToken lib token s = (Some (Session login r), s') \<Longrightarrow>
    r \<in> set (auth_sessions s) \<and> \<not> revoked r \<and> \<not> expired lib (auth_now s) r \<and>
    as_tokenHash r = hashToken (al_crypto lib) (nullish token [])"
  by (auto simp: authenticateSessionToken_def getAuthSessionByTokenHash_def split: if_splits option.splits
      dest: List_find_SomeD)

lemma private_session_row: "authenticatePrivateToken lib env token s = (Some (Session login r), s') \<Longrightarrow>
    r \<in> set (auth_sessions s) \<and> \<not> revoked r \<and> \<not> expired lib (auth_now s) r"
  using session_row [of lib token s login r s'] by (auto simp: authenticatePrivateToken_def split: if_splits)

text \<open>
  C29: signing out is final. Once a session that some token opened has been revoked, no sequence of
  sign-ins, requests, sign-outs and passing time makes any token authenticate as that session.
\<close>

theorem revoked_session_stays_out:
  assumes "\<And>t. al_toISO lib t \<noteq> []"
    and "authenticatePrivateToken lib env token s = (Some (Session login session), s1)"
    and "(auth_step lib)\<^sup>*\<^sup>* (snd (revokeSession lib (Some (Session login session)) s1)) s2"
    and "authenticatePrivateToken lib env' token' s2 = (Some (Session login' session'), s3)"
  shows "as_id session' \<noteq> as_id session"
proof -
  let ?i = "as_id session"
  have "session \<in> set (auth_sessions s)" using private_session_row [OF assms(2)] by blast
  then have "?i \<in> set (map (\<lambda>r. as_id r) (auth_sessions s))" by simp
  moreover have "map (\<lambda>r. as_id r) (auth_sessions s1) = map (\<lambda>r. as_id r) (auth_sessions s)"
    using authenticated_effect [of lib env token s] assms(2)
    by (auto simp: touchAuthSession_def update_sessions)
  ultimately have "?i \<in> as_id ` set (auth_sessions s1)" by (metis list.set_map)
  then have "sessions.dead ?i (revokeAuthSession lib ?i s1)" by (rule sessions.revoke_kills [OF assms(1)])
  then have dead: "sessions.dead ?i (snd (revokeSession lib (Some (Session login session)) s1))"
    by (simp add: revokeSession_def dead_same_rows [OF audit_sessions])
  from assms(3) have "sessions.dead ?i s2"
    by (induction rule: rtranclp_induct) (use dead dead_step assms(1) in blast)+
  then show ?thesis
    using sessions.dead_not_live private_session_row [OF assms(4)] by blast
qed

definition demo_lib :: "byte list AuthLib" where
  "demo_lib = \<lparr>al_crypto = plain_crypto\<lparr>sha256 := (\<lambda>bs. bs)\<rparr>, al_toISO = int_str, al_date_parse = (\<lambda>_. None),
     al_url = (\<lambda>v _. Some (v, v, v)), al_state_json = (\<lambda>p. ws_nonce p),
     al_state_parse = (\<lambda>t. Some \<lparr>ws_nonce = t, ws_returnTo = ''https://gittensory.aethereal.dev'', ws_exp = 600\<rparr>)\<rparr>"

definition demo_env :: AuthEnv where
  "demo_env = \<lparr>GITTENSORY_API_TOKEN = None, GITTENSORY_MCP_TOKEN = None, INTERNAL_JOB_TOKEN = None,
     ADMIN_GITHUB_LOGINS = None, PUBLIC_SITE_ORIGIN = None, PUBLIC_API_ORIGIN = None,
     GITHUB_OAUTH_CLIENT_SECRET = Some ''s''\<rparr>"

definition demo_session :: "string \<Rightarrow> string \<Rightarrow> AuthSessionRecord" where
  "demo_session i token = \<lparr>as_id = i, as_tokenHash = hashToken (al_crypto demo_lib) token, as_login = ''ada'',
     as_githubUserId = None, as_scopes = [], as_expiresAt = [], as_revokedAt = None, as_createdAt = [],
     as_lastSeenAt = None, as_metadata = []\<rparr>"

definition demo_store :: AuthStore where
  "demo_store = \<lparr>auth_sessions = [demo_session ''a'' ''x'', demo_session ''b'' ''y''], auth_audit = [], auth_now = 0\<rparr>"

lemma int_str_not_Nil: "int_str i \<noteq> []"
proof -
  have "nat_str n \<noteq> []" for n by (subst nat_str.simps) simp
  then show ?thesis by (simp add: int_str_def)
qed

lemma demo_hashes: "hashToken (al_crypto demo_lib) ''x'' \<noteq> hashToken (al_crypto demo_lib) ''y''"
  by code_simp

lemma no_static_token: "authenticatePrivateToken lib demo_env (Some t) s = authenticateSessionToken lib (Some t) s"
  by (simp add: authenticatePrivateToken_def timingSafeEqual_def demo_env_def authenticateSessionToken_def)

theorem revoked_session_stays_out_witness:
  "as_id (demo_session ''b'' ''y'') \<noteq> as_id (demo_session ''a'' ''x'')"
proof -
  let ?x = "demo_session ''a'' ''x''" and ?y = "demo_session ''b'' ''y''"
  have iso: "al_toISO demo_lib t \<noteq> []" for t by (simp add: demo_lib_def int_str_not_Nil)
  obtain s1 where x: "authenticatePrivateToken demo_lib demo_env (Some ''x'') demo_store = (Some (Session ''ada'' ?x), s1)"
    "s1 = touchAuthSession demo_lib ''a'' demo_store"
    by (simp add: no_static_token authenticateSessionToken_def getAuthSessionByTokenHash_def demo_store_def
        demo_session_def revoked_def expired_def demo_lib_def)
  obtain s3 where y: "authenticatePrivateToken demo_lib demo_env (Some ''y'')
      (snd (revokeSession demo_lib (Some (Session ''ada'' ?x)) s1)) = (Some (Session ''ada'' ?y), s3)"
    using demo_hashes by (simp add: x(2) no_static_token authenticateSessionToken_def getAuthSessionByTokenHash_def
        demo_store_def demo_session_def revoked_def expired_def revokeSession_def revokeAuthSession_def
        touchAuthSession_def update_session_def record_auth_event_def) (simp add: demo_lib_def)
  show ?thesis by (rule revoked_session_stays_out [OF iso x(1) rtranclp.rtrancl_refl y])
qed

section \<open>Comparing tokens by digest\<close>

lemma or_zero_iff32: "(a :: 32 word) OR b = 0 \<longleftrightarrow> a = 0 \<and> b = 0"
  by (auto simp: bit_eq_iff bit_or_iff)

lemma xor_zero_iff32: "(a :: 32 word) XOR b = 0 \<longleftrightarrow> a = b"
  by (auto simp: bit_eq_iff bit_xor_iff)

lemma ucast_byte_eq: "(ucast (a :: byte) :: 32 word) = ucast b \<longleftrightarrow> a = b"
proof
  assume "(ucast a :: 32 word) = ucast b"
  then have same: "bit (ucast a :: 32 word) n = bit (ucast b :: 32 word) n" for n by simp
  show "a = b"
  proof (rule bit_word_eqI)
    fix n assume "n < LENGTH(8)"
    with same [of n] show "bit a n = bit b n" by (simp add: bit_ucast_iff)
  qed
qed simp

lemma digest_diff_zero: "length xs < 2 ^ 32 \<Longrightarrow> length ys < 2 ^ 32 \<Longrightarrow> digest_diff xs ys = 0 \<longleftrightarrow> xs = ys"
proof -
  assume len: "length xs < 2 ^ 32" "length ys < 2 ^ 32"
  have fold: "fold (\<lambda>(a, b) d. d OR (ucast a XOR ucast b)) ps (d :: 32 word) = 0 \<longleftrightarrow> d = 0 \<and> (\<forall>(a, b)\<in>set ps. a = (b :: byte))" for ps d
    by (induction ps arbitrary: d) (auto simp: or_zero_iff32 xor_zero_iff32 ucast_byte_eq)
  have length: "(of_nat (length xs) :: 32 word) = of_nat (length ys) \<longleftrightarrow> length xs = length ys"
  proof
    assume "(of_nat (length xs) :: 32 word) = of_nat (length ys)"
    then have "unat (of_nat (length xs) :: 32 word) = unat (of_nat (length ys) :: 32 word)" by simp
    then show "length xs = length ys" using len by (simp add: unsigned_of_nat take_bit_nat_eq_self)
  qed simp
  have "length xs = length ys \<Longrightarrow> (\<forall>(a, b)\<in>set (zip xs ys). a = b) \<longleftrightarrow> xs = ys"
    by (induction xs ys rule: list_induct2) auto
  then show ?thesis unfolding digest_diff_def fold xor_zero_iff32 length by (cases "length xs = length ys") auto
qed

section \<open>The life of a session\<close>

text \<open>
  A token opens its session for seven days. After a sign-in the token authenticates as the
  session just created at every time before the expiry, and not at the expiry or after it, unless
  it happens to equal a static token of the deployment.
\<close>

theorem session_lifetime:
  assumes "createSessionForGitHubUser lib bytes uuid login user_id scopes metadata s = (Some (token, session), s')"
    and "al_date_parse lib (al_toISO lib (auth_now s + 604800000)) = Some (auth_now s + 604800000)"
    and "\<not> timingSafeEqual (al_crypto lib) (Some token) (GITTENSORY_API_TOKEN env)"
    and "\<not> timingSafeEqual (al_crypto lib) (Some token) (GITTENSORY_MCP_TOKEN env)"
  shows "fst (authenticatePrivateToken lib env (Some token) (s'\<lparr>auth_now := t\<rparr>)) =
    (if t < auth_now s + 7 * 24 * 60 * 60 * 1000 then Some (Session login session) else None)"
proof -
  have token: "token = createOpaqueToken bytes ''gts''" "as_tokenHash session = hashToken (al_crypto lib) token"
    "as_expiresAt session = al_toISO lib (auth_now s + SESSION_TTL_SECONDS * 1000)" "\<not> revoked session"
    "as_login session = login"
    and created: "\<exists>s1. createAuthSession session s = Some s1 \<and> auth_sessions s' = auth_sessions s1"
    using assms(1) by (auto simp: createSessionForGitHubUser_def Let_def revoked_def split: option.splits)
  then have rows: "auth_sessions s' = auth_sessions s @ [session]"
    "List.find (\<lambda>r. as_tokenHash r = as_tokenHash session) (auth_sessions s) = None"
    by (auto simp: createAuthSession_def List_find_None_iff list_ex_iff split: if_splits)
  have find_append: "List.find P xs = None \<Longrightarrow> List.find P (xs @ ys) = List.find P ys" for P and xs ys :: "AuthSessionRecord list"
    by (induction xs) (auto split: if_splits)
  have "getAuthSessionByTokenHash (hashToken (al_crypto lib) token) (s'\<lparr>auth_now := t\<rparr>) = Some session"
    using rows find_append [OF rows(2)] by (simp add: getAuthSessionByTokenHash_def token(2))
  moreover have "token \<noteq> []" by (simp add: token(1) createOpaqueToken_def)
  ultimately show ?thesis
    using assms(2-4) token(3-5) by (auto simp: authenticatePrivateToken_def authenticateSessionToken_def
        expired_def SESSION_TTL_SECONDS_def split: option.splits)
qed

definition dated_lib :: "byte list AuthLib" where
  "dated_lib = demo_lib\<lparr>al_date_parse := (\<lambda>_. Some 604800000)\<rparr>"

theorem session_lifetime_witness:
  "fst (authenticatePrivateToken dated_lib demo_env (Some ''gts_01'')
     ((snd (createSessionForGitHubUser dated_lib [1] ''c'' ''ada'' None [] [] demo_store))\<lparr>auth_now := 604800000\<rparr>)) = None"
proof -
  have "as_tokenHash r \<noteq> hashToken (al_crypto dated_lib) ''gts_01''" if "r \<in> set (auth_sessions demo_store)" for r
    using that by (auto simp: demo_store_def demo_session_def dated_lib_def) code_simp+
  moreover have "createOpaqueToken [1] ''gts'' = ''gts_01''" by code_simp
  ultimately obtain session s' where c:
    "createSessionForGitHubUser dated_lib [1] ''c'' ''ada'' None [] [] demo_store = (Some (''gts_01'', session), s')"
    by (simp add: createSessionForGitHubUser_def createAuthSession_def Let_def list_ex_iff)
      (simp add: demo_store_def demo_session_def)
  have "fst (authenticatePrivateToken dated_lib demo_env (Some ''gts_01'') (s'\<lparr>auth_now := 604800000\<rparr>)) = None"
    using session_lifetime [OF c, of demo_env 604800000]
    by (simp add: dated_lib_def demo_store_def timingSafeEqual_def demo_env_def)
  then show ?thesis by (simp only: c snd_conv)
qed

section \<open>Cookies\<close>

lemma split_pieces: "list_all (\<lambda>c. c \<noteq> sep) w \<Longrightarrow> split_on sep w = [w]"
  by (induction w) auto

lemma split_piece: "list_all (\<lambda>c. c \<noteq> sep) w \<Longrightarrow> split_on sep (w @ sep # s) = w # split_on sep s"
  by (induction w) auto

lemma upper_hex_value: "d < 16 \<Longrightarrow> hex_value (upper_hex d) = Some d"
  by (auto simp: hex_value_def upper_hex_def Let_def)

lemma unreserved_char: "unreserved c \<Longrightarrow> c \<noteq> CHR ''%'' \<and> c \<noteq> CHR '';'' \<and> c \<noteq> CHR ''='' \<and> \<not> is_ws c"
  by (auto simp: unreserved_def class_match_def word_items_def is_ws_def Let_def)

lemma upper_hex_char: "d < 16 \<Longrightarrow> upper_hex d \<noteq> CHR '';'' \<and> upper_hex d \<noteq> CHR ''='' \<and> \<not> is_ws (upper_hex d)"
proof -
  assume "d < 16"
  then have "hex_value (upper_hex d) = Some d" by (rule upper_hex_value)
  moreover have "hex_value CHR '';'' = None" "hex_value CHR ''='' = None" by (simp_all add: hex_value_def)
  moreover have "is_ws c \<Longrightarrow> hex_value c = None" for c by (auto simp: is_ws_def hex_value_def Let_def)
  ultimately show ?thesis by (metis option.distinct(1))
qed

lemma percent_roundtrip: "percent_decode (encodeURIComponent s) = Some s"
proof (induction s)
  case (Cons c s)
  have "(of_char c :: nat) div 16 < 16" "(of_char c :: nat) mod 16 < 16"
    using nat_of_char_less_256 [of c] by linarith+
  moreover have "16 * ((of_char c :: nat) div 16) + of_char c mod 16 = of_char c" by simp
  ultimately show ?case using Cons unreserved_char [of c]
    by (simp add: encodeURIComponent_def upper_hex_value del: mult_div_mod_eq)
qed (simp add: encodeURIComponent_def)

lemma encode_chars: "list_all (\<lambda>c. c \<noteq> CHR '';'' \<and> c \<noteq> CHR ''='' \<and> \<not> is_ws c) (encodeURIComponent s)"
proof (induction s)
  case (Cons c s)
  have "(of_char c :: nat) div 16 < 16" "(of_char c :: nat) mod 16 < 16"
    using nat_of_char_less_256 [of c] by linarith+
  with Cons show ?case using unreserved_char [of c] upper_hex_char
    by (simp add: encodeURIComponent_def) (simp add: is_ws_def)
qed (simp add: encodeURIComponent_def)

lemma trim_id: "list_all (\<lambda>c. \<not> is_ws c) w \<Longrightarrow> trim w = w"
proof -
  assume w: "list_all (\<lambda>c. \<not> is_ws c) w"
  then have "dropWhile is_ws w = w" by (cases w) auto
  moreover have "dropWhile is_ws (rev w) = rev w"
    using w by (cases "rev w") (auto simp: list_all_iff dest!: arg_cong [of _ _ set])
  ultimately show ?thesis by (simp add: trim_def)
qed

lemma cookie_value:
  assumes "well_formed value"
    and "list_all (\<lambda>c. c \<noteq> CHR '';'' \<and> c \<noteq> CHR ''='' \<and> \<not> is_ws c) name"
  shows "extractCookieValue (Some (serializeCookie name value options)) name = Some value"
proof -
  let ?piece = "name @ ''='' @ encodeURIComponent value"
  obtain rest where rest: "serializeCookie name value options = ?piece @ CHR '';'' # rest"
    by (simp add: serializeCookie_def)
  have "list_all (\<lambda>c. c \<noteq> CHR '';'') ?piece" "list_all (\<lambda>c. \<not> is_ws c) ?piece"
    using assms(2) encode_chars [of "value"] by (auto simp: list_all_iff is_ws_def)
  moreover have "split_on CHR ''='' ?piece = [name, encodeURIComponent value]"
    using assms(2) encode_chars [of "value"] by (simp add: split_piece split_pieces list_all_iff)
  moreover have "decodeURIComponent (encodeURIComponent value) = Some value"
    by (simp add: decodeURIComponent_def percent_roundtrip assms(1))
  ultimately show ?thesis
    unfolding extractCookieValue_def rest by (simp only: nullish_simps split_piece) (simp add: trim_id)
qed

lemma ascii_well_formed: "list_all (\<lambda>c. of_char c < (128 :: nat)) s \<Longrightarrow> well_formed s"
  unfolding well_formed_def by (induction s) auto

lemma hex_ascii: "list_all (\<lambda>c. of_char c < (128 :: nat)) (bytes_hex bs)"
proof -
  have "of_char (hex_digit d) < (128 :: nat)" if "d < 16" for d using that by (auto simp: hex_digit_def)
  moreover have "unat b div 16 < 16" "unat b mod 16 < 16" for b :: byte using unat_byte [of b] by simp_all
  ultimately show ?thesis by (induction bs) (simp_all add: bytes_hex_def byte_hex_def)
qed

text \<open>
  The session cookie carries the token. What the server sets for a token it created is what
  it reads back from the cookie, in every deployment; and the cookie that clears the session
  reads as the empty token, which authenticates nobody.
\<close>

theorem session_cookie_round_trip:
  "extractBrowserSessionToken (Some (buildBrowserSessionCookie lib (createOpaqueToken bytes ''gts'') url))
     = Some (createOpaqueToken bytes ''gts'') \<and>
   extractBrowserSessionToken (Some (buildClearedBrowserSessionCookie lib url)) = Some [] \<and>
   fst (authenticatePrivateToken lib env (Some []) s) = None"
proof -
  have name: "list_all (\<lambda>c. c \<noteq> CHR '';'' \<and> c \<noteq> CHR ''='' \<and> \<not> is_ws c) BROWSER_SESSION_COOKIE"
    by (simp add: BROWSER_SESSION_COOKIE_def is_ws_def)
  have "well_formed (createOpaqueToken bytes ''gts'')"
    by (rule ascii_well_formed) (simp add: createOpaqueToken_def hex_ascii)
  moreover have "well_formed []" by (simp add: well_formed_def)
  ultimately show ?thesis
    by (simp add: extractBrowserSessionToken_def buildBrowserSessionCookie_def buildClearedBrowserSessionCookie_def
        cookie_value name authenticatePrivateToken_def)
qed

end
