(* ===== verification/Rate_Limit.thy ===== *)
theory Rate_Limit
  imports Auth
begin

text \<open>
  The rate limiter: \<open>src/auth/rate-limit.ts\<close>. A durable object keeps one fixed-window bucket per
  key and serves one request at a time; the middleware derives the key of a request from its
  route class, its path with the variable parts removed, and the identity of the caller. The
  durable objects are a map from their name to their storage. Audit rows are kept with their
  route. The locale \<open>window_counter\<close> states what the bound on bursts relies on.
\<close>

section \<open>Classes, requests and decisions\<close>

datatype RateLimitClass = rl_strict | rl_normal | rl_expensive

record RateLimitConfig =
  cfg_limit :: int
  cfg_windowSeconds :: int

record RateLimitDecision =
  rd_allowed :: bool
  rd_limit :: int
  rd_remaining :: int
  rd_resetAt :: string
  rd_retryAfterSeconds :: "int option"

record RateLimitRequest =
  rq_key :: "string option"
  rq_limit :: "int option"
  rq_windowSeconds :: "int option"

record RateBucket =
  bk_count :: int
  bk_resetAt :: int

definition CONFIG :: "RateLimitClass \<Rightarrow> RateLimitConfig" where
  "CONFIG c =
     (case c of
        rl_strict \<Rightarrow> \<lparr>cfg_limit = 10, cfg_windowSeconds = 60\<rparr>
      | rl_normal \<Rightarrow> \<lparr>cfg_limit = 120, cfg_windowSeconds = 60\<rparr>
      | rl_expensive \<Rightarrow> \<lparr>cfg_limit = 20, cfg_windowSeconds = 300\<rparr>)"

definition class_name :: "RateLimitClass \<Rightarrow> string" where
  "class_name c = (case c of rl_strict \<Rightarrow> ''strict'' | rl_normal \<Rightarrow> ''normal'' | rl_expensive \<Rightarrow> ''expensive'')"

section \<open>The durable object\<close>

type_synonym bucket_storage = "string \<Rightarrow> RateBucket option"

definition storage_key :: "string \<Rightarrow> string" where
  "storage_key key = ''bucket:'' @ key"

definition fresh_bucket :: "int \<Rightarrow> int \<Rightarrow> RateBucket" where
  "fresh_bucket now windowSeconds = \<lparr>bk_count = 0, bk_resetAt = now + windowSeconds * 1000\<rparr>"

text \<open>The bucket a hit is counted in.\<close>

definition hit_bucket :: "int \<Rightarrow> int \<Rightarrow> RateBucket option \<Rightarrow> RateBucket" where
  "hit_bucket now windowSeconds stored =
     (let existing = nullish stored (fresh_bucket now windowSeconds);
          bucket = (if bk_resetAt existing \<le> now then fresh_bucket now windowSeconds else existing)
      in bucket\<lparr>bk_count := bk_count bucket + 1\<rparr>)"

definition decide :: "(int \<Rightarrow> string) \<Rightarrow> int \<Rightarrow> int \<Rightarrow> RateBucket \<Rightarrow> RateLimitDecision" where
  "decide toISO now allowance bucket =
     \<lparr>rd_allowed = (bk_count bucket \<le> allowance), rd_limit = allowance, rd_remaining = max (allowance - bk_count bucket) 0,
      rd_resetAt = toISO (bk_resetAt bucket),
      rd_retryAfterSeconds =
        (if bk_count bucket > allowance then Some (max 1 \<lceil>of_int (bk_resetAt bucket - now) / (1000 :: rat)\<rceil>) else None)\<rparr>"

definition RateLimiter_fetch ::
  "(int \<Rightarrow> string) \<Rightarrow> int \<Rightarrow> RateLimitRequest option \<Rightarrow> bucket_storage \<Rightarrow>
   (nat \<times> RateLimitDecision option) \<times> bucket_storage" where
  "RateLimiter_fetch toISO now body storage =
     (case (Option.bind body rq_key, Option.bind body rq_limit, Option.bind body rq_windowSeconds) of
        (Some key, Some allowance, Some windowSeconds) \<Rightarrow>
          if key = [] \<or> allowance = 0 \<or> windowSeconds = 0 then ((400, None), storage)
          else
            (let bucket = hit_bucket now windowSeconds (storage (storage_key key));
                 decision = decide toISO now allowance bucket
             in ((if rd_allowed decision then 200 else 429, Some decision),
                 storage(storage_key key \<mapsto> bucket)))
      | _ \<Rightarrow> ((400, None), storage))"

section \<open>Route classes\<close>

definition EXPENSIVE_FRAGMENTS :: "string list" where
  "EXPENSIVE_FRAGMENTS =
     [''/branch-analysis'', ''/v1/agent/'', ''/scoring/preview'', ''/decision-pack'', ''/miner-dashboard/refresh'',
      ''/open-pr-monitor'', ''/upstream/'', ''/internal/jobs/generate-signal-snapshots'',
      ''/internal/jobs/build-contributor-decision-packs'', ''/internal/jobs/refresh-upstream-drift'',
      ''/internal/jobs/file-upstream-drift-issues'', ''/internal/queue-intelligence'']"

definition rx_path_part :: rx where
  "rx_path_part = Plus (Noneof [One CHR ''/''])"

definition AI_KEY_PATH :: rx where
  "AI_KEY_PATH = Seq [Lit ''/ai-'', Alt [Lit ''key'', Lit ''review''], Eol]"

definition REPAIR_PATH :: rx where
  "REPAIR_PATH = Seq [Bol, Lit ''/v1/installations/'', rx_path_part, Lit ''/repair/refresh'', Eol]"

definition routeClassForPath :: "string \<Rightarrow> RateLimitClass" where
  "routeClassForPath path =
     (if path = ''/v1/github/webhook'' then rl_strict
      else if path = ''/v1/auth/session'' \<or> path = ''/v1/auth/logout'' then rl_normal
      else if startsWith path ''/v1/auth/'' then rl_strict
      else if list_ex (str_includes path) EXPENSIVE_FRAGMENTS \<or> rx_test AI_KEY_PATH path \<or> rx_test REPAIR_PATH path
      then rl_expensive
      else rl_normal)"

section \<open>Addresses\<close>

definition isValidIpv4 :: "string \<Rightarrow> bool" where
  "isValidIpv4 value =
     (let parts = split_on CHR ''.'' value
      in if length parts \<noteq> 4 then False
         else list_all (\<lambda>part. rx_test (Seq [Bol, Repeat 1 2 (Oneof digit_items), Eol]) part \<and>
                radix_value 10 part \<le> 255) parts)"

definition hex_items :: "rx_item list" where
  "hex_items = [Between CHR ''0'' CHR ''9'', Between CHR ''a'' CHR ''f'', Between CHR ''A'' CHR ''F'']"

definition unbracket :: "string \<Rightarrow> string" where
  "unbracket s = (if startsWith s ''['' \<and> endsWith s '']'' then butlast (tl s) else s)"

text \<open>\<open>split("::")\<close> has one piece more than there are disjoint occurrences from the left.\<close>

fun double_colons :: "string \<Rightarrow> nat" where
  "double_colons (c # d # s) = (if c = CHR '':'' \<and> d = CHR '':'' then Suc (double_colons s) else double_colons (d # s))"
| "double_colons _ = 0"

definition isValidIpv6 :: "string \<Rightarrow> bool" where
  "isValidIpv6 value =
     (let candidate = unbracket value; segments = split_on CHR '':'' candidate
      in if \<not> str_includes candidate '':'' \<or>
            \<not> rx_test (Seq [Bol, Plus (Oneof (hex_items @ [One CHR '':'', One CHR ''.''])), Eol]) candidate then False
         else if double_colons candidate + 1 > 2 then False
         else if length segments > 8 then False
         else list_all (\<lambda>segment. segment = [] \<or> rx_test (Seq [Bol, Repeat 1 3 (Oneof hex_items), Eol]) segment) segments
              \<and> list_ex (\<lambda>segment. segment \<noteq> []) segments)"

definition isValidIpAddress :: "string \<Rightarrow> bool" where
  "isValidIpAddress value \<longleftrightarrow> isValidIpv4 value \<or> isValidIpv6 value"

definition normalizeIpAddress :: "string option \<Rightarrow> string option" where
  "normalizeIpAddress value =
     (case map_option trim value of
        None \<Rightarrow> None
      | Some trimmed \<Rightarrow> if trimmed = [] \<or> \<not> isValidIpAddress trimmed then None else Some (unbracket trimmed))"

section \<open>The middleware\<close>

text \<open>What the middleware reads of a request: the path and two headers.\<close>

record RateContext =
  rc_path :: string
  rc_authorization :: "string option"
  rc_cfConnectingIp :: "string option"

record RateState =
  rs_auth :: AuthStore
  rs_limiters :: "string \<Rightarrow> bucket_storage"
  rs_audit :: "(string \<times> AuditEventRecord) list"

definition clientIp :: "RateContext \<Rightarrow> string" where
  "clientIp c = nullish (normalizeIpAddress (rc_cfConnectingIp c)) ''unknown-ip''"

definition isPreAuthRateLimitPath :: "string \<Rightarrow> bool" where
  "isPreAuthRateLimitPath path \<longleftrightarrow>
     path = ''/health'' \<or> path = ''/v1/mcp/compatibility'' \<or> path = ''/openapi.json'' \<or> path = ''/mcp'' \<or>
     startsWith path ''/v1/auth/'' \<or> path = ''/v1/github/webhook''"

definition validateBearerForRateLimit ::
  "'key AuthLib \<Rightarrow> AuthEnv \<Rightarrow> string \<Rightarrow> AuthStore \<Rightarrow> bool \<times> AuthStore" where
  "validateBearerForRateLimit lib env token s =
     (case authenticatePrivateToken lib env (Some token) s of
        (Some identity, s') \<Rightarrow> (True, s')
      | (None, s') \<Rightarrow> (authenticateInternalToken lib env (Some token) \<noteq> None, s'))"

text \<open>The bearer token of the request if it may count, and the sessions after the lookup.\<close>

definition rate_token ::
  "'key AuthLib \<Rightarrow> AuthEnv \<Rightarrow> RateContext \<Rightarrow> AuthStore \<Rightarrow> string option \<times> AuthStore" where
  "rate_token lib env c s =
     (if isPreAuthRateLimitPath (rc_path c) then (None, s)
      else
        (case extractBearerToken (rc_authorization c) of
           None \<Rightarrow> (None, s)
         | Some token \<Rightarrow>
             (case validateBearerForRateLimit lib env token s of
                (ok, s') \<Rightarrow> (if ok then Some token else None, s'))))"

definition rateLimitIdentity ::
  "'key AuthLib \<Rightarrow> AuthEnv \<Rightarrow> RateContext \<Rightarrow> AuthStore \<Rightarrow> string \<times> AuthStore" where
  "rateLimitIdentity lib env c s =
     (case rate_token lib env c s of
        (None, s') \<Rightarrow> (''ip:'' @ hashToken (al_crypto lib) (clientIp c), s')
      | (Some token, s') \<Rightarrow> (''token:'' @ hashToken (al_crypto lib) token, s'))"

definition actorHint :: "'key AuthLib \<Rightarrow> AuthEnv \<Rightarrow> RateContext \<Rightarrow> AuthStore \<Rightarrow> string \<times> AuthStore" where
  "actorHint lib env c s =
     (case rate_token lib env c s of
        (None, s') \<Rightarrow> (''anonymous'', s')
      | (Some token, s') \<Rightarrow> (''token:'' @ take 16 (hashToken (al_crypto lib) token), s'))"

definition STATS_PATH :: rx where
  "STATS_PATH = Seq [Bol, Lit ''/v1/public/github/repos/'', rx_path_part, Lit ''/'', rx_path_part, Lit ''/stats'', Eol]"

definition NUMBER_PART :: rx where
  "NUMBER_PART = Seq [Lit ''/'', Plus (Oneof digit_items), Ahead (Alt [Lit ''/'', Eol])]"

definition PULLS_PART :: rx where
  "PULLS_PART = Seq [Lit ''/'', rx_path_part, Lit ''/'', rx_path_part, Lit ''/pulls/'']"

definition pathGroup :: "string \<Rightarrow> string" where
  "pathGroup path =
     replace_first PULLS_PART ''/:owner/:repo/pulls/''
       (replace_all NUMBER_PART ''/:number''
         (replace_first STATS_PATH ''/v1/public/github/repos/:owner/:repo/stats'' path))"

definition rateLimitKey ::
  "'key AuthLib \<Rightarrow> AuthEnv \<Rightarrow> RateContext \<Rightarrow> RateLimitClass \<Rightarrow> AuthStore \<Rightarrow> string \<times> AuthStore" where
  "rateLimitKey lib env c routeClass s =
     (case rateLimitIdentity lib env c s of
        (identity, s') \<Rightarrow> (class_name routeClass @ '':'' @ pathGroup (rc_path c) @ '':'' @ identity, s'))"

text \<open>
  The middleware lets a request pass and sets response headers, or answers 429: the seconds to wait
  and the reset time of the body, and the headers. \<open>bound\<close> says whether the binding is configured.
\<close>

record RateDenial =
  den_retryAfterSeconds :: int
  den_resetAt :: "string option"

definition rate_headers :: "RateLimitConfig \<Rightarrow> RateLimitDecision option \<Rightarrow> (string \<times> string) list" where
  "rate_headers config decision =
     [(''x-ratelimit-limit'', int_str (nullish (map_option rd_limit decision) (cfg_limit config))),
      (''x-ratelimit-remaining'', int_str (nullish (map_option rd_remaining decision) (cfg_limit config)))]
     @ (case map_option rd_resetAt decision of
          None \<Rightarrow> [] | Some at_time \<Rightarrow> if at_time = [] then [] else [(''x-ratelimit-reset'', at_time)])"

definition denial_headers :: "RateLimitConfig \<Rightarrow> RateLimitDecision option \<Rightarrow> (string \<times> string) list" where
  "denial_headers config decision =
     [(''retry-after'', int_str (nullish (Option.bind decision rd_retryAfterSeconds) 60)),
      (''x-ratelimit-limit'', int_str (nullish (map_option rd_limit decision) (cfg_limit config))),
      (''x-ratelimit-remaining'', ''0'')]
     @ (case map_option rd_resetAt decision of
          None \<Rightarrow> [] | Some at_time \<Rightarrow> if at_time = [] then [] else [(''x-ratelimit-reset'', at_time)])"

definition rate_denied_event :: "string \<Rightarrow> RateLimitClass \<Rightarrow> RateLimitDecision option \<Rightarrow> AuditEventRecord" where
  "rate_denied_event who routeClass decision =
     \<lparr>ae_eventType = ''rate_limit.denied'', ae_actor = Some who, ae_targetKey = None, ae_outcome = Audit_denied,
      ae_detail = None,
      ae_metadata = [(''routeClass'', JString (class_name routeClass)),
        (''retryAfterSeconds'', (case Option.bind decision rd_retryAfterSeconds of
           None \<Rightarrow> JNull | Some n \<Rightarrow> JNumber (Finite (of_int n))))]\<rparr>"

definition enforceRateLimit ::
  "'key AuthLib \<Rightarrow> AuthEnv \<Rightarrow> bool \<Rightarrow> RateContext \<Rightarrow> RateLimitClass \<Rightarrow> RateState \<Rightarrow>
   (RateDenial option \<times> (string \<times> string) list) \<times> RateState" where
  "enforceRateLimit lib env bound c routeClass s =
     (if \<not> bound then ((None, []), s)
      else
        (let config = CONFIG routeClass;
             (key, auth1) = rateLimitKey lib env c routeClass (rs_auth s);
             ((status, decision), storage) =
               RateLimiter_fetch (al_toISO lib) (auth_now auth1)
                 (Some \<lparr>rq_key = Some key, rq_limit = Some (cfg_limit config),
                   rq_windowSeconds = Some (cfg_windowSeconds config)\<rparr>)
                 (rs_limiters s key);
             s1 = s\<lparr>rs_auth := auth1, rs_limiters := (rs_limiters s)(key := storage)\<rparr>
         in if status \<noteq> 429 then ((None, rate_headers config decision), s1)
            else
              (let (who, auth2) = actorHint lib env c auth1
               in ((Some \<lparr>den_retryAfterSeconds = nullish (Option.bind decision rd_retryAfterSeconds) 60,
                        den_resetAt = map_option rd_resetAt decision\<rparr>,
                    denial_headers config decision),
                   s1\<lparr>rs_auth := auth2,
                     rs_audit := rs_audit s1 @ [(rc_path c, rate_denied_event who routeClass decision)]\<rparr>))))"

section \<open>The contract of a fixed window\<close>

text \<open>
  A hit inside the window counts on, a hit after it opens a window of \<open>width\<close> with itself as
  the first, and a hit is allowed while the count is at most \<open>allowance\<close>.
\<close>

locale window_counter =
  fixes count :: "'s \<Rightarrow> int"
    and closes :: "'s \<Rightarrow> int option"
    and hit :: "int \<Rightarrow> 's \<Rightarrow> bool \<times> 's"
    and allowance :: int
    and width :: int
  assumes hit_inside: "closes s = Some e \<Longrightarrow> now < e \<Longrightarrow> hit now s = (ok, s') \<Longrightarrow>
      count s' = count s + 1 \<and> closes s' = Some e \<and> (ok \<longleftrightarrow> count s + 1 \<le> allowance)"
    and hit_after: "(case closes s of None \<Rightarrow> True | Some e \<Rightarrow> e \<le> now) \<Longrightarrow> hit now s = (ok, s') \<Longrightarrow>
      count s' = 1 \<and> closes s' = Some (now + width) \<and> (ok \<longleftrightarrow> 1 \<le> allowance)"
begin

primrec passed :: "int \<Rightarrow> 's \<Rightarrow> int list \<Rightarrow> nat" where
  "passed t s [] = 0"
| "passed t s (x # xs) =
     (if fst (hit x s) \<and> t \<le> x \<and> x < t + width then 1 else 0) + passed t (snd (hit x s)) xs"

lemma passed_late: "\<forall>x\<in>set xs. t + width \<le> x \<Longrightarrow> passed t s xs = 0"
  by (induction xs arbitrary: s) auto

lemma passed_bounds:
  assumes "sorted xs"
  shows "0 \<le> count s \<Longrightarrow> passed t s xs \<le> 2 * nat allowance \<and>
    (\<forall>e. closes s = Some e \<longrightarrow> t \<le> e \<longrightarrow> passed t s xs \<le> nat (allowance - count s) + nat allowance) \<and>
    (\<forall>e. closes s = Some e \<longrightarrow> t + width \<le> e \<longrightarrow> passed t s xs \<le> nat (allowance - count s))"
  using assms
proof (induction xs arbitrary: s)
  case (Cons x xs)
  obtain ok s' where h: "hit x s = (ok, s')" by (cases "hit x s")
  have sorted: "sorted xs" "\<forall>y\<in>set xs. x \<le> y" using Cons.prems(2) by auto
  show ?case
  proof (cases "\<exists>e. closes s = Some e \<and> x < e")
    case True
    then obtain e where e: "closes s = Some e" "x < e" by blast
    note law = hit_inside [OF e h]
    have "0 \<le> count s'" using law Cons.prems(1) by simp
    note IH = Cons.IH [OF this sorted(1)]
    show ?thesis using IH law e h Cons.prems(1) by (auto simp: nat_le_iff le_nat_iff)
  next
    case False
    then have "case closes s of None \<Rightarrow> True | Some e \<Rightarrow> e \<le> x" by (auto split: option.split)
    note law = hit_after [OF this h]
    have "0 \<le> count s'" using law by simp
    note IH = Cons.IH [OF this sorted(1)]
    have late: "passed t s' xs = 0" if "t + width \<le> x"
      using passed_late [of xs t s'] sorted(2) that by fastforce
    show ?thesis using IH law late False h by (auto simp: nat_le_iff le_nat_iff not_less)
  qed
qed simp

text \<open>In the window that the first hit opens, at most the allowance passes.\<close>

lemma first_window:
  assumes "sorted (x # xs)" and "closes s = None"
  shows "passed x s (x # xs) \<le> nat allowance"
proof -
  obtain ok s' where h: "hit x s = (ok, s')" by (cases "hit x s")
  note law = hit_after [OF _ h, unfolded assms(2), simplified]
  have "passed x s' xs \<le> nat (allowance - 1)"
    using passed_bounds [of xs s' x] assms(1) law by simp
  then show ?thesis using law h by (cases "1 \<le> allowance") auto
qed

text \<open>The abstract machine keeps the times of the hits of the window.\<close>

definition represents :: "int list \<Rightarrow> 's \<Rightarrow> bool" where
  "represents hits s \<longleftrightarrow>
     (case hits of
        [] \<Rightarrow> closes s = None
      | first # _ \<Rightarrow> closes s = Some (first + width) \<and> count s = int (length hits))"

end

definition log_hit :: "int \<Rightarrow> int \<Rightarrow> int \<Rightarrow> int list \<Rightarrow> bool \<times> int list" where
  "log_hit allowance width now hits =
     (let hits' = (case hits of [] \<Rightarrow> [now] | first # _ \<Rightarrow> if first + width \<le> now then [now] else hits @ [now])
      in (int (length hits') \<le> allowance, hits'))"

context window_counter begin

lemma hit_refines:
  assumes "represents hits s"
  shows "fst (hit now s) = fst (log_hit allowance width now hits) \<and>
    represents (snd (log_hit allowance width now hits)) (snd (hit now s))"
proof -
  obtain ok s' where h: "hit now s = (ok, s')" by (cases "hit now s")
  show ?thesis
  proof (cases hits)
    case Nil
    then have "case closes s of None \<Rightarrow> True | Some e \<Rightarrow> e \<le> now" using assms by (simp add: represents_def)
    note law = hit_after [OF this h]
    show ?thesis using law h Nil by (simp add: log_hit_def represents_def)
  next
    case (Cons first rest)
    show ?thesis
    proof (cases "first + width \<le> now")
      case True
      then have "case closes s of None \<Rightarrow> True | Some e \<Rightarrow> e \<le> now" using assms Cons by (simp add: represents_def)
      note law = hit_after [OF this h]
      show ?thesis using law h Cons True by (simp add: log_hit_def represents_def)
    next
      case False
      then have e: "closes s = Some (first + width)" "now < first + width"
        using assms Cons by (simp_all add: represents_def)
      note law = hit_inside [OF e h]
      show ?thesis using law h Cons False assms by (simp add: log_hit_def represents_def algebra_simps)
    qed
  qed
qed

end

section \<open>The buckets keep the contract\<close>

definition bucket_hit :: "int \<Rightarrow> int \<Rightarrow> int \<Rightarrow> RateBucket option \<Rightarrow> bool \<times> RateBucket option" where
  "bucket_hit allowance windowSeconds now b =
     (let b' = hit_bucket now windowSeconds b in (bk_count b' \<le> allowance, Some b'))"

interpretation bucket: window_counter
  "\<lambda>b. nullish (map_option bk_count b) 0" "map_option bk_resetAt"
  "bucket_hit allowance windowSeconds" allowance "windowSeconds * 1000"
  for allowance windowSeconds
proof unfold_locales
  fix s :: "RateBucket option" and e now ok s'
  assume "map_option bk_resetAt s = Some e" "now < e" "bucket_hit allowance windowSeconds now s = (ok, s')"
  then show "nullish (map_option bk_count s') 0 = nullish (map_option bk_count s) 0 + 1 \<and>
      map_option bk_resetAt s' = Some e \<and> ok = (nullish (map_option bk_count s) 0 + 1 \<le> allowance)"
    by (auto simp: bucket_hit_def hit_bucket_def Let_def)
next
  fix s :: "RateBucket option" and now ok s'
  assume "case map_option bk_resetAt s of None \<Rightarrow> True | Some e \<Rightarrow> e \<le> now"
    "bucket_hit allowance windowSeconds now s = (ok, s')"
  then show "nullish (map_option bk_count s') 0 = 1 \<and>
      map_option bk_resetAt s' = Some (now + windowSeconds * 1000) \<and> ok = (1 \<le> allowance)"
    by (cases s) (auto simp: bucket_hit_def hit_bucket_def fresh_bucket_def Let_def split: if_splits)
qed

lemma fetch_hit:
  assumes "key \<noteq> []" "allowance \<noteq> 0" "windowSeconds \<noteq> 0"
    and "RateLimiter_fetch toISO now (Some \<lparr>rq_key = Some key, rq_limit = Some allowance,
      rq_windowSeconds = Some windowSeconds\<rparr>) storage = ((status, decision), storage')"
  shows "storage' = storage(storage_key key := snd (bucket_hit allowance windowSeconds now (storage (storage_key key))))"
    and "status = (if fst (bucket_hit allowance windowSeconds now (storage (storage_key key))) then 200 else 429)"
  using assms by (auto simp: RateLimiter_fetch_def bucket_hit_def decide_def Let_def)

lemma storage_key_eq [simp]: "storage_key k = storage_key k' \<longleftrightarrow> k = k'"
  by (simp add: storage_key_def)

section \<open>Runs\<close>

text \<open>The statuses a durable object answers, and those of the abstract machine.\<close>

fun serve :: "(int \<Rightarrow> string) \<Rightarrow> RateLimitConfig \<Rightarrow> (int \<times> string) list \<Rightarrow> bucket_storage \<Rightarrow> nat list" where
  "serve toISO config [] storage = []"
| "serve toISO config ((now, key) # requests) storage =
     (case RateLimiter_fetch toISO now (Some \<lparr>rq_key = Some key, rq_limit = Some (cfg_limit config),
        rq_windowSeconds = Some (cfg_windowSeconds config)\<rparr>) storage of
        ((status, _), storage') \<Rightarrow> status # serve toISO config requests storage')"

fun log_serve :: "RateLimitConfig \<Rightarrow> (int \<times> string) list \<Rightarrow> (string \<Rightarrow> int list) \<Rightarrow> nat list" where
  "log_serve config [] logs = []"
| "log_serve config ((now, key) # requests) logs =
     (case log_hit (cfg_limit config) (cfg_windowSeconds config * 1000) now (logs key) of
        (ok, hits') \<Rightarrow> (if ok then 200 else 429) # log_serve config requests (logs(key := hits')))"

lemma serve_refines:
  assumes "cfg_limit config \<noteq> 0" "cfg_windowSeconds config \<noteq> 0"
  shows "list_all (\<lambda>(now, key). key \<noteq> []) requests \<Longrightarrow>
    (\<And>key. bucket.represents (cfg_windowSeconds config) (logs key) (storage (storage_key key))) \<Longrightarrow>
    serve toISO config requests storage = log_serve config requests logs"
proof (induction requests arbitrary: logs storage)
  case (Cons r requests)
  obtain now key where r: "r = (now, key)" by (cases r)
  have key: "key \<noteq> []" using Cons.prems(1) r by simp
  obtain status decision storage' where f: "RateLimiter_fetch toISO now (Some \<lparr>rq_key = Some key,
      rq_limit = Some (cfg_limit config), rq_windowSeconds = Some (cfg_windowSeconds config)\<rparr>) storage =
      ((status, decision), storage')"
    by (metis prod.exhaust)
  note step = fetch_hit [OF key assms f]
  obtain ok hits' where l: "log_hit (cfg_limit config) (cfg_windowSeconds config * 1000) now (logs key) = (ok, hits')"
    by (metis prod.exhaust)
  note ref = bucket.hit_refines [OF Cons.prems(2) [of key], of "cfg_limit config" now, unfolded l fst_conv snd_conv]
  have "bucket.represents (cfg_windowSeconds config)
      ((logs(key := hits')) k)
      (storage' (storage_key k))" for k
    using ref Cons.prems(2) [of k] by (simp add: step(1))
  note IH = Cons.IH [where storage = storage' and logs = "logs(key := hits')", OF _ this]
  show ?case using IH Cons.prems(1) ref by (simp add: r f step(2) l fun_upd_def)
qed simp

text \<open>Requests through the middleware: the clock is set to the time of each.\<close>

fun enforce_all ::
  "'key AuthLib \<Rightarrow> AuthEnv \<Rightarrow> RateLimitClass \<Rightarrow> (int \<times> RateContext) list \<Rightarrow> RateState \<Rightarrow> bool list" where
  "enforce_all lib env routeClass [] s = []"
| "enforce_all lib env routeClass ((now, c) # requests) s =
     (case enforceRateLimit lib env True c routeClass (s\<lparr>rs_auth := (rs_auth s)\<lparr>auth_now := now\<rparr>\<rparr>) of
        ((denial, _), s') \<Rightarrow> (denial = None) # enforce_all lib env routeClass requests s')"

text \<open>A lookup that finds nobody leaves the sessions alone.\<close>

lemma no_token_no_change: "rate_token lib env c s = (None, s') \<Longrightarrow> s' = s"
  by (auto simp: rate_token_def validateBearerForRateLimit_def authenticatePrivateToken_def
      authenticateSessionToken_def Let_def split: if_splits option.splits prod.splits)

lemma anonymous_key:
  assumes "fst (rate_token lib env c s) = None"
  shows "rateLimitKey lib env c routeClass s =
    (class_name routeClass @ '':'' @ pathGroup (rc_path c) @ '':ip:'' @ hashToken (al_crypto lib) (clientIp c), s)"
    and "actorHint lib env c s = (''anonymous'', s)"
  using assms by (cases "rate_token lib env c s"; auto simp: rateLimitKey_def rateLimitIdentity_def
      actorHint_def dest: no_token_no_change)+

lemma config_positive: "cfg_limit (CONFIG c) \<noteq> 0" "cfg_windowSeconds (CONFIG c) \<noteq> 0"
  by (cases c; simp add: CONFIG_def)+

lemma anonymous_step:
  assumes "fst (rate_token lib env c (rs_auth s)) = None"
    and "class_name cls @ '':'' @ pathGroup (rc_path c) @ '':ip:'' @ hashToken (al_crypto lib) (clientIp c) = key"
    and "enforceRateLimit lib env True c cls s = ((denial, headers), s')"
    and "bucket_hit (cfg_limit (CONFIG cls)) (cfg_windowSeconds (CONFIG cls)) (auth_now (rs_auth s))
      (rs_limiters s key (storage_key key)) = (ok, b)"
  shows "denial = None \<longleftrightarrow> ok" and "rs_auth s' = rs_auth s" and "rs_limiters s' key (storage_key key) = b"
proof -
  have key: "key \<noteq> []" using assms(2) by auto
  obtain status decision storage' where f: "RateLimiter_fetch (al_toISO lib) (auth_now (rs_auth s))
      (Some \<lparr>rq_key = Some key, rq_limit = Some (cfg_limit (CONFIG cls)),
        rq_windowSeconds = Some (cfg_windowSeconds (CONFIG cls))\<rparr>) (rs_limiters s key) =
      ((status, decision), storage')"
    by (metis prod.exhaust)
  note step = fetch_hit [OF key config_positive f]
  have k: "rateLimitKey lib env c cls (rs_auth s) = (key, rs_auth s)"
    using anonymous_key(1) [OF assms(1), of cls] assms(2) by simp
  have "(denial = None \<longleftrightarrow> status \<noteq> 429) \<and> rs_auth s' = rs_auth s \<and> rs_limiters s' = (rs_limiters s)(key := storage')"
    using assms(3) by (auto simp: enforceRateLimit_def k f anonymous_key(2) [OF assms(1)] Let_def split: if_splits)
  then show "denial = None \<longleftrightarrow> ok" "rs_auth s' = rs_auth s" "rs_limiters s' key (storage_key key) = b"
    using step assms(4) by simp_all
qed

abbreviation anonymous :: "'key AuthLib \<Rightarrow> AuthEnv \<Rightarrow> AuthStore \<Rightarrow> string \<Rightarrow> string \<Rightarrow> int \<times> RateContext \<Rightarrow> bool" where
  "anonymous lib env store grp ip \<equiv> \<lambda>(now, c).
     fst (rate_token lib env c (store\<lparr>auth_now := now\<rparr>)) = None \<and> pathGroup (rc_path c) = grp \<and> clientIp c = ip"

lemma enforce_all_passed:
  assumes "class_name cls @ '':'' @ grp @ '':ip:'' @ hashToken (al_crypto lib) ip = key"
  shows "list_all (anonymous lib env (rs_auth s) grp ip) requests \<Longrightarrow>
    length (filter (\<lambda>((now, _), ok). ok \<and> t \<le> now \<and> now < t + cfg_windowSeconds (CONFIG cls) * 1000)
      (zip requests (enforce_all lib env cls requests s))) =
    bucket.passed (cfg_limit (CONFIG cls)) (cfg_windowSeconds (CONFIG cls)) t
      (rs_limiters s key (storage_key key)) (map fst requests)"
proof (induction requests arbitrary: s)
  case (Cons r requests)
  obtain now c where r: "r = (now, c)" by (cases r)
  let ?s = "s\<lparr>rs_auth := (rs_auth s)\<lparr>auth_now := now\<rparr>\<rparr>"
  obtain denial headers s' where e: "enforceRateLimit lib env True c cls ?s = ((denial, headers), s')"
    by (metis prod.exhaust)
  obtain ok b where h: "bucket_hit (cfg_limit (CONFIG cls)) (cfg_windowSeconds (CONFIG cls)) now
      (rs_limiters s key (storage_key key)) = (ok, b)"
    by (metis prod.exhaust)
  have "fst (rate_token lib env c (rs_auth ?s)) = None"
    "class_name cls @ '':'' @ pathGroup (rc_path c) @ '':ip:'' @ hashToken (al_crypto lib) (clientIp c) = key"
    using Cons.prems assms by (simp_all add: r)
  from anonymous_step [OF this e, of ok b] h
  have step: "denial = None \<longleftrightarrow> ok" "rs_auth s' = rs_auth ?s" "rs_limiters s' key (storage_key key) = b"
    by simp_all
  have "list_all (anonymous lib env (rs_auth s') grp ip) requests"
    using Cons.prems by (simp add: r step(2))
  from Cons.IH [OF this] show ?case by (simp add: r e h step)
qed simp

section \<open>Properties\<close>

text \<open>
  C22: the durable object implements the log of a window. For every sequence of requests, however
  the keys are interleaved and whatever the clock does, the statuses it answers from its counters
  are those of the machine that keeps the times of all hits of the current window of each key and
  allows a hit as long as they are at most the limit.
\<close>

theorem limiter_refines_log:
  assumes "list_all (\<lambda>(now, key). key \<noteq> []) requests"
    and "cfg_limit config \<noteq> 0" "cfg_windowSeconds config \<noteq> 0"
  shows "serve toISO config requests (\<lambda>_. None) = log_serve config requests (\<lambda>_. [])"
  by (rule serve_refines [OF assms(2,3,1)]) (simp add: bucket.represents_def)

theorem limiter_refines_log_witness:
  "serve (\<lambda>_. []) \<lparr>cfg_limit = 2, cfg_windowSeconds = 1\<rparr>
     [(0, ''a''), (10, ''a''), (20, ''b''), (30, ''a''), (1000, ''a'')] (\<lambda>_. None) = [200, 200, 200, 429, 200]"
  by (subst limiter_refines_log) (simp_all add: log_hit_def)

text \<open>
  C30: a flood is bounded whoever it claims to be. Requests of one address to one group of paths
  whose bearer tokens authenticate nobody are counted together. Of those that arrive in the window
  that the first of them opens at most the limit of the route class are let through, and of those
  within any span as long as a window, which may reach over two windows, at most twice the limit.
\<close>

theorem flood_bounded:
  assumes "list_all (anonymous lib env (rs_auth s) grp ip) requests"
    and "sorted (map fst requests)" and "rs_limiters s = (\<lambda>_ _. None)"
  shows "length (filter (\<lambda>((now, _), ok). ok \<and> t \<le> now \<and> now < t + cfg_windowSeconds (CONFIG cls) * 1000)
    (zip requests (enforce_all lib env cls requests s))) \<le> 2 * nat (cfg_limit (CONFIG cls)) \<and>
    (requests \<noteq> [] \<longrightarrow> length (filter (\<lambda>((now, _), ok). ok \<and> fst (hd requests) \<le> now \<and>
        now < fst (hd requests) + cfg_windowSeconds (CONFIG cls) * 1000)
      (zip requests (enforce_all lib env cls requests s))) \<le> nat (cfg_limit (CONFIG cls)))"
  unfolding enforce_all_passed [OF refl assms(1)]
  using bucket.passed_bounds [OF assms(2), of None] bucket.first_window [of "fst (hd requests)" "map fst (tl requests)" None]
    assms(2,3) by (cases requests) simp_all

theorem flood_bounded_witness:
  "length (filter (\<lambda>((now :: int, _), ok). ok \<and> 0 \<le> now \<and> now < 60000)
     (zip (replicate 30 (5, \<lparr>rc_path = ''/health'', rc_authorization = Some ''Bearer x'', rc_cfConnectingIp = None\<rparr>))
       (enforce_all demo_lib demo_env rl_strict
         (replicate 30 (5, \<lparr>rc_path = ''/health'', rc_authorization = Some ''Bearer x'', rc_cfConnectingIp = None\<rparr>))
         \<lparr>rs_auth = demo_store, rs_limiters = (\<lambda>_ _. None), rs_audit = []\<rparr>))) \<le> 20 \<and>
   length (filter (\<lambda>((now :: int, _), ok). ok \<and> 5 \<le> now \<and> now < 60005)
     (zip (replicate 30 (5, \<lparr>rc_path = ''/health'', rc_authorization = Some ''Bearer x'', rc_cfConnectingIp = None\<rparr>))
       (enforce_all demo_lib demo_env rl_strict
         (replicate 30 (5, \<lparr>rc_path = ''/health'', rc_authorization = Some ''Bearer x'', rc_cfConnectingIp = None\<rparr>))
         \<lparr>rs_auth = demo_store, rs_limiters = (\<lambda>_ _. None), rs_audit = []\<rparr>))) \<le> 10"
  using flood_bounded [of demo_lib demo_env
      "\<lparr>rs_auth = demo_store, rs_limiters = (\<lambda>_ _. None), rs_audit = []\<rparr>" "pathGroup ''/health''" "''unknown-ip''"
      "replicate 30 (5, \<lparr>rc_path = ''/health'', rc_authorization = Some ''Bearer x'', rc_cfConnectingIp = None\<rparr>)"
      0 rl_strict]
  by (simp add: list_all_iff rate_token_def isPreAuthRateLimitPath_def clientIp_def normalizeIpAddress_def
      CONFIG_def)

end
