(* ===== verification/Safe_Url.thy ===== *)
theory Safe_Url
  imports Crypto
begin

text \<open>
  The guard of outgoing requests of the content lane: \<open>src/review/content-lane/safe-url.ts\<close>. The
  URL parser is the argument \<open>new_url\<close>: the protocol and the host name of a text, or nothing when
  it throws. Components of an IPv4 literal are natural numbers, on which the code's doubles are
  exact up to the bound it checks and stay above it beyond.
\<close>

section \<open>IPv4 literals\<close>

definition HEX_COMPONENT :: rx where
  "HEX_COMPONENT = Seq [Bol, Seq [Lit ''0x'', Plus (Oneof [Between CHR ''0'' CHR ''9'', Between CHR ''a'' CHR ''f''])], Eol]"

definition OCTAL_COMPONENT :: rx where
  "OCTAL_COMPONENT = Seq [Bol, Seq [Lit ''0'', Plus (Oneof [Between CHR ''0'' CHR ''7''])], Eol]"

definition DECIMAL_COMPONENT :: rx where
  "DECIMAL_COMPONENT = Seq [Bol, Alt [Lit ''0'', Cat (Oneof [Between CHR ''1'' CHR ''9'']) (Many (Oneof digit_items))], Eol]"

definition parseIpv4Component :: "string \<Rightarrow> nat option" where
  "parseIpv4Component part =
     (if rx_test_i HEX_COMPONENT part then Some (radix_value 16 (drop 2 part))
      else if rx_test OCTAL_COMPONENT part then Some (radix_value 8 part)
      else if rx_test DECIMAL_COMPONENT part then Some (radix_value 10 part)
      else None)"

fun parse_components :: "string list \<Rightarrow> nat list option" where
  "parse_components [] = Some []"
| "parse_components (part # parts) =
     (case parseIpv4Component part of
        None \<Rightarrow> None
      | Some v \<Rightarrow> map_option ((#) v) (parse_components parts))"

definition ipv4ToInt :: "string \<Rightarrow> nat option" where
  "ipv4ToInt host =
     (let parts = split_on CHR ''.'' host
      in if length parts < 1 \<or> length parts > 4 then None
         else (case parse_components parts of
                 None \<Rightarrow> None
               | Some vals \<Rightarrow>
                   (let n = length vals; lastMax = [0xffffffff, 0xffffff, 0xffff, 0xff] ! (n - 1)
                    in if list_ex (\<lambda>v. v > 0xff) (butlast vals) then None
                       else if last vals > lastMax then None
                       else (let result = last vals + (\<Sum>i < n - 1. vals ! i * 256 ^ (3 - i))
                             in if result > 0xffffffff then None else Some result))))"

definition ipv4IsPrivateOrLocal :: "string \<Rightarrow> bool" where
  "ipv4IsPrivateOrLocal host =
     (case ipv4ToInt host of
        None \<Rightarrow> False
      | Some n \<Rightarrow>
          (let a = drop_bit 24 n AND 0xff; b = drop_bit 16 n AND 0xff
           in if a = 0 \<or> a = 10 \<or> a = 127 then True
              else if a = 169 \<and> b = 254 then True
              else if a = 192 \<and> b = 168 then True
              else a = 172 \<and> b \<ge> 16 \<and> b \<le> 31))"

section \<open>IPv6 literals and names\<close>

definition strip_brackets :: "string \<Rightarrow> string" where
  "strip_brackets host =
     (let s = (if startsWith host ''['' then tl host else host) in if endsWith s '']'' then butlast s else s)"

definition one_to_three_digits :: rx where
  "one_to_three_digits = Repeat 1 2 (Oneof digit_items)"

definition QUAD :: rx where
  "QUAD = Seq [Bol, Seq [one_to_three_digits, Lit ''.'', one_to_three_digits, Lit ''.'', one_to_three_digits,
     Lit ''.'', one_to_three_digits], Eol]"

definition HEX_GROUP :: rx where
  "HEX_GROUP = Seq [Bol, Repeat 1 3 (Oneof [Between CHR ''0'' CHR ''9'', Between CHR ''a'' CHR ''f'']), Eol]"

text \<open>What the two patterns capture: the quad after the last colon, and the two groups after \<open>::ffff:\<close>.\<close>

definition mapped_quad :: "string \<Rightarrow> string option" where
  "mapped_quad addr =
     (let tail = last (split_on CHR '':'' addr)
      in if endsWith addr (''::ffff:'' @ tail) \<and> rx_test QUAD tail then Some tail else None)"

definition mapped_groups :: "string \<Rightarrow> (string \<times> string) option" where
  "mapped_groups addr =
     (case split_on CHR '':'' addr of
        [e1, e2, prefix, g1, g2] \<Rightarrow>
          if e1 = [] \<and> e2 = [] \<and> prefix = ''ffff'' \<and> rx_test HEX_GROUP g1 \<and> rx_test HEX_GROUP g2
          then Some (g1, g2) else None
      | _ \<Rightarrow> None)"

definition dotted :: "nat \<Rightarrow> nat \<Rightarrow> nat \<Rightarrow> nat \<Rightarrow> string" where
  "dotted a b c d = nat_str a @ ''.'' @ nat_str b @ ''.'' @ nat_str c @ ''.'' @ nat_str d"

definition ipv6IsPrivateOrLocal :: "string \<Rightarrow> bool" where
  "ipv6IsPrivateOrLocal host =
     (let addr = strip_brackets host
      in if \<not> str_includes addr '':'' then False
         else if addr = ''::1'' \<or> addr = ''::'' then True
         else (case mapped_quad addr of
                 Some quad \<Rightarrow> ipv4IsPrivateOrLocal quad
               | None \<Rightarrow>
                   (case mapped_groups addr of
                      Some (g1, g2) \<Rightarrow>
                        (let hi = radix_value 16 g1; lo = radix_value 16 g2
                         in ipv4IsPrivateOrLocal (dotted (drop_bit 8 hi AND 0xff) (hi AND 0xff)
                              (drop_bit 8 lo AND 0xff) (lo AND 0xff)))
                    | None \<Rightarrow>
                        (let head = hd (split_on CHR '':'' addr)
                         in if startsWith head ''fc'' \<or> startsWith head ''fd'' then True
                            else rx_test (Seq [Bol, Lit ''fe'', Oneof (map One ''89ab'')]) head))))"

definition hostIsPrivateOrLocal :: "string \<Rightarrow> bool" where
  "hostIsPrivateOrLocal host =
     (let h = toLowerCase host
      in if h = ''localhost'' \<or> endsWith h ''.local'' \<or> endsWith h ''.internal'' then True
         else if h = ''0.0.0.0'' \<or> h = ''::1'' \<or> h = ''[::1]'' then True
         else if str_includes h '':'' then ipv6IsPrivateOrLocal h
         else ipv4IsPrivateOrLocal h)"

section \<open>The guards\<close>

definition isSafeHttpUrl :: "(string \<Rightarrow> (string \<times> string) option) \<Rightarrow> string \<Rightarrow> bool" where
  "isSafeHttpUrl new_url raw =
     (case new_url raw of
        None \<Rightarrow> False
      | Some (protocol, hostname) \<Rightarrow>
          if protocol \<noteq> ''https:'' then False else \<not> hostIsPrivateOrLocal (toLowerCase hostname))"

definition isSafeEndpointUrl :: "(string \<Rightarrow> (string \<times> string) option) \<Rightarrow> string \<Rightarrow> bool" where
  "isSafeEndpointUrl new_url raw =
     (case new_url raw of
        None \<Rightarrow> False
      | Some (protocol, hostname) \<Rightarrow>
          if protocol \<notin> set [''https:'', ''wss:'', ''ws:''] then False
          else \<not> hostIsPrivateOrLocal (toLowerCase hostname))"

section \<open>Numerals\<close>

text \<open>The digits of a number in a base, and the pattern that reads them.\<close>

fun radix_str :: "nat \<Rightarrow> nat \<Rightarrow> string" where
  "radix_str base n =
     (if base < 2 \<or> n < base then [hex_digit n] else radix_str base (n div base) @ [hex_digit (n mod base)])"

declare radix_str.simps [simp del]

lemma radix_value_snoc: "radix_value base (s @ [c]) = base * radix_value base s + the (hex_value c)"
  by (simp add: radix_value_def)

lemma radix_value_str:
  assumes "2 \<le> base" "base \<le> 16"
  shows "radix_value base (radix_str base n) = n"
proof (induction n rule: less_induct)
  case (less n)
  show ?case
  proof (cases "n < base")
    case True
    then show ?thesis using assms by (simp add: radix_str.simps radix_value_def)
  next
    case False
    then have "n div base < n" "n mod base < 16" using assms
      by (auto simp: div_less_dividend less_le_trans [OF mod_less_divisor])
    with less [of "n div base"] False assms show ?thesis
      by (subst radix_str.simps) (simp add: radix_value_snoc)
  qed
qed

lemma radix_str_digits:
  assumes "2 \<le> base"
  shows "list_all (\<lambda>c. \<exists>d<base. c = hex_digit d) (radix_str base n)"
proof (induction n rule: less_induct)
  case (less n)
  have "\<exists>d<base. hex_digit (n mod base) = hex_digit d" using assms by (intro exI [of _ "n mod base"]) simp
  with less [of "n div base"] assms show ?case
    by (subst radix_str.simps) (auto simp: div_less_dividend)
qed

lemma radix_str_not_Nil [simp]: "radix_str base n \<noteq> []"
  by (subst radix_str.simps) simp

lemma radix_str_hd:
  assumes "2 \<le> base"
  shows "0 < n \<Longrightarrow> \<exists>d<base. 0 < d \<and> hd (radix_str base n) = hex_digit d"
proof (induction n rule: less_induct)
  case (less n)
  show ?case
  proof (cases "n < base")
    case True
    then show ?thesis using less.prems by (subst radix_str.simps) auto
  next
    case False
    then have "0 < n div base" "n div base < n" using assms by (auto simp: div_greater_zero_iff)
    with less.IH [of "n div base"] False assms show ?thesis
      by (subst radix_str.simps) (auto simp: hd_append)
  qed
qed

lemma nat_str_radix: "nat_str n = radix_str 10 n"
proof (induction n rule: less_induct)
  case (less n)
  have d: "digit_char d = hex_digit d" if "d < 10" for d using that by (simp add: digit_char_def hex_digit_def)
  show ?case using less [of "n div 10"] d
    by (subst nat_str.simps, subst radix_str.simps) (simp add: not_less)
qed

section \<open>Components\<close>

lemma hex_component_iff: "rx_test_i HEX_COMPONENT s \<longleftrightarrow>
    (\<exists>t. toLowerCase s = ''0x'' @ t \<and> t \<noteq> [] \<and> list_all (class_match [Between CHR ''0'' CHR ''9'', Between CHR ''a'' CHR ''f'']) t)"
  unfolding HEX_COMPONENT_def rx_test_i_def Seq.simps rx_test_anchored by (rule rx_full_lit_plus)

lemma octal_component_iff: "rx_test OCTAL_COMPONENT s \<longleftrightarrow>
    (\<exists>t. s = ''0'' @ t \<and> t \<noteq> [] \<and> list_all (class_match [Between CHR ''0'' CHR ''7'']) t)"
  unfolding OCTAL_COMPONENT_def Seq.simps rx_test_anchored by (rule rx_full_lit_plus)

lemma decimal_component_iff: "rx_test DECIMAL_COMPONENT s \<longleftrightarrow>
    s = ''0'' \<or> (\<exists>c t. s = c # t \<and> class_match [Between CHR ''1'' CHR ''9''] c \<and> list_all (class_match digit_items) t)"
proof -
  have "rx_full (Lit ''0'') s \<longleftrightarrow> s = ''0''" by (auto simp: rx_full_def rx_match_Lit simp del: Lit.simps)
  moreover have "rx_full (Cat (Oneof [Between CHR ''1'' CHR ''9'']) (Many (Oneof digit_items))) s \<longleftrightarrow>
      (\<exists>c t. s = c # t \<and> class_match [Between CHR ''1'' CHR ''9''] c \<and> list_all (class_match digit_items) t)"
    by (cases s) (auto simp: rx_full_def rx_match_Cat rx_match_class_many rx_match_Oneof)
  ultimately show ?thesis
    unfolding DECIMAL_COMPONENT_def Seq.simps rx_test_anchored Alt.simps
    by (simp add: rx_full_def rx_match_Or del: Lit.simps)
qed

lemma digit_classes:
  "d < 16 \<Longrightarrow> class_match [Between CHR ''0'' CHR ''9'', Between CHR ''a'' CHR ''f''] (hex_digit d)"
  "d < 8 \<Longrightarrow> class_match [Between CHR ''0'' CHR ''7''] (hex_digit d)"
  "d < 10 \<Longrightarrow> class_match digit_items (hex_digit d)"
  "0 < d \<Longrightarrow> d < 10 \<Longrightarrow> class_match [Between CHR ''1'' CHR ''9''] (hex_digit d)"
  "d < 16 \<Longrightarrow> lower_char (hex_digit d) = hex_digit d"
  by (auto simp: class_match_def digit_items_def hex_digit_def lower_char_def Let_def)

lemma hex_digit_zero [simp]: "hex_digit 0 = CHR ''0''"
  by code_simp

lemma hex_digit_eq_zero: "d < 16 \<Longrightarrow> hex_digit d = CHR ''0'' \<Longrightarrow> d = 0"
  using hex_value_digit [of d] hex_value_digit [of 0] by simp

lemma radix_value_zero: "radix_value base (CHR ''0'' # s) = radix_value base s"
  by (simp add: radix_value_def hex_value_def Let_def)

lemma parse_decimal: "parseIpv4Component (nat_str n) = Some n"
proof (cases "n = 0")
  case True
  have "parseIpv4Component ''0'' = Some 0" "nat_str 0 = ''0''" by code_simp+
  with True show ?thesis by simp
next
  case False
  obtain d where d: "0 < d" "d < 10" "hd (radix_str 10 n) = hex_digit d"
    using radix_str_hd [of 10 n] False by auto
  obtain t where t: "radix_str 10 n = hex_digit d # t" using d(3) by (cases "radix_str 10 n") auto
  have "list_all (class_match digit_items) t"
    using radix_str_digits [of 10 n] digit_classes(3) t by (auto simp: list_all_iff)
  moreover have "hex_digit d \<noteq> CHR ''0''" using hex_digit_eq_zero [of d] d by auto
  moreover have "lower_char (hex_digit d) = hex_digit d" using digit_classes(5) d by simp
  ultimately show ?thesis using digit_classes(4) [OF d(1,2)] radix_value_str [of 10 n]
    by (simp add: parseIpv4Component_def nat_str_radix t hex_component_iff octal_component_iff
        decimal_component_iff toLowerCase_def)
qed

section \<open>Digits\<close>

definition plain_char :: "char \<Rightarrow> bool" where
  "plain_char c \<longleftrightarrow> class_match [Between CHR ''0'' CHR ''9'', Between CHR ''a'' CHR ''f'', One CHR ''x'', One CHR ''.''] c"

lemma plain_digit:
  assumes "d < 16"
  shows "plain_char (hex_digit d)" and "hex_digit d \<noteq> CHR ''.''"
proof -
  show "plain_char (hex_digit d)" using assms by (auto simp: plain_char_def class_match_def hex_digit_def)
  have "hex_value CHR ''.'' = None" by code_simp
  then show "hex_digit d \<noteq> CHR ''.''" using hex_value_digit [OF assms] by auto
qed

lemma plain_radix:
  assumes "2 \<le> base" "base \<le> 16"
  shows "list_all plain_char (radix_str base n) \<and> CHR ''.'' \<notin> set (radix_str base n)"
proof -
  have "plain_char c \<and> c \<noteq> CHR ''.''" if "c \<in> set (radix_str base n)" for c
  proof -
    from radix_str_digits [OF assms(1), of n] that have "\<exists>d<base. c = hex_digit d"
      by (simp add: list_all_iff)
    then obtain d where d: "d < base" "c = hex_digit d" by blast
    then have "d < 16" using assms(2) by linarith
    from plain_digit [OF this] show ?thesis by (simp only: d(2) simp_thms)
  qed
  then show ?thesis by (auto simp: list_all_iff)
qed

lemma plain_nat: "list_all plain_char (nat_str n) \<and> CHR ''.'' \<notin> set (nat_str n)"
  using plain_radix [of 10 n] by (simp add: nat_str_radix)

lemma plain_lower: "list_all plain_char s \<Longrightarrow> toLowerCase s = s"
proof -
  have "lower_char c = c" if "plain_char c" for c
    using that by (auto simp: plain_char_def class_match_def lower_char_def Let_def)
  then show "list_all plain_char s \<Longrightarrow> toLowerCase s = s"
    by (simp add: toLowerCase_def list_all_iff map_idI)
qed

lemma endsWith_iff: "endsWith s t \<longleftrightarrow> (\<exists>r. s = r @ t)"
  unfolding endsWith_def startsWith_iff by (metis rev_append rev_rev_ident)

text \<open>The private and local blocks as ranges of addresses.\<close>

definition private_v4 :: "nat \<Rightarrow> bool" where
  "private_v4 n \<longleftrightarrow> n < 0x01000000 \<or> 0x0a000000 \<le> n \<and> n < 0x0b000000 \<or> 0x7f000000 \<le> n \<and> n < 0x80000000
     \<or> 0xa9fe0000 \<le> n \<and> n < 0xa9ff0000 \<or> 0xac100000 \<le> n \<and> n < 0xac200000
     \<or> 0xc0a80000 \<le> n \<and> n < 0xc0a90000"

lemma byte_and: "(n :: nat) AND 0xff = n mod 256"
  using take_bit_eq_mask [of 8 n] by (simp add: take_bit_eq_mod mask_eq_exp_minus_1)

lemma div_is: "0 < c \<Longrightarrow> (n :: nat) div c = k \<longleftrightarrow> k * c \<le> n \<and> n < Suc k * c"
  by (metis div_nat_eqI mult.commute dividend_less_times_div times_div_less_eq_dividend mult_Suc_right add.commute)

lemma two_bytes: "j < 256 \<Longrightarrow> (m :: nat) div 256 = k \<and> m mod 256 = j \<longleftrightarrow> m = 256 * k + j"
  using div_mult_mod_eq [of m 256] by auto

lemma block_172: "(m :: nat) div 256 = 172 \<and> 16 \<le> m mod 256 \<and> m mod 256 \<le> 31 \<longleftrightarrow> 0xac10 \<le> m \<and> m \<le> 0xac1f"
proof -
  define q r where "q = m div 256" and "r = m mod 256"
  have "m = 256 * q + r" "r < 256" using div_mult_mod_eq [of m 256] by (auto simp: q_def r_def)
  then show ?thesis unfolding q_def [symmetric] r_def [symmetric] by arith
qed

lemma private_value:
  assumes "ipv4ToInt host = Some n" "n < 2 ^ 32"
  shows "ipv4IsPrivateOrLocal host \<longleftrightarrow> private_v4 n"
proof -
  let ?a = "n div 2 ^ 24" and ?m = "n div 2 ^ 16"
  have a: "drop_bit 24 n AND 0xff = ?a" using assms(2)
    by (simp add: byte_and drop_bit_eq_div div_less_dividend less_mult_imp_div_less)
  have b: "drop_bit 16 n AND 0xff = ?m mod 256" by (simp add: byte_and drop_bit_eq_div)
  have am: "?a = ?m div 256" by (simp add: div_mult2_eq [symmetric])
  note pair = two_bytes [of 254 ?m 169, folded am] two_bytes [of 168 ?m 192, folded am] block_172 [of ?m, folded am]
  have "ipv4IsPrivateOrLocal host \<longleftrightarrow> ?a = 0 \<or> ?a = 10 \<or> ?a = 127 \<or> ?m = 43518 \<or> ?m = 49320 \<or>
      0xac10 \<le> ?m \<and> ?m < 0xac20"
    using pair unfolding ipv4IsPrivateOrLocal_def by (simp add: assms(1) a b Let_def) linarith
  also have "\<dots> \<longleftrightarrow> private_v4 n"
    by (simp add: private_v4_def div_is less_eq_div_iff_mult_less_eq div_less_iff_less_mult) linarith
  finally show ?thesis .
qed

section \<open>Literals of an address\<close>

text \<open>
  A literal has one to four parts, each hexadecimal, octal or decimal, the first two with any number of
  zeros in front. Its value is read from the left: each part but the last is a byte, and the last
  fills the bytes that are left.
\<close>

datatype V4Part = Hex_part nat nat | Octal_part nat nat | Decimal_part nat

fun part_text :: "V4Part \<Rightarrow> string" where
  "part_text (Hex_part zeros v) = ''0x'' @ replicate zeros CHR ''0'' @ radix_str 16 v"
| "part_text (Octal_part zeros v) = ''0'' @ replicate zeros CHR ''0'' @ radix_str 8 v"
| "part_text (Decimal_part v) = nat_str v"

fun part_value :: "V4Part \<Rightarrow> nat" where
  "part_value (Hex_part zeros v) = v"
| "part_value (Octal_part zeros v) = v"
| "part_value (Decimal_part v) = v"

definition v4_literal :: "V4Part list \<Rightarrow> string" where
  "v4_literal ps = join ''.'' (map part_text ps)"

fun v4_address :: "nat \<Rightarrow> nat list \<Rightarrow> nat option" where
  "v4_address bytes [] = None"
| "v4_address bytes [v] = (if 0 < bytes \<and> v < 256 ^ bytes then Some v else None)"
| "v4_address bytes (v # w # vs) =
     (if v < 256 then map_option (\<lambda>rest. v * 256 ^ (bytes - 1) + rest) (v4_address (bytes - 1) (w # vs)) else None)"

lemma no_bytes_left: "v4_address 0 vs = None"
  by (induction "0 :: nat" vs rule: v4_address.induct) simp_all

lemma address_bound: "v4_address bytes vs = Some n \<Longrightarrow> n < 256 ^ bytes"
proof (induction bytes vs arbitrary: n rule: v4_address.induct)
  case (3 bytes v w vs)
  then obtain rest where rest: "v < 256" "v4_address (bytes - 1) (w # vs) = Some rest" "n = v * 256 ^ (bytes - 1) + rest"
    by (auto split: if_splits)
  have "bytes \<noteq> 0" using rest(2) no_bytes_left [of "w # vs"] by (cases "bytes = 0") simp_all
  then obtain m where m: "bytes = Suc m" by (cases bytes) auto
  have "n < Suc v * 256 ^ m" using "3.IH" [OF rest(1,2)] rest(3) m by simp
  also have "\<dots> \<le> 256 * 256 ^ m" using rest(1) by (intro mult_le_mono1) simp
  finally show ?case by (simp only: m power_Suc)
qed (auto split: if_splits)

text \<open>The digits of a pattern, and the numeral they are up to zeros in front.\<close>

lemma class_digit:
  "class_match [Between CHR ''0'' CHR ''9'', Between CHR ''a'' CHR ''f''] c \<Longrightarrow> \<exists>d<16. c = hex_digit d"
  "class_match [Between CHR ''0'' CHR ''7''] c \<Longrightarrow> \<exists>d<8. c = hex_digit d"
  "class_match digit_items c \<Longrightarrow> \<exists>d<10. c = hex_digit d"
  "class_match [Between CHR ''1'' CHR ''9''] c \<Longrightarrow> \<exists>d<10. 0 < d \<and> c = hex_digit d"
proof -
  have range: "\<exists>d. hex_value c = Some d \<and> c = hex_digit d" if "class_match [Between CHR ''0'' CHR ''9'', Between CHR ''a'' CHR ''f''] c"
  proof -
    have "hex_value c \<noteq> None" "lower_char c = c"
      using that by (auto simp: class_match_def hex_value_def lower_char_def Let_def)
    then show ?thesis using hex_digit_value [of c] by auto
  qed
  have val: "hex_value c = Some d \<Longrightarrow> d = (if of_char c \<le> (57 :: nat) then of_char c - 48 else of_char c - 87)"
    if "\<not> (65 \<le> (of_char c :: nat) \<and> (of_char c :: nat) \<le> 70)" for d
    using that by (auto simp: hex_value_def Let_def split: if_splits)
  show "class_match [Between CHR ''0'' CHR ''9'', Between CHR ''a'' CHR ''f''] c \<Longrightarrow> \<exists>d<16. c = hex_digit d"
    using range hex_digit_value by blast
  show "\<exists>d<8. c = hex_digit d" if m: "class_match [Between CHR ''0'' CHR ''7''] c"
  proof -
    have "class_match [Between CHR ''0'' CHR ''9'', Between CHR ''a'' CHR ''f''] c" using m by (auto simp: class_match_def)
    then obtain d where "hex_value c = Some d" "c = hex_digit d" using range by blast
    with m val [of d] show ?thesis by (intro exI [of _ d]) (auto simp: class_match_def)
  qed
  show "\<exists>d<10. c = hex_digit d" if m: "class_match digit_items c"
  proof -
    have "class_match [Between CHR ''0'' CHR ''9'', Between CHR ''a'' CHR ''f''] c" using m by (auto simp: class_match_def digit_items_def)
    then obtain d where "hex_value c = Some d" "c = hex_digit d" using range by blast
    with m val [of d] show ?thesis by (intro exI [of _ d]) (auto simp: class_match_def digit_items_def)
  qed
  show "\<exists>d<10. 0 < d \<and> c = hex_digit d" if m: "class_match [Between CHR ''1'' CHR ''9''] c"
  proof -
    have "class_match [Between CHR ''0'' CHR ''9'', Between CHR ''a'' CHR ''f''] c" using m by (auto simp: class_match_def)
    then obtain d where "hex_value c = Some d" "c = hex_digit d" using range by blast
    with m val [of d] show ?thesis by (intro exI [of _ d]) (auto simp: class_match_def)
  qed
qed

lemma radix_str_zero: "2 \<le> base \<Longrightarrow> radix_str base 0 = ''0''"
  by (simp add: radix_str.simps)

lemma radix_str_snoc:
  assumes "2 \<le> base" "d < base" "0 < n"
  shows "radix_str base (base * n + d) = radix_str base n @ [hex_digit d]"
proof -
  have "base \<le> base * n + d" using assms by (cases n) simp_all
  moreover have "(base * n + d) div base = n" "(base * n + d) mod base = d" using assms by simp_all
  ultimately show ?thesis using assms by (subst radix_str.simps) simp
qed

lemma zeros_in_front:
  assumes "2 \<le> base" "base \<le> 16"
  shows "t \<noteq> [] \<Longrightarrow> \<forall>c\<in>set t. \<exists>d<base. c = hex_digit d \<Longrightarrow> \<exists>k. t = replicate k CHR ''0'' @ radix_str base (radix_value base t)"
proof (induction t rule: rev_induct)
  case (snoc c t)
  obtain d where d: "d < base" "c = hex_digit d" using snoc.prems by auto
  have val: "radix_value base (t @ [c]) = base * radix_value base t + d"
    using d assms(2) by (simp add: radix_value_snoc)
  show ?case
  proof (cases "t = []")
    case True
    then have "radix_value base (t @ [c]) = d" using val by (simp add: radix_value_def)
    then show ?thesis using True d assms by (intro exI [of _ 0]) (simp add: radix_str.simps)
  next
    case False
    then obtain k where t: "t = replicate k CHR ''0'' @ radix_str base (radix_value base t)" using snoc by auto
    show ?thesis
    proof (cases "radix_value base t = 0")
      case True
      then have "t = replicate (Suc k) CHR ''0''" using t radix_str_zero [OF assms(1)] by (simp add: replicate_append_same)
      moreover have "radix_str base (radix_value base (t @ [c])) = [c]" using val True d by (simp add: radix_str.simps)
      ultimately show ?thesis by metis
    next
      case False
      then have "radix_str base (radix_value base (t @ [c])) = radix_str base (radix_value base t) @ [c]"
        using val radix_str_snoc [OF assms(1) d(1)] d(2) by simp
      then show ?thesis using t by (intro exI [of _ k]) (metis append.assoc)
    qed
  qed
qed simp

lemma radix_value_zeros: "radix_value base (replicate k CHR ''0'' @ s) = radix_value base s"
  by (induction k) (simp_all add: radix_value_zero)

text \<open>A part is read back, and whatever is read is the text of a part.\<close>

lemma zeros_class: "class_match [Between CHR ''0'' CHR ''9'', Between CHR ''a'' CHR ''f''] CHR ''0''"
  "class_match [Between CHR ''0'' CHR ''7''] CHR ''0''"
  by code_simp+

lemma part_parses: "parseIpv4Component (part_text p) = Some (part_value p)"
proof (cases p)
  case (Hex_part k v)
  let ?t = "replicate k CHR ''0'' @ radix_str 16 v"
  have "plain_char CHR ''0''" "plain_char CHR ''x''" by code_simp+
  then have "toLowerCase (''0x'' @ ?t) = ''0x'' @ ?t"
    using plain_radix [of 16 v] by (intro plain_lower) (auto simp: list_all_iff)
  moreover have "list_all (class_match [Between CHR ''0'' CHR ''9'', Between CHR ''a'' CHR ''f'']) ?t"
    using radix_str_digits [of 16 v] digit_classes(1) zeros_class by (auto simp: list_all_iff)
  ultimately show ?thesis
    by (simp add: Hex_part parseIpv4Component_def hex_component_iff radix_value_str radix_value_zeros)
next
  case (Octal_part k v)
  let ?t = "replicate k CHR ''0'' @ radix_str 8 v"
  have oct: "list_all (class_match [Between CHR ''0'' CHR ''7'']) ?t"
    using radix_str_digits [of 8 v] digit_classes(2) zeros_class by (auto simp: list_all_iff)
  have "\<not> rx_test_i HEX_COMPONENT (''0'' @ ?t)"
    using oct by (cases ?t) (auto simp: hex_component_iff toLowerCase_def lower_char_def class_match_def Let_def split: if_splits)
  then show ?thesis using oct
    by (simp add: Octal_part parseIpv4Component_def octal_component_iff radix_value_str radix_value_zero radix_value_zeros)
next
  case (Decimal_part v)
  then show ?thesis by (simp add: parse_decimal)
qed

lemma part_read:
  assumes "parseIpv4Component s = Some v" "toLowerCase s = s"
  shows "\<exists>p. s = part_text p \<and> part_value p = v"
proof -
  have "s = ''0'' \<and> v = 0 \<or> (\<exists>t. s = ''0x'' @ t \<and> t \<noteq> [] \<and> list_all (class_match [Between CHR ''0'' CHR ''9'', Between CHR ''a'' CHR ''f'']) t \<and> v = radix_value 16 t)
      \<or> (\<exists>t. s = ''0'' @ t \<and> t \<noteq> [] \<and> list_all (class_match [Between CHR ''0'' CHR ''7'']) t \<and> v = radix_value 8 t)
      \<or> (\<exists>c t. s = c # t \<and> class_match [Between CHR ''1'' CHR ''9''] c \<and> list_all (class_match digit_items) t \<and> v = radix_value 10 s)"
    using assms by (auto simp: parseIpv4Component_def hex_component_iff octal_component_iff decimal_component_iff radix_value_zero
        split: if_splits) (simp add: radix_value_def)+
  then show ?thesis
  proof (elim disjE exE conjE)
    assume "s = ''0''" "v = 0"
    moreover have "nat_str 0 = ''0''" by code_simp
    ultimately show ?thesis by (intro exI [of _ "Decimal_part 0"]) simp
  next
    fix t
    assume t: "s = ''0x'' @ t" "t \<noteq> []" "list_all (class_match [Between CHR ''0'' CHR ''9'', Between CHR ''a'' CHR ''f'']) t"
      and v: "v = radix_value 16 t"
    have "\<forall>c\<in>set t. \<exists>d<16. c = hex_digit d" using t(3) class_digit(1) by (simp add: list_all_iff)
    then obtain k where "t = replicate k CHR ''0'' @ radix_str 16 v" using zeros_in_front [of 16 t] t(2) v by auto
    then show ?thesis using t(1) by (intro exI [of _ "Hex_part k v"]) simp
  next
    fix t
    assume t: "s = ''0'' @ t" "t \<noteq> []" "list_all (class_match [Between CHR ''0'' CHR ''7'']) t" and v: "v = radix_value 8 t"
    have "\<forall>c\<in>set t. \<exists>d<8. c = hex_digit d" using t(3) class_digit(2) by (simp add: list_all_iff)
    then obtain k where "t = replicate k CHR ''0'' @ radix_str 8 v" using zeros_in_front [of 8 t] t(2) v by auto
    then show ?thesis using t(1) by (intro exI [of _ "Octal_part k v"]) simp
  next
    fix c t
    assume s: "s = c # t" "class_match [Between CHR ''1'' CHR ''9''] c" "list_all (class_match digit_items) t"
      and v: "v = radix_value 10 s"
    obtain d where d: "d < 10" "0 < d" "c = hex_digit d" using class_digit(4) [OF s(2)] by blast
    have "\<forall>c\<in>set s. \<exists>d<10. c = hex_digit d" using s d class_digit(3) by (auto simp: list_all_iff)
    then obtain k where k: "s = replicate k CHR ''0'' @ radix_str 10 v" using zeros_in_front [of 10 s] s(1) v by auto
    have "k = 0"
    proof (rule ccontr)
      assume "k \<noteq> 0"
      then have "c = CHR ''0''" using k s(1) by (cases k) auto
      then show False using d hex_digit_eq_zero [of d] by simp
    qed
    then show ?thesis using k by (intro exI [of _ "Decimal_part v"]) (simp add: nat_str_radix)
  qed
qed

lemma part_no_dot: "CHR ''.'' \<notin> set (part_text p)"
  using plain_radix [of 16] plain_radix [of 8] plain_nat by (cases p) (auto simp: in_set_replicate)

lemma split_literal: "ps \<noteq> [] \<Longrightarrow> split_on CHR ''.'' (v4_literal ps) = map part_text ps"
  unfolding v4_literal_def
  by (induction ps rule: induct_list012) (simp_all add: part_no_dot split_on_single split_on_first)

lemma components_of_parts: "parse_components (map part_text ps) = Some (map part_value ps)"
  by (induction ps) (simp_all add: part_parses)

lemma components_read:
  "parse_components ss = Some vs \<Longrightarrow> \<forall>s\<in>set ss. toLowerCase s = s \<Longrightarrow> \<exists>ps. ss = map part_text ps \<and> vs = map part_value ps"
proof (induction ss arbitrary: vs)
  case (Cons s ss)
  then obtain v vs' where "parseIpv4Component s = Some v" "parse_components ss = Some vs'" "vs = v # vs'"
    by (auto split: option.splits)
  moreover from this Cons obtain ps where "ss = map part_text ps" "vs' = map part_value ps" by auto
  ultimately show ?case using part_read [of s v] Cons.prems(2) by (metis list.set_intros(1) list.simps(9))
qed simp

text \<open>What the guards and the sum of the code compute of the parts is the address.\<close>

lemma parts_address:
  "ipv4ToInt host = (case parse_components (split_on CHR ''.'' host) of None \<Rightarrow> None | Some vs \<Rightarrow> v4_address 4 vs)"
proof (cases "parse_components (split_on CHR ''.'' host)")
  case (Some vs)
  have len: "length vs = length ss" if "parse_components ss = Some vs" for ss :: "string list" and vs
    using that by (induction ss arbitrary: vs) (auto split: option.splits)
  then have n: "length vs = length (split_on CHR ''.'' host)" using Some by blast
  then have "vs \<noteq> []" by auto
  then have parts: "(\<exists>a. vs = [a]) \<or> (\<exists>a b. vs = [a, b]) \<or> (\<exists>a b c. vs = [a, b, c]) \<or> (\<exists>a b c d. vs = [a, b, c, d]) \<or>
      (\<exists>a b c d e es. vs = a # b # c # d # e # es)"
    by (metis list.exhaust)
  define total where "total vs = (if 4 < length vs \<or> list_ex (\<lambda>v. v > 0xff) (butlast vs) then None
    else if last vs > [0xffffffff, 0xffffff, 0xffff, 0xff] ! (length vs - 1) then None
    else (let result = last vs + (\<Sum>i < length vs - 1. vs ! i * 256 ^ (3 - i)) in if result > 0xffffffff then None else Some result))"
    for vs :: "nat list"
  have "ipv4ToInt host = total vs"
    using Some n \<open>vs \<noteq> []\<close> unfolding ipv4ToInt_def total_def Let_def by (cases vs) auto
  also have "total vs = v4_address 4 vs"
    using parts by (elim disjE exE) (auto simp: total_def no_bytes_left lessThan_Suc numeral_3_eq_3)
  finally show ?thesis using Some by simp
qed (simp add: ipv4ToInt_def Let_def)

lemma lower_pieces:
  assumes "toLowerCase h = h" "s \<in> set (split_on sep h)"
  shows "toLowerCase s = s"
proof -
  have "set s \<subseteq> set h" using assms(2)
    by (induction h arbitrary: s) (fastforce split: if_splits list.splits)+
  moreover have "\<forall>c\<in>set h. lower_char c = c" using assms(1) by (simp add: toLowerCase_def map_idI list_eq_iff_nth_eq all_set_conv_all_nth)
  ultimately show ?thesis by (auto simp: toLowerCase_def intro!: map_idI)
qed

lemma address_iff:
  assumes "toLowerCase h = h"
  shows "ipv4ToInt h = Some n \<longleftrightarrow> (\<exists>ps. h = v4_literal ps \<and> v4_address 4 (map part_value ps) = Some n)"
proof
  assume "ipv4ToInt h = Some n"
  then obtain vs where vs: "parse_components (split_on CHR ''.'' h) = Some vs" "v4_address 4 vs = Some n"
    by (auto simp: parts_address split: option.splits)
  then obtain ps where ps: "split_on CHR ''.'' h = map part_text ps" "vs = map part_value ps"
    using components_read lower_pieces [OF assms] by blast
  have "h = v4_literal ps" using join_split_on [of "CHR ''.''" h] by (simp add: v4_literal_def ps(1))
  then show "\<exists>ps. h = v4_literal ps \<and> v4_address 4 (map part_value ps) = Some n" using vs(2) ps(2) by blast
next
  assume "\<exists>ps. h = v4_literal ps \<and> v4_address 4 (map part_value ps) = Some n"
  then obtain ps where ps: "h = v4_literal ps" "v4_address 4 (map part_value ps) = Some n" by blast
  then have "ps \<noteq> []" by auto
  with ps show "ipv4ToInt h = Some n" by (simp add: parts_address split_literal components_of_parts)
qed

lemma ipv4_private_iff:
  assumes "toLowerCase h = h"
  shows "ipv4IsPrivateOrLocal h \<longleftrightarrow> (\<exists>ps n. h = v4_literal ps \<and> v4_address 4 (map part_value ps) = Some n \<and> private_v4 n)"
proof (cases "ipv4ToInt h")
  case None
  then have "\<not> (\<exists>ps. h = v4_literal ps \<and> v4_address 4 (map part_value ps) = Some n)" for n
    using address_iff [OF assms, of n] by simp
  then show ?thesis using None by (auto simp: ipv4IsPrivateOrLocal_def)
next
  case (Some n)
  have bound: "m < 2 ^ 32" if "v4_address 4 vs = Some m" for m vs using address_bound [OF that] by simp
  have only: "m = n" if "h = v4_literal ps" "v4_address 4 (map part_value ps) = Some m" for ps m
    using address_iff [OF assms, of m] that Some by auto
  obtain ps where ps: "h = v4_literal ps" "v4_address 4 (map part_value ps) = Some n" using address_iff [OF assms] Some by blast
  have "ipv4IsPrivateOrLocal h \<longleftrightarrow> private_v4 n" by (rule private_value [OF Some bound [OF ps(2)]])
  then show ?thesis using only ps by blast
qed

lemma int_dotted:
  assumes "a < 256" "b < 256" "c < 256" "d < 256"
  shows "ipv4ToInt (dotted a b c d) = Some (((a * 256 + b) * 256 + c) * 256 + d)"
proof -
  have "split_on CHR ''.'' (dotted a b c d) = [nat_str a, nat_str b, nat_str c, nat_str d]"
    using plain_nat by (simp add: dotted_def split_on_first split_on_single)
  then show ?thesis using assms
    by (simp add: ipv4ToInt_def parse_decimal lessThan_Suc numeral_3_eq_3 Let_def)
qed

lemma zero_private: "ipv4IsPrivateOrLocal ''0.0.0.0''"
proof -
  have "nat_str 0 = ''0''" by code_simp
  then have "ipv4ToInt ''0.0.0.0'' = Some 0" using int_dotted [of 0 0 0 0] by (simp add: dotted_def)
  then show ?thesis by (simp add: ipv4IsPrivateOrLocal_def Let_def)
qed

lemma length_radix_str:
  assumes "2 \<le> base"
  shows "n < base ^ Suc k \<Longrightarrow> length (radix_str base n) \<le> Suc k"
proof (induction k arbitrary: n)
  case 0
  then show ?case by (simp add: radix_str.simps)
next
  case (Suc k)
  have "n div base < base ^ Suc k" using Suc.prems assms
    by (simp add: div_less_iff_less_mult mult.commute)
  from Suc.IH [OF this] show ?case by (subst radix_str.simps) simp
qed

definition mapped :: "nat \<Rightarrow> string" where
  "mapped n = ''[::ffff:'' @ radix_str 16 (n div 65536) @ '':'' @ radix_str 16 (n mod 65536) @ '']''"

lemma hex_group: "m < 65536 \<Longrightarrow> rx_test HEX_GROUP (radix_str 16 m)"
  unfolding HEX_GROUP_def Seq.simps rx_test_anchored rx_full_def rx_match_class_repeat
  using length_radix_str [of 16 m 3] radix_str_digits [of 16 m] digit_classes(1)
  by (auto simp: list_all_iff Suc_le_eq)

lemma quad_has_dot: "rx_test QUAD s \<Longrightarrow> CHR ''.'' \<in> set s"
proof -
  assume "rx_test QUAD s"
  then obtain m m' where m: "rx_match one_to_three_digits ([], s) m" "rx_match (Lit ''.'') m m'"
    by (auto simp: QUAD_def rx_test_anchored rx_full_def rx_match_Cat simp del: Lit.simps)
  from m(2) have "CHR ''.'' \<in> set (snd m)" by (cases m) (auto simp: rx_match_Lit simp del: Lit.simps)
  with rx_match_text [OF m(1)] show ?thesis
    by (metis UnCI append_Nil fst_conv rev.simps(1) set_append snd_conv)
qed

lemma mapped_private:
  assumes "n < 2 ^ 32"
  shows "hostIsPrivateOrLocal (mapped n) \<longleftrightarrow> private_v4 n"
proof -
  let ?hi = "n div 65536" and ?lo = "n mod 65536"
  let ?g = "radix_str 16 ?hi" and ?k = "radix_str 16 ?lo"
  have plain: "list_all plain_char ?g" "list_all plain_char ?k" "CHR ''.'' \<notin> set ?k"
    using plain_radix by simp_all
  have bad: "\<not> plain_char CHR ''l''" "\<not> plain_char CHR '':''" "\<not> plain_char CHR ''[''" "\<not> plain_char CHR '']''"
    by code_simp+
  have no: "CHR '':'' \<notin> set ?g" "CHR '':'' \<notin> set ?k" "CHR ''l'' \<notin> set (mapped n)"
    using plain bad(1,2) by (auto simp: list_all_iff mapped_def)
  have lower: "toLowerCase (mapped n) = mapped n"
    using plain_lower [OF plain(1)] plain_lower [OF plain(2)]
    by (simp add: mapped_def toLowerCase_def lower_char_def)
  let ?addr = "''::ffff:'' @ ?g @ '':'' @ ?k"
  have strip: "strip_brackets (mapped n) = ?addr"
    by (simp add: strip_brackets_def mapped_def endsWith_def butlast_append)
  have pieces: "split_on CHR '':'' ?addr = [[], [], ''ffff'', ?g, ?k]"
    using split_on_first [of "CHR '':''" "''ffff''" "?g @ '':'' @ ?k"] no by (simp add: split_on_first split_on_single)
  have quad: "mapped_quad ?addr = None"
    using quad_has_dot [of ?k] plain(3) unfolding mapped_quad_def pieces Let_def by auto
  have range: "?hi < 65536" "?lo < 65536" using assms by (simp_all add: div_less_iff_less_mult)
  have groups: "mapped_groups ?addr = Some (?g, ?k)"
    unfolding mapped_groups_def pieces using hex_group range by simp
  have "ipv4ToInt (dotted (drop_bit 8 ?hi AND 0xff) (?hi AND 0xff) (drop_bit 8 ?lo AND 0xff) (?lo AND 0xff)) = Some n"
  proof -
    have "?hi div 256 < 256" "?lo div 256 < 256" using range by (simp_all add: div_less_iff_less_mult)
    then show ?thesis by (simp add: byte_and drop_bit_eq_div int_dotted)
  qed
  note ip = private_value [OF this assms]
  have suffix: "\<not> endsWith (mapped n) t" if "CHR ''l'' \<in> set t" for t
    using no(3) that unfolding endsWith_iff by auto
  have names: "\<not> endsWith (mapped n) ''.local''" "\<not> endsWith (mapped n) ''.internal''" by (rule suffix; simp)+
  define addr where "addr = ?addr"
  note folded = strip [folded addr_def] quad [folded addr_def] groups [folded addr_def]
  have "mapped n \<noteq> ''localhost''" "mapped n \<noteq> ''0.0.0.0''" "mapped n \<noteq> ''::1''" "mapped n \<noteq> ''[::1]''"
    "addr \<noteq> ''::1''" "addr \<noteq> ''::''" "str_includes (mapped n) '':''" "str_includes addr '':''"
    by (simp_all add: mapped_def addr_def)
  then show ?thesis
    unfolding hostIsPrivateOrLocal_def lower Let_def ipv6IsPrivateOrLocal_def folded(1)
    using names ip by (simp add: folded radix_value_str)
qed

text \<open>The dotted form, which the parser rewrites to the groups and the guard reads as well.\<close>

definition mapped_dotted :: "nat \<Rightarrow> nat \<Rightarrow> nat \<Rightarrow> nat \<Rightarrow> string" where
  "mapped_dotted a b c d = ''[::ffff:'' @ dotted a b c d @ '']''"

lemma match_octet:
  assumes "n < 256"
  shows "rx_match one_to_three_digits (before, nat_str n @ rest) (rev (nat_str n) @ before, rest)"
  unfolding one_to_three_digits_def rx_match_class_repeat
  using length_radix_str [of 10 n 2] radix_str_digits [of 10 n] digit_classes(3) assms
  by (intro exI [of _ "nat_str n"]) (auto simp: nat_str_radix list_all_iff Suc_le_eq)

lemma match_dot: "rx_match (Lit ''.'') (before, CHR ''.'' # rest) (CHR ''.'' # before, rest)"
  by (simp add: rx_match_Lit del: Lit.simps)

lemma match_octet_dot:
  assumes "n < 256" "rx_match r (CHR ''.'' # rev (nat_str n) @ before, rest) q"
  shows "rx_match (Cat one_to_three_digits (Cat (Lit ''.'') r)) (before, nat_str n @ CHR ''.'' # rest) q"
  unfolding rx_match_Cat using match_octet [OF assms(1)] match_dot assms(2) by blast

lemma quad_dotted:
  assumes "a < 256" "b < 256" "c < 256" "d < 256"
  shows "rx_test QUAD (dotted a b c d)"
proof -
  have spelled: "dotted a b c d = nat_str a @ CHR ''.'' # nat_str b @ CHR ''.'' # nat_str c @ CHR ''.'' # nat_str d"
    by (simp add: dotted_def)
  have "rx_match one_to_three_digits (before, nat_str d) (rev (nat_str d) @ before, [])" for before
    using match_octet [OF assms(4), of before "[]"] by simp
  then have "rx_match (Cat one_to_three_digits (Cat (Lit ''.'') (Cat one_to_three_digits (Cat (Lit ''.'')
      (Cat one_to_three_digits (Cat (Lit ''.'') one_to_three_digits)))))) ([], dotted a b c d) (rev (dotted a b c d), [])"
    unfolding spelled by (intro match_octet_dot assms(1-3)) (simp del: Lit.simps)
  then show ?thesis unfolding QUAD_def Seq.simps rx_test_anchored rx_full_def .
qed

lemma dotted_plain: "list_all plain_char (dotted a b c d)" "CHR '':'' \<notin> set (dotted a b c d)"
proof -
  have "plain_char CHR ''.''" "\<not> plain_char CHR '':''" by code_simp+
  moreover from this(1) show "list_all plain_char (dotted a b c d)" using plain_nat by (simp add: dotted_def)
  ultimately show "CHR '':'' \<notin> set (dotted a b c d)" by (auto simp: list_all_iff)
qed

lemma mapped_dotted_private:
  assumes "a < 256" "b < 256" "c < 256" "d < 256"
  shows "hostIsPrivateOrLocal (mapped_dotted a b c d) \<longleftrightarrow> private_v4 (((a * 256 + b) * 256 + c) * 256 + d)"
proof -
  let ?h = "mapped_dotted a b c d" and ?quad = "dotted a b c d"
  let ?addr = "''::ffff:'' @ ?quad"
  have lower: "toLowerCase ?h = ?h"
    using plain_lower [OF dotted_plain(1)] by (simp add: mapped_dotted_def toLowerCase_def lower_char_def)
  have strip: "strip_brackets ?h = ?addr"
    by (simp add: strip_brackets_def mapped_dotted_def endsWith_def butlast_append)
  have pieces: "split_on CHR '':'' ?addr = [[], [], ''ffff'', ?quad]"
    using split_on_first [of "CHR '':''" "''ffff''" ?quad] dotted_plain(2) by (simp add: split_on_first split_on_single)
  have quad: "mapped_quad ?addr = Some ?quad"
    using quad_dotted [OF assms] unfolding mapped_quad_def pieces by (simp add: endsWith_iff)
  have "\<not> plain_char CHR ''l''" by code_simp
  then have no: "CHR ''l'' \<notin> set ?h" using dotted_plain(1) by (auto simp: list_all_iff mapped_dotted_def)
  have suffix: "\<not> endsWith ?h t" if "CHR ''l'' \<in> set t" for t
    using no that unfolding endsWith_iff by auto
  have names: "\<not> endsWith ?h ''.local''" "\<not> endsWith ?h ''.internal''" by (rule suffix; simp)+
  have "?h \<noteq> ''localhost''" "?h \<noteq> ''0.0.0.0''" "?h \<noteq> ''::1''" "?h \<noteq> ''[::1]''" "?addr \<noteq> ''::1''" "?addr \<noteq> ''::''"
    "str_includes ?h '':''" "str_includes ?addr '':''"
    by (simp_all add: mapped_dotted_def)
  then have "hostIsPrivateOrLocal ?h \<longleftrightarrow> ipv4IsPrivateOrLocal ?quad"
    unfolding hostIsPrivateOrLocal_def lower Let_def ipv6IsPrivateOrLocal_def strip quad using names by simp
  also have "\<dots> \<longleftrightarrow> private_v4 (((a * 256 + b) * 256 + c) * 256 + d)"
    by (rule private_value [OF int_dotted [OF assms]]) (use assms in simp)
  finally show ?thesis .
qed

section \<open>Host names\<close>

lemma lower_char_small: "(of_char c :: nat) < 65 \<Longrightarrow> lower_char d = c \<longleftrightarrow> d = c"
proof -
  assume c: "(of_char c :: nat) < 65"
  have "(of_char (lower_char d) :: nat) \<ge> 65" if "65 \<le> (of_char d :: nat)"
    using that by (simp add: lower_char_def Let_def)
  with c show ?thesis by (cases "65 \<le> (of_char d :: nat)") (auto simp: lower_char_def Let_def)
qed

lemma lower_colon: "CHR '':'' \<in> set (toLowerCase s) \<longleftrightarrow> CHR '':'' \<in> set s"
proof -
  have "(of_char CHR '':'' :: nat) < 65" by simp
  note eq = lower_char_small [OF this]
  show ?thesis unfolding toLowerCase_def set_map image_iff using eq by metis
qed

lemma parse_empty: "parseIpv4Component [] = None"
  by code_simp

lemma split_on_last: "split_on sep (s @ [sep]) = split_on sep s @ [[]]"
  by (induction s) (auto split: list.split)

lemma trailing_dot_no_literal: "ipv4ToInt (s @ ''.'') = None"
proof -
  have "parse_components (ps @ [[]]) = None" for ps
    by (induction ps) (auto simp: parse_empty split: option.split)
  then show ?thesis by (simp add: ipv4ToInt_def split_on_last Let_def)
qed

lemma endsWith_last: "endsWith (s @ [c]) (t @ [d]) \<longleftrightarrow> c = d \<and> endsWith s t"
  by (auto simp: endsWith_def)

lemma host_trailing_dot:
  assumes "CHR '':'' \<notin> set name"
  shows "\<not> hostIsPrivateOrLocal (toLowerCase (name @ ''.''))"
proof -
  let ?n = "toLowerCase name"
  have h: "toLowerCase (toLowerCase (name @ ''.'')) = ?n @ ''.''"
    unfolding toLowerCase_idem by (simp add: toLowerCase_def lower_char_def)
  have "CHR '':'' \<notin> set (?n @ ''.'')" using assms lower_colon [of name] by simp
  then have "\<not> str_includes (?n @ ''.'') '':''" by (metis includes_iff in_set_conv_decomp append_Cons append_Nil)
  moreover have "\<not> endsWith (?n @ ''.'') (''.loca'' @ ''l'')" "\<not> endsWith (?n @ ''.'') (''.interna'' @ ''l'')"
    unfolding endsWith_last by simp_all
  moreover have "\<not> ipv4IsPrivateOrLocal (?n @ ''.'')"
    by (simp add: ipv4IsPrivateOrLocal_def trailing_dot_no_literal)
  ultimately show ?thesis
    unfolding hostIsPrivateOrLocal_def h Let_def
    by (auto simp: append_eq_Cons_conv append_eq_append_conv2)
qed

section \<open>Properties\<close>

text \<open>
  C23: no notation hides an address. A host name without a colon is refused exactly when it is
  \<open>localhost\<close>, ends with \<open>.local\<close> or \<open>.internal\<close>, or is, in any letter case, a literal of an IPv4
  address in this network, the private networks, loopback or the link-local block. The literals are
  all those of one to four parts, each in any base and with any zeros in front; the last part fills
  the bytes that are left. The IPv4-mapped address of IPv6, as the URL parser writes it and in its
  dotted form, is refused for the same addresses; the parser brings its other spellings into the
  first form.
\<close>

theorem private_in_every_notation:
  assumes "CHR '':'' \<notin> set host" and "a < 256" "b < 256" "c < 256" "d < 256"
  shows "(hostIsPrivateOrLocal host \<longleftrightarrow>
      (let h = toLowerCase host
       in h = ''localhost'' \<or> endsWith h ''.local'' \<or> endsWith h ''.internal'' \<or>
          (\<exists>ps n. h = v4_literal ps \<and> v4_address 4 (map part_value ps) = Some n \<and> private_v4 n))) \<and>
    (let n = ((a * 256 + b) * 256 + c) * 256 + d
     in (hostIsPrivateOrLocal (mapped n) \<longleftrightarrow> private_v4 n) \<and> (hostIsPrivateOrLocal (mapped_dotted a b c d) \<longleftrightarrow> private_v4 n))"
proof -
  let ?h = "toLowerCase host"
  have "CHR '':'' \<notin> set ?h" using assms(1) by (simp add: lower_colon)
  then have colon: "\<not> str_includes ?h '':''" "?h \<noteq> ''::1''" "?h \<noteq> ''[::1]''"
    by (auto simp: includes_iff)
  have "hostIsPrivateOrLocal host \<longleftrightarrow> ?h = ''localhost'' \<or> endsWith ?h ''.local'' \<or> endsWith ?h ''.internal'' \<or> ipv4IsPrivateOrLocal ?h"
    using colon zero_private unfolding hostIsPrivateOrLocal_def Let_def by (cases "?h = ''0.0.0.0''") simp_all
  moreover have "((a * 256 + b) * 256 + c) * 256 + d < 2 ^ 32" using assms by simp
  ultimately show ?thesis
    using ipv4_private_iff [of ?h] mapped_private mapped_dotted_private [OF assms(2-5)] unfolding Let_def by simp
qed

theorem private_in_every_notation_witness:
  "hostIsPrivateOrLocal ''0177.0X0.1'' \<and> hostIsPrivateOrLocal (mapped 2130706433)"
proof -
  let ?ps = "[Octal_part 0 127, Hex_part 0 0, Decimal_part 1]"
  have literal: "toLowerCase ''0177.0X0.1'' = v4_literal ?ps" by code_simp
  have "v4_address 4 (map part_value ?ps) = Some 2130706433" "private_v4 2130706433"
    by (simp_all add: private_v4_def)
  with literal have "\<exists>ps n. toLowerCase ''0177.0X0.1'' = v4_literal ps \<and> v4_address 4 (map part_value ps) = Some n \<and> private_v4 n"
    by blast
  then show ?thesis
    using private_in_every_notation [of "''0177.0X0.1''" 127 0 0 1] by (simp add: Let_def private_v4_def)
qed

text \<open>
  A trailing dot switches the guard off. The parser keeps the dot at the end of a host name,
  which names the same host, but the guard compares the name as it is: \<open>localhost\<close> and every
  name under \<open>.local\<close> and \<open>.internal\<close> is refused, while with a dot at the end any of
  them, like every other name, is taken for public by both guards.
\<close>

theorem trailing_dot_passes:
  assumes "CHR '':'' \<notin> set name"
    and "new_url raw = Some (''https:'', name)" "new_url dotted_raw = Some (''https:'', name @ ''.'')"
  shows "isSafeHttpUrl new_url dotted_raw \<and> isSafeEndpointUrl new_url dotted_raw \<and>
    (name = ''localhost'' \<or> endsWith (toLowerCase name) ''.local'' \<or> endsWith (toLowerCase name) ''.internal'' \<longrightarrow>
      \<not> isSafeHttpUrl new_url raw \<and> \<not> isSafeEndpointUrl new_url raw)"
proof -
  have "\<not> hostIsPrivateOrLocal (toLowerCase (name @ ''.''))" by (rule host_trailing_dot [OF assms(1)])
  moreover have "toLowerCase ''localhost'' = ''localhost''" by code_simp
  then have "name = ''localhost'' \<or> endsWith (toLowerCase name) ''.local'' \<or> endsWith (toLowerCase name) ''.internal'' \<longrightarrow>
      hostIsPrivateOrLocal (toLowerCase name)"
    by (auto simp only: hostIsPrivateOrLocal_def Let_def toLowerCase_idem if_True simp_thms)
  ultimately show ?thesis by (simp add: isSafeHttpUrl_def isSafeEndpointUrl_def assms(2,3))
qed

theorem trailing_dot_passes_witness:
  "isSafeHttpUrl (\<lambda>raw. if raw = ''https://localhost./'' then Some (''https:'', ''localhost.'') else Some (''https:'', ''localhost'')) ''https://localhost./''"
  using trailing_dot_passes [of "''localhost''" "\<lambda>raw. if raw = ''https://localhost./'' then Some (''https:'', ''localhost.'')
      else Some (''https:'', ''localhost'')" "''https://localhost/''" "''https://localhost./''"]
  by simp

end
