(* ===== verification/Safety_Scan.thy ===== *)
theory Safety_Scan
  imports Gate
begin

text \<open>
  The safety scan of untrusted input: \<open>src/review/prompt-injection.ts\<close>, \<open>src/review/secrets-scan.ts\<close>,
  \<open>src/review/safety.ts\<close> and the repository allowlist of \<open>src/review/cutover-gate.ts\<close>. Patterns with
  the flag \<open>i\<close> are written in lower case and run on the lowered subject. Log lines are omitted.
\<close>

section \<open>Prompt injection\<close>

definition word_of :: "string list \<Rightarrow> rx" where
  "word_of ws = Seq [Wordb, Alt (map Lit ws), Wordb]"

definition gap :: "nat \<Rightarrow> rx" where
  "gap n = Repeat 0 n (Noneof [One CHR ''.'', One CHR 0x0A])"

definition rx_spaces1 :: rx where
  "rx_spaces1 = Plus (Oneof space_items)"

definition INJECTION_SOURCE :: "rx list" where
  "INJECTION_SOURCE =
     [Seq [word_of [''ignore'', ''disregard'', ''forget'', ''override'', ''bypass''], gap 40,
        word_of [''previous'', ''prior'', ''above'', ''earlier'', ''all'', ''the'', ''any''], gap 24,
        Seq [Wordb, Alt [Seq [Lit ''instruction'', Opt (Lit ''s'')], Seq [Lit ''prompt'', Opt (Lit ''s'')],
          Seq [Lit ''rule'', Opt (Lit ''s'')], Lit ''rubric'', Lit ''policy'', Seq [Lit ''guideline'', Opt (Lit ''s'')],
          Seq [Lit ''direction'', Opt (Lit ''s'')]], Wordb]],
      Seq [Wordb, Lit ''you are now'', Wordb],
      Seq [Wordb, Alt [Lit ''system'', Lit ''developer''], rx_spaces1, Lit ''prompt'', Wordb],
      Seq [Wordb, Alt [Lit ''approve'', Lit ''merge'', Lit ''accept'', Lit ''whitelist'', Lit ''allow'', Lit ''pass''],
        rx_spaces1, Alt [Lit ''this'', Lit ''the''], rx_spaces1,
        Alt [Lit ''submission'', Lit ''pr'', Seq [Lit ''pull'', Opt (Oneof [One CHR ''-'', One CHR '' '']), Lit ''request''],
          Lit ''entry'', Lit ''request'', Lit ''content'', Lit ''review''], Wordb],
      Seq [Wordb, Lit ''as a'', Opt (Lit ''n''), rx_spaces1,
        Alt [Lit ''ai'', Lit ''assistant'', Lit ''language model''], Wordb, gap 30,
        word_of [''you must'', ''ignore'', ''approve'']],
      Seq [word_of [''print'', ''reveal'', ''output'', ''repeat'', ''leak''], gap 30,
        Seq [Wordb, Alt [Lit ''system prompt'', Lit ''rubric'', Seq [Lit ''instruction'', Opt (Lit ''s'')]], Wordb]]]"

definition PROMPT_INJECTION_RE :: rx where
  "PROMPT_INJECTION_RE = Alt INJECTION_SOURCE"

definition hasPromptInjection :: "string option \<Rightarrow> bool" where
  "hasPromptInjection text \<longleftrightarrow> nullish text [] \<noteq> [] \<and> rx_test_i PROMPT_INJECTION_RE (nullish text [])"

definition REDACTED :: string where
  "REDACTED = ''[external-instruction-redacted]''"

definition neutralizePromptInjection :: "string \<Rightarrow> string \<times> bool" where
  "neutralizePromptInjection text =
     (if text = [] then (text, False)
      else (replace_all_i PROMPT_INJECTION_RE REDACTED text,
            rx_replacements lower_char PROMPT_INJECTION_RE [] text > 0))"

definition safeReviewTitle :: "string option \<Rightarrow> string" where
  "safeReviewTitle title = fst (neutralizePromptInjection (nullish title []))"

section \<open>Secrets\<close>

definition alnum_class :: rx where
  "alnum_class = Oneof [Between CHR ''A'' CHR ''Z'', Between CHR ''a'' CHR ''z'', Between CHR ''0'' CHR ''9'']"

text \<open>Name, flag \<open>i\<close>, pattern.\<close>

definition SECRET_PATTERNS :: "(string \<times> bool \<times> rx) list" where
  "SECRET_PATTERNS =
     [(''github_token'', False,
       Seq [Wordb, Lit ''gh'', Oneof (map One ''pousr''), Lit ''_'', AtLeast 20 alnum_class, Wordb]),
      (''github_pat'', False, Seq [Wordb, Lit ''github_pat_'', AtLeast 20 (Oneof word_items), Wordb]),
      (''private_key_block'', False,
       Seq [Lit ''-----BEGIN'', Opt (Alt (map Lit ['' RSA'', '' EC'', '' OPENSSH'', '' PGP'', '' DSA''])),
         Lit '' PRIVATE KEY-----'']),
      (''aws_access_key'', False,
       Seq [Wordb, Lit ''AKIA'', Repeat 16 0 (Oneof [Between CHR ''0'' CHR ''9'', Between CHR ''A'' CHR ''Z'']), Wordb]),
      (''slack_token'', False,
       Seq [Wordb, Lit ''xox'', Oneof (map One ''baprs''), Lit ''-'',
         AtLeast 10 (Oneof [Between CHR ''A'' CHR ''Z'', Between CHR ''a'' CHR ''z'', Between CHR ''0'' CHR ''9'', One CHR ''-'']),
         Wordb]),
      (''seed_or_mnemonic'', True, Seq [Wordb, Alt [Lit ''seed phrase'', Lit ''mnemonic''], Wordb]),
      (''bittensor_key'', True,
       Seq [Wordb, Alt [Lit ''hot'', Lit ''cold''], Lit ''key'', Wordb, Many (Oneof space_items), Oneof [One CHR '':'', One CHR ''='']])]"

definition pattern_test :: "bool \<times> rx \<Rightarrow> string \<Rightarrow> bool" where
  "pattern_test re text = (if fst re then rx_test_i (snd re) text else rx_test (snd re) text)"

text \<open>The kinds found; \<open>found\<close> says whether there are any.\<close>

definition scanForSecrets :: "string \<Rightarrow> bool \<times> string list" where
  "scanForSecrets text =
     (if text = [] then (False, [])
      else (let kinds = map fst (filter (\<lambda>(_, re). pattern_test re text) SECRET_PATTERNS)
            in (kinds \<noteq> [], kinds)))"

section \<open>The wiring\<close>

definition HARD_SECRET_KINDS :: "string list" where
  "HARD_SECRET_KINDS = [''github_token'', ''github_pat'', ''private_key_block'', ''aws_access_key'', ''slack_token'']"

definition truthy_env :: "string option \<Rightarrow> bool" where
  "truthy_env value \<longleftrightarrow>
     rx_test_i (Seq [Bol, Alt [Lit ''1'', Lit ''true'', Lit ''yes'', Lit ''on''], Eol]) (nullish value [])"

definition isSafetyEnabled :: "string option \<Rightarrow> bool" where
  "isSafetyEnabled GITTENSORY_REVIEW_SAFETY = truthy_env GITTENSORY_REVIEW_SAFETY"

record SafetyReviewInput =
  sr_title :: string
  sr_body :: "string option"
  sr_diff :: string

definition defangReviewInput :: "SafetyReviewInput \<Rightarrow> string \<times> string option \<times> string" where
  "defangReviewInput input =
     (safeReviewTitle (Some (sr_title input)),
      map_option (\<lambda>b. fst (neutralizePromptInjection b)) (sr_body input),
      fst (neutralizePromptInjection (sr_diff input)))"

definition secretLeakFinding :: "string \<Rightarrow> AdvisoryFinding option" where
  "secretLeakFinding diff =
     (let kinds = filter (\<lambda>kind. kind \<in> set HARD_SECRET_KINDS) (snd (scanForSecrets diff))
      in if kinds = [] then None
         else Some (finding ''secret_leak'' critical
           (''Possible leaked secret in the diff ('' @ join '', '' kinds @ '')'')
           (''The PR diff matches secret pattern(s): '' @ join '', '' kinds
             @ ''. A committed credential must be rotated and removed from the change before merge.'')
           (Some ''Remove the secret from the diff, rotate the exposed credential, then re-run the gate.'') None))"

definition isConvergenceRepoAllowed :: "string option \<Rightarrow> string \<Rightarrow> bool" where
  "isConvergenceRepoAllowed GITTENSORY_REVIEW_REPOS repoFullName =
     (let target = toLowerCase (trim repoFullName)
      in if target = [] then False
         else list_ex (\<lambda>entry. let candidate = toLowerCase (trim entry) in candidate \<noteq> [] \<and> candidate = target)
           (split_on CHR '','' (nullish GITTENSORY_REVIEW_REPOS [])))"

section \<open>Neutralizing\<close>

lemma neutralize_flag: "snd (neutralizePromptInjection text) \<longleftrightarrow> hasPromptInjection (Some text)"
  using rx_replacements_none [of lower_char PROMPT_INJECTION_RE "[]" "text"]
  by (auto simp: neutralizePromptInjection_def hasPromptInjection_def rx_test_i_def rx_test_def toLowerCase_def)

lemma neutralize_clean: "\<not> hasPromptInjection (Some text) \<Longrightarrow> fst (neutralizePromptInjection text) = text"
  by (auto simp: neutralizePromptInjection_def hasPromptInjection_def rx_test_i_def rx_test_def toLowerCase_def
      replace_all_i_def intro: rx_replace_none)

text \<open>Redaction can make a new match: the marker has the word \<open>instruction\<close> in it.\<close>

lemma redacted_again:
  "neutralizePromptInjection ''ignore all you are now'' = (''ignore all [external-instruction-redacted]'', True)"
  "hasPromptInjection (Some ''ignore all [external-instruction-redacted]'')"
  by code_simp+

section \<open>Tokens are found\<close>

lemma repeat_exact:
  "rx_match (AtLeast lo (Oneof cs)) (d, s) q \<longleftrightarrow>
     (\<exists>u. lo \<le> length u \<and> s = u @ snd q \<and> fst q = rev u @ d \<and> list_all (class_match cs) u)" (is "?L \<longleftrightarrow> ?R")
proof
  assume ?L
  then obtain u v where "length u = lo" "s = u @ v @ snd q" "fst q = rev v @ rev u @ d"
    "list_all (class_match cs) u" "list_all (class_match cs) v"
    by (auto simp: AtLeast_def rx_match_Cat rx_match_class_repeat rx_match_class_many)
  then show ?R by (intro exI [of _ "u @ v"]) simp
next
  assume ?R
  then obtain u where u: "lo \<le> length u" "s = u @ snd q" "fst q = rev u @ d" "list_all (class_match cs) u" by blast
  let ?a = "take lo u" and ?b = "drop lo u"
  have "list_all (class_match cs) ?a" "list_all (class_match cs) ?b"
    using u(4) by (auto simp: list_all_iff dest: in_set_takeD in_set_dropD)
  moreover have "length ?a = lo" using u(1) by simp
  moreover have "s = ?a @ ?b @ snd q" using u(2) by simp
  moreover have "fst q = rev ?b @ rev ?a @ d" unfolding u(3) append_assoc [symmetric] rev_append [symmetric] by simp
  ultimately have "rx_match (Repeat lo 0 (Oneof cs)) (d, s) (rev ?a @ d, ?b @ snd q)"
    "rx_match (Many (Oneof cs)) (rev ?a @ d, ?b @ snd q) q"
    unfolding rx_match_class_repeat rx_match_class_many fst_conv snd_conv
    by (intro exI [of _ ?a] exI [of _ ?b]; simp)+
  then show ?L unfolding AtLeast_def rx_match_Cat by blast
qed

lemma github_token_found:
  assumes "\<not> is_word (rev before)" "\<not> is_word after"
    and "kind \<in> set ''pousr''" "20 \<le> length body"
    and "list_all (class_match [Between CHR ''A'' CHR ''Z'', Between CHR ''a'' CHR ''z'', Between CHR ''0'' CHR ''9'']) body"
  shows "''github_token'' \<in> set (snd (scanForSecrets (before @ ''gh'' @ [kind] @ ''_'' @ body @ after)))"
proof -
  let ?cs = "[Between CHR ''A'' CHR ''Z'', Between CHR ''a'' CHR ''z'', Between CHR ''0'' CHR ''9'']"
  let ?t = "''gh'' @ [kind] @ ''_'' @ body"
  let ?r = "Seq [Wordb, Lit ''gh'', Oneof (map One ''pousr''), Lit ''_'', AtLeast 20 alnum_class, Wordb]"
  have "is_word (rev body @ d)" for d
  proof -
    obtain c b where "rev body = c # b" using assms(4) by (cases "rev body") auto
    moreover from this have "c \<in> set body" by (metis list.set_intros(1) set_rev)
    ultimately show ?thesis using assms(5)
      by (auto simp: is_word_def list_all_iff class_match_def word_items_def)
  qed
  then have ends: "rx_match Wordb (rev body @ d, after) (rev body @ d, after)" for d
    using assms(2) by (simp add: rx_match.wordb)
  have "is_word (''gh'' @ s)" for s by (simp add: is_word_def class_match_def word_items_def)
  then have starts: "rx_match Wordb (rev before, ?t @ after) (rev before, ?t @ after)"
    using assms(1) by (simp add: rx_match.wordb)
  have "rx_match (Lit ''gh'') (rev before, ?t @ after) (''hg'' @ rev before, [kind] @ ''_'' @ body @ after)"
    "rx_match (Lit ''_'') ([kind] @ ''hg'' @ rev before, ''_'' @ body @ after) (''_'' @ [kind] @ ''hg'' @ rev before, body @ after)"
    by (simp_all add: rx_match_Lit del: Lit.simps)
  moreover have "rx_match (Oneof (map One ''pousr'')) (''hg'' @ rev before, [kind] @ ''_'' @ body @ after)
      ([kind] @ ''hg'' @ rev before, ''_'' @ body @ after)"
    using assms(3) by (auto simp: rx_match_Oneof class_match_def)
  moreover have "rx_match (AtLeast 20 alnum_class) (''_'' @ [kind] @ ''hg'' @ rev before, body @ after)
      (rev body @ ''_'' @ [kind] @ ''hg'' @ rev before, after)"
    unfolding alnum_class_def repeat_exact using assms(4,5) by (intro exI [of _ body]) simp
  ultimately have "rx_match ?r (rev before, ?t @ after) (rev body @ ''_'' @ [kind] @ ''hg'' @ rev before, after)"
    unfolding Seq.simps using starts ends by (blast intro: rx_match.cat)
  then have "rx_test ?r (before @ ?t @ after)" unfolding rx_test_iff by blast
  then show ?thesis by (simp add: scanForSecrets_def SECRET_PATTERNS_def pattern_test_def Let_def)
qed

section \<open>Properties\<close>

lemma secret_finding_iff: "secretLeakFinding diff = None \<longleftrightarrow>
    list_all (\<lambda>(kind, re). kind \<in> set HARD_SECRET_KINDS \<longrightarrow> diff = [] \<or> \<not> pattern_test re diff) SECRET_PATTERNS"
  by (auto simp: secretLeakFinding_def scanForSecrets_def Let_def list_all_iff filter_empty_conv)

lemma secret_finding_code: "secretLeakFinding diff = Some f \<Longrightarrow> f_code f = ''secret_leak''"
  by (auto simp: secretLeakFinding_def Let_def finding_def split: if_splits)

text \<open>
  A committed token fails the gate. A diff with a GitHub token in it, which is one of the five
  prefixes and at least twenty letters or digits between characters that are no word characters,
  yields the secret finding, and with that finding in the advisory and none that stops the
  evaluation the gate fails every author who is neither unconfirmed nor granted grace, whatever
  else the policy says.
\<close>

theorem committed_token_fails_gate:
  assumes "\<not> is_word (rev before)" "\<not> is_word after"
    and "kind \<in> set ''pousr''" "20 \<le> length body"
    and "list_all (class_match [Between CHR ''A'' CHR ''Z'', Between CHR ''a'' CHR ''z'', Between CHR ''0'' CHR ''9'']) body"
  shows "\<exists>f. secretLeakFinding (before @ ''gh'' @ [kind] @ ''_'' @ body @ after) = Some f \<and>
    (\<forall>a p. f \<in> set (adv_findings a) \<and> (\<nexists>g. g \<in> set (adv_findings a) \<and> isEvaluationBlocker (f_code g)) \<and>
      confirmedContributor p \<noteq> Some False \<and> \<not> graceApplies p \<longrightarrow>
      ge_conclusion (evaluateGateCheck a p) = gc_failure)"
proof -
  let ?d = "before @ ''gh'' @ [kind] @ ''_'' @ body @ after"
  have "secretLeakFinding ?d \<noteq> None"
    using github_token_found [OF assms] by (auto simp: secretLeakFinding_def HARD_SECRET_KINDS_def Let_def filter_empty_conv)
  then obtain f where f: "secretLeakFinding ?d = Some f" by blast
  with secret_leak_conclusion secret_finding_code [OF f] show ?thesis by (intro exI [of _ f]) auto
qed

theorem committed_token_fails_gate_witness:
  "secretLeakFinding (''+token='' @ ''gh'' @ ''p'' @ ''_'' @ replicate 36 CHR ''a'' @ []) \<noteq> None"
  using committed_token_fails_gate [of "''+token=''" "[]" "CHR ''p''" "replicate 36 CHR ''a''"]
  by (auto simp: is_word_def class_match_def word_items_def list_all_iff)

text \<open>
  What neutralizing does to the input of the reviewer. It reports an injection exactly when the
  detector sees one and returns every other text unchanged; a redacted text need not be clean,
  since the marker put in can complete another pattern.
\<close>

theorem neutralize_exact:
  "(snd (neutralizePromptInjection input) \<longleftrightarrow> hasPromptInjection (Some input)) \<and>
   (hasPromptInjection (Some input) \<or> fst (neutralizePromptInjection input) = input) \<and>
   (\<exists>t. hasPromptInjection (Some (fst (neutralizePromptInjection t))))"
  using neutralize_flag [of input] neutralize_clean [of input] redacted_again by (metis fst_conv)

end
