(* ===== verification/Content_Scan.thy ===== *)
theory Content_Scan
  imports Js_Regex
begin

text \<open>
  The content lane on submitted entries: \<open>src/review/content-lane/scope.ts\<close> (what a pull request may
  change), \<open>src/review/content-lane/security-scan.ts\<close> (what an entry may contain) and
  \<open>src/review/content-lane/flag.ts\<close>. The scanner repeats the patterns of the safety scan in a
  file of its own, so they are defined here as that file has them.
\<close>

section \<open>The flag\<close>

definition isContentLaneEnabled :: "string option \<Rightarrow> bool" where
  "isContentLaneEnabled raw =
     (case raw of None \<Rightarrow> False | Some r \<Rightarrow> toLowerCase (trim r) \<in> set [''1'', ''true'', ''on'', ''yes''])"

section \<open>Slugs and paths\<close>

definition MAX_SLUG_INPUT_CHARS :: nat where "MAX_SLUG_INPUT_CHARS = 4096"

definition slug_items :: "rx_item list" where
  "slug_items = [Between CHR ''a'' CHR ''z'', Between CHR ''0'' CHR ''9'']"

text \<open>\<open>replace(/^-+|-+$/g, "")\<close> takes the dashes off both ends.\<close>

definition strip_dashes :: "string \<Rightarrow> string" where
  "strip_dashes s = rev (dropWhile (\<lambda>c. c = CHR ''-'') (rev (dropWhile (\<lambda>c. c = CHR ''-'') s)))"

definition slugify :: "string option \<Rightarrow> string" where
  "slugify value =
     take 120 (strip_dashes
       (replace_all (Plus (Noneof slug_items)) ''-''
         (filter (\<lambda>c. c \<noteq> CHR 0x27 \<and> c \<noteq> CHR 0x22)
           (toLowerCase (take MAX_SLUG_INPUT_CHARS (nullish value []))))))"

definition SUPPORTED_CONTENT_CATEGORIES :: "string list" where
  "SUPPORTED_CONTENT_CATEGORIES =
     [''agents'', ''collections'', ''commands'', ''guides'', ''hooks'', ''mcp'', ''rules'', ''skills'', ''statuslines'', ''tools'']"

definition path_part :: rx where
  "path_part = Plus (Noneof [One CHR ''/''])"

definition CONTENT_ENTRY :: rx where
  "CONTENT_ENTRY = Seq [Bol, Seq [Lit ''content/'', path_part, Lit ''/'', path_part, Lit ''.mdx''], Eol]"

text \<open>The groups of a match: the second path segment, and the third without its extension.\<close>

definition importContentPathParts :: "string \<Rightarrow> (string \<times> string) option" where
  "importContentPathParts filePath =
     (if \<not> rx_test_i CONTENT_ENTRY filePath then None
      else (case split_on CHR ''/'' filePath of
              [_, category, name] \<Rightarrow> Some (toLowerCase category, slugify (Some (take (length name - 4) name)))
            | _ \<Rightarrow> None))"

section \<open>The scope of a submission\<close>

record ContentFile =
  cf_filename :: string
  cf_status :: "string option"

datatype ContentClassification =
    Ignore_pr string
  | Close_pr "string option" string
  | Deletion_pr string string string
  | Review_pr string string string string

definition SCOPE_MULTI :: string where
  "SCOPE_MULTI = ''Direct content submissions must change exactly one source content file and no generated artifacts, README, workflows, scripts, packages, or additional entries.''"

definition SCOPE_STATUS :: string where
  "SCOPE_STATUS = ''Direct content submissions can only add a new content file or edit one existing content file. Deletes, renames, and generated-artifact updates are not accepted in this path.''"

definition MAINTENANCE_BRANCH_PREFIXES :: "string list" where
  "MAINTENANCE_BRANCH_PREFIXES = [''links/'']"

definition isMaintenanceBranch :: "string option \<Rightarrow> bool" where
  "isMaintenanceBranch headRef =
     (if nullish headRef [] = [] then False
      else list_ex (startsWith (toLowerCase (nullish headRef []))) MAINTENANCE_BRANCH_PREFIXES)"

record ContentContext =
  cx_headRepo :: "string option"
  cx_baseRepo :: "string option"
  cx_headRef :: "string option"

definition same_repo :: "ContentContext \<Rightarrow> bool" where
  "same_repo context \<longleftrightarrow> nullish (cx_headRepo context) [] \<noteq> [] \<and> nullish (cx_baseRepo context) [] \<noteq> [] \<and>
     toLowerCase (nullish (cx_headRepo context) []) = toLowerCase (nullish (cx_baseRepo context) [])"

definition entry_files :: "ContentFile list \<Rightarrow> (ContentFile \<times> string \<times> string) list" where
  "entry_files files =
     concat (map (\<lambda>f. case importContentPathParts (cf_filename f) of None \<Rightarrow> [] | Some parts \<Rightarrow> [(f, parts)]) files)"

definition classifyContentFiles :: "ContentFile list \<Rightarrow> ContentContext \<Rightarrow> ContentClassification" where
  "classifyContentFiles files context =
     (case entry_files files of
        [] \<Rightarrow> Ignore_pr ''No source content entry file changed.''
      | (file, category, slug) # others \<Rightarrow>
          if length files \<noteq> 1 \<or> others \<noteq> [] then
            (if same_repo context \<and> isMaintenanceBranch (cx_headRef context)
             then Ignore_pr ''Same-repository maintenance branch; the gate reviews only exact one-file content submissions.''
             else if same_repo context \<and> others \<noteq> [] \<and>
                 list_all (\<lambda>(f, _). cf_status f = Some ''removed'') (entry_files files)
             then Ignore_pr ''Same-repository multi-file deletion; treated as maintainer cleanup.''
             else if others \<noteq> [] then Close_pr (Some category) SCOPE_MULTI
             else if same_repo context
             then Ignore_pr ''Mixed same-repository maintenance PR; the gate reviews only exact one-file content submissions.''
             else Close_pr (Some category) SCOPE_MULTI)
          else if category \<notin> set SUPPORTED_CONTENT_CATEGORIES then
            Close_pr (Some category) (''Unsupported content category `'' @ category @ ''`. Supported categories are ''
              @ join '', '' SUPPORTED_CONTENT_CATEGORIES @ ''.'')
          else if nullish (cf_status file) [] = ''removed'' then Deletion_pr category slug (cf_filename file)
          else if nullish (cf_status file) [] \<notin> set [''added'', ''modified'']
          then Close_pr (Some category) SCOPE_STATUS
          else Review_pr category slug (cf_filename file) (nullish (cf_status file) []))"

definition touchesContentEntry :: "string list \<Rightarrow> bool" where
  "touchesContentEntry filenames = list_ex (rx_test_i CONTENT_ENTRY) filenames"

section \<open>Secrets and installers in an entry\<close>

definition alnum_class :: rx where
  "alnum_class = Oneof [Between CHR ''A'' CHR ''Z'', Between CHR ''a'' CHR ''z'', Between CHR ''0'' CHR ''9'']"

definition SECRET_PATTERNS :: "(string \<times> bool \<times> rx) list" where
  "SECRET_PATTERNS =
     [(''github_token'', False,
       Seq [Wordb, Lit ''gh'', Oneof (map One ''pousr''), Lit ''_'', AtLeast 20 alnum_class, Wordb]),
      (''github_pat'', False, Seq [Wordb, Lit ''github_pat_'', AtLeast 20 (Oneof word_items), Wordb]),
      (''private_key_block'', False,
       Seq [Lit ''-----BEGIN'', Opt (Alt (map Lit ['' RSA'', '' EC'', '' OPENSSH'', '' PGP'', '' DSA''])),
         Lit '' PRIVATE KEY-----'']),
      (''aws_access_key'', False,
       Seq [Wordb, Lit ''AKIA'', Repeat 16 0 (Oneof [Between CHR ''0'' CHR ''9'', Between CHR ''A'' CHR ''Z'']), Wordb]),
      (''slack_token'', False,
       Seq [Wordb, Lit ''xox'', Oneof (map One ''baprs''), Lit ''-'',
         AtLeast 10 (Oneof [Between CHR ''A'' CHR ''Z'', Between CHR ''a'' CHR ''z'', Between CHR ''0'' CHR ''9'', One CHR ''-'']),
         Wordb]),
      (''seed_or_mnemonic'', True, Seq [Wordb, Alt [Lit ''seed phrase'', Lit ''mnemonic''], Wordb]),
      (''bittensor_key'', True,
       Seq [Wordb, Alt [Lit ''hot'', Lit ''cold''], Lit ''key'', Wordb, Many (Oneof space_items), Oneof [One CHR '':'', One CHR ''='']])]"

definition scanForSecrets :: "string \<Rightarrow> bool \<times> string list" where
  "scanForSecrets text =
     (if text = [] then (False, [])
      else (let kinds = map fst (filter (\<lambda>(_, i, re). if i then rx_test_i re text else rx_test re text) SECRET_PATTERNS)
            in (kinds \<noteq> [], kinds)))"

datatype SecurityVerdict = verdict_close | verdict_manual

record SecurityFinding =
  sec_verdict :: SecurityVerdict
  sec_reasonCode :: string
  sec_summary :: string

definition EXECUTABLE_CATEGORIES :: "string list" where
  "EXECUTABLE_CATEGORIES = [''skills'', ''agents'', ''commands'', ''hooks'', ''mcp'', ''statuslines'']"

definition HARD_SECRET_KINDS :: "string list" where
  "HARD_SECRET_KINDS = [''github_token'', ''github_pat'', ''private_key_block'', ''aws_access_key'', ''slack_token'']"

definition PIPED_INSTALL_RE :: rx where
  "PIPED_INSTALL_RE = Seq [Wordb, Alt [Lit ''curl'', Lit ''wget''], Wordb, Many (Noneof [One CHR 0x0A, One CHR ''|'']), Lit ''|'',
     Many (Oneof space_items), Opt (Cat (Lit ''sudo'') (Plus (Oneof space_items))),
     Alt [Lit ''sh'', Lit ''bash'', Lit ''zsh'', Lit ''fish'', Seq [Lit ''python'', Opt (Lit ''3'')], Lit ''node''], Wordb]"

text \<open>\<open>split(/\r?\n/)\<close>\<close>

fun split_lines :: "string \<Rightarrow> string list" where
  "split_lines [] = [[]]"
| "split_lines [c] = (if c = CHR 0x0A then [[], []] else [[c]])"
| "split_lines (c # d # s) =
     (if c = CHR 0x0A then [] # split_lines (d # s)
      else if c = CHR 0x0D \<and> d = CHR 0x0A then [] # split_lines s
      else (case split_lines (d # s) of [] \<Rightarrow> [[c]] | w # ws \<Rightarrow> (c # w) # ws))"

text \<open>The first line, counted from 1, that a test accepts.\<close>

fun first_line :: "(string \<Rightarrow> 'a option) \<Rightarrow> nat \<Rightarrow> string list \<Rightarrow> (nat \<times> 'a) option" where
  "first_line f n [] = None"
| "first_line f n (l # ls) = (case f l of None \<Rightarrow> first_line f (Suc n) ls | Some x \<Rightarrow> Some (n, x))"

definition firstLineMatching :: "string \<Rightarrow> rx \<Rightarrow> (nat \<times> string) option" where
  "firstLineMatching text re =
     first_line (\<lambda>l. if rx_test_i re l then Some (take 160 (trim l)) else None) 1 (split_lines text)"

definition hard_kinds :: "string \<Rightarrow> string list" where
  "hard_kinds text = filter (\<lambda>k. k \<in> set HARD_SECRET_KINDS) (snd (scanForSecrets text))"

definition firstSecretLine :: "string \<Rightarrow> (nat \<times> string list) option" where
  "firstSecretLine text =
     first_line (\<lambda>l. if hard_kinds l \<noteq> [] then Some (hard_kinds l) else None) 1 (split_lines text)"

definition scanSubmissionContent :: "string \<Rightarrow> string \<Rightarrow> SecurityFinding option" where
  "scanSubmissionContent content category =
     (if content = [] then None
      else (case firstSecretLine content of
        Some (n, kinds) \<Rightarrow>
          Some \<lparr>sec_verdict = verdict_close, sec_reasonCode = ''embedded_secret'',
            sec_summary = ''Submission embeds a credential ('' @ join '', '' kinds @ '') at line '' @ nat_str n
              @ ''. Remove the secret and resubmit.''\<rparr>
      | None \<Rightarrow>
          if category \<in> set EXECUTABLE_CATEGORIES then
            (case firstLineMatching content PIPED_INSTALL_RE of
               Some (n, line) \<Rightarrow>
                 Some \<lparr>sec_verdict = verdict_manual, sec_reasonCode = ''unsafe_install_pipeline'',
                   sec_summary = ''Pipe-to-shell install detected (line '' @ nat_str n @ ''): `'' @ line @ ''` '' @ em_dash
                     @ '' routing to maintainer review for a '' @ category @ '' entry.''\<rparr>
             | None \<Rightarrow> None)
          else None))"

fun scanLinkedBodiesForSecrets :: "string list \<Rightarrow> SecurityFinding option" where
  "scanLinkedBodiesForSecrets [] = None"
| "scanLinkedBodiesForSecrets (body # bodies) =
     (if hard_kinds body \<noteq> [] then
        Some \<lparr>sec_verdict = verdict_manual, sec_reasonCode = ''embedded_secret'',
          sec_summary = ''The linked source appears to expose a credential ('' @ join '', '' (hard_kinds body) @ '') '' @ em_dash
            @ '' routing to maintainer review.''\<rparr>
      else scanLinkedBodiesForSecrets bodies)"

section \<open>Matches within a line\<close>

text \<open>A pattern that matches no line break and looks at its context through word boundaries only.\<close>

fun inline :: "rx \<Rightarrow> bool" where
  "inline Empty = True"
| "inline (Oneof cs) = (\<not> class_match cs CHR 0x0A \<and> \<not> class_match cs CHR 0x0D)"
| "inline (Cat a b) = (inline a \<and> inline b)"
| "inline (Or a b) = (inline a \<and> inline b)"
| "inline (Many a) = inline a"
| "inline Wordb = True"
| "inline _ = False"

abbreviation no_break :: "string \<Rightarrow> bool" where
  "no_break s \<equiv> CHR 0x0A \<notin> set s \<and> CHR 0x0D \<notin> set s"

lemma is_word_append: "is_word a = is_word b \<Longrightarrow> is_word (m @ a) = is_word (m @ b)"
  by (cases m) (auto simp: is_word_def)

definition spans :: "rx \<Rightarrow> pos \<Rightarrow> pos \<Rightarrow> string \<Rightarrow> bool" where
  "spans r p q m \<longleftrightarrow> snd p = m @ snd q \<and> fst q = rev m @ fst p \<and> no_break m \<and>
     (\<forall>d s. is_word d = is_word (fst p) \<longrightarrow> is_word s = is_word (snd q) \<longrightarrow> rx_match r (d, m @ s) (rev m @ d, s))"

lemma spans_seq:
  assumes "spans a p q m" "spans b q r n"
    and "\<And>p q r. rx_match a p q \<Longrightarrow> rx_match b q r \<Longrightarrow> rx_match c p r"
  shows "spans c p r (m @ n)"
proof -
  have "rx_match c (d, (m @ n) @ s) (rev (m @ n) @ d, s)"
    if "is_word d = is_word (fst p)" "is_word s = is_word (snd r)" for d s
  proof -
    have "is_word (n @ s) = is_word (snd q)" "is_word (rev m @ d) = is_word (fst q)"
      using assms(1,2) that is_word_append unfolding spans_def by metis+
    then show ?thesis using assms that unfolding spans_def by (metis append_assoc rev_append)
  qed
  then show ?thesis using assms(1,2) unfolding spans_def by auto
qed

lemma inline_match: "rx_match r p q \<Longrightarrow> inline r \<Longrightarrow> \<exists>m. spans r p q m"
proof (induction rule: rx_match.induct)
  case (oneof cs c d s)
  then have "spans (Oneof cs) (d, c # s) (c # d, s) [c]" by (auto simp: spans_def intro: rx_match.oneof)
  then show ?case ..
next
  case (cat a p q b r)
  then obtain m n where "spans a p q m" "spans b q r n" by auto
  then have "spans (Cat a b) p r (m @ n)" by (rule spans_seq) (rule rx_match.cat)
  then show ?case ..
next
  case (many1 a p q r)
  then obtain m n where "spans a p q m" "spans (Many a) q r n" by auto
  then have "spans (Many a) p r (m @ n)" by (rule spans_seq) (rule rx_match.many1)
  then show ?case ..
next
  case (or1 a p q b)
  then show ?case by (auto simp: spans_def intro: rx_match.or1)
next
  case (or2 b p q a)
  then show ?case by (auto simp: spans_def intro: rx_match.or2)
next
  case (empty p)
  have "spans Empty p p []" by (simp add: spans_def rx_match.empty)
  then show ?case ..
next
  case (many0 a p)
  have "spans (Many a) p p []" by (simp add: spans_def rx_match.many0)
  then show ?case ..
next
  case (wordb d s)
  then have "spans Wordb (d, s) (d, s) []" by (simp add: spans_def rx_match.wordb)
  then show ?case ..
qed simp_all

section \<open>Lines\<close>

lemma split_lines_not_Nil [simp]: "split_lines s \<noteq> []"
  by (induction s rule: split_lines.induct) (auto split: list.split)

lemma split_lines_cons:
  assumes "c \<noteq> CHR 0x0A" and "c = CHR 0x0D \<Longrightarrow> s = [] \<or> hd s \<noteq> CHR 0x0A"
  shows "split_lines (c # s) = (c # hd (split_lines s)) # tl (split_lines s)"
  using assms by (cases s) (auto split: list.split)

lemma hd_split_lines:
  "CHR 0x0A \<notin> set x \<Longrightarrow> x = [] \<or> last x \<noteq> CHR 0x0D \<Longrightarrow> hd (split_lines (x @ v)) = x @ hd (split_lines v)"
proof (induction x)
  case (Cons c x)
  have "hd x \<noteq> CHR 0x0A" if "x \<noteq> []" using hd_in_set [OF that] Cons.prems(1) by auto
  then have "split_lines (c # x @ v) = (c # hd (split_lines (x @ v))) # tl (split_lines (x @ v))"
    using Cons.prems by (intro split_lines_cons) (auto simp: hd_append)
  moreover have "x = [] \<or> last x \<noteq> CHR 0x0D" using Cons.prems(2) by auto
  ultimately show ?case using Cons by simp
qed simp

lemma first_line_word: "is_word (hd (split_lines v)) = is_word v"
  by (induction v rule: split_lines.induct)
    (auto simp: is_word_def class_match_def word_items_def split: list.split)

lemma lines_after_break: "set (split_lines t) \<subseteq> set (tl (split_lines (a @ CHR 0x0A # t)))"
proof (induction a rule: split_lines.induct)
  case 1
  then show ?case by (cases t) auto
next
  case (2 c)
  then show ?case by (cases t) (auto split: list.split)
next
  case (3 c d s)
  consider "c = CHR 0x0A" | "c = CHR 0x0D" "d = CHR 0x0A" | "c \<noteq> CHR 0x0A" "\<not> (c = CHR 0x0D \<and> d = CHR 0x0A)" by blast
  then show ?case
  proof cases
    case 1
    have "set (tl L) \<subseteq> set L" for L :: "string list" by (cases L) auto
    with 1 3 show ?thesis by fastforce
  next
    case 2
    have "set (tl L) \<subseteq> set L" for L :: "string list" by (cases L) auto
    with 2 3 show ?thesis by fastforce
  next
    case other: 3
    then show ?thesis using "3.IH"(3) by (simp add: split_lines_cons del: split_lines.simps)
  qed
qed

lemma is_word_before: "\<not> is_word (rev p) \<Longrightarrow> is_word (rev (p @ a)) = is_word (rev a)"
  by (cases "rev a") (auto simp: is_word_def)

lemma newline_not_word: "\<not> is_word (CHR 0x0A # s)" "\<not> is_word (CHR 0x0D # s)"
  by (simp_all add: is_word_def class_match_def word_items_def)

text \<open>A line stands in the text between positions that are no word characters.\<close>

definition stands_in :: "string \<Rightarrow> string \<Rightarrow> bool" where
  "stands_in l t \<longleftrightarrow> (\<exists>a b. t = a @ l @ b \<and> \<not> is_word (rev a) \<and> \<not> is_word b)"

lemma stands_in_after: "\<not> is_word (rev p) \<Longrightarrow> stands_in l t \<Longrightarrow> stands_in l (p @ t)"
  unfolding stands_in_def by (metis append_assoc is_word_before)

definition line_context :: "string \<Rightarrow> bool" where
  "line_context t \<longleftrightarrow> (\<exists>b. t = hd (split_lines t) @ b \<and> \<not> is_word b) \<and>
     (\<forall>l \<in> set (tl (split_lines t)). \<exists>c a b. t = c # a @ l @ b \<and> \<not> is_word (rev (c # a)) \<and> \<not> is_word b)"

lemma line_context_stands:
  assumes "line_context t" "l \<in> set (split_lines t)"
  shows "stands_in l t"
proof (cases "l = hd (split_lines t)")
  case True
  then show ?thesis using assms(1) unfolding line_context_def stands_in_def
    by (metis append_Nil rev.simps(1) is_word_def list.case(1))
next
  case False
  then have "l \<in> set (tl (split_lines t))"
    using assms(2) by (cases "split_lines t") auto
  then show ?thesis using assms(1) unfolding line_context_def stands_in_def by (metis append_Cons)
qed

lemma line_context_break:
  assumes "line_context u" "split_lines (c # p @ u) = [] # split_lines u" "\<not> is_word (rev (c # p))" "\<not> is_word [c]"
  shows "line_context (c # p @ u)"
proof -
  have "\<exists>c' a b. c # p @ u = c' # a @ l @ b \<and> \<not> is_word (rev (c' # a)) \<and> \<not> is_word b"
    if "l \<in> set (split_lines u)" for l
  proof -
    from line_context_stands [OF assms(1) that] obtain a b
      where "u = a @ l @ b" "\<not> is_word (rev a)" "\<not> is_word b" by (auto simp: stands_in_def)
    then have "c # p @ u = c # (p @ a) @ l @ b" "\<not> is_word (rev (c # (p @ a)))" "\<not> is_word b"
      using is_word_before [OF assms(3), of a] by simp_all
    then show ?thesis by blast
  qed
  then show ?thesis using assms(2,4) by (simp add: line_context_def is_word_def)
qed

lemma line_context_cons:
  assumes "line_context s" "c \<noteq> CHR 0x0A" "c = CHR 0x0D \<Longrightarrow> s = [] \<or> hd s \<noteq> CHR 0x0A"
  shows "line_context (c # s)"
proof -
  have *: "\<exists>c' a b. c # s = c' # a @ l @ b \<and> \<not> is_word (rev (c' # a)) \<and> \<not> is_word b"
    if "l \<in> set (tl (split_lines s))" for l
  proof -
    from that assms(1) obtain c' a b
      where "s = c' # a @ l @ b" "\<not> is_word (rev (c' # a))" "\<not> is_word b" by (auto simp: line_context_def)
    moreover from this(2) have "\<not> is_word (rev (c # c' # a))" by (cases "rev a") (auto simp: is_word_def)
    ultimately have "c # s = c # (c' # a) @ l @ b \<and> \<not> is_word (rev (c # (c' # a))) \<and> \<not> is_word b" by simp
    then show ?thesis by blast
  qed
  have eq: "split_lines (c # s) = (c # hd (split_lines s)) # tl (split_lines s)"
    using assms(2,3) by (rule split_lines_cons)
  have "\<exists>b. c # s = (c # hd (split_lines s)) @ b \<and> \<not> is_word b"
    using assms(1) by (auto simp: line_context_def)
  with * show ?thesis
    unfolding line_context_def eq by simp
qed

lemma line_context_holds: "line_context t"
proof (induction t rule: split_lines.induct)
  case 1
  then show ?case by (simp add: line_context_def is_word_def)
next
  case (2 c)
  show ?case
  proof (cases "c = CHR 0x0A")
    case True
    have "line_context []" by (simp add: line_context_def is_word_def)
    with line_context_break [of "[]" c "[]"] True show ?thesis by (simp add: newline_not_word)
  next
    case False
    then show ?thesis by (simp add: line_context_def is_word_def)
  qed
next
  case (3 c d s)
  consider "c = CHR 0x0A" | "c = CHR 0x0D" "d = CHR 0x0A" | "c \<noteq> CHR 0x0A" "\<not> (c = CHR 0x0D \<and> d = CHR 0x0A)" by blast
  then show ?case
  proof cases
    case 1
    with line_context_break [of "d # s" c "[]"] 3 show ?thesis by (simp add: newline_not_word)
  next
    case 2
    with line_context_break [of s c "[d]"] 3 show ?thesis by (simp add: newline_not_word)
  next
    case other: 3
    with "3.IH"(3) have "line_context (d # s)" by blast
    then show ?thesis by (rule line_context_cons) (use other in auto)
  qed
qed

lemma line_stands_in: "l \<in> set (split_lines t) \<Longrightarrow> stands_in l t"
  by (rule line_context_stands [OF line_context_holds])

text \<open>A stretch without line breaks lies within one line, with the same neighbours.\<close>

lemma stretch_in_line:
  assumes "no_break m" "m \<noteq> []"
  shows "\<exists>l \<in> set (split_lines (x @ m @ v)). \<exists>u w. l = u @ m @ w \<and> is_word (rev u) = is_word (rev x) \<and> is_word w = is_word v"
proof -
  have "last m \<noteq> CHR 0x0D" using last_in_set [OF assms(2)] assms(1) by auto
  then have head: "hd (split_lines (u @ m @ v)) = u @ m @ hd (split_lines v)" if "CHR 0x0A \<notin> set u" for u
    using hd_split_lines [of "u @ m" v] that assms by auto
  have in_lines: "hd (split_lines (u @ m @ v)) \<in> set (split_lines (u @ m @ v))" for u
    by (rule hd_in_set) simp
  show ?thesis
  proof (cases "CHR 0x0A \<in> set x")
    case False
    then show ?thesis using in_lines [of x] head [of x] first_line_word [of v] by metis
  next
    case True
    then obtain a u where x: "x = a @ CHR 0x0A # u" "CHR 0x0A \<notin> set u"
      by (meson split_list_last)
    have "hd (split_lines (u @ m @ v)) \<in> set (tl (split_lines (x @ m @ v)))"
      using in_lines [of u] lines_after_break [of "u @ m @ v" a] x by auto
    then have "hd (split_lines (u @ m @ v)) \<in> set (split_lines (x @ m @ v))"
      by (cases "split_lines (x @ m @ v)") auto
    moreover have "is_word (rev u) = is_word (rev x)"
      using x(1) is_word_before [of "a @ [CHR 0x0A]" u] newline_not_word by simp
    ultimately show ?thesis using head [OF x(2)] first_line_word [of v] by metis
  qed
qed

fun consumes :: "rx \<Rightarrow> bool" where
  "consumes (Oneof cs) = True"
| "consumes (Noneof cs) = True"
| "consumes (Cat a b) = (consumes a \<or> consumes b)"
| "consumes (Or a b) = (consumes a \<and> consumes b)"
| "consumes _ = False"

lemma consumes_match: "rx_match r p q \<Longrightarrow> consumes r \<Longrightarrow> length (snd q) < length (snd p)"
proof (induction rule: rx_match.induct)
  case (cat a p q b r)
  then show ?case using rx_match_shrinks [of a p q] rx_match_shrinks [of b q r] by auto
qed auto

text \<open>
  Splitting a text into lines before testing it neither hides a match nor adds one, for a pattern
  that matches no line break.
\<close>

lemma rx_test_by_lines:
  assumes "inline r" "consumes r"
  shows "(\<exists>l \<in> set (split_lines t). rx_test r l) \<longleftrightarrow> rx_test r t"
proof
  assume "\<exists>l \<in> set (split_lines t). rx_test r l"
  then obtain l u v q where l: "l \<in> set (split_lines t)" "l = u @ v" and match: "rx_match r (rev u, v) q"
    by (auto simp: rx_test_iff)
  from inline_match [OF match assms(1)] obtain m where m: "spans r (rev u, v) q m" ..
  from line_stands_in [OF l(1)] obtain a b
    where t: "t = a @ l @ b" "\<not> is_word (rev a)" "\<not> is_word b" by (auto simp: stands_in_def)
  have "is_word (rev (a @ u)) = is_word (rev u)" by (rule is_word_before [OF t(2)])
  moreover have "is_word (snd q @ b) = is_word (snd q)" using t(3) by (cases "snd q") (auto simp: is_word_def)
  ultimately have "rx_match r (rev (a @ u), m @ snd q @ b) (rev m @ rev (a @ u), snd q @ b)"
    using m unfolding spans_def by simp
  moreover have "t = (a @ u) @ m @ snd q @ b" using t(1) l(2) m by (simp add: spans_def)
  ultimately show "rx_test r t" unfolding rx_test_iff by blast
next
  assume "rx_test r t"
  then obtain x y q where t: "t = x @ y" and match: "rx_match r (rev x, y) q" by (auto simp: rx_test_iff)
  from inline_match [OF match assms(1)] obtain m where m: "spans r (rev x, y) q m" ..
  have "m \<noteq> []" using consumes_match [OF match assms(2)] m by (auto simp: spans_def)
  then obtain l u w where l: "l \<in> set (split_lines t)" "l = u @ m @ w"
    "is_word (rev u) = is_word (rev x)" "is_word w = is_word (snd q)"
    using stretch_in_line [of m x "snd q"] m t by (auto simp: spans_def)
  then have "rx_match r (rev u, m @ w) (rev m @ rev u, w)" using m unfolding spans_def by simp
  then have "rx_test r l" unfolding rx_test_iff using l(2) by blast
  with l(1) show "\<exists>l \<in> set (split_lines t). rx_test r l" ..
qed

section \<open>What the scans find\<close>

lemma first_line_None: "first_line f n ls = None \<longleftrightarrow> (\<forall>l \<in> set ls. f l = None)"
  by (induction f n ls rule: first_line.induct) (auto split: option.split)

lemma first_line_Some: "first_line f n ls = Some (i, x) \<Longrightarrow>
    n \<le> i \<and> i < n + length ls \<and> f (ls ! (i - n)) = Some x \<and> (\<forall>j < i - n. f (ls ! j) = None)"
proof (induction f n ls rule: first_line.induct)
  case (2 f n l ls)
  show ?case
  proof (cases "f l")
    case None
    with 2 have "Suc n \<le> i" "i < Suc n + length ls" "f (ls ! (i - Suc n)) = Some x"
      "\<forall>j < i - Suc n. f (ls ! j) = None" by auto
    with None show ?thesis by (auto simp: nth_Cons' less_diff_conv Suc_diff_Suc)
  qed (use 2 in auto)
qed simp

text \<open>A concrete credential, as opposed to a word that is common in the content of this domain.\<close>

definition holds_credential :: "string \<Rightarrow> bool" where
  "holds_credential t \<longleftrightarrow> (\<exists>(k, i, r) \<in> set (take 5 SECRET_PATTERNS). rx_test r t)"

lemma inline_Repeat: "inline r \<Longrightarrow> inline (Repeat lo extra r)"
  by (induction lo extra r rule: Repeat.induct) (simp_all add: Opt_def)

lemma inline_AtLeast: "inline r \<Longrightarrow> inline (AtLeast lo r)"
  by (simp add: AtLeast_def inline_Repeat)

lemma inline_Lit: "no_break w \<Longrightarrow> inline (Lit w)"
  by (induction w rule: Lit.induct) (auto simp: class_match_def)

lemma consumes_Lit: "consumes (Lit w) \<longleftrightarrow> w \<noteq> []"
  by (induction w rule: Lit.induct) simp_all

lemma inline_classes: "inline alnum_class" "inline (Oneof word_items)"
  by (simp_all add: alnum_class_def word_items_def class_match_def)

lemma credential_patterns:
  "list_all (\<lambda>(k, i, r). inline r \<and> consumes r \<and> \<not> i \<and> k \<in> set HARD_SECRET_KINDS) (take 5 SECRET_PATTERNS)"
  by (simp add: SECRET_PATTERNS_def HARD_SECRET_KINDS_def inline_AtLeast inline_Repeat inline_Lit inline_classes
      consumes_Lit word_items_def Opt_def class_match_def del: Lit.simps Repeat.simps(1))

lemma other_patterns: "list_all (\<lambda>(k, i, r). k \<notin> set HARD_SECRET_KINDS) (drop 5 SECRET_PATTERNS)"
  by (simp add: SECRET_PATTERNS_def HARD_SECRET_KINDS_def)

lemma hard_kinds_eq: "t \<noteq> [] \<Longrightarrow>
    hard_kinds t = map fst (filter (\<lambda>(_, _, r). rx_test r t) (take 5 SECRET_PATTERNS))"
proof -
  assume "t \<noteq> []"
  let ?P = "\<lambda>(_, i, r). if i then rx_test_i r t else rx_test r t"
  let ?hard = "\<lambda>p. fst p \<in> set HARD_SECRET_KINDS"
  have not_hard: "\<not> ?hard p" if "p \<in> set (drop 5 SECRET_PATTERNS)" for p
    using other_patterns that by (auto simp: list_all_iff)
  have "?P p \<and> ?hard p \<longleftrightarrow> (case p of (_, _, r) \<Rightarrow> rx_test r t)" if "p \<in> set (take 5 SECRET_PATTERNS)" for p
    using credential_patterns that by (auto simp: list_all_iff)
  then have hard: "filter (\<lambda>p. ?P p \<and> ?hard p) (take 5 SECRET_PATTERNS) =
      filter (\<lambda>(_, _, r). rx_test r t) (take 5 SECRET_PATTERNS)"
    by (rule filter_cong [OF refl])
  have "hard_kinds t = map fst (filter (\<lambda>p. ?P p \<and> ?hard p) SECRET_PATTERNS)"
    using \<open>t \<noteq> []\<close> by (simp add: hard_kinds_def scanForSecrets_def Let_def filter_map comp_def conj_commute)
  also have "filter (\<lambda>p. ?P p \<and> ?hard p) SECRET_PATTERNS =
      filter (\<lambda>p. ?P p \<and> ?hard p) (take 5 SECRET_PATTERNS) @ filter (\<lambda>p. ?P p \<and> ?hard p) (drop 5 SECRET_PATTERNS)"
    by (metis append_take_drop_id filter_append)
  also have "filter (\<lambda>p. ?P p \<and> ?hard p) (drop 5 SECRET_PATTERNS) = []"
    using not_hard by (simp add: filter_empty_conv)
  finally show ?thesis by (simp add: hard)
qed

lemma no_text_no_match: "consumes r \<Longrightarrow> \<not> rx_test r []"
  by (auto simp: rx_test_iff dest: consumes_match)

lemma hard_kinds_iff: "hard_kinds t \<noteq> [] \<longleftrightarrow> holds_credential t"
proof (cases "t = []")
  case True
  then show ?thesis
    using credential_patterns no_text_no_match
    by (fastforce simp: hard_kinds_def scanForSecrets_def holds_credential_def list_all_iff)
next
  case False
  then show ?thesis by (auto simp: hard_kinds_eq holds_credential_def filter_empty_conv)
qed

lemma credential_by_lines: "(\<exists>l \<in> set (split_lines t). holds_credential l) \<longleftrightarrow> holds_credential t"
proof -
  have "(\<exists>l \<in> set (split_lines t). rx_test r l) \<longleftrightarrow> rx_test r t" if "(k, i, r) \<in> set (take 5 SECRET_PATTERNS)" for k i r
    using credential_patterns that by (intro rx_test_by_lines) (auto simp: list_all_iff)
  then show ?thesis unfolding holds_credential_def by blast
qed

lemma firstSecretLine_None: "firstSecretLine t = None \<longleftrightarrow> \<not> holds_credential t"
proof -
  have "firstSecretLine t = None \<longleftrightarrow> \<not> (\<exists>l \<in> set (split_lines t). holds_credential l)"
    by (simp add: firstSecretLine_def first_line_None hard_kinds_iff)
  then show ?thesis by (simp add: credential_by_lines)
qed

lemma no_credential_in_empty: "\<not> holds_credential []"
  using hard_kinds_iff [of "[]"] by (simp add: hard_kinds_def scanForSecrets_def)

definition pipes_to_shell :: "string \<Rightarrow> bool" where
  "pipes_to_shell t \<longleftrightarrow> (\<exists>l \<in> set (split_lines t). rx_test_i PIPED_INSTALL_RE l)"

lemma firstLineMatching_None: "firstLineMatching t PIPED_INSTALL_RE = None \<longleftrightarrow> \<not> pipes_to_shell t"
  by (auto simp: firstLineMatching_def first_line_None pipes_to_shell_def)

lemma piped_consumes: "consumes PIPED_INSTALL_RE"
  by (simp add: PIPED_INSTALL_RE_def)

lemma no_pipe_in_empty: "\<not> pipes_to_shell []"
  using no_text_no_match [OF piped_consumes]
  by (simp add: pipes_to_shell_def rx_test_i_def toLowerCase_def)

text \<open>
  C31: The scan of a submitted entry reads it line by line and misses nothing by that: it closes the
  submission exactly when one of the five concrete credential formats matches anywhere in the
  text, and sends it to a maintainer exactly when there is none, the category ships an executable
  and some line pipes a download into a shell. A linked body with a credential leads to a
  maintainer, never to a close.
\<close>

theorem scan_submission_exact:
  "((\<exists>f. scanSubmissionContent t category = Some f \<and> sec_verdict f = verdict_close) \<longleftrightarrow> holds_credential t) \<and>
   ((\<exists>f. scanSubmissionContent t category = Some f \<and> sec_verdict f = verdict_manual) \<longleftrightarrow>
      \<not> holds_credential t \<and> category \<in> set EXECUTABLE_CATEGORIES \<and> pipes_to_shell t) \<and>
   ((\<exists>f. scanLinkedBodiesForSecrets bodies = Some f \<and> sec_verdict f = verdict_manual) \<longleftrightarrow>
      (\<exists>b \<in> set bodies. holds_credential b)) \<and>
   (\<nexists>f. scanLinkedBodiesForSecrets bodies = Some f \<and> sec_verdict f = verdict_close)"
proof -
  have "(\<exists>f. scanSubmissionContent t category = Some f \<and> sec_verdict f = verdict_close) \<longleftrightarrow> holds_credential t"
    using firstSecretLine_None [of t] no_credential_in_empty
    by (auto simp: scanSubmissionContent_def split: option.splits)
  moreover have "(\<exists>f. scanSubmissionContent t category = Some f \<and> sec_verdict f = verdict_manual) \<longleftrightarrow>
      \<not> holds_credential t \<and> category \<in> set EXECUTABLE_CATEGORIES \<and> pipes_to_shell t"
    using firstSecretLine_None [of t] firstLineMatching_None [of t] no_pipe_in_empty
    by (auto simp: scanSubmissionContent_def split: option.splits)
  moreover have "(\<exists>f. scanLinkedBodiesForSecrets bodies = Some f \<and> sec_verdict f = verdict_manual) \<longleftrightarrow>
      (\<exists>b \<in> set bodies. holds_credential b)"
    by (induction bodies rule: scanLinkedBodiesForSecrets.induct) (auto simp: hard_kinds_iff)
  moreover have "\<nexists>f. scanLinkedBodiesForSecrets bodies = Some f \<and> sec_verdict f = verdict_close"
    by (induction bodies rule: scanLinkedBodiesForSecrets.induct) auto
  ultimately show ?thesis by blast
qed

section \<open>Which submissions are reviewed\<close>

lemma entry_files_length: "length (entry_files files) \<le> length files"
  by (induction files) (auto simp: entry_files_def split: option.split)

lemma entry_files_single: "length files = 1 \<Longrightarrow> entry_files files = p # ps \<Longrightarrow>
    ps = [] \<and> files = [fst p] \<and> importContentPathParts (cf_filename (fst p)) = Some (snd p)"
  by (cases files) (auto simp: entry_files_def split: option.splits)

text \<open>
  A pull request is reviewed as a submission exactly when it changes one file, that file is an
  entry of a supported category, and it is added or modified. One that changes an entry is ignored
  only when it comes from the repository itself and changes several files, as a maintenance
  branch, a clean-up that deletes every entry it touches, or a change of one entry beside other files;
  so a pull request from a fork that touches an entry is never ignored.
\<close>

theorem content_classification:
  "((\<exists>c s p st. classifyContentFiles files context = Review_pr c s p st) \<longleftrightarrow>
      (\<exists>f c s. files = [f] \<and> importContentPathParts (cf_filename f) = Some (c, s) \<and>
         c \<in> set SUPPORTED_CONTENT_CATEGORIES \<and> cf_status f \<in> {Some ''added'', Some ''modified''})) \<and>
   ((\<exists>r. classifyContentFiles files context = Ignore_pr r) \<longleftrightarrow>
      entry_files files = [] \<or>
      (length files \<noteq> 1 \<and> same_repo context \<and>
       (isMaintenanceBranch (cx_headRef context) \<or> length (entry_files files) = 1 \<or>
        list_all (\<lambda>(f, _). cf_status f = Some ''removed'') (entry_files files))))"
proof (cases "entry_files files")
  case Nil
  then have "\<nexists>f c s. files = [f] \<and> importContentPathParts (cf_filename f) = Some (c, s)"
    by (auto simp: entry_files_def)
  with Nil show ?thesis by (auto simp: classifyContentFiles_def)
next
  case (Cons p others)
  obtain f0 category slug where p: "p = (f0, category, slug)" by (cases p)
  show ?thesis
  proof (cases "length files = 1")
    case True
    have single: "others = []" "files = [f0]" "importContentPathParts (cf_filename f0) = Some (category, slug)"
      using entry_files_single [OF True Cons] p by auto
    show ?thesis
      using Cons p single by (cases "cf_status f0") (auto simp: classifyContentFiles_def nullish_def)
  next
    case False
    then have "\<nexists>f c s. files = [f] \<and> importContentPathParts (cf_filename f) = Some (c, s)" by auto
    with False Cons p show ?thesis by (auto simp: classifyContentFiles_def)
  qed
qed

end
