(* ===== verification/Scoring.thy ===== *)
theory Scoring
  imports Domain Js_Regex
begin

text \<open>
  The score preview of \<open>src/scoring/preview.ts\<close>: what a planned pull request would score under a
  snapshot of the upstream constants, which gates block or reduce it, and the seven scenarios the
  preview compares. The numbers of the input are finite (the API schemas normalize them) and are
  computed exactly; \<open>Math.exp\<close>, which ECMAScript leaves to the implementation, is the parameter
  \<open>mexp\<close>. A constant that divides is meant to be different from 0. Numbers in texts are rendered
  with the four decimals that \<open>roundScore\<close> leaves.
\<close>

section \<open>Inputs\<close>

datatype LinkedIssueMode = mode_none | mode_standard | mode_maintainer

datatype LinkedIssueStatus =
  st_not_required | st_raw | st_plausible | st_validated | st_invalid | st_unavailable

datatype LinkedIssueSource =
  src_none | src_user_supplied | src_official_mirror | src_github_cache | src_issue_quality | src_missing

text \<open>The field \<open>lc_projected\<close> is the private symbol that a projected context carries.\<close>

record LinkedIssueMultiplierContext =
  lc_status :: "LinkedIssueStatus option"
  lc_source :: "LinkedIssueSource option"
  lc_issueNumbers :: "rat list option"
  lc_solvedByPullRequests :: "rat list option"
  lc_reason :: "string option"
  lc_warnings :: "string list option"
  lc_projected :: bool

record LinkedIssueMultiplierDecision =
  ld_mode :: LinkedIssueMode
  ld_status :: LinkedIssueStatus
  ld_source :: LinkedIssueSource
  ld_eligible :: bool
  ld_issueNumbers :: "nat list"
  ld_solvedByPullRequests :: "nat list"
  ld_baseMultiplier :: rat
  ld_appliedMultiplier :: rat
  ld_reason :: string
  ld_warnings :: "string list"

datatype BranchStatus = br_eligible | br_ineligible | br_unknown | br_not_required

datatype BranchSource = bs_github_metadata | bs_local_metadata | bs_registry | bs_user_supplied | bs_missing

record BranchEligibilityInput =
  bi_status :: BranchStatus
  bi_source :: "BranchSource option"
  bi_reason :: "string option"
  bi_checkedAt :: "string option"
  bi_stale :: "bool option"

record BranchEligibilityResult =
  be_required :: bool
  be_status :: BranchStatus
  be_evidenceProvided :: bool
  be_source :: BranchSource
  be_reason :: "string option"
  be_checkedAt :: "string option"
  be_stale :: bool
  be_warnings :: "string list"

record ScorePreviewInput =
  si_repoFullName :: string
  si_labels :: "string list option"
  si_linkedIssueMode :: "LinkedIssueMode option"
  si_linkedIssueContext :: "LinkedIssueMultiplierContext option"
  si_sourceTokenScore :: "rat option"
  si_totalTokenScore :: "rat option"
  si_sourceLines :: "rat option"
  si_testTokenScore :: "rat option"
  si_nonCodeTokenScore :: "rat option"
  si_nonCodeLines :: "rat option"
  si_existingContributorTokenScore :: "rat option"
  si_openPrCount :: "rat option"
  si_openIssueCount :: "rat option"
  si_credibility :: "rat option"
  si_changesRequestedCount :: "rat option"
  si_fixedBaseScore :: "rat option"
  si_metadataOnly :: bool
  si_pendingMergedPrCount :: "rat option"
  si_pendingClosedPrCount :: "rat option"
  si_approvedPrCount :: "rat option"
  si_observedApprovedPrCount :: "rat option"
  si_observedStalePrCount :: "rat option"
  si_observedClosedPrCount :: "rat option"
  si_observedDraftPrCount :: "rat option"
  si_observedBlockedPrCount :: "rat option"
  si_observedMaintainerPrCount :: "rat option"
  si_duplicateRiskCount :: "rat option"
  si_expectedOpenPrCountAfterMerge :: "rat option"
  si_projectedCredibility :: "rat option"
  si_scenarioNotes :: "string list option"
  si_pendingScenarioObserved :: bool
  si_observedScenarioNotes :: "string list option"
  si_branchEligibility :: "BranchEligibilityInput option"
  si_prAgeHours :: "rat option"
  si_applyTimeDecay :: bool

datatype ActiveModel = current_density_model | pending_saturation_model | exponential_saturation_model | unknown_model

record ScoringModelSnapshot =
  sm_id :: string
  sm_activeModel :: ActiveModel
  sm_constants :: "string \<rightharpoonup> rat"
  sm_warnings :: "string list"

text \<open>The numbers of the payload of \<open>ContributorEvidenceRecord\<close>; a first field that is no number is NaN.\<close>

record ContributorEvidence =
  ev_mergedPullRequests :: "js_num option"
  ev_stalePullRequests :: "rat option"
  ev_unlinkedPullRequests :: "rat option"

section \<open>Arithmetic\<close>

definition nonNegative :: "rat option \<Rightarrow> rat" where
  "nonNegative v = (case v of None \<Rightarrow> 0 | Some x \<Rightarrow> max 0 x)"

definition clamp :: "rat \<Rightarrow> rat \<Rightarrow> rat \<Rightarrow> rat" where
  "clamp v lo hi = min hi (max lo v)"

definition roundScore :: "rat \<Rightarrow> rat" where
  "roundScore v = of_int (js_round (v * 10000)) / 10000"

definition constant_of :: "(string \<rightharpoonup> rat) \<Rightarrow> string \<Rightarrow> rat \<Rightarrow> rat" where
  "constant_of constants key fallback = nullish (constants key) fallback"

text \<open>\<open>String(x)\<close> on a number with at most four decimals.\<close>

definition pad4 :: "nat \<Rightarrow> string" where
  "pad4 n = replicate (4 - length (nat_str n)) CHR ''0'' @ nat_str n"

definition num_str :: "rat \<Rightarrow> string" where
  "num_str x =
     (let n = nat (js_round (\<bar>x\<bar> * 10000));
          fraction = rev (dropWhile (\<lambda>c. c = CHR ''0'') (rev (pad4 (n mod 10000))))
      in (if x < 0 then ''-'' else []) @ nat_str (n div 10000) @ (if fraction = [] then [] else CHR ''.'' # fraction))"

section \<open>Branch eligibility\<close>

definition BRANCH_MISSING :: string where
  "BRANCH_MISSING = ''Branch eligibility evidence is missing; refresh branch/base metadata before relying on linked-issue assumptions.''"

definition BRANCH_UNKNOWN :: string where
  "BRANCH_UNKNOWN = ''Branch eligibility is unknown; refresh branch/base metadata before relying on linked-issue assumptions.''"

definition BRANCH_INELIGIBLE :: string where
  "BRANCH_INELIGIBLE = ''Branch eligibility is confirmed ineligible; linked-issue multiplier assumptions are disabled.''"

definition normalizeBranchEligibility :: "ScorePreviewInput \<Rightarrow> BranchEligibilityResult" where
  "normalizeBranchEligibility input =
     (if si_linkedIssueMode input \<noteq> Some mode_standard then
        (case si_branchEligibility input of
           None \<Rightarrow> \<lparr>be_required = False, be_status = br_not_required, be_evidenceProvided = False,
             be_source = bs_missing, be_reason = None, be_checkedAt = None, be_stale = False, be_warnings = []\<rparr>
         | Some b \<Rightarrow> \<lparr>be_required = False, be_status = br_not_required, be_evidenceProvided = True,
             be_source = nullish (bi_source b) bs_user_supplied, be_reason = bi_reason b,
             be_checkedAt = bi_checkedAt b, be_stale = nullish (bi_stale b) False, be_warnings = []\<rparr>)
      else
        (case si_branchEligibility input of
           None \<Rightarrow> \<lparr>be_required = True, be_status = br_unknown, be_evidenceProvided = False,
             be_source = bs_missing, be_reason = None, be_checkedAt = None, be_stale = False,
             be_warnings = [BRANCH_MISSING]\<rparr>
         | Some b \<Rightarrow>
             (let stale = nullish (bi_stale b) False
              in \<lparr>be_required = True, be_status = bi_status b, be_evidenceProvided = True,
                  be_source = nullish (bi_source b) bs_user_supplied, be_reason = bi_reason b,
                  be_checkedAt = bi_checkedAt b, be_stale = stale,
                  be_warnings = (if bi_status b = br_ineligible then [BRANCH_INELIGIBLE] else [])
                    @ (if bi_status b = br_unknown then [BRANCH_UNKNOWN] else [])
                    @ (if stale then [''Branch eligibility evidence is stale; refresh branch/base metadata before relying on linked-issue assumptions.''] else [])\<rparr>)))"

definition isConfirmedBranchEligible :: "BranchEligibilityResult \<Rightarrow> bool" where
  "isConfirmedBranchEligible b \<longleftrightarrow>
     \<not> be_required b \<or> (be_status b = br_eligible \<and> be_evidenceProvided b \<and> \<not> be_stale b)"

definition branchEligibilityFailureReason :: "BranchEligibilityResult \<Rightarrow> string" where
  "branchEligibilityFailureReason b =
     (if be_status b = br_ineligible then ''Branch eligibility is confirmed ineligible; standard issue multiplier is not applied.''
      else if \<not> be_evidenceProvided b then ''Branch eligibility evidence is missing; standard issue multiplier is not applied.''
      else if be_status b = br_unknown then ''Branch eligibility is unknown; standard issue multiplier is not applied.''
      else if be_stale b then ''Branch eligibility evidence is stale; standard issue multiplier is not applied.''
      else if be_source b = bs_user_supplied then ''Branch eligibility evidence is user-supplied; standard issue multiplier is not applied until verified metadata is available.''
      else ''Branch eligibility is not confirmed; standard issue multiplier is not applied.'')"

section \<open>The multiplier of a linked issue\<close>

definition uniquePositiveInts :: "rat list \<Rightarrow> nat list" where
  "uniquePositiveInts values =
     sort (dedupe (map (\<lambda>v. nat \<lfloor>v\<rfloor>) (filter (\<lambda>v. of_int \<lfloor>v\<rfloor> = v \<and> v > 0) values)))"

definition selectIssueMultiplier :: "LinkedIssueMode \<Rightarrow> (string \<rightharpoonup> rat) \<Rightarrow> rat" where
  "selectIssueMultiplier mode constants =
     (case mode of
        mode_maintainer \<Rightarrow> constant_of constants ''MAINTAINER_ISSUE_MULTIPLIER'' (166 / 100)
      | mode_standard \<Rightarrow> constant_of constants ''STANDARD_ISSUE_MULTIPLIER'' (133 / 100)
      | mode_none \<Rightarrow> 1)"

definition hash_list :: "nat list \<Rightarrow> string" where
  "hash_list ns = join '', '' (map (\<lambda>n. CHR ''#'' # nat_str n) ns)"

definition source_name :: "LinkedIssueSource \<Rightarrow> string" where
  "source_name s = (case s of src_none \<Rightarrow> ''none'' | src_user_supplied \<Rightarrow> ''user_supplied''
     | src_official_mirror \<Rightarrow> ''official_mirror'' | src_github_cache \<Rightarrow> ''github_cache''
     | src_issue_quality \<Rightarrow> ''issue_quality'' | src_missing \<Rightarrow> ''missing'')"

definition linkedIssueReason :: "LinkedIssueStatus \<Rightarrow> LinkedIssueSource \<Rightarrow> nat list \<Rightarrow> nat list \<Rightarrow> string" where
  "linkedIssueReason status source issueNumbers solvedByPullRequests =
     (let issues = (if issueNumbers \<noteq> [] then '' for issue(s) '' @ hash_list issueNumbers else [])
      in if status = st_validated then
           ''Linked issue context is solved-by-PR validated'' @ issues
             @ (if solvedByPullRequests \<noteq> [] then '' via solved-by-PR '' @ hash_list solvedByPullRequests else []) @ ''.''
         else if status = st_invalid then
           ''Linked issue context is invalid'' @ issues @ ''; standard issue multiplier is not applied.''
         else if status = st_plausible then
           ''Linked issue context is plausible'' @ issues @ '', but solved-by-PR validation is not available yet.''
         else if status = st_unavailable then
           ''Linked issue mirror/cache data is unavailable'' @ issues
             @ ''; standard issue multiplier is not applied until validation is available.''
         else ''Raw linked issue reference'' @ issues @ '' has no solved-by-PR validation from '' @ source_name source @ ''.'')"

definition linkedIssueWarnings :: "LinkedIssueStatus \<Rightarrow> string list" where
  "linkedIssueWarnings status =
     (if status = st_validated then []
      else if status = st_invalid then [''Linked issue context is invalid; standard issue multiplier is not applied.'']
      else if status = st_unavailable then
        [''Linked issue mirror/cache data is unavailable; standard issue multiplier is not applied until validation is available.'']
      else if status = st_plausible then
        [''Linked issue context is plausible but not solved-by-PR validated; standard issue multiplier is not applied.'']
      else [''Raw linked issue reference has no solved-by-PR evidence; standard issue multiplier is not applied.''])"

text \<open>The numbers, status and evidence a context stands for.\<close>

definition context_numbers :: "(LinkedIssueMultiplierContext \<Rightarrow> rat list option) \<Rightarrow> LinkedIssueMultiplierContext option \<Rightarrow> nat list" where
  "context_numbers f c = uniquePositiveInts (nullish (Option.bind c f) [])"

definition hasSolvedByPullRequestEvidence :: "LinkedIssueMultiplierContext option \<Rightarrow> bool" where
  "hasSolvedByPullRequestEvidence c \<longleftrightarrow>
     context_numbers lc_solvedByPullRequests c \<noteq> [] \<or> (\<exists>x. c = Some x \<and> lc_projected x)"

definition requestedStatus :: "LinkedIssueMultiplierContext option \<Rightarrow> LinkedIssueStatus" where
  "requestedStatus c =
     nullish (Option.bind c lc_status)
       (if context_numbers lc_solvedByPullRequests c \<noteq> [] then st_validated
        else if context_numbers lc_issueNumbers c \<noteq> [] then st_raw else st_unavailable)"

definition resolvedStatus :: "LinkedIssueMultiplierContext option \<Rightarrow> LinkedIssueStatus" where
  "resolvedStatus c =
     (if requestedStatus c = st_validated \<and> \<not> hasSolvedByPullRequestEvidence c
      then (if context_numbers lc_issueNumbers c \<noteq> [] then st_raw else st_unavailable)
      else requestedStatus c)"

definition decideLinkedIssueMultiplier ::
    "LinkedIssueMode \<Rightarrow> LinkedIssueMultiplierContext option \<Rightarrow> (string \<rightharpoonup> rat) \<Rightarrow> BranchEligibilityResult
     \<Rightarrow> LinkedIssueMultiplierDecision" where
  "decideLinkedIssueMultiplier mode context0 constants branchEligibility =
     (let baseMultiplier = selectIssueMultiplier mode constants;
          issueNumbers = context_numbers lc_issueNumbers context0;
          solvedByPullRequests = context_numbers lc_solvedByPullRequests context0;
          warnings0 = nullish (Option.bind context0 lc_warnings) []
      in case mode of
           mode_none \<Rightarrow>
             \<lparr>ld_mode = mode, ld_status = st_not_required, ld_source = src_none, ld_eligible = False,
              ld_issueNumbers = issueNumbers, ld_solvedByPullRequests = solvedByPullRequests,
              ld_baseMultiplier = baseMultiplier, ld_appliedMultiplier = 1,
              ld_reason = ''No linked-issue multiplier mode was requested.'', ld_warnings = []\<rparr>
         | mode_maintainer \<Rightarrow>
             \<lparr>ld_mode = mode, ld_status = st_not_required, ld_source = nullish (Option.bind context0 lc_source) src_none,
              ld_eligible = True, ld_issueNumbers = issueNumbers, ld_solvedByPullRequests = solvedByPullRequests,
              ld_baseMultiplier = baseMultiplier, ld_appliedMultiplier = baseMultiplier,
              ld_reason = ''Maintainer-lane multiplier does not require solved-by-PR issue linkage.'',
              ld_warnings = warnings0\<rparr>
         | mode_standard \<Rightarrow>
             (let status = resolvedStatus context0;
                  source = nullish (Option.bind context0 lc_source) (if status = st_unavailable then src_missing else src_user_supplied);
                  branchEligible = isConfirmedBranchEligible branchEligibility;
                  eligible = (status = st_validated \<and> hasSolvedByPullRequestEvidence context0 \<and> branchEligible);
                  own = linkedIssueReason status source issueNumbers solvedByPullRequests
              in \<lparr>ld_mode = mode, ld_status = status, ld_source = source, ld_eligible = eligible,
                  ld_issueNumbers = issueNumbers, ld_solvedByPullRequests = solvedByPullRequests,
                  ld_baseMultiplier = baseMultiplier,
                  ld_appliedMultiplier = (if eligible then baseMultiplier else 1),
                  ld_reason =
                    (if branchEligible \<or> status \<noteq> st_validated then
                       (if status = requestedStatus context0 then nullish (Option.bind context0 lc_reason) own else own)
                     else branchEligibilityFailureReason branchEligibility),
                  ld_warnings = dedupe (linkedIssueWarnings status @ be_warnings branchEligibility @ warnings0)\<rparr>))"

definition withValidatedLinkedIssueScenario :: "ScorePreviewInput \<Rightarrow> ScorePreviewInput" where
  "withValidatedLinkedIssueScenario input =
     (if si_linkedIssueMode input = Some mode_maintainer then input
      else (let c = si_linkedIssueContext input
            in input\<lparr>si_linkedIssueMode := Some mode_standard,
                 si_linkedIssueContext := Some
                   \<lparr>lc_status = Some st_validated,
                    lc_source = Some (nullish (Option.bind c lc_source) src_user_supplied),
                    lc_issueNumbers = Some (map of_nat (context_numbers lc_issueNumbers c)),
                    lc_solvedByPullRequests = Some (map of_nat (context_numbers lc_solvedByPullRequests c)),
                    lc_reason = Option.bind c lc_reason, lc_warnings = Some [], lc_projected = True\<rparr>\<rparr>))"

definition projectLinkedIssueMultiplierForPlannedSolve :: "rat list \<Rightarrow> LinkedIssueMultiplierDecision" where
  "projectLinkedIssueMultiplierForPlannedSolve issueNumbers =
     decideLinkedIssueMultiplier mode_standard
       (Some \<lparr>lc_status = Some st_validated, lc_source = Some src_user_supplied,
         lc_issueNumbers = Some (map of_nat (uniquePositiveInts issueNumbers)), lc_solvedByPullRequests = Some [],
         lc_reason = None, lc_warnings = Some [], lc_projected = True\<rparr>)
       Map.empty
       \<lparr>be_required = True, be_status = br_eligible, be_evidenceProvided = True, be_source = bs_user_supplied,
        be_reason = None, be_checkedAt = None, be_stale = False, be_warnings = []\<rparr>"

section \<open>The score\<close>

definition inferCredibility :: "ContributorEvidence option \<Rightarrow> rat" where
  "inferCredibility evidence =
     (case nullish (Option.bind evidence ev_mergedPullRequests) (Finite 0) of
        Finite merged \<Rightarrow>
          clamp (75 / 100 + merged * (4 / 100) - nullish (Option.bind evidence ev_stalePullRequests) 0 * (3 / 100)
                 - nullish (Option.bind evidence ev_unlinkedPullRequests) 0 * (2 / 100)) (25 / 100) 1
      | _ \<Rightarrow> 8 / 10)"

definition applyNonCodeLineCap :: "ScorePreviewInput \<Rightarrow> (string \<rightharpoonup> rat) \<Rightarrow> rat" where
  "applyNonCodeLineCap input constants =
     (let score = nonNegative (si_nonCodeTokenScore input); lines = nonNegative (si_nonCodeLines input)
      in if score \<le> 0 \<or> lines \<le> 0 then score
         else (let maxLines = constant_of constants ''MAX_LINES_SCORED_FOR_NON_CODE_EXT'' 300
               in if lines \<le> maxLines then score else score * (maxLines / lines)))"

record TimeDecayCurve =
  td_gracePeriodHours :: rat
  td_sigmoidMidpointDays :: rat
  td_sigmoidSteepness :: rat
  td_minMultiplier :: rat

definition resolveTimeDecay :: "(string \<rightharpoonup> rat) \<Rightarrow> RepoTimeDecayOverrides option \<Rightarrow> TimeDecayCurve" where
  "resolveTimeDecay constants overrides =
     \<lparr>td_gracePeriodHours = nullish (Option.bind overrides gracePeriodHours) (constant_of constants ''TIME_DECAY_GRACE_PERIOD_HOURS'' 12),
      td_sigmoidMidpointDays = nullish (Option.bind overrides sigmoidMidpointDays) (constant_of constants ''TIME_DECAY_SIGMOID_MIDPOINT'' 10),
      td_sigmoidSteepness = nullish (Option.bind overrides sigmoidSteepness) (constant_of constants ''TIME_DECAY_SIGMOID_STEEPNESS_SCALAR'' (4 / 10)),
      td_minMultiplier = nullish (Option.bind overrides minMultiplier) (constant_of constants ''TIME_DECAY_MIN_MULTIPLIER'' (5 / 100))\<rparr>"

definition calculateTimeDecay :: "(rat \<Rightarrow> rat) \<Rightarrow> rat \<Rightarrow> (string \<rightharpoonup> rat) \<Rightarrow> RepoTimeDecayOverrides option \<Rightarrow> rat" where
  "calculateTimeDecay mexp prAgeHours constants overrides =
     (let curve = resolveTimeDecay constants overrides
      in if prAgeHours < td_gracePeriodHours curve then 1
         else (let days = prAgeHours / 24;
                   sigmoid = 1 / (1 + mexp (td_sigmoidSteepness curve * (days - td_sigmoidMidpointDays curve)))
               in max sigmoid (td_minMultiplier curve)))"

definition contributionBonusRamp :: "rat \<Rightarrow> (string \<rightharpoonup> rat) \<Rightarrow> rat" where
  "contributionBonusRamp totalTokenScore constants =
     clamp (totalTokenScore / constant_of constants ''CONTRIBUTION_SCORE_FOR_FULL_BONUS'' 1500) 0 1
       * constant_of constants ''MAX_CONTRIBUTION_BONUS'' 5"

definition saturationContributionBonus :: "rat \<Rightarrow> (string \<rightharpoonup> rat) \<Rightarrow> rat" where
  "saturationContributionBonus = contributionBonusRamp"

definition saturationScore :: "(rat \<Rightarrow> rat) \<Rightarrow> rat \<Rightarrow> rat \<Rightarrow> (string \<rightharpoonup> rat) \<Rightarrow> rat" where
  "saturationScore mexp sourceTokenScore totalTokenScore constants =
     (let scale = max (constant_of constants ''SRC_TOK_SATURATION_SCALE'' 58) 1
      in constant_of constants ''MERGED_PR_BASE_SCORE'' 25 * (1 - mexp (- sourceTokenScore / scale))
         + saturationContributionBonus totalTokenScore constants)"

definition selectLabelMultiplier :: "string list \<Rightarrow> (string \<times> rat) list \<Rightarrow> rat \<Rightarrow> rat" where
  "selectLabelMultiplier labels multipliers fallback =
     (let normalized = set (map toLowerCase labels);
          matched = map snd (filter (\<lambda>(label, _). toLowerCase label \<in> normalized) multipliers)
      in case matched of
           [] \<Rightarrow> (if fallback = 0 then 1 else fallback)
         | m # ms \<Rightarrow> foldl max m ms)"

record LaneMath =
  lm_repoEmissionShare :: rat
  lm_ossEmissionShare :: rat
  lm_repoSlice :: rat
  lm_directPrSlice :: rat
  lm_issueDiscoverySlice :: rat
  lm_issueDiscoveryShare :: rat

record ScoreEstimate =
  se_baseScore :: rat
  se_densityMultiplier :: rat
  se_contributionBonus :: rat
  se_labelMultiplier :: rat
  se_issueMultiplier :: rat
  se_credibilityMultiplier :: rat
  se_reviewPenaltyMultiplier :: rat
  se_openPrMultiplier :: rat
  se_openIssueMultiplier :: rat
  se_timeDecayMultiplier :: rat
  se_estimatedMergedScore :: rat
  se_pendingSaturationScore :: rat

record ScoreGates =
  sg_baseTokenGatePassed :: bool
  sg_openPrThreshold :: rat
  sg_openPrCount :: rat
  sg_collateralFraction :: rat
  sg_reviewCollateralMultiplier :: rat
  sg_credibilityFloor :: rat
  sg_credibilityObserved :: rat
  sg_openIssueThreshold :: rat
  sg_openIssueCount :: rat

record ScoreCore =
  sc_laneMath :: LaneMath
  sc_scoreEstimate :: ScoreEstimate
  sc_gates :: ScoreGates
  sc_linkedIssueMultiplier :: LinkedIssueMultiplierDecision

definition repo_config :: "RepositoryRecord option \<Rightarrow> RegistryRepoConfig option" where
  "repo_config repo = Option.bind repo repo_registryConfig"

definition source_tokens :: "ScorePreviewInput \<Rightarrow> rat" where
  "source_tokens input = nonNegative (si_sourceTokenScore input)"

definition total_tokens :: "ScorePreviewInput \<Rightarrow> (string \<rightharpoonup> rat) \<Rightarrow> rat" where
  "total_tokens input constants =
     nonNegative (Some (nullish (si_totalTokenScore input)
       (source_tokens input + constant_of constants ''TEST_FILE_CONTRIBUTION_WEIGHT'' (5 / 100) * nonNegative (si_testTokenScore input)
        + applyNonCodeLineCap input constants)))"

definition density_multiplier :: "ScorePreviewInput \<Rightarrow> (string \<rightharpoonup> rat) \<Rightarrow> rat" where
  "density_multiplier input constants =
     (let sourceLines = max 1 (nonNegative (Some (nullish (si_sourceLines input) (source_tokens input))))
      in clamp (source_tokens input / sourceLines) 0 (constant_of constants ''MAX_CODE_DENSITY_MULTIPLIER'' (115 / 100)))"

definition density_gate :: "ScorePreviewInput \<Rightarrow> (string \<rightharpoonup> rat) \<Rightarrow> bool" where
  "density_gate input constants \<longleftrightarrow>
     source_tokens input \<ge> constant_of constants ''MIN_TOKEN_SCORE_FOR_BASE_SCORE'' 5"

definition base_score ::
    "(rat \<Rightarrow> rat) \<Rightarrow> ScorePreviewInput \<Rightarrow> RegistryRepoConfig option \<Rightarrow> ActiveModel \<Rightarrow> (string \<rightharpoonup> rat) \<Rightarrow> rat" where
  "base_score mexp input config model constants =
     (case (case si_fixedBaseScore input of Some b \<Rightarrow> Some b | None \<Rightarrow> Option.bind config cfg_fixedBaseScore) of
        Some b \<Rightarrow> b
      | None \<Rightarrow>
          if model = pending_saturation_model
          then saturationScore mexp (source_tokens input) (total_tokens input constants) constants
          else (if density_gate input constants
                then constant_of constants ''MERGED_PR_BASE_SCORE'' 25 * density_multiplier input constants else 0)
               + contributionBonusRamp (total_tokens input constants) constants)"

definition credibility_observed :: "ScorePreviewInput \<Rightarrow> ContributorEvidence option \<Rightarrow> rat" where
  "credibility_observed input evidence = clamp (nullish (si_credibility input) (inferCredibility evidence)) 0 1"

definition credibility_floor :: "(string \<rightharpoonup> rat) \<Rightarrow> rat" where
  "credibility_floor constants = constant_of constants ''MIN_CREDIBILITY'' (8 / 10)"

definition credibility_multiplier :: "rat \<Rightarrow> rat \<Rightarrow> rat" where
  "credibility_multiplier observed floor0 = (if observed \<ge> floor0 then 1 else observed / floor0)"

definition review_penalty_rate :: "(string \<rightharpoonup> rat) \<Rightarrow> rat" where
  "review_penalty_rate constants = constant_of constants ''REVIEW_PENALTY_RATE'' (15 / 100)"

definition review_penalty_multiplier :: "ScorePreviewInput \<Rightarrow> (string \<rightharpoonup> rat) \<Rightarrow> rat" where
  "review_penalty_multiplier input constants =
     clamp (1 - nonNegative (si_changesRequestedCount input) * review_penalty_rate constants) 0 1"

text \<open>How many open pull requests, or issues, the merged history of the contributor allows.\<close>

definition earned_threshold :: "ScorePreviewInput \<Rightarrow> rat \<Rightarrow> rat \<Rightarrow> rat \<Rightarrow> rat" where
  "earned_threshold input maximum base per_slot =
     min maximum (base + of_int \<lfloor>nonNegative (si_existingContributorTokenScore input) / per_slot\<rfloor>)"

definition open_pr_threshold :: "ScorePreviewInput \<Rightarrow> (string \<rightharpoonup> rat) \<Rightarrow> rat" where
  "open_pr_threshold input constants =
     earned_threshold input (constant_of constants ''MAX_OPEN_PR_THRESHOLD'' 30)
       (constant_of constants ''EXCESSIVE_PR_PENALTY_BASE_THRESHOLD'' 2) (constant_of constants ''OPEN_PR_THRESHOLD_TOKEN_SCORE'' 300)"

definition open_issue_threshold :: "ScorePreviewInput \<Rightarrow> (string \<rightharpoonup> rat) \<Rightarrow> rat" where
  "open_issue_threshold input constants =
     earned_threshold input (constant_of constants ''MAX_OPEN_ISSUE_THRESHOLD'' 30)
       (constant_of constants ''OPEN_ISSUE_SPAM_BASE_THRESHOLD'' 2)
       (constant_of constants ''OPEN_ISSUE_SPAM_TOKEN_SCORE_PER_SLOT'' 300)"

definition within_limit :: "rat \<Rightarrow> rat \<Rightarrow> rat" where
  "within_limit count threshold = (if count \<le> threshold then 1 else 0)"

definition computeScoreCore ::
    "(rat \<Rightarrow> rat) \<Rightarrow> ScorePreviewInput \<Rightarrow> RepositoryRecord option \<Rightarrow> ScoringModelSnapshot \<Rightarrow> ContributorEvidence option \<Rightarrow> ScoreCore" where
  "computeScoreCore mexp input repo snapshot evidence =
     (let constants = sm_constants snapshot;
          config = repo_config repo;
          emissionShare = clamp (case config of None \<Rightarrow> 0 | Some c \<Rightarrow> cfg_emissionShare c) 0 1;
          issueDiscoveryShare = clamp (case config of None \<Rightarrow> 0 | Some c \<Rightarrow> cfg_issueDiscoveryShare c) 0 1;
          ossEmissionShare = constant_of constants ''OSS_EMISSION_SHARE'' (9 / 10);
          repoSlice = emissionShare * ossEmissionShare;
          totalTokenScore = total_tokens input constants;
          saturation = sm_activeModel snapshot = pending_saturation_model;
          baseScore = base_score mexp input config (sm_activeModel snapshot) constants;
          labelMultiplier = selectLabelMultiplier (nullish (si_labels input) [])
            (case config of None \<Rightarrow> [] | Some c \<Rightarrow> cfg_labelMultipliers c)
            (nullish (Option.bind config cfg_defaultLabelMultiplier) 1);
          linked = decideLinkedIssueMultiplier (nullish (si_linkedIssueMode input) mode_none)
            (si_linkedIssueContext input) constants (normalizeBranchEligibility input);
          observed = credibility_observed input evidence;
          credFloor = credibility_floor constants;
          credMultiplier = credibility_multiplier observed credFloor;
          penaltyMultiplier = review_penalty_multiplier input constants;
          collateral = min (constant_of constants ''MAX_OPEN_PR_REVIEW_COLLATERAL_MULTIPLIER'' 2)
            (1 + nonNegative (si_changesRequestedCount input) * review_penalty_rate constants);
          openPrCount = nonNegative (si_openPrCount input);
          openPrThreshold = open_pr_threshold input constants;
          openIssueCount = nonNegative (si_openIssueCount input);
          openIssueThreshold = open_issue_threshold input constants;
          decay = (if si_applyTimeDecay input
                   then calculateTimeDecay mexp (nonNegative (si_prAgeHours input)) constants (Option.bind config cfg_timeDecay)
                   else 1)
      in \<lparr>sc_laneMath = \<lparr>lm_repoEmissionShare = emissionShare, lm_ossEmissionShare = ossEmissionShare,
            lm_repoSlice = roundScore repoSlice,
            lm_directPrSlice = roundScore (repoSlice * (1 - issueDiscoveryShare)),
            lm_issueDiscoverySlice = roundScore (repoSlice * issueDiscoveryShare),
            lm_issueDiscoveryShare = issueDiscoveryShare\<rparr>,
          sc_scoreEstimate = \<lparr>se_baseScore = roundScore baseScore,
            se_densityMultiplier = roundScore (density_multiplier input constants),
            se_contributionBonus = roundScore
              (if saturation then saturationContributionBonus totalTokenScore constants
               else contributionBonusRamp totalTokenScore constants),
            se_labelMultiplier = labelMultiplier,
            se_issueMultiplier = ld_appliedMultiplier linked,
            se_credibilityMultiplier = roundScore credMultiplier,
            se_reviewPenaltyMultiplier = roundScore penaltyMultiplier,
            se_openPrMultiplier = within_limit openPrCount openPrThreshold,
            se_openIssueMultiplier = within_limit openIssueCount openIssueThreshold,
            se_timeDecayMultiplier = roundScore decay,
            se_estimatedMergedScore = roundScore
              (baseScore * labelMultiplier * ld_appliedMultiplier linked * credMultiplier * penaltyMultiplier
               * within_limit openPrCount openPrThreshold * within_limit openIssueCount openIssueThreshold * decay),
            se_pendingSaturationScore = roundScore
              (saturationScore mexp (source_tokens input) totalTokenScore constants)\<rparr>,
          sc_gates = \<lparr>sg_baseTokenGatePassed =
              (if saturation then source_tokens input > 0 else density_gate input constants),
            sg_openPrThreshold = openPrThreshold, sg_openPrCount = openPrCount,
            sg_collateralFraction = roundScore (constant_of constants ''OPEN_PR_COLLATERAL_PERCENT'' (2 / 10) * collateral),
            sg_reviewCollateralMultiplier = roundScore collateral,
            sg_credibilityFloor = credFloor, sg_credibilityObserved = observed,
            sg_openIssueThreshold = openIssueThreshold, sg_openIssueCount = openIssueCount\<rparr>,
          sc_linkedIssueMultiplier = linked\<rparr>)"

section \<open>Blockers\<close>

datatype BlockerSeverity = sev_blocker | sev_reducer | sev_context

record ScoreGateBlocker =
  sb_code :: string
  sb_severity :: BlockerSeverity
  sb_detail :: string

definition blocker :: "bool \<Rightarrow> string \<Rightarrow> BlockerSeverity \<Rightarrow> string \<Rightarrow> ScoreGateBlocker list" where
  "blocker condition code severity detail =
     (if condition then [\<lparr>sb_code = code, sb_severity = severity, sb_detail = detail\<rparr>] else [])"

definition repo_registered :: "RepositoryRecord option \<Rightarrow> bool" where
  "repo_registered repo \<longleftrightarrow> (case repo of None \<Rightarrow> False | Some r \<Rightarrow> repo_isRegistered r)"

definition blockedByFor ::
    "ScorePreviewInput \<Rightarrow> RepositoryRecord option \<Rightarrow> ScoreCore \<Rightarrow> BranchEligibilityResult \<Rightarrow> ScoreGateBlocker list" where
  "blockedByFor input repo core branch =
     (let est = sc_scoreEstimate core; gates = sc_gates core; linked = sc_linkedIssueMultiplier core
      in blocker (\<not> repo_registered repo) ''repo_not_registered'' sev_blocker
           ''Repository is not registered in the local Gittensory cache.''
       @ blocker (lm_repoEmissionShare (sc_laneMath core) \<le> 0) ''inactive_allocation'' sev_blocker
           ''Repository has no active allocation in the current registry snapshot.''
       @ blocker (si_metadataOnly input) ''metadata_only'' sev_context
           ''Preview used metadata-only inputs, so token and density estimates are rough.''
       @ blocker (be_required branch \<and> be_status branch = br_ineligible) ''branch_ineligible'' sev_reducer
           BRANCH_INELIGIBLE
       @ blocker (be_required branch \<and> be_status branch = br_unknown) ''branch_eligibility_missing'' sev_context
           (if be_evidenceProvided branch then BRANCH_UNKNOWN else BRANCH_MISSING)
       @ blocker (\<not> sg_baseTokenGatePassed gates) ''base_token_gate'' sev_blocker
           ''Source token score does not pass the current base-score token gate.''
       @ blocker (se_openPrMultiplier est = 0) ''open_pr_threshold'' sev_blocker
           (''Open PR count '' @ num_str (sg_openPrCount gates) @ '' exceeds threshold ''
             @ num_str (sg_openPrThreshold gates) @ ''.'')
       @ blocker (se_openIssueMultiplier est = 0) ''open_issue_threshold'' sev_blocker
           (''Open issue count '' @ num_str (sg_openIssueCount gates) @ '' exceeds spam threshold ''
             @ num_str (sg_openIssueThreshold gates) @ ''.'')
       @ blocker (sg_credibilityObserved gates < sg_credibilityFloor gates) ''credibility_floor'' sev_reducer
           (''Credibility '' @ num_str (roundScore (sg_credibilityObserved gates)) @ '' is below floor ''
             @ num_str (sg_credibilityFloor gates) @ ''.'')
       @ blocker (se_reviewPenaltyMultiplier est < 1) ''review_penalty'' sev_reducer
           ''Change-request history reduces the estimate.''
       @ blocker (ld_mode linked = mode_standard \<and> ld_status linked = st_invalid) ''linked_issue_invalid'' sev_reducer
           (ld_reason linked)
       @ blocker (ld_mode linked = mode_standard \<and> ld_status linked \<in> {st_raw, st_plausible, st_unavailable})
           ''linked_issue_unvalidated'' sev_context (ld_reason linked)
       @ blocker (nonNegative (si_observedStalePrCount input) > 0) ''stale_work'' sev_reducer
           (num_str (nonNegative (si_observedStalePrCount input))
             @ '' stale open PR(s) detected; consider closing stale work before opening new contributions.'')
       @ blocker (nonNegative (si_duplicateRiskCount input) > 0) ''duplicate_risk'' sev_reducer
           (num_str (nonNegative (si_duplicateRiskCount input))
             @ '' duplicate-risk issue(s) or PR(s) detected; verify there is no conflicting work before proceeding.''))"

definition deltaExplanationFor :: "ScoreCore \<Rightarrow> ScoreGateBlocker list \<Rightarrow> string" where
  "deltaExplanationFor core blockedBy =
     (let score = num_str (se_estimatedMergedScore (sc_scoreEstimate core));
          potential = num_str (se_pendingSaturationScore (sc_scoreEstimate core))
      in if blockedBy = [] then ''Currently scoreable at '' @ score @ ''; underlying potential '' @ potential @ ''.''
         else ''Effective score '' @ score @ ''; underlying potential '' @ potential @ ''; blocked or reduced by ''
           @ join '', '' (map sb_code blockedBy) @ ''.'')"

section \<open>Scenarios\<close>

datatype ScenarioName =
  sn_current | sn_cleanGates | sn_afterPendingMerges | sn_afterApprovedPrsMerge | sn_afterStalePrsClose
  | sn_linkedIssueFixed | sn_bestReasonableCase

datatype ScenarioSource = ss_current_data | ss_user_supplied | ss_github_observed | ss_gittensory_projection

record ScoreScenarioPreview =
  sp_name :: ScenarioName
  sp_source :: ScenarioSource
  sp_assumptions :: "string list"
  sp_core :: ScoreCore
  sp_effectiveEstimatedScore :: rat
  sp_underlyingPotentialScore :: rat
  sp_blockedBy :: "ScoreGateBlocker list"
  sp_deltaExplanation :: string

definition scenario ::
    "ScenarioName \<Rightarrow> ScenarioSource \<Rightarrow> ScorePreviewInput \<Rightarrow> ScoreCore \<Rightarrow> string list \<Rightarrow> RepositoryRecord option
     \<Rightarrow> ScoreScenarioPreview" where
  "scenario name source input core assumptions repo =
     (let blockedBy = blockedByFor input repo core (normalizeBranchEligibility input)
      in \<lparr>sp_name = name, sp_source = source, sp_assumptions = assumptions, sp_core = core,
          sp_effectiveEstimatedScore = se_estimatedMergedScore (sc_scoreEstimate core),
          sp_underlyingPotentialScore = se_pendingSaturationScore (sc_scoreEstimate core),
          sp_blockedBy = blockedBy, sp_deltaExplanation = deltaExplanationFor core blockedBy\<rparr>)"

definition observedScenarioNotes :: "ScorePreviewInput \<Rightarrow> string list" where
  "observedScenarioNotes input =
     (if nonNegative (si_observedDraftPrCount input) > 0
      then [num_str (nonNegative (si_observedDraftPrCount input)) @ '' draft PR(s) were excluded from likely-to-land projections.''] else [])
     @ (if nonNegative (si_observedBlockedPrCount input) > 0
        then [num_str (nonNegative (si_observedBlockedPrCount input)) @ '' blocked PR(s) were excluded from likely-to-land projections.''] else [])
     @ (if nonNegative (si_observedMaintainerPrCount input) > 0
        then [num_str (nonNegative (si_observedMaintainerPrCount input)) @ '' maintainer-lane PR(s) were kept out of outside-contributor projections.''] else [])
     @ nullish (si_observedScenarioNotes input) []"

definition user_pending :: "ScorePreviewInput \<Rightarrow> rat" where
  "user_pending input =
     max (nonNegative (si_pendingMergedPrCount input)) (nonNegative (si_approvedPrCount input))
       + nonNegative (si_pendingClosedPrCount input)"

definition expected_open_prs :: "ScorePreviewInput \<Rightarrow> ScoreCore \<Rightarrow> rat" where
  "expected_open_prs input current =
     (case si_expectedOpenPrCountAfterMerge input of
        Some n \<Rightarrow> nonNegative (Some n)
      | None \<Rightarrow> max 0 (sg_openPrCount (sc_gates current) - user_pending input))"

definition raised_credibility :: "ScoreCore \<Rightarrow> rat" where
  "raised_credibility current = max (sg_credibilityObserved (sc_gates current)) (sg_credibilityFloor (sc_gates current))"

definition projected_credibility :: "ScorePreviewInput \<Rightarrow> ScoreCore \<Rightarrow> rat" where
  "projected_credibility input current =
     (case si_projectedCredibility input of
        Some c \<Rightarrow> clamp c 0 1
      | None \<Rightarrow> if user_pending input > 0 then raised_credibility current else sg_credibilityObserved (sc_gates current))"

definition approval_credibility :: "ScorePreviewInput \<Rightarrow> ScoreCore \<Rightarrow> rat" where
  "approval_credibility input current =
     (if nonNegative (si_observedApprovedPrCount input) > 0 then raised_credibility current
      else sg_credibilityObserved (sc_gates current))"

definition afterApprovedInput :: "ScorePreviewInput \<Rightarrow> ScoreCore \<Rightarrow> ScorePreviewInput" where
  "afterApprovedInput input current =
     input\<lparr>si_openPrCount := Some (max 0 (sg_openPrCount (sc_gates current) - nonNegative (si_observedApprovedPrCount input))),
       si_credibility := Some (approval_credibility input current)\<rparr>"

definition afterStaleInput :: "ScorePreviewInput \<Rightarrow> ScoreCore \<Rightarrow> ScorePreviewInput" where
  "afterStaleInput input current =
     input\<lparr>si_openPrCount := Some (max 0 (sg_openPrCount (sc_gates current) - nonNegative (si_observedStalePrCount input))),
       si_credibility := Some (sg_credibilityObserved (sc_gates current))\<rparr>"

definition cleanGatesInput :: "ScorePreviewInput \<Rightarrow> ScoreCore \<Rightarrow> ScorePreviewInput" where
  "cleanGatesInput input current =
     input\<lparr>si_openPrCount := Some (min (sg_openPrCount (sc_gates current)) (sg_openPrThreshold (sc_gates current))),
       si_credibility := Some (raised_credibility current)\<rparr>"

definition afterPendingInput :: "ScorePreviewInput \<Rightarrow> ScoreCore \<Rightarrow> ScorePreviewInput" where
  "afterPendingInput input current =
     input\<lparr>si_openPrCount := Some (expected_open_prs input current),
       si_credibility := Some (projected_credibility input current)\<rparr>"

definition bestReasonableInput :: "ScorePreviewInput \<Rightarrow> ScoreCore \<Rightarrow> ScorePreviewInput" where
  "bestReasonableInput input current =
     (let gates = sc_gates current;
          combined = user_pending input + nonNegative (si_observedApprovedPrCount input) + nonNegative (si_observedStalePrCount input)
      in (withValidatedLinkedIssueScenario input)\<lparr>
           si_openPrCount := Some (min
             (if si_expectedOpenPrCountAfterMerge input \<noteq> None then expected_open_prs input current
              else max 0 (sg_openPrCount gates - combined)) (sg_openPrThreshold gates)),
           si_openIssueCount := Some (min (sg_openIssueCount gates) (sg_openIssueThreshold gates)),
           si_credibility := Some (max (max (projected_credibility input current) (approval_credibility input current))
             (sg_credibilityFloor gates))\<rparr>)"

definition pending_assumptions :: "ScorePreviewInput \<Rightarrow> ScoreCore \<Rightarrow> string list" where
  "pending_assumptions input current =
     [if user_pending input > 0
      then num_str (user_pending input) @ '' pending merged/closed PR(s) are treated as no longer open for this scenario''
        @ (if si_pendingScenarioObserved input then [] else '' (caller-supplied)'') @ ''.''
      else ''No pending merge/close count was supplied; this scenario preserves current open PR pressure.'']
     @ (if si_projectedCredibility input \<noteq> None
        then [''Projected credibility is user-supplied as '' @ num_str (roundScore (projected_credibility input current)) @ ''.'']
        else if user_pending input > 0
        then [''Projected credibility is raised to the current floor '' @ num_str (sg_credibilityFloor (sc_gates current))
          @ '' because pending merges are expected to land.'']
        else [])
     @ nullish (si_scenarioNotes input) []"

definition approved_assumptions :: "ScorePreviewInput \<Rightarrow> ScoreCore \<Rightarrow> string list" where
  "approved_assumptions input current =
     (let approved = nonNegative (si_observedApprovedPrCount input)
      in [if approved > 0
          then num_str approved @ '' GitHub-observed approved or mergeable open PR(s) are treated as no longer open if they merge.''
          else ''No GitHub-observed approved or mergeable open PRs were available for this scenario.'']
       @ (if approved > 0 then [''Projected credibility is raised to the current floor ''
            @ num_str (sg_credibilityFloor (sc_gates current)) @ '' after observed mergeable work lands.''] else [])
       @ observedScenarioNotes input)"

definition stale_assumptions :: "ScorePreviewInput \<Rightarrow> string list" where
  "stale_assumptions input =
     (let stale = nonNegative (si_observedStalePrCount input); closed = nonNegative (si_observedClosedPrCount input)
      in [if stale > 0
          then num_str stale @ '' GitHub-observed stale open PR(s) are treated as no longer open if they close or withdraw.''
          else ''No GitHub-observed stale open PRs were available for this scenario.'']
       @ (if closed > 0 then [num_str closed
            @ '' GitHub-observed already-closed PR(s) are excluded because they no longer contribute to open PR pressure.''] else [])
       @ [''Credibility is not increased in this scenario because stale cleanup is not the same as merged work.'']
       @ observedScenarioNotes input)"

definition buildScenarioPreviews ::
    "(rat \<Rightarrow> rat) \<Rightarrow> ScorePreviewInput \<Rightarrow> RepositoryRecord option \<Rightarrow> ScoringModelSnapshot \<Rightarrow> ContributorEvidence option
     \<Rightarrow> ScoreCore \<Rightarrow> ScoreScenarioPreview list" where
  "buildScenarioPreviews mexp input repo snapshot evidence current =
     (let core = (\<lambda>i. computeScoreCore mexp i repo snapshot evidence);
          linkedIssueInput = withValidatedLinkedIssueScenario input
      in [scenario sn_current ss_current_data input current
            [''Current cached/account state and supplied local diff metadata.''] repo,
          scenario sn_cleanGates ss_gittensory_projection (cleanGatesInput input current) (core (cleanGatesInput input current))
            [''Open PR and credibility gates are projected as cleared; branch metadata is otherwise unchanged.''] repo,
          scenario sn_afterPendingMerges
            (if si_pendingScenarioObserved input then ss_github_observed
             else if user_pending input > 0 \<or> si_expectedOpenPrCountAfterMerge input \<noteq> None \<or> si_projectedCredibility input \<noteq> None
             then ss_user_supplied else ss_gittensory_projection)
            (afterPendingInput input current) (core (afterPendingInput input current)) (pending_assumptions input current) repo,
          scenario sn_afterApprovedPrsMerge ss_github_observed (afterApprovedInput input current)
            (core (afterApprovedInput input current)) (approved_assumptions input current) repo,
          scenario sn_afterStalePrsClose ss_github_observed (afterStaleInput input current)
            (core (afterStaleInput input current)) (stale_assumptions input) repo,
          scenario sn_linkedIssueFixed ss_gittensory_projection linkedIssueInput (core linkedIssueInput)
            [if nullish (si_linkedIssueMode input) mode_none = mode_none
             then ''A standard linked-issue/no-issue rationale multiplier is projected as solved-by-PR validated.''
             else ''Linked issue mode was already supplied; this scenario projects solved-by-PR validation where needed.''] repo,
          scenario sn_bestReasonableCase ss_gittensory_projection (bestReasonableInput input current)
            (core (bestReasonableInput input current))
            ([''Combines plausible near-term gate cleanup: open PR pressure at threshold or below, open-issue spam pressure at threshold or below, credibility at floor or above, and linked-issue context where applicable.'']
             @ nullish (si_scenarioNotes input) [] @ observedScenarioNotes input) repo])"

section \<open>The preview\<close>

datatype DeltaGate = dg_open_pr_threshold | dg_open_issue_threshold | dg_credibility_floor | dg_linked_issue_multiplier

record ScoreGateDelta =
  gd_gate :: DeltaGate
  gd_current :: string
  gd_projected :: string
  gd_explanation :: string

definition score_change :: "ScoreCore \<Rightarrow> ScoreCore \<Rightarrow> string" where
  "score_change from_core to_core =
     num_str (se_estimatedMergedScore (sc_scoreEstimate from_core)) @ '' -> ''
       @ num_str (se_estimatedMergedScore (sc_scoreEstimate to_core)) @ ''.''"

definition pr_pressure :: "ScoreCore \<Rightarrow> string" where
  "pr_pressure core =
     num_str (sg_openPrCount (sc_gates core)) @ ''/'' @ num_str (sg_openPrThreshold (sc_gates core))
       @ '' open PRs, multiplier '' @ num_str (se_openPrMultiplier (sc_scoreEstimate core))"

definition issue_pressure :: "ScoreCore \<Rightarrow> string" where
  "issue_pressure core =
     num_str (sg_openIssueCount (sc_gates core)) @ ''/'' @ num_str (sg_openIssueThreshold (sc_gates core))
       @ '' open issues, multiplier '' @ num_str (se_openIssueMultiplier (sc_scoreEstimate core))"

definition credibility_text :: "string \<Rightarrow> ScoreCore \<Rightarrow> string" where
  "credibility_text kind core =
     num_str (roundScore (sg_credibilityObserved (sc_gates core))) @ kind
       @ num_str (se_credibilityMultiplier (sc_scoreEstimate core))"

definition find_scenario :: "ScenarioName \<Rightarrow> ScoreScenarioPreview list \<Rightarrow> ScoreScenarioPreview option" where
  "find_scenario name scenarios = List.find (\<lambda>s. sp_name s = name) scenarios"

definition buildGateDeltas :: "ScoreCore \<Rightarrow> ScoreScenarioPreview list \<Rightarrow> ScoreGateDelta list" where
  "buildGateDeltas current scenarios =
     (case scenarios of [] \<Rightarrow> []
      | currentScenario # _ \<Rightarrow>
          (let best0 = nullish (find_scenario sn_bestReasonableCase scenarios) currentScenario;
               best = sp_core best0;
               linked = sp_core (nullish (find_scenario sn_linkedIssueFixed scenarios) best0);
               cur = sc_scoreEstimate current; bst = sc_scoreEstimate best; lnk = sc_scoreEstimate linked
           in (if se_openPrMultiplier cur \<noteq> se_openPrMultiplier bst
                  \<or> sg_openPrCount (sc_gates current) \<noteq> sg_openPrCount (sc_gates best)
               then [\<lparr>gd_gate = dg_open_pr_threshold, gd_current = pr_pressure current, gd_projected = pr_pressure best,
                 gd_explanation = ''Open PR pressure changes estimated score '' @ score_change current best\<rparr>] else [])
            @ (if se_openIssueMultiplier cur \<noteq> se_openIssueMultiplier bst
                  \<or> sg_openIssueCount (sc_gates current) \<noteq> sg_openIssueCount (sc_gates best)
               then [\<lparr>gd_gate = dg_open_issue_threshold, gd_current = issue_pressure current, gd_projected = issue_pressure best,
                 gd_explanation = ''Open issue spam pressure changes estimated score '' @ score_change current best\<rparr>] else [])
            @ (if sg_credibilityObserved (sc_gates current) \<noteq> sg_credibilityObserved (sc_gates best)
                  \<or> se_credibilityMultiplier cur \<noteq> se_credibilityMultiplier bst
               then [\<lparr>gd_gate = dg_credibility_floor, gd_current = credibility_text '' observed, multiplier '' current,
                 gd_projected = credibility_text '' projected, multiplier '' best,
                 gd_explanation = ''Credibility changes estimated score '' @ score_change current best\<rparr>] else [])
            @ (if se_issueMultiplier cur \<noteq> se_issueMultiplier lnk
               then [\<lparr>gd_gate = dg_linked_issue_multiplier, gd_current = num_str (se_issueMultiplier cur),
                 gd_projected = num_str (se_issueMultiplier lnk),
                 gd_explanation = ''Linked issue/no-issue context changes estimated score '' @ score_change current linked\<rparr>] else [])))"

definition warningsFor ::
    "ScorePreviewInput \<Rightarrow> RepositoryRecord option \<Rightarrow> ScoreCore \<Rightarrow> BranchEligibilityResult \<Rightarrow> string list" where
  "warningsFor input repo core branch =
     dedupe (map sb_detail (blockedByFor input repo core branch) @ ld_warnings (sc_linkedIssueMultiplier core))"

datatype ScoreabilityStatus = status_blocked | status_conditionally_scoreable | status_scoreable | status_hold

definition statusFor ::
    "RepositoryRecord option \<Rightarrow> ScoreGateBlocker list \<Rightarrow> rat \<Rightarrow> ScoreScenarioPreview list \<Rightarrow> ScoreabilityStatus" where
  "statusFor repo blockedBy effective scenarios =
     (if \<not> repo_registered repo \<or> list_ex (\<lambda>b. sb_code b = ''inactive_allocation'') blockedBy then status_hold
      else if effective > 0 \<and> \<not> list_ex (\<lambda>b. sb_severity b = sev_blocker) blockedBy then status_scoreable
      else if list_ex (\<lambda>s. sp_name s \<noteq> sn_current \<and> sp_effectiveEstimatedScore s > effective) scenarios
      then status_conditionally_scoreable
      else status_blocked)"

datatype RecommendationLevel = level_strong_fit | level_reasonable_fit | level_needs_work | level_hold

record ScorePreviewResult =
  pv_repoFullName :: string
  pv_generatedAt :: string
  pv_scoringModelSnapshotId :: string
  pv_activeModel :: ActiveModel
  pv_core :: ScoreCore
  pv_branchEligibility :: BranchEligibilityResult
  pv_effectiveEstimatedScore :: rat
  pv_underlyingPotentialScore :: rat
  pv_blockedBy :: "ScoreGateBlocker list"
  pv_gateDeltas :: "ScoreGateDelta list"
  pv_scenarioPreviews :: "ScoreScenarioPreview list"
  pv_scoreabilityStatus :: ScoreabilityStatus
  pv_warnings :: "string list"
  pv_assumptions :: "string list"
  pv_level :: RecommendationLevel
  pv_actions :: "string list"

definition linked_status_name :: "LinkedIssueStatus \<Rightarrow> string" where
  "linked_status_name s = (case s of st_not_required \<Rightarrow> ''not_required'' | st_raw \<Rightarrow> ''raw'' | st_plausible \<Rightarrow> ''plausible''
     | st_validated \<Rightarrow> ''validated'' | st_invalid \<Rightarrow> ''invalid'' | st_unavailable \<Rightarrow> ''unavailable'')"

definition preview_actions :: "RepositoryRecord option \<Rightarrow> ScoreCore \<Rightarrow> BranchEligibilityResult \<Rightarrow> string list" where
  "preview_actions repo core branch =
     (let est = sc_scoreEstimate core; linked = sc_linkedIssueMultiplier core
      in (if \<not> sg_baseTokenGatePassed (sc_gates core)
          then [''Increase meaningful source change size or scope clarity before relying on this preview.''] else [])
       @ (if se_openPrMultiplier est = 0 then [''Land or close existing open PRs before opening more concurrent work.''] else [])
       @ (if se_openIssueMultiplier est = 0 then [''Close excess open issues to stay within the open-issue spam threshold.''] else [])
       @ (if se_credibilityMultiplier est < 1 then [''Build or wait for contributor credibility evidence before relying on this preview.''] else [])
       @ (if se_reviewPenaltyMultiplier est < 1 then [''Reduce review churn with tighter tests and clearer evidence.''] else [])
       @ (if se_labelMultiplier est \<le> 1 \<and> (case repo_config repo of None \<Rightarrow> False | Some c \<Rightarrow> cfg_labelMultipliers c \<noteq> [])
          then [''Check whether the change legitimately matches one of the repo'' @ [CHR 0x27] @ ''s configured trusted labels.''] else [])
       @ (if be_required branch \<and> be_status branch = br_ineligible
          then [''Use an eligible branch or remove linked-issue assumptions before relying on this preview.''] else [])
       @ (if be_required branch \<and> (\<not> be_evidenceProvided branch \<or> be_stale branch)
          then [''Refresh branch/base eligibility metadata before relying on linked-issue assumptions.''] else [])
       @ (if ld_mode linked = mode_standard \<and> \<not> ld_eligible linked
          then [''Validate linked issue context with solved-by-PR evidence before relying on the standard issue multiplier.''] else []))"

definition HOLD_WARNING :: rx where
  "HOLD_WARNING = Alt [Lit ''not registered'', Lit ''no active'', Lit ''exceeds'']"

definition buildScorePreview ::
    "(rat \<Rightarrow> rat) \<Rightarrow> string \<Rightarrow> ScorePreviewInput \<Rightarrow> RepositoryRecord option \<Rightarrow> ScoringModelSnapshot
     \<Rightarrow> ContributorEvidence option \<Rightarrow> ScorePreviewResult" where
  "buildScorePreview mexp now input repo snapshot evidence =
     (let branch = normalizeBranchEligibility input;
          current = computeScoreCore mexp input repo snapshot evidence;
          scenarios = buildScenarioPreviews mexp input repo snapshot evidence current;
          blockedBy = blockedByFor input repo current branch;
          effective = se_estimatedMergedScore (sc_scoreEstimate current);
          status = statusFor repo blockedBy effective scenarios;
          warnings = sm_warnings snapshot @ warningsFor input repo current branch;
          actions = preview_actions repo current branch;
          linked = sc_linkedIssueMultiplier current
      in \<lparr>pv_repoFullName = si_repoFullName input, pv_generatedAt = now, pv_scoringModelSnapshotId = sm_id snapshot,
          pv_activeModel = sm_activeModel snapshot, pv_core = current, pv_branchEligibility = branch,
          pv_effectiveEstimatedScore = effective,
          pv_underlyingPotentialScore = se_pendingSaturationScore (sc_scoreEstimate current),
          pv_blockedBy = blockedBy, pv_gateDeltas = buildGateDeltas current scenarios, pv_scenarioPreviews = scenarios,
          pv_scoreabilityStatus = status, pv_warnings = warnings,
          pv_assumptions =
            [''Advisory preview only; tied to the recorded scoring model snapshot and cached Gittensory data.'',
             ''No future outcome or exact payout is guaranteed.'',
             ''Private API/MCP output only; public comments intentionally omit these details.'',
             ''Linked issue multiplier status: '' @ linked_status_name (ld_status linked) @ ''; '' @ ld_reason linked]
            @ be_warnings branch
            @ map (\<lambda>note. ''User scenario note: '' @ note) (nullish (si_scenarioNotes input) []),
          pv_level =
            (if status = status_hold \<or> list_ex (rx_test_i HOLD_WARNING) warnings then level_hold
             else if effective \<ge> 30 \<and> warnings = [] then level_strong_fit
             else if effective \<ge> 15 then level_reasonable_fit else level_needs_work),
          pv_actions = (if actions \<noteq> [] then actions
             else [''Keep the PR focused, linked, tested, and easy for maintainers to review.''])\<rparr>)"

end
