(* ===== verification/Score_Gates.thy ===== *)
theory Score_Gates
  imports Scoring
begin

text \<open>
  What the score preview guarantees: which scenario is the best one, when a contribution is
  scoreable, how the score moves with its inputs and between which bounds it lies.
\<close>

section \<open>Rounding and clamping\<close>

lemma roundScore_mono: "x \<le> y \<Longrightarrow> roundScore x \<le> roundScore y"
  unfolding roundScore_def
  by (intro divide_right_mono) (simp_all add: js_round_mono mult_right_mono)

lemma roundScore_zero [simp]: "roundScore 0 = 0"
  using js_round_of_int [of 0] by (simp add: roundScore_def)

lemma roundScore_one [simp]: "roundScore 1 = 1"
  using js_round_of_int [of 10000] by (simp add: roundScore_def)

lemma roundScore_nonneg: "0 \<le> x \<Longrightarrow> 0 \<le> roundScore x"
  using roundScore_mono [of 0 x] by simp

lemma clamp_mono: "x \<le> y \<Longrightarrow> clamp x lo hi \<le> clamp y lo hi"
  by (auto simp: clamp_def)

lemma clamp_bounds: "lo \<le> hi \<Longrightarrow> lo \<le> clamp x lo hi \<and> clamp x lo hi \<le> hi"
  by (auto simp: clamp_def)

lemma clamp_id: "lo \<le> x \<Longrightarrow> x \<le> hi \<Longrightarrow> clamp x lo hi = x"
  by (auto simp: clamp_def)

lemma nonNegative_nonneg [simp]: "0 \<le> nonNegative v"
  by (auto simp: nonNegative_def split: option.split)

lemma nonNegative_Some: "nonNegative (Some x) = max 0 x"
  by (simp add: nonNegative_def)

lemma within_limit_bounds [simp]: "0 \<le> within_limit c t" "within_limit c t \<le> 1"
  by (simp_all add: within_limit_def)

lemma within_limit_antitone: "c \<le> d \<Longrightarrow> within_limit d t \<le> within_limit c t"
  by (auto simp: within_limit_def)

lemma within_limit_lowered: "0 \<le> c \<Longrightarrow> within_limit c t \<le> within_limit (nonNegative (Some (min d t))) t"
  by (auto simp: within_limit_def nonNegative_Some)

lemma credibility_multiplier_mono:
  "0 \<le> x \<Longrightarrow> x \<le> y \<Longrightarrow> credibility_multiplier x f \<le> credibility_multiplier y f"
  by (auto simp: credibility_multiplier_def divide_right_mono intro: order_trans)

lemma credibility_multiplier_bounds:
  "0 \<le> x \<Longrightarrow> 0 \<le> credibility_multiplier x f \<and> credibility_multiplier x f \<le> 1"
  by (auto simp: credibility_multiplier_def)

lemma credibility_observed_bounds: "0 \<le> credibility_observed i e" "credibility_observed i e \<le> 1"
  using clamp_bounds [of 0 1] by (simp_all add: credibility_observed_def)

lemma review_penalty_bounds: "0 \<le> review_penalty_multiplier i k" "review_penalty_multiplier i k \<le> 1"
  using clamp_bounds [of 0 1] by (simp_all add: review_penalty_multiplier_def)

section \<open>The score as a product\<close>

definition label_multiplier :: "ScorePreviewInput \<Rightarrow> RegistryRepoConfig option \<Rightarrow> rat" where
  "label_multiplier input config = selectLabelMultiplier (nullish (si_labels input) [])
     (case config of None \<Rightarrow> [] | Some c \<Rightarrow> cfg_labelMultipliers c) (nullish (Option.bind config cfg_defaultLabelMultiplier) 1)"

definition decay_multiplier :: "(rat \<Rightarrow> rat) \<Rightarrow> ScorePreviewInput \<Rightarrow> RegistryRepoConfig option \<Rightarrow> (string \<rightharpoonup> rat) \<Rightarrow> rat" where
  "decay_multiplier mexp input config constants =
     (if si_applyTimeDecay input
      then calculateTimeDecay mexp (nonNegative (si_prAgeHours input)) constants (Option.bind config cfg_timeDecay) else 1)"

definition issue_multiplier :: "ScorePreviewInput \<Rightarrow> (string \<rightharpoonup> rat) \<Rightarrow> rat" where
  "issue_multiplier input constants = ld_appliedMultiplier
     (decideLinkedIssueMultiplier (nullish (si_linkedIssueMode input) mode_none) (si_linkedIssueContext input)
       constants (normalizeBranchEligibility input))"

text \<open>What the scenarios leave alone.\<close>

definition own_value ::
    "(rat \<Rightarrow> rat) \<Rightarrow> ScorePreviewInput \<Rightarrow> RepositoryRecord option \<Rightarrow> ScoringModelSnapshot \<Rightarrow> rat" where
  "own_value mexp input repo snapshot =
     base_score mexp input (repo_config repo) (sm_activeModel snapshot) (sm_constants snapshot)
     * label_multiplier input (repo_config repo) * review_penalty_multiplier input (sm_constants snapshot)
     * decay_multiplier mexp input (repo_config repo) (sm_constants snapshot)"

definition gate_value :: "ScorePreviewInput \<Rightarrow> ScoringModelSnapshot \<Rightarrow> ContributorEvidence option \<Rightarrow> rat" where
  "gate_value input snapshot evidence =
     issue_multiplier input (sm_constants snapshot)
     * credibility_multiplier (credibility_observed input evidence) (credibility_floor (sm_constants snapshot))
     * within_limit (nonNegative (si_openPrCount input)) (open_pr_threshold input (sm_constants snapshot))
     * within_limit (nonNegative (si_openIssueCount input)) (open_issue_threshold input (sm_constants snapshot))"

abbreviation merged_score ::
    "(rat \<Rightarrow> rat) \<Rightarrow> ScorePreviewInput \<Rightarrow> RepositoryRecord option \<Rightarrow> ScoringModelSnapshot \<Rightarrow> ContributorEvidence option \<Rightarrow> rat" where
  "merged_score mexp i repo snapshot evidence \<equiv>
     se_estimatedMergedScore (sc_scoreEstimate (computeScoreCore mexp i repo snapshot evidence))"

lemma merged_score_product:
  "merged_score mexp input repo snapshot evidence =
     roundScore (own_value mexp input repo snapshot * gate_value input snapshot evidence)"
  by (simp add: computeScoreCore_def Let_def own_value_def gate_value_def label_multiplier_def decay_multiplier_def
      issue_multiplier_def mult_ac)

lemma core_gates:
  "sg_openPrCount (sc_gates (computeScoreCore mexp i repo snapshot e)) = nonNegative (si_openPrCount i)"
  "sg_openPrThreshold (sc_gates (computeScoreCore mexp i repo snapshot e)) = open_pr_threshold i (sm_constants snapshot)"
  "sg_openIssueCount (sc_gates (computeScoreCore mexp i repo snapshot e)) = nonNegative (si_openIssueCount i)"
  "sg_openIssueThreshold (sc_gates (computeScoreCore mexp i repo snapshot e)) = open_issue_threshold i (sm_constants snapshot)"
  "sg_credibilityObserved (sc_gates (computeScoreCore mexp i repo snapshot e)) = credibility_observed i e"
  "sg_credibilityFloor (sc_gates (computeScoreCore mexp i repo snapshot e)) = credibility_floor (sm_constants snapshot)"
  by (simp_all add: computeScoreCore_def Let_def)

text \<open>A scenario changes the counts, the credibility and the linked issue only.\<close>

definition same_work :: "ScorePreviewInput \<Rightarrow> ScorePreviewInput \<Rightarrow> bool" where
  "same_work i j \<longleftrightarrow> (\<exists>m c p q r. j = i\<lparr>si_linkedIssueMode := m, si_linkedIssueContext := c,
     si_openPrCount := p, si_openIssueCount := q, si_credibility := r\<rparr>)"

lemma same_work_fields:
  assumes "same_work i j"
  shows "source_tokens j = source_tokens i" "total_tokens j k = total_tokens i k"
    and "density_multiplier j k = density_multiplier i k" "si_fixedBaseScore j = si_fixedBaseScore i"
    and "label_multiplier j config = label_multiplier i config"
    and "decay_multiplier mexp j config k = decay_multiplier mexp i config k"
    and "review_penalty_multiplier j k = review_penalty_multiplier i k"
    and "earned_threshold j = earned_threshold i"
    and "si_existingContributorTokenScore j = si_existingContributorTokenScore i"
  using assms by (auto simp: same_work_def source_tokens_def total_tokens_def density_multiplier_def
      applyNonCodeLineCap_def label_multiplier_def decay_multiplier_def review_penalty_multiplier_def earned_threshold_def fun_eq_iff)

lemma same_work_value:
  assumes "same_work i j"
  shows "own_value mexp j repo snapshot = own_value mexp i repo snapshot"
    and "open_pr_threshold j k = open_pr_threshold i k" "open_issue_threshold j k = open_issue_threshold i k"
  unfolding own_value_def base_score_def density_gate_def open_pr_threshold_def open_issue_threshold_def
    same_work_fields [OF assms] by (rule refl)+

text \<open>
  With a value that is not negative, the inputs that pass more gates, have more credibility and no
  smaller issue multiplier score at least as much.
\<close>

lemma merged_score_le:
  assumes "same_work i j" "same_work i l" and nonneg: "0 \<le> own_value mexp i repo snapshot"
    and "0 \<le> issue_multiplier j k" "issue_multiplier j k \<le> issue_multiplier l k"
    and "credibility_observed j e \<le> credibility_observed l e"
    and "within_limit (nonNegative (si_openPrCount j)) (open_pr_threshold i k)
      \<le> within_limit (nonNegative (si_openPrCount l)) (open_pr_threshold i k)"
    and "within_limit (nonNegative (si_openIssueCount j)) (open_issue_threshold i k)
      \<le> within_limit (nonNegative (si_openIssueCount l)) (open_issue_threshold i k)"
    and k: "k = sm_constants snapshot"
  shows "merged_score mexp j repo snapshot e \<le> merged_score mexp l repo snapshot e"
proof -
  have "0 \<le> credibility_multiplier (credibility_observed j e) (credibility_floor k)"
    using credibility_multiplier_bounds credibility_observed_bounds(1) by blast
  moreover have "credibility_multiplier (credibility_observed j e) (credibility_floor k)
      \<le> credibility_multiplier (credibility_observed l e) (credibility_floor k)"
    by (rule credibility_multiplier_mono [OF credibility_observed_bounds(1) assms(6)])
  ultimately have "gate_value j snapshot e \<le> gate_value l snapshot e"
    unfolding gate_value_def same_work_value [OF assms(1)] same_work_value [OF assms(2)] k [symmetric]
    using assms(4,5,7,8) by (intro mult_mono mult_nonneg_nonneg) auto
  then show ?thesis
    unfolding merged_score_product same_work_value(1) [OF assms(1)] same_work_value(1) [OF assms(2)]
    using nonneg by (intro roundScore_mono mult_left_mono)
qed

section \<open>The issue multiplier\<close>

lemma issue_multiplier_standard:
  assumes "1 \<le> constant_of k ''STANDARD_ISSUE_MULTIPLIER'' (133 / 100)" "nullish (si_linkedIssueMode i) mode_none \<noteq> mode_maintainer"
  shows "1 \<le> issue_multiplier i k" "issue_multiplier i k \<le> issue_multiplier (withValidatedLinkedIssueScenario i) k"
proof -
  have maint: "si_linkedIssueMode i \<noteq> Some mode_maintainer" using assms(2) by auto
  let ?j = "withValidatedLinkedIssueScenario i"
  have j: "issue_multiplier ?j k = (if isConfirmedBranchEligible (normalizeBranchEligibility ?j)
      then constant_of k ''STANDARD_ISSUE_MULTIPLIER'' (133 / 100) else 1)"
    using maint by (simp add: issue_multiplier_def withValidatedLinkedIssueScenario_def decideLinkedIssueMultiplier_def Let_def
        resolvedStatus_def requestedStatus_def hasSolvedByPullRequestEvidence_def selectIssueMultiplier_def)
  show "1 \<le> issue_multiplier i k"
    using assms by (auto simp: issue_multiplier_def decideLinkedIssueMultiplier_def Let_def selectIssueMultiplier_def
        split: LinkedIssueMode.split)
  show "issue_multiplier i k \<le> issue_multiplier ?j k"
  proof (cases "si_linkedIssueMode i = Some mode_standard")
    case True
    then have "normalizeBranchEligibility ?j = normalizeBranchEligibility i"
      by (simp add: normalizeBranchEligibility_def withValidatedLinkedIssueScenario_def Let_def)
    with True assms(1) j show ?thesis
      by (auto simp: issue_multiplier_def decideLinkedIssueMultiplier_def Let_def selectIssueMultiplier_def)
  next
    case False
    then have "nullish (si_linkedIssueMode i) mode_none = mode_none"
      using maint by (cases "si_linkedIssueMode i") (auto intro: LinkedIssueMode.exhaust)
    then have "issue_multiplier i k = 1" by (simp add: issue_multiplier_def decideLinkedIssueMultiplier_def Let_def)
    with j assms(1) show ?thesis by simp
  qed
qed

section \<open>The best scenario\<close>

text \<open>Values that are not negative: the constants and the configuration the score multiplies.\<close>

definition exp_like :: "(rat \<Rightarrow> rat) \<Rightarrow> bool" where
  "exp_like mexp \<longleftrightarrow> (\<forall>x. 0 \<le> mexp x) \<and> (\<forall>x \<le> 0. mexp x \<le> 1)"

definition base_constants_ok :: "(string \<rightharpoonup> rat) \<Rightarrow> bool" where
  "base_constants_ok k \<longleftrightarrow>
     0 \<le> constant_of k ''MERGED_PR_BASE_SCORE'' 25 \<and> 0 \<le> constant_of k ''MAX_CONTRIBUTION_BONUS'' 5 \<and>
     0 \<le> constant_of k ''MAX_CODE_DENSITY_MULTIPLIER'' (115 / 100) \<and>
     0 < constant_of k ''CONTRIBUTION_SCORE_FOR_FULL_BONUS'' 1500"

definition config_ok :: "RegistryRepoConfig option \<Rightarrow> bool" where
  "config_ok config \<longleftrightarrow> (case config of None \<Rightarrow> True
     | Some c \<Rightarrow> list_all (\<lambda>(_, m). 0 \<le> m) (cfg_labelMultipliers c) \<and> 0 \<le> nullish (cfg_defaultLabelMultiplier c) 1
         \<and> 0 \<le> nullish (cfg_fixedBaseScore c) 0)"

lemma foldl_max_nonneg: "0 \<le> m \<Longrightarrow> 0 \<le> foldl max m (ms :: rat list)"
  by (induction ms arbitrary: m) (auto simp: le_max_iff_disj)

lemma chosen_nonneg:
  "\<forall>m \<in> set ms. 0 \<le> m \<Longrightarrow> 0 \<le> fallback \<Longrightarrow>
   0 \<le> (case ms of [] \<Rightarrow> if fallback = 0 then 1 else fallback | m # ms \<Rightarrow> foldl max m (ms :: rat list))"
  by (cases ms) (auto intro: foldl_max_nonneg)

lemma label_multiplier_nonneg:
  assumes "config_ok config" shows "0 \<le> label_multiplier input config"
proof -
  have "0 \<le> selectLabelMultiplier labels multipliers fallback"
    if "list_all (\<lambda>(_, m). 0 \<le> m) multipliers" "0 \<le> fallback" for labels multipliers fallback
  proof -
    let ?matched = "map snd (filter (\<lambda>(label, _). toLowerCase label \<in> set (map toLowerCase labels)) multipliers)"
    have "\<forall>m \<in> set ?matched. 0 \<le> m" using that(1) by (auto simp: list_all_iff)
    then show ?thesis unfolding selectLabelMultiplier_def Let_def by (rule chosen_nonneg) (rule that(2))
  qed
  from this [of "case config of None \<Rightarrow> [] | Some c \<Rightarrow> cfg_labelMultipliers c"
      "nullish (Option.bind config cfg_defaultLabelMultiplier) 1"]
  show ?thesis using assms by (cases config) (auto simp: label_multiplier_def config_ok_def)
qed

lemma ramp_bounds:
  assumes "base_constants_ok k"
  shows "0 \<le> contributionBonusRamp t k" "contributionBonusRamp t k \<le> constant_of k ''MAX_CONTRIBUTION_BONUS'' 5"
  using assms clamp_bounds [of 0 1 "t / constant_of k ''CONTRIBUTION_SCORE_FOR_FULL_BONUS'' 1500"]
  by (auto simp: contributionBonusRamp_def base_constants_ok_def mult_left_le_one_le)

lemma saturation_bounds:
  assumes "base_constants_ok k" "exp_like mexp" "0 \<le> s"
  shows "0 \<le> saturationScore mexp s t k"
    and "saturationScore mexp s t k \<le> constant_of k ''MERGED_PR_BASE_SCORE'' 25 + constant_of k ''MAX_CONTRIBUTION_BONUS'' 5"
proof -
  let ?e = "mexp (- s / max (constant_of k ''SRC_TOK_SATURATION_SCALE'' 58) 1)"
  have "- s / max (constant_of k ''SRC_TOK_SATURATION_SCALE'' 58) 1 \<le> 0"
    using assms(3) by (intro divide_nonpos_pos) (auto simp: less_max_iff_disj)
  then have e: "0 \<le> ?e" "?e \<le> 1" using assms(2) by (auto simp: exp_like_def)
  have m: "0 \<le> constant_of k ''MERGED_PR_BASE_SCORE'' 25" using assms(1) by (simp add: base_constants_ok_def)
  then have "0 \<le> constant_of k ''MERGED_PR_BASE_SCORE'' 25 * (1 - ?e)"
    and "constant_of k ''MERGED_PR_BASE_SCORE'' 25 * (1 - ?e) \<le> constant_of k ''MERGED_PR_BASE_SCORE'' 25"
    using e by (auto intro: mult_left_le)
  then show "0 \<le> saturationScore mexp s t k"
    and "saturationScore mexp s t k \<le> constant_of k ''MERGED_PR_BASE_SCORE'' 25 + constant_of k ''MAX_CONTRIBUTION_BONUS'' 5"
    using ramp_bounds [OF assms(1), of t] by (auto simp: saturationScore_def Let_def saturationContributionBonus_def)
qed

lemma base_score_nonneg:
  assumes "base_constants_ok k" "exp_like mexp" "config_ok config" "0 \<le> nullish (si_fixedBaseScore i) 0"
  shows "0 \<le> base_score mexp i config model k"
proof -
  have d: "0 \<le> density_multiplier i k"
    using clamp_bounds assms(1) by (auto simp: density_multiplier_def Let_def base_constants_ok_def)
  have s: "0 \<le> source_tokens i" by (simp add: source_tokens_def)
  have m: "0 \<le> constant_of k ''MERGED_PR_BASE_SCORE'' 25" using assms(1) by (simp add: base_constants_ok_def)
  show ?thesis
    using assms(3,4) saturation_bounds(1) [OF assms(1,2) s] ramp_bounds(1) [OF assms(1)] mult_nonneg_nonneg [OF m d]
    by (auto simp: base_score_def config_ok_def split: option.splits)
qed

lemma decay_bounds:
  assumes "exp_like mexp" "0 \<le> td_minMultiplier (resolveTimeDecay k overrides)"
  shows "0 \<le> calculateTimeDecay mexp h k overrides"
    and "td_minMultiplier (resolveTimeDecay k overrides) \<le> 1 \<Longrightarrow> calculateTimeDecay mexp h k overrides \<le> 1"
  using assms by (auto simp: calculateTimeDecay_def Let_def exp_like_def le_max_iff_disj divide_le_eq_1 add_nonneg_nonneg
      intro: add_pos_nonneg)

definition score_inputs_ok ::
    "(rat \<Rightarrow> rat) \<Rightarrow> ScorePreviewInput \<Rightarrow> RepositoryRecord option \<Rightarrow> (string \<rightharpoonup> rat) \<Rightarrow> bool" where
  "score_inputs_ok mexp input repo k \<longleftrightarrow>
     exp_like mexp \<and> base_constants_ok k \<and> config_ok (repo_config repo) \<and> 0 \<le> nullish (si_fixedBaseScore input) 0 \<and>
     0 \<le> td_minMultiplier (resolveTimeDecay k (Option.bind (repo_config repo) cfg_timeDecay))"

lemma own_value_nonneg:
  "score_inputs_ok mexp input repo (sm_constants snapshot) \<Longrightarrow> 0 \<le> own_value mexp input repo snapshot"
  unfolding own_value_def score_inputs_ok_def
  by (intro mult_nonneg_nonneg base_score_nonneg label_multiplier_nonneg review_penalty_bounds)
    (auto simp: decay_multiplier_def intro: decay_bounds)

lemma same_work_scenarios:
  "same_work i i" "same_work i (cleanGatesInput i c)" "same_work i (afterPendingInput i c)"
  "same_work i (afterApprovedInput i c)" "same_work i (afterStaleInput i c)"
  "same_work i (withValidatedLinkedIssueScenario i)" "same_work i (bestReasonableInput i c)"
proof -
  have eta: "i = i\<lparr>si_linkedIssueMode := si_linkedIssueMode i, si_linkedIssueContext := si_linkedIssueContext i,
      si_openPrCount := si_openPrCount i, si_openIssueCount := si_openIssueCount i, si_credibility := si_credibility i\<rparr>"
    by simp
  show "same_work i i" unfolding same_work_def using eta by blast
  have counts: "same_work i (i\<lparr>si_openPrCount := p, si_credibility := r\<rparr>)" for p r
    unfolding same_work_def
    by (rule exI [of _ "si_linkedIssueMode i"], rule exI [of _ "si_linkedIssueContext i"], rule exI [of _ p],
        rule exI [of _ "si_openIssueCount i"], rule exI [of _ r]) simp
  show "same_work i (cleanGatesInput i c)" "same_work i (afterPendingInput i c)"
    "same_work i (afterApprovedInput i c)" "same_work i (afterStaleInput i c)"
    by (simp_all add: cleanGatesInput_def afterPendingInput_def afterApprovedInput_def afterStaleInput_def counts)
  have linked: "same_work i (i\<lparr>si_linkedIssueMode := m, si_linkedIssueContext := x\<rparr>)" for m x
    unfolding same_work_def
    by (rule exI [of _ m], rule exI [of _ x], rule exI [of _ "si_openPrCount i"],
        rule exI [of _ "si_openIssueCount i"], rule exI [of _ "si_credibility i"]) simp
  show v: "same_work i (withValidatedLinkedIssueScenario i)"
    using \<open>same_work i i\<close> linked by (simp add: withValidatedLinkedIssueScenario_def Let_def)
  have "same_work i (j\<lparr>si_openPrCount := p, si_openIssueCount := q, si_credibility := r\<rparr>)" if "same_work i j" for j p q r
    using that unfolding same_work_def by fastforce
  with v show "same_work i (bestReasonableInput i c)" by (simp add: bestReasonableInput_def Let_def)
qed

lemma issue_multiplier_counts [simp]:
  "issue_multiplier (i\<lparr>si_openPrCount := p, si_openIssueCount := q, si_credibility := r\<rparr>) k = issue_multiplier i k"
  "issue_multiplier (i\<lparr>si_openPrCount := p, si_credibility := r\<rparr>) k = issue_multiplier i k"
  by (simp_all add: issue_multiplier_def normalizeBranchEligibility_def)

lemma credibility_given: "si_credibility i = Some c \<Longrightarrow> credibility_observed i e = clamp c 0 1"
  by (simp add: credibility_observed_def)

lemma maintainer_unchanged:
  "nullish (si_linkedIssueMode i) mode_none = mode_maintainer \<Longrightarrow> withValidatedLinkedIssueScenario i = i"
  by (cases "si_linkedIssueMode i") (simp_all add: withValidatedLinkedIssueScenario_def)

definition scenario_inputs :: "ScorePreviewInput \<Rightarrow> ScoreCore \<Rightarrow> ScorePreviewInput list" where
  "scenario_inputs i current =
     [i, cleanGatesInput i current, afterPendingInput i current, afterApprovedInput i current, afterStaleInput i current,
      withValidatedLinkedIssueScenario i, bestReasonableInput i current]"

lemma scenario_scores:
  assumes "current = computeScoreCore mexp i repo snapshot e"
  shows "map sp_effectiveEstimatedScore (buildScenarioPreviews mexp i repo snapshot e current) =
    map (\<lambda>j. merged_score mexp j repo snapshot e) (scenario_inputs i current)"
  by (simp add: buildScenarioPreviews_def Let_def scenario_def scenario_inputs_def assms)

lemma best_credibility:
  assumes "current = computeScoreCore mexp i repo snapshot e" and "j \<in> set (scenario_inputs i current)"
  shows "credibility_observed j e \<le> credibility_observed (bestReasonableInput i current) e"
proof -
  let ?o = "credibility_observed i e" and ?f = "credibility_floor (sm_constants snapshot)"
  let ?best = "max (max (projected_credibility i current) (approval_credibility i current)) ?f"
  have cur: "sg_credibilityObserved (sc_gates current) = ?o" "sg_credibilityFloor (sc_gates current) = ?f"
    by (simp_all add: assms(1) core_gates)
  have best: "credibility_observed (bestReasonableInput i current) e = clamp ?best 0 1"
    by (rule credibility_given) (simp add: bestReasonableInput_def Let_def cur)
  have appr: "?o \<le> approval_credibility i current" by (simp add: approval_credibility_def raised_credibility_def cur)
  have o: "clamp ?o 0 1 = ?o" using clamp_id credibility_observed_bounds by metis
  have valid: "credibility_observed (withValidatedLinkedIssueScenario i) e = ?o"
    by (simp add: credibility_observed_def withValidatedLinkedIssueScenario_def Let_def)
  have le: "c \<le> ?best \<Longrightarrow> clamp c 0 1 \<le> clamp ?best 0 1" for c by (rule clamp_mono)
  have obs: "?o \<le> clamp ?best 0 1" using le [of ?o] appr o by simp
  have raised: "raised_credibility current \<le> ?best"
    using appr by (auto simp: raised_credibility_def cur le_max_iff_disj)
  have "credibility_observed (cleanGatesInput i current) e = clamp (raised_credibility current) 0 1"
    "credibility_observed (afterPendingInput i current) e = clamp (projected_credibility i current) 0 1"
    "credibility_observed (afterApprovedInput i current) e = clamp (approval_credibility i current) 0 1"
    "credibility_observed (afterStaleInput i current) e = clamp ?o 0 1"
    by (simp_all add: credibility_given cleanGatesInput_def afterPendingInput_def afterApprovedInput_def afterStaleInput_def cur)
  then have "credibility_observed j e = ?o \<or> (\<exists>c \<le> ?best. credibility_observed j e = clamp c 0 1)"
    using assms(2) valid best raised o by (auto simp: scenario_inputs_def intro: exI [of _ "projected_credibility i current"]
        exI [of _ "approval_credibility i current"] exI [of _ "raised_credibility current"] exI [of _ ?best])
  then show ?thesis using obs le best by auto
qed

lemma scenario_issue_multiplier:
  assumes "j \<in> set (scenario_inputs i current)"
  shows "issue_multiplier j k \<in> {issue_multiplier i k, issue_multiplier (withValidatedLinkedIssueScenario i) k}"
    and "issue_multiplier (bestReasonableInput i current) k = issue_multiplier (withValidatedLinkedIssueScenario i) k"
  using assms by (auto simp: scenario_inputs_def cleanGatesInput_def afterPendingInput_def afterApprovedInput_def
      afterStaleInput_def bestReasonableInput_def Let_def)

lemma scenario_issue_count:
  assumes "j \<in> set (scenario_inputs i current)" "current = computeScoreCore mexp i repo snapshot e"
  shows "si_openIssueCount j \<in> {si_openIssueCount i, si_openIssueCount (bestReasonableInput i current)}"
  using assms(1) by (auto simp: scenario_inputs_def cleanGatesInput_def afterPendingInput_def afterApprovedInput_def
      afterStaleInput_def bestReasonableInput_def withValidatedLinkedIssueScenario_def Let_def)

lemma scenario_below_best:
  assumes current: "current = computeScoreCore mexp i repo snapshot e" and j: "j \<in> set (scenario_inputs i current)"
    and ok: "score_inputs_ok mexp i repo (sm_constants snapshot)"
    and std: "1 \<le> constant_of (sm_constants snapshot) ''STANDARD_ISSUE_MULTIPLIER'' (133 / 100)"
    and mnt: "0 \<le> constant_of (sm_constants snapshot) ''MAINTAINER_ISSUE_MULTIPLIER'' (166 / 100)"
  shows "merged_score mexp j repo snapshot e \<le> merged_score mexp (bestReasonableInput i current) repo snapshot e"
proof (rule merged_score_le [OF _ _ own_value_nonneg [OF ok] _ _ best_credibility [OF current j] _ _ refl])
  let ?k = "sm_constants snapshot" and ?best = "bestReasonableInput i current"
  show "same_work i j" using j same_work_scenarios by (auto simp: scenario_inputs_def)
  show "same_work i ?best" by (rule same_work_scenarios)
  have le: "issue_multiplier i ?k \<le> issue_multiplier (withValidatedLinkedIssueScenario i) ?k \<and> 0 \<le> issue_multiplier i ?k"
  proof (cases "nullish (si_linkedIssueMode i) mode_none = mode_maintainer")
    case True
    then have "issue_multiplier i ?k = constant_of ?k ''MAINTAINER_ISSUE_MULTIPLIER'' (166 / 100)"
      by (simp add: issue_multiplier_def decideLinkedIssueMultiplier_def Let_def selectIssueMultiplier_def)
    with mnt maintainer_unchanged [OF True] show ?thesis by simp
  next
    case False
    from issue_multiplier_standard [OF std False] show ?thesis by simp
  qed
  then show "0 \<le> issue_multiplier j ?k" "issue_multiplier j ?k \<le> issue_multiplier ?best ?k"
    using scenario_issue_multiplier [OF j, of ?k] by auto
  have "si_openPrCount ?best = Some (min (if si_expectedOpenPrCountAfterMerge i \<noteq> None then expected_open_prs i current
      else max 0 (sg_openPrCount (sc_gates current) - (user_pending i + nonNegative (si_observedApprovedPrCount i)
        + nonNegative (si_observedStalePrCount i)))) (open_pr_threshold i ?k))"
    using current by (simp add: bestReasonableInput_def Let_def core_gates)
  then show "within_limit (nonNegative (si_openPrCount j)) (open_pr_threshold i ?k)
      \<le> within_limit (nonNegative (si_openPrCount ?best)) (open_pr_threshold i ?k)"
    using within_limit_lowered [OF nonNegative_nonneg] by simp
  have "si_openIssueCount ?best = Some (min (nonNegative (si_openIssueCount i)) (open_issue_threshold i ?k))"
    using current by (simp add: bestReasonableInput_def Let_def core_gates)
  then show "within_limit (nonNegative (si_openIssueCount j)) (open_issue_threshold i ?k)
      \<le> within_limit (nonNegative (si_openIssueCount ?best)) (open_issue_threshold i ?k)"
    using within_limit_lowered [OF nonNegative_nonneg] by simp
qed

text \<open>
  The scenario called the best reasonable case is the best one. When the constants and the
  configuration the score multiplies are not negative and the standard issue multiplier is at least
  1, no scenario of a preview, the current state included, has a higher effective score than the
  last one; so a preview whose best case does not improve on the current score cannot call the
  contribution conditionally scoreable.
\<close>

theorem best_case_is_best:
  assumes "score_inputs_ok mexp input repo (sm_constants snapshot)"
    and "1 \<le> constant_of (sm_constants snapshot) ''STANDARD_ISSUE_MULTIPLIER'' (133 / 100)"
    and "0 \<le> constant_of (sm_constants snapshot) ''MAINTAINER_ISSUE_MULTIPLIER'' (166 / 100)"
    and "preview = buildScorePreview mexp now input repo snapshot evidence"
  shows "list_all (\<lambda>s. sp_effectiveEstimatedScore s \<le> sp_effectiveEstimatedScore (last (pv_scenarioPreviews preview)))
      (pv_scenarioPreviews preview) \<and>
    sp_name (last (pv_scenarioPreviews preview)) = sn_bestReasonableCase \<and>
    (pv_scoreabilityStatus preview = status_conditionally_scoreable \<longrightarrow>
      pv_effectiveEstimatedScore preview < sp_effectiveEstimatedScore (last (pv_scenarioPreviews preview)))"
proof -
  define current where "current = computeScoreCore mexp input repo snapshot evidence"
  define best where "best = merged_score mexp (bestReasonableInput input current) repo snapshot evidence"
  let ?s = "buildScenarioPreviews mexp input repo snapshot evidence current"
  have pv: "pv_scenarioPreviews preview = ?s" "pv_effectiveEstimatedScore preview = se_estimatedMergedScore (sc_scoreEstimate current)"
    using assms(4) by (simp_all add: buildScorePreview_def Let_def current_def)
  have last: "sp_effectiveEstimatedScore (last ?s) = best" "sp_name (last ?s) = sn_bestReasonableCase"
    by (simp_all add: buildScenarioPreviews_def Let_def scenario_def best_def)
  have "x \<le> best" if "x \<in> set (map sp_effectiveEstimatedScore ?s)" for x
    using that scenario_below_best [OF current_def _ assms(1-3)] unfolding scenario_scores [OF current_def] best_def by auto
  then have all: "list_all (\<lambda>s. sp_effectiveEstimatedScore s \<le> best) ?s" by (simp add: list_all_iff)
  moreover have "pv_effectiveEstimatedScore preview < best"
    if "pv_scoreabilityStatus preview = status_conditionally_scoreable"
  proof -
    from that obtain s where "s \<in> set ?s" "pv_effectiveEstimatedScore preview < sp_effectiveEstimatedScore s"
      using assms(4) by (auto simp: buildScorePreview_def Let_def current_def statusFor_def list_ex_iff split: if_splits)
    with all show ?thesis by (auto simp: list_all_iff)
  qed
  ultimately show ?thesis using pv last by simp
qed

text \<open>A change of 40 source tokens by a contributor with five open pull requests and little credibility.\<close>

definition demo_exp :: "rat \<Rightarrow> rat" where
  "demo_exp x = (if x \<le> 0 then 1 / (1 - x) else 1 + x)"

definition demo_score_input :: ScorePreviewInput where
  "demo_score_input =
     \<lparr>si_repoFullName = ''o/r'', si_labels = None, si_linkedIssueMode = None, si_linkedIssueContext = None,
      si_sourceTokenScore = Some 40, si_totalTokenScore = None, si_sourceLines = None, si_testTokenScore = None,
      si_nonCodeTokenScore = None, si_nonCodeLines = None, si_existingContributorTokenScore = None,
      si_openPrCount = Some 5, si_openIssueCount = Some 1, si_credibility = Some (1 / 2), si_changesRequestedCount = Some 1,
      si_fixedBaseScore = None, si_metadataOnly = False, si_pendingMergedPrCount = None, si_pendingClosedPrCount = None,
      si_approvedPrCount = None, si_observedApprovedPrCount = None, si_observedStalePrCount = None,
      si_observedClosedPrCount = None, si_observedDraftPrCount = None, si_observedBlockedPrCount = None,
      si_observedMaintainerPrCount = None, si_duplicateRiskCount = None, si_expectedOpenPrCountAfterMerge = None,
      si_projectedCredibility = None, si_scenarioNotes = None, si_pendingScenarioObserved = False,
      si_observedScenarioNotes = None, si_branchEligibility = None, si_prAgeHours = None, si_applyTimeDecay = False\<rparr>"

definition demo_snapshot :: ScoringModelSnapshot where
  "demo_snapshot = \<lparr>sm_id = ''s'', sm_activeModel = current_density_model, sm_constants = Map.empty, sm_warnings = []\<rparr>"

lemma demo_exp_like: "exp_like demo_exp"
  by (simp add: exp_like_def demo_exp_def)

lemma demo_constants: "base_constants_ok Map.empty" "config_ok None" "sm_constants demo_snapshot = Map.empty"
  by (simp_all add: base_constants_ok_def config_ok_def constant_of_def demo_snapshot_def)

lemma demo_inputs_ok: "score_inputs_ok demo_exp demo_score_input None (sm_constants demo_snapshot)"
  using demo_constants by (simp add: score_inputs_ok_def demo_exp_like demo_score_input_def repo_config_def
      resolveTimeDecay_def constant_of_def)

theorem best_case_is_best_witness:
  "list_all (\<lambda>s. sp_effectiveEstimatedScore s
        \<le> sp_effectiveEstimatedScore (last (pv_scenarioPreviews (buildScorePreview demo_exp [] demo_score_input None demo_snapshot None))))
      (pv_scenarioPreviews (buildScorePreview demo_exp [] demo_score_input None demo_snapshot None))"
  using best_case_is_best [OF demo_inputs_ok _ _ refl, of "[]" None] demo_constants(3)
  by (simp add: constant_of_def)

section \<open>When a contribution is scoreable\<close>

lemma blocker_Nil: "blocker c code sev d = [] \<longleftrightarrow> \<not> c"
  by (simp add: blocker_def)

lemma list_ex_blocker: "list_ex P (blocker c code sev d) \<longleftrightarrow> c \<and> P \<lparr>sb_code = code, sb_severity = sev, sb_detail = d\<rparr>"
  by (simp add: blocker_def)

lemma hard_blockers:
  "list_ex (\<lambda>b. sb_severity b = sev_blocker) (blockedByFor input repo core branch) \<longleftrightarrow>
     \<not> repo_registered repo \<or> lm_repoEmissionShare (sc_laneMath core) \<le> 0 \<or> \<not> sg_baseTokenGatePassed (sc_gates core) \<or>
     se_openPrMultiplier (sc_scoreEstimate core) = 0 \<or> se_openIssueMultiplier (sc_scoreEstimate core) = 0"
  by (auto simp: blockedByFor_def Let_def list_ex_blocker)

lemma inactive_blocker:
  "list_ex (\<lambda>b. sb_code b = ''inactive_allocation'') (blockedByFor input repo core branch) \<longleftrightarrow>
     lm_repoEmissionShare (sc_laneMath core) \<le> 0"
  by (auto simp: blockedByFor_def Let_def list_ex_blocker)

lemma within_limit_zero: "within_limit c t = 0 \<longleftrightarrow> t < c"
  by (auto simp: within_limit_def)

lemma core_multipliers:
  "se_openPrMultiplier (sc_scoreEstimate (computeScoreCore mexp i repo snapshot e))
     = within_limit (nonNegative (si_openPrCount i)) (open_pr_threshold i (sm_constants snapshot))"
  "se_openIssueMultiplier (sc_scoreEstimate (computeScoreCore mexp i repo snapshot e))
     = within_limit (nonNegative (si_openIssueCount i)) (open_issue_threshold i (sm_constants snapshot))"
  "lm_repoEmissionShare (sc_laneMath (computeScoreCore mexp i repo snapshot e))
     = clamp (case repo_config repo of None \<Rightarrow> 0 | Some c \<Rightarrow> cfg_emissionShare c) 0 1"
  "sg_baseTokenGatePassed (sc_gates (computeScoreCore mexp i repo snapshot e)) \<longleftrightarrow>
     (if sm_activeModel snapshot = pending_saturation_model then source_tokens i > 0 else density_gate i (sm_constants snapshot))"
  by (simp_all add: computeScoreCore_def Let_def)

text \<open>
  What it takes to be scoreable. A preview calls a contribution scoreable exactly when the
  repository is registered with a positive emission share, the source tokens pass the gate of the
  active model, the open pull requests and the open issues are within the thresholds the
  contributor earned, and the estimated score is positive.
\<close>

theorem scoreable_iff:
  "pv_scoreabilityStatus (buildScorePreview mexp now input repo snapshot evidence) = status_scoreable \<longleftrightarrow>
     repo_registered repo \<and>
     (\<exists>c. repo_config repo = Some c \<and> 0 < cfg_emissionShare c) \<and>
     (if sm_activeModel snapshot = pending_saturation_model then 0 < source_tokens input
      else constant_of (sm_constants snapshot) ''MIN_TOKEN_SCORE_FOR_BASE_SCORE'' 5 \<le> source_tokens input) \<and>
     nonNegative (si_openPrCount input) \<le> open_pr_threshold input (sm_constants snapshot) \<and>
     nonNegative (si_openIssueCount input) \<le> open_issue_threshold input (sm_constants snapshot) \<and>
     0 < pv_effectiveEstimatedScore (buildScorePreview mexp now input repo snapshot evidence)"
proof -
  have share: "clamp (case config of None \<Rightarrow> 0 | Some c \<Rightarrow> cfg_emissionShare c) 0 1 \<le> 0 \<longleftrightarrow>
      \<not> (\<exists>c. config = Some c \<and> 0 < cfg_emissionShare c)" for config
    by (auto simp: clamp_def split: option.split)
  show ?thesis
    by (simp add: buildScorePreview_def Let_def statusFor_def hard_blockers inactive_blocker core_multipliers
        within_limit_zero share density_gate_def not_less not_le)
qed

section \<open>How the score moves, and between which bounds\<close>

lemma decay_antitone:
  assumes "exp_like mexp" "mono mexp" "0 \<le> td_sigmoidSteepness (resolveTimeDecay k overrides)"
    and "0 \<le> td_minMultiplier (resolveTimeDecay k overrides)" "td_minMultiplier (resolveTimeDecay k overrides) \<le> 1" "h \<le> h'"
  shows "calculateTimeDecay mexp h' k overrides \<le> calculateTimeDecay mexp h k overrides"
proof (cases "h < td_gracePeriodHours (resolveTimeDecay k overrides)")
  case True
  then show ?thesis using decay_bounds(2) [OF assms(1,4,5)] by (simp add: calculateTimeDecay_def Let_def)
next
  case False
  let ?c = "resolveTimeDecay k overrides"
  let ?x = "\<lambda>h. td_sigmoidSteepness ?c * (h / 24 - td_sigmoidMidpointDays ?c)"
  have "?x h \<le> ?x h'" using assms(3,6) by (intro mult_left_mono) (simp_all add: divide_right_mono)
  then have "mexp (?x h) \<le> mexp (?x h')" by (rule monoD [OF assms(2)])
  moreover have "0 \<le> mexp (?x h)" using assms(1) by (simp add: exp_like_def)
  ultimately have "max (1 / (1 + mexp (?x h'))) (td_minMultiplier ?c) \<le> max (1 / (1 + mexp (?x h))) (td_minMultiplier ?c)"
    by (intro max.mono divide_left_mono) simp_all
  then show ?thesis using False assms(6) by (simp add: calculateTimeDecay_def Let_def)
qed

definition worsened :: "rat \<Rightarrow> rat \<Rightarrow> rat \<Rightarrow> rat \<Rightarrow> rat \<Rightarrow> ContributorEvidence option \<Rightarrow> ScorePreviewInput \<Rightarrow> ScorePreviewInput" where
  "worsened reviews prs issues cred hours e i =
     i\<lparr>si_changesRequestedCount := Some (nonNegative (si_changesRequestedCount i) + reviews),
       si_openPrCount := Some (nonNegative (si_openPrCount i) + prs),
       si_openIssueCount := Some (nonNegative (si_openIssueCount i) + issues),
       si_credibility := Some (credibility_observed i e - cred),
       si_prAgeHours := Some (nonNegative (si_prAgeHours i) + hours)\<rparr>"

lemma worsened_fields:
  "source_tokens (worsened r p q c h e i) = source_tokens i" "total_tokens (worsened r p q c h e i) k = total_tokens i k"
  "density_multiplier (worsened r p q c h e i) k = density_multiplier i k"
  "si_fixedBaseScore (worsened r p q c h e i) = si_fixedBaseScore i"
  "label_multiplier (worsened r p q c h e i) config = label_multiplier i config"
  "earned_threshold (worsened r p q c h e i) = earned_threshold i"
  "issue_multiplier (worsened r p q c h e i) k = issue_multiplier i k"
  by (simp_all add: worsened_def source_tokens_def total_tokens_def density_multiplier_def applyNonCodeLineCap_def
      label_multiplier_def earned_threshold_def fun_eq_iff issue_multiplier_def normalizeBranchEligibility_def)

definition multipliers_ok :: "(string \<rightharpoonup> rat) \<Rightarrow> bool" where
  "multipliers_ok k \<longleftrightarrow> 0 \<le> constant_of k ''STANDARD_ISSUE_MULTIPLIER'' (133 / 100) \<and>
     0 \<le> constant_of k ''MAINTAINER_ISSUE_MULTIPLIER'' (166 / 100) \<and> 0 \<le> constant_of k ''REVIEW_PENALTY_RATE'' (15 / 100)"

lemma issue_multiplier_nonneg: "multipliers_ok k \<Longrightarrow> 0 \<le> issue_multiplier i k"
  by (cases "nullish (si_linkedIssueMode i) mode_none")
    (auto simp: multipliers_ok_def issue_multiplier_def decideLinkedIssueMultiplier_def Let_def selectIssueMultiplier_def)

lemma gate_value_nonneg: "multipliers_ok (sm_constants snapshot) \<Longrightarrow> 0 \<le> gate_value i snapshot e"
  unfolding gate_value_def
  by (intro mult_nonneg_nonneg issue_multiplier_nonneg) (use credibility_multiplier_bounds credibility_observed_bounds in auto)

definition decay_curve_ok :: "RepositoryRecord option \<Rightarrow> (string \<rightharpoonup> rat) \<Rightarrow> bool" where
  "decay_curve_ok repo k \<longleftrightarrow>
     0 \<le> td_sigmoidSteepness (resolveTimeDecay k (Option.bind (repo_config repo) cfg_timeDecay)) \<and>
     td_minMultiplier (resolveTimeDecay k (Option.bind (repo_config repo) cfg_timeDecay)) \<le> 1"

text \<open>
  C32: a worse standing never pays. More requested changes, more open pull requests, more open
  issues, less credibility and a greater age, in any combination, leave the estimated score where
  it was or lower it, provided the multipliers are not negative and the decay curve falls.
\<close>

theorem worse_standing_never_pays:
  assumes "score_inputs_ok mexp input repo (sm_constants snapshot)" "multipliers_ok (sm_constants snapshot)"
    and "mono mexp" "decay_curve_ok repo (sm_constants snapshot)"
    and "0 \<le> reviews" "0 \<le> prs" "0 \<le> issues" "0 \<le> cred" "0 \<le> hours"
  shows "merged_score mexp (worsened reviews prs issues cred hours evidence input) repo snapshot evidence
    \<le> merged_score mexp input repo snapshot evidence"
proof -
  let ?w = "worsened reviews prs issues cred hours evidence input" and ?k = "sm_constants snapshot"
  have base: "base_score mexp ?w c m ?k = base_score mexp input c m ?k" for c m
    unfolding base_score_def density_gate_def worsened_fields by (rule refl)
  have ok: "score_inputs_ok mexp ?w repo ?k" using assms(1) by (simp add: score_inputs_ok_def worsened_fields)
  have penalty: "review_penalty_multiplier ?w ?k \<le> review_penalty_multiplier input ?k"
    unfolding review_penalty_multiplier_def using assms(2,5)
    by (intro clamp_mono) (simp add: worsened_def nonNegative_Some review_penalty_rate_def multipliers_ok_def mult_right_mono)
  have decay: "decay_multiplier mexp ?w (repo_config repo) ?k \<le> decay_multiplier mexp input (repo_config repo) ?k"
    using assms(1,3,4,9) by (simp add: decay_multiplier_def worsened_def nonNegative_Some score_inputs_ok_def
        decay_curve_ok_def decay_antitone)
  have own: "own_value mexp ?w repo snapshot \<le> own_value mexp input repo snapshot"
    unfolding own_value_def base worsened_fields using assms(1) penalty decay
    by (intro mult_mono mult_nonneg_nonneg base_score_nonneg label_multiplier_nonneg review_penalty_bounds order_refl)
      (auto simp: score_inputs_ok_def decay_multiplier_def intro: decay_bounds)
  have "credibility_observed ?w evidence \<le> clamp (credibility_observed input evidence) 0 1"
    using assms(8) by (simp add: worsened_def credibility_given clamp_mono)
  also have "\<dots> = credibility_observed input evidence" by (rule clamp_id) (rule credibility_observed_bounds)+
  finally have "credibility_multiplier (credibility_observed ?w evidence) f
      \<le> credibility_multiplier (credibility_observed input evidence) f" for f
    by (rule credibility_multiplier_mono [OF credibility_observed_bounds(1)])
  moreover have "within_limit (nonNegative (si_openPrCount ?w)) t \<le> within_limit (nonNegative (si_openPrCount input)) t"
    "within_limit (nonNegative (si_openIssueCount ?w)) t \<le> within_limit (nonNegative (si_openIssueCount input)) t" for t
    using assms(6,7) by (auto simp: worsened_def nonNegative_Some intro!: within_limit_antitone)
  ultimately have "gate_value ?w snapshot evidence \<le> gate_value input snapshot evidence"
    unfolding gate_value_def open_pr_threshold_def open_issue_threshold_def worsened_fields
    using issue_multiplier_nonneg [OF assms(2)] credibility_multiplier_bounds [OF credibility_observed_bounds(1)]
    by (intro mult_mono mult_nonneg_nonneg) auto
  with own show ?thesis
    unfolding merged_score_product
    by (intro roundScore_mono mult_mono own_value_nonneg [OF assms(1)] gate_value_nonneg [OF assms(2)])
qed

lemma demo_mono: "mono demo_exp"
proof (rule monoI)
  fix x y :: rat
  assume "x \<le> y"
  consider "y \<le> 0" | "x \<le> 0" "0 < y" | "0 < x" by linarith
  then show "demo_exp x \<le> demo_exp y"
  proof cases
    case 1
    then have "1 / (1 - x) \<le> 1 / (1 - y)" using \<open>x \<le> y\<close> by (intro divide_left_mono mult_pos_pos) simp_all
    with 1 \<open>x \<le> y\<close> show ?thesis by (simp add: demo_exp_def)
  next
    case 2
    then have "1 / (1 - x) \<le> 1" by (intro divide_le_eq_1_pos [THEN iffD2]) simp_all
    also have "\<dots> \<le> 1 + y" using 2 by simp
    finally show ?thesis using 2 by (simp add: demo_exp_def)
  next
    case 3
    with \<open>x \<le> y\<close> show ?thesis by (simp add: demo_exp_def)
  qed
qed

lemma demo_multipliers: "multipliers_ok Map.empty" "decay_curve_ok None Map.empty"
  by (simp_all add: multipliers_ok_def decay_curve_ok_def constant_of_def resolveTimeDecay_def repo_config_def)

theorem worse_standing_never_pays_witness:
  "merged_score demo_exp (worsened 1 2 0 (1 / 4) 30 None demo_score_input) None demo_snapshot None
    \<le> merged_score demo_exp demo_score_input None demo_snapshot None"
  by (rule worse_standing_never_pays [OF demo_inputs_ok])
    (simp_all add: demo_mono demo_multipliers demo_constants)

lemma density_bounds:
  assumes "base_constants_ok k"
  shows "0 \<le> density_multiplier i k" "density_multiplier i k \<le> constant_of k ''MAX_CODE_DENSITY_MULTIPLIER'' (115 / 100)"
  using assms clamp_bounds by (auto simp: density_multiplier_def Let_def base_constants_ok_def)

definition highest_base :: "(string \<rightharpoonup> rat) \<Rightarrow> rat" where
  "highest_base k = constant_of k ''MERGED_PR_BASE_SCORE'' 25 * max 1 (constant_of k ''MAX_CODE_DENSITY_MULTIPLIER'' (115 / 100))
     + constant_of k ''MAX_CONTRIBUTION_BONUS'' 5"

lemma base_score_bound:
  assumes "base_constants_ok k" "exp_like mexp"
    and "si_fixedBaseScore i = None" "Option.bind config cfg_fixedBaseScore = None"
  shows "base_score mexp i config model k \<le> highest_base k"
proof -
  let ?m = "constant_of k ''MERGED_PR_BASE_SCORE'' 25" and ?d = "constant_of k ''MAX_CODE_DENSITY_MULTIPLIER'' (115 / 100)"
  have m: "0 \<le> ?m" using assms(1) by (simp add: base_constants_ok_def)
  have top: "?m \<le> ?m * max 1 ?d" using mult_left_mono [of 1 "max 1 ?d" ?m] m by simp
  have "density_multiplier i k \<le> max 1 ?d" using density_bounds(2) [OF assms(1), of i] by simp
  then have dens: "?m * density_multiplier i k \<le> ?m * max 1 ?d" using m by (rule mult_left_mono)
  have "0 \<le> source_tokens i" by (simp add: source_tokens_def)
  note sat = saturation_bounds(2) [OF assms(1,2) this, of "total_tokens i k"]
  note ramp = ramp_bounds(2) [OF assms(1), of "total_tokens i k"]
  have "0 \<le> ?m * max 1 ?d" using top m by (rule order_trans [rotated])
  then show ?thesis using sat ramp top dens assms(3,4) by (auto simp: base_score_def highest_base_def)
qed

text \<open>
  The score is bounded by its constants. Without a fixed base score the estimate lies between 0
  and the base score times the larger of 1 and the density cap, plus the contribution bonus, times
  the multipliers of label and issue, whichever model is active; gates, credibility, review penalty
  and decay only take away from that.
\<close>

theorem score_bounded:
  assumes "score_inputs_ok mexp input repo (sm_constants snapshot)" "multipliers_ok (sm_constants snapshot)"
    and "decay_curve_ok repo (sm_constants snapshot)"
    and "si_fixedBaseScore input = None" "Option.bind (repo_config repo) cfg_fixedBaseScore = None"
  shows "0 \<le> merged_score mexp input repo snapshot evidence \<and>
    merged_score mexp input repo snapshot evidence \<le> roundScore
      (highest_base (sm_constants snapshot) * label_multiplier input (repo_config repo) * issue_multiplier input (sm_constants snapshot))"
proof -
  let ?k = "sm_constants snapshot" and ?c = "repo_config repo"
  let ?b = "base_score mexp input ?c (sm_activeModel snapshot) ?k" and ?l = "label_multiplier input ?c"
  have ok: "exp_like mexp" "base_constants_ok ?k" "config_ok ?c" using assms(1) by (simp_all add: score_inputs_ok_def)
  have l: "0 \<le> ?l" by (rule label_multiplier_nonneg [OF ok(3)])
  have b: "0 \<le> ?b" using assms(1) by (intro base_score_nonneg) (simp_all add: score_inputs_ok_def)
  have d: "0 \<le> decay_multiplier mexp input ?c ?k" "decay_multiplier mexp input ?c ?k \<le> 1"
    using assms(1,3) decay_bounds [OF ok(1)] by (auto simp: decay_multiplier_def score_inputs_ok_def decay_curve_ok_def)
  have "own_value mexp input repo snapshot \<le> ?b * ?l * 1 * 1"
    unfolding own_value_def using b l d review_penalty_bounds by (intro mult_mono) auto
  also have "\<dots> \<le> highest_base ?k * ?l"
    using mult_right_mono [OF base_score_bound [OF ok(2,1) assms(4,5)] l] by simp
  finally have own: "own_value mexp input repo snapshot \<le> highest_base ?k * ?l" .
  note cred = credibility_multiplier_bounds [OF credibility_observed_bounds(1)]
  have "gate_value input snapshot evidence \<le> issue_multiplier input ?k * 1 * 1 * 1"
    unfolding gate_value_def using cred issue_multiplier_nonneg [OF assms(2)] by (intro mult_mono) auto
  then have gate: "gate_value input snapshot evidence \<le> issue_multiplier input ?k" by simp
  note nonneg = own_value_nonneg [OF assms(1)] gate_value_nonneg [OF assms(2), of input evidence]
  have "own_value mexp input repo snapshot * gate_value input snapshot evidence
      \<le> highest_base ?k * ?l * issue_multiplier input ?k"
    using own gate nonneg by (intro mult_mono) auto
  moreover have "0 \<le> own_value mexp input repo snapshot * gate_value input snapshot evidence" using nonneg by simp
  ultimately show ?thesis unfolding merged_score_product by (simp add: roundScore_mono roundScore_nonneg)
qed

theorem score_bounded_witness:
  "0 \<le> merged_score demo_exp demo_score_input None demo_snapshot None \<and>
   merged_score demo_exp demo_score_input None demo_snapshot None \<le> roundScore (135 / 4)"
proof -
  have top: "highest_base (sm_constants demo_snapshot) * label_multiplier demo_score_input (repo_config None)
      * issue_multiplier demo_score_input (sm_constants demo_snapshot) = 135 / 4"
    by (simp add: highest_base_def demo_constants constant_of_def label_multiplier_def repo_config_def selectLabelMultiplier_def
        issue_multiplier_def demo_score_input_def decideLinkedIssueMultiplier_def Let_def)
  have "si_fixedBaseScore demo_score_input = None" "Option.bind (repo_config None) cfg_fixedBaseScore = None"
    by (simp_all add: demo_score_input_def repo_config_def)
  from score_bounded [OF demo_inputs_ok _ _ this, of None, unfolded top] demo_multipliers
  show ?thesis unfolding demo_constants(3) by blast
qed

section \<open>Branch evidence\<close>

text \<open>
  The source of the branch evidence is not looked at: what the caller supplied counts as much as
  what GitHub or the registry confirmed, although a reason for refusing it is spelled out.
\<close>

lemma branch_source_irrelevant:
  assumes "be_required branch \<Longrightarrow> be_status branch \<noteq> br_not_required"
  shows "decideLinkedIssueMultiplier mode c k (branch\<lparr>be_source := s\<rparr>) = decideLinkedIssueMultiplier mode c k branch"
  using assms by (cases "be_status branch"; cases mode)
    (auto simp: decideLinkedIssueMultiplier_def Let_def isConfirmedBranchEligible_def branchEligibilityFailureReason_def)

end
