(* ===== verification/Collisions.thy ===== *)
theory Collisions
  imports Slop "HOL-Library.AList"
begin

text \<open>
  The collision report of \<open>src/signals/engine.ts\<close>: which open issues and pull requests of a
  repository overlap, by a linked issue they share or by the words of their titles, labels and
  paths. A JavaScript \<open>Map\<close> is an association list under \<open>AList.update\<close> (a key keeps its place), a
  \<open>Set\<close> of words a list without duplicates. What the duplicate test
  of the slop gate finds is proved in \<open>Duplicates\<close>.
\<close>

section \<open>Words\<close>

definition STOPWORDS :: "string list" where
  "STOPWORDS = [''the'', ''and'', ''for'', ''with'', ''from'', ''this'', ''that'', ''when'', ''into'', ''issue'', ''pull'',
     ''request'', ''add'', ''fix'', ''update'', ''improve'']"

definition MAX_COLLISION_PAIRWISE_ISSUES :: nat where "MAX_COLLISION_PAIRWISE_ISSUES = 80"
definition MAX_COLLISION_PAIRWISE_PULL_REQUESTS :: nat where "MAX_COLLISION_PAIRWISE_PULL_REQUESTS = 120"
definition MAX_COLLISION_PAIRWISE_RECENT_MERGES :: nat where "MAX_COLLISION_PAIRWISE_RECENT_MERGES = 40"

text \<open>The limits of \<open>preflight-limits.ts\<close> that the collision terms use.\<close>

definition LIMIT_titleChars :: nat where "LIMIT_titleChars = 300"
definition LIMIT_bodyChars :: nat where "LIMIT_bodyChars = 20000"
definition LIMIT_labelChars :: nat where "LIMIT_labelChars = 100"
definition LIMIT_changedFileChars :: nat where "LIMIT_changedFileChars = 300"
definition LIMIT_labels :: nat where "LIMIT_labels = 50"
definition LIMIT_changedFiles :: nat where "LIMIT_changedFiles = 200"

definition word_char :: "char \<Rightarrow> bool" where
  "word_char c = class_match [Between CHR ''a'' CHR ''z'', Between CHR ''0'' CHR ''9''] c"

text \<open>\<open>split(/[^a-z0-9]+/g)\<close>; empty pieces are dropped by the length test anyway.\<close>

fun word_runs :: "string \<Rightarrow> string list" where
  "word_runs [] = [[]]"
| "word_runs (c # s) =
     (if word_char c then (case word_runs s of [] \<Rightarrow> [[c]] | w # ws \<Rightarrow> (c # w) # ws) else [] # word_runs s)"

definition tokenize :: "string \<Rightarrow> string list" where
  "tokenize s = filter (\<lambda>term. length term > 2 \<and> term \<notin> set STOPWORDS) (word_runs (toLowerCase s))"

definition boundedTextItems :: "string list option \<Rightarrow> nat \<Rightarrow> nat \<Rightarrow> string list" where
  "boundedTextItems values maxItems maxChars = map (take maxChars) (take maxItems (nullish values []))"

definition collisionItemText :: "CollisionItem \<Rightarrow> string" where
  "collisionItemText item = join '' '' (filter (\<lambda>s. s \<noteq> [])
     ([take LIMIT_titleChars (item_title item)]
      @ boundedTextItems (item_labels item) LIMIT_labels LIMIT_labelChars
      @ boundedTextItems (item_changedFiles item) LIMIT_changedFiles LIMIT_changedFileChars))"

definition collisionTerms :: "CollisionItem \<Rightarrow> string list" where
  "collisionTerms item = dedupe (tokenize (collisionItemText item))"

definition termOverlap :: "string list \<Rightarrow> string list \<Rightarrow> rat \<times> nat" where
  "termOverlap left right =
     (if left = [] \<or> right = [] then (0, 0)
      else (let (smaller, larger) = (if length left \<le> length right then (left, right) else (right, left));
                shared = length (filter (\<lambda>t. t \<in> set larger) smaller)
            in (of_nat shared / of_nat (min (length left) (length right)), shared)))"

section \<open>Items\<close>

record RecentMergedPullRequestRecord =
  rm_repoFullName :: string
  rm_number :: nat
  rm_title :: string
  rm_authorLogin :: "string option"
  rm_htmlUrl :: "string option"
  rm_mergedAt :: "string option"
  rm_labels :: "string list"
  rm_linkedIssues :: "nat list"
  rm_changedFiles :: "string list"

definition issueItem :: "IssueRecord \<Rightarrow> CollisionItem" where
  "issueItem issue = \<lparr>item_type = Item_issue, item_number = iss_number issue, item_title = iss_title issue,
     item_authorLogin = iss_authorLogin issue, item_htmlUrl = iss_htmlUrl issue, item_labels = Some (iss_labels issue),
     item_linkedIssues = Some [iss_number issue], item_changedFiles = None, item_body = iss_body issue\<rparr>"

definition prItem :: "PullRequestRecord \<Rightarrow> CollisionItem" where
  "prItem pr = \<lparr>item_type = Item_pull_request, item_number = pr_number pr, item_title = pr_title pr,
     item_authorLogin = pr_authorLogin pr, item_htmlUrl = pr_htmlUrl pr, item_labels = Some (pr_labels pr),
     item_linkedIssues = Some (pr_linkedIssues pr), item_changedFiles = None, item_body = pr_body pr\<rparr>"

definition recentMergedItem :: "RecentMergedPullRequestRecord \<Rightarrow> CollisionItem" where
  "recentMergedItem pr = \<lparr>item_type = Item_recent_merged_pull_request, item_number = rm_number pr, item_title = rm_title pr,
     item_authorLogin = rm_authorLogin pr, item_htmlUrl = rm_htmlUrl pr, item_labels = Some (rm_labels pr),
     item_linkedIssues = Some (rm_linkedIssues pr), item_changedFiles = Some (rm_changedFiles pr), item_body = None\<rparr>"

definition item_type_name :: "CollisionItemType \<Rightarrow> string" where
  "item_type_name t = (case t of Item_issue \<Rightarrow> ''issue'' | Item_pull_request \<Rightarrow> ''pull_request''
     | Item_recent_merged_pull_request \<Rightarrow> ''recent_merged_pull_request'')"

definition itemKey :: "CollisionItem \<Rightarrow> string" where
  "itemKey item = item_type_name (item_type item) @ CHR ''-'' # nat_str (item_number item)"

text \<open>The issues compared pairwise: those that an open pull request links first, at most 80.\<close>

fun select_issues :: "(IssueRecord \<Rightarrow> bool) \<Rightarrow> (nat \<times> IssueRecord) list \<Rightarrow> IssueRecord list \<Rightarrow> (nat \<times> IssueRecord) list" where
  "select_issues wanted selected [] = selected"
| "select_issues wanted selected (issue # issues) =
     (let selected' = (if wanted issue then AList.update (iss_number issue) issue selected else selected)
      in if length selected' \<ge> MAX_COLLISION_PAIRWISE_ISSUES then selected' else select_issues wanted selected' issues)"

definition boundedCollisionIssues :: "IssueRecord list \<Rightarrow> PullRequestRecord list \<Rightarrow> IssueRecord list" where
  "boundedCollisionIssues openIssues openPullRequests =
     (if length openIssues \<le> MAX_COLLISION_PAIRWISE_ISSUES then openIssues
      else (let linked = concat (map pr_linkedIssues openPullRequests);
                first = select_issues (\<lambda>i. iss_number i \<in> set linked) [] openIssues
            in map snd (if length first \<ge> MAX_COLLISION_PAIRWISE_ISSUES then first
                        else select_issues (\<lambda>_. True) first openIssues)))"

section \<open>Clusters\<close>

record CollisionReport =
  cr_repoFullName :: string
  cr_generatedAt :: string
  cr_clusterCount :: nat
  cr_highRiskCount :: nat
  cr_itemsReviewed :: nat
  cr_clusters :: "CollisionCluster list"
  cr_items :: "CollisionItem list"

text \<open>
  The words kept with a report are those of the last item under a key; \<open>cr_items\<close> stands for that
  cache.
\<close>

definition cached_terms :: "CollisionItem list \<Rightarrow> CollisionItem \<Rightarrow> string list" where
  "cached_terms items item =
     (case List.find (\<lambda>i. itemKey i = itemKey item) (rev items) of
        Some i \<Rightarrow> collisionTerms i | None \<Rightarrow> collisionTerms item)"

definition linked_pull_requests :: "PullRequestRecord list \<Rightarrow> nat \<Rightarrow> PullRequestRecord list" where
  "linked_pull_requests open_prs n = concat (map (\<lambda>pr. map (\<lambda>_. pr) (filter (\<lambda>i. i = n) (pr_linkedIssues pr))) open_prs)"

definition issue_cluster :: "PullRequestRecord list \<Rightarrow> IssueRecord \<Rightarrow> CollisionCluster option" where
  "issue_cluster open_prs issue =
     (let linkedPrs = linked_pull_requests open_prs (iss_number issue)
      in if linkedPrs = [] then None
         else Some \<lparr>cl_id = ''issue-'' @ nat_str (iss_number issue),
           cl_risk = (if length linkedPrs > 1 \<or> length (iss_linkedPrs issue) > 1 then Risk_high else Risk_medium),
           cl_reason = ''Open PR work references issue #'' @ nat_str (iss_number issue) @ ''.'',
           cl_items = issueItem issue # map prItem linkedPrs\<rparr>)"

definition put_cluster :: "CollisionCluster \<Rightarrow> (string \<times> CollisionCluster) list \<Rightarrow> (string \<times> CollisionCluster) list" where
  "put_cluster c clusters = AList.update (cl_id c) c clusters"

definition issue_clusters :: "PullRequestRecord list \<Rightarrow> IssueRecord list \<Rightarrow> (string \<times> CollisionCluster) list" where
  "issue_clusters open_prs issues =
     fold (\<lambda>issue clusters. case issue_cluster open_prs issue of None \<Rightarrow> clusters | Some c \<Rightarrow> put_cluster c clusters) issues []"

definition pair_key :: "CollisionItem \<Rightarrow> CollisionItem \<Rightarrow> string" where
  "pair_key left right =
     (if str_le (itemKey left) (itemKey right) then itemKey left @ ''--'' @ itemKey right
      else itemKey right @ ''--'' @ itemKey left)"

definition shared_issue :: "CollisionItem \<Rightarrow> CollisionItem \<Rightarrow> nat option" where
  "shared_issue left right =
     (case List.find (\<lambda>i. i \<in> set (nullish (item_linkedIssues right) [])) (nullish (item_linkedIssues left) []) of
        None \<Rightarrow> None | Some i \<Rightarrow> if i = 0 then None else Some i)"

definition pair_cluster :: "(CollisionItem \<Rightarrow> string list) \<Rightarrow> CollisionItem \<Rightarrow> CollisionItem \<Rightarrow> CollisionCluster option" where
  "pair_cluster terms left right =
     (case shared_issue left right of
        Some i \<Rightarrow>
          Some \<lparr>cl_id = pair_key left right,
            cl_risk = (if item_type right = Item_recent_merged_pull_request \<or> item_type left = Item_recent_merged_pull_request
                       then Risk_medium else Risk_high),
            cl_reason = ''Items reference the same linked issue #'' @ nat_str i @ ''.'', cl_items = [left, right]\<rparr>
      | None \<Rightarrow>
          (let (score, shared) = termOverlap (terms left) (terms right)
           in if score < 58 / 100 \<or> shared < 2 then None
              else Some \<lparr>cl_id = pair_key left right, cl_risk = (if score \<ge> 75 / 100 then Risk_high else Risk_medium),
                cl_reason = ''Titles/paths share '' @ nat_str shared @ '' meaningful terms.'', cl_items = [left, right]\<rparr>))"

fun pairs_of :: "'a list \<Rightarrow> ('a \<times> 'a) list" where
  "pairs_of [] = []"
| "pairs_of (x # xs) = map (\<lambda>y. (x, y)) xs @ pairs_of xs"

definition pair_step ::
    "(CollisionItem \<Rightarrow> string list) \<Rightarrow> CollisionItem \<times> CollisionItem \<Rightarrow> (string \<times> CollisionCluster) list
     \<Rightarrow> (string \<times> CollisionCluster) list" where
  "pair_step terms p clusters =
     (case pair_cluster terms (fst p) (snd p) of
        None \<Rightarrow> clusters
      | Some c \<Rightarrow> if cl_id c \<in> fst ` set clusters then clusters else put_cluster c clusters)"

fun riskRank :: "CollisionRisk \<Rightarrow> nat" where
  "riskRank Risk_high = 3"
| "riskRank Risk_medium = 2"
| "riskRank Risk_low = 1"

definition collision_items ::
    "IssueRecord list \<Rightarrow> PullRequestRecord list \<Rightarrow> RecentMergedPullRequestRecord list \<Rightarrow> CollisionItem list" where
  "collision_items openIssues openPullRequests recent =
     map issueItem (boundedCollisionIssues openIssues openPullRequests)
     @ map prItem (take MAX_COLLISION_PAIRWISE_PULL_REQUESTS openPullRequests)
     @ map recentMergedItem (take MAX_COLLISION_PAIRWISE_RECENT_MERGES recent)"

definition buildCollisionReport ::
    "string \<Rightarrow> string \<Rightarrow> IssueRecord list \<Rightarrow> PullRequestRecord list \<Rightarrow> RecentMergedPullRequestRecord list \<Rightarrow> CollisionReport" where
  "buildCollisionReport now repoFullName issues pullRequests recent =
     (let openIssues = filter (\<lambda>i. iss_state i = ''open'') issues;
          openPullRequests = filter (\<lambda>p. pr_state p = ''open'') pullRequests;
          items = collision_items openIssues openPullRequests recent;
          clusters = fold (pair_step (cached_terms items)) (pairs_of items) (issue_clusters openPullRequests openIssues);
          clusterList = sort_by (\<lambda>l r. riskRank (cl_risk r) \<le> riskRank (cl_risk l)) (map snd clusters)
      in \<lparr>cr_repoFullName = repoFullName, cr_generatedAt = now, cr_clusterCount = length clusterList,
          cr_highRiskCount = length (filter (\<lambda>c. cl_risk c = Risk_high) clusterList),
          cr_itemsReviewed = length openIssues + length openPullRequests + length recent,
          cr_clusters = clusterList, cr_items = items\<rparr>)"

end
