(* ===== verification/Duplicates.thy ===== *)
theory Duplicates
  imports Collisions
begin

text \<open>
  The duplicate test on a collision report (\<open>isPullRequestInDuplicateCluster\<close> of
  \<open>src/signals/engine.ts\<close>, which the slop gate relies on) finds every pair of competing open pull
  requests and nothing else.
\<close>

section \<open>Keys\<close>

lemma nat_str_chars: "c \<in> set (nat_str n) \<Longrightarrow> is_decimal c"
  using nat_str_digits [of n] by (auto simp: list_all_iff)

lemma digits_value_append: "digits_value a (s @ t) = digits_value (digits_value a s) t"
  by (induction s arbitrary: a) simp_all

lemma digit_char_value: "d < 10 \<Longrightarrow> of_char (digit_char d) - 48 = d"
  by (simp add: digit_char_def)

lemma digits_value_nat_str: "digits_value 0 (nat_str n) = n"
proof (induction n rule: nat_str.induct)
  case (1 n)
  then show ?case
    by (subst nat_str.simps) (simp add: digits_value_append digit_char_value)
qed

lemma nat_str_inject: "nat_str m = nat_str n \<longleftrightarrow> m = n"
  by (metis digits_value_nat_str)

lemma type_name_inject: "item_type_name s = item_type_name t \<longleftrightarrow> s = t"
  by (cases s; cases t) (simp_all add: item_type_name_def)

lemma type_name_no_dash: "CHR ''-'' \<notin> set (item_type_name t)"
  by (cases t) (simp_all add: item_type_name_def)

lemma nat_str_no_dash: "CHR ''-'' \<notin> set (nat_str n)"
  by (auto simp: is_decimal_def class_match_def digit_items_def dest: nat_str_chars)

lemma split_key: "split_on CHR ''-'' (itemKey i) = [item_type_name (item_type i), nat_str (item_number i)]"
  by (simp add: itemKey_def split_on_first split_on_single type_name_no_dash nat_str_no_dash)

lemma itemKey_inject: "itemKey i = itemKey j \<longleftrightarrow> item_type i = item_type j \<and> item_number i = item_number j"
proof
  assume "itemKey i = itemKey j"
  then have "split_on CHR ''-'' (itemKey i) = split_on CHR ''-'' (itemKey j)" by simp
  then show "item_type i = item_type j \<and> item_number i = item_number j"
    by (simp add: split_key type_name_inject nat_str_inject)
qed (simp add: itemKey_def)

lemma split_joined: "split_on CHR ''-'' (itemKey i @ ''--'' @ itemKey j) =
   split_on CHR ''-'' (itemKey i) @ [] # split_on CHR ''-'' (itemKey j)"
  by (simp add: itemKey_def split_on_first split_on_single type_name_no_dash nat_str_no_dash)

lemma joined_inject: "itemKey i @ ''--'' @ itemKey j = itemKey k @ ''--'' @ itemKey l \<longleftrightarrow> itemKey i = itemKey k \<and> itemKey j = itemKey l"
proof
  assume "itemKey i @ ''--'' @ itemKey j = itemKey k @ ''--'' @ itemKey l"
  then have "split_on CHR ''-'' (itemKey i) @ [] # split_on CHR ''-'' (itemKey j) =
      split_on CHR ''-'' (itemKey k) @ [] # split_on CHR ''-'' (itemKey l)"
    using split_joined by metis
  then show "itemKey i = itemKey k \<and> itemKey j = itemKey l"
    by (simp add: split_key itemKey_inject type_name_inject nat_str_inject)
qed simp

lemma pair_key_inject:
  "pair_key i j = pair_key k l \<longleftrightarrow> itemKey i = itemKey k \<and> itemKey j = itemKey l \<or> itemKey i = itemKey l \<and> itemKey j = itemKey k"
proof -
  have flip: "\<not> str_le a b \<Longrightarrow> str_le b a" for a b using str_le_total by blast
  show ?thesis
    unfolding pair_key_def
    by (cases "str_le (itemKey i) (itemKey j)"; cases "str_le (itemKey k) (itemKey l)")
      (simp_all only: if_True if_False joined_inject, (metis str_le_antisym flip)+)
qed

lemma issue_key_not_pair: "''issue-'' @ nat_str n \<noteq> pair_key i j"
proof
  assume "''issue-'' @ nat_str n = pair_key i j"
  then have "split_on CHR ''-'' (''issue'' @ CHR ''-'' # nat_str n) = split_on CHR ''-'' (pair_key i j)" by simp
  moreover have "length (split_on CHR ''-'' (pair_key i j)) = 5"
    by (simp only: pair_key_def split_joined split_key split: if_split) simp
  moreover have "length (split_on CHR ''-'' (''issue'' @ CHR ''-'' # nat_str n)) = 2"
    by (subst split_on_first) (simp_all add: split_on_single nat_str_no_dash)
  ultimately show False by simp
qed

section \<open>The clusters of the report\<close>

lemma set_pairs: "(x, y) \<in> set (pairs_of xs) \<Longrightarrow> x \<in> set xs \<and> y \<in> set xs"
  by (induction xs) auto

lemma pairs_complete: "x \<in> set xs \<Longrightarrow> y \<in> set xs \<Longrightarrow> x \<noteq> y \<Longrightarrow> (x, y) \<in> set (pairs_of xs) \<or> (y, x) \<in> set (pairs_of xs)"
  by (induction xs) auto

lemma update_keys: "fst ` set (AList.update k v m) = insert k (fst ` set m)"
  by (induction m) auto

lemma update_values: "(k', v') \<in> set (AList.update k v m) \<Longrightarrow> k' = k \<and> v' = v \<or> (k', v') \<in> set m"
  by (induction m) (auto split: if_splits)

lemma update_keeps: "(k', v') \<in> set m \<Longrightarrow> k' \<noteq> k \<Longrightarrow> (k', v') \<in> set (AList.update k v m)"
  by (induction m) auto

text \<open>A pair whose key is taken leaves the clusters alone; otherwise its cluster joins them.\<close>

lemma pair_step_entries:
  "(k, c) \<in> set (pair_step terms p clusters) \<Longrightarrow>
     (k, c) \<in> set clusters \<or> pair_cluster terms (fst p) (snd p) = Some c \<and> k = cl_id c"
  by (auto simp: pair_step_def put_cluster_def dest: update_values split: option.splits if_splits)

lemma pair_step_keeps: "(k, c) \<in> set clusters \<Longrightarrow> (k, c) \<in> set (pair_step terms p clusters)"
  by (auto simp: pair_step_def put_cluster_def rev_image_eqI intro!: update_keeps split: option.split)

lemma fold_pairs_entries:
  "(k, c) \<in> set (fold (pair_step terms) ps clusters) \<Longrightarrow>
     (k, c) \<in> set clusters \<or> (\<exists>p \<in> set ps. pair_cluster terms (fst p) (snd p) = Some c \<and> k = cl_id c)"
  by (induction ps arbitrary: clusters) (fastforce dest: pair_step_entries)+

lemma fold_pairs_keeps: "(k, c) \<in> set clusters \<Longrightarrow> (k, c) \<in> set (fold (pair_step terms) ps clusters)"
  by (induction ps arbitrary: clusters) (simp_all add: pair_step_keeps)

lemma fold_pairs_complete:
  "p \<in> set ps \<Longrightarrow> pair_cluster terms (fst p) (snd p) = Some c \<Longrightarrow>
     cl_id c \<in> fst ` set (fold (pair_step terms) ps clusters)"
proof (induction ps arbitrary: clusters)
  case (Cons q ps)
  show ?case
  proof (cases "p = q")
    case True
    then have "cl_id c \<in> fst ` set (pair_step terms q clusters)"
      using Cons.prems(2) by (simp add: pair_step_def put_cluster_def update_keys)
    then obtain d where "(cl_id c, d) \<in> set (pair_step terms q clusters)" by auto
    from fold_pairs_keeps [OF this, of terms ps] show ?thesis by (auto intro: rev_image_eqI)
  next
    case False
    with Cons show ?thesis by simp
  qed
qed simp

lemma pair_cluster_shape:
  "pair_cluster terms l r = Some c \<Longrightarrow> cl_id c = pair_key l r \<and> cl_items c = [l, r]"
  by (auto simp: pair_cluster_def Let_def split: option.splits prod.splits if_splits)

lemma issue_clusters_entries:
  "(k, c) \<in> set (issue_clusters open_prs issues) \<Longrightarrow> \<exists>i \<in> set issues. issue_cluster open_prs i = Some c \<and> k = cl_id c"
proof -
  have "(k, c) \<in> set (fold (\<lambda>issue clusters. case issue_cluster open_prs issue of None \<Rightarrow> clusters | Some c \<Rightarrow> put_cluster c clusters)
      issues clusters) \<Longrightarrow> (k, c) \<in> set clusters \<or> (\<exists>i \<in> set issues. issue_cluster open_prs i = Some c \<and> k = cl_id c)" for clusters
  proof (induction issues arbitrary: clusters)
    case (Cons i issues)
    then show ?case
      by (cases "issue_cluster open_prs i") (fastforce simp: put_cluster_def dest: update_values)+
  qed simp
  then show "(k, c) \<in> set (issue_clusters open_prs issues) \<Longrightarrow> \<exists>i \<in> set issues. issue_cluster open_prs i = Some c \<and> k = cl_id c"
    unfolding issue_clusters_def by fastforce
qed

section \<open>Competing pull requests\<close>

definition pr_words :: "PullRequestRecord \<Rightarrow> string set" where
  "pr_words p = set (collisionTerms (prItem p))"

text \<open>
  Two pull requests compete when they link a common issue, or share at least two words and three
  quarters of the words of the one with fewer.
\<close>

definition competing :: "PullRequestRecord \<Rightarrow> PullRequestRecord \<Rightarrow> bool" where
  "competing p q \<longleftrightarrow> set (pr_linkedIssues p) \<inter> set (pr_linkedIssues q) \<noteq> {} \<or>
     2 \<le> card (pr_words p \<inter> pr_words q) \<and>
     3 * min (card (pr_words p)) (card (pr_words q)) \<le> 4 * card (pr_words p \<inter> pr_words q)"

lemma competing_sym: "competing p q \<longleftrightarrow> competing q p"
  by (simp add: competing_def Int_commute min.commute)

lemma terms_distinct: "distinct (collisionTerms i)"
  by (simp add: collisionTerms_def)

lemma overlap_sets:
  assumes "distinct l" "distinct r" "l \<noteq> []" "r \<noteq> []"
  shows "termOverlap l r = (of_nat (card (set l \<inter> set r)) / of_nat (min (card (set l)) (card (set r))), card (set l \<inter> set r))"
proof -
  have "length (filter (\<lambda>t. t \<in> set ys) xs) = card (set xs \<inter> set ys)" if "distinct xs" for xs ys :: "string list"
    using that by (metis distinct_card distinct_filter set_filter Int_def Collect_conj_eq Collect_mem_eq)
  then show ?thesis using assms by (auto simp: termOverlap_def Let_def distinct_card Int_commute)
qed

lemma overlap_strong:
  assumes "distinct l" "distinct r"
  shows "(case termOverlap l r of (score, shared) \<Rightarrow> 75 / 100 \<le> score \<and> 2 \<le> shared) \<longleftrightarrow>
    2 \<le> card (set l \<inter> set r) \<and> 3 * min (card (set l)) (card (set r)) \<le> 4 * card (set l \<inter> set r)"
proof (cases "l = [] \<or> r = []")
  case True
  then show ?thesis by (auto simp: termOverlap_def)
next
  case False
  then have ne: "l \<noteq> []" "r \<noteq> []" by auto
  let ?m = "min (card (set l)) (card (set r))" and ?s = "card (set l \<inter> set r)"
  have "0 < ?m" using ne by (simp add: card_gt_0_iff)
  then have "75 / 100 \<le> (of_nat ?s / of_nat ?m :: rat) \<longleftrightarrow> 3 * (of_nat ?m :: rat) \<le> 4 * of_nat ?s"
    by (simp add: pos_le_divide_eq field_simps)
  also have "\<dots> \<longleftrightarrow> 3 * ?m \<le> 4 * ?s"
    by (metis (mono_tags, opaque_lifting) of_nat_le_iff of_nat_mult of_nat_numeral)
  finally show ?thesis by (auto simp: overlap_sets [OF assms ne])
qed

lemma shared_issue_iff:
  "0 \<notin> set (pr_linkedIssues p) \<Longrightarrow>
   shared_issue (prItem p) (prItem q) \<noteq> None \<longleftrightarrow> set (pr_linkedIssues p) \<inter> set (pr_linkedIssues q) \<noteq> {}"
  by (auto simp: shared_issue_def prItem_def List_find_None_iff split: option.split dest: List_find_SomeD)

text \<open>The cluster of two pull requests is a high risk exactly when they compete.\<close>

lemma pair_cluster_high:
  assumes "0 \<notin> set (pr_linkedIssues p)"
    and "terms (prItem p) = collisionTerms (prItem p)" "terms (prItem q) = collisionTerms (prItem q)"
  shows "(\<exists>c. pair_cluster terms (prItem p) (prItem q) = Some c \<and> cl_risk c = Risk_high) \<longleftrightarrow> competing p q"
proof (cases "shared_issue (prItem p) (prItem q)")
  case (Some i)
  then have "competing p q" using shared_issue_iff [OF assms(1), of q] by (auto simp: competing_def)
  with Some show ?thesis by (simp add: pair_cluster_def prItem_def)
next
  case None
  then have "set (pr_linkedIssues p) \<inter> set (pr_linkedIssues q) = {}" using shared_issue_iff [OF assms(1), of q] by auto
  then have "competing p q \<longleftrightarrow> (case termOverlap (collisionTerms (prItem p)) (collisionTerms (prItem q)) of
      (score, shared) \<Rightarrow> 75 / 100 \<le> score \<and> 2 \<le> shared)"
    unfolding overlap_strong [OF terms_distinct terms_distinct] by (simp add: competing_def pr_words_def)
  with None show ?thesis by (auto simp: pair_cluster_def assms(2,3) Let_def split: prod.splits)
qed

text \<open>A queue in which the numbers are the keys and no link is listed twice.\<close>

definition queue_ok :: "PullRequestRecord list \<Rightarrow> bool" where
  "queue_ok prs \<longleftrightarrow> distinct (map pr_number prs) \<and> length prs \<le> MAX_COLLISION_PAIRWISE_PULL_REQUESTS \<and>
     list_all (\<lambda>p. distinct (pr_linkedIssues p) \<and> 0 \<notin> set (pr_linkedIssues p)) prs"

lemma queue_number: "queue_ok prs \<Longrightarrow> p \<in> set prs \<Longrightarrow> q \<in> set prs \<Longrightarrow> pr_number p = pr_number q \<Longrightarrow> p = q"
  by (auto simp: queue_ok_def distinct_map inj_on_def)

lemma pr_item_in:
  assumes "queue_ok prs" "i \<in> set (collision_items issues prs recent)" "item_type i = Item_pull_request"
  obtains p where "p \<in> set prs" "i = prItem p"
  using assms by (auto simp: collision_items_def queue_ok_def issueItem_def recentMergedItem_def)

lemma pr_in_items: "queue_ok prs \<Longrightarrow> p \<in> set prs \<Longrightarrow> prItem p \<in> set (collision_items issues prs recent)"
  by (simp add: collision_items_def queue_ok_def)

lemma prItem_fields [simp]: "item_type (prItem p) = Item_pull_request" "item_number (prItem p) = pr_number p"
  by (simp_all add: prItem_def)

lemma cached_pr_terms:
  assumes "queue_ok prs" "p \<in> set prs"
  shows "cached_terms (collision_items issues prs recent) (prItem p) = collisionTerms (prItem p)"
proof (cases "List.find (\<lambda>i. itemKey i = itemKey (prItem p)) (rev (collision_items issues prs recent))")
  case None
  then show ?thesis by (simp add: cached_terms_def)
next
  case (Some i)
  then have i: "i \<in> set (collision_items issues prs recent)" "item_type i = Item_pull_request" "item_number i = pr_number p"
    by (auto dest!: List_find_SomeD simp: itemKey_inject)
  from pr_item_in [OF assms(1) i(1,2)] obtain q where "q \<in> set prs" "i = prItem q" .
  with i(3) assms queue_number have "i = prItem p" by auto
  with Some show ?thesis by (simp add: cached_terms_def)
qed

text \<open>The pull requests of an issue cluster are those that link the issue, each once.\<close>

lemma linked_distinct:
  assumes "distinct (map pr_number prs)" "list_all (\<lambda>p. distinct (pr_linkedIssues p)) prs"
  shows "distinct (linked_pull_requests prs n)" "set (linked_pull_requests prs n) = {p \<in> set prs. n \<in> set (pr_linkedIssues p)}"
proof -
  show set_eq: "set (linked_pull_requests prs n) = {p \<in> set prs. n \<in> set (pr_linkedIssues p)}"
    by (auto simp: linked_pull_requests_def)
  have single: "distinct xs \<Longrightarrow> filter (\<lambda>i. i = n) xs = (if n \<in> set xs then [n] else [])" for xs :: "nat list"
    by (induction xs) (auto simp: filter_empty_conv)
  have "linked_pull_requests prs n = filter (\<lambda>p. n \<in> set (pr_linkedIssues p)) prs"
    using assms(2) by (induction prs) (auto simp: linked_pull_requests_def single)
  then show "distinct (linked_pull_requests prs n)" using assms(1) by (simp add: distinct_map distinct_filter)
qed

lemma issue_cluster_competing:
  assumes "queue_ok prs" "issue_cluster prs issue = Some c" "2 \<le> length (filter (\<lambda>i. item_type i = Item_pull_request) (cl_items c))"
    and "i \<in> set (cl_items c)" "item_type i = Item_pull_request" "item_number i = n"
  shows "\<exists>p q. p \<in> set prs \<and> q \<in> set prs \<and> pr_number p = n \<and> pr_number q \<noteq> n \<and> competing p q"
proof -
  let ?l = "linked_pull_requests prs (iss_number issue)"
  have ok: "distinct (map pr_number prs)" "list_all (\<lambda>p. distinct (pr_linkedIssues p)) prs"
    using assms(1) by (auto simp: queue_ok_def list_all_iff)
  have items: "cl_items c = issueItem issue # map prItem ?l"
    using assms(2) by (auto simp: issue_cluster_def Let_def split: if_splits)
  have "filter (\<lambda>i. item_type i = Item_pull_request) (map prItem xs) = map prItem xs" for xs by (induction xs) simp_all
  with assms(3) items have two: "2 \<le> length ?l" by (simp add: issueItem_def)
  from assms(4,5) items obtain p where p: "p \<in> set ?l" "i = prItem p" by (auto simp: issueItem_def)
  have "\<exists>q \<in> set ?l. q \<noteq> p"
  proof (rule ccontr)
    assume "\<not> (\<exists>q \<in> set ?l. q \<noteq> p)"
    then have "set ?l \<subseteq> {p}" by auto
    then have "card (set ?l) \<le> 1" using card_mono [of "{p}"] by simp
    with two linked_distinct(1) [OF ok] show False by (simp add: distinct_card)
  qed
  then obtain q where q: "q \<in> set ?l" "q \<noteq> p" by auto
  have "p \<in> set prs" "q \<in> set prs" "competing p q"
    using p(1) q(1) unfolding linked_distinct(2) [OF ok] by (auto simp: competing_def)
  moreover from this have "pr_number q \<noteq> pr_number p" using queue_number [OF assms(1)] q(2) by blast
  ultimately show ?thesis using p(2) assms(6) by auto
qed

lemma pr_pair_cluster:
  assumes "queue_ok prs" "p \<in> set prs" "q \<in> set prs"
  shows "(\<exists>c. pair_cluster (cached_terms (collision_items issues prs recent)) (prItem p) (prItem q) = Some c \<and> cl_risk c = Risk_high)
    \<longleftrightarrow> competing p q"
  using assms by (intro pair_cluster_high cached_pr_terms) (auto simp: queue_ok_def list_all_iff)

lemma pairs_count: "(x, x) \<in> set (pairs_of xs) \<Longrightarrow> 2 \<le> count (mset xs) x"
  by (induction xs) (auto simp: Suc_le_eq dest: set_pairs)

lemma pair_distinct:
  assumes "queue_ok prs" "(prItem p, prItem p) \<in> set (pairs_of (collision_items issues prs recent))" "p \<in> set prs"
  shows False
proof -
  have "inj_on prItem (set prs)" using queue_number [OF assms(1)] by (intro inj_onI) (auto dest: arg_cong [where f = item_number])
  moreover have "distinct prs" using assms(1) by (simp add: queue_ok_def distinct_map)
  ultimately have "distinct (map prItem prs)" by (simp add: distinct_map)
  then have "count (mset (map prItem prs)) (prItem p) \<le> 1" by (simp add: distinct_count_atmost_1)
  moreover have issues: "count (mset (map issueItem xs)) (prItem p) = 0" for xs
    unfolding count_mset_0_iff by (auto simp: prItem_def issueItem_def)
  moreover have merged: "count (mset (map recentMergedItem ys)) (prItem p) = 0" for ys
    unfolding count_mset_0_iff by (auto simp: prItem_def recentMergedItem_def)
  moreover have "take MAX_COLLISION_PAIRWISE_PULL_REQUESTS prs = prs" using assms(1) by (simp add: queue_ok_def)
  ultimately have "count (mset (collision_items issues prs recent)) (prItem p) \<le> 1"
    unfolding collision_items_def mset_append count_union by (simp only: issues merged)
  with pairs_count [OF assms(2)] show False by simp
qed

definition report_entries ::
    "IssueRecord list \<Rightarrow> PullRequestRecord list \<Rightarrow> RecentMergedPullRequestRecord list \<Rightarrow> (string \<times> CollisionCluster) list" where
  "report_entries issues prs recent =
     (let items = collision_items issues prs recent
      in fold (pair_step (cached_terms items)) (pairs_of items) (issue_clusters prs issues))"

lemma set_report_clusters:
  "set (cr_clusters (buildCollisionReport now name issues prs recent)) =
     snd ` set (report_entries (filter (\<lambda>i. iss_state i = ''open'') issues) (filter (\<lambda>p. pr_state p = ''open'') prs) recent)"
  by (simp add: buildCollisionReport_def Let_def report_entries_def)

text \<open>The cluster of two competing pull requests is in the report: its key is taken by no other pair.\<close>

lemma competing_in_report:
  assumes ok: "queue_ok prs" and pq: "p \<in> set prs" "q \<in> set prs" "pr_number p \<noteq> pr_number q" "competing p q"
  shows "\<exists>c \<in> snd ` set (report_entries issues prs recent). cl_risk c = Risk_high \<and> mset (cl_items c) = {#prItem p, prItem q#}"
proof -
  let ?items = "collision_items issues prs recent"
  let ?terms = "cached_terms ?items"
  have item: "prItem x \<in> set ?items" if "x \<in> set prs" for x by (rule pr_in_items [OF ok that])
  have "prItem p \<noteq> prItem q" using pq(3) by (auto dest: arg_cong [where f = item_number])
  then obtain x y where xy: "{#x, y#} = {#p, q#}" "(prItem x, prItem y) \<in> set (pairs_of ?items)"
    using pairs_complete [OF item [OF pq(1)] item [OF pq(2)]] by (metis add_mset_commute)
  then have x: "x \<in> set prs" "y \<in> set prs" "competing x y" "pr_number x \<noteq> pr_number y"
    using pq competing_sym by (auto simp: add_eq_conv_ex)
  from x pr_pair_cluster [OF ok x(1,2)] obtain c
    where c: "pair_cluster ?terms (prItem x) (prItem y) = Some c" "cl_risk c = Risk_high" by blast
  from fold_pairs_complete [OF xy(2), of ?terms c "issue_clusters prs issues"] c(1)
  obtain d where d: "(cl_id c, d) \<in> set (report_entries issues prs recent)"
    by (auto simp: report_entries_def Let_def)
  have key: "cl_id c = pair_key (prItem x) (prItem y)" using pair_cluster_shape [OF c(1)] by simp
  from fold_pairs_entries [OF d [unfolded report_entries_def Let_def]] show ?thesis
  proof
    assume "(cl_id c, d) \<in> set (issue_clusters prs issues)"
    then obtain n where "cl_id c = ''issue-'' @ nat_str n"
      by (auto dest!: issue_clusters_entries simp: issue_cluster_def Let_def split: if_splits)
    with key issue_key_not_pair show ?thesis by metis
  next
    assume "\<exists>r \<in> set (pairs_of ?items). pair_cluster ?terms (fst r) (snd r) = Some d \<and> cl_id c = cl_id d"
    then obtain i j where ij: "(i, j) \<in> set (pairs_of ?items)" "pair_cluster ?terms i j = Some d" "cl_id c = cl_id d" by auto
    have "pair_key (prItem x) (prItem y) = pair_key i j" using key ij(3) pair_cluster_shape [OF ij(2)] by simp
    then have keys: "itemKey i = itemKey (prItem x) \<and> itemKey j = itemKey (prItem y) \<or> itemKey i = itemKey (prItem y) \<and> itemKey j = itemKey (prItem x)"
      unfolding pair_key_inject by auto
    have same: "k = prItem z" if k: "k \<in> set ?items" "itemKey k = itemKey (prItem z)" "z \<in> set prs" for k z
    proof -
      from k(2) have t: "item_type k = Item_pull_request" "item_number k = pr_number z" by (simp_all add: itemKey_inject)
      from pr_item_in [OF ok k(1) t(1)] obtain w where "w \<in> set prs" "k = prItem w" .
      with t(2) k(3) queue_number [OF ok] show ?thesis by auto
    qed
    have "i \<in> set ?items" "j \<in> set ?items" using set_pairs [OF ij(1)] by auto
    with keys same x(1,2) have "i = prItem x \<and> j = prItem y \<or> i = prItem y \<and> j = prItem x" by blast
    then obtain u v where uv: "i = prItem u" "j = prItem v" "u \<in> set prs" "v \<in> set prs" "{#u, v#} = {#x, y#}" "competing u v"
      using x competing_sym by (metis add_mset_commute)
    with ij(2) pr_pair_cluster [OF ok uv(3,4), of issues recent] have "cl_risk d = Risk_high" by auto
    moreover have "mset (cl_items d) = image_mset prItem {#u, v#}" using pair_cluster_shape [OF ij(2)] uv(1,2) by simp
    ultimately have "cl_risk d = Risk_high \<and> mset (cl_items d) = {#prItem p, prItem q#}" using uv(5) xy(1) by simp
    with d show ?thesis by (metis image_eqI snd_conv)
  qed
qed

text \<open>
  C15: the duplicate test is exact. In a queue of at most 120 open pull requests with distinct
  numbers, a pull request lies in a duplicate cluster of the collision report exactly when another
  open pull request competes with it: they link a common issue, or share at least two words and
  three quarters of the shorter word list. Issues, merged pull requests, the order of the queue and
  the sampling of the issues have no influence on it.
\<close>

theorem duplicate_test_exact:
  assumes "queue_ok (filter (\<lambda>p. pr_state p = ''open'') prs)"
  shows "isPullRequestInDuplicateCluster (cr_clusters (buildCollisionReport now name issues prs recent)) n \<longleftrightarrow>
    (\<exists>p q. p \<in> set prs \<and> q \<in> set prs \<and> pr_state p = ''open'' \<and> pr_state q = ''open'' \<and>
       pr_number p = n \<and> pr_number q \<noteq> n \<and> competing p q)"
proof -
  let ?prs = "filter (\<lambda>p. pr_state p = ''open'') prs" and ?issues = "filter (\<lambda>i. iss_state i = ''open'') issues"
  let ?items = "collision_items ?issues ?prs recent"
  have dup: "isPullRequestInDuplicateCluster (cr_clusters (buildCollisionReport now name issues prs recent)) n \<longleftrightarrow>
      (\<exists>c \<in> snd ` set (report_entries ?issues ?prs recent). cl_risk c = Risk_high \<and>
         2 \<le> length (filter (\<lambda>i. item_type i = Item_pull_request) (cl_items c)) \<and>
         (\<exists>i \<in> set (cl_items c). item_type i = Item_pull_request \<and> item_number i = n))"
    unfolding isPullRequestInDuplicateCluster_def list_ex_iff set_report_clusters by auto
  have "\<exists>p q. p \<in> set ?prs \<and> q \<in> set ?prs \<and> pr_number p = n \<and> pr_number q \<noteq> n \<and> competing p q"
    if "(k, c) \<in> set (report_entries ?issues ?prs recent)" "cl_risk c = Risk_high"
      "2 \<le> length (filter (\<lambda>i. item_type i = Item_pull_request) (cl_items c))"
      "i \<in> set (cl_items c)" "item_type i = Item_pull_request" "item_number i = n" for k c i
    using fold_pairs_entries [OF that(1) [unfolded report_entries_def Let_def]]
  proof
    assume "(k, c) \<in> set (issue_clusters ?prs ?issues)"
    then obtain issue where "issue_cluster ?prs issue = Some c" by (auto dest!: issue_clusters_entries)
    from issue_cluster_competing [OF assms this that(3-6)] show ?thesis .
  next
    assume "\<exists>r \<in> set (pairs_of ?items). pair_cluster (cached_terms ?items) (fst r) (snd r) = Some c \<and> k = cl_id c"
    then obtain l r where lr: "(l, r) \<in> set (pairs_of ?items)" "pair_cluster (cached_terms ?items) l r = Some c" by auto
    have items: "cl_items c = [l, r]" using pair_cluster_shape [OF lr(2)] by simp
    with that(3) have types: "item_type l = Item_pull_request" "item_type r = Item_pull_request" by (auto split: if_splits)
    have "l \<in> set ?items" "r \<in> set ?items" using set_pairs [OF lr(1)] by auto
    from pr_item_in [OF assms this(1) types(1)] pr_item_in [OF assms this(2) types(2)]
    obtain u v where uv: "u \<in> set ?prs" "l = prItem u" "v \<in> set ?prs" "r = prItem v" by metis
    with lr(2) that(2) pr_pair_cluster [OF assms uv(1,3), of ?issues recent] have "competing u v" by blast
    moreover have "u \<noteq> v" using pair_distinct [OF assms _ uv(1)] lr(1) uv(2,4) by blast
    then have "pr_number u \<noteq> pr_number v" using queue_number [OF assms uv(1,3)] by blast
    moreover have "i = l \<or> i = r" using that(4) items by auto
    then have "pr_number u = n \<or> pr_number v = n" using uv(2,4) that(6) by (elim disjE) simp_all
    moreover have "competing v u" using \<open>competing u v\<close> by (simp only: competing_sym [of v u])
    ultimately show ?thesis using uv(1,3) by (elim disjE) (metis, metis)
  qed
  moreover have "isPullRequestInDuplicateCluster (cr_clusters (buildCollisionReport now name issues prs recent)) n"
    if pq: "p \<in> set ?prs" "q \<in> set ?prs" "pr_number p = n" "pr_number q \<noteq> n" "competing p q" for p q
  proof -
    from competing_in_report [OF assms pq(1,2) _ pq(5), of ?issues recent] pq(3,4) obtain c
      where c: "c \<in> snd ` set (report_entries ?issues ?prs recent)" "cl_risk c = Risk_high" "mset (cl_items c) = {#prItem p, prItem q#}"
      by auto
    have "set_mset (mset (cl_items c)) = {prItem p, prItem q}" unfolding c(3) by simp
    moreover have "size (filter_mset (\<lambda>i. item_type i = Item_pull_request) (mset (cl_items c))) = 2" unfolding c(3) by simp
    ultimately show ?thesis using c(1,2) pq(3) unfolding dup
      by (intro bexI [OF _ c(1)]) (auto simp flip: mset_filter)
  qed
  ultimately show ?thesis unfolding dup by fastforce
qed

text \<open>Two open pull requests that link the same issue, and a closed one that links it too.\<close>

definition queued_pull_request :: "nat \<Rightarrow> string \<Rightarrow> nat list \<Rightarrow> PullRequestRecord" where
  "queued_pull_request n state linked =
     \<lparr>pr_repoFullName = ''o/r'', pr_number = n, pr_title = [], pr_state = state, pr_authorLogin = None,
      pr_authorAssociation = None, pr_headSha = None, pr_headRef = None, pr_baseRef = None, pr_htmlUrl = None,
      pr_mergedAt = None, pr_isDraft = None, pr_mergeableState = None, pr_reviewDecision = None, pr_body = None,
      pr_createdAt = None, pr_updatedAt = None, pr_closedAt = None, pr_labels = [], pr_linkedIssues = linked,
      pr_slopRisk = None, pr_slopBand = None, pr_mergeAttemptCount = None, pr_mergeBlockedSha = None,
      pr_mergeBlockedReason = None\<rparr>"

theorem duplicate_test_exact_witness:
  "isPullRequestInDuplicateCluster (cr_clusters (buildCollisionReport ''2026-01-01T00:00:00Z'' ''o/r'' []
     [queued_pull_request 7 ''open'' [3], queued_pull_request 9 ''closed'' [3], queued_pull_request 11 ''open'' [3, 4]] [])) 7"
proof -
  let ?prs = "[queued_pull_request 7 ''open'' [3], queued_pull_request 9 ''closed'' [3], queued_pull_request 11 ''open'' [3, 4]]"
  have ok: "queue_ok (filter (\<lambda>p. pr_state p = ''open'') ?prs)"
    by (simp add: queue_ok_def queued_pull_request_def MAX_COLLISION_PAIRWISE_PULL_REQUESTS_def)
  moreover have "competing (queued_pull_request 7 ''open'' [3]) (queued_pull_request 11 ''open'' [3, 4])"
    by (simp add: queued_pull_request_def competing_def)
  moreover have "pr_number (queued_pull_request n state linked) = n" "pr_state (queued_pull_request n state linked) = state" for n state linked
    by (simp_all add: queued_pull_request_def)
  ultimately have "\<exists>p q. p \<in> set ?prs \<and> q \<in> set ?prs \<and> pr_state p = ''open'' \<and> pr_state q = ''open'' \<and>
       pr_number p = 7 \<and> pr_number q \<noteq> 7 \<and> competing p q"
    by (intro exI [of _ "queued_pull_request 7 ''open'' [3]"] exI [of _ "queued_pull_request 11 ''open'' [3, 4]"]) simp
  then show ?thesis by (rule duplicate_test_exact [OF ok, THEN iffD2])
qed

end
