(* ===== verification/Worker_Pool.thy ===== *)
theory Worker_Pool
  imports Prelude
begin

text \<open>
  The bounded worker pool \<open>mapWithConcurrencyLimit\<close> of \<open>signals/focus-manifest-loader.ts\<close>, with which many
  manifests are loaded at once. The workers share the index of the next item; a worker takes an
  index without yielding, waits for its item, and stores the result at that index; when the call
  rejects, the worker rejects with it and the others go on. The calls in flight may end in any order:
  a step relation leaves it open.
\<close>

section \<open>The pool\<close>

text \<open>What a worker does, the shared index, and the results.\<close>

datatype worker = Idle | Awaiting nat | Rejected

record 'b pool =
  pl_workers :: "worker list"
  pl_nextIndex :: nat
  pl_results :: "'b option list"

definition pool_start :: "'a list \<Rightarrow> nat \<Rightarrow> 'b pool" where
  "pool_start items limit =
     \<lparr>pl_workers = replicate (min limit (length items)) Idle, pl_nextIndex = 0, pl_results = replicate (length items) None\<rparr>"

definition take_item :: "nat \<Rightarrow> 'b pool \<Rightarrow> 'b pool" where
  "take_item w s = s\<lparr>pl_workers := (pl_workers s)[w := Awaiting (pl_nextIndex s)], pl_nextIndex := pl_nextIndex s + 1\<rparr>"

text \<open>The call for the item at \<open>i\<close> ends: \<open>None\<close> is a rejection.\<close>

definition finish_item :: "('a \<Rightarrow> 'b option) \<Rightarrow> 'a list \<Rightarrow> nat \<Rightarrow> nat \<Rightarrow> 'b pool \<Rightarrow> 'b pool" where
  "finish_item f items w i s =
     (case f (items ! i) of
        Some y \<Rightarrow> s\<lparr>pl_workers := (pl_workers s)[w := Idle], pl_results := (pl_results s)[i := Some y]\<rparr>
      | None \<Rightarrow> s\<lparr>pl_workers := (pl_workers s)[w := Rejected]\<rparr>)"

inductive pool_step :: "('a \<Rightarrow> 'b option) \<Rightarrow> 'a list \<Rightarrow> 'b pool \<Rightarrow> 'b pool \<Rightarrow> bool" for f items where
  take: "w < length (pl_workers s) \<Longrightarrow> pl_workers s ! w = Idle \<Longrightarrow> pl_nextIndex s < length items \<Longrightarrow>
    pool_step f items s (take_item w s)"
| finish: "w < length (pl_workers s) \<Longrightarrow> pl_workers s ! w = Awaiting i \<Longrightarrow> pool_step f items s (finish_item f items w i s)"

inductive pool_run :: "('a \<Rightarrow> 'b option) \<Rightarrow> 'a list \<Rightarrow> 'b pool \<Rightarrow> 'b pool \<Rightarrow> bool" for f items where
  here: "pool_run f items s s"
| step: "pool_run f items s t \<Longrightarrow> pool_step f items t u \<Longrightarrow> pool_run f items s u"

inductive_cases pool_stepE: "pool_step f items s t"

text \<open>
  \<open>Promise.all\<close> has resolved: no worker waits or has rejected, and no item is left to take. It has
  rejected as soon as one worker has.
\<close>

definition pool_done :: "'a list \<Rightarrow> 'b pool \<Rightarrow> bool" where
  "pool_done items s \<longleftrightarrow> list_all (\<lambda>w. w = Idle) (pl_workers s) \<and> length items \<le> pl_nextIndex s"

definition pool_rejected :: "'b pool \<Rightarrow> bool" where
  "pool_rejected s \<longleftrightarrow> Rejected \<in> set (pl_workers s)"

section \<open>The invariant\<close>

text \<open>
  Every index below the shared one is in flight, with one worker, or has what its call gave, and a
  call that rejected left a worker rejected.
\<close>

definition pool_inv :: "('a \<Rightarrow> 'b option) \<Rightarrow> 'a list \<Rightarrow> nat \<Rightarrow> 'b pool \<Rightarrow> bool" where
  "pool_inv f items limit s \<longleftrightarrow>
     length (pl_workers s) = min limit (length items) \<and> length (pl_results s) = length items \<and>
     pl_nextIndex s \<le> length items \<and>
     (\<forall>i < pl_nextIndex s. Awaiting i \<in> set (pl_workers s) \<or> pl_results s ! i = f (items ! i) \<and> (f (items ! i) = None \<longrightarrow> pool_rejected s)) \<and>
     (\<forall>i. Awaiting i \<in> set (pl_workers s) \<longrightarrow> i < pl_nextIndex s) \<and>
     (\<forall>i < length items. pl_results s ! i \<in> {None, f (items ! i)}) \<and>
     (pool_rejected s \<longrightarrow> (\<exists>x \<in> set items. f x = None))"

lemma inv_start: "pool_inv f items limit (pool_start items limit)"
  by (simp add: pool_inv_def pool_start_def pool_rejected_def)

text \<open>A worker list after one worker changed from \<open>v\<close> to \<open>v'\<close>.\<close>

lemma changed_worker:
  assumes "w < length ws" "ws ! w = v"
  shows "x \<in> set (ws[w := v']) \<Longrightarrow> x = v' \<or> x \<in> set ws" "x \<in> set ws \<Longrightarrow> x = v \<or> x \<in> set (ws[w := v'])"
    "v' \<in> set (ws[w := v'])" "v \<in> set ws"
proof -
  show "x \<in> set (ws[w := v']) \<Longrightarrow> x = v' \<or> x \<in> set ws" using set_update_subset_insert [of ws w v'] by auto
  show "x \<in> set ws \<Longrightarrow> x = v \<or> x \<in> set (ws[w := v'])"
    using assms by (auto simp: in_set_conv_nth nth_list_update)
  show "v' \<in> set (ws[w := v'])" using assms(1) by (rule set_update_memI)
  show "v \<in> set ws" using assms nth_mem by blast
qed

lemma inv_step:
  assumes "pool_step f items s t" "pool_inv f items limit s"
  shows "pool_inv f items limit t"
  using assms(1)
proof cases
  case (take w)
  note ws = changed_worker(1-3) [OF take(2,3), where v' = "Awaiting (pl_nextIndex s)"]
  have "Awaiting i \<in> set (pl_workers t) \<longleftrightarrow> i = pl_nextIndex s \<or> Awaiting i \<in> set (pl_workers s)" for i
    using ws(1,2) [of "Awaiting i"] ws(3) by (auto simp: take(1) take_item_def)
  moreover have "pool_rejected t \<longleftrightarrow> pool_rejected s"
    using ws(1,2) [of Rejected] by (auto simp: take(1) take_item_def pool_rejected_def)
  ultimately show ?thesis using assms(2) take by (auto simp: pool_inv_def take_item_def less_Suc_eq)
next
  case (finish w i)
  note ws = changed_worker [OF finish(2,3)]
  have i: "i < pl_nextIndex s" "i < length items" using assms(2) ws(4) by (auto simp: pool_inv_def)
  show ?thesis
  proof (cases "f (items ! i)")
    case None
    then have t: "t = s\<lparr>pl_workers := (pl_workers s)[w := Rejected]\<rparr>" by (simp add: finish(1) finish_item_def)
    have "pool_rejected t" using ws(3) by (simp add: t pool_rejected_def)
    moreover have "pl_results s ! i \<in> {None, f (items ! i)}" using assms(2) i(2) by (simp add: pool_inv_def)
    then have "pl_results s ! i = None" using None by simp
    ultimately show ?thesis using assms(2) i None ws(1,2) [of _ Rejected] unfolding pool_inv_def
      by (auto simp: t intro!: bexI [of _ "items ! i"]) (metis worker.distinct(5) worker.inject)+
  next
    case (Some y)
    then have t: "t = s\<lparr>pl_workers := (pl_workers s)[w := Idle], pl_results := (pl_results s)[i := Some y]\<rparr>"
      by (simp add: finish(1) finish_item_def)
    have "pool_rejected t \<longleftrightarrow> pool_rejected s" using ws(1,2) [of Rejected Idle] by (auto simp: t pool_rejected_def)
    moreover have "Awaiting j \<in> set (pl_workers t) \<Longrightarrow> Awaiting j \<in> set (pl_workers s)"
      "Awaiting j \<in> set (pl_workers s) \<Longrightarrow> j \<noteq> i \<Longrightarrow> Awaiting j \<in> set (pl_workers t)" for j
      using ws(1,2) [of "Awaiting j" Idle] by (auto simp: t)
    ultimately show ?thesis using assms(2) i Some by (auto simp: pool_inv_def t nth_list_update)
  qed
qed

lemma inv_run: "pool_run f items s t \<Longrightarrow> pool_inv f items limit s \<Longrightarrow> pool_inv f items limit t"
  by (induction rule: pool_run.induct) (auto dest: inv_step)

section \<open>Progress\<close>

text \<open>Each step takes an item or ends one, so that a run has at most twice as many steps as items.\<close>

fun busy :: "worker list \<Rightarrow> nat" where
  "busy [] = 0"
| "busy (Awaiting i # ws) = Suc (busy ws)"
| "busy (w # ws) = busy ws"

lemma busy_Cons: "busy (w # ws) = (case w of Awaiting i \<Rightarrow> 1 | _ \<Rightarrow> 0) + busy ws"
  by (cases w) simp_all

lemma busy_change:
  "w < length ws \<Longrightarrow>
     busy (ws[w := v]) + (case ws ! w of Awaiting i \<Rightarrow> 1 | _ \<Rightarrow> 0) = busy ws + (case v of Awaiting i \<Rightarrow> 1 | _ \<Rightarrow> 0)"
proof (induction ws arbitrary: w)
  case (Cons x ws)
  then show ?case by (cases w) (auto simp: busy_Cons simp del: busy.simps)
qed simp

lemma busy_le: "busy ws \<le> length ws"
  by (induction ws rule: busy.induct) auto

definition pool_work :: "'a list \<Rightarrow> 'b pool \<Rightarrow> nat" where
  "pool_work items s = 2 * (length items - pl_nextIndex s) + busy (pl_workers s)"

lemma step_less_work: "pool_step f items s t \<Longrightarrow> pool_work items t < pool_work items s"
proof (erule pool_stepE)
  fix w
  assume "t = take_item w s" "w < length (pl_workers s)" "pl_workers s ! w = Idle" "pl_nextIndex s < length items"
  then show ?thesis using busy_change [of w "pl_workers s" "Awaiting (pl_nextIndex s)"] by (simp add: pool_work_def take_item_def)
next
  fix w i
  assume "t = finish_item f items w i s" "w < length (pl_workers s)" "pl_workers s ! w = Awaiting i"
  then show ?thesis using busy_change [of w "pl_workers s" Idle] busy_change [of w "pl_workers s" Rejected]
    by (simp add: pool_work_def finish_item_def split: option.split)
qed

lemma stuck_is_over:
  assumes "pool_inv f items limit s" "0 < limit" "\<nexists>t. pool_step f items s t" "\<not> pool_rejected s"
  shows "pool_done items s"
proof -
  have idle: "v = Idle" if "v \<in> set (pl_workers s)" for v
  proof (cases v)
    case (Awaiting i)
    with that obtain w where "w < length (pl_workers s)" "pl_workers s ! w = Awaiting i" by (auto simp: in_set_conv_nth)
    then show ?thesis using assms(3) pool_step.finish by blast
  qed (use that assms(4) in \<open>auto simp: pool_rejected_def\<close>)
  have "length items \<le> pl_nextIndex s"
  proof (rule ccontr)
    assume less: "\<not> length items \<le> pl_nextIndex s"
    with assms(1,2) have "0 < length (pl_workers s)" by (auto simp: pool_inv_def)
    then have "pl_workers s ! 0 = Idle" using idle nth_mem by blast
    with less \<open>0 < length (pl_workers s)\<close> assms(3) pool_step.take [of 0 s items f] show False by auto
  qed
  with idle show ?thesis by (auto simp: pool_done_def list_all_iff)
qed

lemma done_results:
  assumes "pool_inv f items limit s" "pool_done items s"
  shows "pl_results s = map f items" "None \<notin> f ` set items"
proof -
  have idle: "Awaiting i \<notin> set (pl_workers s)" "\<not> pool_rejected s" for i
    using assms(2) by (auto simp: pool_done_def list_all_iff pool_rejected_def)
  then have done_items: "pl_results s ! i = f (items ! i) \<and> f (items ! i) \<noteq> None" if "i < length items" for i
    using assms that by (auto simp: pool_inv_def pool_done_def)
  show "pl_results s = map f items"
    by (rule nth_equalityI) (use assms(1) done_items in \<open>auto simp: pool_inv_def\<close>)
  show "None \<notin> f ` set items"
  proof
    assume "None \<in> f ` set items"
    then obtain i where "i < length items" "f (items ! i) = None" by (auto simp: in_set_conv_nth)
    then show False using done_items by simp
  qed
qed

text \<open>
  C36: a pool with at least one worker maps every item, or fails because an item failed. However the
  calls interleave, never more of them are in flight than the limit and every step leaves less work.
  The pool cannot stop before everything is done, unless a call has rejected, and has nothing left to
  do when it is. When it is done, every call succeeded and the results are those of a plain map, in
  the order of the items; when it rejects, the call of some item did.
\<close>

theorem pool_maps:
  assumes "0 < limit" and "pool_run f items (pool_start items limit) s"
  shows "busy (pl_workers s) \<le> limit \<and>
    ((\<nexists>t. pool_step f items s t) \<longrightarrow> pool_done items s \<or> pool_rejected s) \<and>
    (pool_done items s \<longrightarrow> (\<nexists>t. pool_step f items s t)) \<and>
    (\<forall>t. pool_step f items s t \<longrightarrow> pool_work items t < pool_work items s) \<and>
    (pool_done items s \<longrightarrow> pl_results s = map f items \<and> None \<notin> f ` set items) \<and>
    (pool_rejected s \<longrightarrow> None \<in> f ` set items)"
proof -
  have inv: "pool_inv f items limit s" using inv_run [OF assms(2) inv_start] .
  have "busy (pl_workers s) \<le> limit" using busy_le [of "pl_workers s"] inv by (simp add: pool_inv_def)
  moreover have "\<not> pool_step f items s t" if "pool_done items s" for t
  proof
    assume "pool_step f items s t"
    then show False using that
      by cases (use nth_mem in \<open>fastforce simp: pool_done_def list_all_iff\<close>)+
  qed
  moreover have "pool_rejected s \<Longrightarrow> None \<in> f ` set items" using inv by (force simp: pool_inv_def)
  ultimately show ?thesis using stuck_is_over [OF inv assms(1)] done_results [OF inv] step_less_work by blast
qed

text \<open>Two workers, of three items the second of which fails: the first worker ends last.\<close>

definition half :: "nat \<Rightarrow> nat option" where
  "half n = (if even n then Some (n div 2) else None)"

theorem pool_maps_witness:
  "pl_results (finish_item half [6] 0 0 (take_item 0 (pool_start [6 :: nat] 2))) = [Some 3] \<and>
   (let s = finish_item half [6, 5] 1 1 (take_item 1 (take_item 0 (pool_start [6 :: nat, 5] 2)))
    in pool_rejected s \<and> None \<in> half ` set [6, 5])"
proof -
  let ?t = "take_item 0 (pool_start [6 :: nat] 2) :: nat pool"
  let ?u = "finish_item half [6] 0 0 ?t"
  have "pool_step half [6] (pool_start [6 :: nat] 2) ?t" by (rule pool_step.take) (simp_all add: pool_start_def)
  moreover have "pool_step half [6] ?t ?u" by (rule pool_step.finish) (simp_all add: pool_start_def take_item_def)
  ultimately have "pool_run half [6] (pool_start [6 :: nat] 2) ?u" by (blast intro: pool_run.intros)
  moreover have "pool_done [6 :: nat] ?u" by (simp add: pool_done_def pool_start_def take_item_def finish_item_def half_def)
  ultimately have resolved: "pl_results ?u = [Some 3]" using pool_maps [of 2 half "[6]" ?u] by (simp add: half_def)
  let ?v = "take_item 0 (pool_start [6 :: nat, 5] 2) :: nat pool"
  let ?w = "take_item 1 ?v"
  let ?x = "finish_item half [6, 5] 1 1 ?w"
  have "pool_step half [6, 5] (pool_start [6 :: nat, 5] 2) ?v" by (rule pool_step.take) (simp_all add: pool_start_def)
  moreover have "pool_step half [6, 5] ?v ?w" by (rule pool_step.take) (simp_all add: pool_start_def take_item_def)
  moreover have "pool_step half [6, 5] ?w ?x" by (rule pool_step.finish) (simp_all add: pool_start_def take_item_def)
  ultimately have "pool_run half [6, 5] (pool_start [6 :: nat, 5] 2) ?x" by (blast intro: pool_run.intros)
  moreover have "pool_rejected ?x" by (simp add: pool_rejected_def pool_start_def take_item_def finish_item_def half_def)
  ultimately have "None \<in> half ` set [6, 5]" using pool_maps [of 2 half "[6, 5]" ?x, OF zero_less_numeral] by blast
  with resolved \<open>pool_rejected ?x\<close> show ?thesis by (simp add: Let_def)
qed

end
