(* ===== verification/Preflight.thy ===== *)
theory Preflight
  imports Duplicates Store
begin

text \<open>
  What \<open>signals/engine.ts\<close> tells a contributor before a pull request and the panel after it: the lane of a
  repository, the health of its queue, the preflight of a planned contribution and the public
  readiness score. The clock and \<open>Date.parse\<close> are arguments (\<open>now\<close> in milliseconds, \<open>now_iso\<close>).
\<close>

section \<open>Lanes\<close>

datatype ParticipationLane = lane_direct_pr | lane_issue_discovery | lane_split | lane_inactive | lane_unknown

record LaneAdvice =
  la_lane :: ParticipationLane
  la_repoFullName :: string
  la_issueDiscoveryShare :: "rat option"
  la_directPrShare :: "rat option"
  la_summary :: string
  la_contributorGuidance :: string
  la_maintainerGuidance :: string

definition buildLaneAdvice :: "RepositoryRecord option \<Rightarrow> string \<Rightarrow> LaneAdvice" where
  "buildLaneAdvice repo fullName =
     (case (case repo of None \<Rightarrow> None | Some r \<Rightarrow> if repo_isRegistered r then repo_registryConfig r else None) of
        None \<Rightarrow>
          \<lparr>la_lane = lane_unknown, la_repoFullName = fullName, la_issueDiscoveryShare = None, la_directPrShare = None,
           la_summary = ''Repository registration is not available in the local Gittensory cache.'',
           la_contributorGuidance = ''Do not assume this repo is ready for Gittensor-specific contribution guidance yet.'',
           la_maintainerGuidance = ''Refresh the registry snapshot or install the GitHub App so Gittensory can evaluate the repo.''\<rparr>
      | Some config \<Rightarrow>
          (let issueDiscoveryShare = max 0 (min 1 (cfg_issueDiscoveryShare config));
               directPrShare = 1 - issueDiscoveryShare
           in if cfg_emissionShare config \<le> 0 then
                \<lparr>la_lane = lane_inactive, la_repoFullName = fullName,
                 la_issueDiscoveryShare = Some (cfg_issueDiscoveryShare config), la_directPrShare = Some 0,
                 la_summary = ''Repository is registered but has no active allocation in the current snapshot.'',
                 la_contributorGuidance = ''Treat this as normal upstream contribution work unless the registry changes.'',
                 la_maintainerGuidance = ''Do not expect Gittensor-driven contributor flow from this repo while allocation is zero.''\<rparr>
              else if issueDiscoveryShare = 1 then
                \<lparr>la_lane = lane_issue_discovery, la_repoFullName = fullName,
                 la_issueDiscoveryShare = Some issueDiscoveryShare, la_directPrShare = Some directPrShare,
                 la_summary = ''Repository is configured for issue-discovery flow.'',
                 la_contributorGuidance = ''Focus on high-proof issue discovery and avoid self-resolved issue loops.'',
                 la_maintainerGuidance = ''Prioritize issue quality, duplicate risk, and whether reports are actionable for outside contributors.''\<rparr>
              else if issueDiscoveryShare = 0 then
                \<lparr>la_lane = lane_direct_pr, la_repoFullName = fullName,
                 la_issueDiscoveryShare = Some issueDiscoveryShare, la_directPrShare = Some directPrShare,
                 la_summary = ''Repository is configured for direct PR review.'',
                 la_contributorGuidance = ''Prefer focused PRs with clear evidence, linked context, and low review churn.'',
                 la_maintainerGuidance = ''Use PR hygiene, duplicate risk, and test evidence as the primary review filters.''\<rparr>
              else
                \<lparr>la_lane = lane_split, la_repoFullName = fullName,
                 la_issueDiscoveryShare = Some issueDiscoveryShare, la_directPrShare = Some directPrShare,
                 la_summary = ''Repository is configured for both issue discovery and direct PR review.'',
                 la_contributorGuidance = ''Pick one path intentionally: issue discovery for reports, direct PR for implementation.'',
                 la_maintainerGuidance = ''Check whether each submission is using the right path before reviewing technical detail.''\<rparr>))"

section \<open>Queue health\<close>

text \<open>\<open>daysSince\<close>: a missing, empty or unreadable date counts as fresh.\<close>

definition daysSince :: "(string \<Rightarrow> int option) \<Rightarrow> int \<Rightarrow> string option \<Rightarrow> int" where
  "daysSince date_parse now value =
     (case value of
        None \<Rightarrow> 0
      | Some v \<Rightarrow> if v = [] then 0 else (case date_parse v of None \<Rightarrow> 0 | Some parsed \<Rightarrow> (now - parsed) div 86400000))"

definition isMaintainerAssociation :: "string option \<Rightarrow> bool" where
  "isMaintainerAssociation value \<longleftrightarrow> value = Some ''OWNER'' \<or> value = Some ''MEMBER'' \<or> value = Some ''COLLABORATOR''"

record QueueSignalCounts =
  qc_openIssues :: "nat option"
  qc_openPullRequests :: "nat option"
  qc_likelyReviewablePullRequests :: "nat option"

definition no_counts :: QueueSignalCounts where
  "no_counts = \<lparr>qc_openIssues = None, qc_openPullRequests = None, qc_likelyReviewablePullRequests = None\<rparr>"

datatype ReviewableSource = from_cache | from_sampled_cache | from_authoritative

datatype QueueLevel = queue_low | queue_medium | queue_high | queue_critical

record QueueHealth =
  qh_repoFullName :: string
  qh_generatedAt :: string
  qh_burdenScore :: int
  qh_level :: QueueLevel
  qh_summary :: string
  qh_openIssues :: nat
  qh_openPullRequests :: nat
  qh_unlinkedPullRequests :: nat
  qh_stalePullRequests :: nat
  qh_maintainerAuthoredPullRequests :: nat
  qh_collisionClusters :: nat
  qh_under7Days :: nat
  qh_days7To30 :: nat
  qh_over30Days :: nat
  qh_likelyReviewablePullRequests :: nat
  qh_cachedOpenPullRequests :: nat
  qh_likelyReviewableSource :: ReviewableSource
  qh_findings :: "AdvisoryFinding list"

fun queue_level_name :: "QueueLevel \<Rightarrow> string" where
  "queue_level_name queue_low = ''low''"
| "queue_level_name queue_medium = ''medium''"
| "queue_level_name queue_high = ''high''"
| "queue_level_name queue_critical = ''critical''"

definition queue_level :: "int \<Rightarrow> QueueLevel" where
  "queue_level burdenScore =
     (if burdenScore \<ge> 80 then queue_critical else if burdenScore \<ge> 55 then queue_high
      else if burdenScore \<ge> 25 then queue_medium else queue_low)"

definition pr_age :: "(string \<Rightarrow> int option) \<Rightarrow> int \<Rightarrow> PullRequestRecord \<Rightarrow> int" where
  "pr_age date_parse now pr = daysSince date_parse now (orElse (pr_updatedAt pr) (pr_createdAt pr))"

definition buildQueueHealth ::
    "(string \<Rightarrow> int option) \<Rightarrow> int \<Rightarrow> string \<Rightarrow> RepositoryRecord option \<Rightarrow> IssueRecord list \<Rightarrow> PullRequestRecord list
     \<Rightarrow> CollisionReport \<Rightarrow> QueueSignalCounts \<Rightarrow> QueueHealth" where
  "buildQueueHealth date_parse now now_iso repo issues pullRequests collisions countOverrides =
     (let openIssues = filter (\<lambda>i. iss_state i = ''open'') issues;
          openPrs = filter (\<lambda>p. pr_state p = ''open'') pullRequests;
          age = pr_age date_parse now;
          number = (\<lambda>P. length (filter P openPrs));
          openIssueCount = max (length openIssues) (nullish (qc_openIssues countOverrides) 0);
          openPullRequestCount = max (length openPrs) (nullish (qc_openPullRequests countOverrides) 0);
          unlinked = number (\<lambda>p. pr_linkedIssues p = []);
          stale = number (\<lambda>p. age p \<ge> 14);
          maintainerAuthored = number (\<lambda>p. isMaintainerAssociation (pr_authorAssociation p));
          cachedReviewable = number (\<lambda>p. pr_linkedIssues p \<noteq> [] \<and> age p < 30);
          likelyReviewable = min openPullRequestCount
            (max cachedReviewable (nullish (qc_likelyReviewablePullRequests countOverrides) 0));
          under7 = number (\<lambda>p. age p < 7);
          from7 = number (\<lambda>p. age p \<ge> 7 \<and> age p \<le> 30);
          over30 = number (\<lambda>p. age p > 30);
          clusterCount = cr_clusterCount collisions;
          burdenScore = clamp_int 0 100 (int openPullRequestCount * 6 + int openIssueCount + int unlinked * 8 + int stale * 6
            + int over30 * 4 + int clusterCount * 10 - int likelyReviewable * 2);
          level = queue_level burdenScore
      in \<lparr>qh_repoFullName = (case repo of Some r \<Rightarrow> repo_fullName r | None \<Rightarrow> cr_repoFullName collisions),
          qh_generatedAt = now_iso, qh_burdenScore = burdenScore, qh_level = level,
          qh_summary = ''Queue burden is '' @ queue_level_name level @ '' with '' @ nat_str openPullRequestCount @ '' open PR(s), ''
            @ nat_str openIssueCount @ '' open issue(s), and '' @ nat_str clusterCount @ '' overlap cluster(s).'',
          qh_openIssues = openIssueCount, qh_openPullRequests = openPullRequestCount, qh_unlinkedPullRequests = unlinked,
          qh_stalePullRequests = stale, qh_maintainerAuthoredPullRequests = maintainerAuthored,
          qh_collisionClusters = clusterCount, qh_under7Days = under7, qh_days7To30 = from7, qh_over30Days = over30,
          qh_likelyReviewablePullRequests = likelyReviewable, qh_cachedOpenPullRequests = length openPrs,
          qh_likelyReviewableSource =
            (if qc_likelyReviewablePullRequests countOverrides \<noteq> None then from_authoritative
             else if openPullRequestCount > length openPrs then from_sampled_cache else from_cache),
          qh_findings =
            (if unlinked > 0 then [finding ''unlinked_prs'' warning ''Open PRs are missing linked issue context''
               (nat_str unlinked @ '' open pull request(s) in the local cache do not reference a closing issue.'')
               (Some ''Ask contributors to link relevant issues or explain no-issue PR intent clearly.'') None] else [])
            @ (if clusterCount > 0 then [finding ''collision_clusters'' (if cr_highRiskCount collisions > 0 then warning else info)
                 ''Duplicate or overlapping work is visible''
                 (nat_str clusterCount @ '' possible overlap cluster(s) were detected.'')
                 (Some ''Review overlapping submissions before spending detailed review time.'') None] else [])
            @ (if stale > 0 then [finding ''stale_prs'' info ''Some open PRs appear stale''
                 (nat_str stale @ '' open pull request(s) have not updated in at least 14 days.'') None None] else [])\<rparr>)"

section \<open>Bounties\<close>

record BountyRecord =
  bo_id :: string
  bo_repoFullName :: string
  bo_issueNumber :: nat
  bo_status :: string
  bo_amountText :: "string option"
  bo_sourceUrl :: "string option"
  bo_payload :: "(string \<times> json) list"
  bo_discoveredAt :: "string option"
  bo_updatedAt :: "string option"

datatype BountyLifecycle = bl_active | bl_historical | bl_completed | bl_cancelled | bl_stale | bl_ambiguous | bl_unknown

fun lifecycle_name :: "BountyLifecycle \<Rightarrow> string" where
  "lifecycle_name bl_active = ''active''"
| "lifecycle_name bl_historical = ''historical''"
| "lifecycle_name bl_completed = ''completed''"
| "lifecycle_name bl_cancelled = ''cancelled''"
| "lifecycle_name bl_stale = ''stale''"
| "lifecycle_name bl_ambiguous = ''ambiguous''"
| "lifecycle_name bl_unknown = ''unknown''"

definition BOUNTY_STALE_DAYS :: int where "BOUNTY_STALE_DAYS = 45"

definition bountyIssueKey :: "string \<Rightarrow> nat \<Rightarrow> string" where
  "bountyIssueKey repoFullName issueNumber = toLowerCase repoFullName @ CHR ''#'' # nat_str issueNumber"

text \<open>A later bounty of an issue replaces an earlier one.\<close>

definition indexBountiesByIssue :: "BountyRecord list \<Rightarrow> string \<Rightarrow> BountyRecord option" where
  "indexBountiesByIssue bounties key =
     List.find (\<lambda>b. bountyIssueKey (bo_repoFullName b) (bo_issueNumber b) = key) (rev bounties)"

definition contains_any :: "string list \<Rightarrow> string \<Rightarrow> bool" where
  "contains_any words s = list_ex (str_includes s) words"

definition classifyBountyLifecycle ::
    "(string \<Rightarrow> int option) \<Rightarrow> int \<Rightarrow> BountyRecord \<Rightarrow> IssueRecord option \<Rightarrow> BountyLifecycle" where
  "classifyBountyLifecycle date_parse now bounty issue =
     (let status = toLowerCase (trim (bo_status bounty))
      in if status = [] then bl_unknown
         else if contains_any [''cancel'', ''void'', ''expired'', ''withdrawn'', ''rejected'', ''abandon''] status then bl_cancelled
         else if contains_any [''complete'', ''paid'', ''resolved'', ''rewarded'', ''awarded'', ''fulfil'', ''merged'', ''claimed'', ''done'']
           status then bl_completed
         else if contains_any [''historical'', ''archived'', ''closed''] status then bl_historical
         else if \<not> (contains_any [''open'', ''active'', ''live'', ''available'', ''ready'', ''funded'', ''reward'', ''award'',
               ''todo'', ''new''] status
             \<or> rx_test (Seq [Lit ''in'', Opt (Oneof (space_items @ [One CHR ''_'', One CHR ''-''])), Lit ''progress'']) status)
           then bl_ambiguous
         else if (case issue of None \<Rightarrow> False | Some i \<Rightarrow> iss_state i \<noteq> ''open'') then bl_ambiguous
         else if daysSince date_parse now (orElse (bo_updatedAt bounty) (bo_discoveredAt bounty)) > BOUNTY_STALE_DAYS then bl_stale
         else bl_active)"

definition isHistoricalBountyLifecycle :: "BountyLifecycle \<Rightarrow> bool" where
  "isHistoricalBountyLifecycle l \<longleftrightarrow> l = bl_historical \<or> l = bl_completed \<or> l = bl_cancelled"

section \<open>Preflight\<close>

datatype QualityStatus = iq_ready | iq_needs_proof | iq_hold | iq_do_not_use

text \<open>An entry of the issue quality report, with the fields the preflight reads.\<close>

record IssueQuality =
  iq_number :: nat
  iq_status :: QualityStatus
  iq_warnings :: "string list"

fun quality_name :: "QualityStatus \<Rightarrow> string" where
  "quality_name iq_ready = ''ready''"
| "quality_name iq_needs_proof = ''needs_proof''"
| "quality_name iq_hold = ''hold''"
| "quality_name iq_do_not_use = ''do_not_use''"

definition issueQualityFindings :: "nat list \<Rightarrow> IssueQuality list option \<Rightarrow> AdvisoryFinding list" where
  "issueQualityFindings linkedIssues issueQuality =
     (case issueQuality of
        None \<Rightarrow> []
      | Some entries \<Rightarrow>
          concat (map (\<lambda>n.
            (case List.find (\<lambda>q. iq_number q = n) (rev entries) of
               None \<Rightarrow> []
             | Some q \<Rightarrow>
                 (let detail = (case iq_warnings q of w # _ \<Rightarrow> w
                    | [] \<Rightarrow> ''Issue quality report marks #'' @ nat_str n @ '' as '' @ quality_name (iq_status q) @ ''.'')
                  in case iq_status q of
                       iq_ready \<Rightarrow> []
                     | iq_do_not_use \<Rightarrow> [finding ''issue_quality_do_not_use'' warning
                         ''Linked issue is already covered or duplicate-prone'' detail
                         (Some ''Confirm the linked issue is still actionable before posting public PR context.'') None]
                     | iq_needs_proof \<Rightarrow> [finding ''issue_quality_needs_proof'' warning ''Linked issue needs stronger proof'' detail
                         (Some ''Add concrete reproduction, scope, or maintainer context before proceeding.'') None]
                     | iq_hold \<Rightarrow> [finding ''issue_quality_hold'' warning ''Linked issue is on hold'' detail
                         (Some ''Choose a clearer candidate or wait for maintainer context.'') None]))) linkedIssues))"

record PreflightInput =
  pi_repoFullName :: string
  pi_contributorLogin :: "string option"
  pi_title :: string
  pi_body :: "string option"
  pi_labels :: "string list option"
  pi_changedFiles :: "string list option"
  pi_linkedIssues :: "nat list option"
  pi_tests :: "string list option"
  pi_authorAssociation :: "string option"

datatype PreflightStatus = pf_ready | pf_needs_work | pf_hold

datatype ReviewBurden = burden_low | burden_medium | burden_high

record PreflightResult =
  pf_repoFullName :: string
  pf_generatedAt :: string
  pf_status :: PreflightStatus
  pf_lane :: LaneAdvice
  pf_reviewBurden :: ReviewBurden
  pf_linkedIssues :: "nat list"
  pf_findings :: "AdvisoryFinding list"
  pf_collisions :: "CollisionCluster list"

definition plannedContributionTerms :: "PreflightInput \<Rightarrow> string list" where
  "plannedContributionTerms input = dedupe (tokenize (join '' ''
     ([take LIMIT_titleChars (pi_title input)]
      @ boundedTextItems (pi_labels input) LIMIT_labels LIMIT_labelChars
      @ boundedTextItems (pi_changedFiles input) LIMIT_changedFiles LIMIT_changedFileChars)))"

definition planned_links :: "PreflightInput \<Rightarrow> nat list" where
  "planned_links input = sort (dedupe (nullish (pi_linkedIssues input) []
     @ extractLinkedIssueNumbers (take LIMIT_bodyChars (nullish (pi_body input) []))))"

definition related_clusters :: "PreflightInput \<Rightarrow> CollisionReport \<Rightarrow> CollisionCluster list" where
  "related_clusters input report =
     filter (\<lambda>cluster. list_ex (\<lambda>item. item_number item \<in> set (planned_links input) \<or>
         (let overlap = termOverlap (plannedContributionTerms input) (cached_terms (cr_items report) item)
          in snd overlap \<ge> 2 \<and> fst overlap \<ge> 1 / 2)) (cl_items cluster)) (cr_clusters report)"

definition bounty_findings ::
    "(string \<Rightarrow> int option) \<Rightarrow> int \<Rightarrow> string \<Rightarrow> IssueRecord list \<Rightarrow> BountyRecord list \<Rightarrow> nat \<Rightarrow> AdvisoryFinding list" where
  "bounty_findings date_parse now repoFullName issues bounties n =
     (case indexBountiesByIssue bounties (bountyIssueKey repoFullName n) of
        None \<Rightarrow> []
      | Some bounty \<Rightarrow>
          (let linkedIssue = List.find (\<lambda>i. toLowerCase (iss_repoFullName i) = toLowerCase repoFullName \<and> iss_number i = n) issues;
               lifecycle = classifyBountyLifecycle date_parse now bounty linkedIssue
           in if isHistoricalBountyLifecycle lifecycle then
                [finding ''linked_issue_bounty_historical'' info ''Linked issue bounty is historical''
                   (''Issue #'' @ nat_str n @ '' has a '' @ lifecycle_name lifecycle
                    @ '' bounty; confirm the work is still wanted before investing in it.'')
                   (Some ''Verify the bounty and issue are still open upstream.'') None]
              else if lifecycle = bl_stale \<or> lifecycle = bl_ambiguous then
                [finding ''linked_issue_bounty_unverified'' warning ''Linked issue bounty needs verification''
                   (''Issue #'' @ nat_str n @ '' has a '' @ lifecycle_name lifecycle
                    @ '' bounty; confirm it is still active before relying on it as contribution context.'')
                   (Some ''Re-check the upstream bounty source before submitting.'') None]
              else []))"

definition needs_attention :: "AdvisoryFinding list \<Rightarrow> bool" where
  "needs_attention fs = list_ex (\<lambda>f. f_severity f = warning \<or> f_severity f = critical) fs"

definition preflight_findings ::
    "(string \<Rightarrow> int option) \<Rightarrow> int \<Rightarrow> PreflightInput \<Rightarrow> LaneAdvice \<Rightarrow> CollisionCluster list \<Rightarrow> IssueRecord list \<Rightarrow> BountyRecord list
     \<Rightarrow> IssueQuality list option \<Rightarrow> AdvisoryFinding list" where
  "preflight_findings date_parse now input lane collisions issues bounties issueQuality =
     (let linkedIssues = planned_links input; changedFiles = nullish (pi_changedFiles input) []
      in (if la_lane lane = lane_unknown \<or> la_lane lane = lane_inactive then
            [finding ''lane_not_recommended'' warning ''Repo lane is not ready for a confident recommendation'' (la_summary lane)
               (Some ''Refresh registry data or choose a registered active repo.'') None] else [])
         @ (if linkedIssues = [] \<and> la_lane lane \<noteq> lane_issue_discovery then
              [finding ''missing_linked_issue'' warning ''No linked issue detected''
                 ''The planned PR does not reference a closing issue or explicit linked issue number.''
                 (Some ''Link the issue being solved, or explicitly explain why this is a no-issue PR.'') None] else [])
         @ (if collisions \<noteq> [] then
              [finding ''possible_duplicate_work'' (if list_ex (\<lambda>c. cl_risk c = Risk_high) collisions then warning else info)
                 ''Possible duplicate or overlapping work''
                 (nat_str (length collisions) @ '' related open work cluster(s) were detected.'')
                 (Some ''Check active issues and PRs before submitting.'') None] else [])
         @ concat (map (bounty_findings date_parse now (pi_repoFullName input) issues bounties) linkedIssues)
         @ issueQualityFindings linkedIssues issueQuality
         @ (if list_ex isCodeFile changedFiles \<and> nullish (pi_tests input) [] = [] \<and> \<not> list_ex isTestFile changedFiles then
              [finding ''missing_test_evidence'' warning ''No test evidence supplied''
                 ''Code files are listed, but no tests or test files were supplied in preflight input.''
                 (Some ''Add focused test evidence or explain why existing coverage is sufficient.'') None] else []))"

definition buildPreflightResult ::
    "(string \<Rightarrow> int option) \<Rightarrow> int \<Rightarrow> string \<Rightarrow> PreflightInput \<Rightarrow> RepositoryRecord option \<Rightarrow> IssueRecord list
     \<Rightarrow> PullRequestRecord list \<Rightarrow> BountyRecord list \<Rightarrow> IssueQuality list option \<Rightarrow> PreflightResult" where
  "buildPreflightResult date_parse now now_iso input repo issues pullRequests bounties issueQuality =
     (let lane = buildLaneAdvice repo (pi_repoFullName input);
          report = buildCollisionReport now_iso (pi_repoFullName input) issues pullRequests [];
          collisions = related_clusters input report;
          fs = preflight_findings date_parse now input lane collisions issues bounties issueQuality;
          changedFiles = nullish (pi_changedFiles input) []
      in \<lparr>pf_repoFullName = pi_repoFullName input, pf_generatedAt = now_iso,
          pf_status = (if la_lane lane = lane_unknown \<or> la_lane lane = lane_inactive then pf_hold
            else if needs_attention fs then pf_needs_work else pf_ready),
          pf_lane = lane,
          pf_reviewBurden = (if length changedFiles \<ge> 12 \<or> collisions \<noteq> [] then burden_high
            else if length changedFiles \<ge> 5 then burden_medium else burden_low),
          pf_linkedIssues = planned_links input, pf_findings = fs, pf_collisions = collisions\<rparr>)"

record LocalDiff =
  ld_changedFileCount :: nat
  ld_changedLineCount :: nat
  ld_testFileCount :: nat
  ld_codeFileCount :: nat
  ld_inferredLinkedIssues :: "nat list"
  ld_summary :: string

definition buildLocalDiffPreflightResult ::
    "(string \<Rightarrow> int option) \<Rightarrow> int \<Rightarrow> string \<Rightarrow> PreflightInput \<Rightarrow> nat option \<Rightarrow> string list option \<Rightarrow> string option
     \<Rightarrow> RepositoryRecord option \<Rightarrow> IssueRecord list \<Rightarrow> PullRequestRecord list \<Rightarrow> BountyRecord list \<Rightarrow> IssueQuality list option
     \<Rightarrow> PreflightResult \<times> LocalDiff" where
  "buildLocalDiffPreflightResult date_parse now now_iso input lineCount testFiles commitMessage repo issues pullRequests bounties
       issueQuality =
     (let changedFiles = dedupe (nullish (pi_changedFiles input) [] @ nullish testFiles []);
          linkedFromCommit = extractLinkedIssueNumbers (join [CHR 0x0A] (filter (\<lambda>s. s \<noteq> [])
            [nullish commitMessage [], nullish (pi_body input) [], pi_title input]));
          base = buildPreflightResult date_parse now now_iso
            (input\<lparr>pi_changedFiles := Some changedFiles,
               pi_linkedIssues := Some (dedupe (nullish (pi_linkedIssues input) [] @ linkedFromCommit)),
               pi_tests := Some (nullish (pi_tests input) [] @ nullish testFiles [])\<rparr>)
            repo issues pullRequests bounties issueQuality;
          codeFileCount = length (filter isCodeFile changedFiles);
          testFileCount = length (filter isTestFile changedFiles);
          changedLineCount = nullish lineCount 0;
          fs = pf_findings base
            @ (if changedLineCount > 800 then
                 [finding ''large_local_diff'' warning ''Local diff is large''
                    ''The planned change is large enough to create avoidable review burden.''
                    (Some ''Split unrelated work or clearly explain why the scope needs to stay together.'') None] else [])
            @ (if codeFileCount > 0 \<and> testFileCount = 0 \<and> \<not> hasLocalTestEvidence (pi_tests input) testFiles then
                 [finding ''local_diff_missing_tests'' warning ''Local diff has code changes without test files''
                    ''Changed paths include code files but no test paths.''
                    (Some ''Add regression coverage or include concrete validation evidence.'') None] else [])
      in (base\<lparr>pf_findings := fs,
            pf_status := (if pf_status base = pf_hold then pf_hold else if needs_attention fs then pf_needs_work else pf_ready)\<rparr>,
          \<lparr>ld_changedFileCount = length changedFiles, ld_changedLineCount = changedLineCount, ld_testFileCount = testFileCount,
           ld_codeFileCount = codeFileCount, ld_inferredLinkedIssues = linkedFromCommit,
           ld_summary = nat_str (length changedFiles) @ '' file(s), '' @ nat_str changedLineCount @ '' changed line(s), ''
             @ nat_str testFileCount @ '' test file(s), '' @ nat_str codeFileCount @ '' code file(s).''\<rparr>))"

end
