(* ===== verification/Readiness.thy ===== *)
theory Readiness
  imports Preflight
begin

text \<open>
  The public readiness score of \<open>signals/engine.ts\<close>, the number the quality gate compares with its
  threshold: six components, each between a floor and its maximum.
\<close>

section \<open>Components\<close>

datatype ReadinessKey = rk_traceability | rk_related_work | rk_change_scope | rk_validation | rk_pr_state | rk_queue_pressure

record ReadinessComponent =
  rc_key :: ReadinessKey
  rc_label :: string
  rc_score :: int
  rc_max :: int
  rc_evidence :: string
  rc_action :: string

record PublicReadinessScore =
  prs_total :: int
  prs_components :: "ReadinessComponent list"

definition reviewLoadComponentScore :: "ReviewBurden \<Rightarrow> int" where
  "reviewLoadComponentScore b = (case b of burden_low \<Rightarrow> 20 | burden_medium \<Rightarrow> 14 | burden_high \<Rightarrow> 8)"

definition VALIDATION_NOTE :: rx where
  "VALIDATION_NOTE = Seq [Wordb, Alt
     [Seq [Lit ''test'', Opt (Alt [Lit ''ed'', Lit ''s'', Lit ''ing''])], Lit ''validation'', Lit ''validated'', Lit ''verified'',
      Lit ''manual check'', Lit ''smoke'', Lit ''pytest'', Lit ''vitest'', Lit ''npm test'', Lit ''pnpm test'',
      Lit ''cargo test'', Lit ''go test''], Wordb]"

definition hasValidationNote :: "string \<Rightarrow> bool" where
  "hasValidationNote value = rx_test_i VALIDATION_NOTE value"

definition MISSING_TESTS :: rx where
  "MISSING_TESTS = Alt [Seq [Lit ''missing'', Many Dot, Lit ''test''], Seq [Lit ''test'', Many Dot, Lit ''missing''], Lit ''no_test'']"

definition validationComponent :: "PullRequestRecord \<Rightarrow> PreflightResult \<Rightarrow> int \<times> string \<times> string" where
  "validationComponent pr preflight =
     (let missingTests = list_ex (\<lambda>f. rx_test_i MISSING_TESTS (f_code f)) (pf_findings preflight);
          explicitValidation = hasValidationNote (nullish (pr_body pr) [])
      in if pf_status preflight = pf_hold then (5, ''Cached preflight status is hold.'', ''Fix blocker.'')
         else if missingTests \<and> \<not> explicitValidation
           then (10, ''No cached test files or validation note found.'', ''Add validation note.'')
         else if explicitValidation then (25, ''PR body includes validation/test evidence.'', ''No action.'')
         else if pf_status preflight = pf_ready
           then (20, ''Cached preflight status is ready; explicit validation note not found.'', ''Add validation note.'')
         else (12, ''Cached preflight status needs author follow-up.'', ''Add validation note.''))"

definition queuePressureOpenPullRequestScore :: "nat \<Rightarrow> int" where
  "queuePressureOpenPullRequestScore n = (if n \<le> 4 then 10 else if n \<le> 8 then 8 else if n \<le> 13 then 5 else 3)"

definition queuePressureScore :: "nat \<Rightarrow> int" where
  "queuePressureScore n = (if n = 0 then 10 else queuePressureOpenPullRequestScore n)"

text \<open>The source of the reviewable count is always recorded by \<open>buildQueueHealth\<close>.\<close>

definition queuePressureComponent :: "QueueHealth \<Rightarrow> int \<times> string \<times> string" where
  "queuePressureComponent q =
     (let n = qh_openPullRequests q;
          cached = qh_cachedOpenPullRequests q;
          likely = min n (qh_likelyReviewablePullRequests q);
          sampled = (qh_likelyReviewableSource q = from_sampled_cache);
          score = queuePressureScore n;
          likelyEvidence =
            (if n = 0 then ''0 likely reviewable''
             else if sampled
             then (if cached > 0
                   then nat_str likely @ '' likely reviewable in '' @ nat_str cached
                     @ '' cached PR(s); full queue reviewability is sampled''
                   else ''likely-reviewable count unavailable from cached PR metadata'')
             else nat_str likely @ '' likely reviewable'');
          parts = [nat_str n @ '' open PR(s)'', likelyEvidence]
            @ (if qh_stalePullRequests q > 0 then [nat_str (qh_stalePullRequests q) @ '' stale''] else [])
            @ (if qh_unlinkedPullRequests q > 0 then [nat_str (qh_unlinkedPullRequests q) @ '' unlinked''] else [])
      in (score, join '', '' parts @ ''.'', if score \<ge> 8 then ''No action.'' else ''Expect slower review.''))"

definition refs :: "nat list \<Rightarrow> string" where
  "refs numbers = join '', '' (map (\<lambda>n. CHR ''#'' # nat_str n) numbers)"

definition formatSizeLabelEvidence :: "string list \<Rightarrow> string" where
  "formatSizeLabelEvidence labels =
     (case List.find (rx_test_i (Seq [Bol, Lit ''size'', Oneof [One CHR '':'', One CHR ''/'', One CHR ''-'']])) labels of
        None \<Rightarrow> [] | Some l \<Rightarrow> ''; size label '' @ l)"

section \<open>The score\<close>

definition readiness_components ::
    "PullRequestRecord \<Rightarrow> PreflightResult \<Rightarrow> QueueHealth \<Rightarrow> nat list \<Rightarrow> nat \<Rightarrow> ReadinessComponent list" where
  "readiness_components pr preflight queueHealth duplicates overlaps =
     (let linked = pr_linkedIssues pr;
          rationale = hasClearNoIssueRationale (pr_title pr) (pr_body pr);
          reviewLoad = reviewLoadComponentScore (pf_reviewBurden preflight);
          validation = validationComponent pr preflight;
          queuePressure = queuePressureComponent queueHealth;
          open = (pr_state pr = ''open''); draft = (pr_isDraft pr = Some True);
          shown = min overlaps 3
      in [\<lparr>rc_key = rk_traceability, rc_label = ''Traceability'', rc_score = (if linked \<noteq> [] \<or> rationale then 15 else 8), rc_max = 15,
           rc_evidence = (if linked \<noteq> [] then ''Linked issue'' @ (if length linked = 1 then [] else ''s'') @ '' '' @ refs linked @ ''.''
             else if rationale then ''PR body includes a no-issue rationale.'' else ''No linked issue or no-issue rationale found.''),
           rc_action = (if linked \<noteq> [] \<or> rationale then ''No action.'' else ''Explain no-issue PR.'')\<rparr>,
          \<lparr>rc_key = rk_related_work, rc_label = ''Related work'',
           rc_score = (if duplicates \<noteq> [] then 8 else if overlaps > 0 then 14 else 20), rc_max = 20,
           rc_evidence = (if duplicates \<noteq> [] then ''Same linked issue with '' @ refs duplicates @ ''.''
             else if overlaps > 0 then nat_str shown @ '' scoped overlap'' @ (if shown = 1 then [] else ''s'') @ '' found.''
             else ''No active overlap found.''),
           rc_action = (if duplicates \<noteq> [] then ''Compare '' @ refs duplicates @ ''.'' else if overlaps > 0 then ''Review top overlaps.''
             else ''No action.'')\<rparr>,
          \<lparr>rc_key = rk_change_scope, rc_label = ''Change scope'', rc_score = reviewLoad, rc_max = 20,
           rc_evidence = ''Readiness component derived from cached public PR metadata and labels''
             @ formatSizeLabelEvidence (pr_labels pr) @ ''.'',
           rc_action = (if reviewLoad \<ge> 18 then ''No action.'' else ''Add scope summary.'')\<rparr>,
          \<lparr>rc_key = rk_validation, rc_label = ''Validation evidence'', rc_score = fst validation, rc_max = 25,
           rc_evidence = fst (snd validation), rc_action = snd (snd validation)\<rparr>,
          \<lparr>rc_key = rk_pr_state, rc_label = ''PR state'', rc_score = (if open \<and> \<not> draft then 10 else if open then 6 else 3), rc_max = 10,
           rc_evidence = (if draft then ''PR is open as draft.'' else ''PR state is '' @ pr_state pr @ ''.''),
           rc_action = (if open \<and> \<not> draft then ''No action.'' else if draft then ''Mark ready when done.'' else ''No action.'')\<rparr>,
          \<lparr>rc_key = rk_queue_pressure, rc_label = ''Open PR queue'', rc_score = fst queuePressure, rc_max = 10,
           rc_evidence = fst (snd queuePressure), rc_action = snd (snd queuePressure)\<rparr>])"

definition buildPublicReadinessScore ::
    "PullRequestRecord \<Rightarrow> PreflightResult \<Rightarrow> QueueHealth \<Rightarrow> nat list option \<Rightarrow> nat option \<Rightarrow> PublicReadinessScore" where
  "buildPublicReadinessScore pr preflight queueHealth linkedDuplicatePrs scopedOverlapCount =
     (let components = readiness_components pr preflight queueHealth (nullish linkedDuplicatePrs []) (nullish scopedOverlapCount 0)
      in \<lparr>prs_total = clamp_int 0 100 (sum_list (map rc_score components)), prs_components = components\<rparr>)"

definition pullRequestSpecificCollisionClusters :: "CollisionReport \<Rightarrow> PullRequestRecord \<Rightarrow> CollisionCluster list" where
  "pullRequestSpecificCollisionClusters report pr =
     filter (\<lambda>c. list_ex (\<lambda>i. item_type i = Item_pull_request \<and> item_number i = pr_number pr) (cl_items c)) (cr_clusters report)"

definition unionScopedOverlapClusters ::
    "CollisionReport \<Rightarrow> PullRequestRecord \<Rightarrow> CollisionCluster list \<Rightarrow> CollisionCluster list" where
  "unionScopedOverlapClusters report pr preflightCollisions =
     map snd (fold (\<lambda>c m. AList.update (cl_id c) c m) (pullRequestSpecificCollisionClusters report pr @ preflightCollisions) [])"

section \<open>Bounds\<close>

lemma component_bounds:
  "reviewLoadComponentScore b \<in> {8..20}" "queuePressureScore n \<in> {3..10}"
  "fst (validationComponent pr preflight) \<in> {5..25}" "fst (queuePressureComponent q) \<in> {3..10}"
proof -
  show q: "queuePressureScore n \<in> {3..10}" for n
    by (simp add: queuePressureScore_def queuePressureOpenPullRequestScore_def)
  show "reviewLoadComponentScore b \<in> {8..20}" by (cases b) (simp_all add: reviewLoadComponentScore_def)
  show "fst (validationComponent pr preflight) \<in> {5..25}" by (simp add: validationComponent_def Let_def)
  show "fst (queuePressureComponent q) \<in> {3..10}" using q by (simp add: queuePressureComponent_def Let_def)
qed

lemma component_scores:
  "sum_list (map rc_score (readiness_components pr preflight q duplicates overlaps)) =
     (if pr_linkedIssues pr \<noteq> [] \<or> hasClearNoIssueRationale (pr_title pr) (pr_body pr) then 15 else 8)
     + (if duplicates \<noteq> [] then 8 else if overlaps > 0 then 14 else 20) + reviewLoadComponentScore (pf_reviewBurden preflight)
     + fst (validationComponent pr preflight)
     + (if pr_state pr = ''open'' \<and> pr_isDraft pr \<noteq> Some True then 10 else if pr_state pr = ''open'' then 6 else 3)
     + fst (queuePressureComponent q)"
  by (simp add: readiness_components_def Let_def)

text \<open>
  The readiness score is its breakdown. The published total is the sum of the six published component scores
  (the final clamp never changes it), every component lies within its own maximum, and the total
  lies between 35 and 100, so that a quality threshold up to 35 can never block.
\<close>

theorem readiness_is_its_breakdown:
  "let s = buildPublicReadinessScore pr preflight q duplicates overlaps
   in prs_total s = sum_list (map rc_score (prs_components s)) \<and> 35 \<le> prs_total s \<and> prs_total s \<le> 100
      \<and> list_all (\<lambda>c. 0 < rc_score c \<and> rc_score c \<le> rc_max c) (prs_components s)"
proof -
  let ?c = "readiness_components pr preflight q (nullish duplicates []) (nullish overlaps 0)"
  have "35 \<le> sum_list (map rc_score ?c)" "sum_list (map rc_score ?c) \<le> 100"
    using component_bounds(1) [of "pf_reviewBurden preflight"] component_bounds(3) [of pr preflight] component_bounds(4) [of q]
    unfolding component_scores by auto
  moreover have "list_all (\<lambda>c. 0 < rc_score c \<and> rc_score c \<le> rc_max c) ?c"
    using component_bounds(1) [of "pf_reviewBurden preflight"] component_bounds(3) [of pr preflight] component_bounds(4) [of q]
    by (simp add: readiness_components_def Let_def)
  ultimately show ?thesis by (simp add: buildPublicReadinessScore_def Let_def clamp_int_def)
qed

end
