(* ===== verification/Focus_Manifest.thy ===== *)
theory Focus_Manifest
  imports Repo_Settings Public_Safe Store
begin

text \<open>
  The maintainer's configuration file, \<open>signals/focus-manifest.ts\<close>: how an untyped document is
  normalized into a manifest, how a manifest is written back as the document its snapshot stores,
  and how the \<open>settings:\<close> and \<open>gate:\<close> blocks are laid over the settings of the database
  (\<open>resolveEffectiveSettings\<close>). A parser returns its value and the warnings it pushes, in order;
  the warnings are only ever appended to, so those of a block are those of its fields one after the
  other. An option field is \<open>None\<close> where the code has null or omits the field.
\<close>

section \<open>Data\<close>

datatype FocusManifestSource = src_repo_file | src_api_record | src_none

datatype LinkedIssuePolicy = lip_required | lip_preferred | lip_optional

datatype IssueDiscoveryPolicy = idp_encouraged | idp_neutral | idp_discouraged

fun source_text :: "FocusManifestSource \<Rightarrow> string" where
  "source_text src_repo_file = ''repo_file''"
| "source_text src_api_record = ''api_record''"
| "source_text src_none = ''none''"

fun linked_policy_name :: "LinkedIssuePolicy \<Rightarrow> string" where
  "linked_policy_name lip_required = ''required''"
| "linked_policy_name lip_preferred = ''preferred''"
| "linked_policy_name lip_optional = ''optional''"

fun discovery_policy_name :: "IssueDiscoveryPolicy \<Rightarrow> string" where
  "discovery_policy_name idp_encouraged = ''encouraged''"
| "discovery_policy_name idp_neutral = ''neutral''"
| "discovery_policy_name idp_discouraged = ''discouraged''"

record FocusManifestGateConfig =
  gc_present :: bool
  gc_enabled :: "bool option"
  gc_pack :: "GatePolicyPack option"
  gc_linkedIssue :: "GateRuleMode option"
  gc_duplicates :: "GateRuleMode option"
  gc_readinessMode :: "GateRuleMode option"
  gc_readinessMinScore :: "int option"
  gc_slopMode :: "GateRuleMode option"
  gc_slopMinScore :: "int option"
  gc_slopAiAdvisory :: "bool option"
  gc_aiReviewMode :: "GateRuleMode option"
  gc_aiReviewByok :: "bool option"
  gc_aiReviewProvider :: "AiProvider option"
  gc_aiReviewModel :: "string option"
  gc_mergeReadiness :: "GateRuleMode option"
  gc_manifestPolicy :: "GateRuleMode option"
  gc_firstTimeContributorGrace :: "bool option"

record FocusManifestSettings =
  ms_commentMode :: "CommentMode option"
  ms_publicAudienceMode :: "PublicAudienceMode option"
  ms_publicSignalLevel :: "PublicSignalLevel option"
  ms_checkRunMode :: "EnabledMode option"
  ms_checkRunDetailLevel :: "DetailLevel option"
  ms_gateCheckMode :: "EnabledMode option"
  ms_linkedIssueGateMode :: "GateRuleMode option"
  ms_duplicatePrGateMode :: "GateRuleMode option"
  ms_qualityGateMode :: "GateRuleMode option"
  ms_qualityGateMinScore :: "int option"
  ms_aiReviewMode :: "GateRuleMode option"
  ms_aiReviewProvider :: "AiProvider option"
  ms_aiReviewModel :: "string option"
  ms_gittensorLabel :: "string option"
  ms_publicSurface :: "PublicSurface option"
  ms_aiReviewByok :: "bool option"
  ms_autoLabelEnabled :: "bool option"
  ms_createMissingLabel :: "bool option"
  ms_includeMaintainerAuthors :: "bool option"
  ms_requireLinkedIssue :: "bool option"
  ms_backfillEnabled :: "bool option"
  ms_privateTrustEnabled :: "bool option"
  ms_agentPaused :: "bool option"
  ms_agentDryRun :: "bool option"
  ms_autonomy :: "AutonomyPolicy option"
  ms_autoMaintain :: "AutoMaintainPolicy option"

datatype ReviewFieldKey =
  rf_linkedIssue | rf_relatedWork | rf_reviewLoad | rf_validationEvidence | rf_openPrQueue
  | rf_contributorContext | rf_gateResult

definition REVIEW_FIELD_KEYS :: "ReviewFieldKey list" where
  "REVIEW_FIELD_KEYS = [rf_linkedIssue, rf_relatedWork, rf_reviewLoad, rf_validationEvidence, rf_openPrQueue,
     rf_contributorContext, rf_gateResult]"

fun review_field_name :: "ReviewFieldKey \<Rightarrow> string" where
  "review_field_name rf_linkedIssue = ''linkedIssue''"
| "review_field_name rf_relatedWork = ''relatedWork''"
| "review_field_name rf_reviewLoad = ''reviewLoad''"
| "review_field_name rf_validationEvidence = ''validationEvidence''"
| "review_field_name rf_openPrQueue = ''openPrQueue''"
| "review_field_name rf_contributorContext = ''contributorContext''"
| "review_field_name rf_gateResult = ''gateResult''"

record FocusManifestReviewConfig =
  rc_present :: bool
  rc_footerText :: "string option"
  rc_note :: "string option"
  rc_fields :: "(ReviewFieldKey \<times> bool) list"

record FocusManifest =
  fm_present :: bool
  fm_source :: FocusManifestSource
  fm_wantedPaths :: "string list"
  fm_blockedPaths :: "string list"
  fm_preferredLabels :: "string list"
  fm_linkedIssuePolicy :: LinkedIssuePolicy
  fm_testExpectations :: "string list"
  fm_issueDiscoveryPolicy :: IssueDiscoveryPolicy
  fm_maintainerNotes :: "string list"
  fm_publicNotes :: "string list"
  fm_gate :: FocusManifestGateConfig
  fm_settings :: FocusManifestSettings
  fm_review :: FocusManifestReviewConfig
  fm_warnings :: "string list"

definition MAX_LIST_ITEMS :: nat where "MAX_LIST_ITEMS = 200"
definition MAX_ITEM_LENGTH :: nat where "MAX_ITEM_LENGTH = 300"
definition MAX_FOCUS_MANIFEST_BYTES :: nat where "MAX_FOCUS_MANIFEST_BYTES = 64 * 1024"

definition EMPTY_GATE_CONFIG :: FocusManifestGateConfig where
  "EMPTY_GATE_CONFIG =
     \<lparr>gc_present = False, gc_enabled = None, gc_pack = None, gc_linkedIssue = None, gc_duplicates = None,
      gc_readinessMode = None, gc_readinessMinScore = None, gc_slopMode = None, gc_slopMinScore = None,
      gc_slopAiAdvisory = None, gc_aiReviewMode = None, gc_aiReviewByok = None, gc_aiReviewProvider = None,
      gc_aiReviewModel = None, gc_mergeReadiness = None, gc_manifestPolicy = None,
      gc_firstTimeContributorGrace = None\<rparr>"

definition EMPTY_SETTINGS :: FocusManifestSettings where
  "EMPTY_SETTINGS =
     \<lparr>ms_commentMode = None, ms_publicAudienceMode = None, ms_publicSignalLevel = None, ms_checkRunMode = None,
      ms_checkRunDetailLevel = None, ms_gateCheckMode = None, ms_linkedIssueGateMode = None,
      ms_duplicatePrGateMode = None, ms_qualityGateMode = None, ms_qualityGateMinScore = None,
      ms_aiReviewMode = None, ms_aiReviewProvider = None, ms_aiReviewModel = None, ms_gittensorLabel = None,
      ms_publicSurface = None, ms_aiReviewByok = None, ms_autoLabelEnabled = None, ms_createMissingLabel = None,
      ms_includeMaintainerAuthors = None, ms_requireLinkedIssue = None, ms_backfillEnabled = None,
      ms_privateTrustEnabled = None, ms_agentPaused = None, ms_agentDryRun = None, ms_autonomy = None,
      ms_autoMaintain = None\<rparr>"

definition EMPTY_REVIEW :: FocusManifestReviewConfig where
  "EMPTY_REVIEW = \<lparr>rc_present = False, rc_footerText = None, rc_note = None, rc_fields = []\<rparr>"

definition emptyManifest :: "FocusManifestSource \<Rightarrow> string list \<Rightarrow> FocusManifest" where
  "emptyManifest source warnings =
     \<lparr>fm_present = False, fm_source = source, fm_wantedPaths = [], fm_blockedPaths = [], fm_preferredLabels = [],
      fm_linkedIssuePolicy = lip_optional, fm_testExpectations = [], fm_issueDiscoveryPolicy = idp_neutral,
      fm_maintainerNotes = [], fm_publicNotes = [], fm_gate = EMPTY_GATE_CONFIG, fm_settings = EMPTY_SETTINGS,
      fm_review = EMPTY_REVIEW, fm_warnings = warnings\<rparr>"

section \<open>\<open>typeof\<close> and \<open>String\<close> on untyped values\<close>

fun typeof_name :: "json \<Rightarrow> string" where
  "typeof_name JUndefined = ''undefined''"
| "typeof_name JNull = ''object''"
| "typeof_name (JBool b) = ''boolean''"
| "typeof_name (JNumber n) = ''number''"
| "typeof_name (JString s) = ''string''"
| "typeof_name (JArray xs) = ''object''"
| "typeof_name (JObject r) = ''object''"

text \<open>
  A number in decimal notation, with at most 17 digits after the point. A double prints in
  exponential notation below a millionth and from \<open>10^21\<close> on, which no text here depends on.
\<close>

fun fraction_digits :: "nat \<Rightarrow> rat \<Rightarrow> string" where
  "fraction_digits 0 x = []"
| "fraction_digits (Suc n) x =
     (if x = 0 then [] else digit_char (nat \<lfloor>10 * x\<rfloor>) # fraction_digits n (10 * x - of_int \<lfloor>10 * x\<rfloor>))"

fun number_text :: "js_num \<Rightarrow> string" where
  "number_text (Finite x) =
     (let whole = \<lfloor>\<bar>x\<bar>\<rfloor>; digits = fraction_digits 17 (\<bar>x\<bar> - of_int whole)
      in (if x < 0 then ''-'' else []) @ int_str whole @ (if digits = [] then [] else CHR ''.'' # digits))"
| "number_text PosInf = ''Infinity''"
| "number_text NegInf = ''-Infinity''"
| "number_text NaN = ''NaN''"

fun js_String :: "json \<Rightarrow> string" where
  "js_String JUndefined = ''undefined''"
| "js_String JNull = ''null''"
| "js_String (JBool b) = (if b then ''true'' else ''false'')"
| "js_String (JNumber n) = number_text n"
| "js_String (JString s) = s"
| "js_String (JArray xs) = join '','' (map (\<lambda>x. case x of JUndefined \<Rightarrow> [] | JNull \<Rightarrow> [] | _ \<Rightarrow> js_String x) xs)"
| "js_String (JObject r) = ''[object Object]''"

definition quoted :: "string \<Rightarrow> string" where
  "quoted s = [CHR 0x22] @ s @ [CHR 0x22]"

section \<open>Normalization of single fields\<close>

type_synonym 'a parse = "'a \<times> string list"

fun string_items :: "string \<Rightarrow> string list \<Rightarrow> json list \<Rightarrow> string list parse" where
  "string_items field result [] = (result, [])"
| "string_items field result (JString entry # rest) =
     (let trimmed = trim entry
      in if trimmed = [] then string_items field result rest
         else
           (let long = length trimmed > MAX_ITEM_LENGTH;
                normalized = (if long then take MAX_ITEM_LENGTH trimmed else trimmed);
                cut = (if long then [''Manifest field '' @ quoted field @ '' truncated an over-long entry.''] else []);
                result' = (if normalized \<in> set result then result else result @ [normalized])
            in if length result' \<ge> MAX_LIST_ITEMS
               then (result', cut @ [''Manifest field '' @ quoted field @ '' exceeded '' @ nat_str MAX_LIST_ITEMS
                       @ '' entries; extra entries ignored.''])
               else (let tail = string_items field result' rest in (fst tail, cut @ snd tail))))"
| "string_items field result (_ # rest) =
     (let tail = string_items field result rest
      in (fst tail, (''Manifest field '' @ quoted field @ '' skipped a non-string entry.'') # snd tail))"

fun normalizeStringList :: "json \<Rightarrow> string \<Rightarrow> string list parse" where
  "normalizeStringList JUndefined field = ([], [])"
| "normalizeStringList JNull field = ([], [])"
| "normalizeStringList (JArray entries) field = string_items field [] entries"
| "normalizeStringList value field =
     ([], [''Manifest field '' @ quoted field @ '' must be a list; ignoring a '' @ typeof_name value @ '' value.''])"

definition named :: "('a \<Rightarrow> string) \<Rightarrow> 'a list \<Rightarrow> json \<Rightarrow> 'a option" where
  "named name allowed value = (case value of JString s \<Rightarrow> List.find (\<lambda>t. name t = s) allowed | _ \<Rightarrow> None)"

definition absent :: "json \<Rightarrow> bool" where
  "absent value \<longleftrightarrow> value = JUndefined \<or> value = JNull"

definition normalizeEnum :: "('a \<Rightarrow> string) \<Rightarrow> json \<Rightarrow> string \<Rightarrow> 'a list \<Rightarrow> 'a \<Rightarrow> 'a parse" where
  "normalizeEnum name value field allowed fallback =
     (if absent value then (fallback, [])
      else (case named name allowed value of
          Some t \<Rightarrow> (t, [])
        | None \<Rightarrow> (fallback, [''Manifest field '' @ quoted field @ '' must be one of '' @ join '', '' (map name allowed)
            @ ''; falling back to '' @ quoted (name fallback) @ ''.''])))"

definition normalizeSource :: "FocusManifestSource option \<Rightarrow> json \<Rightarrow> FocusManifestSource parse" where
  "normalizeSource raw value =
     (case raw of Some s \<Rightarrow> (s, [])
      | None \<Rightarrow> normalizeEnum source_text value ''source'' [src_repo_file, src_api_record, src_none] src_api_record)"

definition GATE_RULE_MODES :: "GateRuleMode list" where
  "GATE_RULE_MODES = [gate_off, gate_advisory, gate_block]"

definition normalizeOptionalGateMode :: "json \<Rightarrow> string \<Rightarrow> GateRuleMode option parse" where
  "normalizeOptionalGateMode value field =
     (if absent value then (None, [])
      else (case named rule_mode_name GATE_RULE_MODES value of
          Some m \<Rightarrow> (Some m, [])
        | None \<Rightarrow> (None, [''Manifest gate field '' @ quoted field @ '' must be one of off, advisory, block; ignoring ''
            @ quoted (js_String value) @ ''.''])))"

fun normalizeOptionalBoolean :: "json \<Rightarrow> string \<Rightarrow> bool option parse" where
  "normalizeOptionalBoolean JUndefined field = (None, [])"
| "normalizeOptionalBoolean JNull field = (None, [])"
| "normalizeOptionalBoolean (JBool b) field = (Some b, [])"
| "normalizeOptionalBoolean value field =
     (None, [''Manifest gate field '' @ quoted field @ '' must be a boolean; ignoring a '' @ typeof_name value @ '' value.''])"

fun normalizeOptionalScore :: "json \<Rightarrow> string \<Rightarrow> int option parse" where
  "normalizeOptionalScore JUndefined field = (None, [])"
| "normalizeOptionalScore JNull field = (None, [])"
| "normalizeOptionalScore (JNumber (Finite x)) field = (Some (max 0 (min 100 (js_round x))), [])"
| "normalizeOptionalScore value field =
     (None, [''Manifest gate field '' @ quoted field @ '' must be a number between 0 and 100; ignoring it.''])"

definition normalizeOptionalEnum :: "('a \<Rightarrow> string) \<Rightarrow> json \<Rightarrow> string \<Rightarrow> 'a list \<Rightarrow> 'a option parse" where
  "normalizeOptionalEnum name value field allowed =
     (if absent value then (None, [])
      else (case named name allowed value of
          Some t \<Rightarrow> (Some t, [])
        | None \<Rightarrow> (None, [''Manifest settings field '' @ quoted field @ '' must be one of '' @ join '', '' (map name allowed)
            @ ''; ignoring '' @ quoted (js_String value) @ ''.''])))"

definition normalizeOptionalString :: "json \<Rightarrow> string \<Rightarrow> string option parse" where
  "normalizeOptionalString value field =
     (if absent value then (None, [])
      else (case value of
          JString s \<Rightarrow> if trim s \<noteq> [] then (Some (trim s), []) else
            (None, [''Manifest settings field '' @ quoted field @ '' must be a non-empty string; ignoring it.''])
        | _ \<Rightarrow> (None, [''Manifest settings field '' @ quoted field @ '' must be a non-empty string; ignoring it.''])))"

section \<open>The gate block\<close>

text \<open>A nested mapping: its record, or nothing and a warning when the value is present but no mapping.\<close>

definition nested :: "string \<Rightarrow> json \<Rightarrow> (string \<times> json) list parse" where
  "nested msg value =
     (case value of
        JObject r \<Rightarrow> (r, [])
      | _ \<Rightarrow> ([], if absent value then [] else [msg]))"

definition gate_nested_warning :: "string \<Rightarrow> string" where
  "gate_nested_warning field = ''Manifest gate field '' @ quoted field @ '' must be a mapping; ignoring it.''"

definition gate_configured :: "FocusManifestGateConfig \<Rightarrow> bool" where
  "gate_configured g \<longleftrightarrow>
     gc_enabled g \<noteq> None \<or> gc_pack g \<noteq> None \<or> gc_linkedIssue g \<noteq> None \<or> gc_duplicates g \<noteq> None
     \<or> gc_readinessMode g \<noteq> None \<or> gc_readinessMinScore g \<noteq> None \<or> gc_slopMode g \<noteq> None
     \<or> gc_slopMinScore g \<noteq> None \<or> gc_slopAiAdvisory g \<noteq> None \<or> gc_aiReviewMode g \<noteq> None
     \<or> gc_aiReviewByok g \<noteq> None \<or> gc_aiReviewProvider g \<noteq> None \<or> gc_aiReviewModel g \<noteq> None
     \<or> gc_mergeReadiness g \<noteq> None \<or> gc_manifestPolicy g \<noteq> None \<or> gc_firstTimeContributorGrace g \<noteq> None"

definition parse_gate_record :: "(string \<times> json) list \<Rightarrow> FocusManifestGateConfig parse" where
  "parse_gate_record r =
     (let readiness = nested (gate_nested_warning ''gate.readiness'') (jget r ''readiness'');
          aiReview = nested (gate_nested_warning ''gate.aiReview'') (jget r ''aiReview'');
          slop = nested (gate_nested_warning ''gate.slop'') (jget r ''slop'');
          enabled = normalizeOptionalBoolean (jget r ''enabled'') ''gate.enabled'';
          pack = normalizeOptionalEnum gate_pack_name (jget r ''pack'') ''gate.pack'' [pack_gittensor, pack_oss_anti_slop];
          linkedIssue = normalizeOptionalGateMode (jget r ''linkedIssue'') ''gate.linkedIssue'';
          duplicates = normalizeOptionalGateMode (jget r ''duplicates'') ''gate.duplicates'';
          readinessMode = normalizeOptionalGateMode (jget (fst readiness) ''mode'') ''gate.readiness.mode'';
          readinessMinScore = normalizeOptionalScore (jget (fst readiness) ''minScore'') ''gate.readiness.minScore'';
          slopMode = normalizeOptionalGateMode (jget (fst slop) ''mode'') ''gate.slop.mode'';
          slopMinScore = normalizeOptionalScore (jget (fst slop) ''minScore'') ''gate.slop.minScore'';
          slopAiAdvisory = normalizeOptionalBoolean (jget (fst slop) ''aiAdvisory'') ''gate.slop.aiAdvisory'';
          aiReviewMode = normalizeOptionalGateMode (jget (fst aiReview) ''mode'') ''gate.aiReview.mode'';
          aiReviewByok = normalizeOptionalBoolean (jget (fst aiReview) ''byok'') ''gate.aiReview.byok'';
          aiReviewProvider = normalizeOptionalEnum provider_name (jget (fst aiReview) ''provider'') ''gate.aiReview.provider''
            [provider_anthropic, provider_openai];
          aiReviewModel = normalizeOptionalString (jget (fst aiReview) ''model'') ''gate.aiReview.model'';
          mergeReadiness = normalizeOptionalGateMode (jget r ''mergeReadiness'') ''gate.mergeReadiness'';
          manifestPolicy = normalizeOptionalGateMode (jget r ''manifestPolicy'') ''gate.manifestPolicy'';
          grace = normalizeOptionalBoolean (jget r ''firstTimeContributorGrace'') ''gate.firstTimeContributorGrace'';
          g = \<lparr>gc_present = False, gc_enabled = fst enabled, gc_pack = fst pack, gc_linkedIssue = fst linkedIssue,
            gc_duplicates = fst duplicates, gc_readinessMode = fst readinessMode,
            gc_readinessMinScore = fst readinessMinScore, gc_slopMode = fst slopMode, gc_slopMinScore = fst slopMinScore,
            gc_slopAiAdvisory = fst slopAiAdvisory, gc_aiReviewMode = fst aiReviewMode,
            gc_aiReviewByok = fst aiReviewByok, gc_aiReviewProvider = fst aiReviewProvider,
            gc_aiReviewModel = fst aiReviewModel, gc_mergeReadiness = fst mergeReadiness,
            gc_manifestPolicy = fst manifestPolicy, gc_firstTimeContributorGrace = fst grace\<rparr>
      in (g\<lparr>gc_present := gate_configured g\<rparr>,
          snd readiness @ snd aiReview @ snd slop @ snd enabled @ snd pack @ snd linkedIssue @ snd duplicates
          @ snd readinessMode @ snd readinessMinScore @ snd slopMode @ snd slopMinScore @ snd slopAiAdvisory
          @ snd aiReviewMode @ snd aiReviewByok @ snd aiReviewProvider @ snd aiReviewModel @ snd mergeReadiness
          @ snd manifestPolicy @ snd grace))"

fun parseGateConfig :: "json \<Rightarrow> FocusManifestGateConfig parse" where
  "parseGateConfig (JObject r) = parse_gate_record r"
| "parseGateConfig JUndefined = (EMPTY_GATE_CONFIG, [])"
| "parseGateConfig JNull = (EMPTY_GATE_CONFIG, [])"
| "parseGateConfig value = (EMPTY_GATE_CONFIG, [''Manifest field '' @ quoted ''gate'' @ '' must be a mapping; ignoring it.''])"

text \<open>A field written only when it is set.\<close>

definition put_field :: "string \<Rightarrow> ('a \<Rightarrow> json) \<Rightarrow> 'a option \<Rightarrow> (string \<times> json) list" where
  "put_field key write v = (case v of None \<Rightarrow> [] | Some x \<Rightarrow> [(key, write x)])"

definition mode_json :: "GateRuleMode \<Rightarrow> json" where "mode_json m = JString (rule_mode_name m)"
definition score_json :: "int \<Rightarrow> json" where "score_json n = JNumber (Finite (of_int n))"
definition provider_json :: "AiProvider \<Rightarrow> json" where "provider_json p = JString (provider_name p)"

definition put_object :: "string \<Rightarrow> (string \<times> json) list \<Rightarrow> (string \<times> json) list" where
  "put_object key entries = (if entries = [] then [] else [(key, JObject entries)])"

definition gateConfigToJson :: "FocusManifestGateConfig \<Rightarrow> json" where
  "gateConfigToJson g =
     (if \<not> gc_present g then JNull
      else JObject
        (put_field ''enabled'' JBool (gc_enabled g)
         @ put_field ''pack'' (\<lambda>p. JString (gate_pack_name p)) (gc_pack g)
         @ put_field ''linkedIssue'' mode_json (gc_linkedIssue g)
         @ put_field ''duplicates'' mode_json (gc_duplicates g)
         @ put_object ''readiness''
             (put_field ''mode'' mode_json (gc_readinessMode g) @ put_field ''minScore'' score_json (gc_readinessMinScore g))
         @ put_object ''slop''
             (put_field ''mode'' mode_json (gc_slopMode g) @ put_field ''minScore'' score_json (gc_slopMinScore g)
              @ put_field ''aiAdvisory'' JBool (gc_slopAiAdvisory g))
         @ put_object ''aiReview''
             (put_field ''mode'' mode_json (gc_aiReviewMode g) @ put_field ''byok'' JBool (gc_aiReviewByok g)
              @ put_field ''provider'' provider_json (gc_aiReviewProvider g)
              @ put_field ''model'' JString (gc_aiReviewModel g))
         @ put_field ''mergeReadiness'' mode_json (gc_mergeReadiness g)
         @ put_field ''manifestPolicy'' mode_json (gc_manifestPolicy g)
         @ put_field ''firstTimeContributorGrace'' JBool (gc_firstTimeContributorGrace g)))"

section \<open>The settings block\<close>

text \<open>\<open>settings.autonomy\<close> counts only when a valid pair survives, \<open>settings.autoMaintain\<close> only as a mapping.\<close>

definition settings_autonomy :: "json \<Rightarrow> AutonomyPolicy option" where
  "settings_autonomy value =
     (let p = normalizeAutonomyPolicy value
      in if value = JUndefined then None
         else if list_ex (\<lambda>c. p c \<noteq> None) AGENT_ACTION_CLASSES then Some p else None)"

definition settings_autoMaintain :: "json \<Rightarrow> AutoMaintainPolicy option" where
  "settings_autoMaintain value =
     (case value of JObject r \<Rightarrow> Some (normalizeAutoMaintainPolicy value) | _ \<Rightarrow> None)"

definition parse_settings_record :: "(string \<times> json) list \<Rightarrow> FocusManifestSettings parse" where
  "parse_settings_record r =
     (let commentMode = normalizeOptionalEnum comment_mode_name (jget r ''commentMode'') ''settings.commentMode''
            [cm_off, cm_detected_contributors_only, cm_all_prs];
          publicAudienceMode = normalizeOptionalEnum audience_mode_name (jget r ''publicAudienceMode'')
            ''settings.publicAudienceMode'' [aud_oss_maintainer, aud_gittensor_only];
          publicSignalLevel = normalizeOptionalEnum signal_level_name (jget r ''publicSignalLevel'')
            ''settings.publicSignalLevel'' [signal_minimal, signal_standard];
          checkRunMode = normalizeOptionalEnum enabled_mode_name (jget r ''checkRunMode'') ''settings.checkRunMode''
            [mode_off, mode_enabled];
          checkRunDetailLevel = normalizeOptionalEnum detail_level_name (jget r ''checkRunDetailLevel'')
            ''settings.checkRunDetailLevel'' [Minimal, Standard, Deep];
          gateCheckMode = normalizeOptionalEnum enabled_mode_name (jget r ''gateCheckMode'') ''settings.gateCheckMode''
            [mode_off, mode_enabled];
          linkedIssueGateMode = normalizeOptionalGateMode (jget r ''linkedIssueGateMode'') ''settings.linkedIssueGateMode'';
          duplicatePrGateMode = normalizeOptionalGateMode (jget r ''duplicatePrGateMode'') ''settings.duplicatePrGateMode'';
          qualityGateMode = normalizeOptionalGateMode (jget r ''qualityGateMode'') ''settings.qualityGateMode'';
          qualityGateMinScore = normalizeOptionalScore (jget r ''qualityGateMinScore'') ''settings.qualityGateMinScore'';
          aiReviewMode = normalizeOptionalGateMode (jget r ''aiReviewMode'') ''settings.aiReviewMode'';
          aiReviewProvider = normalizeOptionalEnum provider_name (jget r ''aiReviewProvider'') ''settings.aiReviewProvider''
            [provider_anthropic, provider_openai];
          aiReviewModel = normalizeOptionalString (jget r ''aiReviewModel'') ''settings.aiReviewModel'';
          gittensorLabel = normalizeOptionalString (jget r ''gittensorLabel'') ''settings.gittensorLabel'';
          publicSurface = normalizeOptionalEnum surface_name (jget r ''publicSurface'') ''settings.publicSurface''
            [surface_off, surface_comment_and_label, surface_comment_only, surface_label_only];
          flag = (\<lambda>key. normalizeOptionalBoolean (jget r key) (''settings.'' @ key))
      in (\<lparr>ms_commentMode = fst commentMode, ms_publicAudienceMode = fst publicAudienceMode,
           ms_publicSignalLevel = fst publicSignalLevel, ms_checkRunMode = fst checkRunMode,
           ms_checkRunDetailLevel = fst checkRunDetailLevel, ms_gateCheckMode = fst gateCheckMode,
           ms_linkedIssueGateMode = fst linkedIssueGateMode, ms_duplicatePrGateMode = fst duplicatePrGateMode,
           ms_qualityGateMode = fst qualityGateMode, ms_qualityGateMinScore = fst qualityGateMinScore,
           ms_aiReviewMode = fst aiReviewMode, ms_aiReviewProvider = fst aiReviewProvider,
           ms_aiReviewModel = fst aiReviewModel, ms_gittensorLabel = fst gittensorLabel,
           ms_publicSurface = fst publicSurface, ms_aiReviewByok = fst (flag ''aiReviewByok''),
           ms_autoLabelEnabled = fst (flag ''autoLabelEnabled''), ms_createMissingLabel = fst (flag ''createMissingLabel''),
           ms_includeMaintainerAuthors = fst (flag ''includeMaintainerAuthors''),
           ms_requireLinkedIssue = fst (flag ''requireLinkedIssue''), ms_backfillEnabled = fst (flag ''backfillEnabled''),
           ms_privateTrustEnabled = fst (flag ''privateTrustEnabled''), ms_agentPaused = fst (flag ''agentPaused''),
           ms_agentDryRun = fst (flag ''agentDryRun''), ms_autonomy = settings_autonomy (jget r ''autonomy''),
           ms_autoMaintain = settings_autoMaintain (jget r ''autoMaintain'')\<rparr>,
          snd commentMode @ snd publicAudienceMode @ snd publicSignalLevel @ snd checkRunMode @ snd checkRunDetailLevel
          @ snd gateCheckMode @ snd linkedIssueGateMode @ snd duplicatePrGateMode @ snd qualityGateMode
          @ snd qualityGateMinScore @ snd aiReviewMode @ snd aiReviewProvider @ snd aiReviewModel @ snd gittensorLabel
          @ snd publicSurface
          @ concat (map (\<lambda>key. snd (flag key))
              [''aiReviewByok'', ''autoLabelEnabled'', ''createMissingLabel'', ''includeMaintainerAuthors'',
               ''requireLinkedIssue'', ''backfillEnabled'', ''privateTrustEnabled'', ''agentPaused'', ''agentDryRun''])))"

fun parseSettingsOverride :: "json \<Rightarrow> FocusManifestSettings parse" where
  "parseSettingsOverride (JObject r) = parse_settings_record r"
| "parseSettingsOverride JUndefined = (EMPTY_SETTINGS, [])"
| "parseSettingsOverride JNull = (EMPTY_SETTINGS, [])"
| "parseSettingsOverride value =
     (EMPTY_SETTINGS, [''Manifest field '' @ quoted ''settings'' @ '' must be a mapping; ignoring it.''])"

text \<open>\<open>Object.keys(settings).length > 0\<close>\<close>

definition settings_configured :: "FocusManifestSettings \<Rightarrow> bool" where
  "settings_configured s \<longleftrightarrow>
     ms_commentMode s \<noteq> None \<or> ms_publicAudienceMode s \<noteq> None
     \<or> ms_publicSignalLevel s \<noteq> None \<or> ms_checkRunMode s \<noteq> None
     \<or> ms_checkRunDetailLevel s \<noteq> None \<or> ms_gateCheckMode s \<noteq> None
     \<or> ms_linkedIssueGateMode s \<noteq> None \<or> ms_duplicatePrGateMode s \<noteq> None
     \<or> ms_qualityGateMode s \<noteq> None \<or> ms_qualityGateMinScore s \<noteq> None
     \<or> ms_aiReviewMode s \<noteq> None \<or> ms_aiReviewProvider s \<noteq> None
     \<or> ms_aiReviewModel s \<noteq> None \<or> ms_gittensorLabel s \<noteq> None
     \<or> ms_publicSurface s \<noteq> None \<or> ms_aiReviewByok s \<noteq> None
     \<or> ms_autoLabelEnabled s \<noteq> None \<or> ms_createMissingLabel s \<noteq> None
     \<or> ms_includeMaintainerAuthors s \<noteq> None \<or> ms_requireLinkedIssue s \<noteq> None
     \<or> ms_backfillEnabled s \<noteq> None \<or> ms_privateTrustEnabled s \<noteq> None
     \<or> ms_agentPaused s \<noteq> None \<or> ms_agentDryRun s \<noteq> None \<or> ms_autonomy s \<noteq> None
     \<or> ms_autoMaintain s \<noteq> None"

definition settingsOverrideToJson :: "FocusManifestSettings \<Rightarrow> json" where
  "settingsOverrideToJson s =
     (if \<not> settings_configured s then JNull
      else JObject
        (put_field ''commentMode'' (\<lambda>m. JString (comment_mode_name m)) (ms_commentMode s)
         @ put_field ''publicAudienceMode'' (\<lambda>m. JString (audience_mode_name m)) (ms_publicAudienceMode s)
         @ put_field ''publicSignalLevel'' (\<lambda>m. JString (signal_level_name m)) (ms_publicSignalLevel s)
         @ put_field ''checkRunMode'' (\<lambda>m. JString (enabled_mode_name m)) (ms_checkRunMode s)
         @ put_field ''checkRunDetailLevel'' (\<lambda>m. JString (detail_level_name m)) (ms_checkRunDetailLevel s)
         @ put_field ''gateCheckMode'' (\<lambda>m. JString (enabled_mode_name m)) (ms_gateCheckMode s)
         @ put_field ''linkedIssueGateMode'' mode_json (ms_linkedIssueGateMode s)
         @ put_field ''duplicatePrGateMode'' mode_json (ms_duplicatePrGateMode s)
         @ put_field ''qualityGateMode'' mode_json (ms_qualityGateMode s)
         @ put_field ''qualityGateMinScore'' score_json (ms_qualityGateMinScore s)
         @ put_field ''aiReviewMode'' mode_json (ms_aiReviewMode s)
         @ put_field ''aiReviewProvider'' provider_json (ms_aiReviewProvider s)
         @ put_field ''aiReviewModel'' JString (ms_aiReviewModel s)
         @ put_field ''gittensorLabel'' JString (ms_gittensorLabel s)
         @ put_field ''publicSurface'' (\<lambda>m. JString (surface_name m)) (ms_publicSurface s)
         @ put_field ''aiReviewByok'' JBool (ms_aiReviewByok s)
         @ put_field ''autoLabelEnabled'' JBool (ms_autoLabelEnabled s)
         @ put_field ''createMissingLabel'' JBool (ms_createMissingLabel s)
         @ put_field ''includeMaintainerAuthors'' JBool (ms_includeMaintainerAuthors s)
         @ put_field ''requireLinkedIssue'' JBool (ms_requireLinkedIssue s)
         @ put_field ''backfillEnabled'' JBool (ms_backfillEnabled s)
         @ put_field ''privateTrustEnabled'' JBool (ms_privateTrustEnabled s)
         @ put_field ''agentPaused'' JBool (ms_agentPaused s)
         @ put_field ''agentDryRun'' JBool (ms_agentDryRun s)
         @ put_field ''autonomy'' policy_json (ms_autonomy s)
         @ put_field ''autoMaintain'' maintain_json (ms_autoMaintain s)))"

section \<open>The review block\<close>

definition parsePublicSafeText :: "json \<Rightarrow> string \<Rightarrow> string option parse" where
  "parsePublicSafeText value field =
     (let text = normalizeOptionalString value field
      in case fst text of
           None \<Rightarrow> text
         | Some s \<Rightarrow>
             (let bounded = (if length s > MAX_ITEM_LENGTH then take MAX_ITEM_LENGTH s else s)
              in if \<not> isFocusManifestPublicSafe bounded
                 then (None, snd text @ [''Manifest '' @ quoted field @ '' contains content that is not public-safe; ignoring it.''])
                 else (Some bounded, snd text)))"

fun parse_review_fields :: "(string \<times> json) list \<Rightarrow> ReviewFieldKey list \<Rightarrow> (ReviewFieldKey \<times> bool) list parse" where
  "parse_review_fields r [] = ([], [])"
| "parse_review_fields r (key # keys) =
     (let flag = normalizeOptionalBoolean (jget r (review_field_name key)) (''review.fields.'' @ review_field_name key);
          rest = parse_review_fields r keys
      in (case fst flag of None \<Rightarrow> fst rest | Some b \<Rightarrow> (key, b) # fst rest, snd flag @ snd rest))"

definition review_nested_warning :: "string \<Rightarrow> string" where
  "review_nested_warning field = ''Manifest '' @ quoted field @ '' must be a mapping; ignoring it.''"

text \<open>A missing mapping has no field, so that its text and its flags are absent.\<close>

definition parse_review_record :: "(string \<times> json) list \<Rightarrow> FocusManifestReviewConfig parse" where
  "parse_review_record r =
     (let footer = nested (review_nested_warning ''review.footer'') (jget r ''footer'');
          fields = nested (review_nested_warning ''review.fields'') (jget r ''fields'');
          flags = parse_review_fields (fst fields) REVIEW_FIELD_KEYS;
          footerText = parsePublicSafeText (jget (fst footer) ''text'') ''review.footer.text'';
          note = parsePublicSafeText (jget r ''note'') ''review.note''
      in (\<lparr>rc_present = fst footerText \<noteq> None \<or> fst note \<noteq> None \<or> fst flags \<noteq> [],
           rc_footerText = fst footerText, rc_note = fst note, rc_fields = fst flags\<rparr>,
          snd footer @ snd fields @ snd flags @ snd footerText @ snd note))"

fun parseReviewConfig :: "json \<Rightarrow> FocusManifestReviewConfig parse" where
  "parseReviewConfig (JObject r) = parse_review_record r"
| "parseReviewConfig JUndefined = (EMPTY_REVIEW, [])"
| "parseReviewConfig JNull = (EMPTY_REVIEW, [])"
| "parseReviewConfig value = (EMPTY_REVIEW, [''Manifest field '' @ quoted ''review'' @ '' must be a mapping; ignoring it.''])"

definition reviewConfigToJson :: "FocusManifestReviewConfig \<Rightarrow> json" where
  "reviewConfigToJson c =
     (if \<not> rc_present c then JNull
      else JObject
        (put_field ''footer'' (\<lambda>t. JObject [(''text'', JString t)]) (rc_footerText c)
         @ put_field ''note'' JString (rc_note c)
         @ put_object ''fields'' (map (\<lambda>f. (review_field_name (fst f), JBool (snd f))) (rc_fields c))))"

section \<open>The manifest\<close>

definition manifest_recognized :: "FocusManifest \<Rightarrow> bool" where
  "manifest_recognized m \<longleftrightarrow>
     fm_wantedPaths m \<noteq> [] \<or> fm_blockedPaths m \<noteq> [] \<or> fm_preferredLabels m \<noteq> [] \<or> fm_testExpectations m \<noteq> []
     \<or> fm_maintainerNotes m \<noteq> [] \<or> fm_publicNotes m \<noteq> [] \<or> fm_linkedIssuePolicy m \<noteq> lip_optional
     \<or> fm_issueDiscoveryPolicy m \<noteq> idp_neutral \<or> gc_present (fm_gate m) \<or> settings_configured (fm_settings m)
     \<or> rc_present (fm_review m)"

definition NOT_A_MAPPING :: string where
  "NOT_A_MAPPING =
     ''Manifest must be a mapping of fields; ignoring malformed manifest and falling back to deterministic signals.''"

definition NO_FIELDS :: string where
  "NO_FIELDS = ''Manifest contained no recognized focus fields; falling back to deterministic signals.''"

definition parse_manifest_record :: "(string \<times> json) list \<Rightarrow> FocusManifestSource option \<Rightarrow> FocusManifest" where
  "parse_manifest_record r source =
     (let src = normalizeSource source (jget r ''source'');
          wantedPaths = normalizeStringList (jget r ''wantedPaths'') ''wantedPaths'';
          blockedPaths = normalizeStringList (jget r ''blockedPaths'') ''blockedPaths'';
          preferredLabels = normalizeStringList (jget r ''preferredLabels'') ''preferredLabels'';
          linkedIssuePolicy = normalizeEnum linked_policy_name (jget r ''linkedIssuePolicy'') ''linkedIssuePolicy''
            [lip_required, lip_preferred, lip_optional] lip_optional;
          testExpectations = normalizeStringList (jget r ''testExpectations'') ''testExpectations'';
          issueDiscoveryPolicy = normalizeEnum discovery_policy_name (jget r ''issueDiscoveryPolicy'') ''issueDiscoveryPolicy''
            [idp_encouraged, idp_neutral, idp_discouraged] idp_neutral;
          maintainerNotes = normalizeStringList (jget r ''maintainerNotes'') ''maintainerNotes'';
          publicNotes = normalizeStringList (jget r ''publicNotes'') ''publicNotes'';
          gate = parseGateConfig (jget r ''gate'');
          settings = parseSettingsOverride (jget r ''settings'');
          review = parseReviewConfig (jget r ''review'');
          warnings = snd src @ snd wantedPaths @ snd blockedPaths @ snd preferredLabels @ snd linkedIssuePolicy
            @ snd testExpectations @ snd issueDiscoveryPolicy @ snd maintainerNotes @ snd publicNotes @ snd gate
            @ snd settings @ snd review;
          m = \<lparr>fm_present = True, fm_source = fst src, fm_wantedPaths = fst wantedPaths,
            fm_blockedPaths = fst blockedPaths, fm_preferredLabels = fst preferredLabels,
            fm_linkedIssuePolicy = fst linkedIssuePolicy, fm_testExpectations = fst testExpectations,
            fm_issueDiscoveryPolicy = fst issueDiscoveryPolicy, fm_maintainerNotes = fst maintainerNotes,
            fm_publicNotes = filter isFocusManifestPublicSafe (fst publicNotes), fm_gate = fst gate,
            fm_settings = fst settings, fm_review = fst review, fm_warnings = warnings\<rparr>
      in if manifest_recognized m then m else m\<lparr>fm_present := False, fm_warnings := warnings @ [NO_FIELDS]\<rparr>)"

fun parseFocusManifest :: "json \<Rightarrow> FocusManifestSource option \<Rightarrow> FocusManifest" where
  "parseFocusManifest (JObject r) source = parse_manifest_record r source"
| "parseFocusManifest JUndefined source = emptyManifest (nullish source src_none) []"
| "parseFocusManifest JNull source = emptyManifest (nullish source src_none) []"
| "parseFocusManifest raw source = emptyManifest (nullish source src_api_record) [NOT_A_MAPPING]"

text \<open>
  The content of a file. \<open>parse_json\<close> and \<open>parse_yaml\<close> stand for \<open>JSON.parse\<close> and the parser of the
  package \<open>yaml\<close>; \<open>None\<close> is a text they throw on.
\<close>

definition parseFocusManifestContent ::
    "(string \<Rightarrow> json option) \<Rightarrow> (string \<Rightarrow> json option) \<Rightarrow> string option \<Rightarrow> FocusManifestSource \<Rightarrow> FocusManifest" where
  "parseFocusManifestContent parse_json parse_yaml content source =
     (case content of
        None \<Rightarrow> emptyManifest source []
      | Some text \<Rightarrow>
          if trim text = [] then emptyManifest source []
          else if length text > MAX_FOCUS_MANIFEST_BYTES then
            emptyManifest source [''Manifest content exceeded '' @ nat_str MAX_FOCUS_MANIFEST_BYTES
              @ '' bytes; ignoring it and falling back to deterministic signals.'']
          else
            (let trimmed = trim text;
                 looksLikeJson = (startsWith trimmed ''{'' \<or> startsWith trimmed ''['')
             in case (if looksLikeJson then parse_json trimmed else parse_yaml trimmed) of
                  None \<Rightarrow> emptyManifest source
                    [if looksLikeJson
                     then ''Manifest content was not valid JSON; ignoring it and falling back to deterministic signals.''
                     else ''Manifest content was not valid YAML; ignoring it and falling back to deterministic signals.'']
                | Some (JObject r) \<Rightarrow> parseFocusManifest (JObject r) (Some source)
                | Some _ \<Rightarrow> emptyManifest source [NOT_A_MAPPING]))"

text \<open>\<open>manifestToJson\<close> of \<open>signals/focus-manifest-loader.ts\<close>: the payload of a snapshot.\<close>

definition strings_json :: "string list \<Rightarrow> json" where
  "strings_json xs = JArray (map JString xs)"

definition manifestToJson :: "FocusManifest \<Rightarrow> json" where
  "manifestToJson m = JObject
     [(''source'', JString (source_text (fm_source m))),
      (''wantedPaths'', strings_json (fm_wantedPaths m)),
      (''blockedPaths'', strings_json (fm_blockedPaths m)),
      (''preferredLabels'', strings_json (fm_preferredLabels m)),
      (''linkedIssuePolicy'', JString (linked_policy_name (fm_linkedIssuePolicy m))),
      (''testExpectations'', strings_json (fm_testExpectations m)),
      (''issueDiscoveryPolicy'', JString (discovery_policy_name (fm_issueDiscoveryPolicy m))),
      (''maintainerNotes'', strings_json (fm_maintainerNotes m)),
      (''publicNotes'', strings_json (fm_publicNotes m)),
      (''gate'', gateConfigToJson (fm_gate m)),
      (''settings'', settingsOverrideToJson (fm_settings m)),
      (''review'', reviewConfigToJson (fm_review m))]"

section \<open>Effective settings\<close>

text \<open>\<open>{ ...dbSettings, ...manifest.settings }\<close>\<close>

definition overlay_settings :: "FocusManifestSettings \<Rightarrow> RepositorySettings \<Rightarrow> RepositorySettings" where
  "overlay_settings s db =
     db\<lparr>rs_commentMode := nullish (ms_commentMode s) (rs_commentMode db),
       rs_publicAudienceMode := nullish (ms_publicAudienceMode s) (rs_publicAudienceMode db),
       rs_publicSignalLevel := nullish (ms_publicSignalLevel s) (rs_publicSignalLevel db),
       rs_checkRunMode := nullish (ms_checkRunMode s) (rs_checkRunMode db),
       rs_checkRunDetailLevel := nullish (ms_checkRunDetailLevel s) (rs_checkRunDetailLevel db),
       rs_gateCheckMode := nullish (ms_gateCheckMode s) (rs_gateCheckMode db),
       rs_linkedIssueGateMode := nullish (ms_linkedIssueGateMode s) (rs_linkedIssueGateMode db),
       rs_duplicatePrGateMode := nullish (ms_duplicatePrGateMode s) (rs_duplicatePrGateMode db),
       rs_qualityGateMode := nullish (ms_qualityGateMode s) (rs_qualityGateMode db),
       rs_qualityGateMinScore := orElse (ms_qualityGateMinScore s) (rs_qualityGateMinScore db),
       rs_aiReviewMode := nullish (ms_aiReviewMode s) (rs_aiReviewMode db),
       rs_aiReviewProvider := orElse (ms_aiReviewProvider s) (rs_aiReviewProvider db),
       rs_aiReviewModel := orElse (ms_aiReviewModel s) (rs_aiReviewModel db),
       rs_gittensorLabel := nullish (ms_gittensorLabel s) (rs_gittensorLabel db),
       rs_publicSurface := nullish (ms_publicSurface s) (rs_publicSurface db),
       rs_aiReviewByok := nullish (ms_aiReviewByok s) (rs_aiReviewByok db),
       rs_autoLabelEnabled := nullish (ms_autoLabelEnabled s) (rs_autoLabelEnabled db),
       rs_createMissingLabel := nullish (ms_createMissingLabel s) (rs_createMissingLabel db),
       rs_includeMaintainerAuthors := nullish (ms_includeMaintainerAuthors s) (rs_includeMaintainerAuthors db),
       rs_requireLinkedIssue := nullish (ms_requireLinkedIssue s) (rs_requireLinkedIssue db),
       rs_backfillEnabled := nullish (ms_backfillEnabled s) (rs_backfillEnabled db),
       rs_privateTrustEnabled := nullish (ms_privateTrustEnabled s) (rs_privateTrustEnabled db),
       rs_agentPaused := nullish (ms_agentPaused s) (rs_agentPaused db),
       rs_agentDryRun := nullish (ms_agentDryRun s) (rs_agentDryRun db),
       rs_autonomy := nullish (ms_autonomy s) (rs_autonomy db),
       rs_autoMaintain := nullish (ms_autoMaintain s) (rs_autoMaintain db)\<rparr>"

definition overlay_gate :: "FocusManifestGateConfig \<Rightarrow> RepositorySettings \<Rightarrow> RepositorySettings" where
  "overlay_gate g e =
     e\<lparr>rs_gateCheckMode := (case gc_enabled g of None \<Rightarrow> rs_gateCheckMode e | Some b \<Rightarrow> if b then mode_enabled else mode_off),
       rs_gatePack := nullish (gc_pack g) (rs_gatePack e),
       rs_linkedIssueGateMode := nullish (gc_linkedIssue g) (rs_linkedIssueGateMode e),
       rs_duplicatePrGateMode := nullish (gc_duplicates g) (rs_duplicatePrGateMode e),
       rs_qualityGateMode := nullish (gc_readinessMode g) (rs_qualityGateMode e),
       rs_qualityGateMinScore := orElse (gc_readinessMinScore g) (rs_qualityGateMinScore e),
       rs_slopGateMode := nullish (gc_slopMode g) (rs_slopGateMode e),
       rs_slopGateMinScore := orElse (gc_slopMinScore g) (rs_slopGateMinScore e),
       rs_slopAiAdvisory := nullish (gc_slopAiAdvisory g) (rs_slopAiAdvisory e),
       rs_aiReviewMode := nullish (gc_aiReviewMode g) (rs_aiReviewMode e),
       rs_aiReviewByok := nullish (gc_aiReviewByok g) (rs_aiReviewByok e),
       rs_aiReviewProvider := orElse (gc_aiReviewProvider g) (rs_aiReviewProvider e),
       rs_aiReviewModel := orElse (gc_aiReviewModel g) (rs_aiReviewModel e),
       rs_mergeReadinessGateMode := nullish (gc_mergeReadiness g) (rs_mergeReadinessGateMode e),
       rs_manifestPolicyGateMode := nullish (gc_manifestPolicy g) (rs_manifestPolicyGateMode e),
       rs_firstTimeContributorGrace := nullish (gc_firstTimeContributorGrace g) (rs_firstTimeContributorGrace e)\<rparr>"

definition resolveEffectiveSettings :: "RepositorySettings \<Rightarrow> FocusManifest \<Rightarrow> RepositorySettings" where
  "resolveEffectiveSettings dbSettings manifest =
     (let effective = overlay_gate (fm_gate manifest) (overlay_settings (fm_settings manifest) dbSettings)
      in if rs_requireLinkedIssue effective \<and> rs_linkedIssueGateMode effective = gate_off
         then effective\<lparr>rs_linkedIssueGateMode := gate_block\<rparr> else effective)"

end
