(* ===== verification/Predicted_Gate.thy ===== *)
theory Predicted_Gate
  imports Readiness Gate Focus_Manifest
begin

text \<open>
  The verdict a contributor is told before a pull request exists, \<open>rules/predicted-gate.ts\<close>, with the policy
  the live gate is run under (\<open>gateCheckPolicy\<close> of \<open>queue/processors.ts\<close>) and the redaction of public
  comments (\<open>sanitizePublicComment\<close> of \<open>github/commands.ts\<close>).
\<close>

section \<open>Redaction of public comments\<close>

definition rx_digits :: rx where "rx_digits = Plus (Oneof digit_items)"

text \<open>\<open>[-+]?\d+(?:\.\d+)?\<close> and \<open>(?:->|\<rightarrow>|to)\<close>\<close>

definition rx_number :: rx where
  "rx_number = Seq [Opt (Oneof [One CHR ''-'', One CHR ''+'']), rx_digits, Opt (Seq [Lit ''.'', rx_digits])]"

definition rx_arrow :: rx where "rx_arrow = Alt [Lit ''->'', Lit rarrow, Lit ''to'']"

definition rx_words :: "rx list \<Rightarrow> rx" where "rx_words rs = Seq [Wordb, Alt rs, Wordb]"

definition rx_transition :: rx where
  "rx_transition = Seq [rx_number, Many (Oneof space_items), rx_arrow, Many (Oneof space_items), rx_number]"

definition PRIVATE_CONTEXT_PATTERNS :: "rx list" where
  "PRIVATE_CONTEXT_PATTERNS =
     [Seq [Wordb, Lit ''open pr count'', rx_spaces, rx_digits, rx_spaces, Lit ''exceeds threshold'', rx_spaces, rx_digits, Wordb,
        Opt (Lit ''.'')],
      Seq [Wordb, Lit ''open pr count is at or below'', rx_spaces, rx_digits, Wordb],
      Seq [Wordb, Lit ''credibility'', rx_spaces, rx_number, rx_spaces, Lit ''is below floor'', rx_spaces, rx_number, Wordb,
        Opt (Lit ''.'')],
      Seq [Wordb, Alt [Lit ''effective'', Lit ''projected'', Lit ''estimated''], Lit '' score'', Opt (Seq [Lit '' change'', Opt (Lit ''s'')]),
        Wordb, Opt (Seq [rx_spaces, Lit ''from'']), rx_spaces, rx_transition],
      rx_words [Lit ''raw trust score'', Lit ''trust score'', Lit ''wallet'', Lit ''hotkey'', Lit ''coldkey'', Lit ''seed phrase'',
        Lit ''mnemonic''],
      rx_words [Lit ''public score estimate'', Lit ''estimated score'', Lit ''score estimate'', rx_plural ''estimated reward'',
        rx_plural ''reward'', rx_plural ''reward estimate'', Lit ''payout'', Lit ''farming'', Lit ''scoreability'',
        Lit ''score preview'', rx_plural ''projected score change''],
      rx_words [Lit ''private reviewability'', rx_plural ''reviewability internal''],
      rx_words [rx_plural ''private ranking'', rx_plural ''ranking''],
      rx_words [Lit ''open_pr_pressure'', Lit ''closed_pr_credibility'', Lit ''low_credibility'', Lit ''maintainer_lane'',
        Lit ''inactive_or_unknown_lane'', Lit ''issue_discovery_only''],
      rx_words [Seq [Lit ''credibility'', Opt (Seq [Lit '' update'', Opt (Lit ''s'')])], Lit ''closed pr credibility'',
        Lit ''low credibility'', Lit ''open pr pressure''],
      Seq [Wordb, Lit ''private context'', Wordb, rx_spaces, rx_transition]]"

text \<open>\<open>reviewability\<close> is kept where it is the argument of the bot's command.\<close>

definition REVIEWABILITY_TERM :: rx where "REVIEWABILITY_TERM = Seq [Wordb, Lit ''reviewability'', Wordb]"

definition reviewability_at :: "string \<Rightarrow> string \<Rightarrow> bool" where
  "reviewability_at done s \<longleftrightarrow> rx_run REVIEWABILITY_TERM (done, toLowerCase s) \<noteq> []"

definition reviewability_text :: "string \<Rightarrow> string \<Rightarrow> string" where
  "reviewability_text done s = (if startsWith done (rev ''@gittensory '') then take 13 s else ''private context'')"

function sanitizeReviewabilityTerm :: "string \<Rightarrow> string \<Rightarrow> string" where
  "sanitizeReviewabilityTerm done s =
     (if s = [] then []
      else if reviewability_at done s
      then reviewability_text done s @ sanitizeReviewabilityTerm (rev (toLowerCase (take 13 s)) @ done) (drop 13 s)
      else hd s # sanitizeReviewabilityTerm (lower_char (hd s) # done) (tl s))"
  by pat_completeness simp
termination
  by (relation "measure (\<lambda>(d, s). length s)") (simp_all add: diff_less_mono)

declare sanitizeReviewabilityTerm.simps [simp del]

definition sanitizePublicComment :: "string \<Rightarrow> string" where
  "sanitizePublicComment v =
     (let sanitized = replace_all_i (rx_words [Lit ''likely_duplicate'']) ''possible overlap with existing work''
            (fold (\<lambda>r. replace_all_i r ''private context'') PRIVATE_CONTEXT_PATTERNS v)
      in replace_all_i (Seq [Lit ''private context'', Plus (Seq [Lit '','', Many (Oneof space_items), Lit ''private context''])])
           ''private context'' (sanitizeReviewabilityTerm [] sanitized))"

section \<open>The policy of the live gate\<close>

definition mergeReadinessGateEnabled :: "RepositorySettings \<Rightarrow> bool" where
  "mergeReadinessGateEnabled s \<longleftrightarrow> rs_mergeReadinessGateMode s \<noteq> gate_off"

definition shouldCollectLinkedIssueEvidence :: "RepositorySettings \<Rightarrow> bool" where
  "shouldCollectLinkedIssueEvidence s \<longleftrightarrow>
     rs_requireLinkedIssue s \<or> rs_linkedIssueGateMode s \<noteq> gate_off \<or> mergeReadinessGateEnabled s"

definition shouldCollectSlopEvidence :: "RepositorySettings \<Rightarrow> bool" where
  "shouldCollectSlopEvidence s \<longleftrightarrow> rs_slopGateMode s \<noteq> gate_off \<or> mergeReadinessGateEnabled s"

definition shouldRunSlopAiAdvisory :: "RepositorySettings \<Rightarrow> bool" where
  "shouldRunSlopAiAdvisory s \<longleftrightarrow> rs_slopAiAdvisory s \<and> rs_slopGateMode s \<noteq> gate_off"

record AuthorHistory =
  ah_mergedPrCount :: nat
  ah_closedUnmergedPrCount :: nat

definition gateCheckPolicy ::
    "RepositorySettings \<Rightarrow> int option \<Rightarrow> bool option \<Rightarrow> int option \<Rightarrow> AuthorHistory option \<Rightarrow> GateCheckPolicy" where
  "gateCheckPolicy settings readiness confirmed slop authorHistory =
     \<lparr>linkedIssueGateMode = Some (rs_linkedIssueGateMode settings),
      duplicatePrGateMode = Some (rs_duplicatePrGateMode settings),
      qualityGateMode = Some (rs_qualityGateMode settings),
      qualityGateMinScore = score_number (rs_qualityGateMinScore settings),
      aiReviewGateMode = Some (rs_aiReviewMode settings),
      readinessScore = score_number readiness,
      slopGateMode = Some (rs_slopGateMode settings),
      slopGateMinScore = score_number (rs_slopGateMinScore settings),
      slopRisk = score_number slop,
      mergeReadinessGateMode = Some (rs_mergeReadinessGateMode settings),
      manifestPolicyGateMode = Some (rs_manifestPolicyGateMode settings),
      firstTimeContributorGrace = Some (rs_firstTimeContributorGrace settings),
      authorMergedPrCount = map_option ah_mergedPrCount authorHistory,
      authorClosedUnmergedPrCount = map_option ah_closedUnmergedPrCount authorHistory,
      confirmedContributor = (if rs_gatePack settings = pack_oss_anti_slop then None else confirmed)\<rparr>"

definition linkedIssueDuplicatePullRequestsForGate :: "PullRequestRecord \<Rightarrow> PullRequestRecord list \<Rightarrow> nat list" where
  "linkedIssueDuplicatePullRequestsForGate pr prs =
     (if pr_linkedIssues pr = [] then []
      else sort (dedupe (map pr_number (filter (\<lambda>p. pr_number p \<noteq> pr_number pr \<and> pr_state p = ''open''
        \<and> list_ex (\<lambda>i. i \<in> set (pr_linkedIssues pr)) (pr_linkedIssues p)) prs))))"

section \<open>The predicted verdict\<close>

record PredictedGateInput =
  pgi_repoFullName :: string
  pgi_contributorLogin :: string
  pgi_title :: string
  pgi_body :: "string option"
  pgi_labels :: "string list option"
  pgi_linkedIssues :: "nat list option"
  pgi_authorAssociation :: "string option"

record PredictedGateVerdict =
  pv_pack :: GatePolicyPack
  pv_conclusion :: GateCheckConclusion
  pv_title :: string
  pv_summary :: string
  pv_readinessScore :: int
  pv_confirmedContributor :: "bool option"
  pv_blockers :: "AdvisoryFinding list"
  pv_warnings :: "AdvisoryFinding list"
  pv_funnel :: "(string \<times> string) option"
  pv_note :: string

definition OSS_ANTI_SLOP_FUNNEL :: "string \<times> string" where
  "OSS_ANTI_SLOP_FUNNEL =
     (''This repo runs the Gittensor anti-slop gate. Gittensor lets GitHub contributors earn for open-source work like this ''
        @ em_dash @ '' register to start earning.'', ''https://gittensor.io'')"

definition PREDICTED_GATE_NOTE :: string where
  "PREDICTED_GATE_NOTE =
     ''Predicted from the repo'' @ [CHR 0x27] @ ''s public .gittensory.yml gate config + safe defaults. The maintainer may have ''
     @ ''private dashboard overrides not reflected here, and the dual-model AI-consensus blocker is only ''
     @ ''evaluated on a real PR. Only confirmed Gittensor contributors are ever hard-blocked.''"

text \<open>The public half of a finding; its severity and its public text are left out.\<close>

definition publicSafeFinding :: "AdvisoryFinding \<Rightarrow> AdvisoryFinding" where
  "publicSafeFinding f = f\<lparr>f_title := sanitizePublicComment (f_title f), f_detail := sanitizePublicComment (f_detail f),
     f_action := (case f_action f of None \<Rightarrow> None | Some a \<Rightarrow> if a = [] then None else Some (sanitizePublicComment a)),
     f_publicText := None\<rparr>"

record PredictionEnv =
  pe_now :: int
  pe_nowIso :: string
  pe_uuid :: string
  pe_date_parse :: "string \<Rightarrow> int option"

definition predicted_preflight ::
    "PredictionEnv \<Rightarrow> PredictedGateInput \<Rightarrow> RepositoryRecord option \<Rightarrow> IssueRecord list \<Rightarrow> PullRequestRecord list
     \<Rightarrow> BountyRecord list \<Rightarrow> IssueQuality list option \<Rightarrow> PreflightResult" where
  "predicted_preflight env input repo issues prs bounties quality =
     buildPreflightResult (pe_date_parse env) (pe_now env) (pe_nowIso env)
       \<lparr>pi_repoFullName = pgi_repoFullName input, pi_contributorLogin = Some (pgi_contributorLogin input),
        pi_title = pgi_title input, pi_body = pgi_body input, pi_labels = pgi_labels input, pi_changedFiles = None,
        pi_linkedIssues = pgi_linkedIssues input, pi_tests = None, pi_authorAssociation = pgi_authorAssociation input\<rparr>
       repo issues prs bounties quality"

definition synthetic_pr :: "PredictedGateInput \<Rightarrow> nat list \<Rightarrow> PullRequestRecord" where
  "synthetic_pr input linkedIssues =
     \<lparr>pr_repoFullName = pgi_repoFullName input, pr_number = 0, pr_title = pgi_title input, pr_state = ''open'',
      pr_authorLogin = Some (pgi_contributorLogin input), pr_authorAssociation = pgi_authorAssociation input, pr_headSha = None,
      pr_headRef = None, pr_baseRef = None, pr_htmlUrl = None, pr_mergedAt = None, pr_isDraft = None, pr_mergeableState = None,
      pr_reviewDecision = None, pr_body = pgi_body input, pr_createdAt = None, pr_updatedAt = None, pr_closedAt = None,
      pr_labels = nullish (pgi_labels input) [], pr_linkedIssues = linkedIssues, pr_slopRisk = None, pr_slopBand = None,
      pr_mergeAttemptCount = None, pr_mergeBlockedSha = None, pr_mergeBlockedReason = None\<rparr>"

definition predicted_readiness ::
    "PredictionEnv \<Rightarrow> PredictedGateInput \<Rightarrow> RepositoryRecord option \<Rightarrow> IssueRecord list \<Rightarrow> PullRequestRecord list
     \<Rightarrow> PreflightResult \<Rightarrow> int" where
  "predicted_readiness env input repo issues prs preflight =
     (let pr = synthetic_pr input (pf_linkedIssues preflight);
          collisions = buildCollisionReport (pe_nowIso env) (pgi_repoFullName input) issues prs [];
          queueHealth = buildQueueHealth (pe_date_parse env) (pe_now env) (pe_nowIso env) repo issues prs collisions no_counts
      in prs_total (buildPublicReadinessScore pr preflight queueHealth None
           (Some (length (unionScopedOverlapClusters collisions pr (pf_collisions preflight))))))"

definition truthy :: "string option \<Rightarrow> bool" where
  "truthy v \<longleftrightarrow> (case v of None \<Rightarrow> False | Some s \<Rightarrow> s \<noteq> [])"

definition predicted_history :: "PredictedGateInput \<Rightarrow> PullRequestRecord list \<Rightarrow> AuthorHistory" where
  "predicted_history input prs =
     (let own = filter (\<lambda>p. pr_repoFullName p = pgi_repoFullName input \<and> pr_authorLogin p = Some (pgi_contributorLogin input)) prs
      in \<lparr>ah_mergedPrCount = length (filter (\<lambda>p. pr_state p = ''merged'' \<or> truthy (pr_mergedAt p)) own),
          ah_closedUnmergedPrCount = length (filter (\<lambda>p. pr_state p = ''closed'' \<and> \<not> truthy (pr_mergedAt p)) own)\<rparr>)"

definition predicted_policy ::
    "FocusManifestGateConfig \<Rightarrow> int \<Rightarrow> bool option \<Rightarrow> AuthorHistory \<Rightarrow> GateCheckPolicy" where
  "predicted_policy gate readiness confirmed history =
     empty_policy\<lparr>linkedIssueGateMode := gc_linkedIssue gate, duplicatePrGateMode := gc_duplicates gate,
       qualityGateMode := gc_readinessMode gate, qualityGateMinScore := score_number (gc_readinessMinScore gate),
       aiReviewGateMode := gc_aiReviewMode gate, mergeReadinessGateMode := gc_mergeReadiness gate,
       readinessScore := score_number (Some readiness), confirmedContributor := confirmed,
       firstTimeContributorGrace := gc_firstTimeContributorGrace gate,
       authorMergedPrCount := Some (ah_mergedPrCount history),
       authorClosedUnmergedPrCount := Some (ah_closedUnmergedPrCount history)\<rparr>"

definition buildPredictedGateVerdict ::
    "PredictionEnv \<Rightarrow> PredictedGateInput \<Rightarrow> FocusManifest \<Rightarrow> RepositoryRecord option \<Rightarrow> IssueRecord list \<Rightarrow> PullRequestRecord list
     \<Rightarrow> BountyRecord list option \<Rightarrow> IssueQuality list option \<Rightarrow> bool option \<Rightarrow> PredictedGateVerdict" where
  "buildPredictedGateVerdict env input manifest repo issues prs bounties quality confirmed =
     (let gate = fm_gate manifest;
          preflight = predicted_preflight env input repo issues prs (nullish bounties []) quality;
          pr = synthetic_pr input (pf_linkedIssues preflight);
          readiness = predicted_readiness env input repo issues prs preflight;
          requireLinkedIssue = (gc_linkedIssue gate \<noteq> None \<and> gc_linkedIssue gate \<noteq> Some gate_off);
          result = buildPullRequestAdvisory (pe_uuid env) (pe_nowIso env) repo (Some pr) (Some prs) (Some requireLinkedIssue);
          pack = nullish (gc_pack gate) pack_gittensor;
          effectiveConfirmed = (if pack = pack_oss_anti_slop then None else confirmed);
          evaluation = evaluateGateCheck result (predicted_policy gate readiness effectiveConfirmed (predicted_history input prs))
      in \<lparr>pv_pack = pack, pv_conclusion = ge_conclusion evaluation, pv_title = sanitizePublicComment (ge_title evaluation),
          pv_summary = sanitizePublicComment (ge_summary evaluation), pv_readinessScore = readiness,
          pv_confirmedContributor = effectiveConfirmed, pv_blockers = map publicSafeFinding (ge_blockers evaluation),
          pv_warnings = map publicSafeFinding (ge_warnings evaluation),
          pv_funnel = (if pack = pack_oss_anti_slop then Some OSS_ANTI_SLOP_FUNNEL else None), pv_note = PREDICTED_GATE_NOTE\<rparr>)"

end
