(* ===== verification/Predicted_Parity.thy ===== *)
theory Predicted_Parity
  imports Predicted_Gate
begin

text \<open>
  The promise of \<open>rules/predicted-gate.ts\<close>: the verdict shown before submission is the verdict of the gate.
  It holds for the rules on linked issues, duplicates and readiness as the \<open>gate:\<close> block of the public file sets
  them, and fails for what else the same file can turn on: the slop gate, the blocking merge-readiness composite, and
  gate modes under its \<open>settings:\<close> block, which \<open>resolveEffectiveSettings\<close> of \<open>signals/focus-manifest.ts\<close> overlays
  and the prediction does not read.
\<close>

section \<open>What can block a pull request's own advisory\<close>

lemma pr_codes:
  assumes "f \<in> set (addPullRequestFindings (Some r) p (addRepoFindings r []) others req)"
  shows "f_code f \<in> set [''repo_unregistered'', ''repo_config_missing'', ''issue_discovery_disabled'',
      ''direct_pr_pool_disabled'', ''maintainer_cut_enabled'', ''pr_not_open'', ''missing_linked_issue'', ''busy_pr_queue'',
      ''label_context_found'', ''maintainer_authored_pr'', ''duplicate_pr_risk'']"
  using addPullRequestFindings_codes [OF assms] by (elim disjE) (auto dest: addRepoFindings_codes)

lemma missing_link_found:
  "(\<exists>f \<in> set (addPullRequestFindings (Some r) p (addRepoFindings r []) others req). f_code f = ''missing_linked_issue'')
     \<longleftrightarrow> pr_linkedIssues p = [] \<and> req"
proof
  assume "\<exists>f \<in> set (addPullRequestFindings (Some r) p (addRepoFindings r []) others req). f_code f = ''missing_linked_issue''"
  then obtain f where f: "f \<in> set (addPullRequestFindings (Some r) p (addRepoFindings r []) others req)"
      "f_code f = ''missing_linked_issue''" by blast
  have "f \<notin> set (addRepoFindings r [])" using f(2) by (auto dest: addRepoFindings_codes)
  with f show "pr_linkedIssues p = [] \<and> req"
    unfolding addPullRequestFindings_def Let_def set_append Un_iff by (elim disjE) (simp_all split: if_splits option.splits, auto)
next
  assume "pr_linkedIssues p = [] \<and> req"
  then show "\<exists>f \<in> set (addPullRequestFindings (Some r) p (addRepoFindings r []) others req). f_code f = ''missing_linked_issue''"
    by (simp add: addPullRequestFindings_def Let_def)
qed

lemma duplicate_found:
  "(\<exists>f \<in> set (addPullRequestFindings (Some r) p (addRepoFindings r []) others req). f_code f = ''duplicate_pr_risk'')
     \<longleftrightarrow> overlappingPrs p others \<noteq> []"
  using addPullRequestFindings_duplicate [of p others "Some r" "addRepoFindings r []" req]
  by (auto dest: pr_findings_not_special)

lemma configured_pr_blocker:
  assumes "f \<in> set (addPullRequestFindings (Some r) p (addRepoFindings r []) others req)"
  shows "isConfiguredGateBlocker (f_code f) q \<longleftrightarrow>
    f_code f = ''missing_linked_issue'' \<and> nullish (linkedIssueGateMode q) gate_advisory = gate_block
    \<or> f_code f = ''duplicate_pr_risk'' \<and> nullish (duplicatePrGateMode q) gate_block = gate_block"
  using pr_codes [OF assms] by (auto simp: isConfiguredGateBlocker_def)

lemma pr_blockers_iff:
  "gateBlockers (addPullRequestFindings (Some r) p (addRepoFindings r []) others req) q = [] \<longleftrightarrow>
     \<not> (pr_linkedIssues p = [] \<and> req \<and> nullish (linkedIssueGateMode q) gate_advisory = gate_block)
     \<and> \<not> (overlappingPrs p others \<noteq> [] \<and> nullish (duplicatePrGateMode q) gate_block = gate_block)
     \<and> buildQualityGateBlocker q = None \<and> buildSlopGateBlocker q = None"
  using missing_link_found [of r p others req] duplicate_found [of r p others req]
  unfolding gateBlockers_Nil_iff by (auto simp: configured_pr_blocker)

section \<open>The gate on a pull request under a configuration\<close>

text \<open>
  The live gate, run on the advisory the builder gives (no finding added by the slop scan, the secret scan, the
  AI review or the manifest policy).
\<close>

definition live_gate ::
    "string \<Rightarrow> string \<Rightarrow> RepositorySettings \<Rightarrow> RepositoryRecord option \<Rightarrow> PullRequestRecord \<Rightarrow> PullRequestRecord list
     \<Rightarrow> int \<Rightarrow> bool option \<Rightarrow> int option \<Rightarrow> AuthorHistory \<Rightarrow> GateCheckEvaluation" where
  "live_gate uuid now_iso settings repo pr others readiness confirmed slop history =
     evaluateGateCheck
       (buildPullRequestAdvisory uuid now_iso repo (Some pr) (Some others) (Some (shouldCollectLinkedIssueEvidence settings)))
       (gateCheckPolicy settings (Some readiness) confirmed slop (Some history))"

lemma advisory_conclusion:
  "ge_conclusion (evaluateGateCheck (buildPullRequestAdvisory u n repo (Some p) (Some others) (Some req)) policy) =
     (case repo of
        None \<Rightarrow> gc_neutral
      | Some r \<Rightarrow>
          (let q = applyMergeReadinessGate policy
           in if \<not> (pr_linkedIssues p = [] \<and> req \<and> nullish (linkedIssueGateMode q) gate_advisory = gate_block)
                 \<and> \<not> (overlappingPrs p others \<noteq> [] \<and> nullish (duplicatePrGateMode q) gate_block = gate_block)
                 \<and> buildQualityGateBlocker q = None \<and> buildSlopGateBlocker q = None then gc_success
              else if confirmedContributor policy = Some False \<or> graceApplies policy then gc_neutral else gc_failure))"
proof (cases repo)
  case None
  then show ?thesis using evaluation_blocked_unknown_repo by (simp add: ge_conclusion_cases)
next
  case (Some r)
  then show ?thesis
    by (simp add: ge_conclusion_cases pr_advisory_findings pr_not_evaluation_blocked pr_blockers_iff Let_def)
qed

text \<open>
  The settings the public file gives over the defaults, and whether what its \<open>settings:\<close> block says of the gate is
  decided by the \<open>gate:\<close> block, which is read after it.
\<close>

definition public_settings :: "string \<Rightarrow> FocusManifest \<Rightarrow> RepositorySettings" where
  "public_settings name manifest = resolveEffectiveSettings (default_settings name) manifest"

definition gate_block_decides :: "FocusManifest \<Rightarrow> bool" where
  "gate_block_decides manifest \<longleftrightarrow>
     (let s = fm_settings manifest; g = fm_gate manifest
      in (ms_linkedIssueGateMode s = None \<or> gc_linkedIssue g \<noteq> None) \<and>
         (ms_duplicatePrGateMode s = None \<or> gc_duplicates g \<noteq> None) \<and>
         (ms_qualityGateMode s = None \<or> gc_readinessMode g \<noteq> None) \<and>
         (ms_qualityGateMinScore s = None \<or> gc_readinessMinScore g \<noteq> None) \<and>
         (ms_requireLinkedIssue s = Some True \<longrightarrow> gc_linkedIssue g \<noteq> Some gate_off))"

lemma public_settings_gate:
  "rs_mergeReadinessGateMode (public_settings name m) = nullish (gc_mergeReadiness (fm_gate m)) gate_off"
  "rs_firstTimeContributorGrace (public_settings name m) = nullish (gc_firstTimeContributorGrace (fm_gate m)) False"
  "rs_gatePack (public_settings name m) = nullish (gc_pack (fm_gate m)) pack_gittensor"
  "rs_requireLinkedIssue (public_settings name m) = nullish (ms_requireLinkedIssue (fm_settings m)) False"
  by (simp_all add: public_settings_def resolveEffectiveSettings_def overlay_gate_def overlay_settings_def
      default_settings_def Let_def)

lemma public_settings_raw:
  "rs_linkedIssueGateMode (public_settings name m) =
     (let mode = nullish (gc_linkedIssue (fm_gate m)) (nullish (ms_linkedIssueGateMode (fm_settings m)) gate_advisory)
      in if nullish (ms_requireLinkedIssue (fm_settings m)) False \<and> mode = gate_off then gate_block else mode)"
  "rs_duplicatePrGateMode (public_settings name m) =
     nullish (gc_duplicates (fm_gate m)) (nullish (ms_duplicatePrGateMode (fm_settings m)) gate_block)"
  "rs_qualityGateMode (public_settings name m) =
     nullish (gc_readinessMode (fm_gate m)) (nullish (ms_qualityGateMode (fm_settings m)) gate_advisory)"
  "rs_qualityGateMinScore (public_settings name m) =
     orElse (gc_readinessMinScore (fm_gate m)) (orElse (ms_qualityGateMinScore (fm_settings m)) None)"
  by (simp_all add: public_settings_def resolveEffectiveSettings_def overlay_gate_def overlay_settings_def
      default_settings_def Let_def)

lemma public_settings_decided:
  assumes "gate_block_decides m"
  shows "rs_linkedIssueGateMode (public_settings name m) = nullish (gc_linkedIssue (fm_gate m)) gate_advisory"
    "rs_duplicatePrGateMode (public_settings name m) = nullish (gc_duplicates (fm_gate m)) gate_block"
    "rs_qualityGateMode (public_settings name m) = nullish (gc_readinessMode (fm_gate m)) gate_advisory"
    "rs_qualityGateMinScore (public_settings name m) = gc_readinessMinScore (fm_gate m)"
  using assms unfolding public_settings_raw gate_block_decides_def Let_def
  by (cases "gc_linkedIssue (fm_gate m)"; cases "ms_requireLinkedIssue (fm_settings m)"; auto simp: nullish_def orElse_def split: option.splits)+

lemma no_slop_score: "slopRisk q = None \<Longrightarrow> buildSlopGateBlocker q = None"
  by (simp add: buildSlopGateBlocker_def normalizeScore_def)

lemma quality_blocker_cong:
  "nullish (qualityGateMode p) gate_advisory = nullish (qualityGateMode q) gate_advisory \<Longrightarrow> readinessScore p = readinessScore q \<Longrightarrow>
     qualityGateMinScore p = qualityGateMinScore q \<Longrightarrow> buildQualityGateBlocker p = buildQualityGateBlocker q"
  by (cases "qualityGateMode p"; cases "qualityGateMode q") (simp_all add: buildQualityGateBlocker_def)

text \<open>Which findings block: those of two advisories that differ in whether a missing link is looked for.\<close>

lemma repo_findings_never_block: "filter (\<lambda>f. isConfiguredGateBlocker (f_code f) q) (addRepoFindings r []) = []"
  by (auto simp: filter_empty_conv isConfiguredGateBlocker_def dest!: addRepoFindings_codes)

lemma pr_filter_cong:
  assumes "pr_linkedIssues p = [] \<Longrightarrow> (req \<and> nullish (linkedIssueGateMode q) gate_advisory = gate_block) =
      (req' \<and> nullish (linkedIssueGateMode q') gate_advisory = gate_block)"
    and "nullish (duplicatePrGateMode q) gate_block = nullish (duplicatePrGateMode q') gate_block"
  shows "filter (\<lambda>f. isConfiguredGateBlocker (f_code f) q) (addPullRequestFindings (Some r) p (addRepoFindings r []) others req) =
    filter (\<lambda>f. isConfiguredGateBlocker (f_code f) q') (addPullRequestFindings (Some r) p (addRepoFindings r []) others req')"
proof -
  let ?P = "\<lambda>q f. isConfiguredGateBlocker (f_code f) q"
  have codes: "\<not> isConfiguredGateBlocker code q" if "code \<in> set [''pr_not_open'', ''busy_pr_queue'', ''label_context_found'', ''maintainer_authored_pr'']"
    for code q using that by (auto simp: isConfiguredGateBlocker_def)
  have modes: "isConfiguredGateBlocker ''missing_linked_issue'' q \<longleftrightarrow> nullish (linkedIssueGateMode q) gate_advisory = gate_block"
    "isConfiguredGateBlocker ''duplicate_pr_risk'' q \<longleftrightarrow> nullish (duplicatePrGateMode q) gate_block = gate_block" for q
    by (simp_all add: isConfiguredGateBlocker_def)
  have middle: "filter (?P q) (if pr_linkedIssues p = [] \<and> req then [f] else if overlappingPrs p others \<noteq> [] then [g] else []) =
      filter (?P q') (if pr_linkedIssues p = [] \<and> req' then [f] else if overlappingPrs p others \<noteq> [] then [g] else [])"
    if "f_code f = ''missing_linked_issue''" "f_code g = ''duplicate_pr_risk''" for f g
    using assms overlappingPrs_Nil [of p others] that by (auto simp: modes)
  show ?thesis
    unfolding addPullRequestFindings_def Let_def filter_append repo_findings_never_block
    by (intro arg_cong2 [where f = "(@)"] refl middle) (simp_all add: codes split: option.split)
qed

lemma advisory_blocked:
  "evaluationBlocked (adv_findings (buildPullRequestAdvisory u n repo (Some p) (Some others) (Some req))) \<longleftrightarrow> repo = None"
proof (cases repo)
  case None
  then show ?thesis by (simp add: evaluation_blocked_unknown_repo)
next
  case (Some r)
  then show ?thesis by (simp add: pr_advisory_findings pr_not_evaluation_blocked)
qed

lemma evaluation_cong:
  assumes "evaluationBlocked (adv_findings a) = evaluationBlocked (adv_findings b)"
    and "evaluationBlocked (adv_findings b) \<or>
      gateBlockers (adv_findings a) (applyMergeReadinessGate p) = gateBlockers (adv_findings b) (applyMergeReadinessGate q)"
    and "confirmedContributor p = confirmedContributor q" "graceApplies p = graceApplies q"
  shows "ge_conclusion (evaluateGateCheck a p) = ge_conclusion (evaluateGateCheck b q)"
    "ge_title (evaluateGateCheck a p) = ge_title (evaluateGateCheck b q)"
    "ge_summary (evaluateGateCheck a p) = ge_summary (evaluateGateCheck b q)"
    "ge_blockers (evaluateGateCheck a p) = ge_blockers (evaluateGateCheck b q)"
proof -
  have fold: "list_ex (\<lambda>f. isEvaluationBlocker (f_code f)) fs = evaluationBlocked fs" for fs
    by (simp add: evaluationBlocked_def list_ex_iff)
  show "ge_conclusion (evaluateGateCheck a p) = ge_conclusion (evaluateGateCheck b q)"
    "ge_title (evaluateGateCheck a p) = ge_title (evaluateGateCheck b q)"
    "ge_summary (evaluateGateCheck a p) = ge_summary (evaluateGateCheck b q)"
    "ge_blockers (evaluateGateCheck a p) = ge_blockers (evaluateGateCheck b q)"
    using assms by (cases "evaluationBlocked (adv_findings b)"; simp add: evaluateGateCheck_def Let_def fold)+
qed

text \<open>
  C13: the prediction is the verdict of the gate under the public configuration. For the same pull request, queue,
  readiness and history, the predicted conclusion, title, summary and blockers are those the live gate reaches with the
  settings the public file gives over the defaults, with the texts sanitised. What the \<open>settings:\<close> block of the file
  says of the gate is taken to be decided by its \<open>gate:\<close> block, the composite \<open>mergeReadiness\<close> not to block, and the
  live gate to have no slop score and no finding beyond those of the advisory; without the first two the lemmas at the
  end of this theory show the verdicts apart.
\<close>

theorem prediction_matches_gate:
  assumes "gate_block_decides manifest" and "gc_mergeReadiness (fm_gate manifest) \<noteq> Some gate_block"
  shows "let verdict = buildPredictedGateVerdict env input manifest repo issues prs bounties quality confirmed;
      preflight = predicted_preflight env input repo issues prs (nullish bounties []) quality;
      live = live_gate (pe_uuid env) (pe_nowIso env) (public_settings name manifest) repo
        (synthetic_pr input (pf_linkedIssues preflight)) prs (predicted_readiness env input repo issues prs preflight)
        confirmed None (predicted_history input prs)
    in pv_conclusion verdict = ge_conclusion live \<and> pv_title verdict = sanitizePublicComment (ge_title live) \<and>
       pv_summary verdict = sanitizePublicComment (ge_summary live) \<and>
       pv_blockers verdict = map publicSafeFinding (ge_blockers live)"
proof -
  let ?pf = "predicted_preflight env input repo issues prs (nullish bounties []) quality"
  let ?r = "predicted_readiness env input repo issues prs ?pf" and ?h = "predicted_history input prs" and ?g = "fm_gate manifest"
  let ?c = "if nullish (gc_pack ?g) pack_gittensor = pack_oss_anti_slop then None else confirmed"
  note fields = public_settings_gate public_settings_decided [OF assms(1)]
  let ?p = "predicted_policy ?g ?r ?c ?h" and ?q = "gateCheckPolicy (public_settings name manifest) (Some ?r) confirmed None (Some ?h)"
  have same: "confirmedContributor ?p = confirmedContributor ?q" "graceApplies ?p = graceApplies ?q"
    by (cases "gc_firstTimeContributorGrace ?g";
        simp add: predicted_policy_def gateCheckPolicy_def fields graceApplies_def empty_policy_def)+
  have slop: "buildSlopGateBlocker (applyMergeReadinessGate ?p) = None" "buildSlopGateBlocker (applyMergeReadinessGate ?q) = None"
    by (rule no_slop_score;
        simp add: applyMergeReadinessGate_def Let_def predicted_policy_def gateCheckPolicy_def empty_policy_def score_number_def)+
  have quality: "buildQualityGateBlocker (applyMergeReadinessGate ?p) = buildQualityGateBlocker (applyMergeReadinessGate ?q)"
    by (rule quality_blocker_cong)
      (simp_all add: applyMergeReadinessGate_def Let_def predicted_policy_def gateCheckPolicy_def fields empty_policy_def)
  have modes: "nullish (linkedIssueGateMode (applyMergeReadinessGate ?p)) gate_advisory = nullish (linkedIssueGateMode (applyMergeReadinessGate ?q)) gate_advisory"
    "nullish (duplicatePrGateMode (applyMergeReadinessGate ?p)) gate_block = nullish (duplicatePrGateMode (applyMergeReadinessGate ?q)) gate_block"
    by (simp_all add: applyMergeReadinessGate_def Let_def predicted_policy_def gateCheckPolicy_def fields empty_policy_def)
  have collected: "(gc_linkedIssue ?g \<noteq> None \<and> gc_linkedIssue ?g \<noteq> Some gate_off
        \<and> nullish (linkedIssueGateMode (applyMergeReadinessGate ?p)) gate_advisory = gate_block) \<longleftrightarrow>
      (shouldCollectLinkedIssueEvidence (public_settings name manifest)
        \<and> nullish (linkedIssueGateMode (applyMergeReadinessGate ?q)) gate_advisory = gate_block)"
    using assms(2) unfolding modes(1)
    by (cases "gc_linkedIssue ?g"; cases "gc_mergeReadiness ?g")
      (auto simp: shouldCollectLinkedIssueEvidence_def mergeReadinessGateEnabled_def applyMergeReadinessGate_def Let_def
        gateCheckPolicy_def fields)
  let ?pr = "synthetic_pr input (pf_linkedIssues ?pf)"
  let ?a = "buildPullRequestAdvisory (pe_uuid env) (pe_nowIso env) repo (Some ?pr) (Some prs)
    (Some (gc_linkedIssue ?g \<noteq> None \<and> gc_linkedIssue ?g \<noteq> Some gate_off))"
  let ?b = "buildPullRequestAdvisory (pe_uuid env) (pe_nowIso env) repo (Some ?pr) (Some prs)
    (Some (shouldCollectLinkedIssueEvidence (public_settings name manifest)))"
  have predicted: "evaluateGateCheck ?a ?p = e \<Longrightarrow>
      pv_conclusion (buildPredictedGateVerdict env input manifest repo issues prs bounties quality confirmed) = ge_conclusion e \<and>
      pv_title (buildPredictedGateVerdict env input manifest repo issues prs bounties quality confirmed) = sanitizePublicComment (ge_title e) \<and>
      pv_summary (buildPredictedGateVerdict env input manifest repo issues prs bounties quality confirmed) = sanitizePublicComment (ge_summary e) \<and>
      pv_blockers (buildPredictedGateVerdict env input manifest repo issues prs bounties quality confirmed) = map publicSafeFinding (ge_blockers e)" for e
    by (simp only: buildPredictedGateVerdict_def Let_def PredictedGateVerdict.select_convs)
  have unknown: "evaluationBlocked (adv_findings ?a) = (repo = None)" "evaluationBlocked (adv_findings ?b) = (repo = None)"
    by (rule advisory_blocked)+
  have blockers: "gateBlockers (adv_findings ?a) (applyMergeReadinessGate ?p) = gateBlockers (adv_findings ?b) (applyMergeReadinessGate ?q)"
    if "repo = Some r" for r
    unfolding gateBlockers_def slop quality
    using pr_filter_cong [of ?pr _ _ _ _ r prs, OF _ modes(2)] collected that by (simp add: pr_advisory_findings)
  note cong = evaluation_cong [of ?a ?b ?p ?q, OF _ _ same]
  show ?thesis
    using predicted [OF refl] cong unknown blockers by (cases repo) (simp_all add: Let_def live_gate_def)
qed

definition sample_env :: PredictionEnv where
  "sample_env = \<lparr>pe_now = 0, pe_nowIso = ''2026-01-01'', pe_uuid = ''u'', pe_date_parse = (\<lambda>_. None)\<rparr>"

definition sample_input :: PredictedGateInput where
  "sample_input = \<lparr>pgi_repoFullName = ''o/r'', pgi_contributorLogin = ''dev'', pgi_title = ''Parser'', pgi_body = None, pgi_labels = None,
     pgi_linkedIssues = Some [], pgi_authorAssociation = None\<rparr>"

definition sample_repo :: RepositoryRecord where
  "sample_repo = \<lparr>repo_fullName = ''o/r'', repo_owner = ''o'', repo_name = ''r'', repo_installationId = Some 5,
     repo_isInstalled = True, repo_isRegistered = True, repo_isPrivate = False, repo_htmlUrl = None,
     repo_defaultBranch = None, repo_registryConfig = None\<rparr>"

text \<open>A public file that blocks on a missing link and warns of duplicates under both blocks.\<close>

definition sample_manifest :: FocusManifest where
  "sample_manifest = (emptyManifest src_none [])
     \<lparr>fm_gate := EMPTY_GATE_CONFIG\<lparr>gc_present := True, gc_linkedIssue := Some gate_block, gc_duplicates := Some gate_advisory\<rparr>,
      fm_settings := EMPTY_SETTINGS\<lparr>ms_linkedIssueGateMode := Some gate_off, ms_requireLinkedIssue := Some True\<rparr>\<rparr>"

text \<open>A link that is looked for and blocks, when there is none.\<close>

lemma failure_blockers:
  "ge_conclusion (evaluateGateCheck a p) = gc_failure \<Longrightarrow>
     ge_blockers (evaluateGateCheck a p) = gateBlockers (adv_findings a) (applyMergeReadinessGate p)"
  by (auto simp: evaluateGateCheck_def Let_def split: if_splits)

lemma missing_link_fails:
  assumes "pr_linkedIssues p = []" "shouldCollectLinkedIssueEvidence settings" "rs_firstTimeContributorGrace settings = False"
    and mode: "linkedIssueGateMode (applyMergeReadinessGate (gateCheckPolicy settings (Some readiness) (Some True) None (Some history))) = Some gate_block"
  shows "ge_conclusion (live_gate u n settings (Some r) p prs readiness (Some True) None history) = gc_failure"
    and "''missing_linked_issue'' \<in> f_code ` set (ge_blockers (live_gate u n settings (Some r) p prs readiness (Some True) None history))"
proof -
  let ?policy = "gateCheckPolicy settings (Some readiness) (Some True) None (Some history)"
  let ?findings = "addPullRequestFindings (Some r) p (addRepoFindings r []) prs True"
  have "\<not> graceApplies ?policy"
    using assms(3) by (simp add: graceApplies_def gateCheckPolicy_def Let_def)
  moreover have "confirmedContributor ?policy \<noteq> Some False" by (simp add: gateCheckPolicy_def)
  ultimately show failure: "ge_conclusion (live_gate u n settings (Some r) p prs readiness (Some True) None history) = gc_failure"
    using assms(1,2,4) unfolding live_gate_def advisory_conclusion by (simp add: Let_def)
  obtain f where f: "f \<in> set ?findings" "f_code f = ''missing_linked_issue''"
    using missing_link_found [of r p prs True] assms(1) by blast
  then have "f \<in> set (gateBlockers ?findings (applyMergeReadinessGate ?policy))"
    by (simp add: gateBlockers_def isConfiguredGateBlocker_def mode)
  then show "''missing_linked_issue'' \<in> f_code ` set (ge_blockers (live_gate u n settings (Some r) p prs readiness (Some True) None history))"
    using failure_blockers [OF failure [unfolded live_gate_def]] f(2) assms(2)
    by (auto simp: live_gate_def pr_advisory_findings intro!: rev_image_eqI [of f])
qed

theorem prediction_matches_gate_witness:
  "let verdict = buildPredictedGateVerdict sample_env sample_input sample_manifest (Some sample_repo) [] [] None None (Some True)
   in pv_conclusion verdict = gc_failure \<and> ''missing_linked_issue'' \<in> f_code ` set (pv_blockers verdict)"
proof -
  let ?pf = "predicted_preflight sample_env sample_input (Some sample_repo) [] [] [] None"
  let ?pr = "synthetic_pr sample_input (pf_linkedIssues ?pf)"
  let ?live = "live_gate (pe_uuid sample_env) (pe_nowIso sample_env) (public_settings ''o/r'' sample_manifest) (Some sample_repo) ?pr []
    (predicted_readiness sample_env sample_input (Some sample_repo) [] [] ?pf) (Some True) None (predicted_history sample_input [])"
  have decides: "gate_block_decides sample_manifest" and composite: "gc_mergeReadiness (fm_gate sample_manifest) \<noteq> Some gate_block"
    by (simp_all add: gate_block_decides_def sample_manifest_def EMPTY_GATE_CONFIG_def EMPTY_SETTINGS_def emptyManifest_def Let_def)
  have links: "pr_linkedIssues ?pr = []"
    by (simp add: synthetic_pr_def predicted_preflight_def buildPreflightResult_def Let_def planned_links_def sample_input_def) code_simp
  have settings: "shouldCollectLinkedIssueEvidence (public_settings ''o/r'' sample_manifest)"
    "rs_firstTimeContributorGrace (public_settings ''o/r'' sample_manifest) = False"
    "rs_linkedIssueGateMode (public_settings ''o/r'' sample_manifest) = gate_block"
    "rs_mergeReadinessGateMode (public_settings ''o/r'' sample_manifest) = gate_off"
    by (simp_all add: public_settings_gate public_settings_raw sample_manifest_def EMPTY_GATE_CONFIG_def EMPTY_SETTINGS_def
        shouldCollectLinkedIssueEvidence_def Let_def)
  then have "linkedIssueGateMode (applyMergeReadinessGate (gateCheckPolicy (public_settings ''o/r'' sample_manifest) readiness
      (Some True) None history)) = Some gate_block" for readiness history
    by (simp add: applyMergeReadinessGate_def gateCheckPolicy_def Let_def)
  note live = missing_link_fails [OF links settings(1,2) this]
  from live show ?thesis
    using prediction_matches_gate [OF decides composite, of sample_env sample_input "Some sample_repo" "[]" "[]" None None "Some True" "''o/r''"]
    by (simp add: Let_def publicSafeFinding_def image_image)
qed

section \<open>Where the prediction is optimistic\<close>

text \<open>A prediction under a gate block that is silent: a missing link is not looked for and nothing blocks.\<close>

lemma silent_prediction_passes:
  assumes "gc_linkedIssue (fm_gate manifest) = None" "gc_duplicates (fm_gate manifest) = None" "gc_readinessMinScore (fm_gate manifest) = None"
    and "pr_linkedIssues (synthetic_pr input (pf_linkedIssues
      (predicted_preflight env input (Some r) issues prs (nullish bounties []) quality))) = []"
  shows "pv_conclusion (buildPredictedGateVerdict env input manifest (Some r) issues prs bounties quality (Some True)) = gc_success"
proof -
  have quality_off: "qualityGateMinScore q = None \<Longrightarrow> buildQualityGateBlocker q = None" for q
    by (simp add: buildQualityGateBlocker_def normalizeScore_def split: option.splits)
  have kept: "qualityGateMinScore (applyMergeReadinessGate q) = qualityGateMinScore q" "slopRisk (applyMergeReadinessGate q) = slopRisk q" for q
    by (simp_all add: applyMergeReadinessGate_def Let_def)
  show ?thesis
    unfolding buildPredictedGateVerdict_def Let_def PredictedGateVerdict.select_convs advisory_conclusion
    by (simp add: assms overlappingPrs_Nil quality_off no_slop_score kept predicted_policy_def empty_policy_def score_number_def)
qed

text \<open>
  The composite \<open>mergeReadiness: block\<close> makes the live gate collect and block a missing link; the prediction collects
  it only under an explicit \<open>linkedIssue\<close> mode.
\<close>

lemma composite_not_predicted:
  assumes "fm_gate manifest = EMPTY_GATE_CONFIG\<lparr>gc_present := True, gc_mergeReadiness := Some gate_block\<rparr>"
    and "pr_linkedIssues (synthetic_pr input (pf_linkedIssues
      (predicted_preflight env input (Some r) issues prs (nullish bounties []) quality))) = []"
  shows "pv_conclusion (buildPredictedGateVerdict env input manifest (Some r) issues prs bounties quality (Some True)) = gc_success"
    and "ge_conclusion (live_gate u n (public_settings name manifest) (Some r)
      (synthetic_pr input (pf_linkedIssues (predicted_preflight env input (Some r) issues prs (nullish bounties []) quality)))
      prs readiness (Some True) None history) = gc_failure"
proof -
  show "pv_conclusion (buildPredictedGateVerdict env input manifest (Some r) issues prs bounties quality (Some True)) = gc_success"
    using assms by (intro silent_prediction_passes) (simp_all add: EMPTY_GATE_CONFIG_def)
  show "ge_conclusion (live_gate u n (public_settings name manifest) (Some r)
      (synthetic_pr input (pf_linkedIssues (predicted_preflight env input (Some r) issues prs (nullish bounties []) quality)))
      prs readiness (Some True) None history) = gc_failure"
    by (rule missing_link_fails [OF assms(2)])
      (simp_all add: assms(1) public_settings_gate EMPTY_GATE_CONFIG_def shouldCollectLinkedIssueEvidence_def
        mergeReadinessGateEnabled_def applyMergeReadinessGate_def gateCheckPolicy_def Let_def)
qed

text \<open>
  A mode under the \<open>settings:\<close> block of the same public file is in force on the live gate, and not read by the prediction.
\<close>

lemma settings_block_not_predicted:
  assumes "fm_gate manifest = EMPTY_GATE_CONFIG" "ms_linkedIssueGateMode (fm_settings manifest) = Some gate_block"
    and "pr_linkedIssues (synthetic_pr input (pf_linkedIssues
      (predicted_preflight env input (Some r) issues prs (nullish bounties []) quality))) = []"
  shows "pv_conclusion (buildPredictedGateVerdict env input manifest (Some r) issues prs bounties quality (Some True)) = gc_success"
    and "ge_conclusion (live_gate u n (public_settings name manifest) (Some r)
      (synthetic_pr input (pf_linkedIssues (predicted_preflight env input (Some r) issues prs (nullish bounties []) quality)))
      prs readiness (Some True) None history) = gc_failure"
proof -
  show "pv_conclusion (buildPredictedGateVerdict env input manifest (Some r) issues prs bounties quality (Some True)) = gc_success"
    using assms by (intro silent_prediction_passes) (simp_all add: EMPTY_GATE_CONFIG_def)
  show "ge_conclusion (live_gate u n (public_settings name manifest) (Some r)
      (synthetic_pr input (pf_linkedIssues (predicted_preflight env input (Some r) issues prs (nullish bounties []) quality)))
      prs readiness (Some True) None history) = gc_failure"
    by (rule missing_link_fails [OF assms(3)])
      (simp_all add: assms(1,2) public_settings_gate public_settings_raw EMPTY_GATE_CONFIG_def shouldCollectLinkedIssueEvidence_def
        applyMergeReadinessGate_def gateCheckPolicy_def Let_def)
qed

end
