(* ===== verification/Manifest_Config.thy ===== *)
theory Manifest_Config
  imports Focus_Manifest
begin

text \<open>
  What the configuration file does to the settings. The gate block and the settings block survive
  the snapshot they are cached in (\<open>gate_snapshot\<close>, \<open>settings_snapshot\<close>), so that a webhook served from the
  cache acts on the settings of the file; the lists of paths and notes survive only up to the white
  space a truncation leaves.
\<close>

section \<open>Fields of a written object\<close>

lemma jget_put_same:
  "jget (put_field k w v @ r) k = (case v of None \<Rightarrow> jget r k | Some x \<Rightarrow> w x)"
  by (cases v) (simp_all add: put_field_def jget_def)

lemma jget_put_other: "k \<noteq> k' \<Longrightarrow> jget (put_field k w v @ r) k' = jget r k'"
  by (cases v) (simp_all add: put_field_def jget_def)

lemma jget_put_end:
  "jget (put_field k w v) k' = (if k = k' then (case v of None \<Rightarrow> JUndefined | Some x \<Rightarrow> w x) else JUndefined)"
  by (cases v) (simp_all add: put_field_def jget_def)

definition object_json :: "(string \<times> json) list \<Rightarrow> json" where
  "object_json xs = (if xs = [] then JUndefined else JObject xs)"

lemma jget_object_same: "jget r k = JUndefined \<Longrightarrow> jget (put_object k xs @ r) k = object_json xs"
  by (simp add: put_object_def object_json_def) (simp add: jget_def)

lemma jget_object_other: "k \<noteq> k' \<Longrightarrow> jget (put_object k xs @ r) k' = jget r k'"
  by (simp add: put_object_def jget_def)

lemma jget_object_end: "jget (put_object k xs) k' = (if k = k' then object_json xs else JUndefined)"
  by (simp add: put_object_def jget_def object_json_def)

lemma jget_Nil [simp]: "jget [] k = JUndefined"
  by (simp add: jget_def)

lemmas jget_written = jget_put_same jget_put_other jget_put_end jget_object_same jget_object_other jget_object_end

lemma nested_written: "nested msg (object_json xs) = (xs, [])"
  by (simp add: nested_def absent_def object_json_def)

lemma named_self:
  assumes "inj name" "t \<in> set allowed"
  shows "named name allowed (JString (name t)) = Some t"
proof -
  obtain u where u: "List.find (\<lambda>u. name u = name t) allowed = Some u"
    using assms(2) by (cases "List.find (\<lambda>u. name u = name t) allowed") (auto simp: List_find_None_iff)
  with List_find_SomeD [OF u] assms(1) show ?thesis by (simp add: named_def inj_eq)
qed

lemma written_enum:
  assumes "inj name" "\<And>t. t \<in> set allowed"
  shows "normalizeOptionalEnum name (case v of None \<Rightarrow> JUndefined | Some t \<Rightarrow> JString (name t)) field allowed = (v, [])"
  using named_self [OF assms(1) assms(2)]
  by (cases v) (simp_all add: normalizeOptionalEnum_def absent_def)

lemma written_mode:
  "normalizeOptionalGateMode (case v of None \<Rightarrow> JUndefined | Some m \<Rightarrow> mode_json m) field = (v, [])"
  proof (cases v)
  case (Some m)
  then show ?thesis by (cases m) (simp_all add: normalizeOptionalGateMode_def absent_def mode_json_def named_def GATE_RULE_MODES_def)
qed (simp add: normalizeOptionalGateMode_def absent_def)

lemma written_bool: "normalizeOptionalBoolean (case v of None \<Rightarrow> JUndefined | Some b \<Rightarrow> JBool b) field = (v, [])"
  by (cases v) simp_all

definition score_ok :: "int option \<Rightarrow> bool" where
  "score_ok v \<longleftrightarrow> (case v of None \<Rightarrow> True | Some n \<Rightarrow> 0 \<le> n \<and> n \<le> 100)"

lemma written_score:
  "score_ok v \<Longrightarrow> normalizeOptionalScore (case v of None \<Rightarrow> JUndefined | Some n \<Rightarrow> score_json n) field = (v, [])"
  by (cases v) (simp_all add: score_ok_def score_json_def)

definition text_ok :: "string option \<Rightarrow> bool" where
  "text_ok v \<longleftrightarrow> (case v of None \<Rightarrow> True | Some s \<Rightarrow> s \<noteq> [] \<and> trim s = s)"

lemma written_text:
  "text_ok v \<Longrightarrow> normalizeOptionalString (case v of None \<Rightarrow> JUndefined | Some s \<Rightarrow> JString s) field = (v, [])"
  by (cases v) (simp_all add: text_ok_def normalizeOptionalString_def absent_def)

lemma trim_idem: "trim (trim s) = trim s"
proof -
  have d: "dropWhile is_ws (rev (dropWhile is_ws (rev t))) = rev (dropWhile is_ws (rev t))"
    if "t = [] \<or> \<not> is_ws (hd t)" for t :: string
  proof (cases "dropWhile is_ws (rev t)")
    case (Cons c u)
    then have "rev t = takeWhile is_ws (rev t) @ c # u" by (metis takeWhile_dropWhile_id)
    then have t: "t = rev u @ c # rev (takeWhile is_ws (rev t))" by (metis append.assoc append_Cons append_Nil rev.simps(2) rev_append rev_rev_ident)
    have "\<not> is_ws c" using Cons by (metis dropWhile_eq_Cons_conv)
    moreover have "hd (rev u @ [c]) = hd t" by (subst t) (simp add: hd_append)
    ultimately have "\<not> is_ws (hd (rev u @ [c]))" using that t by auto
    then show ?thesis using Cons by (cases "rev u") simp_all
  next
    case Nil
    then show ?thesis unfolding Nil by simp
  qed
  have "dropWhile is_ws s = [] \<or> \<not> is_ws (hd (dropWhile is_ws s))" by (metis hd_dropWhile)
  from d [OF this] show ?thesis by (simp add: trim_def dropWhile_idem)
qed

lemma parsed_text_ok: "text_ok (fst (normalizeOptionalString v field))"
  by (cases v) (simp_all add: normalizeOptionalString_def absent_def text_ok_def trim_idem)

lemma parsed_score_ok: "score_ok (fst (normalizeOptionalScore v field))"
  by (cases "(v, field)" rule: normalizeOptionalScore.cases) (simp_all add: score_ok_def)

section \<open>The gate block\<close>

definition gate_ok :: "FocusManifestGateConfig \<Rightarrow> bool" where
  "gate_ok g \<longleftrightarrow> gc_present g = gate_configured g \<and> score_ok (gc_readinessMinScore g) \<and> score_ok (gc_slopMinScore g)
     \<and> text_ok (gc_aiReviewModel g)"

lemma parsed_gate_ok: "gate_ok (fst (parseGateConfig v))"
proof (cases v)
  case (JObject r)
  then show ?thesis
    by (simp add: parse_gate_record_def Let_def gate_ok_def parsed_score_ok parsed_text_ok gate_configured_def)
qed (simp_all add: gate_ok_def EMPTY_GATE_CONFIG_def gate_configured_def score_ok_def text_ok_def)

lemma inj_names [simp]:
  "inj gate_pack_name" "inj provider_name" "inj comment_mode_name" "inj audience_mode_name" "inj signal_level_name"
  "inj enabled_mode_name" "inj detail_level_name" "inj surface_name" "inj source_text" "inj linked_policy_name"
  "inj discovery_policy_name"
  by (rule injI, case_tac x; case_tac y; simp)+

lemma gate_snapshot:
  assumes "gate_ok g"
  shows "parseGateConfig (gateConfigToJson g) = (g, [])"
proof (cases "gc_present g")
  case True
  have all: "t \<in> set [pack_gittensor, pack_oss_anti_slop]" "u \<in> set [provider_anthropic, provider_openai]" for t u
    by (cases t; simp) (cases u; simp)
  note enums = written_enum [OF inj_names(1) all(1)] written_enum [OF inj_names(2) all(2), folded provider_json_def]
  from assms True show ?thesis
    unfolding gateConfigToJson_def
    by (simp add: parse_gate_record_def Let_def jget_written nested_written enums written_mode written_bool written_score
        written_text gate_ok_def gate_configured_def cong: option.case_cong)
next
  case False
  with assms have "g = EMPTY_GATE_CONFIG"
    by (simp add: gate_ok_def gate_configured_def EMPTY_GATE_CONFIG_def)
  with False show ?thesis by (simp add: gateConfigToJson_def)
qed

section \<open>The settings block\<close>

definition maintain_ok :: "AutoMaintainPolicy option \<Rightarrow> bool" where
  "maintain_ok v \<longleftrightarrow> (case v of None \<Rightarrow> True
     | Some p \<Rightarrow> 0 \<le> am_requireApprovals p \<and> am_requireApprovals p \<le> MAX_REQUIRE_APPROVALS)"

definition autonomy_ok :: "AutonomyPolicy option \<Rightarrow> bool" where
  "autonomy_ok v \<longleftrightarrow> (case v of None \<Rightarrow> True | Some p \<Rightarrow> list_ex (\<lambda>c. p c \<noteq> None) AGENT_ACTION_CLASSES)"

definition settings_ok :: "FocusManifestSettings \<Rightarrow> bool" where
  "settings_ok s \<longleftrightarrow> score_ok (ms_qualityGateMinScore s) \<and> text_ok (ms_aiReviewModel s) \<and> text_ok (ms_gittensorLabel s)
     \<and> autonomy_ok (ms_autonomy s) \<and> maintain_ok (ms_autoMaintain s)"

lemma parsed_autonomy_ok: "autonomy_ok (settings_autonomy v)"
  by (simp add: autonomy_ok_def settings_autonomy_def Let_def)

lemma parsed_maintain_ok: "maintain_ok (settings_autoMaintain v)"
  by (cases v)
    (auto simp: maintain_ok_def settings_autoMaintain_def normalizeAutoMaintainPolicy_def DEFAULT_AUTO_MAINTAIN_POLICY_def
      MAX_REQUIRE_APPROVALS_def split: json.splits js_num.splits)

lemma parsed_settings_ok: "settings_ok (fst (parseSettingsOverride v))"
proof (cases v)
  case (JObject r)
  then show ?thesis
    by (simp add: parse_settings_record_def Let_def settings_ok_def parsed_score_ok parsed_text_ok parsed_autonomy_ok parsed_maintain_ok)
qed (simp_all add: settings_ok_def EMPTY_SETTINGS_def score_ok_def text_ok_def autonomy_ok_def maintain_ok_def)

lemma written_autonomy:
  "autonomy_ok v \<Longrightarrow> settings_autonomy (case v of None \<Rightarrow> JUndefined | Some p \<Rightarrow> policy_json p) = v"
  by (cases v) (simp_all add: autonomy_ok_def settings_autonomy_def Let_def normalizeAutonomyPolicy_json, simp add: policy_json_def)

lemma written_maintain:
  assumes "maintain_ok v"
  shows "settings_autoMaintain (case v of None \<Rightarrow> JUndefined | Some p \<Rightarrow> maintain_json p) = v"
proof (cases v)
  case (Some p)
  have "method_of_name (method_name m) = Some m" for m
    by (cases m) (simp_all add: method_of_name_def AUTO_MERGE_METHODS_def)
  with assms Some show ?thesis
    by (simp add: settings_autoMaintain_def maintain_json_def normalizeAutoMaintainPolicy_def jget_def maintain_ok_def)
qed (simp add: settings_autoMaintain_def)

lemma settings_snapshot:
  assumes "settings_ok s"
  shows "parseSettingsOverride (settingsOverrideToJson s) = (s, [])"
proof (cases "settings_configured s")
  case True
  have all: "t1 \<in> set [cm_off, cm_detected_contributors_only, cm_all_prs]" "t2 \<in> set [aud_oss_maintainer, aud_gittensor_only]"
    "t3 \<in> set [signal_minimal, signal_standard]" "t4 \<in> set [mode_off, mode_enabled]" "t5 \<in> set [Minimal, Standard, Deep]"
    "t6 \<in> set [provider_anthropic, provider_openai]"
    "t7 \<in> set [surface_off, surface_comment_and_label, surface_comment_only, surface_label_only]" for t1 t2 t3 t4 t5 t6 t7
    by ((cases t1; simp), (cases t2; simp), (cases t3; simp), (cases t4; simp), (cases t5; simp), (cases t6; simp), (cases t7; simp))
  note enums = written_enum [OF inj_names(3) all(1)] written_enum [OF inj_names(4) all(2)] written_enum [OF inj_names(5) all(3)]
    written_enum [OF inj_names(6) all(4)] written_enum [OF inj_names(7) all(5)]
    written_enum [OF inj_names(2) all(6), folded provider_json_def] written_enum [OF inj_names(8) all(7)]
  from assms True show ?thesis
    unfolding settingsOverrideToJson_def
    by (simp add: parse_settings_record_def Let_def jget_written enums written_mode written_bool written_score written_text
        written_autonomy written_maintain settings_ok_def cong: option.case_cong)
next
  case False
  then have "s = EMPTY_SETTINGS" by (simp add: settings_configured_def EMPTY_SETTINGS_def)
  with False show ?thesis by (simp add: settingsOverrideToJson_def)
qed

section \<open>Lists and texts\<close>

definition items_ok :: "string list \<Rightarrow> bool" where
  "items_ok xs \<longleftrightarrow> distinct xs \<and> length xs \<le> MAX_LIST_ITEMS \<and> list_all (\<lambda>s. s \<noteq> [] \<and> length s \<le> MAX_ITEM_LENGTH) xs"

definition trimmed_items :: "string list \<Rightarrow> bool" where
  "trimmed_items xs \<longleftrightarrow> list_all (\<lambda>s. trim s = s) xs"

lemma string_items_ok:
  "items_ok result \<Longrightarrow> length result < MAX_LIST_ITEMS \<Longrightarrow> items_ok (fst (string_items field result entries))"
proof (induction field result entries rule: string_items.induct)
  case (2 field result entry rest)
  let ?n = "if length (trim entry) > MAX_ITEM_LENGTH then take MAX_ITEM_LENGTH (trim entry) else trim entry"
  let ?r = "if ?n \<in> set result then result else result @ [?n]"
  show ?case
  proof (cases "trim entry = []")
    case False
    with 2(3,4) have r: "items_ok ?r" by (auto simp: items_ok_def MAX_ITEM_LENGTH_def)
    show ?thesis
    proof (cases "length ?r \<ge> MAX_LIST_ITEMS")
      case True
      with False r show ?thesis by (simp add: Let_def)
    next
      case less: False
      with 2(2) [OF refl False refl refl refl refl less r] False show ?thesis by (simp add: Let_def)
    qed
  qed (use 2 in simp)
qed (simp_all add: Let_def)

lemma items_ok_Nil: "items_ok []"
  by (simp add: items_ok_def)

lemma parsed_items_ok: "items_ok (fst (normalizeStringList v field))"
  using string_items_ok [OF items_ok_Nil] by (cases v) (simp_all add: items_ok_Nil MAX_LIST_ITEMS_def)

lemma string_items_again:
  "items_ok (result @ xs) \<Longrightarrow> trimmed_items xs \<Longrightarrow> fst (string_items field result (map JString xs)) = result @ xs"
proof (induction xs arbitrary: result)
  case (Cons s xs)
  then have s: "trim s = s" "s \<noteq> []" "length s \<le> MAX_ITEM_LENGTH" "s \<notin> set result"
    by (auto simp: items_ok_def trimmed_items_def)
  have len: "length (result @ s # xs) \<le> MAX_LIST_ITEMS" using Cons.prems(1) by (simp add: items_ok_def)
  show ?case
  proof (cases "length (result @ [s]) \<ge> MAX_LIST_ITEMS")
    case True
    with len have "xs = []" by (cases xs) simp_all
    with s True show ?thesis by simp
  next
    case False
    with s Cons.IH [of "result @ [s]"] Cons.prems show ?thesis by (simp add: trimmed_items_def)
  qed
qed simp

lemma strings_snapshot: "items_ok xs \<Longrightarrow> trimmed_items xs \<Longrightarrow> fst (normalizeStringList (strings_json xs) field) = xs"
  by (simp add: strings_json_def string_items_again)

lemma items_ok_filter: "items_ok xs \<Longrightarrow> items_ok (filter P xs)"
  by (auto simp: items_ok_def list_all_iff intro: order_trans [OF length_filter_le])

definition note_ok :: "string option \<Rightarrow> bool" where
  "note_ok v \<longleftrightarrow> (case v of None \<Rightarrow> True
     | Some s \<Rightarrow> s \<noteq> [] \<and> length s \<le> MAX_ITEM_LENGTH \<and> isFocusManifestPublicSafe s)"

definition trimmed_note :: "string option \<Rightarrow> bool" where
  "trimmed_note v \<longleftrightarrow> (case v of None \<Rightarrow> True | Some s \<Rightarrow> trim s = s)"

lemma parsed_note_ok: "note_ok (fst (parsePublicSafeText v field))"
  using parsed_text_ok [of v field]
  by (auto simp: parsePublicSafeText_def Let_def note_ok_def text_ok_def MAX_ITEM_LENGTH_def split: option.splits)

lemma written_note:
  "note_ok v \<Longrightarrow> trimmed_note v \<Longrightarrow> fst (parsePublicSafeText (case v of None \<Rightarrow> JUndefined | Some s \<Rightarrow> JString s) field) = v"
  by (cases v) (simp_all add: parsePublicSafeText_def normalizeOptionalString_def absent_def note_ok_def trimmed_note_def)

lemma inj_review_field_name: "review_field_name k = review_field_name l \<longleftrightarrow> k = l"
  by (cases k; cases l) simp_all

definition flags_json :: "(ReviewFieldKey \<times> bool) list \<Rightarrow> (string \<times> json) list" where
  "flags_json flags = map (\<lambda>f. (review_field_name (fst f), JBool (snd f))) flags"

lemma jget_flags: "jget (flags_json flags) (review_field_name k) = (case map_of flags k of None \<Rightarrow> JUndefined | Some b \<Rightarrow> JBool b)"
  by (induction flags) (auto simp: flags_json_def jget_def inj_review_field_name split: option.splits)

lemma flags_parsed:
  "fst (parse_review_fields r keys) = List.map_filter (\<lambda>k. map_option (Pair k) (fst (normalizeOptionalBoolean
     (jget r (review_field_name k)) (''review.fields.'' @ review_field_name k)))) keys"
  by (induction keys) (auto simp: Let_def List.map_filter_simps split: option.splits)

lemma map_of_flags:
  "distinct keys \<Longrightarrow> map_of (List.map_filter (\<lambda>k. map_option (Pair k) (f k)) keys) k = (if k \<in> set keys then f k else None)"
  by (induction keys) (auto simp: List.map_filter_simps split: option.splits)

lemma flags_snapshot:
  assumes "flags = fst (parse_review_fields r REVIEW_FIELD_KEYS)"
  shows "fst (parse_review_fields (flags_json flags) REVIEW_FIELD_KEYS) = flags"
proof -
  let ?f = "\<lambda>k. fst (normalizeOptionalBoolean (jget r (review_field_name k)) (''review.fields.'' @ review_field_name k))"
  have keys: "distinct REVIEW_FIELD_KEYS" "k \<in> set REVIEW_FIELD_KEYS" for k
    by (simp add: REVIEW_FIELD_KEYS_def) (cases k; simp add: REVIEW_FIELD_KEYS_def)
  have flags: "flags = List.map_filter (\<lambda>k. map_option (Pair k) (?f k)) REVIEW_FIELD_KEYS" unfolding assms flags_parsed ..
  have "map_of flags k = ?f k" for k unfolding flags map_of_flags [OF keys(1)] using keys(2) by simp
  then have "fst (normalizeOptionalBoolean (jget (flags_json flags) (review_field_name k)) fld) = ?f k" for k fld
    unfolding jget_flags by (simp only: written_bool fst_conv)
  then show ?thesis unfolding flags_parsed by (simp add: flags)
qed

section \<open>The review block\<close>

definition review_ok :: "FocusManifestReviewConfig \<Rightarrow> bool" where
  "review_ok c \<longleftrightarrow> rc_present c = (rc_footerText c \<noteq> None \<or> rc_note c \<noteq> None \<or> rc_fields c \<noteq> [])
     \<and> note_ok (rc_footerText c) \<and> note_ok (rc_note c)
     \<and> fst (parse_review_fields (flags_json (rc_fields c)) REVIEW_FIELD_KEYS) = rc_fields c"

lemma parsed_review_ok: "review_ok (fst (parseReviewConfig v))"
proof (cases v)
  case (JObject r)
  then show ?thesis by (simp add: parse_review_record_def Let_def review_ok_def parsed_note_ok flags_snapshot)
qed (simp_all add: review_ok_def EMPTY_REVIEW_def note_ok_def flags_json_def REVIEW_FIELD_KEYS_def)

lemma footer_written:
  "fst (nested msg (case v of None \<Rightarrow> JUndefined | Some t \<Rightarrow> JObject [(''text'', JString t)]))
     = (case v of None \<Rightarrow> [] | Some t \<Rightarrow> [(''text'', JString t)])"
  by (cases v) (simp_all add: nested_def)

lemma jget_footer:
  "jget (case v of None \<Rightarrow> [] | Some t \<Rightarrow> [(''text'', JString t)]) ''text'' = (case v of None \<Rightarrow> JUndefined | Some t \<Rightarrow> JString t)"
  by (cases v) (simp_all add: jget_def)

lemma review_snapshot:
  assumes "review_ok c" "trimmed_note (rc_footerText c)" "trimmed_note (rc_note c)"
  shows "fst (parseReviewConfig (reviewConfigToJson c)) = c"
proof (cases "rc_present c")
  case True
  from assms True show ?thesis
    unfolding reviewConfigToJson_def
    by (simp add: parse_review_record_def Let_def jget_written nested_written footer_written jget_footer written_note
        flags_json_def [symmetric] review_ok_def cong: option.case_cong)
next
  case False
  with assms(1) show ?thesis by (simp add: reviewConfigToJson_def EMPTY_REVIEW_def review_ok_def)
qed

section \<open>The manifest\<close>

lemma manifest_fields:
  "fm_gate (parse_manifest_record r src) = fst (parseGateConfig (jget r ''gate''))"
  "fm_settings (parse_manifest_record r src) = fst (parseSettingsOverride (jget r ''settings''))"
  "fm_review (parse_manifest_record r src) = fst (parseReviewConfig (jget r ''review''))"
  "fm_source (parse_manifest_record r src) = fst (normalizeSource src (jget r ''source''))"
  "fm_wantedPaths (parse_manifest_record r src) = fst (normalizeStringList (jget r ''wantedPaths'') ''wantedPaths'')"
  "fm_blockedPaths (parse_manifest_record r src) = fst (normalizeStringList (jget r ''blockedPaths'') ''blockedPaths'')"
  "fm_preferredLabels (parse_manifest_record r src) = fst (normalizeStringList (jget r ''preferredLabels'') ''preferredLabels'')"
  "fm_testExpectations (parse_manifest_record r src) = fst (normalizeStringList (jget r ''testExpectations'') ''testExpectations'')"
  "fm_maintainerNotes (parse_manifest_record r src) = fst (normalizeStringList (jget r ''maintainerNotes'') ''maintainerNotes'')"
  "fm_publicNotes (parse_manifest_record r src) =
     filter isFocusManifestPublicSafe (fst (normalizeStringList (jget r ''publicNotes'') ''publicNotes''))"
  "fm_linkedIssuePolicy (parse_manifest_record r src) = fst (normalizeEnum linked_policy_name (jget r ''linkedIssuePolicy'')
     ''linkedIssuePolicy'' [lip_required, lip_preferred, lip_optional] lip_optional)"
  "fm_issueDiscoveryPolicy (parse_manifest_record r src) = fst (normalizeEnum discovery_policy_name (jget r ''issueDiscoveryPolicy'')
     ''issueDiscoveryPolicy'' [idp_encouraged, idp_neutral, idp_discouraged] idp_neutral)"
  by (simp_all add: parse_manifest_record_def Let_def)

lemma parsed_config_ok:
  "gate_ok (fm_gate (parseFocusManifest raw src))" "settings_ok (fm_settings (parseFocusManifest raw src))"
  "review_ok (fm_review (parseFocusManifest raw src))"
  using parsed_gate_ok [of JUndefined] parsed_settings_ok [of JUndefined] parsed_review_ok [of JUndefined]
  by (cases raw; simp add: manifest_fields parsed_gate_ok parsed_settings_ok parsed_review_ok emptyManifest_def)+

text \<open>
  C33: the cache does not change the configuration. The settings a repository acts on are the same whether
  its configuration document was just parsed or is read back from the snapshot it was cached in,
  for every document, every declared source and every settings row.
\<close>

theorem cached_settings_exact:
  "resolveEffectiveSettings db (parseFocusManifest (manifestToJson (parseFocusManifest raw src)) src')
     = resolveEffectiveSettings db (parseFocusManifest raw src)"
proof -
  let ?m = "parseFocusManifest raw src"
  have "fm_gate (parseFocusManifest (manifestToJson ?m) src') = fm_gate ?m"
    by (simp add: manifestToJson_def manifest_fields jget_def gate_snapshot parsed_config_ok)
  moreover have "fm_settings (parseFocusManifest (manifestToJson ?m) src') = fm_settings ?m"
    by (simp add: manifestToJson_def manifest_fields jget_def settings_snapshot parsed_config_ok)
  ultimately show ?thesis by (simp add: resolveEffectiveSettings_def)
qed

text \<open>A manifest no entry of which ends in white space: what a parse gives unless it cut an entry at a space.\<close>

definition manifest_trimmed :: "FocusManifest \<Rightarrow> bool" where
  "manifest_trimmed m \<longleftrightarrow> trimmed_items (fm_wantedPaths m) \<and> trimmed_items (fm_blockedPaths m)
     \<and> trimmed_items (fm_preferredLabels m) \<and> trimmed_items (fm_testExpectations m)
     \<and> trimmed_items (fm_maintainerNotes m) \<and> trimmed_items (fm_publicNotes m)
     \<and> trimmed_note (rc_footerText (fm_review m)) \<and> trimmed_note (rc_note (fm_review m))"

definition manifest_ok :: "FocusManifest \<Rightarrow> bool" where
  "manifest_ok m \<longleftrightarrow> items_ok (fm_wantedPaths m) \<and> items_ok (fm_blockedPaths m) \<and> items_ok (fm_preferredLabels m)
     \<and> items_ok (fm_testExpectations m) \<and> items_ok (fm_maintainerNotes m) \<and> items_ok (fm_publicNotes m)
     \<and> list_all isFocusManifestPublicSafe (fm_publicNotes m)
     \<and> gate_ok (fm_gate m) \<and> settings_ok (fm_settings m) \<and> review_ok (fm_review m)
     \<and> fm_present m = manifest_recognized m"

lemma manifest_recognized_flags [simp]:
  "manifest_recognized (m\<lparr>fm_present := b\<rparr>) = manifest_recognized m"
  "manifest_recognized (m\<lparr>fm_warnings := w\<rparr>) = manifest_recognized m"
  by (simp_all add: manifest_recognized_def)

lemma record_present: "fm_present (parse_manifest_record r src) = manifest_recognized (parse_manifest_record r src)"
  unfolding parse_manifest_record_def Let_def
  by (simp split: if_split) (simp add: manifest_recognized_def)

lemma parsed_manifest_ok: "manifest_ok (parseFocusManifest raw src)"
proof (cases raw)
  case (JObject r)
  have "list_all isFocusManifestPublicSafe (filter isFocusManifestPublicSafe xs)" for xs by (simp add: list_all_iff)
  then show ?thesis using JObject parsed_config_ok [of raw src]
    by (simp add: manifest_ok_def record_present manifest_fields parsed_items_ok items_ok_filter)
qed (use parsed_config_ok [of raw src] in
    \<open>simp_all add: manifest_ok_def emptyManifest_def items_ok_Nil manifest_recognized_def EMPTY_GATE_CONFIG_def EMPTY_REVIEW_def
      settings_configured_def EMPTY_SETTINGS_def\<close>)

lemma enum_snapshot:
  assumes "inj name" "t \<in> set allowed"
  shows "fst (normalizeEnum name (JString (name t)) field allowed fallback) = t"
  by (simp add: normalizeEnum_def absent_def named_self [OF assms])

lemma source_snapshot: "fst (normalizeSource None (JString (source_text s))) = s"
  by (cases s) (simp_all add: normalizeSource_def normalizeEnum_def absent_def named_def)

lemma policy_snapshot:
  "fst (normalizeEnum linked_policy_name (JString (linked_policy_name l)) field [lip_required, lip_preferred, lip_optional] lip_optional) = l"
  "fst (normalizeEnum discovery_policy_name (JString (discovery_policy_name d)) field
     [idp_encouraged, idp_neutral, idp_discouraged] idp_neutral) = d"
  by (cases l; simp add: normalizeEnum_def absent_def named_def) (cases d; simp add: normalizeEnum_def absent_def named_def)

lemma filter_all: "list_all P xs \<Longrightarrow> filter P xs = xs"
  by (induction xs) simp_all

lemma manifest_eqI:
  fixes m n :: FocusManifest
  assumes "fm_source m = fm_source n" "fm_wantedPaths m = fm_wantedPaths n" "fm_blockedPaths m = fm_blockedPaths n"
    "fm_preferredLabels m = fm_preferredLabels n" "fm_linkedIssuePolicy m = fm_linkedIssuePolicy n"
    "fm_testExpectations m = fm_testExpectations n" "fm_issueDiscoveryPolicy m = fm_issueDiscoveryPolicy n"
    "fm_maintainerNotes m = fm_maintainerNotes n" "fm_publicNotes m = fm_publicNotes n" "fm_gate m = fm_gate n"
    "fm_settings m = fm_settings n" "fm_review m = fm_review n" "fm_present m = manifest_recognized m"
    "fm_present n = manifest_recognized n"
  shows "m\<lparr>fm_warnings := w\<rparr> = n\<lparr>fm_warnings := w\<rparr>"
  using assms by (cases m; cases n) (simp add: manifest_recognized_def)

text \<open>
  A manifest survives its snapshot. Whatever document it was parsed from, the manifest read back from
  the stored payload is the same in every field but the warnings, provided no entry that was cut at
  300 characters ends in white space.
\<close>

theorem manifest_snapshot_round_trip:
  assumes "manifest_trimmed (parseFocusManifest raw src)"
  shows "(parseFocusManifest (manifestToJson (parseFocusManifest raw src)) None)\<lparr>fm_warnings := w\<rparr>
     = (parseFocusManifest raw src)\<lparr>fm_warnings := w\<rparr>"
proof (rule manifest_eqI)
  let ?m = "parseFocusManifest raw src"
  note ok = parsed_manifest_ok [of raw src, unfolded manifest_ok_def] and trimmed = assms [unfolded manifest_trimmed_def]
  note fields = manifestToJson_def parseFocusManifest.simps(1) manifest_fields jget_def
  show "fm_present (parseFocusManifest (manifestToJson ?m) None) = manifest_recognized (parseFocusManifest (manifestToJson ?m) None)"
    by (simp add: manifestToJson_def record_present)
qed (use parsed_manifest_ok [of raw src] assms in
  \<open>simp_all add: manifestToJson_def manifest_fields jget_def source_snapshot policy_snapshot strings_snapshot gate_snapshot
     settings_snapshot review_snapshot filter_all manifest_ok_def manifest_trimmed_def\<close>)

theorem manifest_snapshot_round_trip_witness:
  "(parseFocusManifest (manifestToJson (parseFocusManifest (JObject [(''wantedPaths'', JArray [JString ''src/ '', JString ''src/''])]) None)) None)
       \<lparr>fm_warnings := []\<rparr>
     = (parseFocusManifest (JObject [(''wantedPaths'', JArray [JString ''src/ '', JString ''src/''])]) None)\<lparr>fm_warnings := []\<rparr>"
  by (rule manifest_snapshot_round_trip) code_simp

end
