(* ===== verification/Manifest_Guidance.thy ===== *)
theory Manifest_Guidance
  imports Manifest_Config Guardrail
begin

text \<open>
  What contributors and maintainers are told from a manifest: the matching of changed paths against
  its patterns, the guidance on a change set, the compiled policy and the contribution lanes of
  \<open>signals/focus-manifest.ts\<close>. Every text of the public half of the policy and every public next step
  passes the redaction guard.
\<close>

section \<open>Path patterns\<close>

definition normalizePathForMatch :: "string \<Rightarrow> string" where
  "normalizePathForMatch path =
     (let slashed = map (\<lambda>c. if c = CHR 0x5C then CHR ''/'' else c) path;
          relative = (if startsWith slashed ''./'' then drop 2 slashed else slashed)
      in toLowerCase (dropWhile (\<lambda>c. c = CHR ''/'') relative))"

text \<open>The regular expression of a pattern with wildcards: a run of stars is \<open>.*\<close>, any other character is itself.\<close>

fun wildcard_parts :: "string \<Rightarrow> rx list" where
  "wildcard_parts [] = []"
| "wildcard_parts (c # p) =
     (if c = CHR ''*''
      then (if p \<noteq> [] \<and> hd p = CHR ''*'' then wildcard_parts p else Many Dot # wildcard_parts p)
      else Oneof [One c] # wildcard_parts p)"

definition compileManifestPathMatcher :: "string \<Rightarrow> string \<Rightarrow> bool" where
  "compileManifestPathMatcher pattern =
     (let normalizedPattern = normalizePathForMatch pattern
      in if normalizedPattern = [] then (\<lambda>path. False)
         else if CHR ''*'' \<in> set normalizedPattern then rx_test (Cat Bol (Cat (foldr Cat (wildcard_parts normalizedPattern) Empty) Eol))
         else
           (let dirPattern = (if endsWith normalizedPattern ''/'' then normalizedPattern else normalizedPattern @ ''/'')
            in (\<lambda>path. path = normalizedPattern \<or> startsWith path dirPattern)))"

definition matchesManifestPath :: "string \<Rightarrow> string \<Rightarrow> bool" where
  "matchesManifestPath path pattern =
     (let normalizedPath = normalizePathForMatch path
      in normalizedPath \<noteq> [] \<and> compileManifestPathMatcher pattern normalizedPath)"

definition matchedPatterns :: "string list \<Rightarrow> string list \<Rightarrow> string list" where
  "matchedPatterns paths patterns =
     (let normalizedPaths = filter (\<lambda>p. p \<noteq> []) (map normalizePathForMatch paths)
      in filter (\<lambda>pattern. list_ex (compileManifestPathMatcher pattern) normalizedPaths) patterns)"

section \<open>Guidance on a change set\<close>

datatype FindingCode =
  fc_manifest_blocked_path | fc_manifest_off_focus | fc_manifest_preferred_path | fc_manifest_missing_preferred_label
  | fc_manifest_linked_issue_required | fc_manifest_linked_issue_preferred | fc_manifest_missing_tests
  | fc_manifest_issue_discovery_discouraged | fc_manifest_malformed

datatype FindingLevel = fl_info | fl_warning | fl_critical

record FocusManifestFinding =
  ff_code :: FindingCode
  ff_severity :: FindingLevel
  ff_title :: string
  ff_detail :: string
  ff_action :: "string option"

record FocusManifestGuidance =
  fg_present :: bool
  fg_source :: FocusManifestSource
  fg_linkedIssuePolicy :: LinkedIssuePolicy
  fg_issueDiscoveryPolicy :: IssueDiscoveryPolicy
  fg_matchedWantedPaths :: "string list"
  fg_matchedBlockedPaths :: "string list"
  fg_preferredLabelHits :: "string list"
  fg_findings :: "FocusManifestFinding list"
  fg_publicNextSteps :: "string list"
  fg_warnings :: "string list"
  fg_summary :: string

definition summarize :: "FocusManifest \<Rightarrow> string list \<Rightarrow> string list \<Rightarrow> string" where
  "summarize manifest blocked wanted =
     (if blocked \<noteq> [] then ''Maintainer focus manifest: change touches a blocked area.''
      else if wanted \<noteq> [] then ''Maintainer focus manifest: change aligns with a wanted area.''
      else if fm_wantedPaths manifest \<noteq> [] then ''Maintainer focus manifest: change is outside the wanted areas.''
      else ''Maintainer focus manifest applied with no path-specific verdict.'')"

text \<open>A rule that fires adds its finding and its next step.\<close>

definition rule_fires :: "bool \<Rightarrow> FindingCode \<Rightarrow> FindingLevel \<Rightarrow> string \<Rightarrow> string \<Rightarrow> string option \<Rightarrow> string
    \<Rightarrow> (FocusManifestFinding \<times> string) list" where
  "rule_fires cond code severity title detail action step =
     (if cond then [(\<lparr>ff_code = code, ff_severity = severity, ff_title = title, ff_detail = detail, ff_action = action\<rparr>, step)]
      else [])"

definition guidance_rules :: "FocusManifest \<Rightarrow> string list \<Rightarrow> string list \<Rightarrow> string list \<Rightarrow> string list \<Rightarrow> nat \<Rightarrow> nat \<Rightarrow> nat
    \<Rightarrow> (FocusManifestFinding \<times> string) list" where
  "guidance_rules m changedPaths blocked wanted labelHits linkedIssueCount testFileCount passedValidationCount =
     rule_fires (blocked \<noteq> []) fc_manifest_blocked_path fl_critical ''Change touches a maintainer-blocked area''
       (''Changed paths match maintainer-blocked patterns: '' @ join '', '' (take 5 blocked) @ ''.'')
       (Some ''Move this work out of the maintainer-blocked area or confirm with the maintainer before opening a PR.'')
       ''Avoid the maintainer-blocked areas this branch currently touches; confirm scope with the maintainer first.''
     @ rule_fires (blocked = [] \<and> fm_wantedPaths m \<noteq> [] \<and> wanted = [] \<and> changedPaths \<noteq> []) fc_manifest_off_focus fl_warning
       ''Change is outside maintainer-wanted areas''
       (''No changed path matches the maintainer-wanted patterns ('' @ join '', '' (take 5 (fm_wantedPaths m)) @ '').'')
       (Some ''Refocus the change onto a maintainer-wanted area or explain why this out-of-focus work is needed.'')
       ''Refocus onto the maintainer-wanted areas, or explain why this out-of-focus change is needed.''
     @ rule_fires (wanted \<noteq> []) fc_manifest_preferred_path fl_info ''Change aligns with maintainer-wanted areas''
       (''Changed paths match maintainer-wanted patterns: '' @ join '', '' (take 5 wanted) @ ''.'') None
       (''Changed paths align with the maintainer'' @ [CHR 0x27] @ ''s wanted areas for this repo.'')
     @ rule_fires (fm_preferredLabels m \<noteq> [] \<and> labelHits = []) fc_manifest_missing_preferred_label fl_info
       ''No maintainer-preferred label applied''
       (''Maintainer prefers labels: '' @ join '', '' (take 5 (fm_preferredLabels m)) @ ''.'')
       (Some ''Consider applying a maintainer-preferred label so triage stays aligned.'')
       (''Consider a maintainer-preferred label ('' @ join '', '' (take 3 (fm_preferredLabels m)) @ '').'')
     @ rule_fires (fm_linkedIssuePolicy m = lip_required \<and> linkedIssueCount = 0) fc_manifest_linked_issue_required fl_warning
       ''Maintainer requires a linked issue''
       (''This repo'' @ [CHR 0x27] @ ''s maintainer focus manifest requires every PR to reference a tracked issue.'')
       (Some (''Link the relevant issue (for example '' @ [CHR 0x60] @ ''Closes #123'' @ [CHR 0x60] @ '') before opening the PR.''))
       ''Link the relevant tracked issue; the maintainer requires linked issues on PRs.''
     @ rule_fires (fm_linkedIssuePolicy m = lip_preferred \<and> linkedIssueCount = 0) fc_manifest_linked_issue_preferred fl_info
       ''Maintainer prefers a linked issue''
       (''This repo'' @ [CHR 0x27] @ ''s maintainer focus manifest prefers PRs to reference a tracked issue.'')
       (Some ''Link a tracked issue if one exists.'')
       ''Link a tracked issue if one exists; the maintainer prefers linked issues.''
     @ rule_fires (fm_testExpectations m \<noteq> [] \<and> testFileCount = 0 \<and> passedValidationCount = 0) fc_manifest_missing_tests fl_warning
       ''Maintainer test expectations unmet''
       (''Maintainer expects test evidence: '' @ join ''; '' (take 3 (fm_testExpectations m)) @ ''.'')
       (Some (''Add or update tests, or attach passing validation output that satisfies the maintainer'' @ [CHR 0x27] @ ''s test expectations.''))
       (''Add tests or attach passing validation that meets the maintainer'' @ [CHR 0x27] @ ''s test expectations.'')
     @ rule_fires (fm_issueDiscoveryPolicy m = idp_discouraged) fc_manifest_issue_discovery_discouraged fl_info
       ''Maintainer discourages issue-discovery reports''
       (''This repo'' @ [CHR 0x27] @ ''s maintainer focus manifest discourages new issue-discovery reports; prefer direct fixes.'')
       (Some ''Prefer a direct PR over filing a new issue-discovery report here.'')
       ''This repo prefers direct fixes over new issue-discovery reports.''"

text \<open>The counts are \<open>Math.max(0, count ?? 0)\<close>; a missing label list is empty.\<close>

definition buildFocusManifestGuidance ::
    "FocusManifest \<Rightarrow> string list \<Rightarrow> string list option \<Rightarrow> int option \<Rightarrow> int option \<Rightarrow> int option \<Rightarrow> FocusManifestGuidance" where
  "buildFocusManifestGuidance m paths labelList linkedIssues testFiles passedValidations =
     (let changedPaths = filter (\<lambda>p. p \<noteq> []) paths;
          labels = map toLowerCase (nullish labelList []);
          blocked = matchedPatterns changedPaths (fm_blockedPaths m);
          wanted = matchedPatterns changedPaths (fm_wantedPaths m);
          hits = filter (\<lambda>l. toLowerCase l \<in> set labels) (fm_preferredLabels m);
          rules = guidance_rules m changedPaths blocked wanted hits (nat (nullish linkedIssues 0)) (nat (nullish testFiles 0))
            (nat (nullish passedValidations 0))
      in if \<not> fm_present m
         then \<lparr>fg_present = False, fg_source = fm_source m, fg_linkedIssuePolicy = fm_linkedIssuePolicy m,
                fg_issueDiscoveryPolicy = fm_issueDiscoveryPolicy m, fg_matchedWantedPaths = [], fg_matchedBlockedPaths = [],
                fg_preferredLabelHits = [],
                fg_findings = map (\<lambda>w. \<lparr>ff_code = fc_manifest_malformed, ff_severity = fl_info,
                    ff_title = ''Maintainer focus manifest not applied'', ff_detail = w, ff_action = None\<rparr>) (fm_warnings m),
                fg_publicNextSteps = [], fg_warnings = fm_warnings m,
                fg_summary = ''No maintainer focus manifest applied; using deterministic signals only.''\<rparr>
         else \<lparr>fg_present = True, fg_source = fm_source m, fg_linkedIssuePolicy = fm_linkedIssuePolicy m,
                fg_issueDiscoveryPolicy = fm_issueDiscoveryPolicy m, fg_matchedWantedPaths = wanted,
                fg_matchedBlockedPaths = blocked, fg_preferredLabelHits = hits, fg_findings = map fst rules,
                fg_publicNextSteps = filter isFocusManifestPublicSafe
                  (dedupe (map snd rules @ filter isFocusManifestPublicSafe (fm_publicNotes m))),
                fg_warnings = fm_warnings m, fg_summary = summarize m blocked wanted\<rparr>)"

section \<open>The compiled policy\<close>

datatype LanePreference = lane_preferred | lane_neutral | lane_discouraged

record PolicyContributionLane =
  pcl_id :: string
  pcl_preference :: LanePreference
  pcl_title :: string
  pcl_summary :: string
  pcl_preferredPaths :: "string list"
  pcl_discouragedPaths :: "string list"
  pcl_validationExpectations :: "string list"
  pcl_publicNotes :: "string list"

record PublicPolicy =
  pp_contributionLanes :: "PolicyContributionLane list"
  pp_preferredLabels :: "string list"
  pp_labelRequired :: bool
  pp_expectations :: "string list"
  pp_linkedIssuePolicy :: LinkedIssuePolicy
  pp_issueDiscoveryPolicy :: IssueDiscoveryPolicy
  pp_publicNotes :: "string list"
  pp_readinessWarnings :: "string list"
  pp_entryGuidance :: "string list"
  pp_summary :: string

record AuthenticatedPolicy =
  ap_manifestSource :: FocusManifestSource
  ap_privateNoteCount :: nat
  ap_manifestWarningCount :: nat
  ap_parseWarnings :: "string list"
  ap_readinessWarnings :: "string list"
  ap_maintainerContext :: "string list"

record FocusManifestPolicy =
  fp_repoFullName :: string
  fp_generatedAt :: string
  fp_source :: FocusManifestSource
  fp_present :: bool
  fp_publicSafe :: PublicPolicy
  fp_authenticated :: AuthenticatedPolicy

abbreviation safe :: "string list \<Rightarrow> string list" where
  "safe \<equiv> filter isFocusManifestPublicSafe"

definition buildPolicyEntryGuidance :: "FocusManifest \<Rightarrow> string list" where
  "buildPolicyEntryGuidance m = safe (dedupe
     ((if fm_wantedPaths m \<noteq> []
       then [''Focus changes on maintainer-wanted areas: '' @ join '', '' (take 5 (fm_wantedPaths m)) @ ''.''] else [])
      @ (if fm_blockedPaths m \<noteq> []
         then [''Avoid maintainer-blocked areas: '' @ join '', '' (take 5 (fm_blockedPaths m)) @ ''.''] else [])
      @ (case fm_linkedIssuePolicy m of
           lip_required \<Rightarrow> [''Link a tracked issue before opening a pull request.'']
         | lip_preferred \<Rightarrow> [''Linking a tracked issue is preferred before opening a pull request.'']
         | lip_optional \<Rightarrow> [])
      @ (if safe (fm_preferredLabels m) \<noteq> []
         then [''Apply a maintainer-preferred label: '' @ join '', '' (take 3 (safe (fm_preferredLabels m))) @ ''.''] else [])
      @ safe (fm_publicNotes m)))"

definition buildPolicySummary :: "FocusManifest \<Rightarrow> string" where
  "buildPolicySummary m =
     (if \<not> fm_present m then ''No maintainer focus manifest; contribution guidance is not constrained.''
      else if fm_issueDiscoveryPolicy m = idp_encouraged then ''Issue-discovery is the preferred contribution mode for this repo.''
      else if fm_issueDiscoveryPolicy m = idp_discouraged
        then ''Direct PRs are preferred; issue-discovery submissions are discouraged.''
      else if fm_wantedPaths m \<noteq> [] then ''Direct PRs on the maintainer-wanted areas are preferred.''
      else ''Contribution guidance is derived from the maintainer focus manifest.'')"

definition issue_lane_preference :: "FocusManifest \<Rightarrow> LanePreference" where
  "issue_lane_preference m =
     (case fm_issueDiscoveryPolicy m of idp_encouraged \<Rightarrow> lane_preferred | idp_discouraged \<Rightarrow> lane_discouraged
      | idp_neutral \<Rightarrow> lane_neutral)"

definition buildPolicyContributionLanes :: "FocusManifest \<Rightarrow> PolicyContributionLane list" where
  "buildPolicyContributionLanes m =
     (if \<not> fm_present m then []
      else
        (let safeWantedPaths = safe (fm_wantedPaths m);
             safeBlockedPaths = safe (fm_blockedPaths m);
             direct = (if fm_issueDiscoveryPolicy m = idp_encouraged then lane_discouraged
               else if safeWantedPaths \<noteq> [] \<or> fm_testExpectations m \<noteq> [] then lane_preferred else lane_neutral);
             issues = issue_lane_preference m
         in [\<lparr>pcl_id = ''direct-pr'', pcl_preference = direct, pcl_title = ''Direct pull request lane'',
              pcl_summary = (case direct of
                  lane_discouraged \<Rightarrow> ''Direct pull requests are discouraged; issue discovery is the preferred entry mode.''
                | lane_preferred \<Rightarrow> ''Contribute changes in maintainer-wanted areas with required validation evidence.''
                | lane_neutral \<Rightarrow> ''Direct pull requests are accepted when they stay inside maintainer-wanted scope.''),
              pcl_preferredPaths = safeWantedPaths, pcl_discouragedPaths = safeBlockedPaths,
              pcl_validationExpectations = safe (fm_testExpectations m), pcl_publicNotes = safe (fm_publicNotes m)\<rparr>,
             \<lparr>pcl_id = ''issue-discovery'', pcl_preference = issues, pcl_title = ''Issue discovery lane'',
              pcl_summary = (case issues of
                  lane_preferred \<Rightarrow> ''File well-scoped issue reports that the maintainer has indicated are welcome.''
                | lane_discouraged \<Rightarrow> ''The maintainer has indicated this repo prefers direct fixes over new issue reports.''
                | lane_neutral \<Rightarrow> ''Issue discovery is optional; confirm maintainer scope before filing new issues.''),
              pcl_preferredPaths = [], pcl_discouragedPaths = safeBlockedPaths, pcl_validationExpectations = [],
              pcl_publicNotes = []\<rparr>]))"

definition buildPolicyReadinessWarnings :: "FocusManifest \<Rightarrow> string list" where
  "buildPolicyReadinessWarnings m =
     (if \<not> fm_present m then []
      else safe
        ((if fm_wantedPaths m = [] \<and> fm_preferredLabels m = []
          then [''Focus manifest does not define wanted paths or preferred labels; contribution scope may be unclear to contributors.'']
          else [])
         @ (if fm_testExpectations m = []
            then [''Focus manifest does not define validation expectations; contributors may not know what tests to run.''] else [])
         @ (if fm_blockedPaths m \<noteq> [] \<and> fm_wantedPaths m = []
            then [''Focus manifest blocks work areas but does not define wanted paths; pair blocked areas with a positive lane.'']
            else [])))"

text \<open>The manifest is passed with or without the name of the repository, which is then empty.\<close>

definition compileFocusManifestPolicy :: "string option \<Rightarrow> FocusManifest \<Rightarrow> string \<Rightarrow> FocusManifestPolicy" where
  "compileFocusManifestPolicy repoFullName m generatedAt =
     \<lparr>fp_repoFullName = nullish repoFullName [], fp_generatedAt = generatedAt, fp_source = fm_source m,
      fp_present = fm_present m,
      fp_publicSafe =
        \<lparr>pp_contributionLanes = buildPolicyContributionLanes m, pp_preferredLabels = safe (fm_preferredLabels m),
         pp_labelRequired = (fm_linkedIssuePolicy m \<noteq> lip_optional), pp_expectations = safe (fm_testExpectations m),
         pp_linkedIssuePolicy = fm_linkedIssuePolicy m, pp_issueDiscoveryPolicy = fm_issueDiscoveryPolicy m,
         pp_publicNotes = safe (fm_publicNotes m), pp_readinessWarnings = buildPolicyReadinessWarnings m,
         pp_entryGuidance = buildPolicyEntryGuidance m, pp_summary = buildPolicySummary m\<rparr>,
      fp_authenticated =
        \<lparr>ap_manifestSource = fm_source m, ap_privateNoteCount = length (fm_maintainerNotes m),
         ap_manifestWarningCount = length (fm_warnings m), ap_parseWarnings = fm_warnings m,
         ap_readinessWarnings = buildPolicyReadinessWarnings m, ap_maintainerContext = fm_maintainerNotes m\<rparr>\<rparr>"

section \<open>Contribution lanes\<close>

record ContributionLanes =
  cl_present :: bool
  cl_source :: FocusManifestSource
  cl_directPrLane :: LanePreference
  cl_issueDiscoveryLane :: LanePreference
  cl_preferredEntryPaths :: "string list"
  cl_discouragedEntryPaths :: "string list"
  cl_validationExpectations :: "string list"
  cl_issueEntryGuidance :: "string list"
  cl_prEntryGuidance :: "string list"
  cl_guidanceText :: "string list"
  cl_warnings :: "string list"
  cl_laneSummary :: string

definition buildLanesSummary :: "FocusManifest \<Rightarrow> LanePreference \<Rightarrow> LanePreference \<Rightarrow> string" where
  "buildLanesSummary m directPrLane issueDiscoveryLane =
     (if issueDiscoveryLane = lane_preferred \<and> directPrLane = lane_discouraged
      then ''Issue-discovery is the preferred contribution mode for this repo.''
      else if issueDiscoveryLane = lane_discouraged \<and> fm_wantedPaths m \<noteq> []
      then ''Direct PRs focused on the wanted areas are the preferred contribution mode.''
      else if directPrLane = lane_preferred then ''Direct PRs on the maintainer-wanted areas are preferred.''
      else if issueDiscoveryLane = lane_discouraged
      then ''Direct PRs are preferred; issue-discovery submissions are discouraged.''
      else ''Contribution lanes are guided by the maintainer focus manifest.'')"

definition deriveContributionLanes :: "FocusManifest \<Rightarrow> ContributionLanes" where
  "deriveContributionLanes m =
     (if \<not> fm_present m
      then \<lparr>cl_present = False, cl_source = fm_source m, cl_directPrLane = lane_neutral, cl_issueDiscoveryLane = lane_neutral,
             cl_preferredEntryPaths = [], cl_discouragedEntryPaths = [], cl_validationExpectations = [],
             cl_issueEntryGuidance = [], cl_prEntryGuidance = [], cl_guidanceText = [], cl_warnings = fm_warnings m,
             cl_laneSummary = ''No maintainer focus manifest; contribution lanes are not constrained (using neutral lane defaults).''\<rparr>
      else
        (let safeWanted = safe (fm_wantedPaths m);
             safeBlocked = safe (fm_blockedPaths m);
             safePublicNotes = safe (fm_publicNotes m);
             safeLabels = safe (fm_preferredLabels m);
             validationExpectations =
               (case fm_linkedIssuePolicy m of
                  lip_required \<Rightarrow> [''Link a tracked issue before opening a PR.'']
                | lip_preferred \<Rightarrow> [''Link a tracked issue if one exists.'']
                | lip_optional \<Rightarrow> [])
               @ safe (fm_testExpectations m);
             directPrLane = (if fm_issueDiscoveryPolicy m = idp_encouraged then lane_discouraged
               else if safeWanted \<noteq> [] then lane_preferred
               else if safeBlocked \<noteq> [] then lane_discouraged else lane_neutral);
             issueDiscoveryLane = issue_lane_preference m;
             issueEntryGuidance =
               (case fm_issueDiscoveryPolicy m of
                  idp_encouraged \<Rightarrow> [''Issue discovery reports are welcomed; search for gaps before opening a PR.'']
                | idp_discouraged \<Rightarrow>
                    [''Prefer direct fixes over new issue reports; this repo discourages issue-discovery submissions.'']
                | idp_neutral \<Rightarrow> [])
               @ (case fm_linkedIssuePolicy m of
                  lip_required \<Rightarrow> [''Issues must be linked to a PR before it is opened.'']
                | lip_preferred \<Rightarrow> [''Link an existing issue to your PR when one is available.'']
                | lip_optional \<Rightarrow> []);
             prEntryGuidance =
               (if safeWanted \<noteq> []
                then [''Focus changes on maintainer-wanted areas: '' @ join '', '' (take 5 (fm_wantedPaths m)) @ ''.''] else [])
               @ (if safeBlocked \<noteq> []
                  then [''Avoid maintainer-blocked areas: '' @ join '', '' (take 5 (fm_blockedPaths m)) @ ''.''] else [])
               @ (if safeLabels \<noteq> []
                  then [''Apply a maintainer-preferred label to your PR: '' @ join '', '' (take 3 safeLabels) @ ''.''] else [])
               @ safePublicNotes;
             guidanceText =
               (case fm_linkedIssuePolicy m of
                  lip_required \<Rightarrow> [''Link a tracked issue before opening a pull request.'']
                | lip_preferred \<Rightarrow> [''Linking a tracked issue is preferred before opening a pull request.'']
                | lip_optional \<Rightarrow> [])
               @ (if safeLabels \<noteq> []
                  then [''Apply a maintainer-preferred label: '' @ join '', '' (take 3 safeLabels) @ ''.''] else [])
               @ safePublicNotes;
             warnings =
               (if safeWanted = [] \<and> fm_preferredLabels m = []
                then [''Contribution scope is unclear; focus manifest lacks wanted paths and preferred labels.''] else [])
               @ (if safe (fm_testExpectations m) = []
                  then [''Validation expectations are not defined in the focus manifest.''] else [])
         in \<lparr>cl_present = True, cl_source = fm_source m, cl_directPrLane = directPrLane,
             cl_issueDiscoveryLane = issueDiscoveryLane, cl_preferredEntryPaths = safeWanted,
             cl_discouragedEntryPaths = safeBlocked, cl_validationExpectations = validationExpectations,
             cl_issueEntryGuidance = safe issueEntryGuidance, cl_prEntryGuidance = safe (dedupe prEntryGuidance),
             cl_guidanceText = safe guidanceText, cl_warnings = warnings,
             cl_laneSummary = buildLanesSummary m directPrLane issueDiscoveryLane\<rparr>))"

section \<open>Patterns match by their tokens\<close>

fun wildcard_tokens :: "string \<Rightarrow> gtok list" where
  "wildcard_tokens [] = []"
| "wildcard_tokens (c # p) =
     (if c = CHR ''*''
      then (if p \<noteq> [] \<and> hd p = CHR ''*'' then wildcard_tokens p else Globstar # wildcard_tokens p)
      else Lit_tok c # wildcard_tokens p)"

lemma wildcard_parts_tokens: "wildcard_parts p = map tok_rx (wildcard_tokens p)"
  by (induction p) auto

lemma rx_test_wildcard:
  "rx_test (Cat Bol (Cat (foldr Cat (wildcard_parts p) Empty) Eol)) s \<longleftrightarrow> tokens_match (wildcard_tokens p) s"
proof -
  let ?r = "foldr Cat (map tok_rx (wildcard_tokens p)) Empty"
  have "rx_match ?r ([], s) (rev s, []) \<longleftrightarrow> (\<exists>d'. rx_match ?r ([], s) (d', []))"
    by (metis append_Nil append_Nil2 fst_conv rev.simps(1) rev_rev_ident rx_match_text snd_conv)
  then show ?thesis by (simp add: rx_test_anchored rx_full_def wildcard_parts_tokens rx_match_tokens)
qed

text \<open>
  A pattern of the manifest matches the paths its documentation names. Both sides are compared
  lowered, with slashes, without a leading \<open>./\<close> or \<open>/\<close>; a pattern with a star matches by its tokens (a
  run of stars is any text on one line, any other character is itself); a pattern without one
  matches itself and everything below it as a directory, with or without its closing slash.
\<close>

theorem manifest_path_exact:
  "matchesManifestPath path pattern \<longleftrightarrow>
     (let p = normalizePathForMatch path; q = normalizePathForMatch pattern
      in p \<noteq> [] \<and> q \<noteq> [] \<and>
         (if CHR ''*'' \<in> set q then tokens_match (wildcard_tokens q) p
          else p = q \<or> (\<exists>r. p = (if last q = CHR ''/'' then q else q @ ''/'') @ r)))"
proof -
  have "endsWith q ''/'' \<longleftrightarrow> last q = CHR ''/''" if "q \<noteq> []" for q
    using that by (cases q rule: rev_cases) (simp_all add: endsWith_def)
  then show ?thesis
    by (simp add: matchesManifestPath_def compileManifestPathMatcher_def Let_def rx_test_wildcard startsWith_iff)
qed

section \<open>Public texts\<close>

definition lane_texts :: "PolicyContributionLane \<Rightarrow> string list" where
  "lane_texts l = [pcl_id l, pcl_title l, pcl_summary l] @ pcl_preferredPaths l @ pcl_discouragedPaths l
     @ pcl_validationExpectations l @ pcl_publicNotes l"

definition policy_texts :: "PublicPolicy \<Rightarrow> string list" where
  "policy_texts p = concat (map lane_texts (pp_contributionLanes p)) @ pp_preferredLabels p @ pp_expectations p
     @ pp_publicNotes p @ pp_readinessWarnings p @ pp_entryGuidance p @ [pp_summary p]"

lemma all_safe: "list_all isFocusManifestPublicSafe (safe xs)"
  by (simp add: list_all_iff)

lemma fixed_texts_safe:
  "isFocusManifestPublicSafe ''direct-pr''" "isFocusManifestPublicSafe ''Direct pull request lane''"
  "isFocusManifestPublicSafe ''issue-discovery''" "isFocusManifestPublicSafe ''Issue discovery lane''"
  "isFocusManifestPublicSafe ''Direct pull requests are discouraged; issue discovery is the preferred entry mode.''"
  "isFocusManifestPublicSafe ''Contribute changes in maintainer-wanted areas with required validation evidence.''"
  "isFocusManifestPublicSafe ''Direct pull requests are accepted when they stay inside maintainer-wanted scope.''"
  "isFocusManifestPublicSafe ''File well-scoped issue reports that the maintainer has indicated are welcome.''"
  "isFocusManifestPublicSafe ''The maintainer has indicated this repo prefers direct fixes over new issue reports.''"
  "isFocusManifestPublicSafe ''Issue discovery is optional; confirm maintainer scope before filing new issues.''"
  "isFocusManifestPublicSafe ''No maintainer focus manifest; contribution guidance is not constrained.''"
  "isFocusManifestPublicSafe ''Issue-discovery is the preferred contribution mode for this repo.''"
  "isFocusManifestPublicSafe ''Direct PRs are preferred; issue-discovery submissions are discouraged.''"
  "isFocusManifestPublicSafe ''Direct PRs on the maintainer-wanted areas are preferred.''"
  "isFocusManifestPublicSafe ''Contribution guidance is derived from the maintainer focus manifest.''"
  by (rule public_safe_if_no_keyword, code_simp)+

text \<open>
  C34: the public half of a compiled policy says nothing forbidden. Every text in it (lanes, paths, labels,
  expectations, notes, warnings, guidance, summary) passes the redaction guard, for every manifest,
  whatever the maintainer wrote in it.
\<close>

theorem public_policy_safe:
  "list_all isFocusManifestPublicSafe (policy_texts (fp_publicSafe (compileFocusManifestPolicy name m now)))"
proof -
  have "list_all isFocusManifestPublicSafe (lane_texts l)" if "l \<in> set (buildPolicyContributionLanes m)" for l
    using that
    by (auto simp: buildPolicyContributionLanes_def Let_def lane_texts_def all_safe fixed_texts_safe
        split: if_splits LanePreference.splits)
  moreover have "isFocusManifestPublicSafe (buildPolicySummary m)"
    by (simp add: buildPolicySummary_def fixed_texts_safe)
  ultimately show ?thesis
    by (simp add: policy_texts_def compileFocusManifestPolicy_def list_all_iff [of _ "concat _"] all_safe
        buildPolicyReadinessWarnings_def buildPolicyEntryGuidance_def) (simp add: list_all_iff)
qed

end
