(* ===== verification/Manifest_Loader.thy ===== *)
theory Manifest_Loader
  imports Manifest_Guidance
begin

text \<open>
  How a manifest gets into the program, \<open>signals/focus-manifest-loader.ts\<close> and
  \<open>settings/repository-settings.ts\<close>: the file of the repository is fetched within a size limit and cached as a
  snapshot, a maintainer can store a record of their own, and contributor-facing previews read the
  published file only. The network, the two parsers, the clock, identifiers and \<open>Date.parse\<close> are
  parameters; a fetch that throws is \<open>Inl\<close>.
\<close>

section \<open>Snapshots\<close>

record SignalSnapshotRecord =
  ss_id :: string
  ss_signalType :: string
  ss_targetKey :: string
  ss_repoFullName :: "string option"
  ss_payload :: json
  ss_generatedAt :: string

definition REPO_FOCUS_MANIFEST_SIGNAL :: string where
  "REPO_FOCUS_MANIFEST_SIGNAL = ''repo-focus-manifest''"

definition REPO_FOCUS_MANIFEST_MAX_AGE_MS :: int where
  "REPO_FOCUS_MANIFEST_MAX_AGE_MS = 6 * 60 * 60 * 1000"

definition MANIFEST_FILE_CANDIDATES :: "string list" where
  "MANIFEST_FILE_CANDIDATES = [''.gittensory.yml'', ''.github/gittensory.yml'', ''.gittensory.json'', ''.github/gittensory.json'']"

definition persistSignalSnapshot :: "SignalSnapshotRecord \<Rightarrow> SignalSnapshotRecord list \<Rightarrow> SignalSnapshotRecord list" where
  "persistSignalSnapshot snapshot table = table @ [snapshot]"

definition listSignalSnapshots :: "string \<Rightarrow> string \<Rightarrow> SignalSnapshotRecord list \<Rightarrow> SignalSnapshotRecord list" where
  "listSignalSnapshots signalType targetKey table =
     take 100 (sort_by (\<lambda>a b. str_le (ss_generatedAt b) (ss_generatedAt a))
       (filter (\<lambda>s. ss_signalType s = signalType \<and> ss_targetKey s = targetKey) table))"

section \<open>Fetching the file\<close>

text \<open>A response: whether it is ok, its \<open>content-length\<close>, and its body as the chunks the reader delivers.\<close>

record HttpResponse =
  hr_ok :: bool
  hr_contentLength :: "string option"
  hr_body :: "string list option"

text \<open>\<open>Number.parseInt(text, 10)\<close> on an unsigned header value: its leading digits.\<close>

definition parseInt10 :: "string \<Rightarrow> nat option" where
  "parseInt10 text =
     (let digits = takeWhile (class_match digit_items) (dropWhile is_ws text)
      in if digits = [] then None else Some (decimal_value 0 digits))"

fun read_chunks :: "nat \<Rightarrow> string \<Rightarrow> string list \<Rightarrow> string option" where
  "read_chunks totalBytes text [] = Some text"
| "read_chunks totalBytes text (chunk # rest) =
     (if totalBytes + length chunk > MAX_FOCUS_MANIFEST_BYTES then None
      else read_chunks (totalBytes + length chunk) (text @ chunk) rest)"

definition readBoundedResponseText :: "HttpResponse \<Rightarrow> string option" where
  "readBoundedResponseText response =
     (if (case orElse None (Option.bind (hr_contentLength response) parseInt10) of
            None \<Rightarrow> False | Some n \<Rightarrow> n > MAX_FOCUS_MANIFEST_BYTES) then None
      else (case hr_body response of None \<Rightarrow> Some [] | Some chunks \<Rightarrow> read_chunks 0 [] chunks))"

definition hex_digit :: "nat \<Rightarrow> char" where
  "hex_digit d = (if d < 10 then char_of (48 + d) else char_of (55 + d))"

definition uri_unreserved :: "char \<Rightarrow> bool" where
  "uri_unreserved c \<longleftrightarrow> class_match word_items c \<or> c \<in> set ''-.!~*()'' \<or> c = CHR 0x27"

definition encodeURIComponent :: "string \<Rightarrow> string" where
  "encodeURIComponent s = concat (map (\<lambda>c. if uri_unreserved c then [c]
     else [CHR 0x25, hex_digit (of_char c div 16), hex_digit (of_char c mod 16)]) s)"

text \<open>The candidate paths in order; \<open>http\<close> answers a URL, \<open>None\<close> when the request or the reading throws.\<close>

fun try_candidates :: "(string \<Rightarrow> HttpResponse option) \<Rightarrow> string \<Rightarrow> string list \<Rightarrow> string option" where
  "try_candidates http base [] = None"
| "try_candidates http base (path # paths) =
     (case http (base @ path) of
        None \<Rightarrow> try_candidates http base paths
      | Some response \<Rightarrow>
          (if hr_ok response
           then (case readBoundedResponseText response of Some text \<Rightarrow> Some text | None \<Rightarrow> try_candidates http base paths)
           else try_candidates http base paths))"

definition fetchRepoFocusManifestFile :: "(string \<Rightarrow> HttpResponse option) \<Rightarrow> string \<Rightarrow> string option" where
  "fetchRepoFocusManifestFile http repoFullName =
     (let owner = takeWhile (\<lambda>c. c \<noteq> CHR ''/'') repoFullName; rest = dropWhile (\<lambda>c. c \<noteq> CHR ''/'') repoFullName
      in if owner = [] \<or> length rest \<le> 1 then None
         else try_candidates http
           (''https://raw.githubusercontent.com/'' @ encodeURIComponent owner @ ''/'' @ encodeURIComponent (tl rest) @ ''/HEAD/'')
           MANIFEST_FILE_CANDIDATES)"

section \<open>Loading\<close>

record LoaderEnv =
  le_now :: int
  le_nowIso :: string
  le_uuid :: string
  le_fetch :: "string \<Rightarrow> unit + string option"
  le_parse_json :: "string \<Rightarrow> json option"
  le_parse_yaml :: "string \<Rightarrow> json option"
  le_date_parse :: "string \<Rightarrow> int option"
  le_bundledYaml :: string
  le_driftIssueRepo :: "string option"

definition GITTENSOR_SELF_REPO_DEFAULT :: string where
  "GITTENSOR_SELF_REPO_DEFAULT = ''JSONbored/gittensory''"

definition resolveGittensorySelfRepoFullName :: "string option \<Rightarrow> string" where
  "resolveGittensorySelfRepoFullName driftIssueRepo =
     (let configured = nullish (map_option trim driftIssueRepo) []
      in if configured \<noteq> [] \<and> CHR ''/'' \<in> set configured then configured else GITTENSOR_SELF_REPO_DEFAULT)"

definition isGittensorySelfRepo :: "string \<Rightarrow> LoaderEnv \<Rightarrow> bool" where
  "isGittensorySelfRepo repoFullName env \<longleftrightarrow>
     toLowerCase repoFullName = toLowerCase (resolveGittensorySelfRepoFullName (le_driftIssueRepo env))"

text \<open>The age of a snapshot, \<open>None\<close> for infinity.\<close>

definition snapshotAgeMs :: "LoaderEnv \<Rightarrow> string \<Rightarrow> int option" where
  "snapshotAgeMs env generatedAt =
     (if generatedAt = [] then None else map_option (\<lambda>t. le_now env - t) (le_date_parse env generatedAt))"

definition explicit_source :: "json \<Rightarrow> json" where
  "explicit_source payload = (case payload of JObject r \<Rightarrow> jget r ''source'' | _ \<Rightarrow> JUndefined)"

definition readCachedManifest ::
    "LoaderEnv \<Rightarrow> string \<Rightarrow> int \<Rightarrow> bool \<Rightarrow> SignalSnapshotRecord list \<Rightarrow> FocusManifest option" where
  "readCachedManifest env repoFullName maxAgeMs publicOnly table =
     (case listSignalSnapshots REPO_FOCUS_MANIFEST_SIGNAL repoFullName table of
        [] \<Rightarrow> None
      | latest # _ \<Rightarrow>
          (let manifest = parseFocusManifest (ss_payload latest) None;
               explicitSource = explicit_source (ss_payload latest)
           in if publicOnly \<and> explicitSource \<noteq> JString ''repo_file'' then None
              else if explicitSource = JString ''api_record'' then Some manifest
              else (case snapshotAgeMs env (ss_generatedAt latest) of
                  None \<Rightarrow> None
                | Some age \<Rightarrow> if age > maxAgeMs then None else Some manifest)))"

definition persistRepoFocusManifest ::
    "LoaderEnv \<Rightarrow> string \<Rightarrow> FocusManifest \<Rightarrow> SignalSnapshotRecord list \<Rightarrow> SignalSnapshotRecord list" where
  "persistRepoFocusManifest env repoFullName manifest table =
     persistSignalSnapshot
       \<lparr>ss_id = le_uuid env, ss_signalType = REPO_FOCUS_MANIFEST_SIGNAL, ss_targetKey = repoFullName,
        ss_repoFullName = Some repoFullName, ss_payload = manifestToJson manifest, ss_generatedAt = le_nowIso env\<rparr> table"

definition published_content :: "LoaderEnv \<Rightarrow> string \<Rightarrow> string option" where
  "published_content env repoFullName =
     (case le_fetch env repoFullName of
        Inl _ \<Rightarrow> None
      | Inr (Some content) \<Rightarrow> Some content
      | Inr None \<Rightarrow> if isGittensorySelfRepo repoFullName env then Some (le_bundledYaml env) else None)"

definition fetched_manifest :: "LoaderEnv \<Rightarrow> string \<Rightarrow> FocusManifest" where
  "fetched_manifest env repoFullName =
     (case published_content env repoFullName of
        None \<Rightarrow> parseFocusManifest JNull None
      | Some content \<Rightarrow> parseFocusManifestContent (le_parse_json env) (le_parse_yaml env) (Some content) src_repo_file)"

definition loadRepoFocusManifestWithCachePolicy ::
    "LoaderEnv \<Rightarrow> string \<Rightarrow> int option \<Rightarrow> bool \<Rightarrow> bool \<Rightarrow> SignalSnapshotRecord list
     \<Rightarrow> FocusManifest \<times> SignalSnapshotRecord list" where
  "loadRepoFocusManifestWithCachePolicy env repoFullName maxAgeMs refresh publicOnly table =
     (case (if refresh then None
            else readCachedManifest env repoFullName (nullish maxAgeMs REPO_FOCUS_MANIFEST_MAX_AGE_MS) publicOnly table) of
        Some cached \<Rightarrow> (cached, table)
      | None \<Rightarrow>
          (let manifest = fetched_manifest env repoFullName
           in (manifest, if publicOnly then table else persistRepoFocusManifest env repoFullName manifest table)))"

definition loadRepoFocusManifest ::
    "LoaderEnv \<Rightarrow> string \<Rightarrow> int option \<Rightarrow> bool \<Rightarrow> SignalSnapshotRecord list \<Rightarrow> FocusManifest \<times> SignalSnapshotRecord list" where
  "loadRepoFocusManifest env repoFullName maxAgeMs refresh table =
     loadRepoFocusManifestWithCachePolicy env repoFullName maxAgeMs refresh False table"

definition loadPublicRepoFocusManifest ::
    "LoaderEnv \<Rightarrow> string \<Rightarrow> int option \<Rightarrow> bool \<Rightarrow> SignalSnapshotRecord list \<Rightarrow> FocusManifest \<times> SignalSnapshotRecord list" where
  "loadPublicRepoFocusManifest env repoFullName maxAgeMs refresh table =
     loadRepoFocusManifestWithCachePolicy env repoFullName maxAgeMs refresh True table"

definition upsertRepoFocusManifest ::
    "LoaderEnv \<Rightarrow> string \<Rightarrow> json \<Rightarrow> FocusManifestSource \<Rightarrow> SignalSnapshotRecord list
     \<Rightarrow> FocusManifest \<times> SignalSnapshotRecord list" where
  "upsertRepoFocusManifest env repoFullName raw source table =
     (let manifest = parseFocusManifest raw (Some source)
      in (manifest, persistRepoFocusManifest env repoFullName manifest table))"

definition resolveRepositorySettings ::
    "LoaderEnv \<Rightarrow> string \<Rightarrow> SettingsRow list \<Rightarrow> SignalSnapshotRecord list \<Rightarrow> RepositorySettings \<times> SignalSnapshotRecord list" where
  "resolveRepositorySettings env repoFullName rows table =
     (let loaded = loadRepoFocusManifest env repoFullName None False table
      in (resolveEffectiveSettings (getRepositorySettings repoFullName rows) (fst loaded), snd loaded))"

section \<open>Histories of the snapshot table\<close>

text \<open>
  The tables the program can produce, with the published contents it has seen: loads in any environment,
  records stored by maintainers, which the routes mark \<open>api_record\<close>, and the deletion of any
  snapshots, as the retention run deletes the expired ones (\<open>Retention\<close>).
\<close>

inductive manifest_history :: "SignalSnapshotRecord list \<Rightarrow> (string \<times> FocusManifest) set \<Rightarrow> bool" where
  start: "manifest_history [] {}"
| load: "manifest_history table seen \<Longrightarrow>
    manifest_history (snd (loadRepoFocusManifest env repo maxAge refresh table)) (insert (repo, fetched_manifest env repo) seen)"
| store: "manifest_history table seen \<Longrightarrow> manifest_history (snd (upsertRepoFocusManifest env repo raw src_api_record table)) seen"
| prune: "manifest_history table seen \<Longrightarrow> manifest_history (filter keep table) seen"

lemma explicit_source_json: "explicit_source (manifestToJson m) = JString (source_text (fm_source m))"
  by (simp add: explicit_source_def manifestToJson_def jget_def)

lemma upsert_source: "fm_source (parseFocusManifest raw (Some s)) = s"
  by (cases raw) (simp_all add: manifest_fields normalizeSource_def emptyManifest_def)

lemma load_table:
  "snd (loadRepoFocusManifest env repo maxAge refresh table) = table \<or>
   snd (loadRepoFocusManifest env repo maxAge refresh table) = persistRepoFocusManifest env repo (fetched_manifest env repo) table"
  by (simp add: loadRepoFocusManifest_def loadRepoFocusManifestWithCachePolicy_def Let_def split: option.split)

lemma set_persist:
  "s \<in> set (persistRepoFocusManifest env repo m table) \<Longrightarrow>
     s \<in> set table \<or> ss_targetKey s = repo \<and> ss_payload s = manifestToJson m"
  by (auto simp: persistRepoFocusManifest_def persistSignalSnapshot_def)

lemma history_snapshots:
  "manifest_history table seen \<Longrightarrow> s \<in> set table \<Longrightarrow> explicit_source (ss_payload s) = JString ''repo_file'' \<Longrightarrow>
     \<exists>m. (ss_targetKey s, m) \<in> seen \<and> ss_payload s = manifestToJson m"
proof (induction rule: manifest_history.induct)
  case (load table seen env repo maxAge refresh)
  have "s \<in> set table \<or> ss_targetKey s = repo \<and> ss_payload s = manifestToJson (fetched_manifest env repo)"
    using load_table [of env repo maxAge refresh table] load.prems(1) set_persist by fastforce
  with load show ?case by auto
next
  case (store table seen env repo raw)
  have "s \<in> set table \<or> ss_payload s = manifestToJson (parseFocusManifest raw (Some src_api_record))"
    using store.prems(1) set_persist by (fastforce simp: upsertRepoFocusManifest_def Let_def)
  with store show ?case by (auto simp: explicit_source_json upsert_source)
next
  case (prune table seen keep)
  then show ?case by simp
qed simp

lemma listed_snapshot: "s \<in> set (listSignalSnapshots signal key table) \<Longrightarrow> s \<in> set table \<and> ss_targetKey s = key"
  by (auto simp: listSignalSnapshots_def dest: in_set_takeD)

text \<open>
  C35: a contributor-facing preview shows published configuration only. Whatever loads and maintainer
  records went before, the public load returns the manifest of the file as fetched now, or one that
  was fetched from the same repository earlier, read back from its snapshot; it never returns a
  maintainer's stored record, and it writes nothing.
\<close>

theorem public_load_is_published:
  assumes "manifest_history table seen"
  shows "(fst (loadPublicRepoFocusManifest env repo maxAge refresh table) = fetched_manifest env repo
      \<or> (\<exists>m. (repo, m) \<in> seen \<and>
           fst (loadPublicRepoFocusManifest env repo maxAge refresh table) = parseFocusManifest (manifestToJson m) None))
    \<and> snd (loadPublicRepoFocusManifest env repo maxAge refresh table) = table"
proof (cases "if refresh then None else readCachedManifest env repo (nullish maxAge REPO_FOCUS_MANIFEST_MAX_AGE_MS) True table")
  case (Some m)
  then obtain s where s: "s \<in> set (listSignalSnapshots REPO_FOCUS_MANIFEST_SIGNAL repo table)"
      "explicit_source (ss_payload s) = JString ''repo_file''" "m = parseFocusManifest (ss_payload s) None"
    by (auto simp: readCachedManifest_def Let_def split: if_splits list.splits option.splits)
  with history_snapshots [OF assms _ s(2)] listed_snapshot [OF s(1)] Some show ?thesis
    by (auto simp: loadPublicRepoFocusManifest_def loadRepoFocusManifestWithCachePolicy_def)
qed (simp add: loadPublicRepoFocusManifest_def loadRepoFocusManifestWithCachePolicy_def Let_def)

text \<open>An environment in which no repository publishes a file.\<close>

definition silent_env :: LoaderEnv where
  "silent_env = \<lparr>le_now = 0, le_nowIso = ''2026-01-01'', le_uuid = ''u'', le_fetch = (\<lambda>_. Inr None), le_parse_json = (\<lambda>_. None),
     le_parse_yaml = (\<lambda>_. None), le_date_parse = (\<lambda>_. Some 0), le_bundledYaml = [], le_driftIssueRepo = None\<rparr>"

theorem public_load_is_published_witness:
  "fst (loadPublicRepoFocusManifest silent_env ''o/r'' None False
      (snd (upsertRepoFocusManifest silent_env ''o/r'' (JObject [(''gate'', JObject [(''enabled'', JBool True)])]) src_api_record [])))
    = fetched_manifest silent_env ''o/r''"
  using public_load_is_published [OF manifest_history.store [OF manifest_history.start], of silent_env "''o/r''" None False
      silent_env "''o/r''" "JObject [(''gate'', JObject [(''enabled'', JBool True)])]"]
  by blast

section \<open>What the cache changes\<close>

text \<open>
  A repository without a file has an empty manifest and no finding about it; once the empty manifest has
  been cached, the next load reports it as malformed.
\<close>

lemma cached_absence_reported:
  "fg_findings (buildFocusManifestGuidance (parseFocusManifest JNull None) paths labels linked tests passed) = []"
  "fg_findings (buildFocusManifestGuidance
      (parseFocusManifest (manifestToJson (parseFocusManifest JNull None)) None) paths labels linked tests passed)
    = [\<lparr>ff_code = fc_manifest_malformed, ff_severity = fl_info, ff_title = ''Maintainer focus manifest not applied'',
        ff_detail = NO_FIELDS, ff_action = None\<rparr>]"
proof -
  show "fg_findings (buildFocusManifestGuidance (parseFocusManifest JNull None) paths labels linked tests passed) = []"
    by (simp add: buildFocusManifestGuidance_def emptyManifest_def Let_def)
  have "fm_present (parseFocusManifest (manifestToJson (parseFocusManifest JNull None)) None) = False"
    by code_simp
  moreover have "fm_warnings (parseFocusManifest (manifestToJson (parseFocusManifest JNull None)) None) = [NO_FIELDS]"
    by code_simp
  ultimately show "fg_findings (buildFocusManifestGuidance
      (parseFocusManifest (manifestToJson (parseFocusManifest JNull None)) None) paths labels linked tests passed)
    = [\<lparr>ff_code = fc_manifest_malformed, ff_severity = fl_info, ff_title = ''Maintainer focus manifest not applied'',
        ff_detail = NO_FIELDS, ff_action = None\<rparr>]"
    by (simp add: buildFocusManifestGuidance_def Let_def)
qed

text \<open>The warnings of the lanes of an unusable manifest repeat its values, unfiltered.\<close>

lemma lane_warnings_unfiltered:
  "\<not> list_all isFocusManifestPublicSafe (cl_warnings (deriveContributionLanes
      (parseFocusManifest (JObject [(''gate'', JObject [(''linkedIssue'', JString ''hotkey'')])]) None)))"
  by code_simp

end
