(* ===== verification/Ci_Status.thy ===== *)
theory Ci_Status
  imports Manifest_Loader Agent_Planner Github_Actions
begin

text \<open>
  What the maintenance path reads from GitHub, \<open>github/backfill.ts\<close>: the live CI aggregate over
  check runs and commit statuses, the required contexts of the base branch, the merge state and
  the review decision of a pull request, and its changed files when none are stored. The last part
  shows what the aggregate concludes from what was read.
\<close>

section \<open>The GitHub API\<close>

text \<open>The payloads, with the fields the code reads; a text that may have another type is absent then.\<close>

record CheckRunPayload =
  run_name :: string
  run_status :: "string option"
  run_conclusion :: "string option"
  run_title :: "string option"
  run_summary :: "string option"
  run_details_url :: "string option"

record StatusPayload =
  stp_context :: "string option"
  stp_state :: "string option"
  stp_description :: "string option"
  stp_target_url :: "string option"

record GitHubFilePayload =
  gf_filename :: string
  gf_status :: "string option"
  gf_additions :: "int option"
  gf_deletions :: "int option"
  gf_changes :: "int option"
  gf_previous_filename :: "string option"
  gf_rest :: "(string \<times> json) list"

text \<open>
  A response body: the members of the object, or the elements of the array (\<open>ab_files\<close>). The answer
  of GitHub to a request is its status, its body (\<open>None\<close> when it is no JSON) and the Link header.
\<close>

record ApiBody =
  ab_check_runs :: "CheckRunPayload list option"
  ab_statuses :: "StatusPayload list option"
  ab_contexts :: "string option list option"
  ab_checks :: "string option list option"
  ab_mergeable_state :: "string option"
  ab_permission :: "string option"
  ab_files :: "GitHubFilePayload list"

definition empty_body :: ApiBody where
  "empty_body = \<lparr>ab_check_runs = None, ab_statuses = None, ab_contexts = None, ab_checks = None,
     ab_mergeable_state = None, ab_permission = None, ab_files = []\<rparr>"

record ApiResponse =
  ar_status :: int
  ar_body :: "ApiBody option"
  ar_link :: "string option"

text \<open>A file node of the GraphQL answer.\<close>

record GqlFileNode =
  gn_path :: "string option"
  gn_additions :: "int option"
  gn_deletions :: "int option"
  gn_changeType :: "string option"

text \<open>
  GitHub as one run reads it: the answer to a URL with a token (\<open>None\<close> when the request throws),
  and, by token, owner, name and number, the answers to the two GraphQL queries: the review
  decision, and the file nodes of the pull request (\<open>None\<close> when the query fails or finds none).
\<close>

record GithubReads =
  rd_fetch :: "string \<Rightarrow> string option \<Rightarrow> ApiResponse option"
  rd_reviewDecision :: "string \<Rightarrow> string \<Rightarrow> string \<Rightarrow> nat \<Rightarrow> string option"
  rd_graphQlFiles :: "string \<Rightarrow> string \<Rightarrow> string \<Rightarrow> nat \<Rightarrow> GqlFileNode option list option"
  rd_publicToken :: "string option"

definition repoParts :: "string \<Rightarrow> string \<times> string" where
  "repoParts fullName =
     (case split_on CHR ''/'' fullName of
        [] \<Rightarrow> ([], [])
      | owner # rest \<Rightarrow> (owner, join ''/'' rest))"

definition response_ok :: "ApiResponse \<Rightarrow> bool" where
  "response_ok r \<longleftrightarrow> 200 \<le> ar_status r \<and> ar_status r \<le> 299"

text \<open>A 404 under the public token is asked again without one. \<open>None\<close>: the call throws.\<close>

definition githubJsonWithHeaders :: "GithubReads \<Rightarrow> string \<Rightarrow> string \<Rightarrow> string option \<Rightarrow> (ApiBody \<times> string option) option" where
  "githubJsonWithHeaders gh repoFullName path token =
     (let (owner, name) = repoParts repoFullName;
          url = ''https://api.github.com/repos/'' @ encodeURIComponent owner @ ''/'' @ encodeURIComponent name @ path
      in Option.bind (rd_fetch gh url (truthy token)) (\<lambda>first.
           Option.bind (if ar_status first = 404 \<and> truthy token \<noteq> None \<and> token = rd_publicToken gh
                        then rd_fetch gh url None else Some first) (\<lambda>response.
             if response_ok response then map_option (\<lambda>b. (b, ar_link response)) (ar_body response) else None)))"

definition NEXT_LINK :: string where
  "NEXT_LINK = ''rel='' @ [CHR 0x22] @ ''next'' @ [CHR 0x22]"

definition hasNextPage :: "string option \<Rightarrow> bool" where
  "hasNextPage link =
     (case link of None \<Rightarrow> False | Some l \<Rightarrow> list_ex (\<lambda>part. str_includes part NEXT_LINK) (split_on CHR '','' l))"

definition PR_DETAIL_MAX_PAGES :: nat where "PR_DETAIL_MAX_PAGES = 10"

section \<open>The CI aggregate\<close>

definition CI_FAILING_CONCLUSIONS :: "string list" where
  "CI_FAILING_CONCLUSIONS = [''failure'', ''timed_out'', ''cancelled'', ''action_required'', ''startup_failure'']"

definition CI_PASSING_CONCLUSIONS :: "string list" where
  "CI_PASSING_CONCLUSIONS = [''success'', ''neutral'', ''skipped'']"

record CheckDetail =
  cd_name :: string
  cd_summary :: "string option"
  cd_detailsUrl :: "string option"

record LiveCiAggregate =
  lc_ciState :: CiState
  lc_failingDetails :: "CheckDetail list"
  lc_nonRequiredFailingDetails :: "CheckDetail list"

definition fetchRequiredStatusContexts :: "GithubReads \<Rightarrow> string \<Rightarrow> string option \<Rightarrow> string option \<Rightarrow> string list option" where
  "fetchRequiredStatusContexts gh repoFullName baseRef token =
     (case truthy baseRef of
        None \<Rightarrow> None
      | Some base \<Rightarrow>
          (case githubJsonWithHeaders gh repoFullName
              (''/branches/'' @ encodeURIComponent base @ ''/protection/required_status_checks'') token of
             None \<Rightarrow> None
           | Some (body, _) \<Rightarrow>
               Some (dedupe (filter (\<lambda>c. trim c \<noteq> [])
                 (List.map_filter id (nullish (ab_contexts body) [] @ nullish (ab_checks body) []))))))"

text \<open>The tally of the loop: the details of failed checks, the number of checks, and whether a required one is unfinished.\<close>

record CiTally =
  ct_failing :: "CheckDetail list"
  ct_nonRequired :: "CheckDetail list"
  ct_total :: nat
  ct_anyPending :: bool

definition empty_tally :: CiTally where
  "empty_tally = \<lparr>ct_failing = [], ct_nonRequired = [], ct_total = 0, ct_anyPending = False\<rparr>"

definition add_failing :: "bool \<Rightarrow> CheckDetail \<Rightarrow> CiTally \<Rightarrow> CiTally" where
  "add_failing required detail t =
     (if required then t\<lparr>ct_failing := ct_failing t @ [detail]\<rparr> else t\<lparr>ct_nonRequired := ct_nonRequired t @ [detail]\<rparr>)"

definition run_text :: "CheckRunPayload \<Rightarrow> string option" where
  "run_text run =
     map_option (\<lambda>s. take 200 (trim s))
       (List.find (\<lambda>s. trim s \<noteq> []) (List.map_filter id [run_title run, run_summary run]))"

definition tally_run :: "(string \<Rightarrow> bool) \<Rightarrow> CheckRunPayload \<Rightarrow> CiTally \<Rightarrow> CiTally" where
  "tally_run isRequired run t0 =
     (let t = t0\<lparr>ct_total := ct_total t0 + 1\<rparr>;
          conclusion = toLowerCase (nullish (run_conclusion run) []);
          status = toLowerCase (nullish (run_status run) [])
      in if conclusion \<noteq> [] \<and> conclusion \<in> set CI_FAILING_CONCLUSIONS then
           add_failing (isRequired (run_name run))
             \<lparr>cd_name = run_name run, cd_summary = run_text run, cd_detailsUrl = truthy (run_details_url run)\<rparr> t
         else if (if conclusion \<noteq> [] then conclusion \<in> set CI_PASSING_CONCLUSIONS else status = ''completed'') then t
         else if isRequired (run_name run) then t\<lparr>ct_anyPending := True\<rparr>
         else t)"

definition status_name :: "StatusPayload \<Rightarrow> string" where
  "status_name s = nullish (stp_context s) ''status''"

definition tally_status :: "(string \<Rightarrow> bool) \<Rightarrow> StatusPayload \<Rightarrow> CiTally \<Rightarrow> CiTally" where
  "tally_status isRequired s t0 =
     (let t = t0\<lparr>ct_total := ct_total t0 + 1\<rparr>;
          state = toLowerCase (nullish (stp_state s) [])
      in if state = ''failure'' \<or> state = ''error'' then
           add_failing (isRequired (status_name s))
             \<lparr>cd_name = status_name s,
              cd_summary = truthy (map_option (\<lambda>d. take 200 (trim d)) (stp_description s)),
              cd_detailsUrl = truthy (stp_target_url s)\<rparr> t
         else if state = ''success'' then t
         else if isRequired (status_name s) then t\<lparr>ct_anyPending := True\<rparr>
         else t)"

text \<open>The pages of check runs from \<open>page\<close> on, at most \<open>n\<close> of them; a page that cannot be read ends the walk.\<close>

fun check_run_pages :: "GithubReads \<Rightarrow> string \<Rightarrow> string \<Rightarrow> string option \<Rightarrow> nat \<Rightarrow> nat \<Rightarrow> CheckRunPayload list" where
  "check_run_pages gh repo head token page 0 = []"
| "check_run_pages gh repo head token page (Suc n) =
     (case githubJsonWithHeaders gh repo
         (''/commits/'' @ head @ ''/check-runs?per_page=100&page='' @ nat_str page) token of
        None \<Rightarrow> []
      | Some (body, link) \<Rightarrow>
          nullish (ab_check_runs body) [] @
            (if hasNextPage link then check_run_pages gh repo head token (page + 1) n else []))"

definition commit_statuses :: "GithubReads \<Rightarrow> string \<Rightarrow> string \<Rightarrow> string option \<Rightarrow> StatusPayload list" where
  "commit_statuses gh repo head token =
     (case githubJsonWithHeaders gh repo (''/commits/'' @ head @ ''/status?per_page=100'') token of
        None \<Rightarrow> []
      | Some (body, _) \<Rightarrow> nullish (ab_statuses body) [])"

definition is_required :: "string list option \<Rightarrow> string \<Rightarrow> bool" where
  "is_required requiredContexts name \<longleftrightarrow>
     (case requiredContexts of None \<Rightarrow> True | Some names \<Rightarrow> names = [] \<or> name \<in> set names)"

definition ci_state_of :: "CiTally \<Rightarrow> CiState" where
  "ci_state_of t =
     (if ct_failing t \<noteq> [] then ci_failed else if ct_anyPending t then ci_pending
      else if ct_total t > 0 then ci_passed else ci_unverified)"

definition fetchLiveCiAggregate ::
    "GithubReads \<Rightarrow> string \<Rightarrow> string option \<Rightarrow> string option \<Rightarrow> string list option \<Rightarrow> LiveCiAggregate" where
  "fetchLiveCiAggregate gh repoFullName head token requiredContexts =
     (case truthy head of
        None \<Rightarrow> \<lparr>lc_ciState = ci_unverified, lc_failingDetails = [], lc_nonRequiredFailingDetails = []\<rparr>
      | Some sha \<Rightarrow>
          (let required = is_required requiredContexts;
               runs = fold (tally_run required) (check_run_pages gh repoFullName sha token 1 PR_DETAIL_MAX_PAGES) empty_tally;
               t = fold (tally_status required) (commit_statuses gh repoFullName sha token) runs
           in \<lparr>lc_ciState = ci_state_of t, lc_failingDetails = ct_failing t,
               lc_nonRequiredFailingDetails = ct_nonRequired t\<rparr>))"

section \<open>The live state of a pull request\<close>

definition fetchLivePullRequestMergeState :: "GithubReads \<Rightarrow> string \<Rightarrow> nat \<Rightarrow> string option \<Rightarrow> string option" where
  "fetchLivePullRequestMergeState gh repoFullName prNumber token =
     Option.bind (githubJsonWithHeaders gh repoFullName (''/pulls/'' @ nat_str prNumber) token)
       (\<lambda>(body, _). ab_mergeable_state body)"

definition fetchLivePullRequestReviewDecision :: "GithubReads \<Rightarrow> string \<Rightarrow> nat \<Rightarrow> string option \<Rightarrow> string option" where
  "fetchLivePullRequestReviewDecision gh repoFullName prNumber token =
     (case (truthy token, split_on CHR ''/'' repoFullName) of
        (Some t, owner # name # _) \<Rightarrow>
          if owner = [] \<or> name = [] then None else rd_reviewDecision gh t owner name prNumber
      | _ \<Rightarrow> None)"

section \<open>The changed files\<close>

fun list_pages :: "GithubReads \<Rightarrow> string \<Rightarrow> string \<Rightarrow> string option \<Rightarrow> nat \<Rightarrow> nat \<Rightarrow> GitHubFilePayload list option" where
  "list_pages gh repo path token page 0 = Some []"
| "list_pages gh repo path token page (Suc n) =
     (case githubJsonWithHeaders gh repo (path @ ''?per_page=100&page='' @ nat_str page) token of
        None \<Rightarrow> if page = 1 then None else Some []
      | Some (body, link) \<Rightarrow>
          map_option (\<lambda>later. ab_files body @ later)
            (if hasNextPage link then list_pages gh repo path token (page + 1) n else Some []))"

definition githubPaginatedList :: "GithubReads \<Rightarrow> string \<Rightarrow> string \<Rightarrow> string option \<Rightarrow> GitHubFilePayload list option" where
  "githubPaginatedList gh repo path token = list_pages gh repo path token 1 PR_DETAIL_MAX_PAGES"

text \<open>The file nodes of the GraphQL fallback carry no previous name and no patch.\<close>

definition gql_file :: "GqlFileNode option \<Rightarrow> GitHubFilePayload list" where
  "gql_file node =
     (case Option.bind node (\<lambda>f. map_option (\<lambda>p. (f, p)) (truthy (gn_path f))) of
        None \<Rightarrow> []
      | Some (f, p) \<Rightarrow>
          (let additions = nullish (gn_additions f) 0; deletions = nullish (gn_deletions f) 0
           in [\<lparr>gf_filename = p, gf_status = Some (toLowerCase (nullish (gn_changeType f) ''modified'')),
               gf_additions = Some additions, gf_deletions = Some deletions,
               gf_changes = Some (additions + deletions), gf_previous_filename = None, gf_rest = []\<rparr>]))"

definition graphql_files :: "GithubReads \<Rightarrow> string \<Rightarrow> nat \<Rightarrow> string \<Rightarrow> GitHubFilePayload list option" where
  "graphql_files gh repoFullName pullNumber token =
     (let (owner, name) = repoParts repoFullName
      in map_option (\<lambda>nodes. concat (map gql_file nodes)) (rd_graphQlFiles gh token owner name pullNumber))"

definition fetchPullRequestFiles :: "GithubReads \<Rightarrow> string \<Rightarrow> nat \<Rightarrow> string option \<Rightarrow> GitHubFilePayload list" where
  "fetchPullRequestFiles gh repoFullName pullNumber token =
     (case githubPaginatedList gh repoFullName (''/pulls/'' @ nat_str pullNumber @ ''/files'') token of
        Some files \<Rightarrow> files
      | None \<Rightarrow> nullish (Option.bind (truthy token) (graphql_files gh repoFullName pullNumber)) [])"

definition toPullRequestFileRecordFromGitHub :: "string \<Rightarrow> nat \<Rightarrow> GitHubFilePayload \<Rightarrow> PullRequestFileRecord" where
  "toPullRequestFileRecordFromGitHub repoFullName pullNumber f =
     \<lparr>file_repoFullName = repoFullName, file_pullNumber = pullNumber, file_path = gf_filename f,
      file_status = gf_status f, file_additions = nullish (gf_additions f) 0,
      file_deletions = nullish (gf_deletions f) 0, file_changes = nullish (gf_changes f) 0,
      file_previousFilename = gf_previous_filename f, file_payload = gf_rest f\<rparr>"

text \<open>The table \<open>pull_request_files\<close>, unique by repository, pull request and path.\<close>

definition file_key :: "PullRequestFileRecord \<Rightarrow> string \<times> nat \<times> string" where
  "file_key f = (file_repoFullName f, file_pullNumber f, file_path f)"

definition listPullRequestFiles :: "string \<Rightarrow> nat \<Rightarrow> PullRequestFileRecord list \<Rightarrow> PullRequestFileRecord list" where
  "listPullRequestFiles fullName pullNumber table =
     filter (\<lambda>f. file_repoFullName f = fullName \<and> file_pullNumber f = pullNumber) table"

definition upsertPullRequestFile :: "PullRequestFileRecord \<Rightarrow> PullRequestFileRecord list \<Rightarrow> PullRequestFileRecord list" where
  "upsertPullRequestFile f table =
     (if file_key f \<in> file_key ` set table
      then map (\<lambda>row. if file_key row = file_key f then f else row) table
      else table @ [f])"

definition fetchAndStorePullRequestFilesForReview ::
    "GithubReads \<Rightarrow> string \<Rightarrow> nat \<Rightarrow> string option \<Rightarrow> PullRequestFileRecord list \<Rightarrow>
      PullRequestFileRecord list \<times> PullRequestFileRecord list" where
  "fetchAndStorePullRequestFilesForReview gh repoFullName pullNumber token table =
     (let records = map (toPullRequestFileRecordFromGitHub repoFullName pullNumber)
          (fetchPullRequestFiles gh repoFullName pullNumber token)
      in (records, fold upsertPullRequestFile records table))"

section \<open>What the aggregate concludes\<close>

text \<open>A check as the aggregate sees it: its name, and whether it failed, succeeded or has not finished.\<close>

datatype CheckVerdict = check_failed | check_succeeded | check_unfinished

definition run_verdict :: "CheckRunPayload \<Rightarrow> CheckVerdict" where
  "run_verdict run =
     (let conclusion = toLowerCase (nullish (run_conclusion run) [])
      in if conclusion \<in> set CI_FAILING_CONCLUSIONS then check_failed
         else if conclusion \<in> set CI_PASSING_CONCLUSIONS
           \<or> conclusion = [] \<and> toLowerCase (nullish (run_status run) []) = ''completed'' then check_succeeded
         else check_unfinished)"

definition status_verdict :: "StatusPayload \<Rightarrow> CheckVerdict" where
  "status_verdict s =
     (let state = toLowerCase (nullish (stp_state s) [])
      in if state = ''failure'' \<or> state = ''error'' then check_failed
         else if state = ''success'' then check_succeeded else check_unfinished)"

definition checks_read :: "GithubReads \<Rightarrow> string \<Rightarrow> string \<Rightarrow> string option \<Rightarrow> (string \<times> CheckVerdict) list" where
  "checks_read gh repo sha token =
     map (\<lambda>r. (run_name r, run_verdict r)) (check_run_pages gh repo sha token 1 PR_DETAIL_MAX_PAGES)
     @ map (\<lambda>s. (status_name s, status_verdict s)) (commit_statuses gh repo sha token)"

definition gating_verdicts :: "string list option \<Rightarrow> (string \<times> CheckVerdict) list \<Rightarrow> CheckVerdict list" where
  "gating_verdicts required checks = map snd (filter (\<lambda>c. is_required required (fst c)) checks)"

text \<open>What a tally says, and how one more check changes it.\<close>

definition tallies :: "CiTally \<Rightarrow> nat \<Rightarrow> CheckVerdict list \<Rightarrow> bool" where
  "tallies t n verdicts \<longleftrightarrow> ct_total t = n \<and> (ct_failing t \<noteq> [] \<longleftrightarrow> check_failed \<in> set verdicts) \<and>
     (ct_anyPending t \<longleftrightarrow> check_unfinished \<in> set verdicts)"

lemma conclusions_nonempty: "[] \<notin> set CI_FAILING_CONCLUSIONS" "[] \<notin> set CI_PASSING_CONCLUSIONS"
  by (simp_all add: CI_FAILING_CONCLUSIONS_def CI_PASSING_CONCLUSIONS_def)

lemma toLowerCase_Nil: "toLowerCase [] = []"
  by simp

lemma tally_run_step:
  "tallies t n vs \<Longrightarrow>
     tallies (tally_run req run t) (Suc n) (vs @ (if req (run_name run) then [run_verdict run] else []))"
  using conclusions_nonempty
  by (auto simp: toLowerCase_Nil tallies_def tally_run_def run_verdict_def add_failing_def Let_def)

lemma tally_status_step:
  "tallies t n vs \<Longrightarrow>
     tallies (tally_status req s t) (Suc n) (vs @ (if req (status_name s) then [status_verdict s] else []))"
  by (auto simp: tallies_def tally_status_def status_verdict_def add_failing_def Let_def)

lemma tally_fold:
  assumes "\<And>x t n vs. tallies t n vs \<Longrightarrow> tallies (f x t) (Suc n) (vs @ (if req (name x) then [v x] else []))"
    and "tallies t n vs"
  shows "tallies (fold f xs t) (n + length xs) (vs @ map v (filter (\<lambda>x. req (name x)) xs))"
  using assms(2)
proof (induction xs arbitrary: t n vs)
  case (Cons x xs)
  from Cons.IH [OF assms(1) [OF Cons.prems, of x]] show ?case by (cases "req (name x)") simp_all
qed simp

lemma aggregate_tallies:
  assumes "sha \<noteq> []"
  shows "\<exists>t. lc_ciState (fetchLiveCiAggregate gh repo (Some sha) token required) = ci_state_of t \<and>
    tallies t (length (checks_read gh repo sha token)) (gating_verdicts required (checks_read gh repo sha token))"
proof -
  let ?req = "is_required required"
  let ?rs = "check_run_pages gh repo sha token 1 PR_DETAIL_MAX_PAGES"
  let ?ss = "commit_statuses gh repo sha token"
  have "tallies (fold (tally_run ?req) ?rs empty_tally) (0 + length ?rs)
      ([] @ map run_verdict (filter (\<lambda>r. ?req (run_name r)) ?rs))"
    by (rule tally_fold [OF tally_run_step]) (simp_all add: tallies_def empty_tally_def)
  then have "tallies (fold (tally_status ?req) ?ss (fold (tally_run ?req) ?rs empty_tally)) (length ?rs + length ?ss)
      (map run_verdict (filter (\<lambda>r. ?req (run_name r)) ?rs) @ map status_verdict (filter (\<lambda>s. ?req (status_name s)) ?ss))"
    by (intro tally_fold tally_status_step) simp_all
  moreover have "gating_verdicts required (checks_read gh repo sha token) =
      map run_verdict (filter (\<lambda>r. ?req (run_name r)) ?rs) @ map status_verdict (filter (\<lambda>s. ?req (status_name s)) ?ss)"
    by (simp add: gating_verdicts_def checks_read_def filter_map comp_def)
  ultimately show ?thesis
    using assms by (auto simp: fetchLiveCiAggregate_def truthy_def Let_def checks_read_def)
qed

lemma ci_state_verdicts:
  "tallies t n vs \<Longrightarrow> (n = 0 \<Longrightarrow> vs = []) \<Longrightarrow> ci_state_of t =
     (if check_failed \<in> set vs then ci_failed else if check_unfinished \<in> set vs then ci_pending
      else if n \<noteq> 0 then ci_passed else ci_unverified)"
  by (auto simp: tallies_def ci_state_of_def)

lemma ci_state_read:
  "sha \<noteq> [] \<Longrightarrow> lc_ciState (fetchLiveCiAggregate gh repo (Some sha) token required) =
     (let checks = checks_read gh repo sha token; gating = gating_verdicts required checks
      in if check_failed \<in> set gating then ci_failed else if check_unfinished \<in> set gating then ci_pending
         else if checks \<noteq> [] then ci_passed else ci_unverified)"
  using aggregate_tallies [of sha gh repo token required] ci_state_verdicts
  by (fastforce simp: Let_def gating_verdicts_def)

lemma verdicts_succeeded: "list_all (\<lambda>v. v = check_succeeded) vs \<longleftrightarrow> check_failed \<notin> set vs \<and> check_unfinished \<notin> set vs"
  by (induction vs) (auto, metis CheckVerdict.exhaust)

text \<open>
  C8: the CI verdict is exact over what was read. It is failed when a gating check failed, pending when none
  failed but one has not finished, unverified when no check at all was read, and passed exactly
  when some check was read and every gating check succeeded. A gating check is a required one, or
  any one when the required contexts are unknown or empty.
\<close>

theorem ci_verdict_exact:
  "let checks = checks_read gh repo (c # sha) token; gating = gating_verdicts required checks;
       state = lc_ciState (fetchLiveCiAggregate gh repo (Some (c # sha)) token required)
   in (state = ci_failed \<longleftrightarrow> check_failed \<in> set gating) \<and>
      (state = ci_pending \<longleftrightarrow> check_failed \<notin> set gating \<and> check_unfinished \<in> set gating) \<and>
      (state = ci_passed \<longleftrightarrow> checks \<noteq> [] \<and> list_all (\<lambda>v. v = check_succeeded) gating) \<and>
      (state = ci_unverified \<longleftrightarrow> checks = [])"
proof -
  have "gating_verdicts required [] = []" by (simp add: gating_verdicts_def)
  then show ?thesis
    by (auto simp: ci_state_read [of "c # sha"] verdicts_succeeded Let_def)
qed

text \<open>
  A required check that has not reported is not missed: when the check runs cannot be read and some
  other check succeeded, the aggregate is passed.
\<close>

lemma unread_required_check_passes:
  assumes "githubJsonWithHeaders gh repo (''/commits/'' @ sha @ ''/check-runs?per_page=100&page='' @ nat_str 1) token = None"
    and "sha \<noteq> []" and "commit_statuses gh repo sha token \<noteq> []"
    and "list_all (\<lambda>s. status_verdict s = check_succeeded) (commit_statuses gh repo sha token)"
  shows "lc_ciState (fetchLiveCiAggregate gh repo (Some sha) token (Some [''build''])) = ci_passed"
proof -
  have "check_run_pages gh repo sha token 1 PR_DETAIL_MAX_PAGES = []"
    using assms(1) check_run_pages.simps(2) [of gh repo sha token 1 9] by (simp add: PR_DETAIL_MAX_PAGES_def)
  then show ?thesis
    using assms(2-) by (auto simp: ci_state_read checks_read_def gating_verdicts_def Let_def list_all_iff)
qed

end
