(* ===== verification/Auto_Maintain.thy ===== *)
theory Auto_Maintain
  imports Ci_Status Agent_Executor Predicted_Gate
begin

text \<open>
  The maintenance pass of the queue, \<open>queue/processors.ts\<close>: what is gathered about a pull request,
  how the planner and the executor are run on it, and when a review is deferred; and the selection
  of the pull requests a scheduled sweep looks at again, \<open>settings/agent-sweep.ts\<close>. The last part
  composes the guardrail, the gate, the CI aggregate, the planner and the executor: what must hold
  for a merge request to reach GitHub.
\<close>

section \<open>The environment of a pass\<close>

text \<open>
  GitHub as the pass reads it, the value of an installation token, the KV binding of the
  configuration, and the installations in the database with their permissions.
\<close>

record MaintenanceEnv =
  me_reads :: GithubReads
  me_installationToken :: "nat \<Rightarrow> string"
  me_reviewConfig :: "review_config option"
  me_installations :: "(nat \<times> (string \<rightharpoonup> string)) list"

record MaintenanceArgs =
  ma_installationId :: nat
  ma_repoFullName :: string
  ma_repo :: "RepositoryRecord option"
  ma_prNumber :: nat
  ma_settings :: RepositorySettings
  ma_otherOpenPullRequests :: "PullRequestRecord list"
  ma_gate :: "GateCheckEvaluation option"

text \<open>\<open>createInstallationToken(...).catch(() => undefined)\<close>, then the public token.\<close>

definition read_token :: "MaintenanceEnv \<Rightarrow> nat \<Rightarrow> World \<Rightarrow> string option \<times> World" where
  "read_token env installationId w =
     (case createInstallationToken installationId w of
        (Inr _, w') \<Rightarrow> (Some (me_installationToken env installationId), w')
      | (Inl _, w') \<Rightarrow> (rd_publicToken (me_reads env), w'))"

section \<open>The changed files\<close>

definition resolvePullRequestFilesForReview ::
    "MaintenanceEnv \<Rightarrow> nat \<Rightarrow> string \<Rightarrow> nat \<Rightarrow> PullRequestFileRecord list \<Rightarrow> World \<Rightarrow>
      PullRequestFileRecord list \<times> PullRequestFileRecord list \<times> World" where
  "resolvePullRequestFilesForReview env installationId repoFullName pullNumber table w =
     (let stored = listPullRequestFiles repoFullName pullNumber table
      in if stored \<noteq> [] then (stored, table, w)
         else
           (let (token, w1) = read_token env installationId w;
                (fetched, table1) = fetchAndStorePullRequestFilesForReview (me_reads env) repoFullName pullNumber token table
            in (fetched, table1, w1)))"

definition changedPathsForGuardrail :: "PullRequestFileRecord list \<Rightarrow> string list" where
  "changedPathsForGuardrail files =
     dedupe (filter (\<lambda>p. p \<noteq> []) (concat (map (\<lambda>f. file_path f # opt_list (file_previousFilename f)) files)))"

section \<open>The maintenance pass\<close>

definition owner_of :: "string \<Rightarrow> string" where
  "owner_of repoFullName = (if CHR ''/'' \<in> set repoFullName then hd (split_on CHR ''/'' repoFullName) else [])"

definition author_is_owner :: "string \<Rightarrow> PullRequestRecord \<Rightarrow> bool" where
  "author_is_owner repoFullName pr \<longleftrightarrow>
     nullish (pr_authorLogin pr) [] \<noteq> [] \<and> toLowerCase (nullish (pr_authorLogin pr) []) = toLowerCase (owner_of repoFullName)"

definition required_contexts :: "MaintenanceEnv \<Rightarrow> MaintenanceArgs \<Rightarrow> PullRequestRecord \<Rightarrow> string option \<Rightarrow> string list option" where
  "required_contexts env args pr token =
     fetchRequiredStatusContexts (me_reads env) (ma_repoFullName args)
       (orElse (pr_baseRef pr) (Option.bind (ma_repo args) repo_defaultBranch)) token"

definition live_ci :: "MaintenanceEnv \<Rightarrow> MaintenanceArgs \<Rightarrow> PullRequestRecord \<Rightarrow> string option \<Rightarrow> LiveCiAggregate" where
  "live_ci env args pr token =
     fetchLiveCiAggregate (me_reads env) (ma_repoFullName args) (pr_headSha pr) token (required_contexts env args pr token)"

definition maintenance_input ::
    "MaintenanceEnv \<Rightarrow> MaintenanceArgs \<Rightarrow> PullRequestRecord \<Rightarrow> GateCheckEvaluation \<Rightarrow> string option \<Rightarrow>
      PullRequestFileRecord list \<Rightarrow> AgentActionPlanInput" where
  "maintenance_input env args pr gate token files =
     (let repo = ma_repoFullName args; settings = ma_settings args; ci = live_ci env args pr token
      in \<lparr>ap_conclusion = ge_conclusion gate, blockerTitles = map f_title (ge_blockers gate),
          ap_autonomy = Some (rs_autonomy settings), autoMaintain = Some (rs_autoMaintain settings),
          ap_slopGateMinScore = rs_slopGateMinScore settings,
          changedPaths = changedPathsForGuardrail files,
          hardGuardrailGlobs = loadHardGuardrailGlobs (me_reviewConfig env) repo,
          authorIsOwner = author_is_owner repo pr,
          authorIsAutomationBot = isProtectedAutomationAuthor (pr_authorLogin pr),
          ciState = lc_ciState ci, failingCheckNames = Some (map cd_name (lc_failingDetails ci)),
          ap_pr = \<lparr>mergeableState = orElse (fetchLivePullRequestMergeState (me_reads env) repo (pr_number pr) token) (pr_mergeableState pr),
            reviewDecision = orElse (fetchLivePullRequestReviewDecision (me_reads env) repo (pr_number pr) token) (pr_reviewDecision pr),
            ap_slopRisk = pr_slopRisk pr, labels = pr_labels pr,
            linkedDuplicateCount = Some (length (linkedIssueDuplicatePullRequestsForGate pr (ma_otherOpenPullRequests args))),
            headSha = pr_headSha pr, mergeBlockedSha = pr_mergeBlockedSha pr\<rparr>\<rparr>)"

definition maintenance_context :: "MaintenanceEnv \<Rightarrow> MaintenanceArgs \<Rightarrow> PullRequestRecord \<Rightarrow> AgentActionExecutionContext" where
  "maintenance_context env args pr =
     \<lparr>ctx_installationId = ma_installationId args, ctx_repoFullName = ma_repoFullName args,
      exec_pullNumber = pr_number pr, ctx_headSha = pr_headSha pr,
      ctx_autonomy = Some (rs_autonomy (ma_settings args)), ctx_agentPaused = Some (rs_agentPaused (ma_settings args)),
      ctx_agentDryRun = Some (rs_agentDryRun (ma_settings args)),
      ctx_installationPermissions = map_of (me_installations env) (ma_installationId args),
      ctx_authorLogin = pr_authorLogin pr\<rparr>"

definition maybeRunAgentMaintenance ::
    "MaintenanceEnv \<Rightarrow> MaintenanceArgs \<Rightarrow> PullRequestFileRecord list \<Rightarrow> World \<Rightarrow> PullRequestFileRecord list \<times> World" where
  "maybeRunAgentMaintenance env args table w =
     (if \<not> isAgentConfigured (Some (rs_autonomy (ma_settings args))) then (table, w)
      else
        (case getPullRequest (ma_repoFullName args) (ma_prNumber args) (db w) of
           None \<Rightarrow> (table, w)
         | Some pr \<Rightarrow>
             if pr_state pr \<noteq> ''open'' then (table, w)
             else
               (case ma_gate args of
                  None \<Rightarrow> (table, w)
                | Some gate \<Rightarrow>
                    (let (token, w1) = read_token env (ma_installationId args) w;
                         (files, table1, w2) =
                           resolvePullRequestFilesForReview env (ma_installationId args) (ma_repoFullName args) (pr_number pr) table w1;
                         planned = planAgentMaintenanceActions (maintenance_input env args pr gate token files)
                     in if planned = [] then (table1, w2)
                        else (table1, snd (executeAgentMaintenanceActions (maintenance_context env args pr) planned w2))))))"

section \<open>Deferring a review\<close>

definition pr_event :: "string \<Rightarrow> string \<Rightarrow> nat \<Rightarrow> AuditOutcome \<Rightarrow> string \<Rightarrow> string \<Rightarrow> AuditEventRecord" where
  "pr_event kind repoFullName n result why deliveryId =
     \<lparr>ae_eventType = kind, ae_actor = Some ''gittensory'', ae_targetKey = Some (repoFullName @ ''#'' @ nat_str n),
      ae_outcome = result, ae_detail = Some why,
      ae_metadata = [(''deliveryId'', JString deliveryId), (''repoFullName'', JString repoFullName)]\<rparr>"

definition deferred_for_ci :: "MaintenanceEnv \<Rightarrow> string \<Rightarrow> PullRequestRecord \<Rightarrow> string \<Rightarrow> bool" where
  "deferred_for_ci env repoFullName pr token \<longleftrightarrow>
     lc_ciState (fetchLiveCiAggregate (me_reads env) repoFullName (pr_headSha pr) (Some token)
       (fetchRequiredStatusContexts (me_reads env) repoFullName (pr_baseRef pr) (Some token))) = ci_pending"

definition wait_for_ci :: "MaintenanceEnv \<Rightarrow> string \<Rightarrow> PullRequestRecord \<Rightarrow> string \<Rightarrow> string \<Rightarrow> World \<Rightarrow> bool \<times> World" where
  "wait_for_ci env repoFullName pr token deliveryId w =
     (if deferred_for_ci env repoFullName pr token
      then (False, w\<lparr>db := recordAuditEvent (pr_event ''github_app.review_deferred_ci_pending'' repoFullName (pr_number pr)
             Audit_queued (''CI still running '' @ em_dash @ '' review deferred until all checks finish'') deliveryId) (db w)\<rparr>)
      else (True, w))"

definition prReadyForReview ::
    "MaintenanceEnv \<Rightarrow> nat \<Rightarrow> string \<Rightarrow> PullRequestRecord \<Rightarrow> RepositorySettings \<Rightarrow> string \<Rightarrow> World \<Rightarrow> bool \<times> World" where
  "prReadyForReview env installationId repoFullName pr settings deliveryId w =
     (if \<not> isAgentConfigured (Some (rs_autonomy settings)) \<or> pr_isDraft pr = Some True \<or> Github_Actions.truthy (pr_headSha pr) = None
         \<or> pr_state pr \<noteq> ''open'' then (True, w)
      else
        (let (found, w1) = read_token env installationId w
         in case Github_Actions.truthy found of
              None \<Rightarrow> (True, w1)
            | Some token \<Rightarrow>
                if fetchLivePullRequestMergeState (me_reads env) repoFullName (pr_number pr) (Some token) = Some ''behind''
                then
                  (case updatePullRequestBranch installationId repoFullName (pr_number pr) (pr_headSha pr) w1 of
                     (Inr _, w2) \<Rightarrow>
                       (False, w2\<lparr>db := recordAuditEvent (pr_event ''github_app.pr_branch_updated'' repoFullName (pr_number pr)
                          Audit_completed ''behind base; update-branch issued before review'' deliveryId) (db w2)\<rparr>)
                   | (Inl _, w2) \<Rightarrow> wait_for_ci env repoFullName pr token deliveryId w2)
                else wait_for_ci env repoFullName pr token deliveryId w1))"

section \<open>The scheduled sweep\<close>

definition SWEEP_MAX_PRS :: nat where "SWEEP_MAX_PRS = 25"
definition SWEEP_FRESHNESS_MS :: int where "SWEEP_FRESHNESS_MS = 2 * 60 * 1000"

text \<open>\<open>parse_date\<close> is \<open>Date.parse\<close>, \<open>None\<close> for NaN.\<close>

definition staleness :: "(string \<Rightarrow> int option) \<Rightarrow> PullRequestRecord \<Rightarrow> int" where
  "staleness parse_date pr = nullish (Option.bind (Github_Actions.truthy (pr_updatedAt pr)) parse_date) 0"

definition sweep_order :: "(string \<Rightarrow> int option) \<Rightarrow> PullRequestRecord \<Rightarrow> PullRequestRecord \<Rightarrow> bool" where
  "sweep_order parse_date a b \<longleftrightarrow>
     staleness parse_date a < staleness parse_date b \<or> staleness parse_date a = staleness parse_date b \<and> pr_number a \<le> pr_number b"

definition sweepable :: "(string \<Rightarrow> int option) \<Rightarrow> int option \<Rightarrow> PullRequestRecord \<Rightarrow> bool" where
  "sweepable parse_date freshCutoff pr \<longleftrightarrow>
     pr_state pr = ''open'' \<and> pr_isDraft pr \<noteq> Some True \<and>
     (case freshCutoff of None \<Rightarrow> True | Some cutoff \<Rightarrow> staleness parse_date pr \<le> cutoff)"

definition selectRegateCandidates ::
    "(string \<Rightarrow> int option) \<Rightarrow> PullRequestRecord list \<Rightarrow> string \<Rightarrow> int option \<Rightarrow> int option \<Rightarrow> PullRequestRecord list" where
  "selectRegateCandidates parse_date pulls now freshnessWindowMs maximum =
     (let freshCutoff = map_option (\<lambda>n. n - nullish freshnessWindowMs SWEEP_FRESHNESS_MS) (parse_date now)
      in take (nat (max 0 (nullish maximum (int SWEEP_MAX_PRS))))
           (sort_by (sweep_order parse_date) (filter (sweepable parse_date freshCutoff) pulls)))"

section \<open>Which requests a run sends\<close>

text \<open>An effect that only adds requests of a kind.\<close>

definition sends :: "(GhRequest \<Rightarrow> bool) \<Rightarrow> 'a effect \<Rightarrow> bool" where
  "sends P m \<longleftrightarrow> (\<forall>w. \<exists>rs. gh_log (snd (m w)) = gh_log w @ rs \<and> list_all P rs)"

lemma sendsI: "(\<And>w. \<exists>rs. gh_log (snd (m w)) = gh_log w @ rs \<and> list_all P rs) \<Longrightarrow> sends P m"
  by (simp add: sends_def)

lemma sends_request: "P r \<Longrightarrow> sends P (request r)"
  by (simp add: sends_def request_def)

lemma sends_none: "sends P (return x)" "sends P (throw e)"
  by (simp_all add: sends_def return_def throw_def)

lemma sends_andThen:
  assumes "sends P m" and "\<And>x. sends P (k x)"
  shows "sends P (andThen m k)"
proof (rule sendsI)
  fix w
  obtain rs where m: "gh_log (snd (m w)) = gh_log w @ rs" "list_all P rs" using assms(1) by (auto simp: sends_def)
  show "\<exists>rs. gh_log (snd (andThen m k w)) = gh_log w @ rs \<and> list_all P rs"
  proof (cases "fst (m w)")
    case (Inl e)
    with m show ?thesis by (auto simp: andThen_def split: prod.splits)
  next
    case (Inr x)
    obtain rs' where "gh_log (snd (k x (snd (m w)))) = gh_log (snd (m w)) @ rs'" "list_all P rs'"
      using assms(2) [of x] by (auto simp: sends_def)
    with m Inr show ?thesis by (auto simp: andThen_def intro!: exI [of _ "rs @ rs'"] split: prod.splits)
  qed
qed

lemma sends_splitRepo: "sends P (splitRepo name)"
  by (auto simp: splitRepo_def sends_none split: list.split)

lemma sends_if: "sends P m \<Longrightarrow> sends P m' \<Longrightarrow> sends P (if b then m else m')"
  by simp

lemma sends_createMissing: "P (Req_create_label owner repo l) \<Longrightarrow> sends P (createMissing owner repo l)"
  by (auto simp: sends_def createMissing_def request_def split: sum.split)

lemma sends_token: "P (Req_token i) \<Longrightarrow> sends P (createInstallationToken i)"
  by (auto simp: sends_def createInstallationToken_def andThen_def request_def return_def split: sum.split)

lemmas sends_intros = sends_andThen sends_none sends_splitRepo sends_if sends_token sends_createMissing sends_request

text \<open>A request that is no merge, or the merge of this head of this pull request.\<close>

fun merges_only :: "nat \<Rightarrow> string option \<Rightarrow> GhRequest \<Rightarrow> bool" where
  "merges_only n sha (Req_merge owner repo m how s) \<longleftrightarrow> m = n \<and> s = sha"
| "merges_only n sha _ \<longleftrightarrow> True"

fun is_merge_request :: "GhRequest \<Rightarrow> bool" where
  "is_merge_request (Req_merge owner repo m how s) = True"
| "is_merge_request _ = False"

lemma sends_prod: "(\<And>a b. sends P (k a b)) \<Longrightarrow> sends P (case x of (a, b) \<Rightarrow> k a b)"
  by (cases x) simp

lemma sends_pr_actions:
  assumes "\<And>r. \<not> is_merge_request r \<Longrightarrow> P r"
  shows "sends P (createPullRequestReview i f n ev b)" "sends P (createIssueComment i f n b)"
    "sends P (closePullRequest i f n)" "sends P (ensurePullRequestLabel i f n l c)"
    "(\<And>owner repo. P (Req_merge owner repo n m (Github_Actions.truthy h))) \<Longrightarrow> sends P (mergePullRequest i f n m h)"
  unfolding pr_action_defs by (intro sends_intros sends_prod; simp add: assms)+

lemma perform_sends:
  assumes "\<And>r. \<not> is_merge_request r \<Longrightarrow> P r"
    and "actionClass a = merge \<Longrightarrow> \<forall>owner repo how. P (Req_merge owner repo (exec_pullNumber ctx) how (Github_Actions.truthy (ctx_headSha ctx)))"
  shows "sends P (performAction ctx a)"
proof -
  have "Github_Actions.truthy (Github_Actions.truthy h) = Github_Actions.truthy h" for h by (simp add: Github_Actions.truthy_def)
  then show ?thesis
    using assms(2)
    by (cases "actionClass a"; cases "Github_Actions.truthy (pa_closeComment a)")
      (simp_all add: performAction_def sends_pr_actions assms(1) sends_andThen sends_none)
qed

text \<open>The merges of a run are those of its cleared merge actions, of the head it was given.\<close>

definition merge_earned :: "AgentActionExecutionContext \<Rightarrow> AgentActionMode \<Rightarrow> PlannedAgentAction list \<Rightarrow> GhRequest \<Rightarrow> bool" where
  "merge_earned ctx mode planned r \<longleftrightarrow>
     (case r of
        Req_merge owner repo n how sha \<Rightarrow>
          (\<exists>a\<in>set planned. actionClass a = merge \<and> cleared ctx mode a) \<and> n = exec_pullNumber ctx \<and> sha = Github_Actions.truthy (ctx_headSha ctx)
      | _ \<Rightarrow> True)"

lemma executeAction_sends:
  assumes "a \<in> set planned"
  shows "\<exists>rs. gh_log (snd (executeAction ctx mode a w)) = gh_log w @ rs \<and> list_all (merge_earned ctx mode planned) rs"
proof (cases "cleared ctx mode a")
  case True
  have "sends (merge_earned ctx mode planned) (performAction ctx a)"
  proof (rule perform_sends)
    show "merge_earned ctx mode planned r" if "\<not> is_merge_request r" for r
      using that by (cases r) (simp_all add: merge_earned_def)
    show "actionClass a = merge \<Longrightarrow> \<forall>owner repo how. merge_earned ctx mode planned
        (Req_merge owner repo (exec_pullNumber ctx) how (Github_Actions.truthy (ctx_headSha ctx)))"
      using assms True by (auto simp: merge_earned_def)
  qed
  moreover have "gh_log (snd (executeAction ctx mode a w)) = gh_log (snd (performAction ctx a w))"
    using executeAction_gh [of ctx mode a w] True by (simp add: gh_part_def)
  ultimately show ?thesis by (simp add: sends_def)
next
  case False
  then show ?thesis using executeAction_gh [of ctx mode a w] by (simp add: gh_part_def)
qed

lemma executeAll_sends:
  "set rest \<subseteq> set planned \<Longrightarrow>
     \<exists>rs. gh_log (snd (executeAll ctx mode rest w)) = gh_log w @ rs \<and> list_all (merge_earned ctx mode planned) rs"
proof (induction rest arbitrary: w)
  case (Cons a rest)
  obtain rs where 1: "gh_log (snd (executeAction ctx mode a w)) = gh_log w @ rs" "list_all (merge_earned ctx mode planned) rs"
    using executeAction_sends [of a planned ctx mode w] Cons.prems by auto
  obtain rs' where 2: "gh_log (snd (executeAll ctx mode rest (snd (executeAction ctx mode a w)))) =
      gh_log (snd (executeAction ctx mode a w)) @ rs'" "list_all (merge_earned ctx mode planned) rs'"
    using Cons by auto
  show ?case unfolding executeAll_Cons by (rule exI [of _ "rs @ rs'"]) (simp add: 1 2)
qed simp

lemma read_token_sends:
  "\<exists>rs. gh_log (snd (read_token env i w)) = gh_log w @ rs \<and> list_all (\<lambda>r. \<not> is_merge_request r) rs"
  using sends_token [of "\<lambda>r. \<not> is_merge_request r" i]
  by (auto simp: read_token_def sends_def split: prod.splits sum.splits) (metis snd_conv)+

lemma read_token_local: "db (snd (read_token env i w)) = db w" "AGENT_ACTIONS_PAUSED (snd (read_token env i w)) = AGENT_ACTIONS_PAUSED w"
  using gh_onlyD [OF gh_only_token, of i w] by (auto simp: read_token_def split: prod.splits sum.splits)

lemma resolve_sends:
  "\<exists>rs. gh_log (snd (snd (resolvePullRequestFilesForReview env i repo n table w))) = gh_log w @ rs \<and>
     list_all (\<lambda>r. \<not> is_merge_request r) rs"
  using read_token_sends [of env i w]
  by (auto simp: resolvePullRequestFilesForReview_def Let_def split: prod.splits)

lemma resolve_local:
  "AGENT_ACTIONS_PAUSED (snd (snd (resolvePullRequestFilesForReview env i repo n table w))) = AGENT_ACTIONS_PAUSED w"
  using read_token_local [of env i w]
  by (auto simp: resolvePullRequestFilesForReview_def Let_def split: prod.splits)

section \<open>Properties\<close>

lemma execution_live: "execution_mode ctx w = live \<longleftrightarrow> \<not> isGlobalAgentPause (AGENT_ACTIONS_PAUSED w) \<and>
    ctx_agentPaused ctx \<noteq> Some True \<and> ctx_agentDryRun ctx \<noteq> Some True"
  by (simp add: execution_mode_def resolveAgentActionMode_def)

lemma cleared_merge:
  assumes "a \<in> set (planAgentMaintenanceActions i)" and "actionClass a = merge" and "cleared ctx mode a"
    and "ctx_autonomy ctx = ap_autonomy i"
  shows "canMerge i \<and> resolveAutonomy (ap_autonomy i) merge = auto \<and> mode = live \<and> \<not> lacks_write_permission ctx merge"
proof -
  have "a \<in> set (disposition_actions i)"
    using assms(1,2) label_actions_class [of a i] approve_actions_class [of a i]
    by (auto simp: planAgentMaintenanceActions_def split: if_splits)
  then have "canMerge i" "requiresApproval a = approval i merge"
    using disposition_actions_class [of a i] assms(2) by auto
  then show ?thesis
    using assms(2-4)
    by (cases "resolveAutonomy (ap_autonomy i) merge")
      (auto simp: cleared_def approval_def plan_level_def autonomyRequiresApproval_def isActingAutonomyLevel_def)
qed

lemma no_merge_in: "list_all (\<lambda>r. \<not> is_merge_request r) rs \<Longrightarrow> Req_merge owner name n how sha \<notin> set rs"
  by (auto simp: list_all_iff)

text \<open>
  C1: no merge is sent that was not earned. A merge request that a maintenance pass sends to GitHub
  is for the stored open pull request of the pass and for the head stored with it, and at that
  moment: the gate passed, every gating check read from GitHub for that head succeeded, the changed
  files are known and none of their paths, old names included, matches a guardrail glob, the branch
  was reported clean, the policy merges without approval, the write permission is granted, no
  pause or dry run is in force, and no earlier merge of this head was terminally refused.
\<close>

theorem merge_is_earned:
  assumes "Req_merge owner name n how sha \<in> set (drop (length (gh_log w)) (gh_log (snd (maybeRunAgentMaintenance env args table w))))"
  shows "\<exists>gate pr token files input. ma_gate args = Some gate \<and>
    getPullRequest (ma_repoFullName args) (ma_prNumber args) (db w) = Some pr \<and> pr_state pr = ''open'' \<and>
    token = fst (read_token env (ma_installationId args) w) \<and>
    files = fst (resolvePullRequestFilesForReview env (ma_installationId args) (ma_repoFullName args) (pr_number pr) table
      (snd (read_token env (ma_installationId args) w))) \<and>
    input = maintenance_input env args pr gate token files \<and>
    n = pr_number pr \<and> sha = pr_headSha pr \<and> pr_headSha pr \<notin> {None, Some []} \<and> pr_mergeBlockedSha pr \<noteq> pr_headSha pr \<and>
    ge_conclusion gate = gc_success \<and> lc_ciState (live_ci env args pr token) = ci_passed \<and>
    changedPathsForGuardrail files \<noteq> [] \<and>
    list_all (\<lambda>p. \<not> matchesAny p (loadHardGuardrailGlobs (me_reviewConfig env) (ma_repoFullName args))) (changedPathsForGuardrail files) \<and>
    mergeableState (ap_pr input) = Some ''clean'' \<and> approvalsSatisfied input \<and>
    resolveAutonomy (Some (rs_autonomy (ma_settings args))) merge = auto \<and>
    \<not> lacks_write_permission (maintenance_context env args pr) merge \<and>
    \<not> isGlobalAgentPause (AGENT_ACTIONS_PAUSED w) \<and> \<not> rs_agentPaused (ma_settings args) \<and> \<not> rs_agentDryRun (ma_settings args)"
proof -
  obtain gate pr where gate: "ma_gate args = Some gate"
    and pr: "getPullRequest (ma_repoFullName args) (ma_prNumber args) (db w) = Some pr" "pr_state pr = ''open''"
    and conf: "isAgentConfigured (Some (rs_autonomy (ma_settings args)))"
    using assms by (auto simp: maybeRunAgentMaintenance_def split: if_splits option.splits)
  obtain token w1 where token: "read_token env (ma_installationId args) w = (token, w1)" by fastforce
  obtain files table1 w2 where files: "resolvePullRequestFilesForReview env (ma_installationId args) (ma_repoFullName args)
      (pr_number pr) table w1 = (files, table1, w2)" by (metis prod_cases3)
  define input where "input = maintenance_input env args pr gate token files"
  define ctx where "ctx = maintenance_context env args pr"
  define planned where "planned = planAgentMaintenanceActions input"
  obtain rs1 rs2 where log2: "gh_log w2 = gh_log w @ rs1 @ rs2"
    "list_all (\<lambda>r. \<not> is_merge_request r) (rs1 @ rs2)"
    using read_token_sends [of env "ma_installationId args" w] token
      resolve_sends [of env "ma_installationId args" "ma_repoFullName args" "pr_number pr" table w1] files by auto
  obtain rs3 where log3: "gh_log (snd (executeAgentMaintenanceActions ctx planned w2)) = gh_log w2 @ rs3"
    "list_all (merge_earned ctx (execution_mode ctx w2) planned) rs3"
    using executeAll_sends [of planned planned ctx "execution_mode ctx w2" w2]
    by (auto simp: executeAgentMaintenanceActions_def)
  have "snd (maybeRunAgentMaintenance env args table w) =
      (if planned = [] then w2 else snd (executeAgentMaintenanceActions ctx planned w2))"
    by (simp add: maybeRunAgentMaintenance_def conf pr gate token files planned_def input_def ctx_def)
  then have "Req_merge owner name n how sha \<in> set rs3"
    using assms log2 log3(1) no_merge_in [OF log2(2)] by (auto split: if_splits)
  then have "merge_earned ctx (execution_mode ctx w2) planned (Req_merge owner name n how sha)"
    using log3(2) by (auto simp: list_all_iff)
  then obtain a where a: "a \<in> set planned" "actionClass a = merge" "cleared ctx (execution_mode ctx w2) a"
    and ids: "n = exec_pullNumber ctx" "sha = Github_Actions.truthy (ctx_headSha ctx)"
    by (auto simp: merge_earned_def)
  have paused: "AGENT_ACTIONS_PAUSED w2 = AGENT_ACTIONS_PAUSED w"
    using resolve_local [of env "ma_installationId args" "ma_repoFullName args" "pr_number pr" table w1] files
      read_token_local [of env "ma_installationId args" w] token by simp
  have "ctx_autonomy ctx = ap_autonomy input" "ap_autonomy input = Some (rs_autonomy (ma_settings args))"
    by (simp_all add: ctx_def input_def maintenance_context_def maintenance_input_def Let_def)
  from cleared_merge [OF a [unfolded planned_def] this(1)] this(2)
  have can: "canMerge input" and level: "resolveAutonomy (Some (rs_autonomy (ma_settings args))) merge = auto"
    and mode: "execution_mode ctx w2 = live" and granted: "\<not> lacks_write_permission ctx merge" by auto
  have ci: "lc_ciState (live_ci env args pr token) = ci_passed"
    using can by (simp add: canMerge_def reviewGood_def input_def maintenance_input_def Let_def)
  then have head: "pr_headSha pr \<notin> {None, Some []}"
    by (auto simp: live_ci_def fetchLiveCiAggregate_def Github_Actions.truthy_def split: if_splits option.splits)
  have "loadHardGuardrailGlobs (me_reviewConfig env) (ma_repoFullName args) \<noteq> []"
    using guardrail_globs_fail_safe by blast
  then have guard: "changedPathsForGuardrail files \<noteq> []"
    "list_all (\<lambda>p. \<not> matchesAny p (loadHardGuardrailGlobs (me_reviewConfig env) (ma_repoFullName args))) (changedPathsForGuardrail files)"
    using can by (auto simp: canMerge_def guardrailHit_def guardrail_blocks_def input_def maintenance_input_def Let_def
        changedPathsHittingGuardrail_def filter_empty_conv list_all_iff changedPathsForGuardrail_def set_dedupe)
  have other: "ge_conclusion gate = gc_success" "mergeableState (ap_pr input) = Some ''clean''" "approvalsSatisfied input"
    "pr_mergeBlockedSha pr \<noteq> pr_headSha pr"
    using can head by (auto simp: canMerge_def reviewGood_def mergeTerminallyBlocked_def input_def maintenance_input_def Let_def)
  have "\<not> isGlobalAgentPause (AGENT_ACTIONS_PAUSED w) \<and> \<not> rs_agentPaused (ma_settings args) \<and> \<not> rs_agentDryRun (ma_settings args)"
    using mode paused by (simp add: execution_live ctx_def maintenance_context_def)
  moreover have "n = pr_number pr" "sha = pr_headSha pr"
    using ids head by (auto simp: ctx_def maintenance_context_def Github_Actions.truthy_def)
  ultimately show ?thesis
    using gate pr token files input_def ci head guard other level granted ctx_def by auto
qed

text \<open>A pass that merges: everything answers well, one unguarded file, and an open pull request at head \<open>a\<close>.\<close>

definition demo_body :: ApiBody where
  "demo_body = empty_body\<lparr>ab_check_runs := Some [\<lparr>run_name = ''build'', run_status = Some ''completed'',
     run_conclusion = Some ''success'', run_title = None, run_summary = None, run_details_url = None\<rparr>],
     ab_mergeable_state := Some ''clean''\<rparr>"

definition demo_maintenance :: MaintenanceEnv where
  "demo_maintenance = \<lparr>me_reads = \<lparr>rd_fetch = \<lambda>_ _. Some \<lparr>ar_status = 200, ar_body = Some demo_body, ar_link = None\<rparr>,
       rd_reviewDecision = \<lambda>_ _ _ _. None, rd_graphQlFiles = \<lambda>_ _ _ _. None, rd_publicToken = None\<rparr>,
     me_installationToken = \<lambda>_. ''t'',
     me_reviewConfig = Some (\<lambda>_. Inr (JObject [(''hardGuardrailGlobs'', JArray [JString ''ci/**''])])),
     me_installations = [(1, [''pull_requests'' \<mapsto> ''write''])]\<rparr>"

definition demo_gate :: GateCheckEvaluation where
  "demo_gate = \<lparr>ge_enabled = True, ge_conclusion = gc_success, ge_title = [], ge_summary = [], ge_blockers = [], ge_warnings = []\<rparr>"

definition demo_args :: MaintenanceArgs where
  "demo_args = \<lparr>ma_installationId = 1, ma_repoFullName = ''o/r'', ma_repo = None, ma_prNumber = 7,
     ma_settings = (default_settings ''o/r'')\<lparr>rs_autonomy := [merge \<mapsto> auto],
       rs_autoMaintain := \<lparr>am_requireApprovals = 0, am_mergeMethod = Squash\<rparr>\<rparr>,
     ma_otherOpenPullRequests = [], ma_gate = Some demo_gate\<rparr>"

definition demo_files :: "PullRequestFileRecord list" where
  "demo_files = [\<lparr>file_repoFullName = ''o/r'', file_pullNumber = 7, file_path = ''src/a.ts'', file_status = None,
     file_additions = 1, file_deletions = 0, file_changes = 1, file_previousFilename = None, file_payload = []\<rparr>]"

definition demo_world :: World where
  "demo_world = \<lparr>AGENT_ACTIONS_PAUSED = None, db = synced_store, token_cached = \<lambda>_ _. False, github = \<lambda>_ _. Inr [], gh_log = [], discord_log = []\<rparr>"

lemma demo_reads: "githubJsonWithHeaders (me_reads demo_maintenance) repo path token = Some (demo_body, None)"
  by (simp add: githubJsonWithHeaders_def demo_maintenance_def response_ok_def Let_def split: prod.split)

lemma demo_ci:
  assumes "pr_headSha pr = Some ''a''"
  shows "lc_ciState (live_ci demo_maintenance args pr token) = ci_passed"
proof -
  have "check_run_pages (me_reads demo_maintenance) repo sha token 1 PR_DETAIL_MAX_PAGES = nullish (ab_check_runs demo_body) []" for repo sha
    using check_run_pages.simps(2) [of "me_reads demo_maintenance" repo sha token 1 9]
    by (simp add: PR_DETAIL_MAX_PAGES_def demo_reads hasNextPage_def)
  moreover have "commit_statuses (me_reads demo_maintenance) repo sha token = []" for repo sha
    by (simp add: commit_statuses_def demo_reads demo_body_def empty_body_def)
  moreover have "list_all (\<lambda>r. run_verdict r = check_succeeded) (nullish (ab_check_runs demo_body) [])" by code_simp
  ultimately show ?thesis
    using assms by (auto simp: live_ci_def ci_state_read checks_read_def gating_verdicts_def Let_def demo_body_def list_all_iff)
qed

definition demo_pr :: PullRequestRecord where
  "demo_pr = toPullRequestRecordFromRow synced_row"

lemma demo_stored: "getPullRequest ''o/r'' 7 (db demo_world) = Some demo_pr"
  by (simp add: getPullRequest_def demo_world_def find_synced demo_pr_def)

lemma demo_pr_fields: "pr_number demo_pr = 7" "pr_headSha demo_pr = Some ''a''" "pr_state demo_pr = ''open''"
    "pr_mergeBlockedSha demo_pr = None" "pr_authorLogin demo_pr = Some ''ada''"
  by (simp_all add: demo_pr_def toPullRequestRecordFromRow_def synced_row_def new_pull_row_def sync_payload_def)

lemma demo_args_fields: "ma_installationId demo_args = 1" "ma_repoFullName demo_args = ''o/r''" "ma_prNumber demo_args = 7"
    "ma_gate demo_args = Some demo_gate" "rs_autonomy (ma_settings demo_args) = [merge \<mapsto> auto]"
  by (simp_all add: demo_args_def)

definition demo_input :: "string option \<Rightarrow> AgentActionPlanInput" where
  "demo_input token = maintenance_input demo_maintenance demo_args demo_pr demo_gate token demo_files"

lemma demo_unguarded: "\<not> guardrailHit (demo_input token)"
proof -
  have "loadHardGuardrailGlobs (me_reviewConfig demo_maintenance) ''o/r'' = [''ci/**'']" by code_simp
  moreover have "changedPathsForGuardrail demo_files = [''src/a.ts'']" by code_simp
  moreover have "\<not> guardrail_blocks changedPathsHittingGuardrail [''src/a.ts''] [''ci/**'']" by code_simp
  ultimately show ?thesis by (simp add: guardrailHit_def demo_input_def maintenance_input_def demo_args_def Let_def)
qed

lemma demo_plan: "planAgentMaintenanceActions (demo_input token) = disposition_actions (demo_input token)"
    "canMerge (demo_input token)" "\<not> approval (demo_input token) merge" "am_mergeMethod (plan_maintain (demo_input token)) = Squash"
proof -
  let ?i = "demo_input token"
  have fields: "ap_conclusion ?i = gc_success" "ciState ?i = ci_passed" "mergeableState (ap_pr ?i) = Some ''clean''"
    "mergeBlockedSha (ap_pr ?i) = None" "plan_maintain ?i = \<lparr>am_requireApprovals = 0, am_mergeMethod = Squash\<rparr>"
    by (simp_all add: demo_input_def maintenance_input_def demo_args_def demo_gate_def demo_ci demo_pr_fields Let_def orElse_def
        fetchLivePullRequestMergeState_def demo_reads demo_body_def plan_maintain_def)
  have level: "plan_level ?i c = (if c = merge then auto else observe)" for c
    by (simp add: demo_input_def maintenance_input_def demo_args_def plan_level_def resolveAutonomy_def DEFAULT_AUTONOMY_LEVEL_def Let_def)
  then have acting: "acting ?i c \<longleftrightarrow> c = merge" for c
    by (simp add: acting_def isActingAutonomyLevel_def)
  show can: "canMerge ?i"
    by (simp add: canMerge_def reviewGood_def fields acting demo_unguarded approvalsSatisfied_def mergeTerminallyBlocked_def)
  show "planAgentMaintenanceActions ?i = disposition_actions ?i"
    using label_actions_image [of ?i] approve_actions_image [of ?i]
    by (simp add: planAgentMaintenanceActions_def fields acting)
  show "\<not> approval ?i merge" by (simp add: approval_def level autonomyRequiresApproval_def)
  show "am_mergeMethod (plan_maintain ?i) = Squash" by (simp add: fields)
qed

lemma demo_merges:
  "Req_merge ''o'' ''r'' 7 Squash (Some ''a'')
     \<in> set (drop (length (gh_log demo_world)) (gh_log (snd (maybeRunAgentMaintenance demo_maintenance demo_args demo_files demo_world))))"
proof -
  define w1 where "w1 = demo_world\<lparr>gh_log := [Req_token 1]\<rparr>"
  have "read_token demo_maintenance 1 demo_world = (Some ''t'', w1)"
    by (simp add: read_token_def createInstallationToken_def andThen_def request_def return_def demo_world_def demo_maintenance_def w1_def)
  moreover have "resolvePullRequestFilesForReview demo_maintenance 1 ''o/r'' 7 demo_files w1 = (demo_files, demo_files, w1)"
    by (simp add: resolvePullRequestFilesForReview_def listPullRequestFiles_def demo_files_def Let_def)
  moreover obtain a where a: "disposition_actions (demo_input (Some ''t'')) = [a]" "actionClass a = merge" "\<not> requiresApproval a"
    "pa_mergeMethod a = Some Squash"
    using demo_plan(2-4) [of "Some ''t''"] by (simp add: disposition_actions_def)
  moreover have "planAgentMaintenanceActions (maintenance_input demo_maintenance demo_args demo_pr demo_gate (Some ''t'') demo_files) = [a]"
    using demo_plan(1) [of "Some ''t''"] a(1) by (simp add: demo_input_def)
  moreover have "isAgentConfigured (Some [merge \<mapsto> auto])"
    by (auto simp: isAgentConfigured_iff resolveAutonomy_def isActingAutonomyLevel_def intro: exI [of _ merge])
  ultimately have run: "snd (maybeRunAgentMaintenance demo_maintenance demo_args demo_files demo_world) =
      snd (executeAgentMaintenanceActions (maintenance_context demo_maintenance demo_args demo_pr) [a] w1)"
    by (simp add: maybeRunAgentMaintenance_def demo_args_fields demo_stored demo_pr_fields)
  let ?ctx = "maintenance_context demo_maintenance demo_args demo_pr"
  have "cleared ?ctx live a"
    using a by (simp add: cleared_def maintenance_context_def demo_args_def demo_maintenance_def lacks_write_permission_def
        resolveAgentPermissionReadiness_def agentRequiresPrWrite_def PR_WRITE_ACTION_CLASSES_def PR_WRITE_CLASSES_def
        isActingAutonomyLevel_def resolveAutonomy_def)
  moreover have "execution_mode ?ctx w1 = live"
    by (simp add: execution_live w1_def demo_world_def maintenance_context_def demo_args_def default_settings_def isGlobalAgentPause_def truthy_flag_def toLowerCase_def trim_def)
  moreover have "gh_log (snd (performAction ?ctx a w1)) = [Req_token 1, Req_token 1, Req_merge ''o'' ''r'' 7 Squash (Some ''a'')]"
    using a by (simp add: performAction_def mergePullRequest_def splitRepo_def createInstallationToken_def andThen_def request_def
        return_def w1_def demo_world_def maintenance_context_def demo_args_def demo_pr_fields Github_Actions.truthy_def)
  moreover have "gh_log demo_world = []"
    by (simp add: demo_world_def)
  ultimately show ?thesis
    using executeAction_gh [of ?ctx live a w1]
    by (auto simp: run executeAgentMaintenanceActions_def executeAll_Cons gh_part_def split: prod.split)
qed

theorem merge_is_earned_witness:
  "\<exists>pr. getPullRequest ''o/r'' 7 (db demo_world) = Some pr \<and> pr_headSha pr = Some ''a'' \<and>
     lc_ciState (live_ci demo_maintenance demo_args pr (fst (read_token demo_maintenance 1 demo_world))) = ci_passed"
  using merge_is_earned [OF demo_merges] by (auto simp: demo_args_def)

text \<open>
  A sweep takes the stalest. The batch has at most 25 pull requests, each open, no draft and
  not updated within the last two minutes; it is in order of staleness, ties by number; and
  whatever eligible pull request is left out is at least as fresh as all of the batch.
\<close>

lemma sweep_order_total: "sweep_order d x y \<or> sweep_order d y x"
  by (auto simp: sweep_order_def)

lemma sweep_order_trans: "sweep_order d x y \<Longrightarrow> sweep_order d y z \<Longrightarrow> sweep_order d x z"
  by (auto simp: sweep_order_def)

lemma take_smallest:
  assumes "sorted_wrt le xs"
  shows "list_all (\<lambda>x. x \<in> set (take n xs) \<or> list_all (\<lambda>b. le b x) (take n xs)) xs"
proof -
  have "\<forall>b\<in>set (take n xs). \<forall>x\<in>set (drop n xs). le b x"
    using assms by (metis append_take_drop_id sorted_wrt_append)
  moreover have "x \<in> set (take n xs) \<or> x \<in> set (drop n xs)" if "x \<in> set xs" for x
    using that by (metis append_take_drop_id Un_iff set_append)
  ultimately show ?thesis by (auto simp: list_all_iff)
qed

theorem sweep_takes_the_stalest:
  "let batch = selectRegateCandidates parse_date pulls now None None;
       eligible = filter (sweepable parse_date (map_option (\<lambda>n. n - SWEEP_FRESHNESS_MS) (parse_date now))) pulls
   in length batch = min SWEEP_MAX_PRS (length eligible) \<and> set batch \<subseteq> set eligible \<and>
      sorted_wrt (sweep_order parse_date) batch \<and>
      list_all (\<lambda>p. p \<in> set batch \<or> list_all (\<lambda>b. sweep_order parse_date b p) batch) eligible"
proof -
  let ?e = "filter (sweepable parse_date (map_option (\<lambda>n. n - SWEEP_FRESHNESS_MS) (parse_date now))) pulls"
  let ?s = "sort_by (sweep_order parse_date) ?e"
  have sorted: "sorted_wrt (sweep_order parse_date) ?s"
    by (rule sorted_sort_by) (fact sweep_order_total, fact sweep_order_trans)
  have batch: "selectRegateCandidates parse_date pulls now None None = take SWEEP_MAX_PRS ?s"
    by (simp add: selectRegateCandidates_def Let_def)
  have "list_all (\<lambda>p. p \<in> set (take SWEEP_MAX_PRS ?s) \<or> list_all (\<lambda>b. sweep_order parse_date b p) (take SWEEP_MAX_PRS ?s)) ?e"
    using take_smallest [OF sorted, of SWEEP_MAX_PRS] by (simp add: list_all_iff)
  then show ?thesis
    using sorted set_take_subset [of SWEEP_MAX_PRS ?s]
    by (auto simp: batch Let_def sorted_wrt_take min.commute)
qed

end
