(* ===== verification/Local_Write.thy ===== *)
theory Local_Write
  imports Public_Safe
begin

text \<open>
  The local write specifications of \<open>mcp/local-write-tools.ts\<close>: commands that a contributor's
  own machine runs with its own credentials. The second half states what "shell-safe" means: a
  lexer for the part of the POSIX shell grammar the commands use, which splits a command line
  into words and the operator \<open>&&\<close> and rejects any other unquoted special character. Each
  command is read back as exactly the words the request asks for.
\<close>

section \<open>The builders\<close>

record LocalWriteActionSpec =
  lw_action :: string
  lw_description :: string
  lw_inputs :: "(string \<times> json) list"
  lw_command :: string
  lw_boundary :: string

definition LOCAL_WRITE_BOUNDARY :: string where
  "LOCAL_WRITE_BOUNDARY = ''Run this locally with your OWN GitHub credentials (e.g. an authenticated `gh`/`git`). Gittensory supplies the content but never performs the write '' @ em_dash @ '' your code and the action both stay on your machine.''"

definition quote_char :: char where
  "quote_char = CHR 0x27"

definition backslash :: char where
  "backslash = CHR 0x5C"

text \<open>\<open>value.replace(/'/g, "'\\''")\<close> between two quotes.\<close>

fun quote_escaped :: "string \<Rightarrow> string" where
  "quote_escaped [] = []"
| "quote_escaped (c # cs) =
     (if c = quote_char then [quote_char, backslash, quote_char, quote_char] else [c]) @ quote_escaped cs"

definition sq :: "string \<Rightarrow> string" where
  "sq v = quote_char # quote_escaped v @ [quote_char]"

definition spec :: "string \<Rightarrow> string \<Rightarrow> (string \<times> json) list \<Rightarrow> string \<Rightarrow> LocalWriteActionSpec" where
  "spec action description inputs command = \<lparr>lw_action = action, lw_description = description,
     lw_inputs = inputs, lw_command = command, lw_boundary = LOCAL_WRITE_BOUNDARY\<rparr>"

definition flag_arg :: "string \<Rightarrow> string \<Rightarrow> string" where
  "flag_arg flag v = '' '' @ flag @ '' '' @ sq v"

definition strings_json :: "string list \<Rightarrow> json" where
  "strings_json xs = JArray (map JString xs)"

record OpenPrInput =
  op_repoFullName :: string
  op_base :: string
  op_head :: string
  op_title :: string
  op_body :: string
  op_draft :: "bool option"

definition buildOpenPrSpec :: "OpenPrInput \<Rightarrow> LocalWriteActionSpec" where
  "buildOpenPrSpec i =
     (let draft = (op_draft i = Some True);
          command = ''gh pr create'' @ flag_arg ''--repo'' (op_repoFullName i) @ flag_arg ''--base'' (op_base i) @
            flag_arg ''--head'' (op_head i) @ flag_arg ''--title'' (op_title i) @ flag_arg ''--body'' (op_body i) @
            (if draft then '' --draft'' else '''')
      in spec ''open_pr'' ''Open a pull request from your local branch.''
           [(''repoFullName'', JString (op_repoFullName i)), (''base'', JString (op_base i)), (''head'', JString (op_head i)),
            (''title'', JString (op_title i)), (''body'', JString (op_body i)), (''draft'', JBool draft)] command)"

definition buildFileIssueSpec :: "string \<Rightarrow> string \<Rightarrow> string \<Rightarrow> string list option \<Rightarrow> LocalWriteActionSpec" where
  "buildFileIssueSpec repoFullName title body lbls =
     (let ls = nullish lbls [];
          command = ''gh issue create'' @ flag_arg ''--repo'' repoFullName @ flag_arg ''--title'' title @
            flag_arg ''--body'' body @ concat (map (flag_arg ''--label'') ls)
      in spec ''file_issue'' ''File a new issue.''
           [(''repoFullName'', JString repoFullName), (''title'', JString title), (''body'', JString body),
            (''labels'', strings_json ls)] command)"

definition number_json :: "nat \<Rightarrow> json" where
  "number_json n = JNumber (Finite (of_nat n))"

definition buildApplyLabelsSpec :: "string \<Rightarrow> nat \<Rightarrow> string list \<Rightarrow> LocalWriteActionSpec" where
  "buildApplyLabelsSpec repoFullName number ls =
     spec ''apply_labels'' ''Add labels to an issue or pull request.''
       [(''repoFullName'', JString repoFullName), (''number'', number_json number), (''labels'', strings_json ls)]
       (''gh issue edit '' @ nat_str number @ flag_arg ''--repo'' repoFullName @ concat (map (flag_arg ''--add-label'') ls))"

definition buildPostEligibilityCommentSpec :: "string \<Rightarrow> nat \<Rightarrow> string \<Rightarrow> LocalWriteActionSpec" where
  "buildPostEligibilityCommentSpec repoFullName number body =
     spec ''post_eligibility_comment'' ''Post an eligibility/context comment on an issue or pull request.''
       [(''repoFullName'', JString repoFullName), (''number'', number_json number), (''body'', JString body)]
       (''gh issue comment '' @ nat_str number @ flag_arg ''--repo'' repoFullName @ flag_arg ''--body'' body)"

text \<open>The optional base: absent and empty are the same.\<close>

definition buildCreateBranchSpec :: "string \<Rightarrow> string option \<Rightarrow> LocalWriteActionSpec" where
  "buildCreateBranchSpec branch base =
     (let b = nullish base [];
          command = ''git switch -c '' @ sq branch @ (if b \<noteq> [] then '' '' @ sq b else '''')
      in spec ''create_branch'' ''Create a local branch.''
           ((''branch'', JString branch) # (if b \<noteq> [] then [(''base'', JString b)] else [])) command)"

definition buildDeleteBranchSpec :: "string \<Rightarrow> bool option \<Rightarrow> LocalWriteActionSpec" where
  "buildDeleteBranchSpec branch remote =
     (let local = ''git branch -D '' @ sq branch;
          command = (if remote = Some True then local @ '' && git push origin --delete '' @ sq branch else local)
      in spec ''delete_branch'' ''Delete a branch (locally, and optionally on origin).''
           [(''branch'', JString branch), (''remote'', JBool (remote = Some True))] command)"

section \<open>What the shell reads\<close>

datatype sh_token = Word string | And_if

text \<open>
  The lexer: the word being read (if any), whether a quote is open, the rest of the line. A
  special character outside quotes that is not a blank, a quote, an escape or \<open>&&\<close> is an error,
  as is an open quote at the end.
\<close>

definition sh_plain :: "char \<Rightarrow> bool" where
  "sh_plain c = (let n = (of_char c :: nat)
     in is_decimal c \<or> 65 \<le> n \<and> n \<le> 90 \<or> 97 \<le> n \<and> n \<le> 122 \<or> c \<in> set ''-_./:@%+,'')"

definition flush_word :: "string option \<Rightarrow> sh_token list" where
  "flush_word cur = (case cur of None \<Rightarrow> [] | Some w \<Rightarrow> [Word w])"

definition cons_tokens :: "sh_token list \<Rightarrow> sh_token list option \<Rightarrow> sh_token list option" where
  "cons_tokens ts r = map_option (\<lambda>us. ts @ us) r"

fun sh_lex :: "string option \<Rightarrow> bool \<Rightarrow> string \<Rightarrow> sh_token list option" where
  "sh_lex cur True [] = None"
| "sh_lex cur True (c # cs) =
     (if c = quote_char then sh_lex cur False cs else sh_lex (Some (nullish cur [] @ [c])) True cs)"
| "sh_lex cur False [] = Some (flush_word cur)"
| "sh_lex cur False (c # cs) =
     (if c = CHR '' '' then cons_tokens (flush_word cur) (sh_lex None False cs)
      else if c = quote_char then sh_lex (Some (nullish cur [])) True cs
      else if c = backslash
      then (case cs of [] \<Rightarrow> None | d # ds \<Rightarrow> sh_lex (Some (nullish cur [] @ [d])) False ds)
      else if c = CHR ''&''
      then (case cs of [] \<Rightarrow> None
            | d # ds \<Rightarrow> if d = CHR ''&'' then cons_tokens (flush_word cur @ [And_if]) (sh_lex None False ds) else None)
      else if sh_plain c then sh_lex (Some (nullish cur [] @ [c])) False cs
      else None)"

definition sh_words :: "string \<Rightarrow> sh_token list option" where
  "sh_words line = sh_lex None False line"

text \<open>The request as the tools receive it, the specification it is turned into, and the words it means.\<close>

datatype WriteRequest =
    Open_pr OpenPrInput
  | File_issue string string string "string list option"
  | Apply_labels string nat "string list"
  | Post_comment string nat string
  | Create_branch string "string option"
  | Delete_branch string "bool option"

fun write_spec :: "WriteRequest \<Rightarrow> LocalWriteActionSpec" where
  "write_spec (Open_pr i) = buildOpenPrSpec i"
| "write_spec (File_issue r t b ls) = buildFileIssueSpec r t b ls"
| "write_spec (Apply_labels r n ls) = buildApplyLabelsSpec r n ls"
| "write_spec (Post_comment r n b) = buildPostEligibilityCommentSpec r n b"
| "write_spec (Create_branch b base) = buildCreateBranchSpec b base"
| "write_spec (Delete_branch b remote) = buildDeleteBranchSpec b remote"

definition option_words :: "string \<Rightarrow> string list \<Rightarrow> sh_token list" where
  "option_words flag vs = concat (map (\<lambda>v. [Word flag, Word v]) vs)"

fun intended_words :: "WriteRequest \<Rightarrow> sh_token list" where
  "intended_words (Open_pr i) = [Word ''gh'', Word ''pr'', Word ''create'', Word ''--repo'', Word (op_repoFullName i),
     Word ''--base'', Word (op_base i), Word ''--head'', Word (op_head i), Word ''--title'', Word (op_title i),
     Word ''--body'', Word (op_body i)] @ (if op_draft i = Some True then [Word ''--draft''] else [])"
| "intended_words (File_issue r t b ls) = [Word ''gh'', Word ''issue'', Word ''create'', Word ''--repo'', Word r,
     Word ''--title'', Word t, Word ''--body'', Word b] @ option_words ''--label'' (nullish ls [])"
| "intended_words (Apply_labels r n ls) = [Word ''gh'', Word ''issue'', Word ''edit'', Word (nat_str n),
     Word ''--repo'', Word r] @ option_words ''--add-label'' ls"
| "intended_words (Post_comment r n b) = [Word ''gh'', Word ''issue'', Word ''comment'', Word (nat_str n),
     Word ''--repo'', Word r, Word ''--body'', Word b]"
| "intended_words (Create_branch b base) = [Word ''git'', Word ''switch'', Word ''-c'', Word b] @
     (case base of None \<Rightarrow> [] | Some from_ref \<Rightarrow> if from_ref = [] then [] else [Word from_ref])"
| "intended_words (Delete_branch b remote) = [Word ''git'', Word ''branch'', Word ''-D'', Word b] @
     (if remote = Some True then [And_if, Word ''git'', Word ''push'', Word ''origin'', Word ''--delete'', Word b] else [])"

section \<open>Lexing the pieces\<close>

lemma cons_tokens_Some [simp]: "cons_tokens ts (Some us) = Some (ts @ us)"
  by (simp add: cons_tokens_def)

lemma cons_tokens_comp [simp]: "cons_tokens ts (cons_tokens us r) = cons_tokens (ts @ us) r"
  by (cases r) (simp_all add: cons_tokens_def)

lemma flush_word_simps [simp]: "flush_word None = []" "flush_word (Some w) = [Word w]"
  by (simp_all add: flush_word_def)

lemma chars_distinct [simp]: "backslash \<noteq> quote_char" "quote_char \<noteq> backslash" "quote_char \<noteq> CHR '' ''"
  "backslash \<noteq> CHR '' ''" "CHR '' '' \<noteq> quote_char" "CHR ''&'' \<noteq> quote_char" "CHR ''&'' \<noteq> backslash"
  by (simp_all add: quote_char_def backslash_def)

text \<open>Inside the quotes every character stands for itself, the quote itself included.\<close>

lemma lex_escaped: "sh_lex (Some w) True (quote_escaped v @ quote_char # rest) = sh_lex (Some (w @ v)) False rest"
  by (induction v arbitrary: w) simp_all

lemma lex_sq: "sh_lex None False (sq v @ rest) = sh_lex (Some v) False rest"
  by (simp add: sq_def lex_escaped)

lemma lex_word_end: "sh_lex (Some w) False (CHR '' '' # rest) = cons_tokens [Word w] (sh_lex None False rest)"
  by (simp add: flush_word_def)

lemma plain_not_special: "sh_plain c \<Longrightarrow> c \<noteq> CHR '' '' \<and> c \<noteq> quote_char \<and> c \<noteq> backslash \<and> c \<noteq> CHR ''&''"
  by (auto simp: sh_plain_def Let_def is_decimal_def class_match_def digit_items_def quote_char_def backslash_def)

lemma lex_plain: "list_all sh_plain p \<Longrightarrow> sh_lex (Some w) False (p @ rest) = sh_lex (Some (w @ p)) False rest"
  by (induction p arbitrary: w) (simp_all add: plain_not_special)

text \<open>A literal word.\<close>

lemma lex_literal:
  assumes "list_all sh_plain p" and "p \<noteq> []"
  shows "sh_lex None False (p @ rest) = sh_lex (Some p) False rest"
  using assms lex_plain [of "tl p" "[hd p]" rest] by (cases p) (simp_all add: plain_not_special)

lemma plain_number: "list_all sh_plain (nat_str n)"
  using nat_str_digits [of n] by (auto simp: list_all_iff sh_plain_def)

lemma lex_number: "sh_lex None False (nat_str n @ rest) = sh_lex (Some (nat_str n)) False rest"
  by (rule lex_literal [OF plain_number nat_str_not_Nil])

text \<open>A flag and its value, after a word; a list of them.\<close>

lemma lex_flag_arg:
  assumes "list_all sh_plain flag" and "flag \<noteq> []"
  shows "sh_lex (Some w) False (flag_arg flag v @ rest) = cons_tokens [Word w, Word flag] (sh_lex (Some v) False rest)"
proof -
  have "sh_lex None False (flag @ CHR '' '' # sq v @ rest) = cons_tokens [Word flag] (sh_lex (Some v) False rest)"
    using lex_literal [OF assms, of "CHR '' '' # sq v @ rest"] by (simp add: lex_word_end lex_sq del: sh_lex.simps)
  then show ?thesis by (simp add: flag_arg_def lex_word_end del: sh_lex.simps)
qed

lemma lex_flag_args:
  assumes "list_all sh_plain flag" and "flag \<noteq> []"
  shows "sh_lex (Some w) False (concat (map (flag_arg flag) vs)) = Some (Word w # option_words flag vs)"
  by (induction vs arbitrary: w) (simp_all add: lex_flag_arg [OF assms] option_words_def)

lemma lex_end: "sh_lex (Some w) False [] = Some [Word w]"
  by simp

text \<open>The fixed words that the commands start with.\<close>

lemmas lex_fixed = sh_plain_def is_decimal_def class_match_def digit_items_def quote_char_def backslash_def

lemma lex_heads:
  "sh_lex None False (''gh pr create'' @ rest) = cons_tokens [Word ''gh'', Word ''pr''] (sh_lex (Some ''create'') False rest)"
  "sh_lex None False (''gh issue create'' @ rest) = cons_tokens [Word ''gh'', Word ''issue''] (sh_lex (Some ''create'') False rest)"
  "sh_lex None False (''gh issue edit '' @ rest) = cons_tokens [Word ''gh'', Word ''issue'', Word ''edit''] (sh_lex None False rest)"
  "sh_lex None False (''gh issue comment '' @ rest) = cons_tokens [Word ''gh'', Word ''issue'', Word ''comment''] (sh_lex None False rest)"
  "sh_lex None False (''git switch -c '' @ rest) = cons_tokens [Word ''git'', Word ''switch'', Word ''-c''] (sh_lex None False rest)"
  "sh_lex None False (''git branch -D '' @ rest) = cons_tokens [Word ''git'', Word ''branch'', Word ''-D''] (sh_lex None False rest)"
  by (simp_all add: lex_fixed)

lemma lex_tails:
  "sh_lex (Some w) False '' --draft'' = Some [Word w, Word ''--draft'']"
  "sh_lex (Some w) False ('' '' @ rest) = cons_tokens [Word w] (sh_lex None False rest)"
  "sh_lex (Some w) False ('' && git push origin --delete '' @ rest) =
     cons_tokens [Word w, And_if, Word ''git'', Word ''push'', Word ''origin'', Word ''--delete''] (sh_lex None False rest)"
  by (simp_all add: lex_fixed)

lemma plain_flags: "list_all sh_plain ''--repo''" "list_all sh_plain ''--base''" "list_all sh_plain ''--head''"
  "list_all sh_plain ''--title''" "list_all sh_plain ''--body''" "list_all sh_plain ''--label''" "list_all sh_plain ''--add-label''"
  by (simp_all add: sh_plain_def)

lemmas lex_flag = plain_flags [THEN lex_flag_arg, simplified]
lemmas lex_flags = plain_flags(6,7) [THEN lex_flag_args, simplified]

lemmas lex_command = sh_words_def lex_heads lex_tails lex_number lex_sq lex_flag lex_flags lex_end spec_def

lemma lex_sq_end: "sh_lex None False (sq v) = Some [Word v]"
  using lex_sq [of v "[]"] by (simp add: lex_end)

lemma lex_flag_end:
  "list_all sh_plain flag \<Longrightarrow> flag \<noteq> [] \<Longrightarrow> sh_lex (Some w) False (flag_arg flag v) = Some [Word w, Word flag, Word v]"
  using lex_flag_arg [of flag w v "[]"] by (simp add: lex_end)

text \<open>The lexer is not blind: an unquoted substitution or operator is no word.\<close>

lemma unquoted_is_rejected:
  "sh_words ''git branch -D $(id)'' = None" "sh_words ''git branch -D a; id'' = None"
  by (simp_all add: sh_words_def lex_fixed cons_tokens_def)

section \<open>Properties\<close>

text \<open>
  C21: the write commands are shell-safe. Whatever texts a request carries (quotes, newlines,
  substitutions, operators), the shell reads the command back as exactly the words the request
  means: every text is one argument, and nothing else of the line is evaluated.
\<close>

theorem write_commands_shell_safe:
  "sh_words (lw_command (write_spec r)) = Some (intended_words r)"
proof (cases r)
  case (Open_pr i)
  then show ?thesis
    using plain_flags(5) by (simp add: buildOpenPrSpec_def Let_def lex_command lex_flag_end del: sh_lex.simps append_Cons append.simps)
next
  case (File_issue r t b ls)
  then show ?thesis by (simp add: buildFileIssueSpec_def Let_def lex_command del: sh_lex.simps append_Cons)
next
  case (Apply_labels r n ls)
  then show ?thesis by (simp add: buildApplyLabelsSpec_def lex_command del: sh_lex.simps append_Cons)
next
  case (Post_comment r n b)
  then show ?thesis
    using plain_flags(5) by (simp add: buildPostEligibilityCommentSpec_def lex_command lex_flag_end del: sh_lex.simps append_Cons)
next
  case (Create_branch b base)
  then show ?thesis
    by (cases base) (simp_all add: buildCreateBranchSpec_def Let_def lex_command lex_sq_end del: sh_lex.simps append_Cons)
next
  case (Delete_branch b remote)
  then show ?thesis by (simp add: buildDeleteBranchSpec_def Let_def lex_command lex_sq_end del: sh_lex.simps append_Cons)
qed

end
