(* ===== verification/Repo_Access.thy ===== *)
theory Repo_Access
  imports Auth Store Github_Actions
begin

text \<open>
  Who may see and change what over the HTTP and MCP surfaces: \<open>services/control-panel-roles.ts\<close>
  (the roles and the access scope of a login), the repository tables of \<open>db/repositories.ts\<close> it
  reads, \<open>getRepositoryCollaboratorPermission\<close> of \<open>github/app.ts\<close>, the route guards of
  \<open>api/routes.ts\<close> and the session guards of \<open>mcp/server.ts\<close>. GitHub, the order of
  \<open>localeCompare\<close> and the miner detection cache are parameters. A guard answers \<open>Inl\<close> with the
  error and status of the refusal, or \<open>Inr\<close> with the identity it let through; the MCP guards
  answer \<open>Inl\<close> with the message they throw. The sessions of the request are threaded through,
  because authentication touches them; the other tables are one snapshot.
\<close>

section \<open>The tables and GitHub\<close>

record InstallationRecord =
  in_id :: nat
  in_accountLogin :: string
  in_accountId :: nat
  in_targetType :: string
  in_repositorySelection :: "string option"
  in_permissions :: "(string \<times> string) list"
  in_events :: "string list"
  in_suspendedAt :: "string option"
  in_createdAt :: string
  in_updatedAt :: string

text \<open>
  \<open>aw_token\<close> is \<open>createInstallationToken\<close>, \<open>aw_fetch\<close> the request with its authorization header:
  status, body text and the field \<open>permission\<close> of the body. \<open>aw_miner\<close> is the cached miner
  detection, \<open>None\<close> when reading it throws.
\<close>

record AccessWorld =
  aw_env :: AuthEnv
  aw_repositories :: "RepositoryRecord list"
  aw_installations :: "InstallationRecord list"
  aw_store :: Store
  aw_now :: string
  aw_locale_le :: "string \<Rightarrow> string \<Rightarrow> bool"
  aw_miner :: "string \<Rightarrow> string option option"
  aw_token :: "nat \<Rightarrow> JsError + string"
  aw_fetch :: "string \<Rightarrow> string \<Rightarrow> JsError + (int \<times> string \<times> string option)"

definition getRepository :: "AccessWorld \<Rightarrow> string \<Rightarrow> RepositoryRecord option" where
  "getRepository w fullName =
     (case List.find (\<lambda>r. repo_fullName r = fullName) (aw_repositories w) of
        Some r \<Rightarrow> Some r
      | None \<Rightarrow> List.find (\<lambda>r. toLowerCase (repo_fullName r) = toLowerCase fullName) (aw_repositories w))"

definition listRepositories :: "AccessWorld \<Rightarrow> RepositoryRecord list" where
  "listRepositories w =
     sort_by (\<lambda>a b. (repo_isRegistered a \<and> \<not> repo_isRegistered b) \<or>
       (repo_isRegistered a = repo_isRegistered b \<and> str_le (repo_fullName a) (repo_fullName b))) (aw_repositories w)"

definition listInstallations :: "AccessWorld \<Rightarrow> InstallationRecord list" where
  "listInstallations w = take 100 (sort_by (\<lambda>a b. str_le (in_updatedAt b) (in_updatedAt a)) (aw_installations w))"

definition listAllPullRequests :: "AccessWorld \<Rightarrow> PullRequestRecord list" where
  "listAllPullRequests w = map toPullRequestRecordFromRow (take 2000 (pull_requests (aw_store w)))"

definition getRepositoryCollaboratorPermission ::
  "AccessWorld \<Rightarrow> nat \<Rightarrow> string \<Rightarrow> string \<Rightarrow> JsError + string option" where
  "getRepositoryCollaboratorPermission w installationId repoFullName login =
     (case split_on CHR ''/'' repoFullName of
        own # nm # _ \<Rightarrow>
          if own = [] \<or> nm = [] \<or> login = [] then Inr None
          else
            (case aw_token w installationId of
               Inl e \<Rightarrow> Inl e
             | Inr token \<Rightarrow>
                 (case aw_fetch w
                    (''https://api.github.com/repos/'' @ encodeURIComponent own @ ''/'' @ encodeURIComponent nm @
                     ''/collaborators/'' @ encodeURIComponent login @ ''/permission'') (''Bearer '' @ token) of
                    Inl e \<Rightarrow> Inl e
                  | Inr (status, body, permission) \<Rightarrow>
                      if status = 404 then Inr None
                      else if \<not> (200 \<le> status \<and> status \<le> 299)
                      then Inl (new_error (''Failed to fetch GitHub collaborator permission ('' @ int_str status @ ''): '' @ take 200 body))
                      else Inr permission))
      | _ \<Rightarrow> Inr None)"

section \<open>Logins and names\<close>

definition sameLogin :: "string option \<Rightarrow> string \<Rightarrow> bool" where
  "sameLogin v login \<longleftrightarrow> map_option toLowerCase v = Some (toLowerCase login)"

definition sameRepo :: "string \<Rightarrow> string \<Rightarrow> bool" where
  "sameRepo l r \<longleftrightarrow> l \<noteq> [] \<and> r \<noteq> [] \<and> toLowerCase l = toLowerCase r"

definition maintainer_association :: "string option \<Rightarrow> bool" where
  "maintainer_association v \<longleftrightarrow> v \<in> {Some ''OWNER'', Some ''MEMBER'', Some ''COLLABORATOR''}"

definition uniqueRepoNames :: "(string \<Rightarrow> string \<Rightarrow> bool) \<Rightarrow> string list \<Rightarrow> string list" where
  "uniqueRepoNames le vs = sort_by le (dedupe (filter (\<lambda>v. v \<noteq> []) vs))"

definition uniqueLogins :: "(string \<Rightarrow> string \<Rightarrow> bool) \<Rightarrow> string list \<Rightarrow> string list" where
  "uniqueLogins le vs = sort_by le (dedupe (filter (\<lambda>v. v \<noteq> []) vs))"

text \<open>The redaction of role texts.\<close>

definition path_rest :: rx where
  "path_rest = Many (Noneof (space_items @ [One CHR 0x22, One CHR 0x27, One CHR '','', One CHR '';'', One CHR '')'']))"

definition LOCAL_PATH :: rx where
  "LOCAL_PATH = Or
     (Seq [Alt [Lit ''/Users'', Lit ''/home'', Lit ''/tmp''], Lit ''/'', path_rest])
     (Seq [Oneof [Between CHR ''A'' CHR ''Z'', Between CHR ''a'' CHR ''z''],
        Lit ([CHR '':'', CHR 0x5C] @ ''Users'' @ [CHR 0x5C]), path_rest])"

definition TOKEN_TEXT :: rx where
  "TOKEN_TEXT = Seq [Wordb, Alt [Lit ''ghp_'', Lit ''github_pat_'', Lit ''gts_'', Lit ''glpat-'', Lit ''sk-''],
     AtLeast 8 (Oneof (Between CHR ''A'' CHR ''Z'' # Between CHR ''a'' CHR ''z'' # Between CHR ''0'' CHR ''9'' #
       map One ''_=-''))]"

definition BEARER_TEXT :: rx where
  "BEARER_TEXT = Seq [Wordb, Lit ''bearer'', Plus (Oneof space_items),
     AtLeast 12 (Oneof (Between CHR ''a'' CHR ''z'' # Between CHR ''0'' CHR ''9'' # map One ''._~+/=-''))]"

definition PRIVATE_TERMS :: rx where
  "PRIVATE_TERMS = Seq [Wordb, Alt (map Lit [''seed phrase'', ''mnemonic'', ''private key'', ''raw trust'', ''trust score'',
     ''wallet'', ''hotkey'', ''coldkey'', ''payout'', ''reward estimate'', ''farming'', ''private reviewability'',
     ''public score estimate'']), Wordb]"

definition sanitizeRoleText :: "string \<Rightarrow> string" where
  "sanitizeRoleText v =
     (let redacted = replace_all_i BEARER_TEXT ''Bearer <redacted-token>''
            (replace_all TOKEN_TEXT ''<redacted-token>'' (replace_all LOCAL_PATH ''<redacted-path>'' v))
      in if rx_test_i PRIVATE_TERMS redacted then ''<redacted>'' else take 200 redacted)"

definition uniqueRepos :: "(string \<Rightarrow> string \<Rightarrow> bool) \<Rightarrow> string list \<Rightarrow> string list" where
  "uniqueRepos le vs = map sanitizeRoleText (uniqueRepoNames le vs)"

section \<open>Access scope\<close>

record RoleSummaryInputs =
  rs_login :: string
  rs_generatedAt :: string
  rs_confirmedMiner :: bool
  rs_operator :: bool
  rs_repositories :: "RepositoryRecord list"
  rs_installations :: "InstallationRecord list"
  rs_pullRequests :: "PullRequestRecord list"

record ControlPanelAccessScope =
  sc_operator :: bool
  sc_repositoryFullNames :: "string list"
  sc_installationIds :: "nat list"
  sc_accountLogins :: "string list"

definition suspended :: "InstallationRecord \<Rightarrow> bool" where
  "suspended i \<longleftrightarrow> nullish (in_suspendedAt i) [] \<noteq> []"

definition installed_repos :: "RoleSummaryInputs \<Rightarrow> RepositoryRecord list" where
  "installed_repos a = filter repo_isInstalled (rs_repositories a)"

definition account_installations :: "RoleSummaryInputs \<Rightarrow> InstallationRecord list" where
  "account_installations a =
     filter (\<lambda>i. \<not> suspended i \<and> sameLogin (Some (in_accountLogin i)) (rs_login a)) (rs_installations a)"

definition suspended_account_ids :: "RoleSummaryInputs \<Rightarrow> nat list" where
  "suspended_account_ids a =
     map in_id (filter (\<lambda>i. suspended i \<and> sameLogin (Some (in_accountLogin i)) (rs_login a)) (rs_installations a))"

text \<open>The installation of a repository, when it has one in the set.\<close>

definition installed_under :: "nat list \<Rightarrow> RepositoryRecord \<Rightarrow> bool" where
  "installed_under ids r \<longleftrightarrow> (case repo_installationId r of None \<Rightarrow> False | Some i \<Rightarrow> i \<in> set ids)"

definition owned_installed_repos :: "RoleSummaryInputs \<Rightarrow> RepositoryRecord list" where
  "owned_installed_repos a =
     filter (\<lambda>r. \<not> installed_under (suspended_account_ids a) r \<and>
       (sameLogin (Some (repo_owner r)) (rs_login a) \<or> installed_under (map in_id (account_installations a)) r))
       (installed_repos a)"

definition maintained_names :: "RoleSummaryInputs \<Rightarrow> string list" where
  "maintained_names a =
     filter (\<lambda>n. list_ex (\<lambda>r. sameRepo (repo_fullName r) n) (installed_repos a))
       (map pr_repoFullName
         (filter (\<lambda>p. sameLogin (pr_authorLogin p) (rs_login a) \<and> maintainer_association (pr_authorAssociation p))
           (rs_pullRequests a)))"

definition buildControlPanelAccessScope ::
  "(string \<Rightarrow> string \<Rightarrow> bool) \<Rightarrow> RoleSummaryInputs \<Rightarrow> ControlPanelAccessScope" where
  "buildControlPanelAccessScope le a =
     (let maintainerRepos = uniqueRepoNames le (maintained_names a);
          scopedRepoNames = uniqueRepoNames le (map repo_fullName (owned_installed_repos a) @ maintainerRepos);
          scopedIds = dedupe (map in_id (account_installations a) @
            List.map_filter (\<lambda>r. if list_ex (\<lambda>n. sameRepo (repo_fullName r) n) scopedRepoNames
              then repo_installationId r else None) (installed_repos a))
      in \<lparr>sc_operator = rs_operator a, sc_repositoryFullNames = scopedRepoNames, sc_installationIds = scopedIds,
          sc_accountLogins = uniqueLogins le (map in_accountLogin (account_installations a))\<rparr>)"

definition role_inputs :: "AccessWorld \<Rightarrow> string \<Rightarrow> bool \<Rightarrow> RoleSummaryInputs" where
  "role_inputs w login miner = \<lparr>rs_login = login, rs_generatedAt = aw_now w, rs_confirmedMiner = miner,
     rs_operator = isAuthorizedGitHubSessionLogin (aw_env w) login, rs_repositories = listRepositories w,
     rs_installations = listInstallations w, rs_pullRequests = listAllPullRequests w\<rparr>"

definition loadControlPanelAccessScope :: "AccessWorld \<Rightarrow> string \<Rightarrow> ControlPanelAccessScope" where
  "loadControlPanelAccessScope w login = buildControlPanelAccessScope (aw_locale_le w) (role_inputs w login False)"

definition repo_in_scope :: "ControlPanelAccessScope \<Rightarrow> string \<Rightarrow> bool" where
  "repo_in_scope scope fullName \<longleftrightarrow> list_ex (\<lambda>n. toLowerCase n = toLowerCase fullName) (sc_repositoryFullNames scope)"

definition owner_in_scope :: "ControlPanelAccessScope \<Rightarrow> RepositoryRecord option \<Rightarrow> bool" where
  "owner_in_scope scope r \<longleftrightarrow>
     (case r of None \<Rightarrow> False
      | Some r \<Rightarrow> list_ex (\<lambda>l. toLowerCase l = toLowerCase (repo_owner r)) (sc_accountLogins scope))"

definition canLoginAccessRepo :: "AccessWorld \<Rightarrow> string \<Rightarrow> string \<Rightarrow> bool" where
  "canLoginAccessRepo w login fullName =
     (let scope = loadControlPanelAccessScope w login
      in sc_operator scope \<or> repo_in_scope scope fullName \<or> owner_in_scope scope (getRepository w fullName))"

definition canWatchRepo :: "AccessWorld \<Rightarrow> string \<Rightarrow> string \<Rightarrow> bool" where
  "canWatchRepo w login fullName =
     (case getRepository w fullName of
        None \<Rightarrow> False
      | Some r \<Rightarrow> if \<not> repo_isPrivate r then True else canLoginAccessRepo w login fullName)"

section \<open>Roles\<close>

datatype ControlPanelRoleName = cp_miner | cp_maintainer | cp_owner | cp_operator

datatype ControlPanelRoleStatus = role_active | role_available | role_needs_setup

record ControlPanelRoleCard =
  card_role :: ControlPanelRoleName
  card_status :: ControlPanelRoleStatus
  card_title :: string
  card_detail :: string
  card_href :: string
  card_evidenceCount :: nat
  card_sampleRepos :: "string list"
  card_nextActions :: "string list"

record ControlPanelRoleSummary =
  sum_login :: string
  sum_generatedAt :: string
  sum_roles :: "ControlPanelRoleName list"
  sum_confirmedMiner :: bool
  sum_roleCards :: "ControlPanelRoleCard list"
  sum_onboardingReady :: bool
  sum_primaryRole :: "ControlPanelRoleName option"
  sum_nextActions :: "string list"
  sum_ownedInstalledRepos :: nat
  sum_maintainerRepos :: nat
  sum_accountInstallations :: nat
  sum_operator :: bool
  sum_publicSafe :: bool

definition roleCard ::
  "ControlPanelRoleName \<Rightarrow> ControlPanelRoleStatus \<Rightarrow> string \<Rightarrow> string \<Rightarrow> string \<Rightarrow> nat \<Rightarrow> string list \<Rightarrow> string list \<Rightarrow> ControlPanelRoleCard" where
  "roleCard role status title detail href evidence sample actions = \<lparr>card_role = role, card_status = status,
     card_title = title, card_detail = sanitizeRoleText detail, card_href = href, card_evidenceCount = evidence,
     card_sampleRepos = map sanitizeRoleText sample, card_nextActions = map sanitizeRoleText actions\<rparr>"

definition active_if :: "bool \<Rightarrow> ControlPanelRoleStatus" where
  "active_if b = (if b then role_active else role_needs_setup)"

definition buildRoleCards ::
  "(string \<Rightarrow> string \<Rightarrow> bool) \<Rightarrow> bool \<Rightarrow> bool \<Rightarrow> string list \<Rightarrow> string list \<Rightarrow> InstallationRecord list \<Rightarrow> ControlPanelRoleCard list" where
  "buildRoleCards le miner operator owned maintained accounts =
     [roleCard cp_miner (active_if miner) ''Miner''
        (if miner then ''Confirmed miner identity is available for contributor planning.''
         else ''No confirmed miner record is cached for this GitHub login.'')
        ''/app/miner'' (if miner then 1 else 0) []
        (if miner then [''Open the miner dashboard for contributor planning.'']
         else [''Confirm this GitHub login as a miner before using contributor planning.'']),
      roleCard cp_maintainer (active_if (maintained \<noteq> [] \<or> owned \<noteq> [])) ''Maintainer''
        (if maintained \<noteq> [] then ''Cached PR association shows maintainer access on installed repositories.''
         else if owned \<noteq> [] then ''Installed repositories owned by this login can use maintainer workflows.''
         else ''No installed maintainer repository is visible for this login.'')
        ''/app/maintainer'' (length maintained + length owned) (take 4 (uniqueRepos le (maintained @ owned)))
        (if maintained \<noteq> [] \<or> owned \<noteq> [] then [''Review maintainer queue and installation health.'']
         else [''Install the GitHub App on a repository you maintain.'']),
      roleCard cp_owner (active_if (owned \<noteq> [] \<or> accounts \<noteq> [])) ''Owner''
        (if owned \<noteq> [] then ''Installed repositories owned by this login are ready for owner workflows.''
         else if accounts \<noteq> [] then ''GitHub App account installation is linked to this login.''
         else ''No owned GitHub App installation is linked to this login.'')
        ''/app/owner'' (length owned + length accounts) (take 4 owned)
        (if owned \<noteq> [] \<or> accounts \<noteq> [] then [''Open owner readiness for installed repositories.'']
         else [''Install the GitHub App on a repository you own.'']),
      roleCard cp_operator (active_if operator) ''Operator''
        (if operator then ''Configured operator login has deployment-level controls.''
         else ''This login is not configured for operator controls.'')
        ''/app/operator'' (if operator then 1 else 0) []
        (if operator then [''Open the operator dashboard.'']
         else [''Ask an operator to add this login only if deployment controls are needed.''])]"

definition summary_roles :: "RoleSummaryInputs \<Rightarrow> string list \<Rightarrow> ControlPanelRoleName list" where
  "summary_roles a maintainerRepos =
     (if rs_confirmedMiner a then [cp_miner] else []) @
     (if maintainerRepos \<noteq> [] \<or> owned_installed_repos a \<noteq> [] then [cp_maintainer] else []) @
     (if owned_installed_repos a \<noteq> [] \<or> account_installations a \<noteq> [] then [cp_owner] else []) @
     (if rs_operator a then [cp_operator] else [])"

definition buildControlPanelRoleSummary ::
  "(string \<Rightarrow> string \<Rightarrow> bool) \<Rightarrow> RoleSummaryInputs \<Rightarrow> ControlPanelRoleSummary" where
  "buildControlPanelRoleSummary le a =
     (let maintainerRepos = uniqueRepos le (maintained_names a);
          roles = summary_roles a maintainerRepos;
          cards = buildRoleCards le (rs_confirmedMiner a) (rs_operator a) (map repo_fullName (owned_installed_repos a))
            maintainerRepos (account_installations a);
          activeCards = filter (\<lambda>c. card_status c = role_active) cards
      in \<lparr>sum_login = rs_login a, sum_generatedAt = rs_generatedAt a, sum_roles = roles,
          sum_confirmedMiner = rs_confirmedMiner a, sum_roleCards = cards, sum_onboardingReady = (roles \<noteq> []),
          sum_primaryRole = (case activeCards of [] \<Rightarrow> None | c # _ \<Rightarrow> Some (card_role c)),
          sum_nextActions =
            (if roles \<noteq> [] then take 4 (concat (map card_nextActions activeCards))
             else [''Confirm this GitHub login as a miner before using contributor planning.'',
                   ''Install the GitHub App on a repository you own to unlock maintainer and owner workflows.'',
                   ''Ask an operator to add this login only if you need deployment-level controls.'']),
          sum_ownedInstalledRepos = length (owned_installed_repos a), sum_maintainerRepos = length maintainerRepos,
          sum_accountInstallations = length (account_installations a), sum_operator = rs_operator a, sum_publicSafe = True\<rparr>)"

definition loadControlPanelRoleSummary :: "AccessWorld \<Rightarrow> string \<Rightarrow> ControlPanelRoleSummary" where
  "loadControlPanelRoleSummary w login =
     buildControlPanelRoleSummary (aw_locale_le w) (role_inputs w login (nullish (aw_miner w login) None = Some ''confirmed''))"

fun static_name :: "static_actor \<Rightarrow> string" where
  "static_name actor_api = ''api''"
| "static_name actor_mcp = ''mcp''"
| "static_name actor_internal = ''internal''"

definition buildStaticControlPanelRoleSummary :: "AccessWorld \<Rightarrow> static_actor \<Rightarrow> ControlPanelRoleSummary" where
  "buildStaticControlPanelRoleSummary w who = \<lparr>sum_login = static_name who, sum_generatedAt = aw_now w,
     sum_roles = [cp_miner, cp_maintainer, cp_owner, cp_operator], sum_confirmedMiner = False,
     sum_roleCards = [roleCard cp_operator role_active ''Static operator access''
       ''Static service credentials retain deployment-level access.'' ''/app/operator'' 1 []
       [''Use a browser session for per-user role routing.'']],
     sum_onboardingReady = True, sum_primaryRole = Some cp_operator,
     sum_nextActions = [''Use a browser session for per-user role routing.''],
     sum_ownedInstalledRepos = 0, sum_maintainerRepos = 0, sum_accountInstallations = 0, sum_operator = True,
     sum_publicSafe = True\<rparr>"

section \<open>Route guards\<close>

type_synonym denial = "string \<times> nat"

text \<open>The headers a guard reads.\<close>

record RequestHeaders =
  rq_authorization :: "string option"
  rq_cookie :: "string option"

definition authenticateRequestIdentity ::
  "'key AuthLib \<Rightarrow> AccessWorld \<Rightarrow> RequestHeaders \<Rightarrow> AuthStore \<Rightarrow> AuthIdentity option \<times> AuthStore" where
  "authenticateRequestIdentity lib w req s =
     (case authenticatePrivateToken lib (aw_env w) (extractBearerToken (rq_authorization req)) s of
        (Some i, s1) \<Rightarrow> (Some i, s1)
      | (None, s1) \<Rightarrow> authenticateSessionToken lib (extractBrowserSessionToken (rq_cookie req)) s1)"

definition getRoleSummaryForIdentity :: "AccessWorld \<Rightarrow> AuthIdentity \<Rightarrow> ControlPanelRoleSummary" where
  "getRoleSummaryForIdentity w i =
     (case i of Session who _ \<Rightarrow> loadControlPanelRoleSummary w who | Static who \<Rightarrow> buildStaticControlPanelRoleSummary w who)"

definition requireAppRole ::
  "'key AuthLib \<Rightarrow> AccessWorld \<Rightarrow> RequestHeaders \<Rightarrow> ControlPanelRoleName list \<Rightarrow> AuthStore \<Rightarrow> denial option \<times> AuthStore" where
  "requireAppRole lib w req allowedRoles s =
     (case authenticateRequestIdentity lib w req s of
        (None, s1) \<Rightarrow> (Some (''unauthorized'', 401), s1)
      | (Some (Static _), s1) \<Rightarrow> (None, s1)
      | (Some (Session who _), s1) \<Rightarrow>
          (if list_ex (\<lambda>r. r \<in> set allowedRoles) (sum_roles (loadControlPanelRoleSummary w who))
           then None else Some (''insufficient_role'', 403), s1))"

definition requireStaticProtectedApiToken ::
  "'key AuthLib \<Rightarrow> AccessWorld \<Rightarrow> RequestHeaders \<Rightarrow> AuthStore \<Rightarrow> denial option \<times> AuthStore" where
  "requireStaticProtectedApiToken lib w req s =
     (case authenticateRequestIdentity lib w req s of
        (None, s1) \<Rightarrow> (Some (''unauthorized'', 401), s1)
      | (Some (Session _ _), s1) \<Rightarrow> (Some (''static_token_required'', 403), s1)
      | (Some (Static _), s1) \<Rightarrow> (None, s1))"

definition requireContributorAccess ::
  "'key AuthLib \<Rightarrow> AccessWorld \<Rightarrow> RequestHeaders \<Rightarrow> string \<Rightarrow> AuthStore \<Rightarrow> denial option \<times> AuthStore" where
  "requireContributorAccess lib w req login s =
     (case authenticateRequestIdentity lib w req s of
        (None, s1) \<Rightarrow> (Some (''unauthorized'', 401), s1)
      | (Some (Session who _), s1) \<Rightarrow>
          (if toLowerCase who \<noteq> toLowerCase login then Some (''forbidden_contributor'', 403) else None, s1)
      | (Some (Static _), s1) \<Rightarrow> (None, s1))"

definition requireSessionRepoAccess :: "AccessWorld \<Rightarrow> string \<Rightarrow> string \<Rightarrow> RepositoryRecord option \<Rightarrow> denial option" where
  "requireSessionRepoAccess w who repoFullName r =
     (if cp_operator \<in> set (sum_roles (loadControlPanelRoleSummary w who)) then None
      else
        (let scope = loadControlPanelAccessScope w who
         in if repo_in_scope scope repoFullName then None
            else if owner_in_scope scope r then None
            else Some (''forbidden_repo'', 403)))"

definition requireContributorRepoAccess ::
  "'key AuthLib \<Rightarrow> AccessWorld \<Rightarrow> RequestHeaders \<Rightarrow> string \<Rightarrow> RepositoryRecord \<Rightarrow> AuthStore \<Rightarrow> denial option \<times> AuthStore" where
  "requireContributorRepoAccess lib w req repoFullName r s =
     (if \<not> repo_isPrivate r then (None, s)
      else
        (case authenticateRequestIdentity lib w req s of
           (None, s1) \<Rightarrow> (Some (''unauthorized'', 401), s1)
         | (Some (Static _), s1) \<Rightarrow> (None, s1)
         | (Some (Session who _), s1) \<Rightarrow> (requireSessionRepoAccess w who repoFullName (Some r), s1)))"

definition requireCommandPreviewRepoAccess ::
  "AccessWorld \<Rightarrow> AuthIdentity option \<Rightarrow> string option \<Rightarrow> RepositoryRecord option \<Rightarrow> denial option" where
  "requireCommandPreviewRepoAccess w i repoFullName r =
     (case i of
        None \<Rightarrow> Some (''unauthorized'', 401)
      | Some (Static _) \<Rightarrow> None
      | Some (Session who _) \<Rightarrow>
          if nullish repoFullName [] = [] then None else requireSessionRepoAccess w who (nullish repoFullName []) r)"

definition requireRepoMaintainer ::
  "'key AuthLib \<Rightarrow> AccessWorld \<Rightarrow> RequestHeaders \<Rightarrow> string \<Rightarrow> AuthStore \<Rightarrow> (denial + AuthIdentity option) \<times> AuthStore" where
  "requireRepoMaintainer lib w req fullName s =
     (case requireAppRole lib w req [cp_maintainer, cp_owner, cp_operator] s of
        (Some d, s1) \<Rightarrow> (Inl d, s1)
      | (None, s1) \<Rightarrow>
          (case authenticateRequestIdentity lib w req s1 of
             (Some (Session who session), s2) \<Rightarrow>
               (case requireSessionRepoAccess w who fullName (getRepository w fullName) of
                  Some d \<Rightarrow> (Inl d, s2)
                | None \<Rightarrow> (Inr (Some (Session who session)), s2))
           | (i, s2) \<Rightarrow> (Inr i, s2)))"

definition REPO_WRITE_PERMISSIONS :: "string list" where
  "REPO_WRITE_PERMISSIONS = [''admin'', ''maintain'', ''write'']"

text \<open>The live permission, \<open>None\<close> when it cannot be read; whether it is a write permission.\<close>

definition live_permission :: "AccessWorld \<Rightarrow> string \<Rightarrow> string \<Rightarrow> string option" where
  "live_permission w fullName who =
     (case getRepository w fullName of
        None \<Rightarrow> None
      | Some r \<Rightarrow>
          (case repo_installationId r of
             None \<Rightarrow> None
           | Some i \<Rightarrow> (case getRepositoryCollaboratorPermission w i fullName who of Inl _ \<Rightarrow> None | Inr p \<Rightarrow> p)))"

definition may_write :: "string option \<Rightarrow> bool" where
  "may_write p \<longleftrightarrow> (case p of None \<Rightarrow> False | Some p \<Rightarrow> p \<in> set REPO_WRITE_PERMISSIONS)"

definition requireRepoWriteAccess ::
  "'key AuthLib \<Rightarrow> AccessWorld \<Rightarrow> RequestHeaders \<Rightarrow> string \<Rightarrow> AuthStore \<Rightarrow> (denial + AuthIdentity option) \<times> AuthStore" where
  "requireRepoWriteAccess lib w req fullName s =
     (case requireRepoMaintainer lib w req fullName s of
        (Inl d, s1) \<Rightarrow> (Inl d, s1)
      | (Inr (Some (Session who session)), s1) \<Rightarrow>
          if cp_operator \<in> set (sum_roles (loadControlPanelRoleSummary w who)) then (Inr (Some (Session who session)), s1)
          else if may_write (live_permission w fullName who) then (Inr (Some (Session who session)), s1)
          else (Inl (''insufficient_repo_permission'', 403), s1)
      | (Inr i, s1) \<Rightarrow> (Inr i, s1))"

section \<open>Guards of the MCP server\<close>

definition mcp_requireContributorAccess :: "AuthIdentity \<Rightarrow> string \<Rightarrow> string option" where
  "mcp_requireContributorAccess i login =
     (case i of
        Session who _ \<Rightarrow> if toLowerCase who \<noteq> toLowerCase login
          then Some ''Forbidden: session can only access the authenticated GitHub login.'' else None
      | Static _ \<Rightarrow> None)"

definition mcp_canAccessRepo :: "AccessWorld \<Rightarrow> AuthIdentity \<Rightarrow> string \<Rightarrow> bool" where
  "mcp_canAccessRepo w i fullName = (case i of Session who _ \<Rightarrow> canLoginAccessRepo w who fullName | Static _ \<Rightarrow> True)"

definition mcp_requireRepoAccess :: "AccessWorld \<Rightarrow> AuthIdentity \<Rightarrow> string \<Rightarrow> string option" where
  "mcp_requireRepoAccess w i fullName =
     (if mcp_canAccessRepo w i fullName then None else Some ''Forbidden: session cannot access this repository.'')"

definition mcp_requireRepoManageAccess :: "AccessWorld \<Rightarrow> AuthIdentity \<Rightarrow> string \<Rightarrow> string option" where
  "mcp_requireRepoManageAccess w i fullName =
     (case i of
        Static _ \<Rightarrow> None
      | Session who _ \<Rightarrow>
          if sc_operator (loadControlPanelAccessScope w who) then None
          else if may_write (live_permission w fullName who) then None
          else Some ''Forbidden: write access is required to propose an action on this repository.'')"

definition mcp_requireRepoApprovalQueueAccess :: "AccessWorld \<Rightarrow> AuthIdentity \<Rightarrow> string \<Rightarrow> string option" where
  "mcp_requireRepoApprovalQueueAccess w i fullName =
     (case i of
        Static _ \<Rightarrow> None
      | Session who _ \<Rightarrow>
          (let scope = loadControlPanelAccessScope w who
           in if sc_operator scope then None
              else if \<not> repo_in_scope scope fullName \<and> \<not> owner_in_scope scope (getRepository w fullName)
              then Some ''Forbidden: maintainer access is required for this repository.''
              else if may_write (live_permission w fullName who) then None
              else Some ''Forbidden: write access is required to manage this repository's approval queue.''))"

definition mcp_requireWatchableRepo :: "AccessWorld \<Rightarrow> AuthIdentity \<Rightarrow> string \<Rightarrow> string \<Rightarrow> string option" where
  "mcp_requireWatchableRepo w i login fullName =
     (case i of
        Static _ \<Rightarrow> None
      | Session _ _ \<Rightarrow> if canWatchRepo w login fullName then None else Some ''Forbidden: session cannot watch this repository.'')"

section \<open>Scopes and roles\<close>

lemma uniqueRepoNames_set: "set (uniqueRepoNames le vs) = {v \<in> set vs. v \<noteq> []}"
  by (auto simp: uniqueRepoNames_def)

lemma uniqueLogins_set: "set (uniqueLogins le vs) = {v \<in> set vs. v \<noteq> []}"
  by (auto simp: uniqueLogins_def)

lemma scope_operator [simp]: "sc_operator (loadControlPanelAccessScope w login) = isAuthorizedGitHubSessionLogin (aw_env w) login"
  by (simp add: loadControlPanelAccessScope_def buildControlPanelAccessScope_def role_inputs_def Let_def)

lemma scope_names: "set (sc_repositoryFullNames (buildControlPanelAccessScope le a)) =
    {n \<in> repo_fullName ` set (owned_installed_repos a) \<union> set (maintained_names a). n \<noteq> []}"
  by (auto simp: buildControlPanelAccessScope_def Let_def uniqueRepoNames_set)

lemma scope_logins: "set (sc_accountLogins (buildControlPanelAccessScope le a)) \<subseteq> in_accountLogin ` set (account_installations a)"
  by (auto simp: buildControlPanelAccessScope_def Let_def uniqueLogins_set)

text \<open>The parts of the inputs that the scope and the roles use do not depend on the miner flag.\<close>

definition scope_inputs :: "AccessWorld \<Rightarrow> string \<Rightarrow> RoleSummaryInputs" where
  "scope_inputs w login = role_inputs w login False"

lemma inputs_miner_irrelevant [simp]:
  "owned_installed_repos (role_inputs w login m) = owned_installed_repos (scope_inputs w login)"
  "account_installations (role_inputs w login m) = account_installations (scope_inputs w login)"
  "maintained_names (role_inputs w login m) = maintained_names (scope_inputs w login)"
  by (simp_all add: scope_inputs_def role_inputs_def owned_installed_repos_def account_installations_def maintained_names_def
      installed_repos_def suspended_account_ids_def)

lemma load_scope: "loadControlPanelAccessScope w login = buildControlPanelAccessScope (aw_locale_le w) (scope_inputs w login)"
  by (simp add: loadControlPanelAccessScope_def scope_inputs_def)

lemma operator_role: "cp_operator \<in> set (sum_roles (loadControlPanelRoleSummary w login)) \<longleftrightarrow>
    isAuthorizedGitHubSessionLogin (aw_env w) login"
  by (simp add: loadControlPanelRoleSummary_def buildControlPanelRoleSummary_def role_inputs_def summary_roles_def Let_def)

definition in_scope :: "AccessWorld \<Rightarrow> string \<Rightarrow> string \<Rightarrow> bool" where
  "in_scope w login fullName \<longleftrightarrow> repo_in_scope (loadControlPanelAccessScope w login) fullName \<or>
     owner_in_scope (loadControlPanelAccessScope w login) (getRepository w fullName)"

text \<open>Whoever has a repository in scope has a role that the maintainer routes ask for.\<close>

lemma summary_role_names: "\<exists>m. set (sum_roles (loadControlPanelRoleSummary w login)) =
    set (summary_roles (role_inputs w login m) (uniqueRepos (aw_locale_le w) (maintained_names (scope_inputs w login))))"
  by (rule exI) (simp add: loadControlPanelRoleSummary_def buildControlPanelRoleSummary_def Let_def)

lemma scope_gives_role:
  assumes "in_scope w login fullName"
  shows "list_ex (\<lambda>r. r \<in> set [cp_maintainer, cp_owner, cp_operator]) (sum_roles (loadControlPanelRoleSummary w login))"
proof -
  let ?a = "scope_inputs w login"
  have "owned_installed_repos ?a \<noteq> [] \<or> uniqueRepos (aw_locale_le w) (maintained_names ?a) \<noteq> [] \<or> account_installations ?a \<noteq> []"
  proof (cases "repo_in_scope (loadControlPanelAccessScope w login) fullName")
    case True
    then obtain n where "n \<in> set (sc_repositoryFullNames (buildControlPanelAccessScope (aw_locale_le w) ?a))"
      by (auto simp: repo_in_scope_def list_ex_iff load_scope)
    then have "owned_installed_repos ?a \<noteq> [] \<or> set (uniqueRepoNames (aw_locale_le w) (maintained_names ?a)) \<noteq> {}"
      by (auto simp: scope_names uniqueRepoNames_set)
    then show ?thesis by (auto simp: uniqueRepos_def)
  next
    case False
    then obtain l where "l \<in> set (sc_accountLogins (buildControlPanelAccessScope (aw_locale_le w) ?a))"
      using assms by (auto simp: in_scope_def owner_in_scope_def list_ex_iff load_scope split: option.splits)
    then show ?thesis using scope_logins [of "aw_locale_le w" ?a] by auto
  qed
  moreover obtain m where "set (sum_roles (loadControlPanelRoleSummary w login)) =
      set (summary_roles (role_inputs w login m) (uniqueRepos (aw_locale_le w) (maintained_names ?a)))"
    using summary_role_names by blast
  ultimately show ?thesis
    by (auto simp: list_ex_iff summary_roles_def)
qed

section \<open>Authentication is stable within a request\<close>

lemma find_map_same:
  "(\<And>x. P (f x) = P x) \<Longrightarrow> List.find P (map f xs) = map_option f (List.find P xs)"
  by (induction xs) auto

text \<open>A second look at the same request finds the same actor: the first one only touched a session.\<close>

definition same_actor :: "AuthIdentity \<Rightarrow> AuthIdentity \<Rightarrow> bool" where
  "same_actor i j \<longleftrightarrow> (case i of Static a \<Rightarrow> j = Static a | Session who _ \<Rightarrow> (\<exists>y. j = Session who y))"

lemma same_actor_refl [simp]: "same_actor i i"
  by (cases i) (simp_all add: same_actor_def)

lemma session_after: "\<exists>i. snd (authenticateSessionToken lib token s) \<in> {s, touchAuthSession lib i s}"
  by (auto simp: authenticateSessionToken_def split: option.split)

lemma session_touched:
  "rel_option same_actor (fst (authenticateSessionToken lib token s))
     (fst (authenticateSessionToken lib token (touchAuthSession lib i s)))"
  by (auto simp: authenticateSessionToken_def getAuthSessionByTokenHash_def touchAuthSession_def update_session_def
      find_map_same revoked_def expired_def same_actor_def split: option.split)

lemma private_after: "\<exists>i. snd (authenticatePrivateToken lib env token s) \<in> {s, touchAuthSession lib i s}"
  using session_after [of lib token s] by (auto simp: authenticatePrivateToken_def)

lemma private_touched:
  "rel_option same_actor (fst (authenticatePrivateToken lib env token s))
     (fst (authenticatePrivateToken lib env token (touchAuthSession lib i s)))"
  using session_touched [of lib token s i] by (simp add: authenticatePrivateToken_def)

lemma private_none: "fst (authenticatePrivateToken lib env token s) = None \<Longrightarrow> snd (authenticatePrivateToken lib env token s) = s"
  by (auto simp: authenticatePrivateToken_def authenticateSessionToken_def split: if_splits option.splits)

lemma identity_by_parts:
  "fst (authenticateRequestIdentity lib w req s) =
     (case fst (authenticatePrivateToken lib (aw_env w) (extractBearerToken (rq_authorization req)) s) of
        Some i \<Rightarrow> Some i
      | None \<Rightarrow> fst (authenticateSessionToken lib (extractBrowserSessionToken (rq_cookie req)) s))"
  using private_none [of lib "aw_env w" "extractBearerToken (rq_authorization req)" s]
  by (auto simp: authenticateRequestIdentity_def split: prod.split option.split)

lemma identity_after: "\<exists>i. snd (authenticateRequestIdentity lib w req s) \<in> {s, touchAuthSession lib i s}"
  using private_after [of lib "aw_env w" "extractBearerToken (rq_authorization req)" s]
    private_none [of lib "aw_env w" "extractBearerToken (rq_authorization req)" s]
    session_after [of lib "extractBrowserSessionToken (rq_cookie req)" s]
  by (auto simp: authenticateRequestIdentity_def split: prod.split option.split)

lemma identity_touched:
  "rel_option same_actor (fst (authenticateRequestIdentity lib w req s))
     (fst (authenticateRequestIdentity lib w req (touchAuthSession lib i s)))"
  using private_touched [of lib "aw_env w" "extractBearerToken (rq_authorization req)" s i]
    session_touched [of lib "extractBrowserSessionToken (rq_cookie req)" s i]
  by (auto simp: identity_by_parts split: option.splits)

lemma identity_twice:
  assumes "authenticateRequestIdentity lib w req s = (Some i, s1)"
  shows "\<exists>j s2. authenticateRequestIdentity lib w req s1 = (Some j, s2) \<and> same_actor i j"
proof -
  obtain k where "s1 \<in> {s, touchAuthSession lib k s}"
    using identity_after [of lib w req s] assms by auto
  then have "rel_option same_actor (Some i) (fst (authenticateRequestIdentity lib w req s1))"
    using identity_touched [of lib w req s k] assms by auto
  then obtain j where "fst (authenticateRequestIdentity lib w req s1) = Some j" "same_actor i j"
    by (cases "fst (authenticateRequestIdentity lib w req s1)") auto
  then show ?thesis by (metis prod.collapse)
qed

section \<open>Properties\<close>

lemma session_access: "requireSessionRepoAccess w who fullName (getRepository w fullName) = None \<longleftrightarrow>
    isAuthorizedGitHubSessionLogin (aw_env w) who \<or> in_scope w who fullName"
  by (auto simp: requireSessionRepoAccess_def operator_role in_scope_def Let_def)

lemma operator_passes: "isAuthorizedGitHubSessionLogin (aw_env w) who \<Longrightarrow>
    list_ex (\<lambda>r. r \<in> set [cp_maintainer, cp_owner, cp_operator]) (sum_roles (loadControlPanelRoleSummary w who))"
  using operator_role [of w who] by (auto simp: list_ex_iff)

text \<open>What the write guard answers a request that a session signs.\<close>

lemma write_guard_session:
  assumes "authenticateRequestIdentity lib w req s = (Some (Session who x), s1)"
  shows "(\<exists>i. fst (requireRepoWriteAccess lib w req fullName s) = Inr i) \<longleftrightarrow>
      isAuthorizedGitHubSessionLogin (aw_env w) who \<or> in_scope w who fullName \<and> may_write (live_permission w fullName who)"
proof -
  obtain y s2 where again: "authenticateRequestIdentity lib w req s1 = (Some (Session who y), s2)"
    using identity_twice [OF assms] by (auto simp: same_actor_def)
  have "fst (requireAppRole lib w req [cp_maintainer, cp_owner, cp_operator] s) = None"
    if "isAuthorizedGitHubSessionLogin (aw_env w) who \<or> in_scope w who fullName"
    using that scope_gives_role [of w who fullName] operator_passes [of w who] by (auto simp: requireAppRole_def assms)
  moreover have "snd (requireAppRole lib w req [cp_maintainer, cp_owner, cp_operator] s) = s1"
    by (simp add: requireAppRole_def assms)
  ultimately show ?thesis
    using again session_access [of w who fullName]
    by (auto simp: requireRepoWriteAccess_def requireRepoMaintainer_def operator_role split: prod.splits option.splits if_splits)
qed

text \<open>Who may write: a service credential, an operator, or a login in scope that GitHub reports a write permission for.\<close>

definition earns_write :: "AccessWorld \<Rightarrow> string \<Rightarrow> AuthIdentity \<Rightarrow> bool" where
  "earns_write w fullName identity \<longleftrightarrow>
     (case identity of
        Static who \<Rightarrow> True
      | Session who _ \<Rightarrow> isAuthorizedGitHubSessionLogin (aw_env w) who \<or>
          (repo_in_scope (loadControlPanelAccessScope w who) fullName \<or>
           owner_in_scope (loadControlPanelAccessScope w who) (getRepository w fullName)) \<and>
          (\<exists>r inst p. getRepository w fullName = Some r \<and> repo_installationId r = Some inst \<and>
             getRepositoryCollaboratorPermission w inst fullName who = Inr (Some p) \<and> p \<in> {''admin'', ''maintain'', ''write''}))"

lemma may_write_live: "may_write (live_permission w fullName who) \<longleftrightarrow>
    (\<exists>r inst p. getRepository w fullName = Some r \<and> repo_installationId r = Some inst \<and>
       getRepositoryCollaboratorPermission w inst fullName who = Inr (Some p) \<and> p \<in> {''admin'', ''maintain'', ''write''})"
  by (auto simp: may_write_def live_permission_def REPO_WRITE_PERMISSIONS_def split: option.splits sum.splits)

lemma earns_write_session: "earns_write w fullName (Session who x) \<longleftrightarrow>
    isAuthorizedGitHubSessionLogin (aw_env w) who \<or> in_scope w who fullName \<and> may_write (live_permission w fullName who)"
  by (simp add: earns_write_def in_scope_def may_write_live)

text \<open>
  C7: write access is earned, and nobody who has earned it is refused. The write guard of the HTTP
  routes lets a request through exactly when it is authenticated as a service credential, or as a
  session of a configured operator, or as a session whose login has the repository in its access
  scope and for which GitHub reports admin, maintain or write on the repository now; it hands on the
  actor that was authenticated. A request that authenticates nobody is answered with 401, and a failed
  permission read refuses.
\<close>

theorem repo_write_is_earned:
  "case fst (authenticateRequestIdentity lib w req s) of
     None \<Rightarrow> fst (requireRepoWriteAccess lib w req fullName s) = Inl (''unauthorized'', 401)
   | Some identity \<Rightarrow>
       (case fst (requireRepoWriteAccess lib w req fullName s) of
          Inl refusal \<Rightarrow> \<not> earns_write w fullName identity \<and> snd refusal = 403
        | Inr i \<Rightarrow> earns_write w fullName identity \<and> (\<exists>j. i = Some j \<and> same_actor identity j))"
proof (cases "authenticateRequestIdentity lib w req s")
  case (Pair found s1)
  show ?thesis
  proof (cases found)
    case None
    then show ?thesis using Pair by (simp add: requireRepoWriteAccess_def requireRepoMaintainer_def requireAppRole_def)
  next
    case (Some j)
    then obtain k s2 where again: "authenticateRequestIdentity lib w req s1 = (Some k, s2)" "same_actor j k"
      using identity_twice Pair by blast
    show ?thesis
    proof (cases j)
      case (Static who)
      then show ?thesis using Pair Some again
        by (simp add: requireRepoWriteAccess_def requireRepoMaintainer_def requireAppRole_def same_actor_def earns_write_def)
    next
      case (Session who x)
      then obtain y where k: "k = Session who y" using again(2) by (auto simp: same_actor_def)
      have "fst (requireRepoWriteAccess lib w req fullName s) \<in> {Inr (Some k), Inl (''insufficient_role'', 403),
          Inl (''forbidden_repo'', 403), Inl (''insufficient_repo_permission'', 403)}"
        using Pair Some again(1) Session k
        by (auto simp: requireRepoWriteAccess_def requireRepoMaintainer_def requireAppRole_def requireSessionRepoAccess_def Let_def)
      then show ?thesis
        using write_guard_session [OF Pair [unfolded Some Session], of fullName] again(2) Session Pair Some
        by (auto simp: earns_write_session)
    qed
  qed
qed

definition owned_repo :: RepositoryRecord where
  "owned_repo = \<lparr>repo_fullName = ''ada/r'', repo_owner = ''ada'', repo_name = ''r'', repo_installationId = Some 5,
     repo_isInstalled = True, repo_isRegistered = True, repo_isPrivate = True, repo_htmlUrl = None,
     repo_defaultBranch = None, repo_registryConfig = None\<rparr>"

text \<open>A world where GitHub reports write access to everybody.\<close>

definition owner_world :: AccessWorld where
  "owner_world = \<lparr>aw_env = demo_env, aw_repositories = [owned_repo], aw_installations = [],
     aw_store = empty_store (\<lambda>_. []) (\<lambda>_. []), aw_now = [], aw_locale_le = str_le, aw_miner = (\<lambda>_. None),
     aw_token = (\<lambda>_. Inr ''t''), aw_fetch = (\<lambda>_ _. Inr (200, [], Some ''write''))\<rparr>"

definition demo_request :: RequestHeaders where
  "demo_request = \<lparr>rq_authorization = Some ''Bearer x'', rq_cookie = None\<rparr>"

lemma demo_identity: "authenticateRequestIdentity demo_lib owner_world demo_request demo_store =
    (Some (Session ''ada'' (demo_session ''a'' ''x'')), touchAuthSession demo_lib ''a'' demo_store)"
proof -
  have "extractBearerToken (rq_authorization demo_request) = Some ''x''" by code_simp
  then show ?thesis
    by (simp add: authenticateRequestIdentity_def owner_world_def no_static_token authenticateSessionToken_def
        getAuthSessionByTokenHash_def demo_store_def demo_session_def revoked_def expired_def demo_lib_def)
qed

lemma demo_not_operator: "\<not> isAuthorizedGitHubSessionLogin (aw_env owner_world) ''ada''"
  by (simp add: isAuthorizedGitHubSessionLogin_def parseGitHubLoginList_def owner_world_def demo_env_def trim_def toLowerCase_def)

lemma demo_may_write: "may_write (live_permission owner_world ''ada/r'' ''ada'')"
  by (simp add: may_write_def live_permission_def getRepository_def owner_world_def owned_repo_def
      getRepositoryCollaboratorPermission_def REPO_WRITE_PERMISSIONS_def)

lemma demo_in_scope: "in_scope owner_world ''ada'' ''ada/r''"
proof -
  have "owned_repo \<in> set (owned_installed_repos (scope_inputs owner_world ''ada''))"
    by (simp add: owned_installed_repos_def installed_repos_def scope_inputs_def role_inputs_def listRepositories_def
        listInstallations_def suspended_account_ids_def installed_under_def sameLogin_def owner_world_def owned_repo_def)
  then have "''ada/r'' \<in> set (sc_repositoryFullNames (loadControlPanelAccessScope owner_world ''ada''))"
    by (auto simp: load_scope scope_names owned_repo_def intro!: image_eqI [of _ _ owned_repo])
  then show ?thesis by (auto simp: in_scope_def repo_in_scope_def list_ex_iff)
qed

theorem repo_write_is_earned_witness:
  "\<exists>i. fst (requireRepoWriteAccess demo_lib owner_world demo_request ''ada/r'' demo_store) = Inr (Some i)"
  using repo_write_is_earned [of demo_lib owner_world demo_request "''ada/r''" demo_store] demo_in_scope demo_may_write
  by (auto simp: demo_identity earns_write_session split: sum.splits)

text \<open>
  C12: the approval queue is guarded alike on both surfaces. For a request that a session signs,
  the MCP server lets it at the approval queue of a repository exactly when the HTTP write guard
  lets it through.
\<close>

theorem mcp_guard_mirrors_http:
  assumes "authenticateRequestIdentity lib w req s = (Some (Session who x), s1)"
  shows "mcp_requireRepoApprovalQueueAccess w (Session who x) fullName = None \<longleftrightarrow>
    (\<exists>i. fst (requireRepoWriteAccess lib w req fullName s) = Inr i)"
  unfolding write_guard_session [OF assms]
  by (auto simp: mcp_requireRepoApprovalQueueAccess_def in_scope_def Let_def)

theorem mcp_guard_mirrors_http_witness:
  "\<exists>i. fst (requireRepoWriteAccess demo_lib owner_world demo_request ''ada/r'' demo_store) = Inr i"
  unfolding mcp_guard_mirrors_http [OF demo_identity, symmetric]
  using demo_in_scope demo_may_write by (auto simp: mcp_requireRepoApprovalQueueAccess_def in_scope_def Let_def)

text \<open>
  A suspended installation does not take away what a pull request grants: an installed repository
  on which the login once opened a pull request as its owner stays in scope, whatever the
  installations are.
\<close>

theorem own_pull_request_keeps_scope:
  assumes "r \<in> set (rs_repositories a)" and "repo_isInstalled r" and "repo_fullName r \<noteq> []"
    and "p \<in> set (rs_pullRequests a)" and "pr_repoFullName p = repo_fullName r"
    and "pr_authorLogin p = Some (rs_login a)" and "pr_authorAssociation p = Some ''OWNER''"
  shows "repo_fullName r \<in> set (sc_repositoryFullNames (buildControlPanelAccessScope le (a\<lparr>rs_installations := any\<rparr>)))"
proof -
  have "repo_fullName r \<in> set (maintained_names (a\<lparr>rs_installations := any\<rparr>))"
    using assms by (auto simp: maintained_names_def installed_repos_def sameLogin_def maintainer_association_def
        sameRepo_def list_ex_iff intro!: image_eqI [of _ _ p])
  then show ?thesis using assms(3) by (simp add: scope_names)
qed

end
