(* ===== verification/Notifications.thy ===== *)
theory Notifications
  imports Repo_Access Predicted_Gate Preflight
begin

text \<open>
  Notifications to contributors: \<open>notifications/events.ts\<close> (what a webhook means),
  \<open>notifications/service.ts\<close> (who is told, how often, and what the feed shows), the subscription
  tables of \<open>db/repositories.ts\<close>, and the parts of \<open>queue/processors.ts\<close> that trust review events
  and put notification jobs on the queue. The delivery table is the one of the store. The last
  sections show that private issues reach no outsider, that an event notifies once, and that
  nobody is notified more than ten times in any hour when evaluations run one at a time.
\<close>

section \<open>Webhook payloads and events\<close>

record WebhookUser =
  wu_login :: "string option"
  wu_type :: "string option"

record WebhookPull =
  wp_number :: "nat option"
  wp_user :: "WebhookUser option"
  wp_merged_at :: "string option"
  wp_html_url :: "string option"

record WebhookReview =
  wr_state :: "string option"
  wr_user :: "WebhookUser option"
  wr_submitted_at :: "string option"
  wr_html_url :: "string option"

record NotifyPayload =
  np_action :: "string option"
  np_repository :: "string option"
  np_pull_request :: "WebhookPull option"
  np_review :: "WebhookReview option"
  np_sender :: "WebhookUser option"
  np_installation :: "nat option"

datatype NotificationEventType = pull_request_changes_requested | pull_request_merged | issue_watch_match

fun event_type_name :: "NotificationEventType \<Rightarrow> string" where
  "event_type_name pull_request_changes_requested = ''pull_request_changes_requested''"
| "event_type_name pull_request_merged = ''pull_request_merged''"
| "event_type_name issue_watch_match = ''issue_watch_match''"

record DetectedNotificationEvent =
  ev_eventType :: NotificationEventType
  ev_recipientLogin :: string
  ev_repoFullName :: string
  ev_pullNumber :: nat
  ev_dedupKey :: string
  ev_deeplink :: string
  ev_actorLogin :: string
  ev_detectedAt :: string

definition isBotUser :: "WebhookUser option \<Rightarrow> bool" where
  "isBotUser user \<longleftrightarrow> Option.bind user wu_type = Some ''Bot''"

definition non_empty :: "string option \<Rightarrow> string option" where
  "non_empty v = (case v of None \<Rightarrow> None | Some t \<Rightarrow> if t = [] then None else Some t)"

definition normalizeLogin :: "string option \<Rightarrow> string option" where
  "normalizeLogin login = non_empty (map_option (\<lambda>l. toLowerCase (trim l)) login)"

text \<open>Repository, number and author when all three are there.\<close>

definition event_target :: "NotifyPayload \<Rightarrow> (string \<times> nat \<times> string) option" where
  "event_target p =
     (case (non_empty (np_repository p), Option.bind (np_pull_request p) wp_number,
            non_empty (Option.bind (Option.bind (np_pull_request p) wp_user) wu_login)) of
        (Some r, Some n, Some who) \<Rightarrow> if n = 0 then None else Some (r, n, who)
      | _ \<Rightarrow> None)"

definition detectChangesRequested :: "NotifyPayload \<Rightarrow> string \<Rightarrow> DetectedNotificationEvent list" where
  "detectChangesRequested p detectedAt =
     (if np_action p \<noteq> Some ''submitted'' \<and> np_action p \<noteq> Some ''edited'' then []
      else
        (case event_target p of
           None \<Rightarrow> []
         | Some (repo, n, authorLogin) \<Rightarrow>
             if map_option toLowerCase (Option.bind (np_review p) wr_state) \<noteq> Some ''changes_requested'' then []
             else
               (let reviewer = orElse (Option.bind (Option.bind (np_review p) wr_user) wu_login) (Option.bind (np_sender p) wu_login)
                in if isBotUser (Option.bind (np_review p) wr_user) \<or> isBotUser (np_sender p) \<or>
                      isBotUser (Option.bind (np_pull_request p) wp_user) then []
                   else if non_empty reviewer \<noteq> None \<and> normalizeLogin reviewer = normalizeLogin (Some authorLogin) then []
                   else
                     [\<lparr>ev_eventType = pull_request_changes_requested, ev_recipientLogin = authorLogin,
                       ev_repoFullName = repo, ev_pullNumber = n,
                       ev_dedupKey = ''changes_requested:'' @ repo @ ''#'' @ nat_str n @ '':'' @
                         nullish (normalizeLogin reviewer) ''unknown'' @ '':'' @
                         nullish (Option.bind (np_review p) wr_submitted_at) detectedAt,
                       ev_deeplink = nullish (orElse (Option.bind (np_review p) wr_html_url) (Option.bind (np_pull_request p) wp_html_url))
                         (''https://github.com/'' @ repo @ ''/pull/'' @ nat_str n),
                       ev_actorLogin = nullish reviewer ''unknown'', ev_detectedAt = detectedAt\<rparr>])))"

definition detectMerged :: "NotifyPayload \<Rightarrow> string \<Rightarrow> DetectedNotificationEvent list" where
  "detectMerged p detectedAt =
     (if np_action p \<noteq> Some ''closed'' then []
      else
        (case non_empty (Option.bind (np_pull_request p) wp_merged_at) of
           None \<Rightarrow> []
         | Some mergedAt \<Rightarrow>
             (case event_target p of
                None \<Rightarrow> []
              | Some (repo, n, authorLogin) \<Rightarrow>
                  if isBotUser (Option.bind (np_pull_request p) wp_user) then []
                  else
                    [\<lparr>ev_eventType = pull_request_merged, ev_recipientLogin = authorLogin,
                      ev_repoFullName = repo, ev_pullNumber = n,
                      ev_dedupKey = ''pull_request_merged:'' @ repo @ ''#'' @ nat_str n @ '':'' @ mergedAt,
                      ev_deeplink = nullish (Option.bind (np_pull_request p) wp_html_url)
                        (''https://github.com/'' @ repo @ ''/pull/'' @ nat_str n),
                      ev_actorLogin = authorLogin, ev_detectedAt = detectedAt\<rparr>])))"

definition detectNotificationEvents :: "string \<Rightarrow> NotifyPayload \<Rightarrow> string \<Rightarrow> DetectedNotificationEvent list" where
  "detectNotificationEvents eventName p detectedAt =
     (if eventName = ''pull_request_review'' then detectChangesRequested p detectedAt
      else if eventName = ''pull_request'' then detectMerged p detectedAt
      else [])"

section \<open>Subscriptions\<close>

datatype SubscriptionStatus = sub_active | sub_paused

record NotificationSubscriptionRecord =
  ns_id :: string
  ns_login :: string
  ns_channel :: NotificationChannel
  ns_status :: SubscriptionStatus
  ns_destination :: "string option"
  ns_source :: string
  ns_createdAt :: string
  ns_updatedAt :: string

record IssueWatchSubscription =
  iw_id :: string
  iw_login :: string
  iw_repoFullName :: string
  iw_labels :: "string list"
  iw_createdAt :: string
  iw_updatedAt :: string

text \<open>The queue messages of this component.\<close>

datatype NotifyJob = Notify_evaluate DetectedNotificationEvent | Notify_deliver string

record NotifyWorld =
  nw_store :: Store
  nw_subscriptions :: "NotificationSubscriptionRecord list"
  nw_watches :: "IssueWatchSubscription list"
  nw_jobs :: "NotifyJob list"

definition nw_now :: "NotifyWorld \<Rightarrow> string \<times> NotifyWorld" where
  "nw_now w = (let (t, s) = nowIso (nw_store w) in (t, w\<lparr>nw_store := s\<rparr>))"

definition nw_uuid :: "NotifyWorld \<Rightarrow> string \<times> NotifyWorld" where
  "nw_uuid w = (let (t, s) = randomUUID (nw_store w) in (t, w\<lparr>nw_store := s\<rparr>))"

definition subscription_key :: "NotificationSubscriptionRecord \<Rightarrow> string \<times> NotificationChannel" where
  "subscription_key r = (ns_login r, ns_channel r)"

definition upsertNotificationSubscription ::
  "string \<Rightarrow> NotificationChannel \<Rightarrow> SubscriptionStatus option \<Rightarrow> string option \<Rightarrow> string option \<Rightarrow> NotifyWorld \<Rightarrow>
   NotificationSubscriptionRecord \<times> NotifyWorld" where
  "upsertNotificationSubscription login channel status destination source w =
     (let (now, w1) = nw_now w;
          (i, w2) = nw_uuid w1;
          rec = \<lparr>ns_id = i, ns_login = toLowerCase login, ns_channel = channel, ns_status = nullish status sub_active,
            ns_destination = destination, ns_source = nullish source ''app'', ns_createdAt = now, ns_updatedAt = now\<rparr>;
          rows = (if list_ex (\<lambda>r. subscription_key r = subscription_key rec) (nw_subscriptions w2)
            then map (\<lambda>r. if subscription_key r = subscription_key rec
              then r\<lparr>ns_status := ns_status rec, ns_destination := ns_destination rec, ns_source := ns_source rec, ns_updatedAt := now\<rparr>
              else r) (nw_subscriptions w2)
            else nw_subscriptions w2 @ [rec])
      in (nullish (List.find (\<lambda>r. subscription_key r = subscription_key rec) rows) rec, w2\<lparr>nw_subscriptions := rows\<rparr>))"

definition listNotificationSubscriptionsForLogin :: "string \<Rightarrow> NotifyWorld \<Rightarrow> NotificationSubscriptionRecord list" where
  "listNotificationSubscriptionsForLogin login w =
     take 20 (filter (\<lambda>r. ns_login r = toLowerCase login) (nw_subscriptions w))"

definition watch_key :: "IssueWatchSubscription \<Rightarrow> string \<times> string" where
  "watch_key r = (iw_login r, iw_repoFullName r)"

definition upsertIssueWatchSubscription ::
  "string \<Rightarrow> string \<Rightarrow> string list option \<Rightarrow> NotifyWorld \<Rightarrow> IssueWatchSubscription option \<times> NotifyWorld" where
  "upsertIssueWatchSubscription login repoFullName lbls w =
     (let (now, w1) = nw_now w;
          (i, w2) = nw_uuid w1;
          ls = dedupe (filter (\<lambda>l. l \<noteq> []) (map (\<lambda>l. trim (toLowerCase l)) (nullish lbls [])));
          rec = \<lparr>iw_id = i, iw_login = toLowerCase login, iw_repoFullName = toLowerCase repoFullName, iw_labels = ls,
            iw_createdAt = now, iw_updatedAt = now\<rparr>;
          rows = (if list_ex (\<lambda>r. watch_key r = watch_key rec) (nw_watches w2)
            then map (\<lambda>r. if watch_key r = watch_key rec then r\<lparr>iw_labels := ls, iw_updatedAt := now\<rparr> else r) (nw_watches w2)
            else nw_watches w2 @ [rec])
      in (List.find (\<lambda>r. watch_key r = watch_key rec) rows, w2\<lparr>nw_watches := rows\<rparr>))"

definition listIssueWatchSubscriptionsForLogin :: "string \<Rightarrow> NotifyWorld \<Rightarrow> IssueWatchSubscription list" where
  "listIssueWatchSubscriptionsForLogin login w = take 200 (filter (\<lambda>r. iw_login r = toLowerCase login) (nw_watches w))"

definition deleteIssueWatchSubscription :: "string \<Rightarrow> string \<Rightarrow> NotifyWorld \<Rightarrow> bool \<times> NotifyWorld" where
  "deleteIssueWatchSubscription login repoFullName w =
     (let hit = (\<lambda>r. watch_key r = (toLowerCase login, toLowerCase repoFullName))
      in (filter hit (nw_watches w) \<noteq> [], w\<lparr>nw_watches := filter (\<lambda>r. \<not> hit r) (nw_watches w)\<rparr>))"

definition listIssueWatchersForRepo :: "string \<Rightarrow> NotifyWorld \<Rightarrow> IssueWatchSubscription list" where
  "listIssueWatchersForRepo repoFullName w =
     take 5000 (filter (\<lambda>r. iw_repoFullName r = toLowerCase repoFullName) (nw_watches w))"

section \<open>Which issues are announced, and to whom\<close>

definition MAINTAINER_WIP_LABELS :: "string list" where
  "MAINTAINER_WIP_LABELS = [''wip'', ''work in progress'', ''work-in-progress'', ''in progress'', ''in-progress'', ''blocked'',
     ''on hold'', ''on-hold'', ''draft'', ''do not work'', ''do-not-work'', ''internal'']"

definition isMaintainerWipIssue :: "IssueRecord \<Rightarrow> bool" where
  "isMaintainerWipIssue i \<longleftrightarrow> isMaintainerAssociation (iss_authorAssociation i) \<and>
     list_ex (\<lambda>l. trim (toLowerCase l) \<in> set MAINTAINER_WIP_LABELS) (iss_labels i)"

definition isGrabbableHighMultiplierIssue :: "IssueRecord \<Rightarrow> bool" where
  "isGrabbableHighMultiplierIssue i \<longleftrightarrow>
     iss_state i = ''open'' \<and> isMaintainerAssociation (iss_authorAssociation i) \<and> \<not> isMaintainerWipIssue i"

definition watch_matches :: "IssueRecord \<Rightarrow> IssueWatchSubscription \<Rightarrow> bool" where
  "watch_matches i watcher \<longleftrightarrow>
     (iw_labels watcher = [] \<or> list_ex (\<lambda>l. l \<in> set (map (\<lambda>m. trim (toLowerCase m)) (iss_labels i))) (iw_labels watcher)) \<and>
     Some (toLowerCase (iw_login watcher)) \<noteq> map_option toLowerCase (iss_authorLogin i)"

definition authorized_watchers ::
  "AccessWorld \<Rightarrow> string \<Rightarrow> IssueWatchSubscription list \<Rightarrow> IssueWatchSubscription list" where
  "authorized_watchers a repoFullName matching =
     (let repo = getRepository a repoFullName
      in if (case repo of None \<Rightarrow> False | Some r \<Rightarrow> \<not> repo_isPrivate r) then matching
         else filter (\<lambda>x. repo \<noteq> None \<and> canLoginAccessRepo a (iw_login x) repoFullName) matching)"

definition watch_event :: "string \<Rightarrow> IssueRecord \<Rightarrow> string \<Rightarrow> IssueWatchSubscription \<Rightarrow> DetectedNotificationEvent" where
  "watch_event repoFullName i detectedAt watcher =
     \<lparr>ev_eventType = issue_watch_match, ev_recipientLogin = iw_login watcher, ev_repoFullName = repoFullName,
      ev_pullNumber = iss_number i,
      ev_dedupKey = ''issue_watch_match:'' @ repoFullName @ ''#'' @ nat_str (iss_number i) @ '':'' @ toLowerCase (iw_login watcher),
      ev_deeplink = ''https://github.com/'' @ repoFullName @ ''/issues/'' @ nat_str (iss_number i),
      ev_actorLogin = nullish (iss_authorLogin i) ''unknown'', ev_detectedAt = detectedAt\<rparr>"

definition detectIssueWatchEvents ::
  "AccessWorld \<Rightarrow> string \<Rightarrow> IssueRecord \<Rightarrow> NotifyWorld \<Rightarrow> DetectedNotificationEvent list \<times> NotifyWorld" where
  "detectIssueWatchEvents a repoFullName i w =
     (if \<not> isGrabbableHighMultiplierIssue i then ([], w)
      else
        (let watchers = listIssueWatchersForRepo repoFullName w
         in if watchers = [] then ([], w)
            else
              (let (detectedAt, w1) = nw_now w
               in (map (watch_event repoFullName i detectedAt)
                     (authorized_watchers a repoFullName (filter (watch_matches i) watchers)), w1))))"

section \<open>Texts\<close>

definition event_ref :: "DetectedNotificationEvent \<Rightarrow> string" where
  "event_ref e = ev_repoFullName e @ ''#'' @ nat_str (ev_pullNumber e)"

definition buildChangesRequestedNotification :: "DetectedNotificationEvent \<Rightarrow> string \<times> string" where
  "buildChangesRequestedNotification e =
     (let reviewer = (if ev_actorLogin e \<noteq> [] \<and> ev_actorLogin e \<noteq> ''unknown'' then ''@'' @ ev_actorLogin e else ''a reviewer'')
      in (sanitizePublicComment (''Changes requested on '' @ event_ref e),
          sanitizePublicComment (reviewer @ '' requested changes on your pull request '' @ event_ref e @
            ''. Address the review feedback to keep it on track to merge.'')))"

definition buildMergedOutcomeNotification :: "DetectedNotificationEvent \<Rightarrow> string \<times> string" where
  "buildMergedOutcomeNotification e =
     (sanitizePublicComment (''Merged: '' @ event_ref e),
      sanitizePublicComment (''Your pull request '' @ event_ref e @
        '' merged. Merged contributions like this strengthen your standing and lane signals on '' @ ev_repoFullName e @ '' '' @ em_dash @
        '' check your decision pack for the next high-fit issue to keep your momentum.''))"

definition buildIssueWatchNotification :: "DetectedNotificationEvent \<Rightarrow> string \<times> string" where
  "buildIssueWatchNotification e =
     (sanitizePublicComment (''New issue to grab on '' @ event_ref e),
      sanitizePublicComment (''A new maintainer-created issue opened on '' @ event_ref e @
        '' that is open for you to grab. Maintainer-created issues are strong early targets on '' @ ev_repoFullName e @ '' '' @ em_dash @
        '' claim it to line up your next contribution.''))"

definition buildNotificationContent :: "DetectedNotificationEvent \<Rightarrow> string \<times> string" where
  "buildNotificationContent e =
     (case ev_eventType e of
        pull_request_merged \<Rightarrow> buildMergedOutcomeNotification e
      | issue_watch_match \<Rightarrow> buildIssueWatchNotification e
      | pull_request_changes_requested \<Rightarrow> buildChangesRequestedNotification e)"

section \<open>Evaluation and delivery\<close>

text \<open>The clock arithmetic: \<open>Date.parse\<close> and \<open>toISOString\<close>.\<close>

record DateLib =
  dl_parse :: "string \<Rightarrow> int option"
  dl_iso :: "int \<Rightarrow> string"

definition windowMinutes :: int where "windowMinutes = 60"
definition maxPerWindow :: nat where "maxPerWindow = 10"

text \<open>An unreadable date makes \<open>toISOString\<close> throw, which is \<open>None\<close>.\<close>

definition rateLimitWindowStart :: "DateLib \<Rightarrow> string \<Rightarrow> string option" where
  "rateLimitWindowStart d now = map_option (\<lambda>t. dl_iso d (t - windowMinutes * 60000)) (dl_parse d now)"

definition resolveNotificationChannels :: "NotificationSubscriptionRecord list \<Rightarrow> NotificationChannel list" where
  "resolveNotificationChannels subs =
     (if list_ex (\<lambda>r. ns_channel r = badge \<and> ns_status r = sub_paused) subs then [] else [badge])"

definition delivery_input ::
  "DetectedNotificationEvent \<Rightarrow> string \<times> string \<Rightarrow> NotificationChannel \<Rightarrow> NotificationDeliveryStatus \<Rightarrow> NotificationInput" where
  "delivery_input e content channel status = \<lparr>nin_dedupKey = ev_dedupKey e, nin_channel = channel,
     nin_recipientLogin = ev_recipientLogin e, nin_eventType = event_type_name (ev_eventType e),
     nin_repoFullName = ev_repoFullName e, nin_pullNumber = Some (ev_pullNumber e), nin_title = fst content,
     nin_body = snd content, nin_deeplink = ev_deeplink e, nin_actorLogin = Some (ev_actorLogin e), nin_status = Some status\<rparr>"

definition evaluate_channel ::
  "DetectedNotificationEvent \<Rightarrow> string \<times> string \<Rightarrow> string \<Rightarrow> NotificationChannel \<Rightarrow> Store \<Rightarrow> NotificationDeliveryRecord list \<times> Store" where
  "evaluate_channel e content windowStart channel s =
     (let recent = countRecentNotificationDeliveries (ev_recipientLogin e) channel windowStart s;
          status = (if maxPerWindow \<le> recent then note_suppressed else note_pending);
          ((delivery, created), s1) = insertNotificationDeliveryIfAbsent (delivery_input e content channel status) s
      in (if created \<and> note_status delivery = note_pending then [delivery] else [], s1))"

fun evaluate_channels ::
  "DetectedNotificationEvent \<Rightarrow> string \<times> string \<Rightarrow> string \<Rightarrow> NotificationChannel list \<Rightarrow> Store \<Rightarrow> NotificationDeliveryRecord list \<times> Store" where
  "evaluate_channels e content windowStart [] s = ([], s)"
| "evaluate_channels e content windowStart (c # cs) s =
     (let (now, s1) = evaluate_channel e content windowStart c s;
          (rest, s2) = evaluate_channels e content windowStart cs s1
      in (now @ rest, s2))"

text \<open>\<open>Inl ()\<close> when the window start throws.\<close>

definition evaluateNotificationEvent ::
  "DateLib \<Rightarrow> DetectedNotificationEvent \<Rightarrow> NotifyWorld \<Rightarrow> (unit + NotificationDeliveryRecord list) \<times> NotifyWorld" where
  "evaluateNotificationEvent d e w =
     (let channels = resolveNotificationChannels (listNotificationSubscriptionsForLogin (ev_recipientLogin e) w)
      in if channels = [] then (Inr [], w)
         else
           (let content = buildNotificationContent e; (now, w1) = nw_now w
            in case rateLimitWindowStart d now of
                 None \<Rightarrow> (Inl (), w1)
               | Some windowStart \<Rightarrow>
                   (let (pending, s2) = evaluate_channels e content windowStart channels (nw_store w1)
                    in (Inr pending, w1\<lparr>nw_store := s2\<rparr>))))"

definition deliverNotification :: "string \<Rightarrow> NotifyWorld \<Rightarrow> NotifyWorld" where
  "deliverNotification i w =
     (case getNotificationDeliveryById i (nw_store w) of
        None \<Rightarrow> w
      | Some delivery \<Rightarrow>
          if note_status delivery \<noteq> note_pending then w
          else w\<lparr>nw_store := markNotificationDeliveryDelivered i (nw_store w)\<rparr>)"

text \<open>The two queue consumers; a throw leaves the job to the queue's retry.\<close>

fun process_notify_job :: "DateLib \<Rightarrow> NotifyJob \<Rightarrow> NotifyWorld \<Rightarrow> NotifyWorld" where
  "process_notify_job d (Notify_evaluate e) w =
     (case evaluateNotificationEvent d e w of
        (Inl (), w1) \<Rightarrow> w1
      | (Inr deliveries, w1) \<Rightarrow> w1\<lparr>nw_jobs := nw_jobs w1 @ map (\<lambda>r. Notify_deliver (note_id r)) deliveries\<rparr>)"
| "process_notify_job d (Notify_deliver i) w = deliverNotification i w"

section \<open>The feed\<close>

record NotificationFeedItem =
  fi_id :: string
  fi_eventType :: string
  fi_repoFullName :: string
  fi_pullNumber :: "nat option"
  fi_title :: string
  fi_body :: string
  fi_deeplink :: string
  fi_status :: NotificationDeliveryStatus
  fi_createdAt :: string

definition feed_item :: "NotificationDeliveryRecord \<Rightarrow> NotificationFeedItem" where
  "feed_item r = \<lparr>fi_id = note_id r, fi_eventType = note_eventType r, fi_repoFullName = note_repoFullName r,
     fi_pullNumber = note_pullNumber r, fi_title = note_title r, fi_body = note_body r, fi_deeplink = note_deeplink r,
     fi_status = note_status r, fi_createdAt = note_createdAt r\<rparr>"

text \<open>Login, unread count and items.\<close>

fun feed_loop :: "nat \<Rightarrow> NotificationFeedItem list \<Rightarrow> NotificationDeliveryRecord list \<Rightarrow> nat \<times> NotificationFeedItem list" where
  "feed_loop n acc [] = (n, acc)"
| "feed_loop n acc (r # rs) =
     (if note_status r \<noteq> note_delivered \<and> note_status r \<noteq> note_read then feed_loop n acc rs
      else feed_loop (if note_status r = note_delivered then n + 1 else n) (acc @ [feed_item r]) rs)"

definition buildNotificationFeed :: "string \<Rightarrow> NotificationDeliveryRecord list \<Rightarrow> string \<times> nat \<times> NotificationFeedItem list" where
  "buildNotificationFeed login deliveries = (toLowerCase login, feed_loop 0 [] deliveries)"

section \<open>From the webhook to the queue\<close>

definition trusted_event :: "AccessWorld \<Rightarrow> nat option \<Rightarrow> DetectedNotificationEvent \<Rightarrow> bool" where
  "trusted_event a installationId e \<longleftrightarrow>
     (if ev_eventType e \<noteq> pull_request_changes_requested then True
      else
        (case installationId of
           None \<Rightarrow> False
         | Some inst \<Rightarrow>
             if inst = 0 \<or> ev_actorLogin e = ''unknown'' then False
             else
               (case getRepositoryCollaboratorPermission a inst (ev_repoFullName e) (ev_actorLogin e) of
                  Inl _ \<Rightarrow> False
                | Inr p \<Rightarrow> p \<in> {Some ''admin'', Some ''maintain'', Some ''write''})))"

definition filterTrustedReviewNotificationEvents ::
  "AccessWorld \<Rightarrow> nat option \<Rightarrow> DetectedNotificationEvent list \<Rightarrow> DetectedNotificationEvent list" where
  "filterTrustedReviewNotificationEvents a installationId events = filter (trusted_event a installationId) events"

definition event_audit :: "string \<Rightarrow> DetectedNotificationEvent \<Rightarrow> AuditEventRecord" where
  "event_audit deliveryId e = \<lparr>ae_eventType = ''notification.event_detected'', ae_actor = Some (ev_actorLogin e),
     ae_targetKey = Some (ev_recipientLogin e), ae_outcome = Audit_success,
     ae_detail = Some (event_type_name (ev_eventType e) @ '' for '' @ event_ref e),
     ae_metadata = [(''deliveryId'', JString deliveryId), (''eventType'', JString (event_type_name (ev_eventType e))),
       (''recipientLogin'', JString (ev_recipientLogin e)), (''repoFullName'', JString (ev_repoFullName e)),
       (''pullNumber'', JNumber (Finite (of_nat (ev_pullNumber e)))), (''dedupKey'', JString (ev_dedupKey e)),
       (''deeplink'', JString (ev_deeplink e))]\<rparr>"

definition enqueue_event :: "string \<Rightarrow> DetectedNotificationEvent \<Rightarrow> NotifyWorld \<Rightarrow> NotifyWorld" where
  "enqueue_event deliveryId e w =
     w\<lparr>nw_store := recordAuditEvent (event_audit deliveryId e) (nw_store w), nw_jobs := nw_jobs w @ [Notify_evaluate e]\<rparr>"

definition notify_webhook ::
  "AccessWorld \<Rightarrow> string \<Rightarrow> string \<Rightarrow> NotifyPayload \<Rightarrow> DetectedNotificationEvent list \<Rightarrow> NotifyWorld \<Rightarrow> NotifyWorld" where
  "notify_webhook a deliveryId eventName p issueWatchEvents w =
     (let (detectedAt, w1) = nw_now w;
          trusted = filterTrustedReviewNotificationEvents a (np_installation p) (detectNotificationEvents eventName p detectedAt)
      in fold (enqueue_event deliveryId) (trusted @ issueWatchEvents) w1)"

section \<open>What an operation may do to the delivery log\<close>

text \<open>
  Apart from an insertion, operations keep the rows of the log with their recipient, channel,
  time and suppression, keep the clock and let it run on.
\<close>

definition same_row :: "NotificationDeliveryRecord \<Rightarrow> NotificationDeliveryRecord \<Rightarrow> bool" where
  "same_row r r' \<longleftrightarrow> note_key r' = note_key r \<and> note_recipientLogin r' = note_recipientLogin r \<and> note_channel r' = note_channel r \<and>
     note_createdAt r' = note_createdAt r \<and> (note_status r' = note_suppressed \<longleftrightarrow> note_status r = note_suppressed)"

definition same_log :: "Store \<Rightarrow> Store \<Rightarrow> bool" where
  "same_log s s' \<longleftrightarrow> clock s' = clock s \<and> ticks s \<le> ticks s' \<and>
     list_all2 same_row (notification_deliveries s) (notification_deliveries s')"

lemma same_row_refl [simp]: "same_row r r"
  by (simp add: same_row_def)

lemma same_rows_refl [simp]: "list_all2 same_row rs rs"
  by (simp add: list.rel_refl)

lemma same_log_refl [simp]: "same_log s s"
  by (simp add: same_log_def)

lemma same_log_trans: "same_log s t \<Longrightarrow> same_log t u \<Longrightarrow> same_log s u"
  by (simp add: same_log_def list_all2_conv_all_nth same_row_def)

lemma same_log_tick: "notification_deliveries s' = notification_deliveries s \<Longrightarrow> clock s' = clock s \<Longrightarrow> ticks s \<le> ticks s' \<Longrightarrow> same_log s s'"
  by (simp add: same_log_def)

lemma same_log_map:
  assumes "notification_deliveries s' = map f (notification_deliveries s)" "clock s' = clock s" "ticks s \<le> ticks s'"
    and "\<And>r. same_row r (f r)"
  shows "same_log s s'"
  using assms by (simp add: same_log_def list_all2_conv_all_nth)

lemma same_log_delivered: "same_log s (markNotificationDeliveryDelivered i s)"
  by (rule same_log_map [where f = "\<lambda>row. if note_id row = i \<and> note_status row = note_pending
        then row\<lparr>note_status := note_delivered, note_deliveredAt := Some (fst (nowIso s))\<rparr> else row"])
    (simp_all add: markNotificationDeliveryDelivered_def nowIso_def Let_def same_row_def note_key_def)

lemma same_log_read: "same_log s (snd (markNotificationDeliveriesRead who ids s))"
proof -
  let ?hit = "\<lambda>row. note_recipientLogin row = toLowerCase who \<and> note_status row = note_delivered \<and>
    (ids = None \<or> note_id row \<in> set (nullish ids []))"
  let ?f = "\<lambda>row :: NotificationDeliveryRecord. if ?hit row then row\<lparr>note_status := note_read, note_readAt := Some (fst (nowIso s))\<rparr> else row"
  let ?s' = "snd (markNotificationDeliveriesRead who ids s)"
  have tables: "notification_deliveries (s\<lparr>ticks := n\<rparr>) = notification_deliveries s" for n
    by simp
  have shape: "markNotificationDeliveriesRead who ids s =
      (case ids of Some [] \<Rightarrow> (Inr 0, s)
       | _ \<Rightarrow> if length (nullish ids []) > MAX_NOTIFICATION_MARK_READ_IDS
           then (Inl (''ids must contain at most '' @ nat_str MAX_NOTIFICATION_MARK_READ_IDS @ '' entries''), s)
           else if list_ex (\<lambda>i. length i > MAX_NOTIFICATION_DELIVERY_ID_LENGTH) (nullish ids [])
           then (Inl (''ids entries must be at most '' @ nat_str MAX_NOTIFICATION_DELIVERY_ID_LENGTH @ '' characters''), s)
           else (Inr (length (filter ?hit (notification_deliveries s))),
             s\<lparr>ticks := Suc (ticks s), notification_deliveries := map ?f (notification_deliveries s)\<rparr>))"
    unfolding markNotificationDeliveriesRead_def nowIso_def Let_def prod.case fst_conv tables by (rule refl)
  define f where "f = ?f"
  have new: "same_log s (s\<lparr>ticks := Suc (ticks s), notification_deliveries := map f (notification_deliveries s)\<rparr>)"
    by (rule same_log_map [where f = f]) (simp_all add: same_row_def f_def note_key_def)
  show ?thesis
    unfolding shape f_def [symmetric] using new by (simp split: option.split list.split)
qed

lemma same_log_audit: "same_log s (recordAuditEvent e s)"
  by (rule same_log_tick) (simp_all add: recordAuditEvent_def randomUUID_def nowIso_def Let_def)

lemma same_log_now: "same_log (nw_store w) (nw_store (snd (nw_now w)))"
  by (rule same_log_tick) (simp_all add: nw_now_def nowIso_def)

lemma same_log_uuid: "same_log (nw_store w) (nw_store (snd (nw_uuid w)))"
  by (rule same_log_tick) (simp_all add: nw_uuid_def randomUUID_def)

section \<open>The hourly limit\<close>

text \<open>Dates between the epoch and the year 9999, whose text order is the order of time.\<close>

definition LAST_ISO :: int where "LAST_ISO = 253402300799999"

definition iso_dates :: "DateLib \<Rightarrow> bool" where
  "iso_dates d \<longleftrightarrow> (\<forall>a b. 0 \<le> a \<longrightarrow> a \<le> LAST_ISO \<longrightarrow> 0 \<le> b \<longrightarrow> b \<le> LAST_ISO \<longrightarrow>
     str_le (dl_iso d a) (dl_iso d b) = (a \<le> b) \<and> dl_parse d (dl_iso d a) = Some a)"

text \<open>A clock that shows such dates, does not run back, and started an hour or more after the epoch.\<close>

definition iso_clock :: "DateLib \<Rightarrow> (nat \<Rightarrow> int) \<Rightarrow> Store \<Rightarrow> bool" where
  "iso_clock d ti s \<longleftrightarrow> clock s = (\<lambda>n. dl_iso d (ti n)) \<and> mono ti \<and> (\<forall>n. 3600000 \<le> ti n \<and> ti n \<le> LAST_ISO)"

definition notified_in_hour :: "DateLib \<Rightarrow> string \<Rightarrow> NotificationChannel \<Rightarrow> int \<Rightarrow> NotificationDeliveryRecord \<Rightarrow> bool" where
  "notified_in_hour d recipient channel t row \<longleftrightarrow> note_recipientLogin row = recipient \<and> note_channel row = channel \<and>
     note_status row \<noteq> note_suppressed \<and> str_le (dl_iso d t) (note_createdAt row) \<and>
     str_le (note_createdAt row) (dl_iso d (t + 3600000))"

definition hour_of :: "int \<Rightarrow> bool" where
  "hour_of t \<longleftrightarrow> 0 \<le> t \<and> t + 3600000 \<le> LAST_ISO"

definition limited :: "DateLib \<Rightarrow> Store \<Rightarrow> bool" where
  "limited d s \<longleftrightarrow> (\<forall>recipient channel t. hour_of t \<longrightarrow>
     length (filter (notified_in_hour d recipient channel t) (notification_deliveries s)) \<le> 10)"

lemma length_filter_mono: "(\<And>x. P x \<Longrightarrow> Q x) \<Longrightarrow> length (filter P xs) \<le> length (filter Q xs)"
  by (induction xs) auto

lemma filter_length_rel:
  "list_all2 R xs ys \<Longrightarrow> (\<And>x y. R x y \<Longrightarrow> P x = P y) \<Longrightarrow> length (filter P ys) = length (filter P xs)"
  by (induction rule: list_all2_induct) auto

lemma limited_same_log:
  assumes "limited d s" and "same_log s s'"
  shows "limited d s'"
proof -
  have rel: "list_all2 same_row (notification_deliveries s) (notification_deliveries s')"
    using assms(2) by (simp add: same_log_def)
  have "length (filter (notified_in_hour d r c t) (notification_deliveries s')) =
      length (filter (notified_in_hour d r c t) (notification_deliveries s))" for r c t
    by (rule filter_length_rel [OF rel]) (auto simp: same_row_def notified_in_hour_def)
  then show ?thesis using assms(1) by (simp add: limited_def)
qed

lemma iso_clock_same_log: "iso_clock d ti s \<Longrightarrow> same_log s s' \<Longrightarrow> iso_clock d ti s'"
  by (simp add: iso_clock_def same_log_def)

text \<open>The row that an insertion adds, and what it leaves.\<close>

lemma insert_clock: "clock (snd (insertNotificationDeliveryIfAbsent i s)) = clock s"
  "ticks (snd (insertNotificationDeliveryIfAbsent i s)) = Suc (Suc (ticks s))"
  by (simp_all add: insertNotificationDeliveryIfAbsent_def nowIso_def randomUUID_def Let_def split: option.split)

lemma insert_row:
  assumes "snd (fst (insertNotificationDeliveryIfAbsent i s))"
  shows "note_recipientLogin (fst (fst (insertNotificationDeliveryIfAbsent i s))) = toLowerCase (nin_recipientLogin i)"
    "note_channel (fst (fst (insertNotificationDeliveryIfAbsent i s))) = nin_channel i"
    "note_createdAt (fst (fst (insertNotificationDeliveryIfAbsent i s))) = clock s (ticks s)"
    "note_status (fst (fst (insertNotificationDeliveryIfAbsent i s))) = nullish (nin_status i) note_pending"
  using assms by (auto simp: insertNotificationDeliveryIfAbsent_def nowIso_def randomUUID_def Let_def split: option.splits)

text \<open>An insertion that follows a count of the last hour keeps the limit.\<close>

lemma limited_evaluate_channel:
  assumes "iso_dates d" and clock: "iso_clock d ti s" and "limited d s"
    and "k \<le> ticks s" and start: "rateLimitWindowStart d (clock s k) = Some windowStart"
  shows "limited d (snd (evaluate_channel e content windowStart channel s))"
proof -
  define status where "status = (if maxPerWindow \<le> countRecentNotificationDeliveries (ev_recipientLogin e) channel windowStart s
    then note_suppressed else note_pending)"
  let ?i = "delivery_input e content channel status"
  let ?s1 = "snd (insertNotificationDeliveryIfAbsent ?i s)" and ?row = "fst (fst (insertNotificationDeliveryIfAbsent ?i s))"
  have after: "snd (evaluate_channel e content windowStart channel s) = ?s1"
    by (simp add: evaluate_channel_def status_def Let_def split: prod.split)
  show ?thesis
  proof (cases "snd (fst (insertNotificationDeliveryIfAbsent ?i s))")
    case False
    then show ?thesis
      using limited_same_log [OF assms(3), of ?s1] by (simp add: after same_log_def deliveries.rows_after insert_clock)
  next
    case True
    have rows: "notification_deliveries ?s1 = notification_deliveries s @ [?row]"
      using True by (simp add: deliveries.rows_after)
    have row: "note_recipientLogin ?row = toLowerCase (ev_recipientLogin e)" "note_channel ?row = channel"
      "note_createdAt ?row = clock s (ticks s)" "note_status ?row = status"
      using insert_row [OF True] by (simp_all add: delivery_input_def)
    have bounds: "3600000 \<le> ti n" "ti n \<le> LAST_ISO" for n
      using clock by (auto simp: iso_clock_def)
    have dates: "0 \<le> a \<Longrightarrow> a \<le> LAST_ISO \<Longrightarrow> 0 \<le> b \<Longrightarrow> b \<le> LAST_ISO \<Longrightarrow> str_le (dl_iso d a) (dl_iso d b) = (a \<le> b)" for a b
      using assms(1) by (auto simp: iso_dates_def)
    have at: "clock s n = dl_iso d (ti n)" for n
      using clock by (simp add: iso_clock_def)
    have "0 \<le> ti k" using bounds(1) [of k] by simp
    then have window: "windowStart = dl_iso d (ti k - 3600000)"
      using start assms(1) bounds(2) [of k] by (auto simp: rateLimitWindowStart_def at iso_dates_def windowMinutes_def)
    have "length (filter (notified_in_hour d r c t) (notification_deliveries ?s1)) \<le> 10" if t: "hour_of t" for r c t
    proof (cases "notified_in_hour d r c t ?row")
      case False
      then show ?thesis using assms(3) t by (simp add: limited_def rows)
    next
      case True
      then have "ti (ticks s) \<le> t + 3600000"
        using t dates [of "ti (ticks s)" "t + 3600000"] bounds [of "ticks s"] by (simp add: notified_in_hour_def row at hour_of_def)
      moreover have "ti k \<le> ti (ticks s)"
        using clock assms(4) by (simp add: iso_clock_def mono_def)
      ultimately have "str_le windowStart (dl_iso d t)"
        using t dates [of "ti k - 3600000" t] bounds [of k] by (simp add: window hour_of_def)
      then have "notified_in_hour d r c t x \<Longrightarrow> note_recipientLogin x = toLowerCase (ev_recipientLogin e) \<and>
          note_channel x = channel \<and> note_status x \<noteq> note_suppressed \<and> str_le windowStart (note_createdAt x)" for x
        using True by (auto simp: notified_in_hour_def row intro: str_le_trans)
      then have "length (filter (notified_in_hour d r c t) (notification_deliveries s)) \<le>
          countRecentNotificationDeliveries (ev_recipientLogin e) channel windowStart s"
        unfolding countRecentNotificationDeliveries_def by (rule length_filter_mono)
      moreover have "status \<noteq> note_suppressed"
        using True by (simp add: notified_in_hour_def row)
      then have "countRecentNotificationDeliveries (ev_recipientLogin e) channel windowStart s < 10"
        by (auto simp: status_def maxPerWindow_def split: if_splits)
      ultimately show ?thesis using True by (simp add: rows)
    qed
    then show ?thesis by (simp add: after limited_def)
  qed
qed

lemma evaluate_channel_clock: "clock (snd (evaluate_channel e content st c s)) = clock s"
  "ticks s \<le> ticks (snd (evaluate_channel e content st c s))"
  by (simp_all add: evaluate_channel_def insert_clock Let_def split: prod.split)
    (metis insert_clock(1) snd_conv, metis Suc_leD insert_clock(2) le_refl order_trans snd_conv)

lemma snd_evaluate_channels [simp]: "snd (evaluate_channels e content st (c # cs) s) =
    snd (evaluate_channels e content st cs (snd (evaluate_channel e content st c s)))"
  by (simp add: split_beta Let_def)

lemma limited_evaluate_channels:
  assumes "iso_dates d" and "iso_clock d ti s" and "limited d s"
    and "k \<le> ticks s" and "rateLimitWindowStart d (clock s k) = Some windowStart"
  shows "limited d (snd (evaluate_channels e content windowStart cs s))"
  using assms(2-)
proof (induction cs arbitrary: s)
  case Nil
  then show ?case by simp
next
  case (Cons c cs)
  let ?s1 = "snd (evaluate_channel e content windowStart c s)"
  have "limited d (snd (evaluate_channels e content windowStart cs ?s1))"
    using Cons limited_evaluate_channel [OF assms(1) Cons.prems]
    by (intro Cons.IH) (simp_all add: evaluate_channel_clock iso_clock_def le_trans [OF _ evaluate_channel_clock(2)])
  then show ?case by (simp only: snd_evaluate_channels)
qed

lemma evaluate_channels_clock: "clock (snd (evaluate_channels e content st cs s)) = clock s"
  by (induction cs arbitrary: s) (simp_all only: snd_evaluate_channels evaluate_channel_clock evaluate_channels.simps(1) snd_conv)

text \<open>What the component does to the store, one operation at a time.\<close>

inductive notify_step :: "DateLib \<Rightarrow> NotifyWorld \<Rightarrow> NotifyWorld \<Rightarrow> bool" for d where
  "notify_step d w (notify_webhook a deliveryId eventName p events w)"
| "notify_step d w (snd (detectIssueWatchEvents a repo i w))"
| "notify_step d w (process_notify_job d job w)"
| "notify_step d w (w\<lparr>nw_store := snd (markNotificationDeliveriesRead who ids (nw_store w))\<rparr>)"
| "notify_step d w (snd (upsertNotificationSubscription login channel status destination source w))"
| "notify_step d w (snd (upsertIssueWatchSubscription login repo ls w))"
| "notify_step d w (snd (deleteIssueWatchSubscription login repo w))"

definition kept :: "DateLib \<Rightarrow> (nat \<Rightarrow> int) \<Rightarrow> Store \<Rightarrow> bool" where
  "kept d ti s \<longleftrightarrow> iso_clock d ti s \<and> limited d s"

lemma kept_same_log: "same_log s s' \<Longrightarrow> kept d ti s \<Longrightarrow> kept d ti s'"
  unfolding kept_def by (blast intro: limited_same_log iso_clock_same_log)

lemma same_log_enqueue: "same_log (nw_store w) (nw_store (fold (enqueue_event i) es w))"
proof (induction es arbitrary: w)
  case (Cons e es)
  have "same_log (nw_store w) (nw_store (enqueue_event i e w))"
    using same_log_audit by (simp add: enqueue_event_def)
  then show ?case using Cons [of "enqueue_event i e w"] by (auto intro: same_log_trans)
qed simp

lemma kept_evaluate:
  assumes "iso_dates d" and "kept d ti (nw_store w)"
  shows "kept d ti (nw_store (snd (evaluateNotificationEvent d e w)))"
proof -
  let ?w1 = "snd (nw_now w)"
  have now: "kept d ti (nw_store ?w1)" "fst (nw_now w) = clock (nw_store ?w1) (ticks (nw_store w))"
    "ticks (nw_store w) \<le> ticks (nw_store ?w1)"
    using kept_same_log [OF same_log_now assms(2)] by (simp_all add: nw_now_def nowIso_def)
  have "kept d ti (snd (evaluate_channels e content windowStart cs (nw_store ?w1)))"
    if "rateLimitWindowStart d (fst (nw_now w)) = Some windowStart" for windowStart content cs
    using limited_evaluate_channels [OF assms(1), of ti "nw_store ?w1" "ticks (nw_store w)" windowStart] now that
    by (simp add: kept_def iso_clock_def evaluate_channels_clock)
  then show ?thesis
    using assms(2) now(1) by (simp add: evaluateNotificationEvent_def Let_def split_beta split: option.split)
qed

lemma same_log_webhook: "same_log (nw_store w) (nw_store (notify_webhook a deliveryId eventName p events w))"
  unfolding notify_webhook_def Let_def split_beta by (rule same_log_trans [OF same_log_now same_log_enqueue])

lemma same_log_watch: "same_log (nw_store w) (nw_store (snd (detectIssueWatchEvents a repo i w)))"
  using same_log_now [of w] by (simp add: detectIssueWatchEvents_def Let_def split_beta)

lemma same_log_subscribe:
  "same_log (nw_store w) (nw_store (snd (upsertNotificationSubscription login channel status destination source w)))"
  using same_log_trans [OF same_log_now same_log_uuid, of w] by (simp add: upsertNotificationSubscription_def Let_def split_beta)

lemma same_log_watching: "same_log (nw_store w) (nw_store (snd (upsertIssueWatchSubscription login repo ls w)))"
  using same_log_trans [OF same_log_now same_log_uuid, of w] by (simp add: upsertIssueWatchSubscription_def Let_def split_beta)

lemma kept_step: "notify_step d w w' \<Longrightarrow> iso_dates d \<Longrightarrow> kept d ti (nw_store w) \<Longrightarrow> kept d ti (nw_store w')"
proof (induction rule: notify_step.induct)
  case (1 w a deliveryId eventName p events)
  then show ?case using same_log_webhook by (blast intro: kept_same_log)
next
  case (2 w a repo i)
  then show ?case using same_log_watch by (blast intro: kept_same_log)
next
  case (3 w job)
  show ?case
  proof (cases job)
    case (Notify_evaluate e)
    then show ?thesis
      using kept_evaluate [OF 3, of e] by (cases "evaluateNotificationEvent d e w") (auto split: sum.split unit.split)
  next
    case (Notify_deliver i)
    then show ?thesis
      using 3 kept_same_log [OF same_log_delivered] by (auto simp: deliverNotification_def split: option.split)
  qed
next
  case (4 w who ids)
  then show ?case using kept_same_log [OF same_log_read] by simp
next
  case (5 w login channel status destination source)
  then show ?case using same_log_subscribe by (blast intro: kept_same_log)
next
  case (6 w login repo ls)
  then show ?case using same_log_watching by (blast intro: kept_same_log)
next
  case (7 w login repo)
  then show ?case by (simp add: deleteIssueWatchSubscription_def Let_def)
qed

section \<open>Keys of the log\<close>

definition log_keys :: "NotifyWorld \<Rightarrow> (string \<times> NotificationChannel) set" where
  "log_keys w = note_key ` set (notification_deliveries (nw_store w))"

lemma same_log_keys: "same_log s s' \<Longrightarrow> note_key ` set (notification_deliveries s') = note_key ` set (notification_deliveries s)"
proof -
  have "list_all2 same_row xs ys \<Longrightarrow> note_key ` set ys = note_key ` set xs" for xs ys
    by (induction rule: list_all2_induct) (simp_all add: same_row_def)
  then show "same_log s s' \<Longrightarrow> ?thesis" by (simp add: same_log_def)
qed

lemma evaluate_channels_keys: "note_key ` set (notification_deliveries s) \<subseteq>
    note_key ` set (notification_deliveries (snd (evaluate_channels e content st cs s)))"
proof (induction cs arbitrary: s)
  case (Cons c cs)
  have "note_key ` set (notification_deliveries s) \<subseteq>
      note_key ` set (notification_deliveries (snd (evaluate_channel e content st c s)))"
    by (auto simp: evaluate_channel_def Let_def split_beta deliveries.keys_after)
  then show ?case unfolding snd_evaluate_channels using Cons by (rule order_trans)
qed simp

lemma log_keys_evaluate: "log_keys w \<subseteq> log_keys (snd (evaluateNotificationEvent d e w))"
  using same_log_keys [OF same_log_now, of w] evaluate_channels_keys [where s = "nw_store (snd (nw_now w))"]
  by (simp add: evaluateNotificationEvent_def log_keys_def Let_def split_beta split: option.split)

lemma log_keys_step: "notify_step d w w' \<Longrightarrow> log_keys w \<subseteq> log_keys w'"
proof (induction rule: notify_step.induct)
  case (1 w a deliveryId eventName p events)
  then show ?case
    using same_log_keys [OF same_log_webhook] by (simp add: log_keys_def)
next
  case (2 w a repo i)
  then show ?case
    using same_log_keys [OF same_log_watch] by (simp add: log_keys_def)
next
  case (3 w job)
  show ?case
  proof (cases job)
    case (Notify_evaluate e)
    then show ?thesis
      using log_keys_evaluate [of w d e] by (cases "evaluateNotificationEvent d e w") (auto simp: log_keys_def split: sum.split unit.split)
  next
    case (Notify_deliver i)
    then show ?thesis
      using same_log_keys [OF same_log_delivered] by (simp add: deliverNotification_def log_keys_def split: option.split)
  qed
next
  case (4 w who ids)
  then show ?case using same_log_keys [OF same_log_read] by (simp add: log_keys_def)
next
  case (5 w login channel status destination source)
  then show ?case using same_log_keys [OF same_log_subscribe] by (simp add: log_keys_def)
next
  case (6 w login repo ls)
  then show ?case using same_log_keys [OF same_log_watching] by (simp add: log_keys_def)
next
  case (7 w login repo)
  then show ?case by (simp add: deleteIssueWatchSubscription_def log_keys_def Let_def)
qed

lemma channels_badge: "resolveNotificationChannels subs \<in> {[], [badge]}"
  by (simp add: resolveNotificationChannels_def)

text \<open>An evaluation that notifies had a new key; afterwards the key is in the log.\<close>

lemma evaluate_notifies:
  assumes "evaluateNotificationEvent d e w = (Inr (r # rs), w1)"
  shows "(ev_dedupKey e, badge) \<notin> log_keys w \<and> (ev_dedupKey e, badge) \<in> log_keys w1"
proof -
  let ?w0 = "snd (nw_now w)"
  obtain st where run: "evaluate_channels e (buildNotificationContent e) st [badge] (nw_store ?w0) = (r # rs, nw_store w1)"
    using assms channels_badge [of "listNotificationSubscriptionsForLogin (ev_recipientLogin e) w"]
    by (auto simp: evaluateNotificationEvent_def Let_def split_beta split: option.splits if_splits
        simp del: evaluate_channels.simps snd_evaluate_channels) (metis prod.collapse)
  define i where "i = delivery_input e (buildNotificationContent e) badge
    (if maxPerWindow \<le> countRecentNotificationDeliveries (ev_recipientLogin e) badge st (nw_store ?w0) then note_suppressed else note_pending)"
  have after: "nw_store w1 = snd (insertNotificationDeliveryIfAbsent i (nw_store ?w0))"
    and created: "snd (fst (insertNotificationDeliveryIfAbsent i (nw_store ?w0)))"
    using run by (auto simp: evaluate_channel_def i_def Let_def split_beta split: if_splits)
  have key: "note_input_key i = (ev_dedupKey e, badge)"
    by (simp add: i_def note_input_key_def delivery_input_def)
  show ?thesis
    using created same_log_keys [OF same_log_now, of w] by (simp add: deliveries.created_iff log_keys_def after deliveries.keys_after key)
qed

section \<open>Properties\<close>

text \<open>
  C14: nobody is notified more than ten times in an hour. In every state that webhooks,
  evaluations, deliveries, reads and subscription changes reach from a store without deliveries,
  taken one after the other in any order, every window of 60 minutes holds at most ten deliveries
  of a recipient and channel that were not suppressed.
\<close>

theorem ten_notifications_an_hour:
  assumes "iso_dates d" and "iso_clock d ti (nw_store w)" and "notification_deliveries (nw_store w) = []"
    and "(notify_step d)\<^sup>*\<^sup>* w w'" and "0 \<le> t" and "t + 60 * 60 * 1000 \<le> LAST_ISO"
  shows "length (filter (\<lambda>row. note_recipientLogin row = recipient \<and> note_channel row = channel \<and>
      note_status row \<noteq> note_suppressed \<and> str_le (dl_iso d t) (note_createdAt row) \<and>
      str_le (note_createdAt row) (dl_iso d (t + 60 * 60 * 1000))) (notification_deliveries (nw_store w'))) \<le> 10"
proof -
  have "kept d ti (nw_store w)"
    using assms(2,3) by (simp add: kept_def limited_def)
  with assms(4) have "kept d ti (nw_store w')"
    by (induction rule: rtranclp_induct) (blast intro: kept_step [OF _ assms(1)])+
  then show ?thesis
    using assms(5,6) unfolding kept_def limited_def notified_in_hour_def [abs_def] hour_of_def by simp
qed

text \<open>Dates in unary, and a world whose clock stands still.\<close>

definition unary_dates :: DateLib where
  "unary_dates = \<lparr>dl_parse = (\<lambda>s. Some (int (length s))), dl_iso = (\<lambda>t. replicate (nat t) CHR ''i'')\<rparr>"

definition quiet_world :: NotifyWorld where
  "quiet_world = \<lparr>nw_store = empty_store (\<lambda>_. []) (\<lambda>_. dl_iso unary_dates 3600000), nw_subscriptions = [], nw_watches = [], nw_jobs = []\<rparr>"

definition review_event :: DetectedNotificationEvent where
  "review_event = \<lparr>ev_eventType = pull_request_changes_requested, ev_recipientLogin = ''ada'', ev_repoFullName = ''o/r'',
     ev_pullNumber = 7, ev_dedupKey = ''k'', ev_deeplink = [], ev_actorLogin = ''bob'', ev_detectedAt = []\<rparr>"

lemma str_le_replicate: "str_le (replicate m c) (replicate n c) \<longleftrightarrow> m \<le> n"
proof (induction m arbitrary: n)
  case (Suc m)
  then show ?case by (cases n) simp_all
qed simp

lemma unary_iso: "iso_dates unary_dates"
  by (auto simp: iso_dates_def unary_dates_def str_le_replicate)

lemma quiet_clock: "iso_clock unary_dates (\<lambda>_. 3600000) (nw_store quiet_world)"
  by (simp add: iso_clock_def quiet_world_def empty_store_def mono_def LAST_ISO_def)

theorem ten_notifications_an_hour_witness:
  "length (filter (\<lambda>row. note_recipientLogin row = ''ada'' \<and> note_channel row = badge \<and>
      note_status row \<noteq> note_suppressed \<and> str_le (dl_iso unary_dates 0) (note_createdAt row) \<and>
      str_le (note_createdAt row) (dl_iso unary_dates (0 + 60 * 60 * 1000)))
    (notification_deliveries (nw_store (process_notify_job unary_dates (Notify_evaluate review_event) quiet_world)))) \<le> 10"
proof (rule ten_notifications_an_hour [OF unary_iso quiet_clock])
  show "notification_deliveries (nw_store quiet_world) = []"
    by (simp add: quiet_world_def empty_store_def)
  show "(notify_step unary_dates)\<^sup>*\<^sup>* quiet_world (process_notify_job unary_dates (Notify_evaluate review_event) quiet_world)"
    by (intro r_into_rtranclp notify_step.intros)
qed (simp_all add: LAST_ISO_def)

text \<open>
  C37: the issues of a private repository reach nobody without access. Every event that a new
  issue raises is for a watcher of that repository whose labels match, never for the author of
  the issue, and only for an open issue that a maintainer created; if the repository is private
  or unknown, only for a login that may access it, and for an unknown one for nobody.
\<close>

theorem watch_events_respect_access:
  assumes "detectIssueWatchEvents a repoFullName i w = (events, w')" and "e \<in> set events"
  shows "\<exists>r x. getRepository a repoFullName = Some r \<and> x \<in> set (nw_watches w) \<and>
    iw_login x = ev_recipientLogin e \<and> iw_repoFullName x = toLowerCase repoFullName \<and>
    (repo_isPrivate r \<longrightarrow> canLoginAccessRepo a (ev_recipientLogin e) repoFullName) \<and>
    Some (toLowerCase (ev_recipientLogin e)) \<noteq> map_option toLowerCase (iss_authorLogin i) \<and>
    iss_state i = ''open'' \<and> isMaintainerAssociation (iss_authorAssociation i)"
proof -
  obtain x where x: "x \<in> set (authorized_watchers a repoFullName (filter (watch_matches i) (listIssueWatchersForRepo repoFullName w)))"
    "ev_recipientLogin e = iw_login x" "isGrabbableHighMultiplierIssue i"
    using assms by (auto simp: detectIssueWatchEvents_def Let_def watch_event_def split: if_splits prod.splits)
  have "x \<in> set (filter (watch_matches i) (listIssueWatchersForRepo repoFullName w))"
    "\<exists>r. getRepository a repoFullName = Some r \<and> (repo_isPrivate r \<longrightarrow> canLoginAccessRepo a (iw_login x) repoFullName)"
    using x(1) by (auto simp: authorized_watchers_def Let_def split: if_splits option.splits)
  then show ?thesis
    using x(2,3) by (auto simp: listIssueWatchersForRepo_def watch_matches_def isGrabbableHighMultiplierIssue_def dest!: in_set_takeD)
qed

definition private_issue :: IssueRecord where
  "private_issue = \<lparr>iss_repoFullName = ''ada/r'', iss_number = 3, iss_title = [], iss_state = ''open'',
     iss_authorLogin = Some ''bob'', iss_authorAssociation = Some ''MEMBER'', iss_htmlUrl = None, iss_body = None,
     iss_createdAt = None, iss_updatedAt = None, iss_closedAt = None, iss_labels = [], iss_linkedPrs = []\<rparr>"

definition watching_world :: NotifyWorld where
  "watching_world = quiet_world\<lparr>nw_watches := [\<lparr>iw_id = [], iw_login = ''ada'', iw_repoFullName = ''ada/r'', iw_labels = [],
     iw_createdAt = [], iw_updatedAt = []\<rparr>]\<rparr>"

theorem watch_events_respect_access_witness:
  "repo_isPrivate owned_repo \<and> canLoginAccessRepo owner_world ''ada'' ''ada/r''"
proof -
  have repo: "getRepository owner_world ''ada/r'' = Some owned_repo"
    by (simp add: getRepository_def owner_world_def owned_repo_def)
  have "canLoginAccessRepo owner_world ''ada'' ''ada/r''"
    using demo_in_scope by (simp add: canLoginAccessRepo_def in_scope_def Let_def)
  then have "map ev_recipientLogin (fst (detectIssueWatchEvents owner_world ''ada/r'' private_issue watching_world)) = [''ada'']"
    by (simp add: detectIssueWatchEvents_def isGrabbableHighMultiplierIssue_def isMaintainerWipIssue_def private_issue_def
        isMaintainerAssociation_def listIssueWatchersForRepo_def watching_world_def toLowerCase_def lower_char_def watch_matches_def
        authorized_watchers_def repo watch_event_def Let_def split_beta)
  then obtain e es w' where events: "detectIssueWatchEvents owner_world ''ada/r'' private_issue watching_world = (e # es, w')"
    "ev_recipientLogin e = ''ada''"
    by (cases "detectIssueWatchEvents owner_world ''ada/r'' private_issue watching_world") auto
  show ?thesis
    using watch_events_respect_access [OF events(1), of e] by (auto simp: events(2) repo owned_repo_def)
qed

text \<open>
  C38: an event notifies once. After an evaluation that notified somebody, whatever happens then,
  no evaluation of an event with the same dedup key (a redelivered webhook, a retried job)
  notifies again.
\<close>

theorem event_notifies_once:
  assumes "evaluateNotificationEvent d e w = (Inr (r # rs), w1)" and "(notify_step d)\<^sup>*\<^sup>* w1 w2"
    and "ev_dedupKey e' = ev_dedupKey e"
  shows "fst (evaluateNotificationEvent d' e' w2) \<in> {Inl (), Inr []}"
proof -
  have "log_keys w1 \<subseteq> log_keys w2"
    using assms(2) by (induction rule: rtranclp_induct) (auto dest: log_keys_step)
  then have "(ev_dedupKey e', badge) \<in> log_keys w2"
    using evaluate_notifies [OF assms(1)] assms(3) by auto
  then have "fst (evaluateNotificationEvent d' e' w2) \<noteq> Inr (x # xs)" for x xs
    using evaluate_notifies [of d' e' w2 x xs] by (metis prod.collapse)
  then show ?thesis
    by (cases "fst (evaluateNotificationEvent d' e' w2)") (auto, metis neq_Nil_conv)
qed

theorem event_notifies_once_witness:
  "fst (evaluateNotificationEvent unary_dates review_event
     (snd (evaluateNotificationEvent unary_dates review_event quiet_world))) \<in> {Inl (), Inr []}"
proof -
  have "\<exists>r. fst (evaluateNotificationEvent unary_dates review_event quiet_world) = Inr [r]"
    by (simp add: evaluateNotificationEvent_def listNotificationSubscriptionsForLogin_def resolveNotificationChannels_def
        quiet_world_def empty_store_def nw_now_def nowIso_def rateLimitWindowStart_def unary_dates_def
        evaluate_channel_def countRecentNotificationDeliveries_def maxPerWindow_def
        insertNotificationDeliveryIfAbsent_def randomUUID_def delivery_input_def Let_def)
  then obtain r w1 where first: "evaluateNotificationEvent unary_dates review_event quiet_world = (Inr [r], w1)"
    by (metis prod.collapse)
  from event_notifies_once [OF first rtranclp.rtrancl_refl refl] show ?thesis by (simp only: first snd_conv)
qed

end
