(* ===== verification/Gate_Precision.thy ===== *)
theory Gate_Precision
  imports Store
begin

text \<open>
  Gate telemetry: the table of gate blocks (\<open>recordGateBlockOutcome\<close>, \<open>markGateOutcomeOverridden\<close>,
  \<open>listGateOutcomes\<close> of \<open>db/repositories.ts\<close>) and the report on it (\<open>services/gate-precision.ts\<close>).
  The first properties are about every history of the table: one row per pull request, and an
  override that no later block takes back. The report counts each block once, and its rates are
  proper fractions of a sample of at least five.
\<close>

section \<open>The table of blocks\<close>

record GateOutcomeRecord =
  go_id :: string
  go_repoFullName :: string
  go_pullNumber :: nat
  go_headSha :: "string option"
  go_blockerCodes :: "string list"
  go_overridden :: bool
  go_blockedAt :: string
  go_updatedAt :: string

definition outcome_key :: "GateOutcomeRecord \<Rightarrow> string \<times> nat" where
  "outcome_key r = (go_repoFullName r, go_pullNumber r)"

text \<open>The times are the clock readings of the statement.\<close>

definition block_row :: "string \<Rightarrow> nat \<Rightarrow> string option \<Rightarrow> string list \<Rightarrow> string \<Rightarrow> GateOutcomeRecord" where
  "block_row repo n head codes now = \<lparr>go_id = ''gate:'' @ repo @ ''#'' @ nat_str n, go_repoFullName = repo,
     go_pullNumber = n, go_headSha = head, go_blockerCodes = codes, go_overridden = False, go_blockedAt = now, go_updatedAt = now\<rparr>"

definition recordGateBlockOutcome ::
  "string \<Rightarrow> nat \<Rightarrow> string option \<Rightarrow> string list \<Rightarrow> string \<Rightarrow> GateOutcomeRecord list \<Rightarrow> GateOutcomeRecord list" where
  "recordGateBlockOutcome repoFullName pullNumber head codes now rows =
     (let row = block_row (boundedString repoFullName 200) pullNumber head codes now
      in if outcome_key row \<in> set (map outcome_key rows)
         then map (\<lambda>r. if outcome_key r = outcome_key row
           then r\<lparr>go_headSha := head, go_blockerCodes := codes, go_updatedAt := now\<rparr> else r) rows
         else rows @ [row])"

definition markGateOutcomeOverridden :: "string \<Rightarrow> nat \<Rightarrow> string \<Rightarrow> GateOutcomeRecord list \<Rightarrow> GateOutcomeRecord list" where
  "markGateOutcomeOverridden repoFullName pullNumber now rows =
     map (\<lambda>r. if outcome_key r = (boundedString repoFullName 200, pullNumber)
       then r\<lparr>go_overridden := True, go_updatedAt := now\<rparr> else r) rows"

text \<open>The window start is \<open>toISOString\<close> of the time so many milliseconds before now.\<close>

record GateOutcomeQuery =
  gq_repoFullName :: "string option"
  gq_windowDays :: "js_num option"
  gq_now :: "string option"
  gq_limit :: "js_num option"

definition outcome_order :: "GateOutcomeRecord \<Rightarrow> GateOutcomeRecord \<Rightarrow> bool" where
  "outcome_order a b \<longleftrightarrow> (if go_updatedAt a = go_updatedAt b then str_le (go_id a) (go_id b)
     else str_le (go_updatedAt b) (go_updatedAt a))"

definition listGateOutcomes ::
  "(string \<Rightarrow> int \<Rightarrow> string) \<Rightarrow> string \<Rightarrow> GateOutcomeQuery \<Rightarrow> GateOutcomeRecord list \<Rightarrow> GateOutcomeRecord list" where
  "listGateOutcomes iso_before clock_now q rows =
     (let limit = clampInteger (nullish (gq_limit q) (Finite 500)) 1 5000;
          in_repo = (\<lambda>r. case gq_repoFullName q of None \<Rightarrow> True | Some n \<Rightarrow> n = [] \<or> go_repoFullName r = n);
          in_window = (\<lambda>r. case gq_windowDays q of
             None \<Rightarrow> True
           | Some d \<Rightarrow> str_le (iso_before (nullish (gq_now q) clock_now) (clampInteger d 1 365 * 24 * 60 * 60 * 1000)) (go_updatedAt r))
      in take (nat limit) (sort_by outcome_order (filter (\<lambda>r. in_repo r \<and> in_window r) rows)))"

section \<open>The report\<close>

definition MIN_SAMPLE :: nat where "MIN_SAMPLE = 5"

record GateTypeCounts =
  gc_blocked :: nat
  gc_blockedThenMerged :: nat
  gc_overridden :: nat

record GatePrecisionPerType =
  gp_gateType :: string
  gp_counts :: GateTypeCounts
  gp_falsePositiveRate :: "rat option"

record GatePrecisionSummary =
  gs_perGateType :: "GatePrecisionPerType list"
  gs_blocked :: nat
  gs_blockedThenMerged :: nat
  gs_falsePositiveRate :: "rat option"
  gs_signals :: "string list"

definition round3 :: "rat \<Rightarrow> rat" where
  "round3 v = of_int (js_round (v * 1000)) / 1000"

text \<open>Merged, and not closed or open.\<close>

definition terminal_merged :: "PullRequestRecord \<Rightarrow> bool" where
  "terminal_merged p \<longleftrightarrow> nullish (pr_mergedAt p) [] \<noteq> []"

definition same_repo_name :: "string \<Rightarrow> string \<Rightarrow> bool" where
  "same_repo_name a b \<longleftrightarrow> toLowerCase a = toLowerCase b"

definition in_scope_repo :: "string option \<Rightarrow> string \<Rightarrow> bool" where
  "in_scope_repo repo n \<longleftrightarrow> (case repo of None \<Rightarrow> True | Some r \<Rightarrow> r = [] \<or> same_repo_name n r)"

text \<open>\<open>prByNumber\<close>: the last pull request of a number wins.\<close>

definition pr_by_number :: "string option \<Rightarrow> PullRequestRecord list \<Rightarrow> nat \<Rightarrow> PullRequestRecord option" where
  "pr_by_number repo prs n =
     List.find (\<lambda>p. pr_number p = n) (rev (filter (\<lambda>p. in_scope_repo repo (pr_repoFullName p)) prs))"

definition merged_anyway :: "string option \<Rightarrow> PullRequestRecord list \<Rightarrow> GateOutcomeRecord \<Rightarrow> bool" where
  "merged_anyway repo prs b \<longleftrightarrow> (case pr_by_number repo prs (go_pullNumber b) of None \<Rightarrow> False | Some p \<Rightarrow> terminal_merged p)"

text \<open>\<open>Map.get\<close> with a default and \<open>Map.set\<close>, which keeps the place of a key it has.\<close>

fun bump :: "string \<Rightarrow> (GateTypeCounts \<Rightarrow> GateTypeCounts) \<Rightarrow> (string \<times> GateTypeCounts) list \<Rightarrow> (string \<times> GateTypeCounts) list" where
  "bump k f [] = [(k, f \<lparr>gc_blocked = 0, gc_blockedThenMerged = 0, gc_overridden = 0\<rparr>)]"
| "bump k f ((k', c) # m) = (if k' = k then (k', f c) # m else (k', c) # bump k f m)"

definition count_block :: "bool \<Rightarrow> bool \<Rightarrow> GateTypeCounts \<Rightarrow> GateTypeCounts" where
  "count_block is_merged was_overridden c = \<lparr>gc_blocked = gc_blocked c + 1,
     gc_blockedThenMerged = gc_blockedThenMerged c + (if is_merged then 1 else 0),
     gc_overridden = gc_overridden c + (if was_overridden then 1 else 0)\<rparr>"

fun tally_blocks :: "string option \<Rightarrow> PullRequestRecord list \<Rightarrow> GateOutcomeRecord list \<Rightarrow> (string \<times> GateTypeCounts) list \<Rightarrow> (string \<times> GateTypeCounts) list" where
  "tally_blocks repo prs [] m = m"
| "tally_blocks repo prs (b # bs) m =
     tally_blocks repo prs bs
       (fold (\<lambda>code. bump code (count_block (merged_anyway repo prs b) (go_overridden b))) (go_blockerCodes b) m)"

definition sampled_rate :: "nat \<Rightarrow> nat \<Rightarrow> rat option" where
  "sampled_rate n k = (if MIN_SAMPLE \<le> n then Some (round3 (of_nat k / of_nat n)) else None)"

definition percent :: "rat \<Rightarrow> string" where
  "percent v = int_str (js_round (v * 100))"

definition worse :: "GatePrecisionPerType option \<Rightarrow> GatePrecisionPerType \<Rightarrow> GatePrecisionPerType option" where
  "worse acc t = (case acc of None \<Rightarrow> Some t
     | Some a \<Rightarrow> if nullish (gp_falsePositiveRate t) 0 > nullish (gp_falsePositiveRate a) 0 then Some t else Some a)"

definition buildGatePrecisionSignals :: "GatePrecisionPerType list \<Rightarrow> nat \<Rightarrow> nat \<Rightarrow> string list" where
  "buildGatePrecisionSignals types overallBlocked overallMerged =
     (if overallBlocked < MIN_SAMPLE
      then [''Not enough recorded gate blocks to judge precision yet ('' @ nat_str overallBlocked @ '' blocked).'']
      else
        [nat_str overallMerged @ '' of '' @ nat_str overallBlocked @ '' blocked PRs later merged ('' @
           percent (of_nat overallMerged / of_nat overallBlocked) @ ''% overall false-positive rate).'',
         (case foldl worse None (filter (\<lambda>t. gp_falsePositiveRate t \<noteq> None) types) of
            None \<Rightarrow> ''No gate type with enough sample is producing false positives '' @ em_dash @ '' blocked PRs are staying blocked.''
          | Some t \<Rightarrow>
              if nullish (gp_falsePositiveRate t) 0 > 0
              then ''Highest false-positive gate: `'' @ gp_gateType t @ ''` '' @ em_dash @ '' '' @
                percent (nullish (gp_falsePositiveRate t) 0) @ ''% of its '' @ nat_str (gc_blocked (gp_counts t)) @
                '' blocks merged anyway ('' @ nat_str (gc_overridden (gp_counts t)) @ '' overridden). Keep it advisory until this drops.''
              else ''No gate type with enough sample is producing false positives '' @ em_dash @ '' blocked PRs are staying blocked.'')])"

definition buildGatePrecisionReport ::
  "(string \<Rightarrow> string \<Rightarrow> bool) \<Rightarrow> GateOutcomeRecord list \<Rightarrow> PullRequestRecord list \<Rightarrow> string option \<Rightarrow> GatePrecisionSummary" where
  "buildGatePrecisionReport locale_le outcomes prs repo =
     (let scoped = filter (\<lambda>b. in_scope_repo repo (go_repoFullName b)) outcomes;
          perType = tally_blocks repo prs scoped [];
          overallBlocked = length scoped;
          overallMerged = length (filter (merged_anyway repo prs) scoped);
          types = sort_by (\<lambda>a b. if gc_blocked (gp_counts a) = gc_blocked (gp_counts b) then locale_le (gp_gateType a) (gp_gateType b)
              else gc_blocked (gp_counts b) < gc_blocked (gp_counts a))
            (map (\<lambda>(k, c). \<lparr>gp_gateType = k, gp_counts = c, gp_falsePositiveRate = sampled_rate (gc_blocked c) (gc_blockedThenMerged c)\<rparr>) perType)
      in \<lparr>gs_perGateType = types, gs_blocked = overallBlocked, gs_blockedThenMerged = overallMerged,
          gs_falsePositiveRate = sampled_rate overallBlocked overallMerged,
          gs_signals = buildGatePrecisionSignals types overallBlocked overallMerged\<rparr>)"

section \<open>Histories of the table\<close>

inductive gate_step :: "GateOutcomeRecord list \<Rightarrow> GateOutcomeRecord list \<Rightarrow> bool" where
  "gate_step rows (recordGateBlockOutcome repo n head codes now rows)"
| "gate_step rows (markGateOutcomeOverridden repo n now rows)"

lemma key_block_row [simp]: "outcome_key (block_row repo n head codes now) = (repo, n)"
  by (simp add: outcome_key_def block_row_def)

lemma key_updates [simp]: "outcome_key (r\<lparr>go_headSha := h, go_blockerCodes := cs, go_updatedAt := t\<rparr>) = outcome_key r"
  "outcome_key (r\<lparr>go_overridden := v, go_updatedAt := t\<rparr>) = outcome_key r"
  by (simp_all add: outcome_key_def)

lemma keys_map: "(\<And>r. outcome_key (f r) = outcome_key r) \<Longrightarrow> map outcome_key (map f rows) = map outcome_key rows"
  by simp

lemma keys_record: "map outcome_key (recordGateBlockOutcome repo n head codes now rows) =
    map outcome_key rows @ (if (boundedString repo 200, n) \<in> set (map outcome_key rows) then [] else [(boundedString repo 200, n)])"
  by (simp add: recordGateBlockOutcome_def Let_def)

lemma keys_mark: "map outcome_key (markGateOutcomeOverridden repo n now rows) = map outcome_key rows"
  by (simp add: markGateOutcomeOverridden_def)

lemma keys_step: "gate_step rows rows' \<Longrightarrow> distinct (map outcome_key rows) \<Longrightarrow> distinct (map outcome_key rows')"
  by (induction rule: gate_step.induct) (auto simp: keys_record keys_mark)

definition flagged :: "string \<times> nat \<Rightarrow> GateOutcomeRecord list \<Rightarrow> bool" where
  "flagged k rows \<longleftrightarrow> (\<exists>r\<in>set rows. outcome_key r = k \<and> go_overridden r)"

lemma flagged_map:
  "(\<And>r. outcome_key (f r) = outcome_key r \<and> (go_overridden r \<longrightarrow> go_overridden (f r))) \<Longrightarrow> flagged k rows \<Longrightarrow> flagged k (map f rows)"
  by (force simp: flagged_def)

lemma flagged_step: "gate_step rows rows' \<Longrightarrow> flagged k rows \<Longrightarrow> flagged k rows'"
proof (induction rule: gate_step.induct)
  case (1 rows repo n head codes now)
  have "flagged k (map (\<lambda>r. if outcome_key r = (boundedString repo 200, n)
      then r\<lparr>go_headSha := head, go_blockerCodes := codes, go_updatedAt := now\<rparr> else r) rows)"
    by (rule flagged_map [OF _ 1]) simp
  moreover have "flagged k (rows @ [block_row (boundedString repo 200) n head codes now])"
    using 1 by (auto simp: flagged_def)
  ultimately show ?case by (simp add: recordGateBlockOutcome_def Let_def)
next
  case (2 rows repo n now)
  show ?case
    unfolding markGateOutcomeOverridden_def by (rule flagged_map [OF _ 2]) simp
qed

lemma flagged_mark:
  assumes "(boundedString repo 200, n) \<in> set (map outcome_key rows)"
  shows "flagged (boundedString repo 200, n) (markGateOutcomeOverridden repo n now rows)"
proof -
  obtain r where "r \<in> set rows" "outcome_key r = (boundedString repo 200, n)" using assms by auto
  then have "r\<lparr>go_overridden := True, go_updatedAt := now\<rparr> \<in> set (markGateOutcomeOverridden repo n now rows)"
    by (force simp: markGateOutcomeOverridden_def)
  then show ?thesis
    using \<open>outcome_key r = _\<close> by (auto simp: flagged_def intro!: bexI [of _ "r\<lparr>go_overridden := True, go_updatedAt := now\<rparr>"])
qed

section \<open>Counting\<close>

definition counts_of :: "(string \<times> GateTypeCounts) list \<Rightarrow> string \<Rightarrow> GateTypeCounts" where
  "counts_of m k = nullish (map_of m k) \<lparr>gc_blocked = 0, gc_blockedThenMerged = 0, gc_overridden = 0\<rparr>"

lemma counts_of_bump: "counts_of (bump k f m) k' = (if k' = k then f (counts_of m k) else counts_of m k')"
  by (induction k f m rule: bump.induct) (auto simp: counts_of_def)

lemma keys_bump: "map fst (bump k f m) = map fst m @ (if k \<in> set (map fst m) then [] else [k])"
  by (induction k f m rule: bump.induct) auto

text \<open>How often the blocks that satisfy a condition name a code.\<close>

definition citations :: "(GateOutcomeRecord \<Rightarrow> bool) \<Rightarrow> string \<Rightarrow> GateOutcomeRecord list \<Rightarrow> nat" where
  "citations P k rows = sum_list (map (\<lambda>r. count_list (go_blockerCodes r) k) (filter P rows))"

lemma counts_of_fold: "counts_of (fold (\<lambda>code. bump code (count_block d v)) codes m) k =
    \<lparr>gc_blocked = gc_blocked (counts_of m k) + count_list codes k,
     gc_blockedThenMerged = gc_blockedThenMerged (counts_of m k) + (if d then count_list codes k else 0),
     gc_overridden = gc_overridden (counts_of m k) + (if v then count_list codes k else 0)\<rparr>"
  by (induction codes arbitrary: m) (auto simp: counts_of_bump count_block_def)

lemma tally_exact: "counts_of (tally_blocks repo prs rows m) k =
    \<lparr>gc_blocked = gc_blocked (counts_of m k) + citations (\<lambda>_. True) k rows,
     gc_blockedThenMerged = gc_blockedThenMerged (counts_of m k) + citations (merged_anyway repo prs) k rows,
     gc_overridden = gc_overridden (counts_of m k) + citations go_overridden k rows\<rparr>"
  by (induction repo prs rows m rule: tally_blocks.induct) (simp_all add: counts_of_fold citations_def)

lemma distinct_bump: "distinct (map fst m) \<Longrightarrow> distinct (map fst (bump k f m))"
  by (simp add: keys_bump)

lemma distinct_tally: "distinct (map fst m) \<Longrightarrow> distinct (map fst (tally_blocks repo prs rows m))"
proof (induction repo prs rows m rule: tally_blocks.induct)
  case (2 repo prs b bs m)
  have "distinct (map fst (fold (\<lambda>code. bump code f) codes m))" if "distinct (map fst m)" for f codes m
    using that by (induction codes arbitrary: m) (simp_all add: distinct_bump)
  with 2 show ?case by simp
qed simp

lemma distinct_map_sort_by: "distinct (map f (sort_by le xs)) = distinct (map f xs)"
  by (simp add: distinct_map)

lemma citations_mono: "citations P k rows \<le> citations (\<lambda>_. True) k rows"
  by (induction rows) (auto simp: citations_def)

lemma round3_unit: "0 \<le> v \<Longrightarrow> v \<le> 1 \<Longrightarrow> 0 \<le> round3 v \<and> round3 v \<le> 1"
proof -
  assume v: "0 \<le> v" "v \<le> 1"
  have "js_round 0 \<le> js_round (v * 1000)" "js_round (v * 1000) \<le> js_round 1000"
    using v by (auto intro!: js_round_mono)
  then have "0 \<le> js_round (v * 1000)" "js_round (v * 1000) \<le> 1000"
    using js_round_of_int [of 0] js_round_of_int [of 1000] by simp_all
  then show ?thesis by (simp add: round3_def)
qed

lemma sampled_rate_unit: "k \<le> n \<Longrightarrow> sampled_rate n k = Some v \<Longrightarrow> 0 \<le> v \<and> v \<le> 1"
  by (auto simp: sampled_rate_def MIN_SAMPLE_def split: if_splits dest!: round3_unit [rotated])
    (auto simp: divide_le_eq_1 intro: round3_unit [THEN conjunct1] round3_unit [THEN conjunct2])

section \<open>Properties\<close>

text \<open>
  An override stays on record. Once a maintainer has overridden the block of a pull request,
  its row is flagged for good, whatever blocks and overrides follow; and from an empty table
  there is one row per pull request at all times.
\<close>

theorem override_stays_on_record:
  assumes "gate_step\<^sup>*\<^sup>* [] rows" and "(boundedString repo 200, n) \<in> set (map outcome_key rows)"
    and "gate_step\<^sup>*\<^sup>* (markGateOutcomeOverridden repo n now rows) rows'"
  shows "distinct (map outcome_key rows') \<and> (\<exists>r\<in>set rows'. outcome_key r = (boundedString repo 200, n) \<and> go_overridden r)"
proof -
  have "distinct (map outcome_key rows)"
    using assms(1) by (induction rule: rtranclp_induct) (auto dest: keys_step)
  then have "distinct (map outcome_key (markGateOutcomeOverridden repo n now rows))"
    by (simp add: keys_mark)
  with assms(3) have "distinct (map outcome_key rows')"
    by (induction rule: rtranclp_induct) (auto dest: keys_step)
  moreover note flagged_mark [OF assms(2), of now]
  with assms(3) have "flagged (boundedString repo 200, n) rows'"
    by (induction rule: rtranclp_induct) (auto dest: flagged_step)
  ultimately show ?thesis by (simp add: flagged_def)
qed

definition one_block :: "GateOutcomeRecord list" where
  "one_block = recordGateBlockOutcome ''o/r'' 7 None [''slop_risk''] [] []"

theorem override_stays_on_record_witness:
  "\<exists>r\<in>set (recordGateBlockOutcome ''o/r'' 7 None [''missing_linked_issue''] [] (markGateOutcomeOverridden ''o/r'' 7 [] one_block)).
     outcome_key r = (boundedString ''o/r'' 200, 7) \<and> go_overridden r"
proof -
  have "gate_step\<^sup>*\<^sup>* [] one_block"
    unfolding one_block_def by (intro r_into_rtranclp gate_step.intros)
  moreover have "(boundedString ''o/r'' 200, 7) \<in> set (map outcome_key one_block)"
    by (simp add: one_block_def keys_record)
  moreover have "gate_step\<^sup>*\<^sup>* (markGateOutcomeOverridden ''o/r'' 7 [] one_block)
      (recordGateBlockOutcome ''o/r'' 7 None [''missing_linked_issue''] [] (markGateOutcomeOverridden ''o/r'' 7 [] one_block))"
    by (intro r_into_rtranclp gate_step.intros)
  ultimately show ?thesis using override_stays_on_record by blast
qed

text \<open>
  The precision report is exact. Each gate type appears once, with the number of times the
  blocks in scope cite it, how many of those were of a pull request merged anyway, and how many
  were overridden; a rate is given exactly from five blocks on, and lies between 0 and 1.
\<close>

theorem gate_precision_exact:
  "let report = buildGatePrecisionReport locale_le outcomes prs repo;
       scoped = filter (\<lambda>b. in_scope_repo repo (go_repoFullName b)) outcomes
   in distinct (map gp_gateType (gs_perGateType report)) \<and>
      list_all (\<lambda>t. gp_counts t = \<lparr>gc_blocked = citations (\<lambda>_. True) (gp_gateType t) scoped,
          gc_blockedThenMerged = citations (merged_anyway repo prs) (gp_gateType t) scoped,
          gc_overridden = citations go_overridden (gp_gateType t) scoped\<rparr> \<and>
        (gp_falsePositiveRate t \<noteq> None) = (5 \<le> gc_blocked (gp_counts t)) \<and>
        list_all (\<lambda>v. 0 \<le> v \<and> v \<le> 1) (case gp_falsePositiveRate t of None \<Rightarrow> [] | Some v \<Rightarrow> [v]))
      (gs_perGateType report)"
proof -
  let ?scoped = "filter (\<lambda>b. in_scope_repo repo (go_repoFullName b)) outcomes"
  let ?m = "tally_blocks repo prs ?scoped []"
  let ?type = "\<lambda>(k, c). \<lparr>gp_gateType = k, gp_counts = c, gp_falsePositiveRate = sampled_rate (gc_blocked c) (gc_blockedThenMerged c)\<rparr>"
  let ?le = "\<lambda>a b. if gc_blocked (gp_counts a) = gc_blocked (gp_counts b) then locale_le (gp_gateType a) (gp_gateType b)
    else gc_blocked (gp_counts b) < gc_blocked (gp_counts a)"
  have types: "gs_perGateType (buildGatePrecisionReport locale_le outcomes prs repo) = sort_by ?le (map ?type ?m)"
    by (simp add: buildGatePrecisionReport_def Let_def)
  have names: "distinct (map fst ?m)" by (rule distinct_tally) simp
  have "distinct (map gp_gateType (map ?type ?m))" using names by (simp add: comp_def case_prod_beta)
  then have "distinct (map gp_gateType (sort_by ?le (map ?type ?m)))"
    by (simp only: distinct_map_sort_by)
  moreover have "gp_counts t = \<lparr>gc_blocked = citations (\<lambda>_. True) (gp_gateType t) ?scoped,
      gc_blockedThenMerged = citations (merged_anyway repo prs) (gp_gateType t) ?scoped,
      gc_overridden = citations go_overridden (gp_gateType t) ?scoped\<rparr> \<and>
      gp_falsePositiveRate t = sampled_rate (gc_blocked (gp_counts t)) (gc_blockedThenMerged (gp_counts t))"
    if t: "t \<in> set (sort_by ?le (map ?type ?m))" for t
  proof -
    obtain k c where kc: "(k, c) \<in> set ?m" "t = ?type (k, c)" using t by auto
    then have "counts_of ?m k = c" using names by (simp add: counts_of_def map_of_is_SomeI)
    then show ?thesis using kc(2) tally_exact [of repo prs ?scoped "[]" k] by (simp add: counts_of_def)
  qed
  moreover have "(sampled_rate n k \<noteq> None) = (5 \<le> n)" for n k
    by (simp add: sampled_rate_def MIN_SAMPLE_def)
  moreover have "list_all (\<lambda>v. 0 \<le> v \<and> v \<le> 1)
      (case sampled_rate (citations (\<lambda>_. True) k rows) (citations P k rows) of None \<Rightarrow> [] | Some v \<Rightarrow> [v])" for k P rows
    using sampled_rate_unit [OF citations_mono] by (auto split: option.split)
  moreover define ts where "ts = sort_by ?le (map ?type ?m)"
  ultimately show ?thesis
    unfolding types ts_def [symmetric] Let_def list_all_iff [of _ ts] by simp
qed

end
