(* ===== verification/Gate_Override.thy ===== *)
theory Gate_Override
  imports Repo_Access Manifest_Loader Predicted_Gate Gate_Precision
begin

text \<open>
  Commands that a person gives on a pull request, and what the app writes for them: the check runs
  of \<open>github/app.ts\<close>, the panel comments of \<open>github/comments.ts\<close>, the mention parser of
  \<open>github/commands.ts\<close>, and from \<open>queue/processors.ts\<close> the authorization by live permission and the
  whole handler of \<open>@gittensory gate-override\<close>. GitHub answers as a function of the requests sent
  before. Product usage is the list of the recorded calls (best effort in the source).
\<close>

section \<open>Requests\<close>

record CheckRunUpdate =
  cu_name :: string
  cu_status :: string
  cu_conclusion :: "string option"
  cu_output :: CheckRunOutput

datatype GhCall =
    List_checks string string string string
  | Patch_check string string nat CheckRunUpdate
  | Post_check string string string CheckRunUpdate
  | List_comments string string nat nat
  | Patch_comment string string nat string
  | Post_comment string string nat string

record CommentUser =
  cmu_type :: "string option"
  cmu_login :: "string option"

record IssueComment =
  ic_id :: nat
  ic_body :: "string option"
  ic_user :: "CommentUser option"

text \<open>The answers: check runs and comments by their ids, written objects by id and URL.\<close>

record OctoApi =
  oa_checks :: "GhCall list \<Rightarrow> GhCall \<Rightarrow> JsError + nat list"
  oa_comments :: "GhCall list \<Rightarrow> GhCall \<Rightarrow> JsError + IssueComment list"
  oa_write :: "GhCall list \<Rightarrow> GhCall \<Rightarrow> JsError + (nat \<times> string option)"

record UsageCall =
  us_eventName :: string
  us_actor :: "string option"
  us_repoFullName :: "string option"
  us_targetKey :: "string option"
  us_outcome :: string
  us_metadata :: "(string \<times> json) list"

text \<open>The environment of the worker, and the tables and logs it writes.\<close>

record BotEnv =
  be_access :: AccessWorld
  be_octo :: OctoApi
  be_slug :: string
  be_loader :: LoaderEnv
  be_settings_rows :: "SettingsRow list"
  be_fetch_miner :: "string \<Rightarrow> MinerStatus"

record BotState =
  bs_store :: Store
  bs_snapshots :: "SignalSnapshotRecord list"
  bs_outcomes :: "GateOutcomeRecord list"
  bs_usage :: "UsageCall list"
  bs_calls :: "GhCall list"

type_synonym 'a bot = "BotState \<Rightarrow> (JsError + 'a) \<times> BotState"

definition bot_return :: "'a \<Rightarrow> 'a bot" where
  "bot_return x s = (Inr x, s)"

definition bot_throw :: "JsError \<Rightarrow> 'a bot" where
  "bot_throw e s = (Inl e, s)"

definition bot_bind :: "'a bot \<Rightarrow> ('a \<Rightarrow> 'b bot) \<Rightarrow> 'b bot" where
  "bot_bind m k s = (case m s of (Inl e, s1) \<Rightarrow> (Inl e, s1) | (Inr x, s1) \<Rightarrow> k x s1)"

definition bot_catch :: "'a bot \<Rightarrow> (JsError \<Rightarrow> 'a bot) \<Rightarrow> 'a bot" where
  "bot_catch m h s = (case m s of (Inl e, s1) \<Rightarrow> h e s1 | (Inr x, s1) \<Rightarrow> (Inr x, s1))"

definition bot_call :: "(GhCall list \<Rightarrow> GhCall \<Rightarrow> JsError + 'a) \<Rightarrow> GhCall \<Rightarrow> 'a bot" where
  "bot_call answer c s = (answer (bs_calls s) c, s\<lparr>bs_calls := bs_calls s @ [c]\<rparr>)"

definition bot_now :: "string bot" where
  "bot_now s = (let (t, st) = nowIso (bs_store s) in (Inr t, s\<lparr>bs_store := st\<rparr>))"

definition bot_audit :: "AuditEventRecord \<Rightarrow> unit bot" where
  "bot_audit e s = (Inr (), s\<lparr>bs_store := recordAuditEvent e (bs_store s)\<rparr>)"

definition bot_usage :: "UsageCall \<Rightarrow> unit bot" where
  "bot_usage u s = (Inr (), s\<lparr>bs_usage := bs_usage s @ [u]\<rparr>)"

text \<open>\<open>const [owner, repo] = name.split("/")\<close> with the error of both files, and the token.\<close>

definition owner_and_repo :: "BotEnv \<Rightarrow> nat \<Rightarrow> string \<Rightarrow> (string \<times> string) bot" where
  "owner_and_repo env installationId repoFullName =
     (case split_on CHR ''/'' repoFullName of
        own # nm # _ \<Rightarrow>
          if own = [] \<or> nm = [] then bot_throw (new_error (''Invalid repository full name: '' @ repoFullName))
          else
            (case aw_token (be_access env) installationId of
               Inl e \<Rightarrow> bot_throw e
             | Inr _ \<Rightarrow> bot_return (own, nm))
      | _ \<Rightarrow> bot_throw (new_error (''Invalid repository full name: '' @ repoFullName)))"

section \<open>Check runs\<close>

datatype CheckRunOutcome = Published nat "string option" | Permission_missing string

definition GITTENSORY_CONTEXT_CHECK_NAME :: string where
  "GITTENSORY_CONTEXT_CHECK_NAME = ''Gittensory Context''"

definition GITTENSORY_GATE_CHECK_NAME :: string where
  "GITTENSORY_GATE_CHECK_NAME = ''Gittensory Gate''"

definition NO_PERMISSION :: rx where
  "NO_PERMISSION = Or (Lit ''resource not accessible by integration'') (Lit ''not have permission'')"

definition isCheckRunPermissionError :: "JsError \<Rightarrow> bool" where
  "isCheckRunPermissionError e \<longleftrightarrow> err_status e = Some 403 \<or> rx_test_i NO_PERMISSION (err_message e)"

definition outputForCheckRunUpdate :: "CheckRunOutput \<Rightarrow> CheckRunOutput" where
  "outputForCheckRunUpdate out =
     (if nullish (co_annotations out) [] = [] then out else out\<lparr>co_annotations := None\<rparr>)"

definition publishedOutcome :: "nat \<times> string option \<Rightarrow> CheckRunOutcome" where
  "publishedOutcome d = Published (fst d) (case snd d of None \<Rightarrow> None | Some u \<Rightarrow> if u = [] then None else Some u)"

record NamedCheck =
  nc_name :: string
  nc_status :: "string option"
  nc_conclusion :: "string option"
  nc_output :: CheckRunOutput
  nc_checkRunId :: "nat option"

definition check_update :: "NamedCheck \<Rightarrow> CheckRunOutput \<Rightarrow> CheckRunUpdate" where
  "check_update c out = \<lparr>cu_name = nc_name c, cu_status = nullish (nc_status c) ''completed'',
     cu_conclusion = nc_conclusion c, cu_output = out\<rparr>"

definition publish_named :: "BotEnv \<Rightarrow> string \<times> string \<Rightarrow> string \<Rightarrow> NamedCheck \<Rightarrow> CheckRunOutcome bot" where
  "publish_named env target head c =
     (let (own, nm) = target; api = be_octo env;
          patch = (\<lambda>i. bot_bind (bot_call (oa_write api) (Patch_check own nm i (check_update c (outputForCheckRunUpdate (nc_output c)))))
            (\<lambda>d. bot_return (publishedOutcome d)))
      in if nullish (nc_checkRunId c) 0 \<noteq> 0 then patch (nullish (nc_checkRunId c) 0)
         else
           bot_bind (bot_call (oa_checks api) (List_checks own nm head (nc_name c)))
             (\<lambda>runs. case runs of
                i # _ \<Rightarrow> patch i
              | [] \<Rightarrow> bot_bind (bot_call (oa_write api) (Post_check own nm head (check_update c (nc_output c))))
                  (\<lambda>d. bot_return (publishedOutcome d))))"

text \<open>Without a head there is nothing to publish, which is \<open>None\<close>.\<close>

definition createOrUpdateNamedCheckRun ::
  "BotEnv \<Rightarrow> nat \<Rightarrow> string \<Rightarrow> Advisory \<Rightarrow> NamedCheck \<Rightarrow> CheckRunOutcome option bot" where
  "createOrUpdateNamedCheckRun env installationId repoFullName adv c =
     (if nullish (adv_headSha adv) [] = [] then bot_return None
      else
        bot_bind (owner_and_repo env installationId repoFullName)
          (\<lambda>target. bot_bind
            (bot_catch (publish_named env target (nullish (adv_headSha adv) []) c)
               (\<lambda>e. if isCheckRunPermissionError e
                 then bot_return (Permission_missing ''GitHub App Checks: write permission is missing. Enable it in the GitHub App settings and re-approve the installation.'')
                 else bot_throw e))
            (\<lambda>r. bot_return (Some r))))"

definition text_output :: "string \<Rightarrow> string \<Rightarrow> string \<Rightarrow> CheckRunOutput" where
  "text_output title summary text = \<lparr>co_title = title, co_summary = summary, co_text = text, co_annotations = None\<rparr>"

fun conclusion_text :: "AdvisoryConclusion \<Rightarrow> string" where
  "conclusion_text Adv_success = ''success''"
| "conclusion_text Adv_neutral = ''neutral''"
| "conclusion_text Adv_action_required = ''action_required''"

definition createOrUpdateCheckRun ::
  "BotEnv \<Rightarrow> nat \<Rightarrow> string \<Rightarrow> Advisory \<Rightarrow> DetailLevel \<Rightarrow> CheckRunAnnotationContext option \<Rightarrow> CheckRunOutcome option bot" where
  "createOrUpdateCheckRun env installationId repoFullName adv detailLevel ctx =
     createOrUpdateNamedCheckRun env installationId repoFullName adv
       \<lparr>nc_name = GITTENSORY_CONTEXT_CHECK_NAME, nc_status = None, nc_conclusion = Some (conclusion_text (adv_conclusion adv)),
        nc_output = formatCheckRunOutput adv detailLevel ctx, nc_checkRunId = None\<rparr>"

definition createOrUpdateGateCheckRun ::
  "BotEnv \<Rightarrow> nat \<Rightarrow> string \<Rightarrow> Advisory \<Rightarrow> GateCheckPolicy \<Rightarrow> nat option \<Rightarrow> CheckRunOutcome option bot" where
  "createOrUpdateGateCheckRun env installationId repoFullName adv policy checkRunId =
     (let gate = evaluateGateCheck adv policy; out = formatGateCheckOutput gate
      in createOrUpdateNamedCheckRun env installationId repoFullName adv
        \<lparr>nc_name = GITTENSORY_GATE_CHECK_NAME, nc_status = Some ''completed'', nc_conclusion = Some (conclusion_name (ge_conclusion gate)),
         nc_output = text_output (go_title out) (go_summary out) (go_text out), nc_checkRunId = checkRunId\<rparr>)"

definition createOrUpdatePendingGateCheckRun :: "BotEnv \<Rightarrow> nat \<Rightarrow> string \<Rightarrow> Advisory \<Rightarrow> CheckRunOutcome option bot" where
  "createOrUpdatePendingGateCheckRun env installationId repoFullName adv =
     createOrUpdateNamedCheckRun env installationId repoFullName adv
       \<lparr>nc_name = GITTENSORY_GATE_CHECK_NAME, nc_status = Some ''in_progress'', nc_conclusion = None,
        nc_output = text_output ''Gittensory Gate is evaluating'' ''Gittensory is running deterministic public PR hygiene checks.''
          ''The Gate only blocks confirmed Gittensor contributors, and only on configured blockers (duplicate PRs by default). For everyone else, and while state is still syncing, it stays advisory.'',
        nc_checkRunId = None\<rparr>"

definition createOrUpdateSkippedGateCheckRun :: "BotEnv \<Rightarrow> nat \<Rightarrow> string \<Rightarrow> Advisory \<Rightarrow> string \<Rightarrow> CheckRunOutcome option bot" where
  "createOrUpdateSkippedGateCheckRun env installationId repoFullName adv why =
     createOrUpdateNamedCheckRun env installationId repoFullName adv
       \<lparr>nc_name = GITTENSORY_GATE_CHECK_NAME, nc_status = Some ''completed'', nc_conclusion = Some ''skipped'',
        nc_output = text_output ''Gittensory Gate skipped'' why ''Gittensory does not post late first comments on closed or merged pull requests.'',
        nc_checkRunId = None\<rparr>"

definition createOrUpdateErroredGateCheckRun :: "BotEnv \<Rightarrow> nat \<Rightarrow> string \<Rightarrow> Advisory \<Rightarrow> nat option \<Rightarrow> CheckRunOutcome option bot" where
  "createOrUpdateErroredGateCheckRun env installationId repoFullName adv checkRunId =
     createOrUpdateNamedCheckRun env installationId repoFullName adv
       \<lparr>nc_name = GITTENSORY_GATE_CHECK_NAME, nc_status = Some ''completed'', nc_conclusion = Some ''neutral'',
        nc_output = text_output (''Gittensory Gate '' @ em_dash @ '' could not finish evaluating'')
          ''A transient error interrupted gate evaluation. This does NOT block the PR and re-runs automatically on the next push.''
          ''Gittensory finalizes the Gate to a neutral, non-blocking state when evaluation is interrupted, so the check never hangs in_progress. Push a new commit or use the 'Re-run Gittensory review' checkbox to re-evaluate.'',
        nc_checkRunId = checkRunId\<rparr>"

definition createOrUpdateOverriddenGateCheckRun ::
  "BotEnv \<Rightarrow> nat \<Rightarrow> string \<Rightarrow> Advisory \<Rightarrow> string \<Rightarrow> string \<Rightarrow> CheckRunOutcome option bot" where
  "createOrUpdateOverriddenGateCheckRun env installationId repoFullName adv who why =
     createOrUpdateNamedCheckRun env installationId repoFullName adv
       \<lparr>nc_name = GITTENSORY_GATE_CHECK_NAME, nc_status = Some ''completed'', nc_conclusion = Some ''neutral'',
        nc_output = text_output (''Gittensory Gate '' @ em_dash @ '' overridden by @'' @ who)
          ''A maintainer set the Gate to neutral for THIS commit only. This does NOT permanently bypass the Gate; a new push re-evaluates it.''
          (''Overridden by @'' @ who @ '': '' @ why),
        nc_checkRunId = None\<rparr>"

section \<open>Panel comments\<close>

definition PR_PANEL_COMMENT_MARKER :: string where
  "PR_PANEL_COMMENT_MARKER = ''<!-- gittensory-pr-panel:v1 -->''"

definition markerAliases :: "string list" where
  "markerAliases = [PR_PANEL_COMMENT_MARKER, ''<!-- gittensory-pr-intelligence -->'', ''<!-- gittensory-agent-command -->'']"

definition COMMENT_SEARCH_PAGE_LIMIT :: nat where
  "COMMENT_SEARCH_PAGE_LIMIT = 3"

definition bot_login :: "BotEnv \<Rightarrow> string" where
  "bot_login env = be_slug env @ ''[bot]''"

definition is_bot_user :: "BotEnv \<Rightarrow> CommentUser option \<Rightarrow> bool" where
  "is_bot_user env u \<longleftrightarrow> (case u of None \<Rightarrow> False
     | Some u \<Rightarrow> cmu_type u = Some ''Bot'' \<and> map_option toLowerCase (cmu_login u) = Some (toLowerCase (bot_login env)))"

definition isGittensoryBotComment :: "BotEnv \<Rightarrow> IssueComment \<Rightarrow> bool" where
  "isGittensoryBotComment env c = is_bot_user env (ic_user c)"

definition our_panel :: "BotEnv \<Rightarrow> IssueComment \<Rightarrow> bool" where
  "our_panel env c \<longleftrightarrow> isGittensoryBotComment env c \<and>
     (case ic_body c of None \<Rightarrow> False | Some b \<Rightarrow> list_ex (\<lambda>m. str_includes b m) markerAliases)"

text \<open>The search loop: pages from \<open>page\<close> on, at most \<open>left\<close> of them.\<close>

fun find_panel :: "BotEnv \<Rightarrow> string \<times> string \<Rightarrow> nat \<Rightarrow> nat \<Rightarrow> nat \<Rightarrow> IssueComment option bot" where
  "find_panel env target n page 0 = bot_return None"
| "find_panel env target n page (Suc left) =
     bot_bind (bot_call (oa_comments (be_octo env)) (List_comments (fst target) (snd target) n page))
       (\<lambda>batch. case List.find (our_panel env) batch of
          Some c \<Rightarrow> bot_return (Some c)
        | None \<Rightarrow> if length batch < 100 then bot_return None else find_panel env target n (page + 1) left)"

definition createOrUpdateIssueCommentWithMarker ::
  "BotEnv \<Rightarrow> nat \<Rightarrow> string \<Rightarrow> nat \<Rightarrow> string \<Rightarrow> bool option \<Rightarrow> (nat \<times> string option) option bot" where
  "createOrUpdateIssueCommentWithMarker env installationId repoFullName n body createIfMissing =
     bot_bind (owner_and_repo env installationId repoFullName)
       (\<lambda>target. bot_bind (find_panel env target n 1 COMMENT_SEARCH_PAGE_LIMIT)
         (\<lambda>existing. case existing of
            Some c \<Rightarrow> bot_bind (bot_call (oa_write (be_octo env)) (Patch_comment (fst target) (snd target) (ic_id c) body))
              (\<lambda>d. bot_return (Some d))
          | None \<Rightarrow>
              if createIfMissing = Some False then bot_return None
              else bot_bind (bot_call (oa_write (be_octo env)) (Post_comment (fst target) (snd target) n body))
                (\<lambda>d. bot_return (Some d))))"

definition createOrUpdatePrIntelligenceComment ::
  "BotEnv \<Rightarrow> nat \<Rightarrow> string \<Rightarrow> nat \<Rightarrow> string \<Rightarrow> bool option \<Rightarrow> (nat \<times> string option) option bot" where
  "createOrUpdatePrIntelligenceComment = createOrUpdateIssueCommentWithMarker"

definition createOrUpdateAgentCommandComment ::
  "BotEnv \<Rightarrow> nat \<Rightarrow> string \<Rightarrow> nat \<Rightarrow> string \<Rightarrow> (nat \<times> string option) option bot" where
  "createOrUpdateAgentCommandComment env installationId repoFullName n body =
     createOrUpdateIssueCommentWithMarker env installationId repoFullName n body None"

section \<open>Mentions\<close>

definition MENTION_COMMANDS :: "string list" where
  "MENTION_COMMANDS = [''help'', ''ask'', ''preflight'', ''blockers'', ''duplicate-check'', ''miner-context'', ''next-action'',
     ''reviewability'', ''repo-fit'', ''packet'', ''queue-summary'', ''confirmed-miners'', ''review-now'', ''needs-author'',
     ''duplicate-clusters'', ''burden-forecast'', ''intake-health'', ''outcome-patterns'', ''noise-report'']"

definition ACTION_COMMANDS :: "string list" where
  "ACTION_COMMANDS = [''gate-override'']"

record GittensoryMentionCommand =
  mc_name :: string
  mc_raw :: string
  mc_question :: "string option"
  mc_reason :: "string option"

definition command_char :: "char \<Rightarrow> bool" where
  "command_char c \<longleftrightarrow> lower_letter (lower_char c) \<or> c = CHR ''-''"

definition line_break :: "char \<Rightarrow> bool" where
  "line_break c \<longleftrightarrow> c = CHR 0x0A \<or> c = CHR 0x0D"

text \<open>Both capture groups after the name, and what follows them.\<close>

definition mention_groups :: "string \<Rightarrow> string option \<times> string \<times> string" where
  "mention_groups rest =
     (let after_ws = dropWhile is_ws rest; word = takeWhile command_char after_ws;
          found = (after_ws \<noteq> rest \<and> word \<noteq> []);
          tail = (if found then dropWhile command_char after_ws else rest)
      in (if found then Some word else None, takeWhile (\<lambda>c. \<not> line_break c) tail, dropWhile (\<lambda>c. \<not> line_break c) tail))"

definition MENTION :: string where
  "MENTION = ''@gittensory''"

definition mention_here :: "string \<Rightarrow> string option" where
  "mention_here s = (if startsWith (toLowerCase s) MENTION then Some (drop (length MENTION) s) else None)"

text \<open>The leftmost match: its whole text, the command word and the rest of the line.\<close>

definition mention_match :: "string \<Rightarrow> string \<Rightarrow> string \<times> string option \<times> string" where
  "mention_match start rest = (case mention_groups rest of (word, line, after) \<Rightarrow>
     (take (length start - length after) start, word, line))"

fun find_mention :: "bool \<Rightarrow> string \<Rightarrow> (string \<times> string option \<times> string) option" where
  "find_mention at_start [] = None"
| "find_mention at_start (c # cs) =
     (case (if at_start then mention_here (c # cs) else None) of
        Some rest \<Rightarrow> Some (mention_match (c # cs) rest)
      | None \<Rightarrow>
          (case (if is_ws c then mention_here cs else None) of
             Some rest \<Rightarrow> Some (mention_match (c # cs) rest)
           | None \<Rightarrow> find_mention False cs))"

definition trimmed :: "string \<Rightarrow> string option" where
  "trimmed s = (if trim s = [] then None else Some (trim s))"

definition parseGittensoryMentionCommand :: "string option \<Rightarrow> GittensoryMentionCommand option" where
  "parseGittensoryMentionCommand body =
     (case find_mention True (nullish body []) of
        None \<Rightarrow> None
      | Some (m, word, line) \<Rightarrow>
          (let requested = (case word of None \<Rightarrow> ''help'' | Some v \<Rightarrow> toLowerCase v)
           in if requested \<in> set ACTION_COMMANDS
              then Some \<lparr>mc_name = requested, mc_raw = trim m, mc_question = None, mc_reason = trimmed line\<rparr>
              else
                (let nm = (if requested \<in> set MENTION_COMMANDS then requested else ''help'')
                 in Some \<lparr>mc_name = nm, mc_raw = trim m, mc_question = (if nm = ''ask'' then trimmed line else None), mc_reason = None\<rparr>)))"

section \<open>Who may act\<close>

definition resolveRealRepoPermissionAssociation :: "BotEnv \<Rightarrow> nat \<Rightarrow> string \<Rightarrow> string option \<Rightarrow> string option" where
  "resolveRealRepoPermissionAssociation env installationId repoFullName who =
     (if nullish who [] = [] then None
      else
        (case getRepositoryCollaboratorPermission (be_access env) installationId repoFullName (nullish who []) of
           Inl _ \<Rightarrow> None
         | Inr p \<Rightarrow>
             if p = Some ''admin'' \<or> p = Some ''maintain'' then Some ''MEMBER''
             else if p = Some ''write'' then Some ''COLLABORATOR''
             else None))"

definition isAuthorizedCommandActor :: "CommandAuthorizationPolicy option \<Rightarrow> string option \<Rightarrow> CommandActor \<Rightarrow> bool \<times> string \<times> ActorKind" where
  "isAuthorizedCommandActor policy commandName a =
     (let d = evaluateCommandAuthorization policy (nullish commandName ''preflight'') a
      in (authorized d, dec_reason d, actorKind d))"

text \<open>\<open>author_login\<close> is the author of the cached row, else of the issue. The lookup happens only when needed.\<close>

definition authorizePrActionActor ::
  "BotEnv \<Rightarrow> nat \<Rightarrow> string \<Rightarrow> string option \<Rightarrow> string option \<Rightarrow> string \<Rightarrow> RepositorySettings \<Rightarrow> PullRequestRecord \<Rightarrow> bool \<Rightarrow>
   (bool \<times> string \<times> ActorKind) \<times> string option \<times> string option" where
  "authorizePrActionActor env installationId repoFullName issue_author who commandName settings pr needsMinerDetection =
     (let assoc = resolveRealRepoPermissionAssociation env installationId repoFullName who;
          author = orElse (pr_authorLogin pr) issue_author;
          actor = \<lparr>commenterLogin = who, commenterAssociation = assoc, pullRequestAuthorLogin = author, minerStatus = None\<rparr>;
          official = (if needsMinerDetection \<and> nullish author [] \<noteq> [] \<and>
              commandAuthorizationNeedsMinerDetection (Some (rs_commandAuthorization settings)) commandName actor
            then Some (be_fetch_miner env (nullish author [])) else None)
      in (isAuthorizedCommandActor (Some (rs_commandAuthorization settings)) (Some commandName) (actor\<lparr>minerStatus := official\<rparr>),
          assoc, author))"

section \<open>The override command\<close>

record CommandComment =
  cc_id :: nat
  cc_body :: "string option"
  cc_user :: "CommentUser option"

record CommandIssue =
  ci_number :: nat
  ci_isPull :: bool
  ci_user :: "CommentUser option"

record CommandPayload =
  cp_action :: "string option"
  cp_repository :: "string option"
  cp_issue :: "CommandIssue option"
  cp_comment :: "CommandComment option"
  cp_sender :: "CommentUser option"
  cp_installation :: "nat option"

definition getInstallationId :: "CommandPayload \<Rightarrow> nat option" where
  "getInstallationId p = cp_installation p"

definition present :: "string option \<Rightarrow> bool" where
  "present v \<longleftrightarrow> nullish v [] \<noteq> []"

definition audit_of :: "string \<Rightarrow> string option \<Rightarrow> string option \<Rightarrow> AuditOutcome \<Rightarrow> string \<Rightarrow> (string \<times> json) list \<Rightarrow> AuditEventRecord" where
  "audit_of kind who target out detail metadata = \<lparr>ae_eventType = kind, ae_actor = who, ae_targetKey = target, ae_outcome = out,
     ae_detail = Some detail, ae_metadata = metadata\<rparr>"

definition usage_of :: "string \<Rightarrow> string option \<Rightarrow> string option \<Rightarrow> string option \<Rightarrow> string \<Rightarrow> (string \<times> json) list \<Rightarrow> UsageCall" where
  "usage_of kind who repo target out metadata = \<lparr>us_eventName = kind, us_actor = who, us_repoFullName = repo, us_targetKey = target,
     us_outcome = out, us_metadata = metadata\<rparr>"

definition opt_json :: "string option \<Rightarrow> json" where
  "opt_json v = (case v of None \<Rightarrow> JNull | Some t \<Rightarrow> JString t)"

definition bot_then :: "'a bot \<Rightarrow> 'b bot \<Rightarrow> 'b bot" where
  "bot_then m k = bot_bind m (\<lambda>_. k)"

definition recordGateOverrideSkip ::
  "string \<Rightarrow> string option \<Rightarrow> string option \<Rightarrow> string option \<Rightarrow> string \<Rightarrow> unit bot" where
  "recordGateOverrideSkip deliveryId repo target who why =
     bot_then
       (bot_audit (audit_of ''github_app.gate_override_skipped'' who target Audit_completed why
          [(''deliveryId'', JString deliveryId), (''repoFullName'', opt_json repo), (''reason'', JString why)]))
       (bot_usage (usage_of ''gate_override_skipped'' who repo target ''skipped'' [(''reason'', JString why)]))"

definition bot_uuid :: "string bot" where
  "bot_uuid s = (let (t, st) = randomUUID (bs_store s) in (Inr t, s\<lparr>bs_store := st\<rparr>))"

definition listOtherOpenPullRequests :: "string \<Rightarrow> nat \<Rightarrow> Store \<Rightarrow> PullRequestRecord list" where
  "listOtherOpenPullRequests fullName n st =
     map toPullRequestRecordFromRow (take 100
       (filter (\<lambda>r. row_repoFullName r = fullName \<and> row_state r = ''open'' \<and> row_number r \<noteq> n) (pull_requests st)))"

definition buildAuthorizedPrActionAdvisory ::
  "BotEnv \<Rightarrow> string \<Rightarrow> PullRequestRecord \<Rightarrow> RepositorySettings \<Rightarrow> (RepositoryRecord option \<times> Advisory) bot" where
  "buildAuthorizedPrActionAdvisory env repoFullName pr settings s =
     (let repo = getRepository (be_access env) repoFullName;
          others = listOtherOpenPullRequests repoFullName (pr_number pr) (bs_store s)
      in bot_bind bot_uuid (\<lambda>uuid. bot_bind bot_now (\<lambda>now.
           bot_return (repo, buildPullRequestAdvisory uuid now repo (Some pr) (Some others)
             (Some (shouldCollectLinkedIssueEvidence settings))))) s)"

definition bot_settings :: "BotEnv \<Rightarrow> string \<Rightarrow> RepositorySettings bot" where
  "bot_settings env repoFullName s =
     (let (settings, table) = resolveRepositorySettings (be_loader env) repoFullName (be_settings_rows env) (bs_snapshots s)
      in (Inr settings, s\<lparr>bs_snapshots := table\<rparr>))"

definition bot_mark_overridden :: "string \<Rightarrow> nat \<Rightarrow> unit bot" where
  "bot_mark_overridden repoFullName n = bot_bind bot_now
     (\<lambda>now s. (Inr (), s\<lparr>bs_outcomes := markGateOutcomeOverridden repoFullName n now (bs_outcomes s)\<rparr>))"

definition GITTENSOR_HOME_URL :: string where
  "GITTENSOR_HOME_URL = ''https://gittensor.io''"

definition GITTENSORY_SITE_URL :: string where
  "GITTENSORY_SITE_URL = ''https://gittensory.aethereal.dev''"

definition newline :: string where
  "newline = [CHR 0x0A]"

definition earn_line :: "string \<Rightarrow> string" where
  "earn_line earnUrl = ''[Gittensor]('' @ GITTENSOR_HOME_URL @ '') lets GitHub contributors earn for the work they already do '' @ em_dash @
     '' [register to start earning '' @ rarrow @ '']('' @ earnUrl @ '').''"

definition gittensoryFooter :: "string option \<Rightarrow> string option \<Rightarrow> string" where
  "gittensoryFooter earn custom =
     (let earnUrl = nullish earn GITTENSOR_HOME_URL
      in if present custom
         then join newline [nullish custom [], [], earn_line earnUrl @ '' Checked by [Gittensory]('' @ GITTENSORY_SITE_URL @ '').'']
         else join newline
           [[CHR 0xF0, CHR 0x9F, CHR 0x92, CHR 0xB0] @ '' **Earn for open-source contributions like this.** '' @ earn_line earnUrl, [],
            ''Checked by [Gittensory]('' @ GITTENSORY_SITE_URL @ ''), a quiet PR intelligence layer for OSS maintainers.''])"

definition override_confirmation :: "string \<Rightarrow> string \<Rightarrow> string" where
  "override_confirmation who why = sanitizePublicComment (join newline
     [PR_PANEL_COMMENT_MARKER, [], ''> [!NOTE]'', ''> **Gittensory Gate overridden by @'' @ who @ ''**'',
      ''> The Gate check was set to neutral for the current commit only. This does NOT permanently bypass the Gate; a new push re-evaluates it.'',
      [], ''- Reason: '' @ why, [], ''---'', gittensoryFooter None None])"

fun kind_text :: "ActorKind \<Rightarrow> string" where
  "kind_text actor_maintainer = ''maintainer''"
| "kind_text actor_author = ''author''"
| "kind_text actor_none = ''none''"

definition allowed_json :: "RepositorySettings \<Rightarrow> json" where
  "allowed_json settings = roles_json (commandAuthorizationAllowedRoles (Some (rs_commandAuthorization settings)) ''gate-override'')"

text \<open>What an authorized override does.\<close>

definition perform_override ::
  "BotEnv \<Rightarrow> string \<Rightarrow> nat \<Rightarrow> string \<Rightarrow> nat \<Rightarrow> string \<Rightarrow> ActorKind \<Rightarrow> string option \<Rightarrow> RepositorySettings \<Rightarrow> PullRequestRecord \<Rightarrow> bool bot" where
  "perform_override env deliveryId installationId repoFullName issueNumber who kind why settings pr =
     (let target = Some (repoFullName @ ''#'' @ nat_str (pr_number pr));
          given = trim (nullish why []);
          safeReason = sanitizePublicComment (if given = [] then ''No reason provided.'' else given)
      in bot_bind (buildAuthorizedPrActionAdvisory env repoFullName pr settings) (\<lambda>(repo, adv).
         bot_then (createOrUpdateOverriddenGateCheckRun env installationId repoFullName adv who safeReason)
         (bot_then (bot_audit (audit_of ''github_app.gate_overridden'' (Some who) target Audit_completed safeReason
            [(''deliveryId'', JString deliveryId), (''repoFullName'', JString repoFullName), (''headSha'', opt_json (adv_headSha adv))]))
         (bot_then (createOrUpdateAgentCommandComment env installationId repoFullName issueNumber (override_confirmation who safeReason))
         (bot_then (bot_usage (usage_of ''gate_overridden'' (Some who) (Some repoFullName) target ''completed''
            [(''actorKind'', JString (kind_text kind)), (''headSha'', opt_json (adv_headSha adv))]))
         (bot_then (bot_mark_overridden repoFullName (pr_number pr)) (bot_return True)))))))"

definition deny_override ::
  "string \<Rightarrow> string \<Rightarrow> string \<Rightarrow> string \<Rightarrow> ActorKind \<Rightarrow> RepositorySettings \<Rightarrow> PullRequestRecord \<Rightarrow> bool bot" where
  "deny_override deliveryId repoFullName who why kind settings pr =
     (let target = Some (repoFullName @ ''#'' @ nat_str (pr_number pr))
      in bot_then (bot_audit (audit_of ''github_app.gate_override_denied'' (Some who) target Audit_denied why
           [(''deliveryId'', JString deliveryId), (''repoFullName'', JString repoFullName), (''allowedRoles'', allowed_json settings)]))
         (bot_then (bot_usage (usage_of ''gate_override_denied'' (Some who) (Some repoFullName) target ''denied''
           [(''reason'', JString why), (''actorKind'', JString (kind_text kind)), (''allowedRoles'', allowed_json settings)]))
         (bot_return True)))"

definition command_actor :: "CommandPayload \<Rightarrow> string option" where
  "command_actor p = orElse (Option.bind (cp_sender p) cmu_login) (Option.bind (Option.bind (cp_comment p) cc_user) cmu_login)"

definition from_a_bot :: "CommandPayload \<Rightarrow> bool" where
  "from_a_bot p \<longleftrightarrow> Option.bind (Option.bind (cp_comment p) cc_user) cmu_type = Some ''Bot'' \<or>
     Option.bind (cp_sender p) cmu_type = Some ''Bot'' \<or>
     endsWith (toLowerCase (nullish (command_actor p) [])) ''[bot]''"

text \<open>Repository, pull request, installation and actor when all are there.\<close>

definition override_target :: "CommandPayload \<Rightarrow> (string \<times> CommandIssue \<times> nat \<times> string) option" where
  "override_target p =
     (case (cp_repository p, cp_issue p, getInstallationId p, command_actor p) of
        (Some repo, Some issue, Some inst, Some who) \<Rightarrow>
          if repo \<noteq> [] \<and> ci_isPull issue \<and> inst \<noteq> 0 \<and> who \<noteq> [] then Some (repo, issue, inst, who) else None
      | _ \<Rightarrow> None)"

definition target_key :: "CommandPayload \<Rightarrow> string option" where
  "target_key p =
     (case cp_issue p of
        Some issue \<Rightarrow> if present (cp_repository p)
          then Some (nullish (cp_repository p) [] @ ''#'' @ nat_str (ci_number issue)) else cp_repository p
      | None \<Rightarrow> cp_repository p)"

definition maybeProcessGateOverrideCommand :: "BotEnv \<Rightarrow> string \<Rightarrow> CommandPayload \<Rightarrow> bool bot" where
  "maybeProcessGateOverrideCommand env deliveryId p =
     (case parseGittensoryMentionCommand (Option.bind (cp_comment p) cc_body) of
        None \<Rightarrow> bot_return False
      | Some command \<Rightarrow>
          if mc_name command \<noteq> ''gate-override'' then bot_return False
          else
            (let skip = (\<lambda>why. bot_then (recordGateOverrideSkip deliveryId (cp_repository p) (target_key p) (command_actor p) why) (bot_return True))
             in if cp_action p \<noteq> Some ''created'' then skip ''unsupported_comment_action''
                else if from_a_bot p then skip ''bot_author''
                else
                  (case override_target p of
                     None \<Rightarrow> skip ''missing_repo_pr_installation_or_actor''
                   | Some (repoFullName, issue, installationId, who) \<Rightarrow>
                       bot_bind (bot_settings env repoFullName) (\<lambda>settings s.
                         (case getPullRequest repoFullName (ci_number issue) (bs_store s) of
                            None \<Rightarrow> skip ''cached_pr_missing'' s
                          | Some pr \<Rightarrow>
                              (case authorizePrActionActor env installationId repoFullName (Option.bind (ci_user issue) cmu_login)
                                  (Some who) ''gate-override'' settings pr False of
                                 ((allowed, why, kind), assoc, author) \<Rightarrow>
                                   if \<not> allowed then deny_override deliveryId repoFullName who why kind settings pr s
                                   else perform_override env deliveryId installationId repoFullName (ci_number issue) who kind
                                     (mc_reason command) settings pr s))))))"

section \<open>What a computation asks of GitHub\<close>

text \<open>Every request that \<open>m\<close> adds to the log satisfies \<open>P\<close>.\<close>

definition asks :: "(GhCall \<Rightarrow> bool) \<Rightarrow> 'a bot \<Rightarrow> bool" where
  "asks P m \<longleftrightarrow> (\<forall>s. \<exists>new. bs_calls (snd (m s)) = bs_calls s @ new \<and> list_all P new)"

named_theorems asks_intros

lemma asks_quiet: "(\<And>s. bs_calls (snd (m s)) = bs_calls s) \<Longrightarrow> asks P m"
  by (simp add: asks_def)

lemma asks_return [asks_intros]: "asks P (bot_return x)"
  by (rule asks_quiet) (simp add: bot_return_def)

lemma asks_throw [asks_intros]: "asks P (bot_throw e)"
  by (rule asks_quiet) (simp add: bot_throw_def)

lemma asks_audit [asks_intros]: "asks P (bot_audit e)"
  by (rule asks_quiet) (simp add: bot_audit_def)

lemma asks_usage [asks_intros]: "asks P (bot_usage u)"
  by (rule asks_quiet) (simp add: bot_usage_def)

lemma asks_now [asks_intros]: "asks P bot_now"
  by (rule asks_quiet) (simp add: bot_now_def split_beta Let_def)

lemma asks_uuid [asks_intros]: "asks P bot_uuid"
  by (rule asks_quiet) (simp add: bot_uuid_def split_beta Let_def)

lemma asks_call: "P c \<Longrightarrow> asks P (bot_call answer c)"
  by (simp add: asks_def bot_call_def)

lemma asks_bind_value:
  assumes "asks P m" and "\<And>s x. fst (m s) = Inr x \<Longrightarrow> asks P (k x)"
  shows "asks P (bot_bind m k)"
  unfolding asks_def
proof
  fix s
  obtain new where new: "bs_calls (snd (m s)) = bs_calls s @ new" "list_all P new"
    using assms(1) by (auto simp: asks_def)
  show "\<exists>new. bs_calls (snd (bot_bind m k s)) = bs_calls s @ new \<and> list_all P new"
  proof (cases "fst (m s)")
    case (Inl e)
    then show ?thesis using new by (cases "m s") (auto simp: bot_bind_def)
  next
    case (Inr x)
    then obtain more where "bs_calls (snd (k x (snd (m s)))) = bs_calls (snd (m s)) @ more" "list_all P more"
      using assms(2) [OF Inr] by (auto simp: asks_def)
    then show ?thesis using new Inr by (cases "m s") (auto simp: bot_bind_def)
  qed
qed

lemma asks_bind [asks_intros]: "asks P m \<Longrightarrow> (\<And>x. asks P (k x)) \<Longrightarrow> asks P (bot_bind m k)"
  by (rule asks_bind_value)

lemma asks_then [asks_intros]: "asks P m \<Longrightarrow> asks P k \<Longrightarrow> asks P (bot_then m k)"
  unfolding bot_then_def by (intro asks_intros)

lemma asks_catch [asks_intros]: "asks P m \<Longrightarrow> (\<And>e. asks P (h e)) \<Longrightarrow> asks P (bot_catch m h)"
  unfolding asks_def
proof
  fix s
  assume m: "\<forall>s. \<exists>new. bs_calls (snd (m s)) = bs_calls s @ new \<and> list_all P new"
    and h: "\<And>e. \<forall>s. \<exists>new. bs_calls (snd (h e s)) = bs_calls s @ new \<and> list_all P new"
  obtain new where new: "bs_calls (snd (m s)) = bs_calls s @ new" "list_all P new" using m by blast
  show "\<exists>new. bs_calls (snd (bot_catch m h s)) = bs_calls s @ new \<and> list_all P new"
  proof (cases "fst (m s)")
    case (Inl e)
    then obtain more where "bs_calls (snd (h e (snd (m s)))) = bs_calls (snd (m s)) @ more" "list_all P more"
      using h by blast
    then show ?thesis using new Inl by (cases "m s") (auto simp: bot_catch_def)
  next
    case (Inr y)
    then show ?thesis using new by (cases "m s") (auto simp: bot_catch_def)
  qed
qed

lemma asks_if [asks_intros]: "(b \<Longrightarrow> asks P m) \<Longrightarrow> (\<not> b \<Longrightarrow> asks P n) \<Longrightarrow> asks P (if b then m else n)"
  by simp

lemma asks_option [asks_intros]:
  "(v = None \<Longrightarrow> asks P m) \<Longrightarrow> (\<And>x. v = Some x \<Longrightarrow> asks P (n x)) \<Longrightarrow> asks P (case v of None \<Rightarrow> m | Some x \<Rightarrow> n x)"
  by (cases v) simp_all

lemma asks_owner [asks_intros]: "asks P (owner_and_repo env i repo)"
  by (auto simp: owner_and_repo_def intro!: asks_intros split: list.split sum.split)

text \<open>An advisory is built without asking GitHub; it carries the head of the pull request.\<close>

lemma asks_advisory [asks_intros]: "asks P (buildAuthorizedPrActionAdvisory env repo pr settings)"
  by (rule asks_quiet)
    (simp add: buildAuthorizedPrActionAdvisory_def bot_bind_def bot_uuid_def bot_now_def bot_return_def split_beta Let_def)

lemma asks_mark [asks_intros]: "asks P (bot_mark_overridden repo n)"
  by (rule asks_quiet) (simp add: bot_mark_overridden_def bot_bind_def bot_now_def split_beta Let_def)

section \<open>Panels\<close>

text \<open>A comment that GitHub listed on the pull request, written by the bot and marked as its panel.\<close>

definition listed_panel :: "BotEnv \<Rightarrow> nat \<Rightarrow> nat \<Rightarrow> bool" where
  "listed_panel env n i \<longleftrightarrow> (\<exists>log own nm page batch c. oa_comments (be_octo env) log (List_comments own nm n page) = Inr batch \<and>
     c \<in> set batch \<and> ic_id c = i \<and> our_panel env c)"

fun panel_call :: "BotEnv \<Rightarrow> nat \<Rightarrow> string \<Rightarrow> GhCall \<Rightarrow> bool" where
  "panel_call env n body (List_comments own nm m page) \<longleftrightarrow> m = n \<and> page \<in> {1, 2, 3}"
| "panel_call env n body (Patch_comment own nm i b) \<longleftrightarrow> b = body \<and> listed_panel env n i"
| "panel_call env n body (Post_comment own nm m b) \<longleftrightarrow> m = n \<and> b = body"
| "panel_call env n body _ \<longleftrightarrow> False"

lemma find_panel_asks: "1 \<le> page \<Longrightarrow> page + left \<le> 4 \<Longrightarrow> asks (panel_call env n body) (find_panel env target n page left)"
proof (induction left arbitrary: page)
  case 0
  then show ?case by (simp add: asks_return)
next
  case (Suc left)
  have "asks (panel_call env n body) (find_panel env target n (page + 1) left)" if "left \<noteq> 0"
    using Suc.prems that by (intro Suc.IH) auto
  moreover have "asks (panel_call env n body) (find_panel env target n (page + 1) 0)"
    by (simp add: asks_return)
  ultimately have "asks (panel_call env n body) (find_panel env target n (page + 1) left)"
    by (cases left) auto
  then show ?case
    using Suc.prems by (auto intro!: asks_intros asks_call)
qed

lemma find_panel_found: "fst (find_panel env target n page left s) = Inr (Some c) \<Longrightarrow> listed_panel env n (ic_id c)"
proof (induction env target n page left arbitrary: s rule: find_panel.induct)
  case (2 env target n page left)
  let ?call = "List_comments (fst target) (snd target) n page"
  show ?case
  proof (cases "oa_comments (be_octo env) (bs_calls s) ?call")
    case (Inl e)
    then show ?thesis using 2(2) by (simp add: bot_bind_def bot_call_def)
  next
    case (Inr batch)
    show ?thesis
    proof (cases "List.find (our_panel env) batch")
      case None
      then show ?thesis using 2 Inr by (auto simp: bot_bind_def bot_call_def bot_return_def split: if_splits)
    next
      case (Some d)
      then have "d = c" using 2(2) Inr by (simp add: bot_bind_def bot_call_def bot_return_def)
      then show ?thesis using List_find_SomeD [OF Some] Inr unfolding listed_panel_def by blast
    qed
  qed
qed (simp add: bot_return_def)

lemma comment_asks: "asks (panel_call env n body) (createOrUpdateIssueCommentWithMarker env i repo n body cim)"
  unfolding createOrUpdateIssueCommentWithMarker_def
proof (rule asks_bind [OF asks_owner], rule asks_bind_value)
  fix target
  show "asks (panel_call env n body) (find_panel env target n 1 COMMENT_SEARCH_PAGE_LIMIT)"
    by (rule find_panel_asks) (simp_all add: COMMENT_SEARCH_PAGE_LIMIT_def)
  fix s existing
  assume "fst (find_panel env target n 1 COMMENT_SEARCH_PAGE_LIMIT s) = Inr existing"
  then have "existing = Some c \<Longrightarrow> listed_panel env n (ic_id c)" for c
    using find_panel_found by blast
  then show "asks (panel_call env n body) (case existing of
      Some c \<Rightarrow> bot_bind (bot_call (oa_write (be_octo env)) (Patch_comment (fst target) (snd target) (ic_id c) body)) (\<lambda>d. bot_return (Some d))
    | None \<Rightarrow> if cim = Some False then bot_return None
        else bot_bind (bot_call (oa_write (be_octo env)) (Post_comment (fst target) (snd target) n body)) (\<lambda>d. bot_return (Some d)))"
    by (auto intro!: asks_intros asks_call)
qed

section \<open>The gate check\<close>

definition listed_check :: "BotEnv \<Rightarrow> string \<Rightarrow> nat \<Rightarrow> bool" where
  "listed_check env head i \<longleftrightarrow> (\<exists>log own nm runs.
     oa_checks (be_octo env) log (List_checks own nm head GITTENSORY_GATE_CHECK_NAME) = Inr (i # runs))"

text \<open>Reading the gate check of a commit, and making it neutral.\<close>

fun neutral_gate_call :: "BotEnv \<Rightarrow> string \<Rightarrow> GhCall \<Rightarrow> bool" where
  "neutral_gate_call env head (List_checks own nm ref name) \<longleftrightarrow> ref = head \<and> name = GITTENSORY_GATE_CHECK_NAME"
| "neutral_gate_call env head (Patch_check own nm i u) \<longleftrightarrow>
     listed_check env head i \<and> cu_name u = GITTENSORY_GATE_CHECK_NAME \<and> cu_conclusion u = Some ''neutral''"
| "neutral_gate_call env head (Post_check own nm sha u) \<longleftrightarrow>
     sha = head \<and> cu_name u = GITTENSORY_GATE_CHECK_NAME \<and> cu_conclusion u = Some ''neutral''"
| "neutral_gate_call env head _ \<longleftrightarrow> False"

lemma overridden_check_asks:
  "asks (neutral_gate_call env (nullish (adv_headSha adv) [])) (createOrUpdateOverriddenGateCheckRun env i repo adv who why)"
proof -
  let ?head = "nullish (adv_headSha adv) []" and ?api = "oa_write (be_octo env)"
  have "asks (neutral_gate_call env ?head) (publish_named env target ?head c)"
    if c: "nc_name c = GITTENSORY_GATE_CHECK_NAME" "nc_conclusion c = Some ''neutral''" "nc_checkRunId c = None" for target c
  proof -
    have patch: "asks (neutral_gate_call env ?head)
        (bot_bind (bot_call ?api (Patch_check (fst target) (snd target) k (check_update c out))) (\<lambda>d. bot_return (publishedOutcome d)))"
      if "listed_check env ?head k" for k out
      using that c by (intro asks_intros asks_call) (simp add: check_update_def)
    have post: "asks (neutral_gate_call env ?head)
        (bot_bind (bot_call ?api (Post_check (fst target) (snd target) ?head (check_update c out))) (\<lambda>d. bot_return (publishedOutcome d)))" for out
      using c by (intro asks_intros asks_call) (simp add: check_update_def)
    have "asks (neutral_gate_call env ?head) (bot_bind (bot_call (oa_checks (be_octo env)) (List_checks (fst target) (snd target) ?head (nc_name c)))
        (\<lambda>runs. case runs of
            k # _ \<Rightarrow> bot_bind (bot_call ?api (Patch_check (fst target) (snd target) k (check_update c (outputForCheckRunUpdate (nc_output c)))))
              (\<lambda>d. bot_return (publishedOutcome d))
          | [] \<Rightarrow> bot_bind (bot_call ?api (Post_check (fst target) (snd target) ?head (check_update c (nc_output c))))
              (\<lambda>d. bot_return (publishedOutcome d))))"
    proof (rule asks_bind_value)
      show "asks (neutral_gate_call env ?head) (bot_call (oa_checks (be_octo env)) (List_checks (fst target) (snd target) ?head (nc_name c)))"
        by (rule asks_call) (simp add: c)
      fix s runs
      assume "fst (bot_call (oa_checks (be_octo env)) (List_checks (fst target) (snd target) ?head (nc_name c)) s) = Inr runs"
      then have "runs = k # ks \<Longrightarrow> listed_check env ?head k" for k ks
        by (auto simp: bot_call_def listed_check_def c)
      then show "asks (neutral_gate_call env ?head) (case runs of
            k # _ \<Rightarrow> bot_bind (bot_call ?api (Patch_check (fst target) (snd target) k (check_update c (outputForCheckRunUpdate (nc_output c)))))
              (\<lambda>d. bot_return (publishedOutcome d))
          | [] \<Rightarrow> bot_bind (bot_call ?api (Post_check (fst target) (snd target) ?head (check_update c (nc_output c))))
              (\<lambda>d. bot_return (publishedOutcome d)))"
        using patch post by (cases runs) auto
    qed
    then show ?thesis by (simp add: publish_named_def Let_def split_beta c)
  qed
  then show ?thesis
    by (auto simp: createOrUpdateOverriddenGateCheckRun_def createOrUpdateNamedCheckRun_def intro!: asks_intros)
qed

lemma asks_mono: "asks P m \<Longrightarrow> (\<And>c. P c \<Longrightarrow> Q c) \<Longrightarrow> asks Q m"
  unfolding asks_def by (metis list.pred_mono_strong)

section \<open>Authorization\<close>

text \<open>Without a miner lookup only the live permission opens a maintainer command.\<close>

lemma override_needs_permission:
  assumes "authorizePrActionActor env inst repo issue_author (Some who) ''gate-override'' settings pr False = ((True, why, kind), assoc, author)"
  shows "\<exists>p. getRepositoryCollaboratorPermission (be_access env) inst repo who = Inr (Some p) \<and> p \<in> {''admin'', ''maintain'', ''write''}"
proof -
  let ?actor = "\<lparr>commenterLogin = Some who, commenterAssociation = resolveRealRepoPermissionAssociation env inst repo (Some who),
    pullRequestAuthorLogin = orElse (pr_authorLogin pr) issue_author, minerStatus = None\<rparr>"
  have "authorized (evaluateCommandAuthorization (Some (rs_commandAuthorization settings)) ''gate-override'' ?actor)"
    using assms by (auto simp: authorizePrActionActor_def isAuthorizedCommandActor_def Let_def)
  then obtain r where r: "r \<in> set (actorRoles ?actor)"
    "r \<in> set (commandAuthorizationAllowedRoles (Some (rs_commandAuthorization settings)) ''gate-override'')"
    by (auto simp: authorized_iff list_ex_iff)
  moreover have "''gate-override'' \<in> set MAINTAINER_ONLY_DEFAULT_COMMANDS"
    by (simp add: MAINTAINER_ONLY_DEFAULT_COMMANDS_def DEFAULT_COMMAND_AUTHORIZATION_POLICY_def)
  ultimately have "r \<noteq> role_pr_author" using maintainer_only_allowed by metis
  with r(1) have "resolveRealRepoPermissionAssociation env inst repo (Some who) \<noteq> None"
    by (auto simp: actorRoles_def split: if_splits)
  then show ?thesis
    by (auto simp: resolveRealRepoPermissionAssociation_def split: if_splits sum.splits)
qed

section \<open>Properties\<close>

lemma advisory_head: "adv_headSha (buildPullRequestAdvisory uuid now repo (Some pr) others req) = pr_headSha pr"
  by (simp add: buildPullRequestAdvisory_def advisory_def Let_def)

lemma advisory_value: "fst (buildAuthorizedPrActionAdvisory env repo pr settings s) = Inr (r, adv) \<Longrightarrow> adv_headSha adv = pr_headSha pr"
  by (auto simp: buildAuthorizedPrActionAdvisory_def bot_bind_def bot_uuid_def bot_now_def bot_return_def split_beta Let_def advisory_head)

definition override_call :: "BotEnv \<Rightarrow> PullRequestRecord \<Rightarrow> nat \<Rightarrow> string \<Rightarrow> GhCall \<Rightarrow> bool" where
  "override_call env pr n body c \<longleftrightarrow> neutral_gate_call env (nullish (pr_headSha pr) []) c \<or> panel_call env n body c"

lemma perform_asks: "\<exists>body. asks (override_call env pr n body) (perform_override env d inst repo n who kind why settings pr)"
proof -
  let ?given = "trim (nullish why [])"
  define safe where "safe = sanitizePublicComment (if ?given = [] then ''No reason provided.'' else ?given)"
  let ?P = "override_call env pr n (override_confirmation who safe)"
  have comment: "asks ?P (createOrUpdateAgentCommandComment env inst repo n (override_confirmation who safe))"
    unfolding createOrUpdateAgentCommandComment_def by (rule asks_mono [OF comment_asks]) (simp add: override_call_def)
  have check: "asks ?P (createOrUpdateOverriddenGateCheckRun env inst repo adv who safe)" if "adv_headSha adv = pr_headSha pr" for adv
    using overridden_check_asks [of env adv inst repo who safe] by (rule asks_mono) (simp add: override_call_def that)
  have "asks ?P (perform_override env d inst repo n who kind why settings pr)"
    unfolding perform_override_def Let_def safe_def [symmetric]
    by (rule asks_bind_value [OF asks_advisory]) (auto dest!: advisory_value intro!: asks_intros comment check)
  then show ?thesis by blast
qed

text \<open>What leaves GitHub and the block table alone.\<close>

definition quiet :: "'a bot \<Rightarrow> bool" where
  "quiet m \<longleftrightarrow> (\<forall>s. bs_calls (snd (m s)) = bs_calls s \<and> bs_outcomes (snd (m s)) = bs_outcomes s)"

lemma quiet_bind: "quiet m \<Longrightarrow> (\<And>x. quiet (k x)) \<Longrightarrow> quiet (bot_bind m k)"
  by (auto simp: quiet_def bot_bind_def split_beta split: sum.split)

lemma quiet_return: "quiet (bot_return x)"
  by (simp add: quiet_def bot_return_def)

lemma quiet_skip: "quiet (bot_then (recordGateOverrideSkip d repo target who why) (bot_return True))"
  unfolding bot_then_def recordGateOverrideSkip_def
  by (intro quiet_bind quiet_return) (simp_all add: quiet_def bot_audit_def bot_usage_def)

lemma quiet_deny: "quiet (deny_override d repo who why kind settings pr)"
  unfolding bot_then_def deny_override_def Let_def
  by (intro quiet_bind quiet_return) (simp_all add: quiet_def bot_audit_def bot_usage_def)

text \<open>
  C2: the gate is overridden by maintainers only, and for one commit. When the command handler
  asks anything of GitHub or flags a block, the comment was just created, by a person, on a cached
  pull request, and GitHub reports admin, maintain or write for that person now, whatever the
  comment or the command policy says; and all it does there is to read and set neutral the gate
  check of the head commit and to find, edit or post the bot's own panel comment.
\<close>

theorem gate_override_is_earned:
  assumes "maybeProcessGateOverrideCommand env d p s = (r, s')"
    and "bs_calls s' \<noteq> bs_calls s \<or> bs_outcomes s' \<noteq> bs_outcomes s"
  shows "\<exists>repo issue inst who perm pr body new. override_target p = Some (repo, issue, inst, who) \<and>
    cp_action p = Some ''created'' \<and> \<not> from_a_bot p \<and>
    getRepositoryCollaboratorPermission (be_access env) inst repo who = Inr (Some perm) \<and>
    perm \<in> {''admin'', ''maintain'', ''write''} \<and>
    getPullRequest repo (ci_number issue) (bs_store s) = Some pr \<and>
    bs_calls s' = bs_calls s @ new \<and> list_all (override_call env pr (ci_number issue) body) new"
proof -
  have quiet_run: "m st \<noteq> (r, s')" if "quiet m" "bs_calls st = bs_calls s" "bs_outcomes st = bs_outcomes s" for m :: "bool bot" and st
    using that assms(2) unfolding quiet_def by (metis snd_conv)
  note skip = quiet_run [OF quiet_skip]
  obtain command where command: "parseGittensoryMentionCommand (Option.bind (cp_comment p) cc_body) = Some command"
    "mc_name command = ''gate-override''"
    using assms by (auto simp: maybeProcessGateOverrideCommand_def bot_return_def split: option.splits if_splits)
  have created: "cp_action p = Some ''created''" "\<not> from_a_bot p" "override_target p \<noteq> None"
    using assms(1) by (auto simp: maybeProcessGateOverrideCommand_def command Let_def skip split: if_splits option.splits)
  then obtain repo issue inst who where target: "override_target p = Some (repo, issue, inst, who)"
    by auto
  obtain settings s1 where settings: "bot_settings env repo s = (Inr settings, s1)" "bs_store s1 = bs_store s"
    "bs_calls s1 = bs_calls s" "bs_outcomes s1 = bs_outcomes s"
    by (simp add: bot_settings_def split_beta Let_def)
  obtain pr where pr: "getPullRequest repo (ci_number issue) (bs_store s) = Some pr"
    using assms(1) created settings
    by (auto simp: maybeProcessGateOverrideCommand_def command Let_def target bot_bind_def skip split: option.splits)
  obtain allowed why kind assoc author where decision:
    "authorizePrActionActor env inst repo (Option.bind (ci_user issue) cmu_login) (Some who) ''gate-override'' settings pr False =
      ((allowed, why, kind), assoc, author)"
    by (metis prod.collapse)
  have run: "(if \<not> allowed then deny_override d repo who why kind settings pr s1
      else perform_override env d inst repo (ci_number issue) who kind (mc_reason command) settings pr s1) = (r, s')"
    using assms(1) created settings by (simp add: maybeProcessGateOverrideCommand_def command Let_def target bot_bind_def pr decision)
  have allowed
    using run quiet_run [OF quiet_deny settings(3,4)] by (auto split: if_splits)
  then obtain perm where perm: "getRepositoryCollaboratorPermission (be_access env) inst repo who = Inr (Some perm)"
    "perm \<in> {''admin'', ''maintain'', ''write''}"
    using override_needs_permission decision by (metis (full_types))
  obtain body where "asks (override_call env pr (ci_number issue) body)
      (perform_override env d inst repo (ci_number issue) who kind (mc_reason command) settings pr)"
    using perform_asks by blast
  then obtain new where "bs_calls s' = bs_calls s @ new" "list_all (override_call env pr (ci_number issue) body) new"
    using run \<open>allowed\<close> settings(3) unfolding asks_def by (metis snd_conv)
  then show ?thesis using target created(1,2) perm pr by blast
qed

text \<open>A maintainer with write access overrides the gate of a cached pull request.\<close>

definition override_env :: BotEnv where
  "override_env = \<lparr>be_access = owner_world, be_octo = \<lparr>oa_checks = \<lambda>_ _. Inr [5], oa_comments = \<lambda>_ _. Inr [], oa_write = \<lambda>_ _. Inr (9, None)\<rparr>,
     be_slug = ''gittensory'', be_loader = \<lparr>le_now = 0, le_nowIso = [], le_uuid = [], le_fetch = \<lambda>_. Inr None,
       le_parse_json = \<lambda>_. None, le_parse_yaml = \<lambda>_. None, le_date_parse = \<lambda>_. None, le_bundledYaml = [], le_driftIssueRepo = None\<rparr>,
     be_settings_rows = [], be_fetch_miner = \<lambda>_. miner_not_found\<rparr>"

definition override_payload :: CommandPayload where
  "override_payload = \<lparr>cp_action = Some ''created'', cp_repository = Some ''ada/r'',
     cp_issue = Some \<lparr>ci_number = 7, ci_isPull = True, ci_user = None\<rparr>,
     cp_comment = Some \<lparr>cc_id = 1, cc_body = Some ''@gittensory gate-override'', cc_user = None\<rparr>,
     cp_sender = Some \<lparr>cmu_type = None, cmu_login = Some ''ada''\<rparr>, cp_installation = Some 3\<rparr>"

definition override_state :: BotState where
  "override_state = \<lparr>bs_store = snd (upsertPullRequestFromGitHub ''ada/r'' (sync_payload ''a'') None (empty_store (\<lambda>_. []) (\<lambda>_. []))),
     bs_snapshots = [], bs_outcomes = [], bs_usage = [], bs_calls = []\<rparr>"

lemma override_parsed: "parseGittensoryMentionCommand (Option.bind (cp_comment override_payload) cc_body) =
    Some \<lparr>mc_name = ''gate-override'', mc_raw = ''@gittensory gate-override'', mc_question = None, mc_reason = None\<rparr>"
  by code_simp

lemma override_found: "override_target override_payload = Some (''ada/r'', \<lparr>ci_number = 7, ci_isPull = True, ci_user = None\<rparr>, 3, ''ada'')"
  by code_simp

lemma override_policy: "rs_commandAuthorization (fst (resolveRepositorySettings (be_loader override_env) ''ada/r'' [] [])) = DEFAULT_COMMAND_AUTHORIZATION_POLICY"
  by code_simp

lemma override_role_allowed: "authorized (evaluateCommandAuthorization (Some DEFAULT_COMMAND_AUTHORIZATION_POLICY) ''gate-override'' \<lparr>commenterLogin = Some ''ada'', commenterAssociation = Some ''COLLABORATOR'',
    pullRequestAuthorLogin = Some ''ada'', minerStatus = None\<rparr>)"
  by code_simp

lemma override_permission: "resolveRealRepoPermissionAssociation override_env 3 ''ada/r'' (Some ''ada'') = Some ''COLLABORATOR''"
  by code_simp

definition override_pr :: PullRequestRecord where
  "override_pr = toPullRequestRecordFromRow (new_pull_row ''ada/r'' (sync_payload ''a'') [] [] (Some []) [])"

lemma override_cached: "getPullRequest ''ada/r'' 7 (bs_store override_state) = Some override_pr"
  by code_simp

lemma override_pr_fields: "pr_headSha override_pr = Some ''a''" "pr_authorLogin override_pr = Some ''ada''"
  by code_simp+

lemma bind_logs:
  assumes "bs_calls (snd (m s)) \<noteq> bs_calls s" "asks P m" "\<And>x. asks P (k x)"
  shows "bs_calls (snd (bot_bind m k s)) \<noteq> bs_calls s"
proof -
  obtain x s1 where m: "m s = (x, s1)" by force
  with assms(1,2) obtain new where new: "bs_calls s1 = bs_calls s @ new" "new \<noteq> []"
    unfolding asks_def by (metis append.right_neutral snd_conv)
  show ?thesis
  proof (cases x)
    case (Inr y)
    obtain more where "bs_calls (snd (k y s1)) = bs_calls s1 @ more" using assms(3) unfolding asks_def by blast
    then show ?thesis using new by (simp add: bot_bind_def m Inr)
  qed (use assms(1) m in \<open>simp add: bot_bind_def\<close>)
qed

lemma override_logs:
  assumes "adv_headSha adv = Some ''a''"
  shows "bs_calls (snd (createOrUpdateOverriddenGateCheckRun override_env 3 ''ada/r'' adv who why s)) \<noteq> bs_calls s"
proof -
  have "owner_and_repo override_env 3 ''ada/r'' = bot_return (''ada'', ''r'')"
    by (simp add: owner_and_repo_def override_env_def owner_world_def)
  then show ?thesis
    by (simp add: createOrUpdateOverriddenGateCheckRun_def createOrUpdateNamedCheckRun_def assms Let_def publish_named_def
      bot_bind_def bot_return_def bot_catch_def bot_call_def override_env_def)
qed

lemma demo_override_runs: "bs_calls (snd (maybeProcessGateOverrideCommand override_env [] override_payload override_state)) \<noteq> bs_calls override_state"
proof -
  obtain settings s1 where settings: "bot_settings override_env ''ada/r'' override_state = (Inr settings, s1)"
    "bs_store s1 = bs_store override_state" "bs_calls s1 = bs_calls override_state"
    "rs_commandAuthorization settings = DEFAULT_COMMAND_AUTHORIZATION_POLICY"
    using override_policy by (simp add: bot_settings_def split_beta Let_def override_state_def override_env_def)
  obtain why kind assoc author where decision:
    "authorizePrActionActor override_env 3 ''ada/r'' None (Some ''ada'') ''gate-override'' settings override_pr False = ((True, why, kind), assoc, author)"
    using override_role_allowed by (simp add: authorizePrActionActor_def override_permission settings(4) override_pr_fields isAuthorizedCommandActor_def Let_def orElse_def)
  obtain r adv s2 where built: "buildAuthorizedPrActionAdvisory override_env ''ada/r'' override_pr settings s1 = (Inr (r, adv), s2)"
    by (simp add: buildAuthorizedPrActionAdvisory_def bot_bind_def bot_uuid_def bot_now_def bot_return_def split_beta Let_def)
  have head: "adv_headSha adv = Some ''a''" using advisory_value [of override_env "''ada/r''" override_pr settings s1 r adv] built by (simp add: override_pr_fields)
  have same: "bs_calls s2 = bs_calls override_state"
    using built settings(3) by (auto simp: buildAuthorizedPrActionAdvisory_def bot_bind_def bot_uuid_def bot_now_def bot_return_def split_beta Let_def)
  have "bs_calls (snd (perform_override override_env [] 3 ''ada/r'' 7 ''ada'' kind None settings override_pr s1)) \<noteq> bs_calls s2"
    unfolding perform_override_def Let_def bot_bind_def [of "buildAuthorizedPrActionAdvisory _ _ _ _"] built prod.case sum.case
      bot_then_def [of "createOrUpdateOverriddenGateCheckRun _ _ _ _ _ _"]
    by (rule bind_logs [where P = "\<lambda>_. True", OF override_logs [OF head]])
      (auto intro!: asks_intros asks_mono [OF overridden_check_asks] asks_mono [OF comment_asks] simp: createOrUpdateAgentCommandComment_def)
  moreover have "from_a_bot override_payload = False" "cp_action override_payload = Some ''created''" by code_simp+
  ultimately show ?thesis
    by (simp add: maybeProcessGateOverrideCommand_def override_parsed override_found Let_def bot_bind_def settings override_cached decision same)
qed

theorem gate_override_is_earned_witness:
  "\<exists>pr body new. bs_calls (snd (maybeProcessGateOverrideCommand override_env [] override_payload override_state)) = new \<and> new \<noteq> [] \<and>
     getPullRequest ''ada/r'' 7 (bs_store override_state) = Some pr \<and> list_all (override_call override_env pr 7 body) new"
  using gate_override_is_earned [OF prod.collapse [symmetric] disjI1, OF demo_override_runs] demo_override_runs
  by (auto simp: override_found override_state_def)

text \<open>
  The announcement does not depend on the check: for a cached pull request without a head the run is
  the same without the check-run step, so the override is recorded as completed, announced in the
  thread and flagged on the block although nothing was set neutral.
\<close>

lemma no_head_no_check:
  "adv_headSha adv = None \<Longrightarrow> createOrUpdateOverriddenGateCheckRun env i repo adv who why = bot_return None"
  by (simp add: createOrUpdateOverriddenGateCheckRun_def createOrUpdateNamedCheckRun_def Let_def)

theorem override_without_check_is_announced:
  assumes "pr_headSha pr = None"
    and told: "told = sanitizePublicComment (if trim (nullish why []) = [] then ''No reason provided.'' else trim (nullish why []))"
    and key: "key = Some (repo @ ''#'' @ nat_str (pr_number pr))"
  shows "perform_override env d inst repo n who kind why settings pr s =
    bot_bind (buildAuthorizedPrActionAdvisory env repo pr settings) (\<lambda>_.
      bot_then (bot_audit (audit_of ''github_app.gate_overridden'' (Some who) key Audit_completed told
        [(''deliveryId'', JString d), (''repoFullName'', JString repo), (''headSha'', opt_json None)]))
      (bot_then (createOrUpdateAgentCommandComment env inst repo n (override_confirmation who told))
      (bot_then (bot_usage (usage_of ''gate_overridden'' (Some who) (Some repo) key ''completed''
        [(''actorKind'', JString (kind_text kind)), (''headSha'', opt_json None)]))
      (bot_then (bot_mark_overridden repo (pr_number pr)) (bot_return True))))) s"
proof -
  obtain x s1 where built: "buildAuthorizedPrActionAdvisory env repo pr settings s = (x, s1)" by force
  have "adv_headSha (snd y) = None" if "x = Inr y" for y
    using advisory_value [of env repo pr settings s "fst y" "snd y"] built that assms(1) by simp
  then show ?thesis
    by (auto simp: perform_override_def Let_def told key bot_bind_def built no_head_no_check bot_then_def
      bot_return_def split: sum.split)
qed

end
