(* ===== verification/Settings_Typed.thy ===== *)
theory Settings_Typed
  imports Manifest_Loader
begin

text \<open>
  The type of the configuration in force. The settings row, its JSON columns, the manifest file and
  the cached snapshots are all data the program does not control; this theory composes the parsers
  of the database layer, of the manifest and of the loader and shows that what they hand the gate
  and the planner is always within its type invariant.
\<close>

text \<open>
  The invariant: thresholds between 0 and 100, at most ten approvals, a command policy whose role
  lists are not empty and whose maintainer commands name no author, and never a linked issue that
  is required but not checked.
\<close>

definition settings_typed :: "RepositorySettings \<Rightarrow> bool" where
  "settings_typed s \<longleftrightarrow> score_ok (rs_qualityGateMinScore s) \<and> score_ok (rs_slopGateMinScore s)
     \<and> maintain_ok (Some (rs_autoMaintain s)) \<and> policy_ok (rs_commandAuthorization s)
     \<and> \<not> (rs_requireLinkedIssue s \<and> rs_linkedIssueGateMode s = gate_off)"

lemma column_score_ok: "score_ok (normalizeQualityGateMinScore v)"
  by (cases v rule: normalizeQualityGateMinScore.cases) (simp_all add: score_ok_def)

lemma orElse_score_ok: "score_ok a \<Longrightarrow> score_ok b \<Longrightarrow> score_ok (orElse a b)"
  by (cases a) (simp_all add: orElse_def)

lemma nullish_maintain_ok: "maintain_ok a \<Longrightarrow> maintain_ok (Some b) \<Longrightarrow> maintain_ok (Some (nullish a b))"
  by (cases a) (simp_all add: nullish_def)

lemma column_maintain_ok: "maintain_ok (Some (normalizeAutoMaintainPolicy v))"
  using normalizeAutoMaintainPolicy_bounds [of v] by (simp add: maintain_ok_def MAX_REQUIRE_APPROVALS_def)

lemma stored_settings_ok:
  "score_ok (rs_qualityGateMinScore (getRepositorySettings repo rows)) \<and> score_ok (rs_slopGateMinScore (getRepositorySettings repo rows))
   \<and> maintain_ok (Some (rs_autoMaintain (getRepositorySettings repo rows)))
   \<and> policy_ok (rs_commandAuthorization (getRepositorySettings repo rows))"
  by (auto simp: getRepositorySettings_def settings_of_row_def default_settings_def column_score_ok column_maintain_ok
      normalize_policy_ok split: option.split)
    (simp_all add: score_ok_def maintain_ok_def DEFAULT_AUTO_MAINTAIN_POLICY_def MAX_REQUIRE_APPROVALS_def)

lemma effective_settings_typed: "manifest_ok m \<Longrightarrow> settings_typed (resolveEffectiveSettings (getRepositorySettings repo rows) m)"
  using stored_settings_ok [of repo rows]
  by (auto simp: settings_typed_def resolveEffectiveSettings_def Let_def overlay_gate_def overlay_settings_def manifest_ok_def
      gate_ok_def settings_ok_def intro!: orElse_score_ok nullish_maintain_ok)

lemma empty_manifest_ok: "manifest_ok (emptyManifest src warnings)"
  using parsed_manifest_ok [of JNull "Some src"] by (simp add: manifest_ok_def emptyManifest_def manifest_recognized_def)

lemma record_manifest_ok: "manifest_ok (parse_manifest_record r src)"
  using parsed_manifest_ok [of "JObject r" src] by simp

lemma fetched_manifest_ok: "manifest_ok (fetched_manifest env repo)"
  by (simp add: fetched_manifest_def parseFocusManifestContent_def Let_def empty_manifest_ok record_manifest_ok
      split: option.split json.split)

lemma loaded_manifest_ok: "manifest_ok (fst (loadRepoFocusManifestWithCachePolicy env repo maxAge refresh publicOnly table))"
  by (auto simp: loadRepoFocusManifestWithCachePolicy_def Let_def fetched_manifest_ok readCachedManifest_def parsed_manifest_ok
      split: option.splits list.splits if_splits)

text \<open>
  C11: the configuration in force is well typed. Whatever the settings row and its JSON columns hold,
  whatever the repository publishes and whatever the snapshot table holds, corrupt payloads included,
  the manifest the loader serves satisfies the invariant of a parsed manifest (lists without
  repetition of at most 200 items of at most 300 characters, public notes that pass the redaction
  guard, scores between 0 and 100), and the settings the gate and the planner run under have
  thresholds between 0 and 100, at most ten required approvals, a command policy that opens no
  maintainer command to authors, and no linked issue that is required but not checked.
\<close>

theorem configuration_in_force_typed:
  "manifest_ok (fst (loadRepoFocusManifestWithCachePolicy env repo maxAge refresh publicOnly table)) \<and>
   settings_typed (fst (resolveRepositorySettings env repo rows table))"
  by (simp add: loaded_manifest_ok resolveRepositorySettings_def Let_def loadRepoFocusManifest_def effective_settings_typed)

end
