(* ===== verification/Secret_Gate.thy ===== *)
theory Secret_Gate
  imports Safety_Scan
begin

text \<open>
  How the safety scan reaches the gate, \<open>src/queue/processors.ts\<close>: the bounded diff that is built from
  the stored files of a pull request, and the scan of that diff, whose finding joins the advisory.
  The first property composes diff, scan and gate; the second shows what the bound hides.
\<close>

definition MAX_DIFF_CHARS :: nat where "MAX_DIFF_CHARS = 60000"

definition file_patch :: "PullRequestFileRecord \<Rightarrow> string" where
  "file_patch f = (case jget (file_payload f) ''patch'' of JString p \<Rightarrow> p | _ \<Rightarrow> [])"

definition file_header :: "PullRequestFileRecord \<Rightarrow> string" where
  "file_header f = ''### '' @ file_path f
     @ (if nullish (file_status f) [] = [] then [] else '' ('' @ nullish (file_status f) [] @ '')'')
     @ '' +'' @ int_str (file_additions f) @ ''/-'' @ int_str (file_deletions f)"

definition diff_block :: "PullRequestFileRecord \<Rightarrow> string" where
  "diff_block f = (if file_patch f = [] then file_header f else file_header f @ [CHR 0x0A] @ file_patch f)"

definition diff_truncated :: "nat \<Rightarrow> string" where
  "diff_truncated n = ellipsis @ '' diff truncated ('' @ nat_str n @ '' files total).''"

text \<open>The loop over the files with the characters taken so far; \<open>n\<close> is the number of all files.\<close>

fun diff_parts :: "nat \<Rightarrow> nat \<Rightarrow> PullRequestFileRecord list \<Rightarrow> string list" where
  "diff_parts n taken [] = []"
| "diff_parts n taken (f # fs) =
     (if taken + length (diff_block f) > MAX_DIFF_CHARS then [diff_truncated n]
      else diff_block f # diff_parts n (taken + length (diff_block f)) fs)"

definition buildAiReviewDiff :: "PullRequestFileRecord list \<Rightarrow> string" where
  "buildAiReviewDiff files = join [CHR 0x0A, CHR 0x0A] (diff_parts (length files) 0 files)"

text \<open>
  The files are the ones already loaded, else the stored ones, which \<open>None\<close> says could not be read.
\<close>

definition maybeAddSecretLeakFinding ::
    "string option \<Rightarrow> string option \<Rightarrow> string \<Rightarrow> PullRequestFileRecord list option \<Rightarrow> PullRequestFileRecord list option
     \<Rightarrow> Advisory \<Rightarrow> Advisory" where
  "maybeAddSecretLeakFinding GITTENSORY_REVIEW_SAFETY GITTENSORY_REVIEW_REPOS repoFullName loaded stored adv =
     (if \<not> (isSafetyEnabled GITTENSORY_REVIEW_SAFETY \<and> isConvergenceRepoAllowed GITTENSORY_REVIEW_REPOS repoFullName) then adv
      else
        (case (if loaded = None then stored else loaded) of
           None \<Rightarrow> adv
         | Some files \<Rightarrow>
             (case secretLeakFinding (buildAiReviewDiff files) of
                None \<Rightarrow> adv
              | Some found \<Rightarrow> adv\<lparr>adv_findings := adv_findings adv @ [found]\<rparr>)))"

section \<open>What the diff contains\<close>

lemma join_split:
  "\<exists>pre post. join sep (xs @ y # ys) = pre @ y @ post \<and> (post = [] \<or> (\<exists>z. post = sep @ z))"
proof (induction xs)
  case Nil
  show ?case by (cases ys) (auto intro: exI [of _ "[]"])
next
  case (Cons x xs)
  then obtain pre post where "join sep (xs @ y # ys) = pre @ y @ post" "post = [] \<or> (\<exists>z. post = sep @ z)" by blast
  moreover have "join sep ((x # xs) @ y # ys) = x @ sep @ join sep (xs @ y # ys)" by (cases xs) auto
  ultimately show ?case by (intro exI [of _ "x @ sep @ pre"] exI [of _ post]) auto
qed

lemma diff_parts_within:
  "taken + sum_list (map (\<lambda>g. length (diff_block g)) (fs @ [f])) \<le> MAX_DIFF_CHARS \<Longrightarrow>
     \<exists>rest. diff_parts n taken (fs @ f # gs) = map diff_block fs @ diff_block f # rest"
proof (induction fs arbitrary: taken)
  case (Cons g fs)
  then have "taken + length (diff_block g) + sum_list (map (\<lambda>g. length (diff_block g)) (fs @ [f])) \<le> MAX_DIFF_CHARS" by simp
  from Cons.IH [OF this] Cons.prems show ?case by auto
qed simp

lemma patch_in_diff:
  assumes "sum_list (map (\<lambda>g. length (diff_block g)) (fs @ [f])) \<le> MAX_DIFF_CHARS" and "file_patch f \<noteq> []"
  shows "\<exists>pre post. buildAiReviewDiff (fs @ f # gs) = pre @ [CHR 0x0A] @ file_patch f @ post \<and> \<not> is_word post"
proof -
  obtain rest where "diff_parts (length (fs @ f # gs)) 0 (fs @ f # gs) = map diff_block fs @ diff_block f # rest"
    using diff_parts_within [of 0 fs f "length (fs @ f # gs)" gs] assms(1) by auto
  moreover obtain pre post where "join [CHR 0x0A, CHR 0x0A] (map diff_block fs @ diff_block f # rest) = pre @ diff_block f @ post"
    "post = [] \<or> (\<exists>z. post = [CHR 0x0A, CHR 0x0A] @ z)"
    using join_split by metis
  ultimately show ?thesis using assms(2)
    by (intro exI [of _ "pre @ file_header f"] exI [of _ post])
      (auto simp: buildAiReviewDiff_def diff_block_def is_word_def class_match_def word_items_def)
qed

section \<open>Properties\<close>

text \<open>
  C19: a committed token stops the pull request. With the safety scan on for the repository, when the
  patch of some file adds a GitHub token, and that file and the ones listed before it fit in the
  bounded diff, the advisory gains the secret finding, and with no finding that stops the evaluation
  the gate fails every author who is neither unconfirmed nor granted grace, whatever else the
  policy of the repository says.
\<close>

theorem committed_secret_stops_pull_request:
  assumes on: "isSafetyEnabled safety" "isConvergenceRepoAllowed repos repo"
    and fits: "sum_list (map (\<lambda>g. length (diff_block g)) (fs @ [f])) \<le> 60000"
    and patch: "file_patch f = before @ ''gh'' @ [kind] @ ''_'' @ body @ after"
    and token: "\<not> is_word (rev before)" "\<not> is_word after" "kind \<in> set ''pousr''" "20 \<le> length body"
      "list_all (class_match [Between CHR ''A'' CHR ''Z'', Between CHR ''a'' CHR ''z'', Between CHR ''0'' CHR ''9'']) body"
    and open_gate: "list_all (\<lambda>g. \<not> isEvaluationBlocker (f_code g)) (adv_findings adv)"
      "confirmedContributor p \<noteq> Some False" "\<not> graceApplies p"
  shows "ge_conclusion (evaluateGateCheck (maybeAddSecretLeakFinding safety repos repo (Some (fs @ f # gs)) stored adv) p) = gc_failure"
proof -
  obtain pre post where diff: "buildAiReviewDiff (fs @ f # gs) = pre @ [CHR 0x0A] @ file_patch f @ post" "\<not> is_word post"
    using patch_in_diff [of fs f gs] fits patch by (auto simp: MAX_DIFF_CHARS_def)
  have "\<not> is_word (rev (pre @ [CHR 0x0A] @ before))" using token(1)
    by (cases "rev before") (simp_all add: is_word_def class_match_def word_items_def)
  moreover have "\<not> is_word (after @ post)" using token(2) diff(2) by (cases after) (simp_all add: is_word_def)
  ultimately have "''github_token'' \<in> set (snd (scanForSecrets (buildAiReviewDiff (fs @ f # gs))))"
    using github_token_found [OF _ _ token(3-5), of "pre @ [CHR 0x0A] @ before" "after @ post"] by (simp add: diff(1) patch)
  then have "secretLeakFinding (buildAiReviewDiff (fs @ f # gs)) \<noteq> None"
    by (auto simp: secretLeakFinding_def HARD_SECRET_KINDS_def Let_def filter_empty_conv)
  then obtain found where found: "secretLeakFinding (buildAiReviewDiff (fs @ f # gs)) = Some found" by blast
  have "\<not> isEvaluationBlocker (f_code found)"
    by (simp add: secret_finding_code [OF found] isEvaluationBlocker_def)
  then have clear: "\<nexists>g. g \<in> set (adv_findings (adv\<lparr>adv_findings := adv_findings adv @ [found]\<rparr>)) \<and> isEvaluationBlocker (f_code g)"
    using open_gate(1) by (auto simp: list_all_iff)
  have "ge_conclusion (evaluateGateCheck (adv\<lparr>adv_findings := adv_findings adv @ [found]\<rparr>) p) = gc_failure"
    using secret_leak_conclusion [OF _ secret_finding_code [OF found] clear, of p] open_gate(2,3) by simp
  then show ?thesis by (simp add: maybeAddSecretLeakFinding_def on found)
qed

text \<open>A pull request of one file that adds a token.\<close>

definition leaking_file :: PullRequestFileRecord where
  "leaking_file = \<lparr>file_repoFullName = ''o/r'', file_pullNumber = 7, file_path = ''deploy.sh'', file_status = Some ''modified'',
     file_additions = 1, file_deletions = 0, file_changes = 1, file_previousFilename = None,
     file_payload = [(''patch'', JString (''+t='' @ ''gh'' @ ''p'' @ ''_'' @ replicate 36 CHR ''a''))]\<rparr>"

lemma leaking_file_fits: "length (diff_block leaking_file) \<le> 60000"
proof -
  have "int_str 1 = ''1''" "int_str 0 = ''0''" by code_simp+
  then show ?thesis by (simp add: diff_block_def file_patch_def file_header_def leaking_file_def jget_def)
qed

lemma leaking_patch: "file_patch leaking_file = ''+t='' @ ''gh'' @ [CHR ''p''] @ ''_'' @ replicate 36 CHR ''a'' @ []"
  by (simp add: file_patch_def leaking_file_def jget_def)

theorem committed_secret_stops_pull_request_witness:
  "ge_conclusion (evaluateGateCheck (maybeAddSecretLeakFinding (Some ''on'') (Some ''x/y, O/R'') ''o/r'' (Some [leaking_file]) None
     (advisory ''u'' ''now'' Target_pull_request ''o/r#7'' ''o/r'' [] ''none'' (Some 7) None (Some ''a''))) (empty_policy\<lparr>confirmedContributor := Some True\<rparr>)) = gc_failure"
proof -
  have on: "isSafetyEnabled (Some ''on'')" "isConvergenceRepoAllowed (Some ''x/y, O/R'') ''o/r''" by code_simp+
  have "\<not> graceApplies (empty_policy\<lparr>confirmedContributor := Some True\<rparr>)" by code_simp
  moreover have "adv_findings (advisory ''u'' ''now'' Target_pull_request ''o/r#7'' ''o/r'' [] ''none'' (Some 7) None (Some ''a'')) = []"
    by (simp add: advisory_def Let_def)
  ultimately show ?thesis
    using committed_secret_stops_pull_request [OF on, of "[]" leaking_file "''+t=''" "CHR ''p''" "replicate 36 CHR ''a''" "[]"
        "advisory ''u'' ''now'' Target_pull_request ''o/r#7'' ''o/r'' [] ''none'' (Some 7) None (Some ''a'')"
        "empty_policy\<lparr>confirmedContributor := Some True\<rparr>" "[]" None] leaking_file_fits leaking_patch
    by (simp add: is_word_def class_match_def word_items_def list_all_iff)
qed

text \<open>One file beyond the bound, and nothing of the pull request is scanned.\<close>

theorem oversized_file_is_not_scanned:
  assumes "60000 < length (diff_block f)"
  shows "maybeAddSecretLeakFinding safety repos repo (Some [f]) stored adv = adv"
proof -
  have "secretLeakFinding (diff_truncated 1) = None" by code_simp
  then show ?thesis using assms by (simp add: maybeAddSecretLeakFinding_def buildAiReviewDiff_def MAX_DIFF_CHARS_def)
qed

end
