(* ===== verification/Retention.thy ===== *)
theory Retention
  imports Domain Js_Regex "HOL-Library.Sublist"
begin

text \<open>
  The daily data retention, \<open>src/db/retention.ts\<close>: the policy and the batched deletion of expired rows.
  A table is the list of the timestamps of its rows in the order the subselect scans them; a negative
  \<open>LIMIT\<close> is no limit, as in SQLite. The loop is a \<open>partial_function\<close> into \<open>option\<close>: \<open>None\<close> is a run that
  never returns, so that its return is a theorem and not an assumption.
\<close>

record RetentionRule =
  rr_table :: string
  rr_column :: string
  rr_days :: int

definition retention_rule :: "string \<Rightarrow> string \<Rightarrow> int \<Rightarrow> RetentionRule" where
  "retention_rule table column days = \<lparr>rr_table = table, rr_column = column, rr_days = days\<rparr>"

definition RETENTION_POLICY :: "RetentionRule list" where
  "RETENTION_POLICY =
     [retention_rule ''audit_events'' ''created_at'' 90, retention_rule ''ai_usage_events'' ''created_at'' 90,
      retention_rule ''product_usage_events'' ''occurred_at'' 180, retention_rule ''github_rate_limit_observations'' ''observed_at'' 30,
      retention_rule ''signal_snapshots'' ''generated_at'' 90, retention_rule ''score_previews'' ''generated_at'' 90,
      retention_rule ''repo_snapshots'' ''fetched_at'' 90]"

record PruneResult =
  pr_table :: string
  pr_column :: string
  pr_cutoff :: string
  pr_deleted :: nat

definition BATCH_SIZE :: int where "BATCH_SIZE = 1000"
definition MAX_DELETED_PER_TABLE :: int where "MAX_DELETED_PER_TABLE = 50000"
definition MS_PER_DAY :: int where "MS_PER_DAY = 86400000"

definition safe_identifier :: "string \<Rightarrow> bool" where
  "safe_identifier s \<longleftrightarrow> s \<noteq> [] \<and> list_all (class_match [Between CHR ''a'' CHR ''z'', One CHR ''_'']) s"

definition cutoffIso :: "(int \<Rightarrow> string) \<Rightarrow> int \<Rightarrow> int \<Rightarrow> string" where
  "cutoffIso toISOString days nowMs = toISOString (nowMs - days * MS_PER_DAY)"

text \<open>\<open>column < ?1\<close> on ISO timestamps, and the first \<open>k\<close> rows of which it holds.\<close>

definition expired :: "string \<Rightarrow> string \<Rightarrow> bool" where
  "expired cutoff stamp \<longleftrightarrow> \<not> str_le cutoff stamp"

fun delete_first :: "nat \<Rightarrow> string \<Rightarrow> string list \<Rightarrow> string list" where
  "delete_first k cutoff [] = []"
| "delete_first k cutoff (r # rows) =
     (if 0 < k \<and> expired cutoff r then delete_first (k - 1) cutoff rows else r # delete_first k cutoff rows)"

definition delete_batch :: "string \<Rightarrow> int \<Rightarrow> string list \<Rightarrow> string list" where
  "delete_batch cutoff batchSize rows = delete_first (if batchSize < 0 then length rows else nat batchSize) cutoff rows"

partial_function (option) prune_loop :: "string \<Rightarrow> int \<Rightarrow> int \<Rightarrow> nat \<Rightarrow> string list \<Rightarrow> (nat \<times> string list) option" where
  "prune_loop cutoff batchSize maxPerTable deleted rows =
     (let rows' = delete_batch cutoff batchSize rows;
          changes = length rows - length rows';
          deleted' = deleted + changes
      in if int changes < batchSize \<or> int deleted' \<ge> maxPerTable then Some (deleted', rows')
         else prune_loop cutoff batchSize maxPerTable deleted' rows')"

text \<open>One rule, dry or real, on the database of all tables.\<close>

definition prune_table ::
    "(int \<Rightarrow> string) \<Rightarrow> bool \<Rightarrow> int \<Rightarrow> int \<Rightarrow> int \<Rightarrow> RetentionRule \<Rightarrow> (string \<Rightarrow> string list) \<Rightarrow>
      (PruneResult \<times> (string \<Rightarrow> string list)) option" where
  "prune_table toISOString dryRun nowMs batchSize maxPerTable rule db =
     (let cutoff = cutoffIso toISOString (rr_days rule) nowMs;
          rows = db (rr_table rule);
          outcome = (\<lambda>n. \<lparr>pr_table = rr_table rule, pr_column = rr_column rule, pr_cutoff = cutoff, pr_deleted = n\<rparr>)
      in if dryRun then Some (outcome (length (filter (expired cutoff) rows)), db)
         else
           (case prune_loop cutoff batchSize maxPerTable 0 rows of
              None \<Rightarrow> None
            | Some (n, left) \<Rightarrow> Some (outcome n, db(rr_table rule := left))))"

text \<open>The run over the policy: \<open>Inl\<close> is the error thrown for an unsafe name.\<close>

fun prune_rules ::
    "(int \<Rightarrow> string) \<Rightarrow> bool \<Rightarrow> int \<Rightarrow> int \<Rightarrow> int \<Rightarrow> RetentionRule list \<Rightarrow> (string \<Rightarrow> string list) \<Rightarrow>
      ((string + PruneResult list) \<times> (string \<Rightarrow> string list)) option" where
  "prune_rules toIso dryRun nowMs b m [] db = Some (Inr [], db)"
| "prune_rules toIso dryRun nowMs b m (rule # policy) db =
     (if \<not> safe_identifier (rr_table rule) \<or> \<not> safe_identifier (rr_column rule) then
        Some (Inl (''Unsafe retention identifier: '' @ rr_table rule @ ''.'' @ rr_column rule), db)
      else
        (case prune_table toIso dryRun nowMs b m rule db of
           None \<Rightarrow> None
         | Some (r, db1) \<Rightarrow>
             (case prune_rules toIso dryRun nowMs b m policy db1 of
                None \<Rightarrow> None
              | Some (Inl e, db2) \<Rightarrow> Some (Inl e, db2)
              | Some (Inr rs, db2) \<Rightarrow> Some (Inr (r # rs), db2))))"

definition pruneExpiredRecords ::
    "(int \<Rightarrow> string) \<Rightarrow> bool option \<Rightarrow> int \<Rightarrow> RetentionRule list option \<Rightarrow> int option \<Rightarrow> int option \<Rightarrow> (string \<Rightarrow> string list) \<Rightarrow>
      ((string + PruneResult list) \<times> (string \<Rightarrow> string list)) option" where
  "pruneExpiredRecords toISOString dryRun nowMs policy batchSize maxPerTable db =
     prune_rules toISOString (nullish dryRun False) nowMs (nullish batchSize BATCH_SIZE) (nullish maxPerTable MAX_DELETED_PER_TABLE)
       (nullish policy RETENTION_POLICY) db"

section \<open>One batch\<close>

lemma delete_first_subseq: "subseq (delete_first k cutoff rows) rows"
  by (induction k cutoff rows rule: delete_first.induct) auto

lemma delete_first_length:
  "length (delete_first k cutoff rows) + min k (length (filter (expired cutoff) rows)) = length rows"
  by (induction k cutoff rows rule: delete_first.induct) (auto simp: min_def split: if_splits)

lemma delete_first_recent:
  "filter (\<lambda>r. \<not> expired cutoff r) (delete_first k cutoff rows) = filter (\<lambda>r. \<not> expired cutoff r) rows"
  by (induction k cutoff rows rule: delete_first.induct) auto

lemma delete_first_all:
  "length (filter (expired cutoff) rows) \<le> k \<Longrightarrow> delete_first k cutoff rows = filter (\<lambda>r. \<not> expired cutoff r) rows"
  by (induction k cutoff rows rule: delete_first.induct) auto

section \<open>The loop\<close>

text \<open>What a run of the loop must have done to a table when it deleted \<open>n\<close> rows.\<close>

definition pruned :: "int \<Rightarrow> int \<Rightarrow> string \<Rightarrow> string list \<Rightarrow> nat \<Rightarrow> string list \<Rightarrow> bool" where
  "pruned b m cutoff before n after \<longleftrightarrow>
     subseq after before \<and> length after + n = length before
     \<and> filter (\<lambda>r. \<not> expired cutoff r) after = filter (\<lambda>r. \<not> expired cutoff r) before
     \<and> int n < max 1 m + b \<and> (int n < m \<longrightarrow> after = filter (\<lambda>r. \<not> expired cutoff r) before)"

lemma prune_loop_returns:
  assumes "0 < b" and "d = 0 \<or> int d < m"
  shows "\<exists>n left. prune_loop cutoff b m d rows = Some (d + n, left) \<and> subseq left rows \<and> length left + n = length rows
     \<and> filter (\<lambda>r. \<not> expired cutoff r) left = filter (\<lambda>r. \<not> expired cutoff r) rows
     \<and> int (d + n) < max 1 m + b \<and> (int (d + n) < m \<longrightarrow> left = filter (\<lambda>r. \<not> expired cutoff r) rows)"
  using assms(2)
proof (induction "length rows" arbitrary: d rows rule: less_induct)
  case less
  define rows' where "rows' = delete_batch cutoff b rows"
  define changes where "changes = length rows - length rows'"
  have batch: "rows' = delete_first (nat b) cutoff rows" using assms(1) by (simp add: rows'_def delete_batch_def)
  have len: "length rows' + min (nat b) (length (filter (expired cutoff) rows)) = length rows"
    unfolding batch by (rule delete_first_length)
  then have changes: "changes = min (nat b) (length (filter (expired cutoff) rows))" "length rows' + changes = length rows"
    by (simp_all add: changes_def)
  have sub: "subseq rows' rows" and recent: "filter (\<lambda>r. \<not> expired cutoff r) rows' = filter (\<lambda>r. \<not> expired cutoff r) rows"
    unfolding batch by (rule delete_first_subseq delete_first_recent)+
  have loop: "prune_loop cutoff b m d rows =
      (if int changes < b \<or> int (d + changes) \<ge> m then Some (d + changes, rows') else prune_loop cutoff b m (d + changes) rows')"
    by (subst prune_loop.simps) (simp add: Let_def rows'_def [symmetric] changes_def [symmetric])
  show ?case
  proof (cases "int changes < b \<or> int (d + changes) \<ge> m")
    case True
    have "int (d + changes) < max 1 m + b" using less.prems changes(1) assms(1) by auto
    moreover have "rows' = filter (\<lambda>r. \<not> expired cutoff r) rows" if "int (d + changes) < m"
    proof -
      have "int changes < b" using True that by auto
      then have "length (filter (expired cutoff) rows) \<le> nat b" using changes(1) by auto
      then show ?thesis unfolding batch by (rule delete_first_all)
    qed
    ultimately show ?thesis using True loop sub recent changes(2) by (intro exI [of _ changes] exI [of _ rows']) auto
  next
    case False
    then have "0 < changes" using assms(1) by auto
    then have "length rows' < length rows" using changes(2) by simp
    moreover have "d + changes = 0 \<or> int (d + changes) < m" using False by auto
    ultimately obtain n left where "prune_loop cutoff b m (d + changes) rows' = Some (d + changes + n, left)" "subseq left rows'"
      "length left + n = length rows'" "filter (\<lambda>r. \<not> expired cutoff r) left = filter (\<lambda>r. \<not> expired cutoff r) rows'"
      "int (d + changes + n) < max 1 m + b" "int (d + changes + n) < m \<longrightarrow> left = filter (\<lambda>r. \<not> expired cutoff r) rows'"
      using less.hyps [of rows' "d + changes"] by blast
    moreover have "subseq left rows" using \<open>subseq left rows'\<close> sub by (rule subseq_order.trans)
    ultimately show ?thesis using False loop recent changes(2)
      by (intro exI [of _ "changes + n"] exI [of _ left]) (auto simp: add.assoc)
  qed
qed

lemma prune_loop_pruned: "0 < b \<Longrightarrow> \<exists>n left. prune_loop cutoff b m 0 rows = Some (n, left) \<and> pruned b m cutoff rows n left"
  using prune_loop_returns [of b 0 m cutoff rows] by (auto simp: pruned_def)

text \<open>A batch size of zero never returns: nothing is deleted, and zero changes are no short batch.\<close>

lemma zero_batch_keeps: "delete_batch cutoff 0 rows = rows"
proof -
  have "delete_first 0 cutoff rows = rows" by (induction rows) auto
  then show ?thesis by (simp add: delete_batch_def)
qed

lemma zero_batch_never_returns: "int d < m \<Longrightarrow> prune_loop cutoff 0 m d rows = None"
proof -
  have "b = 0 \<longrightarrow> m \<le> int d" if "prune_loop c b m d rows = Some r" for c b m d rows r
  proof (rule prune_loop.raw_induct [where P = "\<lambda>c b m d rows r. b = 0 \<longrightarrow> m \<le> int d", OF _ that])
    fix loop :: "string \<Rightarrow> int \<Rightarrow> int \<Rightarrow> nat \<Rightarrow> string list \<Rightarrow> (nat \<times> string list) option" and c b m d rows r
    assume later: "\<And>c b m d rows r. loop c b m d rows = Some r \<Longrightarrow> b = 0 \<longrightarrow> m \<le> int d"
      and run: "(let rows' = delete_batch c b rows; changes = length rows - length rows'; deleted' = d + changes
        in if int changes < b \<or> int deleted' \<ge> m then Some (deleted', rows') else loop c b m deleted' rows') = Some r"
    show "b = 0 \<longrightarrow> m \<le> int d"
    proof
      assume "b = 0"
      with run have "m \<le> int d \<or> loop c b m d rows = Some r" by (auto simp: Let_def zero_batch_keeps split: if_splits)
      with later \<open>b = 0\<close> show "m \<le> int d" by blast
    qed
  qed
  then show "int d < m \<Longrightarrow> prune_loop cutoff 0 m d rows = None"
    by (cases "prune_loop cutoff 0 m d rows") fastforce+
qed

section \<open>The run\<close>

lemma prune_table_keeps_others: "prune_table toIso dryRun nowMs b m rule db = Some (r, db1) \<Longrightarrow> t \<noteq> rr_table rule \<Longrightarrow> db1 t = db t"
  by (auto simp: prune_table_def Let_def split: if_splits option.splits)

lemma prune_rules_returns:
  assumes "0 < b" and "distinct (map rr_table policy)"
    and "list_all (\<lambda>r. safe_identifier (rr_table r) \<and> safe_identifier (rr_column r)) policy"
  shows "\<exists>results db'. prune_rules toIso False nowMs b m policy db = Some (Inr results, db') \<and>
    list_all2 (\<lambda>rule r. pr_table r = rr_table rule \<and>
      pruned b m (cutoffIso toIso (rr_days rule) nowMs) (db (rr_table rule)) (pr_deleted r) (db' (rr_table rule))) policy results \<and>
    (\<forall>t. t \<in> rr_table ` set policy \<or> db' t = db t)"
  using assms(2,3)
proof (induction policy arbitrary: db)
  case (Cons rule policy)
  let ?cutoff = "cutoffIso toIso (rr_days rule) nowMs" and ?t = "rr_table rule"
  obtain n left where loop: "prune_loop ?cutoff b m 0 (db ?t) = Some (n, left)" "pruned b m ?cutoff (db ?t) n left"
    using prune_loop_pruned [OF assms(1)] by blast
  define db1 where "db1 = db(?t := left)"
  obtain results db' where rest: "prune_rules toIso False nowMs b m policy db1 = Some (Inr results, db')"
    "list_all2 (\<lambda>rule r. pr_table r = rr_table rule \<and>
      pruned b m (cutoffIso toIso (rr_days rule) nowMs) (db1 (rr_table rule)) (pr_deleted r) (db' (rr_table rule))) policy results"
    "\<forall>t. t \<in> rr_table ` set policy \<or> db' t = db1 t"
    using Cons.IH [of db1] Cons.prems by auto
  have "?t \<notin> rr_table ` set policy" using Cons.prems(1) by auto
  then have fresh: "rr_table z \<noteq> ?t" if "z \<in> set policy" for z using that by (metis imageI)
  have "db' ?t = left" using rest(3) \<open>?t \<notin> rr_table ` set policy\<close> by (auto simp: db1_def)
  moreover have "list_all2 (\<lambda>rule r. pr_table r = rr_table rule \<and>
      pruned b m (cutoffIso toIso (rr_days rule) nowMs) (db (rr_table rule)) (pr_deleted r) (db' (rr_table rule))) policy results"
    by (rule list.rel_mono_strong [OF rest(2)]) (simp add: db1_def fresh)
  moreover have "prune_rules toIso False nowMs b m (rule # policy) db =
      Some (Inr (\<lparr>pr_table = ?t, pr_column = rr_column rule, pr_cutoff = ?cutoff, pr_deleted = n\<rparr> # results), db')"
    using Cons.prems(2) loop(1) rest(1) by (simp add: prune_table_def Let_def db1_def)
  moreover have "\<forall>t. t \<in> rr_table ` set (rule # policy) \<or> db' t = db t" using rest(3) by (auto simp: db1_def split: if_splits)
  ultimately show ?case using loop(2) by simp
qed simp

text \<open>
  C20: the daily retention run returns, and deletes exactly what it should. Over the built-in policy and
  whatever the tables hold, every loop of batches ends; of each table no row inside its window is
  deleted and none is reordered, the reported number is the number of rows gone and below 51,000, and
  a table of which fewer than 50,000 rows were deleted has no expired row left; tables outside the
  policy are untouched. The policy includes \<open>signal_snapshots\<close>, the table in which
  \<open>persistRepoFocusManifest\<close> of \<open>signals/focus-manifest-loader.ts\<close> keeps the focus manifests, also those
  a maintainer stored: they go after 90 days like any other row, although the comment above the
  policy lists focus manifests among what is excluded.
\<close>

theorem retention_run_exact:
  "\<exists>results db'. pruneExpiredRecords toIso None nowMs None None None db = Some (Inr results, db') \<and>
    list_all2 (\<lambda>rule r. pr_table r = rr_table rule \<and>
      pruned 1000 50000 (cutoffIso toIso (rr_days rule) nowMs) (db (rr_table rule)) (pr_deleted r) (db' (rr_table rule)))
      RETENTION_POLICY results \<and>
    (\<forall>t. t \<in> rr_table ` set RETENTION_POLICY \<or> db' t = db t)"
proof -
  have "distinct (map rr_table RETENTION_POLICY)"
    "list_all (\<lambda>r. safe_identifier (rr_table r) \<and> safe_identifier (rr_column r)) RETENTION_POLICY"
    by code_simp+
  from prune_rules_returns [OF _ this, of 1000 toIso nowMs 50000 db] show ?thesis
    by (simp add: pruneExpiredRecords_def BATCH_SIZE_def MAX_DELETED_PER_TABLE_def)
qed

end
