(* ===== verification/Webhook_Intake.thy ===== *)
theory Webhook_Intake
  imports Crypto Store
begin

text \<open>
  The door of the program: \<open>src/github/webhook.ts\<close> accepts a delivery of GitHub and puts it on the
  queue, \<open>recordWebhookEvent\<close> and \<open>getWebhookEvent\<close> of \<open>src/db/repositories.ts\<close> remember it, and the
  consumer of \<open>src/index.ts\<close> acknowledges or retries it when \<open>processGitHubWebhook\<close> of
  \<open>src/queue/processors.ts\<close> has marked it. Web Crypto and \<open>JSON.parse\<close> are parameters; whether the
  queue takes a message and whether processing succeeds are arguments of the steps.
\<close>

section \<open>Requests, rows and messages\<close>

text \<open>What the handler reads of a parsed payload; the parsed value \<open>null\<close> is \<open>None\<close>.\<close>

record IntakePayload =
  ip_action :: "string option"
  ip_installationId :: "nat option"
  ip_repositoryFullName :: "string option"

record WebhookRequest =
  wq_deliveryId :: "string option"
  wq_eventName :: "string option"
  wq_signature :: "string option"
  wq_contentLength :: "string option"
  wq_body :: "byte list list option"

record 'key IntakeEnv =
  ie_lib :: "'key WebCrypto"
  ie_parse :: "string \<Rightarrow> unit + IntakePayload option"
  ie_secret :: string
  ie_maxBodyBytes :: "string option"

datatype WebhookStatus = wh_queued | wh_processed | wh_error

record WebhookEventRow =
  we_deliveryId :: string
  we_eventName :: string
  we_action :: "string option"
  we_installationId :: "nat option"
  we_repositoryFullName :: "string option"
  we_payloadHash :: string
  we_status :: WebhookStatus
  we_errorSummary :: "string option"
  we_receivedAt :: string
  we_processedAt :: "string option"

record WebhookMessage =
  wm_deliveryId :: string
  wm_eventName :: string
  wm_payload :: IntakePayload

record IntakeState =
  is_store :: Store
  is_events :: "WebhookEventRow list"
  is_queue :: "WebhookMessage list"

section \<open>The table of deliveries\<close>

definition getWebhookEvent :: "string \<Rightarrow> IntakeState \<Rightarrow> WebhookEventRow option" where
  "getWebhookEvent d st = List.find (\<lambda>r. we_deliveryId r = d) (is_events st)"

definition processed_at :: "WebhookStatus \<Rightarrow> Store \<Rightarrow> string option \<times> Store" where
  "processed_at status s = (if status = wh_queued then (None, s) else map_prod Some id (nowIso s))"

text \<open>The row of a first record, and its update on a conflict: a field whose new value is undefined is left alone.\<close>

definition event_row ::
    "string \<Rightarrow> string \<Rightarrow> IntakePayload \<Rightarrow> string \<Rightarrow> WebhookStatus \<Rightarrow> string option \<Rightarrow> string \<Rightarrow> string option \<Rightarrow> WebhookEventRow" where
  "event_row d e p digest status err received done_at =
     \<lparr>we_deliveryId = d, we_eventName = e, we_action = ip_action p, we_installationId = ip_installationId p,
      we_repositoryFullName = ip_repositoryFullName p, we_payloadHash = digest, we_status = status, we_errorSummary = err,
      we_receivedAt = received, we_processedAt = done_at\<rparr>"

definition update_event :: "WebhookStatus \<Rightarrow> string option \<Rightarrow> string option \<Rightarrow> WebhookEventRow \<Rightarrow> WebhookEventRow" where
  "update_event status err done_at r = r\<lparr>we_status := status, we_errorSummary := orElse err (we_errorSummary r),
     we_processedAt := orElse done_at (we_processedAt r)\<rparr>"

definition recordWebhookEvent ::
    "string \<Rightarrow> string \<Rightarrow> IntakePayload \<Rightarrow> string \<Rightarrow> WebhookStatus \<Rightarrow> string option \<Rightarrow> IntakeState \<Rightarrow> IntakeState" where
  "recordWebhookEvent d e p digest status err st =
     (let (received, s1) = nowIso (is_store st);
          (inserted, s2) = processed_at status s1;
          (updated, s3) = processed_at status s2
      in st\<lparr>is_store := s3,
            is_events := (if getWebhookEvent d st = None
              then is_events st @ [event_row d e p digest status err received inserted]
              else map (\<lambda>r. if we_deliveryId r = d then update_event status err updated r else r) (is_events st))\<rparr>)"

section \<open>The handler\<close>

definition DEFAULT_MAX_WEBHOOK_BODY_BYTES :: nat where "DEFAULT_MAX_WEBHOOK_BODY_BYTES = 1024 * 1024"

text \<open>
  \<open>Number.parseInt(value, 10)\<close> where it is finite and positive: white space, a sign, digits. From
  \<open>2^1024 - 2^970\<close> on the double is infinite.
\<close>

definition parsePositiveInt :: "string option \<Rightarrow> nat option" where
  "parsePositiveInt value =
     (let text = dropWhile is_ws (nullish value []);
          negative = startsWith text ''-'';
          digits = takeWhile (class_match digit_items) (if negative \<or> startsWith text ''+'' then tl text else text);
          n = decimal_value 0 digits
      in if digits = [] \<or> negative \<or> n = 0 \<or> 2 ^ 1024 - 2 ^ 970 \<le> n then None else Some n)"

fun read_chunks :: "nat \<Rightarrow> nat \<Rightarrow> byte list list \<Rightarrow> byte list option" where
  "read_chunks taken maxBytes [] = Some []"
| "read_chunks taken maxBytes (c # cs) =
     (if taken + length c > maxBytes then None
      else map_option (\<lambda>rest. c @ rest) (read_chunks (taken + length c) maxBytes cs))"

definition readBodyWithLimit :: "'key WebCrypto \<Rightarrow> byte list list option \<Rightarrow> nat \<Rightarrow> string option" where
  "readBodyWithLimit lib body maxBytes =
     (case body of
        None \<Rightarrow> Some []
      | Some chunks \<Rightarrow> map_option (text_decode (utf8_lossy lib)) (read_chunks 0 maxBytes chunks))"

text \<open>The answers with their codes; \<open>Unhandled\<close> is the exception that reading a field of \<open>null\<close> throws.\<close>

datatype IntakeReply =
    Missing_headers
  | Too_large nat
  | Invalid_signature
  | Invalid_json
  | Duplicate string string
  | Enqueue_failed string
  | Accepted string string
  | Unhandled

fun reply_code :: "IntakeReply \<Rightarrow> nat" where
  "reply_code Missing_headers = 400"
| "reply_code (Too_large n) = 413"
| "reply_code Invalid_signature = 401"
| "reply_code Invalid_json = 400"
| "reply_code (Duplicate d e) = 202"
| "reply_code (Enqueue_failed d) = 500"
| "reply_code (Accepted d e) = 202"
| "reply_code Unhandled = 500"

definition max_body :: "'key IntakeEnv \<Rightarrow> nat" where
  "max_body env = nullish (parsePositiveInt (ie_maxBodyBytes env)) DEFAULT_MAX_WEBHOOK_BODY_BYTES"

definition seen_before :: "string \<Rightarrow> WebhookEventRow option \<Rightarrow> bool" where
  "seen_before digest existing \<longleftrightarrow>
     (case existing of
        None \<Rightarrow> False
      | Some r \<Rightarrow> we_status r \<noteq> wh_error \<and> (we_status r = wh_processed \<or> we_payloadHash r = digest))"

text \<open>
  The handler awaits the database and the queue, and other handlers and consumers run while it waits.
  A phase is what it does next: look the delivery up, record it, send it, or record the failed send.
\<close>

datatype HandlerPhase =
    Received WebhookRequest
  | Recording string string IntakePayload string
  | Sending string string IntakePayload string
  | Reporting string string IntakePayload string
  | Replied IntakeReply

text \<open>From the headers to the duplicate guard: nothing before the lookup reads or writes what others see.\<close>

definition lookup_phase :: "'key IntakeEnv \<Rightarrow> WebhookRequest \<Rightarrow> IntakeState \<Rightarrow> HandlerPhase" where
  "lookup_phase env req st =
     (let d = nullish (wq_deliveryId req) []; e = nullish (wq_eventName req) []; maxBytes = max_body env
      in if d = [] \<or> e = [] then Replied Missing_headers
         else if (case parsePositiveInt (wq_contentLength req) of None \<Rightarrow> False | Some n \<Rightarrow> n > maxBytes)
         then Replied (Too_large maxBytes)
         else
           (case readBodyWithLimit (ie_lib env) (wq_body req) maxBytes of
              None \<Rightarrow> Replied (Too_large maxBytes)
            | Some rawBody \<Rightarrow>
                if \<not> verifyGitHubSignature (ie_lib env) rawBody (wq_signature req) (ie_secret env)
                then Replied Invalid_signature
                else
                  (case ie_parse env rawBody of
                     Inl _ \<Rightarrow> Replied Invalid_json
                   | Inr payload \<Rightarrow>
                       (let digest = sha256Hex (ie_lib env) rawBody
                        in if seen_before digest (getWebhookEvent d st) then Replied (Duplicate d e)
                           else
                             (case payload of
                                None \<Rightarrow> Replied Unhandled
                              | Some p \<Rightarrow> Recording d e p digest)))))"

text \<open>One phase of a handler; \<open>queueUp\<close> says whether \<open>JOBS.send\<close> succeeds.\<close>

fun handler_step :: "'key IntakeEnv \<Rightarrow> bool \<Rightarrow> HandlerPhase \<times> IntakeState \<Rightarrow> HandlerPhase \<times> IntakeState" where
  "handler_step env queueUp (Received req, st) = (lookup_phase env req st, st)"
| "handler_step env queueUp (Recording d e p digest, st) = (Sending d e p digest, recordWebhookEvent d e p digest wh_queued None st)"
| "handler_step env queueUp (Sending d e p digest, st) =
     (if queueUp
      then (Replied (Accepted d e), st\<lparr>is_queue := is_queue st @ [\<lparr>wm_deliveryId = d, wm_eventName = e, wm_payload = p\<rparr>]\<rparr>)
      else (Reporting d e p digest, st))"
| "handler_step env queueUp (Reporting d e p digest, st) =
     (Replied (Enqueue_failed d), recordWebhookEvent d e p digest wh_error None st)"
| "handler_step env queueUp (Replied reply, st) = (Replied reply, st)"

text \<open>The whole handler when nothing else runs while it waits: at most four phases.\<close>

definition handleGitHubWebhook :: "'key IntakeEnv \<Rightarrow> bool \<Rightarrow> WebhookRequest \<Rightarrow> IntakeState \<Rightarrow> IntakeReply \<times> IntakeState" where
  "handleGitHubWebhook env queueUp req st =
     (case (handler_step env queueUp ^^ 4) (Received req, st) of
        (Replied reply, st') \<Rightarrow> (reply, st')
      | (unfinished, st') \<Rightarrow> (Unhandled, st'))"

section \<open>The consumer\<close>

text \<open>
  A message that has been processed, with or without success, is marked; it is acknowledged after that
  when processing succeeded, and otherwise stays on the queue for a retry.
\<close>

definition consume :: "bool \<Rightarrow> string \<Rightarrow> WebhookMessage \<Rightarrow> IntakeState \<Rightarrow> IntakeState" where
  "consume succeeds err m st =
     recordWebhookEvent (wm_deliveryId m) (wm_eventName m) (wm_payload m) ''processed''
       (if succeeds then wh_processed else wh_error) (if succeeds then None else Some err) st"

section \<open>The table\<close>

lemma record_queue [simp]: "is_queue (recordWebhookEvent d e p digest status err st) = is_queue st"
  by (simp add: recordWebhookEvent_def split_beta Let_def)

lemma find_event_update:
  assumes "\<And>r. we_deliveryId (f r) = we_deliveryId r"
  shows "List.find (\<lambda>r. we_deliveryId r = d') (map f rows) = map_option f (List.find (\<lambda>r. we_deliveryId r = d') rows)"
  by (induction rows) (simp_all add: assms)

lemma find_at_end: "List.find P (xs @ [x]) = (case List.find P xs of None \<Rightarrow> if P x then Some x else None | Some y \<Rightarrow> Some y)"
  by (induction xs) simp_all

lemma getWebhookEvent_id: "getWebhookEvent d st = Some r \<Longrightarrow> we_deliveryId r = d"
  by (auto simp: getWebhookEvent_def find_Some_iff)

lemma getWebhookEvent_other [simp]: "getWebhookEvent d (st\<lparr>is_queue := q\<rparr>) = getWebhookEvent d st"
  by (simp add: getWebhookEvent_def)

lemma update_event_simps [simp]: "we_deliveryId (update_event status err t r) = we_deliveryId r"
  "we_status (update_event status err t r) = status" "we_payloadHash (update_event status err t r) = we_payloadHash r"
  "we_errorSummary (update_event status err t r) = orElse err (we_errorSummary r)"
  by (simp_all add: update_event_def)

text \<open>What is on record after a record: the key, the new status, and the hash that was there first.\<close>

lemma recorded_event:
  "\<exists>received inserted updated. getWebhookEvent d' (recordWebhookEvent d e p digest status err st) =
     (if d' = d
      then Some (case getWebhookEvent d st of None \<Rightarrow> event_row d e p digest status err received inserted
           | Some r \<Rightarrow> update_event status err updated r)
      else getWebhookEvent d' st)"
proof (cases "getWebhookEvent d st")
  case None
  then show ?thesis
    by (auto simp: recordWebhookEvent_def getWebhookEvent_def find_at_end event_row_def Let_def split_beta split: option.split)
next
  case (Some r)
  let ?updated = "fst (processed_at status (snd (processed_at status (snd (nowIso (is_store st))))))"
  define f where "f = (\<lambda>r. if we_deliveryId r = d then update_event status err ?updated r else r)"
  have "getWebhookEvent d' (recordWebhookEvent d e p digest status err st) = map_option f (getWebhookEvent d' st)"
    unfolding getWebhookEvent_def
    by (subst find_event_update [symmetric])
      (use Some in \<open>simp_all add: f_def recordWebhookEvent_def getWebhookEvent_def Let_def split_beta\<close>)
  moreover have "map_option f (getWebhookEvent d' st) = getWebhookEvent d' st" if "d' \<noteq> d"
    using that by (cases "getWebhookEvent d' st") (auto simp: f_def dest: getWebhookEvent_id)
  ultimately show ?thesis using Some getWebhookEvent_id [OF Some] by (auto simp: f_def)
qed

lemma recorded_other: "d' \<noteq> d \<Longrightarrow> getWebhookEvent d' (recordWebhookEvent d e p digest status err st) = getWebhookEvent d' st"
  using recorded_event [of d' d e p digest status err st] by simp

lemma recorded_self:
  obtains r where "getWebhookEvent d (recordWebhookEvent d e p digest status err st) = Some r" "we_status r = status"
    "we_payloadHash r = (case getWebhookEvent d st of None \<Rightarrow> digest | Some r \<Rightarrow> we_payloadHash r)"
    "we_errorSummary r = orElse err (case getWebhookEvent d st of None \<Rightarrow> None | Some r \<Rightarrow> we_errorSummary r)"
  using recorded_event [of d d e p digest status err st]
  by (cases "getWebhookEvent d st") (auto simp: event_row_def orElse_def split: option.splits)

section \<open>What the handler does\<close>

text \<open>The guards a request has passed when it is recorded.\<close>

definition passes :: "'key IntakeEnv \<Rightarrow> WebhookRequest \<Rightarrow> IntakeState \<Rightarrow> string \<Rightarrow> string \<Rightarrow> IntakePayload \<Rightarrow> string \<Rightarrow> bool" where
  "passes env req st d e p raw \<longleftrightarrow> wq_deliveryId req = Some d \<and> d \<noteq> [] \<and> wq_eventName req = Some e \<and> e \<noteq> [] \<and>
     (case parsePositiveInt (wq_contentLength req) of None \<Rightarrow> True | Some n \<Rightarrow> n \<le> max_body env) \<and>
     readBodyWithLimit (ie_lib env) (wq_body req) (max_body env) = Some raw \<and>
     verifyGitHubSignature (ie_lib env) raw (wq_signature req) (ie_secret env) \<and> ie_parse env raw = Inr (Some p) \<and>
     \<not> seen_before (sha256Hex (ie_lib env) raw) (getWebhookEvent d st)"

lemma lookup_records:
  "lookup_phase env req st = Recording d e p digest \<longleftrightarrow>
     (\<exists>raw. passes env req st d e p raw \<and> digest = sha256Hex (ie_lib env) raw)"
  by (cases "parsePositiveInt (wq_contentLength req)")
    (auto simp: passes_def lookup_phase_def Let_def nullish_def split: if_splits option.splits sum.splits)

lemma lookup_shape:
  "(\<exists>reply. lookup_phase env req st = Replied reply) \<or> (\<exists>d e p digest. lookup_phase env req st = Recording d e p digest)"
  by (cases "lookup_phase env req st") (auto simp: lookup_phase_def Let_def split: if_splits option.splits sum.splits)

lemma lookup_never_fails: "lookup_phase env req st \<noteq> Replied (Enqueue_failed d)"
  by (auto simp: lookup_phase_def Let_def split: option.splits sum.splits)

lemma replied_stays: "(handler_step env up ^^ n) (Replied reply, st) = (Replied reply, st)"
  by (induction n) simp_all

lemma four_phases: "(f ^^ 4) x = f (f (f (f x)))"
  by (simp add: eval_nat_numeral)

text \<open>A request that passes its guards is recorded and queued, or recorded as failed.\<close>

lemma passes_enqueues:
  assumes "passes env req st d e p raw"
  shows "handleGitHubWebhook env up req st =
    (let digest = sha256Hex (ie_lib env) raw; st1 = recordWebhookEvent d e p digest wh_queued None st
     in if up
        then (Accepted d e, st1\<lparr>is_queue := is_queue st1 @ [\<lparr>wm_deliveryId = d, wm_eventName = e, wm_payload = p\<rparr>]\<rparr>)
        else (Enqueue_failed d, recordWebhookEvent d e p digest wh_error None st1))"
  using assms lookup_records [of env req st d e p "sha256Hex (ie_lib env) raw"]
  by (auto simp: handleGitHubWebhook_def four_phases Let_def)

text \<open>Any other request is answered and leaves the state alone.\<close>

lemma rejected_untouched:
  assumes "\<nexists>d e p raw. passes env req st d e p raw"
  shows "snd (handleGitHubWebhook env up req st) = st"
  using assms lookup_shape [of env req st] by (auto simp: handleGitHubWebhook_def four_phases lookup_records)

section \<open>Authenticity\<close>

text \<open>The request carries the message, and its signature is the digest of its body under the secret.\<close>

definition carries :: "'key IntakeEnv \<Rightarrow> WebhookRequest \<Rightarrow> WebhookMessage \<Rightarrow> bool" where
  "carries env req m \<longleftrightarrow> wq_deliveryId req = Some (wm_deliveryId m) \<and> wm_deliveryId m \<noteq> [] \<and>
     wq_eventName req = Some (wm_eventName m) \<and> wm_eventName m \<noteq> [] \<and> ie_secret env \<noteq> [] \<and>
     (\<exists>raw digits. readBodyWithLimit (ie_lib env) (wq_body req) (max_body env) = Some raw \<and>
        ie_parse env raw = Inr (Some (wm_payload m)) \<and> wq_signature req = Some (''sha256='' @ digits) \<and>
        toLowerCase digits = bytes_hex (hmac_sha256 (ie_lib env) (text_encode (ie_secret env)) (text_encode raw)))"

text \<open>
  The state with the handlers in flight, by number. A step is one phase of one handler, a request that
  arrives, a handler that is lost (the database fails or the isolate is stopped), a message that is
  marked, or one that leaves the queue: acknowledged, or given up after its retries.
\<close>

type_synonym Handlers = "nat \<Rightarrow> HandlerPhase option"

inductive intake_step :: "'key IntakeEnv \<Rightarrow> Handlers \<times> IntakeState \<Rightarrow> Handlers \<times> IntakeState \<Rightarrow> bool" for env where
  arrive: "hs i = None \<Longrightarrow> intake_step env (hs, st) (hs(i \<mapsto> Received req), st)"
| phase: "hs i = Some h \<Longrightarrow> handler_step env queueUp (h, st) = (h', st') \<Longrightarrow> intake_step env (hs, st) (hs(i \<mapsto> h'), st')"
| lost: "intake_step env (hs, st) (hs(i := None), st)"
| handle_message: "m \<in> set (is_queue st) \<Longrightarrow> intake_step env (hs, st) (hs, consume succeeds err m st)"
| leave: "is_queue st = before @ m # after \<Longrightarrow> intake_step env (hs, st) (hs, st\<lparr>is_queue := before @ after\<rparr>)"

inductive intake_reach :: "'key IntakeEnv \<Rightarrow> Handlers \<times> IntakeState \<Rightarrow> bool" for env where
  start: "is_events st = [] \<Longrightarrow> is_queue st = [] \<Longrightarrow> intake_reach env (Map.empty, st)"
| step: "intake_reach env sy \<Longrightarrow> intake_step env sy sy' \<Longrightarrow> intake_reach env sy'"

inductive_cases intake_step_cases: "intake_step env (hs, st) sy'"

lemma consumed_queue [simp]: "is_queue (consume succeeds err m st) = is_queue st"
  by (simp add: consume_def)

text \<open>Each phase by itself, and a handler from its arrival to its reply.\<close>

lemma phase_of: "hs i = Some h \<Longrightarrow> intake_step env (hs, st) (hs(i \<mapsto> fst (handler_step env up (h, st))), snd (handler_step env up (h, st)))"
  by (rule intake_step.phase [where queueUp = up]) simp_all

lemma phases_reach:
  assumes "intake_reach env (hs, st)" "hs i = Some h"
  shows "intake_reach env (hs(i \<mapsto> fst ((handler_step env up ^^ n) (h, st))), snd ((handler_step env up ^^ n) (h, st)))"
proof (induction n)
  case 0
  then show ?case using assms by (simp add: fun_upd_idem)
next
  case (Suc n)
  obtain h' st' where here: "(handler_step env up ^^ n) (h, st) = (h', st')" by force
  from Suc have "intake_reach env (hs(i \<mapsto> h'), st')" unfolding here fst_conv snd_conv .
  from intake_reach.step [OF this phase_of [of _ i h' env st' up, OF fun_upd_same]] show ?case by (simp add: here del: fun_upd_apply)
qed

section \<open>A delivery\<close>

definition example_payload :: IntakePayload where
  "example_payload = \<lparr>ip_action = Some ''opened'', ip_installationId = Some 7, ip_repositoryFullName = Some ''o/r''\<rparr>"

definition example_env :: "byte list IntakeEnv" where
  "example_env = \<lparr>ie_lib = plain_crypto, ie_parse = (\<lambda>s. if s = ''{}'' then Inr (Some example_payload) else Inl ()),
     ie_secret = ''s'', ie_maxBodyBytes = None\<rparr>"

text \<open>The digest of the body \<open>{}\<close> under the secret \<open>s\<close> in the stand-in for Web Crypto.\<close>

definition example_request :: WebhookRequest where
  "example_request = \<lparr>wq_deliveryId = Some ''d1'', wq_eventName = Some ''pull_request'',
     wq_signature = Some (''sha256='' @ ''737b7d'' @ replicate 58 (CHR ''0'')), wq_contentLength = Some ''2'',
     wq_body = Some [[123, 125]]\<rparr>"

definition example_start :: IntakeState where
  "example_start = \<lparr>is_store = empty_store (\<lambda>_. []) (\<lambda>_. []), is_events = [], is_queue = []\<rparr>"

lemma example_decoded: "text_decode (utf8_lossy plain_crypto) [123, 125] = ''{}''"
  by code_simp

lemma example_max: "max_body example_env = 1048576"
  by (simp add: max_body_def example_env_def parsePositiveInt_def nullish_def DEFAULT_MAX_WEBHOOK_BODY_BYTES_def)

lemma example_read: "readBodyWithLimit plain_crypto (Some [[123, 125]]) (max_body example_env) = Some ''{}''"
  by (simp add: example_decoded example_max readBodyWithLimit_def)

lemma example_digits: "dropWhile is_ws ''2'' = ''2''" "takeWhile (class_match digit_items) ''2'' = ''2''"
  "decimal_value 0 ''2'' = 2" "startsWith ''2'' ''-'' \<or> startsWith ''2'' ''+'' \<longleftrightarrow> False"
  by code_simp+

lemma example_length: "parsePositiveInt (Some ''2'') = Some 2"
  using example_digits by (simp add: parsePositiveInt_def nullish_def Let_def)

lemma example_signed:
  "verifyGitHubSignature plain_crypto ''{}'' (Some (''sha256='' @ ''737b7d'' @ replicate 58 (CHR ''0''))) ''s''"
  by code_simp

lemma example_passes: "passes example_env example_request example_start ''d1'' ''pull_request'' example_payload ''{}''"
  using example_read example_length example_signed example_max
  by (simp add: passes_def example_request_def example_start_def getWebhookEvent_def seen_before_def) (simp add: example_env_def)

lemma example_accepted:
  "is_queue (snd (handleGitHubWebhook example_env True example_request example_start)) =
     [\<lparr>wm_deliveryId = ''d1'', wm_eventName = ''pull_request'', wm_payload = example_payload\<rparr>]"
  by (simp add: passes_enqueues [OF example_passes] Let_def) (simp add: example_start_def)

lemma plain_crypto_mac: "length (hmac_sha256 plain_crypto key bs) = 32"
  by (simp add: plain_crypto_def)

section \<open>Properties\<close>

text \<open>What a handler may go on to queue.\<close>

fun handler_message :: "HandlerPhase \<Rightarrow> WebhookMessage option" where
  "handler_message (Recording d e p digest) = Some \<lparr>wm_deliveryId = d, wm_eventName = e, wm_payload = p\<rparr>"
| "handler_message (Sending d e p digest) = Some \<lparr>wm_deliveryId = d, wm_eventName = e, wm_payload = p\<rparr>"
| "handler_message h = None"

lemma phase_message:
  assumes "\<And>key bs. length (hmac_sha256 (ie_lib env) key bs) = 32"
    and "handler_step env up (h, st) = (h', st')" "handler_message h' = Some m"
  shows "handler_message h = Some m \<or> (\<exists>req. carries env req m)"
proof (cases h)
  case (Received req)
  with assms(2) have "h' = lookup_phase env req st" by auto
  with assms(3) lookup_shape [of env req st] obtain d e p digest where h': "lookup_phase env req st = Recording d e p digest"
    "m = \<lparr>wm_deliveryId = d, wm_eventName = e, wm_payload = p\<rparr>" by auto
  then obtain raw where "passes env req st d e p raw" by (auto simp: lookup_records)
  then have "carries env req m" using webhook_signature_exact [OF assms(1)] by (auto simp: carries_def passes_def h'(2))
  then show ?thesis by blast
qed (use assms in \<open>auto split: if_splits\<close>)

lemma phase_queue:
  assumes "handler_step env up (h, st) = (h', st')" "m \<in> set (is_queue st')"
  shows "m \<in> set (is_queue st) \<or> handler_message h = Some m"
  using assms by (cases h) (auto split: if_splits)

lemma intake_authentic:
  assumes mac: "\<And>key bs. length (hmac_sha256 (ie_lib env) key bs) = 32" and "intake_reach env sy"
  shows "\<forall>m. m \<in> set (is_queue (snd sy)) \<or> (\<exists>i h. fst sy i = Some h \<and> handler_message h = Some m) \<longrightarrow> (\<exists>req. carries env req m)"
  using assms(2)
proof (induction rule: intake_reach.induct)
  case (step sy sy')
  from step.hyps(2) show ?case
  proof (cases rule: intake_step.cases)
    case (arrive hs i st req)
    then show ?thesis using step.IH by (auto split: if_splits)
  next
    case (phase hs i h up st h' st')
    have before: "\<exists>req. carries env req m" if "m \<in> set (is_queue st) \<or> handler_message h = Some m" for m
      using that step.IH phase(1,3) by (auto simp del: split_paired_Ex)
    then have "\<exists>req. carries env req m" if "m \<in> set (is_queue st') \<or> handler_message h' = Some m" for m
      using that phase_queue [OF phase(4)] phase_message [OF mac phase(4)] by blast
    then show ?thesis using step.IH phase(1,2) by (auto split: if_splits simp del: split_paired_Ex) blast
  next
    case (lost hs st i)
    then show ?thesis using step.IH by (auto split: if_splits)
  next
    case (handle_message m st hs succeeds err)
    then show ?thesis using step.IH by simp
  next
    case (leave st before m after hs)
    then show ?thesis using step.IH by (auto simp del: split_paired_Ex)
  qed
qed simp

text \<open>
  C6: only GitHub gets in. In every reachable state, whatever was sent to the endpoint, however the
  handlers and the consumer interleave and whatever of them fails, each message on the queue was
  carried by a request with a delivery id and an event name, whose body was within the limit and
  parsed to the payload of the message, and whose signature header was the keyed digest of that body
  under a secret that is not empty. The digest is of 32 bytes, as HMAC with SHA-256 is.
\<close>

theorem queued_messages_authentic:
  assumes "\<And>key bs. length (hmac_sha256 (ie_lib env) key bs) = 32"
    and "intake_reach env (hs, st)" and "m \<in> set (is_queue st)"
  shows "\<exists>req. carries env req m"
  using intake_authentic [OF assms(1,2)] assms(3) by simp

text \<open>A request handled without interruption from a reachable state leads to a reachable state.\<close>

lemma uninterrupted_reach:
  assumes "intake_reach env (hs, st)" "hs i = None"
    and "handleGitHubWebhook env up req st = (Accepted d e, st')"
  shows "intake_reach env (hs(i \<mapsto> Replied (Accepted d e)), st')"
proof -
  have "intake_reach env (hs(i \<mapsto> Received req), st)"
    using assms(1,2) by (blast intro: intake_reach.step intake_step.arrive)
  from phases_reach [OF this, of i "Received req" 4 up] show ?thesis
    using assms(3) by (simp add: handleGitHubWebhook_def split: prod.splits HandlerPhase.splits)
qed

theorem queued_messages_authentic_witness:
  "\<exists>req. carries example_env req \<lparr>wm_deliveryId = ''d1'', wm_eventName = ''pull_request'', wm_payload = example_payload\<rparr>"
proof -
  obtain st' where handled: "handleGitHubWebhook example_env True example_request example_start = (Accepted ''d1'' ''pull_request'', st')"
    using example_passes by (simp add: passes_enqueues Let_def)
  have "intake_reach example_env (Map.empty, example_start)"
    by (rule intake_reach.start) (simp_all add: example_start_def)
  from uninterrupted_reach [OF this _ handled, of 0]
  show ?thesis by (rule queued_messages_authentic [rotated]) (use example_accepted handled in simp_all, simp add: plain_crypto_mac example_env_def)
qed

text \<open>The delivery a handler is at work on.\<close>

fun delivery_of :: "HandlerPhase \<Rightarrow> string option" where
  "delivery_of (Received req) = Some (nullish (wq_deliveryId req) [])"
| "delivery_of (Recording d e p digest) = Some d"
| "delivery_of (Sending d e p digest) = Some d"
| "delivery_of (Reporting d e p digest) = Some d"
| "delivery_of (Replied reply) = None"

text \<open>
  Runs without failures, with the messages put on the queue so far: GitHub sends the same body under
  the same delivery id, no request arrives while another handler is at work on its delivery, the queue
  takes every message, and processing succeeds. Handlers of different deliveries and the consumer
  interleave at will.
\<close>

inductive smooth_run ::
    "'key IntakeEnv \<Rightarrow> (string \<Rightarrow> string) \<Rightarrow> Handlers \<Rightarrow> IntakeState \<Rightarrow> WebhookMessage list \<Rightarrow> bool" for env content where
  empty: "is_events st = [] \<Longrightarrow> is_queue st = [] \<Longrightarrow> smooth_run env content Map.empty st []"
| arrive: "smooth_run env content hs st sent \<Longrightarrow> hs i = None \<Longrightarrow>
    Some d = delivery_of (Received req) \<Longrightarrow> Some d \<notin> delivery_of ` ran hs \<Longrightarrow>
    readBodyWithLimit (ie_lib env) (wq_body req) (max_body env) \<in> {None, Some (content d)} \<Longrightarrow>
    smooth_run env content (hs(i \<mapsto> Received req)) st sent"
| phase: "smooth_run env content hs st sent \<Longrightarrow> hs i = Some h \<Longrightarrow> handler_step env True (h, st) = (h', st') \<Longrightarrow>
    smooth_run env content (hs(i \<mapsto> h')) st' (sent @ drop (length (is_queue st)) (is_queue st'))"
| processed: "smooth_run env content hs st sent \<Longrightarrow> m \<in> set (is_queue st) \<Longrightarrow>
    smooth_run env content hs (consume True err m st) sent"
| acknowledged: "smooth_run env content hs st sent \<Longrightarrow> is_queue st = before @ m # after \<Longrightarrow>
    smooth_run env content hs (st\<lparr>is_queue := before @ after\<rparr>) sent"

text \<open>What holds throughout: of each handler, of each delivery on record, and of any two handlers.\<close>

abbreviation ids :: "WebhookMessage list \<Rightarrow> string set" where
  "ids sent \<equiv> wm_deliveryId ` set sent"

fun phase_known :: "'key IntakeEnv \<Rightarrow> (string \<Rightarrow> string) \<Rightarrow> IntakeState \<Rightarrow> WebhookMessage list \<Rightarrow> HandlerPhase \<Rightarrow> bool" where
  "phase_known env content st sent (Received req) \<longleftrightarrow>
     readBodyWithLimit (ie_lib env) (wq_body req) (max_body env) \<in> {None, Some (content (nullish (wq_deliveryId req) []))}"
| "phase_known env content st sent (Recording d e p digest) \<longleftrightarrow>
     getWebhookEvent d st = None \<and> d \<notin> ids sent \<and> digest = sha256Hex (ie_lib env) (content d)"
| "phase_known env content st sent (Sending d e p digest) \<longleftrightarrow> getWebhookEvent d st \<noteq> None \<and> d \<notin> ids sent"
| "phase_known env content st sent (Reporting d e p digest) \<longleftrightarrow> False"
| "phase_known env content st sent (Replied reply) \<longleftrightarrow> True"

definition about_to_send :: "Handlers \<Rightarrow> string \<Rightarrow> bool" where
  "about_to_send hs d \<longleftrightarrow> (\<exists>i e p digest. hs i = Some (Sending d e p digest))"

definition event_known ::
    "'key IntakeEnv \<Rightarrow> (string \<Rightarrow> string) \<Rightarrow> Handlers \<Rightarrow> IntakeState \<Rightarrow> WebhookMessage list \<Rightarrow> string \<Rightarrow> bool" where
  "event_known env content hs st sent d \<longleftrightarrow>
     (case getWebhookEvent d st of None \<Rightarrow> d \<notin> ids sent
      | Some r \<Rightarrow> we_status r \<noteq> wh_error \<and> we_payloadHash r = sha256Hex (ie_lib env) (content d) \<and>
          (d \<in> ids sent \<or> about_to_send hs d))"

definition alone :: "Handlers \<Rightarrow> bool" where
  "alone hs \<longleftrightarrow> (\<forall>i j h k d. hs i = Some h \<longrightarrow> hs j = Some k \<longrightarrow> delivery_of h = Some d \<longrightarrow> delivery_of k = Some d \<longrightarrow> i = j)"

definition smooth_inv :: "'key IntakeEnv \<Rightarrow> (string \<Rightarrow> string) \<Rightarrow> Handlers \<Rightarrow> IntakeState \<Rightarrow> WebhookMessage list \<Rightarrow> bool" where
  "smooth_inv env content hs st sent \<longleftrightarrow> distinct (map wm_deliveryId sent) \<and> set (is_queue st) \<subseteq> set sent \<and> alone hs \<and>
     (\<forall>h \<in> ran hs. phase_known env content st sent h) \<and> (\<forall>d. event_known env content hs st sent d)"

lemma smooth_known: "smooth_inv env content hs st sent \<Longrightarrow> hs i = Some h \<Longrightarrow> phase_known env content st sent h"
  "smooth_inv env content hs st sent \<Longrightarrow> event_known env content hs st sent d"
  by (auto simp: smooth_inv_def ran_def)

lemma alone_upd: "alone hs \<Longrightarrow> hs i = Some h \<Longrightarrow> delivery_of h' \<in> {delivery_of h, None} \<Longrightarrow> alone (hs(i \<mapsto> h'))"
  unfolding alone_def by (simp, metis option.distinct(1) option.inject)

lemma still_to_send:
  "about_to_send hs d \<Longrightarrow> hs i = None \<or> hs i = Some h \<and> (\<forall>e p digest. h \<noteq> Sending d e p digest) \<Longrightarrow> about_to_send (hs(i \<mapsto> h')) d"
  unfolding about_to_send_def by (metis fun_upd_apply option.distinct(1) option.inject)

text \<open>Whether a record or a message of one delivery concerns a handler of another.\<close>

lemma phase_known_other:
  assumes "phase_known env content st sent h" "delivery_of h \<noteq> Some d"
    and "\<And>d'. d' \<noteq> d \<Longrightarrow> getWebhookEvent d' st' = getWebhookEvent d' st" "\<And>d'. d' \<noteq> d \<Longrightarrow> d' \<in> ids sent' \<longleftrightarrow> d' \<in> ids sent"
  shows "phase_known env content st' sent' h"
  using assms by (cases h) auto

lemma event_known_other:
  assumes "event_known env content hs st sent d'" "hs i = Some h" "delivery_of h \<noteq> Some d'"
    and "getWebhookEvent d' st' = getWebhookEvent d' st" "d' \<in> ids sent' \<longleftrightarrow> d' \<in> ids sent"
  shows "event_known env content (hs(i \<mapsto> h')) st' sent' d'"
proof -
  have "about_to_send hs d' \<Longrightarrow> about_to_send (hs(i \<mapsto> h')) d'"
    using assms(2,3) by (auto intro!: still_to_send)
  then show ?thesis using assms(1,4,5) by (auto simp: event_known_def split: option.splits)
qed

lemma smooth_phase:
  assumes inv: "smooth_inv env content hs st sent" and i: "hs i = Some h" and d: "delivery_of h = Some d"
    and h': "delivery_of h' \<in> {Some d, None}" "phase_known env content st' sent' h'"
    and sent': "distinct (map wm_deliveryId sent')" "set (is_queue st') \<subseteq> set sent'"
    and other: "\<And>d'. d' \<noteq> d \<Longrightarrow> getWebhookEvent d' st' = getWebhookEvent d' st" "\<And>d'. d' \<noteq> d \<Longrightarrow> d' \<in> ids sent' \<longleftrightarrow> d' \<in> ids sent"
    and self: "event_known env content (hs(i \<mapsto> h')) st' sent' d"
  shows "smooth_inv env content (hs(i \<mapsto> h')) st' sent'"
proof -
  have alone: "alone (hs(i \<mapsto> h'))" using inv i d h'(1) by (auto simp: smooth_inv_def intro: alone_upd)
  have "phase_known env content st' sent' k" if k: "(hs(i \<mapsto> h')) j = Some k" for j k
  proof (cases "j = i")
    case False
    then have "hs j = Some k" using k by simp
    moreover then have "delivery_of k \<noteq> Some d" using inv i d False by (auto simp: smooth_inv_def alone_def)
    ultimately show ?thesis using phase_known_other [OF smooth_known(1) [OF inv]] other by blast
  qed (use k h'(2) in simp)
  moreover have "event_known env content (hs(i \<mapsto> h')) st' sent' d'" for d'
    using self other i d by (cases "d' = d") (auto simp del: fun_upd_apply intro!: event_known_other smooth_known(2) [OF inv])
  ultimately show ?thesis using alone sent' by (auto simp: smooth_inv_def ran_def simp del: fun_upd_apply)
qed

lemma smooth_lookup:
  assumes inv: "smooth_inv env content hs st sent" and i: "hs i = Some (Received req)"
  shows "smooth_inv env content (hs(i \<mapsto> lookup_phase env req st)) st sent"
proof -
  let ?d = "nullish (wq_deliveryId req) []"
  have body: "readBodyWithLimit (ie_lib env) (wq_body req) (max_body env) \<in> {None, Some (content ?d)}"
    using smooth_known(1) [OF inv i] by simp
  have known: "event_known env content hs st sent x" for x using inv by (simp add: smooth_inv_def)
  have kept: "event_known env content (hs(i \<mapsto> h')) st sent x" for x h'
    using known [of x] still_to_send [of hs x i "Received req" h'] i by (auto simp: event_known_def split: option.splits)
  have "delivery_of (lookup_phase env req st) \<in> {Some ?d, None} \<and> phase_known env content st sent (lookup_phase env req st)"
  proof (cases "\<exists>d e p digest. lookup_phase env req st = Recording d e p digest")
    case True
    then obtain d e p digest where found: "lookup_phase env req st = Recording d e p digest" by blast
    then obtain raw where passed: "passes env req st d e p raw" "digest = sha256Hex (ie_lib env) raw" by (auto simp: lookup_records)
    then have raw: "?d = d" "raw = content d" "\<not> seen_before digest (getWebhookEvent d st)"
      using body by (auto simp: passes_def nullish_def)
    then have "getWebhookEvent d st = None"
      using known [of d] passed(2) by (cases "getWebhookEvent d st") (auto simp: event_known_def seen_before_def)
    then show ?thesis using found raw passed(2) known [of d] by (simp add: event_known_def)
  qed (use lookup_shape [of env req st] in auto)
  then show ?thesis
    by (intro smooth_phase [OF inv i]) (use inv kept in \<open>auto simp: smooth_inv_def simp del: fun_upd_apply\<close>)
qed

lemma smooth_record:
  assumes inv: "smooth_inv env content hs st sent" and i: "hs i = Some (Recording d e p digest)"
  shows "smooth_inv env content (hs(i \<mapsto> Sending d e p digest)) (recordWebhookEvent d e p digest wh_queued None st) sent"
proof -
  have known: "getWebhookEvent d st = None" "d \<notin> ids sent" "digest = sha256Hex (ie_lib env) (content d)"
    using smooth_known(1) [OF inv i] by simp_all
  obtain r where "getWebhookEvent d (recordWebhookEvent d e p digest wh_queued None st) = Some r" "we_status r = wh_queued"
    "we_payloadHash r = (case getWebhookEvent d st of None \<Rightarrow> digest | Some r \<Rightarrow> we_payloadHash r)"
    by (rule recorded_self)
  then show ?thesis
    by (intro smooth_phase [OF inv i]) (use inv known in \<open>auto simp: smooth_inv_def event_known_def about_to_send_def recorded_other\<close>)
qed

lemma smooth_send:
  assumes inv: "smooth_inv env content hs st sent" and i: "hs i = Some (Sending d e p digest)"
  shows "smooth_inv env content (hs(i \<mapsto> Replied (Accepted d e)))
    (st\<lparr>is_queue := is_queue st @ [\<lparr>wm_deliveryId = d, wm_eventName = e, wm_payload = p\<rparr>]\<rparr>)
    (sent @ [\<lparr>wm_deliveryId = d, wm_eventName = e, wm_payload = p\<rparr>])"
proof -
  have known: "getWebhookEvent d st \<noteq> None" "d \<notin> ids sent"
    using smooth_known(1) [OF inv i] by simp_all
  have "event_known env content hs st sent d" using inv by (simp add: smooth_inv_def)
  then show ?thesis
    by (intro smooth_phase [OF inv i]) (use inv known in \<open>auto simp: smooth_inv_def event_known_def split: option.splits\<close>)
qed

lemma smooth_mark:
  assumes inv: "smooth_inv env content hs st sent" and m: "m \<in> set (is_queue st)"
  shows "smooth_inv env content hs (consume True err m st) sent"
proof -
  let ?d = "wm_deliveryId m" and ?st = "consume True err m st"
  have sent: "?d \<in> ids sent" using inv m by (auto simp: smooth_inv_def)
  have known: "event_known env content hs st sent x" for x using inv by (simp add: smooth_inv_def)
  have other: "getWebhookEvent x ?st = getWebhookEvent x st" if "x \<noteq> ?d" for x
    using that by (simp add: consume_def recorded_other)
  obtain r where r: "getWebhookEvent ?d st = Some r"
    using known [of ?d] sent by (cases "getWebhookEvent ?d st") (auto simp: event_known_def)
  obtain r' where r': "getWebhookEvent ?d ?st = Some r'" "we_status r' = wh_processed" "we_payloadHash r' = we_payloadHash r"
    using recorded_self [of ?d "wm_eventName m" "wm_payload m" "''processed''" wh_processed None st] r
    by (auto simp: consume_def)
  have "event_known env content hs ?st sent x" for x
    using known [of x] other [of x] r r' sent by (cases "x = ?d") (auto simp: event_known_def)
  moreover have "phase_known env content ?st sent h" if "h \<in> ran hs" for h
  proof -
    have "phase_known env content st sent h" using inv that by (simp add: smooth_inv_def)
    then show ?thesis using other sent r' by (cases h) (simp_all, metis+)
  qed
  ultimately show ?thesis using inv by (simp add: smooth_inv_def)
qed

lemma smooth_on_record: "smooth_run env content hs st sent \<Longrightarrow> smooth_inv env content hs st sent"
proof (induction rule: smooth_run.induct)
  case (empty st)
  then show ?case by (simp add: smooth_inv_def event_known_def alone_def getWebhookEvent_def)
next
  case (arrive hs st sent i d req)
  have "alone (hs(i \<mapsto> Received req))"
    using arrive.IH arrive.hyps(3,4) unfolding smooth_inv_def alone_def by (auto simp: image_iff ran_def)
  moreover have "event_known env content (hs(i \<mapsto> Received req)) st sent x" for x
    using smooth_known(2) [OF arrive.IH, of x] still_to_send [of hs x i _ "Received req"] arrive.hyps(2)
    by (auto simp: event_known_def split: option.splits)
  ultimately show ?case using arrive by (auto simp: smooth_inv_def simp del: fun_upd_apply)
next
  case (phase hs st sent i h h' st')
  have idle: "smooth_inv env content (hs(i \<mapsto> h)) st sent" using phase by (simp add: fun_upd_idem)
  show ?case
  proof (cases h)
    case (Received req)
    then show ?thesis using phase smooth_lookup [OF phase.IH] by (auto simp del: fun_upd_apply)
  next
    case (Recording d e p digest)
    then show ?thesis using phase smooth_record [OF phase.IH] by (auto simp del: fun_upd_apply)
  next
    case (Sending d e p digest)
    then show ?thesis using phase smooth_send [OF phase.IH] by (auto simp del: fun_upd_apply)
  next
    case (Reporting d e p digest)
    then have "\<not> phase_known env content st sent h" by simp
    then show ?thesis using phase.IH phase.hyps(2) by (auto simp: smooth_inv_def intro: ranI)
  qed (use phase idle in \<open>auto simp del: fun_upd_apply\<close>)
next
  case (processed hs st sent m err)
  then show ?case by (blast intro: smooth_mark)
next
  case (acknowledged hs st sent before m after)
  moreover have "phase_known env content (st\<lparr>is_queue := q\<rparr>) sent h = phase_known env content st sent h" for q h by (cases h) simp_all
  ultimately show ?case by (auto simp: smooth_inv_def event_known_def)
qed

text \<open>
  C39: a delivery is taken once. In a run without failures, however often GitHub repeats its deliveries
  before, while and after they are processed, every delivery id goes on the queue at most once, and
  whatever is on the queue was put there in this run. Handlers of different deliveries and the
  consumer interleave at every await; a repeat is taken to arrive when no handler is at work on the
  same delivery; the next property shows that this is needed.
\<close>

theorem delivery_enqueued_once:
  assumes "smooth_run env content hs st sent"
  shows "distinct (map wm_deliveryId sent) \<and> set (is_queue st) \<subseteq> set sent"
  using smooth_on_record [OF assms] by (simp add: smooth_inv_def)

text \<open>A run of the example: the delivery arrives, is processed, arrives again, and is a duplicate.\<close>

lemma smooth_phase_of:
  "smooth_run env content hs st sent \<Longrightarrow> hs i = Some h \<Longrightarrow>
     smooth_run env content (hs(i \<mapsto> fst (handler_step env True (h, st)))) (snd (handler_step env True (h, st)))
       (sent @ drop (length (is_queue st)) (is_queue (snd (handler_step env True (h, st)))))"
  by (rule smooth_run.phase) simp_all

lemma smooth_accepted:
  assumes run: "smooth_run env content hs st sent" "hs i = Some (Received req)" and passed: "passes env req st d e p raw"
  defines "m \<equiv> \<lparr>wm_deliveryId = d, wm_eventName = e, wm_payload = p\<rparr>"
  shows "smooth_run env content (hs(i \<mapsto> Replied (Accepted d e)))
    ((recordWebhookEvent d e p (sha256Hex (ie_lib env) raw) wh_queued None st)\<lparr>is_queue := is_queue st @ [m]\<rparr>) (sent @ [m])"
proof -
  have "lookup_phase env req st = Recording d e p (sha256Hex (ie_lib env) raw)" using passed by (auto simp: lookup_records)
  with smooth_phase_of [OF run] have "smooth_run env content (hs(i \<mapsto> Recording d e p (sha256Hex (ie_lib env) raw))) st sent"
    by (simp del: fun_upd_apply)
  from smooth_phase_of [OF this, of i] have "smooth_run env content (hs(i \<mapsto> Sending d e p (sha256Hex (ie_lib env) raw)))
      (recordWebhookEvent d e p (sha256Hex (ie_lib env) raw) wh_queued None st) sent"
    by simp
  from smooth_phase_of [OF this, of i] show ?thesis by (simp add: m_def)
qed

lemma seen_is_duplicate:
  assumes "passes env req st d e p raw" "seen_before (sha256Hex (ie_lib env) raw) (getWebhookEvent d st')"
  shows "lookup_phase env req st' = Replied (Duplicate d e)"
  using assms by (cases "parsePositiveInt (wq_contentLength req)") (auto simp: passes_def lookup_phase_def Let_def nullish_def)

theorem delivery_enqueued_once_witness:
  "let m = \<lparr>wm_deliveryId = ''d1'', wm_eventName = ''pull_request'', wm_payload = example_payload\<rparr>
   in \<exists>hs st. smooth_run example_env (\<lambda>_. ''{}'') hs st [m] \<and> is_queue st = [m] \<and>
     hs 0 = Some (Replied (Accepted ''d1'' ''pull_request'')) \<and> hs 1 = Some (Replied (Duplicate ''d1'' ''pull_request'')) \<and>
     distinct (map wm_deliveryId [m]) \<and> set (is_queue st) \<subseteq> set [m]"
proof -
  let ?digest = "sha256Hex (ie_lib example_env) ''{}''" and ?content = "\<lambda>_::string. ''{}''"
  let ?m = "\<lparr>wm_deliveryId = ''d1'', wm_eventName = ''pull_request'', wm_payload = example_payload\<rparr>"
  let ?recorded = "recordWebhookEvent ''d1'' ''pull_request'' example_payload ?digest wh_queued None example_start"
  let ?queued = "?recorded\<lparr>is_queue := [?m]\<rparr>"
  let ?st = "consume True [] ?m ?queued"
  let ?hs = "Map.empty(0 := Some (Replied (Accepted ''d1'' ''pull_request'')))"
  have body: "readBodyWithLimit (ie_lib example_env) (wq_body example_request) (max_body example_env) \<in> {None, Some (?content ''d1'')}"
    using example_read by (simp add: example_env_def example_request_def)
  have id: "Some ''d1'' = delivery_of (Received example_request)" by (simp add: example_request_def nullish_def)
  have "smooth_run example_env ?content Map.empty example_start []" by (rule smooth_run.empty) (simp_all add: example_start_def)
  then have "smooth_run example_env ?content (Map.empty(0 \<mapsto> Received example_request)) example_start []"
    by (rule smooth_run.arrive [OF _ _ id _ body]) simp_all
  from smooth_accepted [OF this _ example_passes, of 0] have "smooth_run example_env ?content ?hs ?queued [?m]"
    by (simp add: example_start_def)
  then have "smooth_run example_env ?content ?hs ?st [?m]" by (rule smooth_run.processed) simp
  then have again: "smooth_run example_env ?content (?hs(1 \<mapsto> Received example_request)) ?st [?m]"
    by (rule smooth_run.arrive [OF _ _ id _ body]) (auto simp: ran_def)
  obtain r where r: "getWebhookEvent ''d1'' ?st = Some r" "we_status r = wh_processed"
    using recorded_self [of "''d1''" "''pull_request''" example_payload "''processed''" wh_processed None ?queued] by (auto simp: consume_def)
  then have "lookup_phase example_env example_request ?st = Replied (Duplicate ''d1'' ''pull_request'')"
    by (intro seen_is_duplicate [OF example_passes]) (simp add: seen_before_def)
  with smooth_phase_of [OF again, of 1 "Received example_request"]
  have run: "smooth_run example_env ?content (?hs(1 \<mapsto> Replied (Duplicate ''d1'' ''pull_request''))) ?st [?m]" by simp
  show ?thesis unfolding Let_def
    by (intro exI conjI, rule run) (use delivery_enqueued_once [OF run] in simp_all)
qed

text \<open>
  C40: a repeat that overlaps is queued again. When two handlers have received the same request, and
  the delivery passes the guards, there is an order of their phases, both lookups before the first
  record, in which both are answered as queued and the message goes on the queue twice, with nothing
  failing. The comment above the guard says that it suppresses the redelivery of one still in flight
  with the same payload.
\<close>

theorem overlapping_repeats_both_queued:
  assumes "intake_reach env (hs, st)" "hs i = Some (Received req)" "hs j = Some (Received req)" "i \<noteq> j"
    and "passes env req st d e p raw"
  shows "\<exists>hs' st'. intake_reach env (hs', st') \<and> hs' i = Some (Replied (Accepted d e)) \<and> hs' j = Some (Replied (Accepted d e)) \<and>
    is_queue st' = is_queue st @ replicate 2 \<lparr>wm_deliveryId = d, wm_eventName = e, wm_payload = p\<rparr>"
proof -
  let ?digest = "sha256Hex (ie_lib env) raw" and ?m = "\<lparr>wm_deliveryId = d, wm_eventName = e, wm_payload = p\<rparr>"
  have found: "lookup_phase env req st = Recording d e p ?digest" using assms(5) by (auto simp: lookup_records)
  let ?both = "hs(i \<mapsto> Recording d e p ?digest, j \<mapsto> Recording d e p ?digest)"
  have "intake_reach env (hs(i \<mapsto> Recording d e p ?digest), st)"
    using phases_reach [OF assms(1,2), of 1 True] found by simp
  from phases_reach [OF this, of j "Received req" 1 True] have both: "intake_reach env (?both, st)"
    using assms(3,4) found by simp
  let ?one = "(recordWebhookEvent d e p ?digest wh_queued None st)\<lparr>is_queue := is_queue st @ [?m]\<rparr>"
  from phases_reach [OF both, of i "Recording d e p ?digest" 2 True] assms(4)
  have "intake_reach env (?both(i \<mapsto> Replied (Accepted d e)), ?one)" by (simp add: eval_nat_numeral)
  from phases_reach [OF this, of j "Recording d e p ?digest" 2 True] assms(4)
  have "intake_reach env (?both(i \<mapsto> Replied (Accepted d e), j \<mapsto> Replied (Accepted d e)),
      (recordWebhookEvent d e p ?digest wh_queued None ?one)\<lparr>is_queue := is_queue ?one @ [?m]\<rparr>)" by (simp add: eval_nat_numeral)
  then show ?thesis using assms(4) by (intro exI conjI) (assumption, simp_all add: eval_nat_numeral)
qed

theorem overlapping_repeats_both_queued_witness:
  "\<exists>hs st. intake_reach example_env (hs, st) \<and>
     is_queue st = replicate 2 \<lparr>wm_deliveryId = ''d1'', wm_eventName = ''pull_request'', wm_payload = example_payload\<rparr>"
proof -
  let ?hs = "Map.empty(0 \<mapsto> Received example_request, 1 \<mapsto> Received example_request)"
  have "intake_reach example_env (Map.empty, example_start)" by (rule intake_reach.start) (simp_all add: example_start_def)
  then have "intake_reach example_env (Map.empty(0 \<mapsto> Received example_request), example_start)"
    by (rule intake_reach.step) (rule intake_step.arrive, simp)
  then have "intake_reach example_env (?hs, example_start)" by (rule intake_reach.step) (rule intake_step.arrive, simp)
  from overlapping_repeats_both_queued [OF this _ _ _ example_passes, of 0 1]
  show ?thesis by (auto simp: example_start_def)
qed

text \<open>
  A failure does not lose a delivery: after a failed enqueue the row is marked as an error, and the
  same request is accepted when it comes again.
\<close>

theorem failed_enqueue_is_redelivered:
  assumes "handleGitHubWebhook env False req st = (Enqueue_failed d, st')"
  shows "\<exists>e. fst (handleGitHubWebhook env True req st') = Accepted d e"
proof -
  have "\<exists>d e p raw. passes env req st d e p raw"
  proof (rule ccontr)
    assume "\<not> ?thesis"
    then obtain reply where "lookup_phase env req st = Replied reply" using lookup_shape [of env req st] by (auto simp: lookup_records)
    then show False using assms lookup_never_fails [of env req st d] by (simp add: handleGitHubWebhook_def four_phases)
  qed
  then obtain d' e p raw where passed: "passes env req st d' e p raw" by blast
  then have st': "st' = recordWebhookEvent d e p (sha256Hex (ie_lib env) raw) wh_error None
      (recordWebhookEvent d e p (sha256Hex (ie_lib env) raw) wh_queued None st)" and "d' = d"
    using assms by (auto simp: passes_enqueues Let_def)
  obtain r where "getWebhookEvent d st' = Some r" "we_status r = wh_error"
    unfolding st' by (rule recorded_self)
  then have "\<not> seen_before (sha256Hex (ie_lib env) raw) (getWebhookEvent d st')" by (simp add: seen_before_def)
  then have "passes env req st' d e p raw" using passed \<open>d' = d\<close> by (simp add: passes_def)
  then show ?thesis by (simp add: passes_enqueues Let_def)
qed

text \<open>
  When a delivery that is on record has been processed, the row keeps its hash, and it keeps the error
  of an attempt that failed before.
\<close>

theorem payload_hash_is_kept:
  assumes "getWebhookEvent d st = Some r"
  shows "\<exists>r'. getWebhookEvent d (recordWebhookEvent d e p ''processed'' wh_processed None st) = Some r' \<and>
    we_status r' = wh_processed \<and> we_payloadHash r' = we_payloadHash r \<and> we_errorSummary r' = we_errorSummary r"
proof -
  obtain r' where "getWebhookEvent d (recordWebhookEvent d e p ''processed'' wh_processed None st) = Some r'"
    "we_status r' = wh_processed"
    "we_payloadHash r' = (case getWebhookEvent d st of None \<Rightarrow> ''processed'' | Some r \<Rightarrow> we_payloadHash r)"
    "we_errorSummary r' = orElse None (case getWebhookEvent d st of None \<Rightarrow> None | Some r \<Rightarrow> we_errorSummary r)"
    by (rule recorded_self)
  then show ?thesis using assms by (simp add: orElse_def)
qed

end
